(* ===== verification/Prelude.thy ===== *)
theory Prelude
  imports Main "HOL-Library.AList" "HOL-Library.Sublist"
begin

text \<open>
  Shared vocabulary of the development. A Go function that returns \<open>(T, error)\<close> is a
  function into \<open>'e + 'a\<close>, with \<open>Inl\<close> for a non-nil error; \<open>bind_r\<close> is the
  \<open>if err != nil { return err }\<close> that follows a call, \<open>fail_if\<close> is a guard that returns
  an error, and \<open>checks\<close> runs a list of guards in the order of the source and returns the
  first error. The collection \<open>res_simps\<close> turns "this returned no error" into the
  conditions of the branch.
\<close>

named_theorems res_simps \<open>inversion of successful results\<close>

section \<open>Results\<close>

definition bind_r :: "'e + 'a \<Rightarrow> ('a \<Rightarrow> 'e + 'b) \<Rightarrow> 'e + 'b" where
  "bind_r r f = (case r of Inl e \<Rightarrow> Inl e | Inr x \<Rightarrow> f x)"

definition fail_if :: "bool \<Rightarrow> 'e \<Rightarrow> 'e + unit" where
  "fail_if b e = (if b then Inl e else Inr ())"

fun checks :: "('e + unit) list \<Rightarrow> 'e + unit" where
  "checks [] = Inr ()"
| "checks (x # xs) = (case x of Inl e \<Rightarrow> Inl e | Inr _ \<Rightarrow> checks xs)"

lemma bind_r_simps [simp]:
  "bind_r (Inl e) f = Inl e" "bind_r (Inr x) f = f x"
  by (simp_all add: bind_r_def)

lemma bind_r_Inr [res_simps]: "bind_r r f = Inr y \<longleftrightarrow> (\<exists>x. r = Inr x \<and> f x = Inr y)"
  by (cases r) auto

lemma bind_r_Inl [res_simps]:
  "bind_r r f = Inl e \<longleftrightarrow> r = Inl e \<or> (\<exists>x. r = Inr x \<and> f x = Inl e)"
  by (cases r) auto

lemma fail_if_simps [simp]: "fail_if True e = Inl e" "fail_if False e = Inr ()"
  by (simp_all add: fail_if_def)

lemma fail_if_Inr [simp]: "fail_if b e = Inr u \<longleftrightarrow> \<not> b"
  by (simp add: fail_if_def)

lemma fail_if_Inl [simp]: "fail_if b e = Inl e' \<longleftrightarrow> b \<and> e' = e"
  by (auto simp: fail_if_def)

lemma checks_Inr [simp]: "checks xs = Inr u \<longleftrightarrow> (\<forall>x \<in> set xs. x = Inr ())"
  by (induction xs) (auto split: sum.splits)

declare checks.simps [simp del]

lemma checks_append:
  "checks (xs @ ys) = (case checks xs of Inl e \<Rightarrow> Inl e | Inr _ \<Rightarrow> checks ys)"
proof (induction xs)
  case Nil
  show ?case by (simp add: checks.simps)
next
  case (Cons x xs)
  then show ?case by (cases x) (simp_all add: checks.simps)
qed

lemma checks_cases:
  obtains (ok) "checks xs = Inr ()" | (err) e where "checks xs = Inl e"
  by (cases "checks xs") auto

lemma not_Inl_iff_Inr: "(\<forall>e. r \<noteq> Inl e) \<longleftrightarrow> (\<exists>x. r = Inr x)"
  by (cases r) auto

text \<open>
  The errors of the packages that have no error type of their own: the format text of
  \<open>errors.New\<close> or \<open>fmt.Errorf\<close> and its string arguments.
\<close>

datatype go_error = Errorf string "string list"

abbreviation errors_New :: "string \<Rightarrow> go_error" where
  "errors_New m \<equiv> Errorf m []"

section \<open>Optional values\<close>

text \<open>A guard on a pointer that may be nil.\<close>

definition when_some :: "'a option \<Rightarrow> ('a \<Rightarrow> 'e + unit) \<Rightarrow> 'e + unit" where
  "when_some x f = (case x of None \<Rightarrow> Inr () | Some v \<Rightarrow> f v)"

lemma when_some_simps [simp]: "when_some None f = Inr ()" "when_some (Some v) f = f v"
  by (simp_all add: when_some_def)

lemma when_some_Inr [res_simps]:
  "when_some x f = Inr u \<longleftrightarrow> (\<forall>v. x = Some v \<longrightarrow> f v = Inr ())"
  by (cases x) auto

section \<open>Lists\<close>

text \<open>Go's \<open>len\<close>, an \<open>int\<close>.\<close>

abbreviation len :: "'a list \<Rightarrow> int" where
  "len xs \<equiv> int (length xs)"

text \<open>\<open>seen\<close>-map loops over a slice: the first element that was met before.\<close>

lemma last_filter_in_set: "filter P xs \<noteq> [] \<Longrightarrow> last (filter P xs) \<in> set xs \<and> P (last (filter P xs))"
  using last_in_set [of "filter P xs"] by auto

lemma butlast_drop_last_n: "length xs \<le> n \<Longrightarrow> drop (length xs - n) xs = xs"
  by simp

definition last_n :: "nat \<Rightarrow> 'a list \<Rightarrow> 'a list" where
  "last_n n xs = drop (length xs - n) xs"

lemma length_last_n [simp]: "length (last_n n xs) = min n (length xs)"
  by (simp add: last_n_def)

lemma set_last_n: "set (last_n n xs) \<subseteq> set xs"
  by (simp add: last_n_def set_drop_subset)

lemma last_n_id [simp]: "length xs \<le> n \<Longrightarrow> last_n n xs = xs"
  by (simp add: last_n_def)

lemma last_last_n: "xs \<noteq> [] \<Longrightarrow> 0 < n \<Longrightarrow> last (last_n n xs) = last xs"
  by (simp add: last_n_def)

lemma last_n_empty_iff: "last_n n xs = [] \<longleftrightarrow> xs = [] \<or> n = 0"
  by (cases xs) (auto simp: last_n_def)

lemma find_Some_in: "find P xs = Some x \<Longrightarrow> x \<in> set xs \<and> P x"
  by (induction xs) (auto split: if_splits)

lemma map_of_SomeI_distinct: "distinct (map fst xs) \<Longrightarrow> (k, v) \<in> set xs \<Longrightarrow> map_of xs k = Some v"
  by simp

section \<open>Two's complement\<close>

text \<open>
  Go's \<open>int\<close> is 64 bits wide on every platform the program ships for; \<open>wrap64\<close> is the
  value an arithmetic result takes.
\<close>

definition max_int64 :: int where "max_int64 = 2 ^ 63 - 1"

definition min_int64 :: int where "min_int64 = - (2 ^ 63)"

definition wrap64 :: "int \<Rightarrow> int" where
  "wrap64 n = (n + 2 ^ 63) mod 2 ^ 64 - 2 ^ 63"

lemma wrap64_id: "min_int64 \<le> n \<Longrightarrow> n \<le> max_int64 \<Longrightarrow> wrap64 n = n"
  by (simp add: wrap64_def min_int64_def max_int64_def)

lemma wrap64_range: "min_int64 \<le> wrap64 n \<and> wrap64 n \<le> max_int64"
proof -
  have "0 \<le> (n + 2 ^ 63) mod 2 ^ 64" "(n + 2 ^ 63) mod 2 ^ 64 < (2 ^ 64 :: int)"
    by simp_all
  then show ?thesis by (simp add: wrap64_def min_int64_def max_int64_def)
qed

lemma wrap64_succ_pos:
  assumes "min_int64 \<le> n" "n \<le> max_int64" "1 \<le> wrap64 (n + 1)"
  shows "wrap64 (n + 1) = n + 1"
proof (cases "n = max_int64")
  case True
  then show ?thesis using assms(3) by (simp add: wrap64_def max_int64_def)
next
  case False
  with assms show ?thesis by (intro wrap64_id) (auto simp: min_int64_def max_int64_def)
qed

end
