(* ===== verification/GoStrings.thy ===== *)
theory GoStrings
  imports Prelude "HOL-Library.Char_ord" "HOL-Library.List_Lexorder"
begin

text \<open>
  Go strings are byte sequences; here they are \<open>string\<close>, a list of 8-bit \<open>char\<close>s, so
  \<open>length\<close> is Go's \<open>len\<close> and the lexicographic order of \<open>List_Lexorder\<close> is Go's \<open><\<close> on
  strings. The theory holds the parts of the standard library the modelled packages call:
  character classes of the packages' regular expressions, \<open>strings.TrimSpace\<close>,
  \<open>strings.Split\<close>, \<open>path.Clean\<close>, UTF-8 validity, hexadecimal digests.
\<close>

section \<open>Character classes\<close>

definition byte_of :: "char \<Rightarrow> nat" where
  "byte_of c = of_char c"

definition is_lower :: "char \<Rightarrow> bool" where
  "is_lower c \<longleftrightarrow> 97 \<le> byte_of c \<and> byte_of c \<le> 122"

definition is_upper :: "char \<Rightarrow> bool" where
  "is_upper c \<longleftrightarrow> 65 \<le> byte_of c \<and> byte_of c \<le> 90"

definition is_digit :: "char \<Rightarrow> bool" where
  "is_digit c \<longleftrightarrow> 48 \<le> byte_of c \<and> byte_of c \<le> 57"

definition is_alnum :: "char \<Rightarrow> bool" where
  "is_alnum c \<longleftrightarrow> is_lower c \<or> is_upper c \<or> is_digit c"

definition is_lower_hex :: "char \<Rightarrow> bool" where
  "is_lower_hex c \<longleftrightarrow> is_digit c \<or> (97 \<le> byte_of c \<and> byte_of c \<le> 102)"

definition is_hex :: "char \<Rightarrow> bool" where
  "is_hex c \<longleftrightarrow> is_lower_hex c \<or> (65 \<le> byte_of c \<and> byte_of c \<le> 70)"

definition is_ascii :: "string \<Rightarrow> bool" where
  "is_ascii s \<longleftrightarrow> list_all (\<lambda>c. byte_of c < 128) s"

text \<open>Code equations over \<open>int\<close>, for the kernel's evaluation of concrete strings.\<close>

lemma int_byte_of: "int (byte_of c) = of_char c"
  by (simp add: byte_of_def of_nat_of_char)

lemma byte_of_bounds:
  "numeral n \<le> byte_of c \<longleftrightarrow> numeral n \<le> (of_char c :: int)"
  "byte_of c \<le> numeral n \<longleftrightarrow> (of_char c :: int) \<le> numeral n"
  "byte_of c < numeral n \<longleftrightarrow> (of_char c :: int) < numeral n"
  unfolding int_byte_of [symmetric] by simp_all

text \<open>The ranges as formulas over the eight bits, lowest first.\<close>

lemma char_class_code [code]:
  "is_lower (Char b0 b1 b2 b3 b4 b5 b6 b7) \<longleftrightarrow> \<not> b7 \<and> b6 \<and> b5
     \<and> (b0 \<or> b1 \<or> b2 \<or> b3 \<or> b4) \<and> \<not> (b4 \<and> b3 \<and> (b2 \<or> b1 \<and> b0))"
  "is_upper (Char b0 b1 b2 b3 b4 b5 b6 b7) \<longleftrightarrow> \<not> b7 \<and> b6 \<and> \<not> b5
     \<and> (b0 \<or> b1 \<or> b2 \<or> b3 \<or> b4) \<and> \<not> (b4 \<and> b3 \<and> (b2 \<or> b1 \<and> b0))"
  "is_digit (Char b0 b1 b2 b3 b4 b5 b6 b7) \<longleftrightarrow> \<not> b7 \<and> \<not> b6 \<and> b5 \<and> b4 \<and> \<not> (b3 \<and> (b2 \<or> b1))"
  by (cases b7; cases b6; cases b5; cases b4; cases b3; cases b2; cases b1; cases b0;
      simp add: is_lower_def is_upper_def is_digit_def byte_of_bounds of_char_Char)+

lemma hex_class_code [code]:
  "is_lower_hex (Char b0 b1 b2 b3 b4 b5 b6 b7) \<longleftrightarrow>
     is_digit (Char b0 b1 b2 b3 b4 b5 b6 b7)
     \<or> \<not> b7 \<and> b6 \<and> b5 \<and> \<not> b4 \<and> \<not> b3 \<and> (b2 \<or> b1 \<or> b0) \<and> \<not> (b2 \<and> b1 \<and> b0)"
  by (cases b7; cases b6; cases b5; cases b4; cases b3; cases b2; cases b1; cases b0;
      simp add: is_lower_hex_def is_digit_def byte_of_bounds of_char_Char)

definition low_byte :: "char \<Rightarrow> bool" where
  "low_byte c \<longleftrightarrow> byte_of c < 128"

lemma low_byte_code [code]: "low_byte (Char b0 b1 b2 b3 b4 b5 b6 b7) \<longleftrightarrow> \<not> b7"
  by (cases b7; cases b6; cases b5; cases b4; cases b3; cases b2; cases b1; cases b0;
      simp add: low_byte_def byte_of_bounds of_char_Char)

lemma is_hex_code [code]:
  "is_hex c \<longleftrightarrow> is_lower_hex c \<or> (let b = of_char c :: int in 65 \<le> b \<and> b \<le> 70)"
  "is_ascii s \<longleftrightarrow> list_all low_byte s"
  by (simp_all only: Let_def is_hex_def is_ascii_def low_byte_def [abs_def] byte_of_bounds)

text \<open>A regular expression \<open>^[F][C]{0,n}$\<close>: a first character and at most \<open>n\<close> more.\<close>

definition first_rest :: "(char \<Rightarrow> bool) \<Rightarrow> (char \<Rightarrow> bool) \<Rightarrow> nat \<Rightarrow> string \<Rightarrow> bool" where
  "first_rest F C n s = (case s of [] \<Rightarrow> False | c # cs \<Rightarrow> F c \<and> length cs \<le> n \<and> list_all C cs)"

definition to_lower :: "char \<Rightarrow> char" where
  "to_lower c = (if is_upper c then char_of (byte_of c + 32) else c)"

definition to_upper :: "char \<Rightarrow> char" where
  "to_upper c = (if is_lower c then char_of (byte_of c - 32) else c)"

lemma first_rest_not_Nil: "first_rest F C n s \<Longrightarrow> s \<noteq> []"
  by (auto simp: first_rest_def)

lemma first_rest_length: "first_rest F C n s \<Longrightarrow> length s \<le> Suc n"
  by (auto simp: first_rest_def split: list.splits)

lemma first_rest_chars:
  "first_rest F C n s \<Longrightarrow> (\<And>c. F c \<Longrightarrow> P c) \<Longrightarrow> (\<And>c. C c \<Longrightarrow> P c) \<Longrightarrow> list_all P s"
  by (auto simp: first_rest_def list_all_iff split: list.splits)

section \<open>Prefixes and searching\<close>

definition has_prefix :: "string \<Rightarrow> string \<Rightarrow> bool" where
  "has_prefix s p \<longleftrightarrow> take (length p) s = p"

definition has_suffix :: "string \<Rightarrow> string \<Rightarrow> bool" where
  "has_suffix s p \<longleftrightarrow> has_prefix (rev s) (rev p)"

definition trim_prefix :: "string \<Rightarrow> string \<Rightarrow> string" where
  "trim_prefix s p = (if has_prefix s p then drop (length p) s else s)"

definition trim_suffix :: "string \<Rightarrow> string \<Rightarrow> string" where
  "trim_suffix s p = (if has_suffix s p then take (length s - length p) s else s)"

fun contains_sub :: "string \<Rightarrow> string \<Rightarrow> bool" where
  "contains_sub [] p = (p = [])"
| "contains_sub (c # cs) p = (has_prefix (c # cs) p \<or> contains_sub cs p)"

lemma has_prefix_iff: "has_prefix s p \<longleftrightarrow> (\<exists>t. s = p @ t)"
proof
  assume "has_prefix s p"
  then have "s = p @ drop (length p) s"
    unfolding has_prefix_def by (metis append_take_drop_id)
  then show "\<exists>t. s = p @ t" by blast
qed (auto simp: has_prefix_def)

lemma has_prefix_append [simp]: "has_prefix (p @ t) p"
  by (simp add: has_prefix_def)

lemma has_prefix_trans: "has_prefix s p \<Longrightarrow> has_prefix p q \<Longrightarrow> has_prefix s q"
  by (auto simp: has_prefix_iff)

lemma has_suffix_iff: "has_suffix s p \<longleftrightarrow> (\<exists>t. s = t @ p)"
proof
  assume "has_suffix s p"
  then obtain t where "rev s = rev p @ t" by (auto simp: has_suffix_def has_prefix_iff)
  then have "rev (rev s) = rev (rev p @ t)" by simp
  then show "\<exists>t. s = t @ p" by auto
qed (auto simp: has_suffix_def)

section \<open>strings.TrimSpace\<close>

text \<open>The UTF-8 encodings of the runes for which \<open>unicode.IsSpace\<close> holds.\<close>

definition space_encodings :: "string list" where
  "space_encodings =
    [[CHR 0x09], [CHR 0x0A], [CHR 0x0B], [CHR 0x0C], [CHR 0x0D], [CHR 0x20],
     [CHR 0xC2, CHR 0x85], [CHR 0xC2, CHR 0xA0], [CHR 0xE1, CHR 0x9A, CHR 0x80],
     [CHR 0xE2, CHR 0x80, CHR 0x80], [CHR 0xE2, CHR 0x80, CHR 0x81],
     [CHR 0xE2, CHR 0x80, CHR 0x82], [CHR 0xE2, CHR 0x80, CHR 0x83],
     [CHR 0xE2, CHR 0x80, CHR 0x84], [CHR 0xE2, CHR 0x80, CHR 0x85],
     [CHR 0xE2, CHR 0x80, CHR 0x86], [CHR 0xE2, CHR 0x80, CHR 0x87],
     [CHR 0xE2, CHR 0x80, CHR 0x88], [CHR 0xE2, CHR 0x80, CHR 0x89],
     [CHR 0xE2, CHR 0x80, CHR 0x8A], [CHR 0xE2, CHR 0x80, CHR 0xA8],
     [CHR 0xE2, CHR 0x80, CHR 0xA9], [CHR 0xE2, CHR 0x80, CHR 0xAF],
     [CHR 0xE2, CHR 0x81, CHR 0x9F], [CHR 0xE3, CHR 0x80, CHR 0x80]]"

definition strip_one :: "string list \<Rightarrow> string \<Rightarrow> string option" where
  "strip_one encs s = map_option (\<lambda>p. drop (length p) s) (find (has_prefix s) encs)"

fun strip_all :: "string list \<Rightarrow> nat \<Rightarrow> string \<Rightarrow> string" where
  "strip_all encs 0 s = s"
| "strip_all encs (Suc n) s =
     (case strip_one encs s of None \<Rightarrow> s | Some t \<Rightarrow> strip_all encs n t)"

definition trim_left :: "string \<Rightarrow> string" where
  "trim_left s = strip_all space_encodings (length s) s"

definition trim_right :: "string \<Rightarrow> string" where
  "trim_right s = rev (strip_all (map rev space_encodings) (length s) (rev s))"

definition TrimSpace :: "string \<Rightarrow> string" where
  "TrimSpace s = trim_right (trim_left s)"

lemma strip_one_length:
  assumes "strip_one encs s = Some t" "[] \<notin> set encs"
  shows "length t < length s"
proof -
  from assms(1) obtain p where p: "find (has_prefix s) encs = Some p" "t = drop (length p) s"
    by (auto simp: strip_one_def)
  from find_Some_in [OF p(1)] assms(2) have "has_prefix s p" "p \<noteq> []" by auto
  then show ?thesis using p(2) by (auto simp: has_prefix_iff)
qed

text \<open>The fuel \<open>length s\<close> is enough: nothing strippable is left.\<close>

lemma strip_all_done:
  "length s \<le> n \<Longrightarrow> [] \<notin> set encs \<Longrightarrow> strip_one encs (strip_all encs n s) = None"
proof (induction n arbitrary: s)
  case 0
  then have "s = []" by simp
  moreover have "find (has_prefix []) encs = None"
    using 0(2) by (auto simp: find_None_iff has_prefix_iff)
  ultimately show ?case by (simp add: strip_one_def)
next
  case (Suc n)
  show ?case
  proof (cases "strip_one encs s")
    case None
    then show ?thesis by simp
  next
    case (Some t)
    with Suc.prems have "length t \<le> n" using strip_one_length by fastforce
    with Suc Some show ?thesis by simp
  qed
qed

lemma length_strip_all: "length (strip_all encs n s) \<le> length s"
proof (induction n arbitrary: s)
  case (Suc n)
  show ?case
  proof (cases "strip_one encs s")
    case (Some t)
    then have "length t \<le> length s" by (auto simp: strip_one_def)
    then show ?thesis using Suc [of t] Some by simp
  qed simp
qed simp

lemma length_TrimSpace: "length (TrimSpace s) \<le> length s"
proof -
  have "length (trim_right t) \<le> length t" for t
    using length_strip_all [of _ _ "rev t"] by (simp add: trim_right_def)
  moreover have "length (trim_left s) \<le> length s"
    using length_strip_all by (simp add: trim_left_def)
  ultimately show ?thesis using le_trans by (fastforce simp: TrimSpace_def)
qed

lemma TrimSpace_Nil [simp]: "TrimSpace [] = []"
  by (simp add: TrimSpace_def trim_right_def trim_left_def)

section \<open>strings.Split, strings.Join and path.Clean\<close>

fun split_on :: "char \<Rightarrow> string \<Rightarrow> string list" where
  "split_on d [] = [[]]"
| "split_on d (c # cs) =
     (if c = d then [] # split_on d cs
      else (case split_on d cs of [] \<Rightarrow> [[c]] | w # ws \<Rightarrow> (c # w) # ws))"

fun join_with :: "string \<Rightarrow> string list \<Rightarrow> string" where
  "join_with d [] = []"
| "join_with d [w] = w"
| "join_with d (w # ws) = w @ d @ join_with d ws"

text \<open>
  \<open>path.Clean\<close> (and \<open>filepath.Clean\<close> on Unix): empty and dot components vanish, dot-dot
  removes the component before it, a leading dot-dot vanishes from a rooted path and stays
  in a relative one. The stack holds the kept components, last one first.
\<close>

fun clean_step :: "bool \<Rightarrow> string list \<Rightarrow> string \<Rightarrow> string list" where
  "clean_step rooted stk c =
     (if c = [] \<or> c = ''.'' then stk
      else if c = ''..'' then
        (case stk of [] \<Rightarrow> if rooted then [] else [''..'']
         | x # xs \<Rightarrow> if x = ''..'' then ''..'' # stk else xs)
      else c # stk)"

definition clean_parts :: "bool \<Rightarrow> string list \<Rightarrow> string list" where
  "clean_parts rooted cs = rev (foldl (clean_step rooted) [] cs)"

definition path_clean :: "string \<Rightarrow> string" where
  "path_clean p =
     (let rooted = has_prefix p ''/'';
          body = join_with ''/'' (clean_parts rooted (split_on (CHR ''/'') p))
      in if rooted then CHR ''/'' # body else if body = [] then ''.'' else body)"

lemma split_on_not_Nil [simp]: "split_on d s \<noteq> []"
  by (induction d s rule: split_on.induct) (auto split: list.splits)

lemma split_on_no_sep: "w \<in> set (split_on d s) \<Longrightarrow> d \<notin> set w"
proof (induction s arbitrary: w)
  case (Cons c cs)
  then show ?case by (cases "split_on d cs") (auto split: if_splits)
qed simp

lemma split_on_sep_free: "d \<notin> set w \<Longrightarrow> split_on d w = [w]"
  by (induction w) auto

lemma split_on_append_sep: "d \<notin> set w \<Longrightarrow> split_on d (w @ d # s) = w # split_on d s"
  by (induction w) auto

lemma split_join:
  "ws \<noteq> [] \<Longrightarrow> (\<forall>w \<in> set ws. d \<notin> set w) \<Longrightarrow> split_on d (join_with [d] ws) = ws"
proof (induction "[d]" ws rule: join_with.induct)
  case (3 w w' ws)
  then show ?case using split_on_append_sep [of d w] by simp
qed (auto simp: split_on_sep_free)

text \<open>
  The shape of a cleaned relative path: some dot-dot components, then proper components.
\<close>

definition is_proper :: "string \<Rightarrow> bool" where
  "is_proper c \<longleftrightarrow> c \<noteq> [] \<and> c \<noteq> ''.'' \<and> c \<noteq> ''..''"

fun clean_stack :: "string list \<Rightarrow> bool" where
  "clean_stack [] = True"
| "clean_stack (x # xs) =
     (if x = ''..'' then list_all (\<lambda>c. c = ''..'') xs else is_proper x \<and> clean_stack xs)"

lemma clean_stack_tl: "clean_stack (x # xs) \<Longrightarrow> clean_stack xs"
  by (cases xs) (auto split: if_splits)

lemma clean_step_stack: "clean_stack stk \<Longrightarrow> clean_stack (clean_step r stk c)"
  by (cases stk) (auto simp: is_proper_def dest: clean_stack_tl split: if_splits)

lemma foldl_clean_stack: "clean_stack stk \<Longrightarrow> clean_stack (foldl (clean_step r) stk cs)"
proof (induction cs arbitrary: stk)
  case (Cons c cs)
  then show ?case by (simp only: foldl_Cons) (blast intro: clean_step_stack)
qed simp

lemma clean_stack_no_dotdot:
  "clean_stack stk \<Longrightarrow> stk \<noteq> [] \<Longrightarrow> last stk \<noteq> ''..'' \<Longrightarrow> list_all is_proper stk"
proof (induction stk)
  case (Cons x xs)
  show ?case
  proof (cases "xs = []")
    case True
    with Cons.prems show ?thesis by (auto split: if_splits)
  next
    case False
    have "x \<noteq> ''..''"
    proof
      assume "x = ''..''"
      with Cons.prems(1) have "list_all (\<lambda>c. c = ''..'') xs" by simp
      with False have "last xs = ''..''" by (simp add: list_all_iff)
      with Cons.prems(3) False show False by simp
    qed
    with Cons False show ?thesis by auto
  qed
qed simp

lemma clean_step_set:
  "set (clean_step r stk c) \<subseteq> insert c (set stk)"
  by (cases stk) auto

lemma foldl_clean_set: "set (foldl (clean_step r) stk cs) \<subseteq> set stk \<union> set cs"
proof (induction cs arbitrary: stk)
  case (Cons c cs)
  then show ?case using clean_step_set [of r stk c] by (fastforce simp del: clean_step.simps)
qed simp

lemma clean_parts_no_sep:
  "w \<in> set (clean_parts r (split_on d p)) \<Longrightarrow> d \<notin> set w"
  using foldl_clean_set [of r "[]" "split_on d p"] split_on_no_sep
  by (fastforce simp: clean_parts_def)

section \<open>UTF-8\<close>

text \<open>
  The length of the valid UTF-8 encoding at the head of a string, 0 where
  \<open>utf8.DecodeRuneInString\<close> reports an invalid byte (or the end of the string).
\<close>

fun conts :: "nat \<Rightarrow> nat \<Rightarrow> nat \<Rightarrow> string \<Rightarrow> bool" where
  "conts lo hi 0 cs = True"
| "conts lo hi (Suc k) [] = False"
| "conts lo hi (Suc k) (c # cs) = (lo \<le> byte_of c \<and> byte_of c \<le> hi \<and> conts 0x80 0xBF k cs)"

text \<open>The number of continuation bytes a lead byte asks for and the range of the first.\<close>

definition lead :: "char \<Rightarrow> (nat \<times> nat \<times> nat) option" where
  "lead c =
     (if byte_of c < 0x80 then Some (0, 0, 0)
      else if byte_of c < 0xC2 then None
      else if byte_of c \<le> 0xDF then Some (1, 0x80, 0xBF)
      else if byte_of c = 0xE0 then Some (2, 0xA0, 0xBF)
      else if byte_of c = 0xED then Some (2, 0x80, 0x9F)
      else if byte_of c \<le> 0xEF then Some (2, 0x80, 0xBF)
      else if byte_of c = 0xF0 then Some (3, 0x90, 0xBF)
      else if byte_of c \<le> 0xF3 then Some (3, 0x80, 0xBF)
      else if byte_of c = 0xF4 then Some (3, 0x80, 0x8F)
      else None)"

definition rune_len :: "string \<Rightarrow> nat" where
  "rune_len s = (case s of [] \<Rightarrow> 0 | c # cs \<Rightarrow>
     (case lead c of None \<Rightarrow> 0
      | Some (k, lo, hi) \<Rightarrow> if conts lo hi k cs then Suc k else 0))"

lemma byte_of_eq: "byte_of c = numeral n \<longleftrightarrow> (of_char c :: int) = numeral n"
  unfolding int_byte_of [symmetric] by simp

lemma lead_code [code]:
  "lead c =
     (if low_byte c then Some (0, 0, 0)
      else let b = of_char c :: int in
      if b < 0xC2 then None
      else if b \<le> 0xDF then Some (1, 0x80, 0xBF)
      else if b = 0xE0 then Some (2, 0xA0, 0xBF)
      else if b = 0xED then Some (2, 0x80, 0x9F)
      else if b \<le> 0xEF then Some (2, 0x80, 0xBF)
      else if b = 0xF0 then Some (3, 0x90, 0xBF)
      else if b \<le> 0xF3 then Some (3, 0x80, 0xBF)
      else if b = 0xF4 then Some (3, 0x80, 0x8F)
      else None)"
  by (simp only: lead_def low_byte_def Let_def byte_of_bounds byte_of_eq)

definition replacement :: string where
  "replacement = [CHR 0xEF, CHR 0xBF, CHR 0xBD]"

lemma rune_len_ascii: "byte_of c < 128 \<Longrightarrow> rune_len (c # cs) = 1"
  by (simp add: rune_len_def lead_def)

text \<open>
  What a Go string becomes when \<open>encoding/json\<close> writes it and reads it back: every byte
  that starts no valid encoding is the replacement character.
\<close>

fun to_valid_utf8 :: "string \<Rightarrow> string" where
  "to_valid_utf8 [] = []"
| "to_valid_utf8 (c # cs) =
     (case rune_len (c # cs) of 0 \<Rightarrow> replacement @ to_valid_utf8 cs
      | Suc n \<Rightarrow> c # take n cs @ to_valid_utf8 (drop n cs))"

definition valid_utf8 :: "string \<Rightarrow> bool" where
  "valid_utf8 s \<longleftrightarrow> to_valid_utf8 s = s"

lemma to_valid_utf8_ascii: "is_ascii s \<Longrightarrow> to_valid_utf8 s = s"
  by (induction s) (auto simp: is_ascii_def rune_len_ascii)

lemma valid_utf8_ascii [simp]: "is_ascii s \<Longrightarrow> valid_utf8 s"
  by (simp add: valid_utf8_def to_valid_utf8_ascii)

text \<open>A rewritten string is valid, so rewriting it again changes nothing.\<close>

lemma conts_take: "conts lo hi k cs \<Longrightarrow> k \<le> length cs \<and> conts lo hi k (take k cs @ t)"
  by (induction lo hi k cs rule: conts.induct) auto

text \<open>The length depends on the encoding alone, not on what follows it.\<close>

lemma rune_len_take:
  "rune_len s = Suc n \<Longrightarrow> rune_len (take (Suc n) s @ t) = Suc n \<and> Suc n \<le> length s"
  using conts_take
  by (auto simp: rune_len_def split: list.splits option.splits prod.splits if_splits)

lemma rune_len_replacement: "rune_len (replacement @ t) = 3"
proof -
  have "lead (CHR 0xEF) = Some (2, 0x80, 0xBF)" "byte_of (CHR 0xBF) = 0xBF" "byte_of (CHR 0xBD) = 0xBD"
    by code_simp+
  then show ?thesis by (simp add: rune_len_def replacement_def numeral_2_eq_2)
qed

lemma to_valid_utf8_step:
  "rune_len (x @ t) = length x \<Longrightarrow> x \<noteq> [] \<Longrightarrow> to_valid_utf8 (x @ t) = x @ to_valid_utf8 t"
  by (cases x) (auto split: nat.split)

lemma to_valid_utf8_idem: "to_valid_utf8 (to_valid_utf8 s) = to_valid_utf8 s"
proof (induction s rule: to_valid_utf8.induct)
  case (2 c cs)
  show ?case
  proof (cases "rune_len (c # cs)")
    case 0
    have "to_valid_utf8 (replacement @ to_valid_utf8 cs) = replacement @ to_valid_utf8 (to_valid_utf8 cs)"
      by (rule to_valid_utf8_step) (simp_all only: rune_len_replacement, simp_all add: replacement_def)
    with 2(1) 0 show ?thesis by simp
  next
    case (Suc n)
    from rune_len_take [OF Suc, of "to_valid_utf8 (drop n cs)"]
    have "to_valid_utf8 ((c # take n cs) @ to_valid_utf8 (drop n cs))
      = (c # take n cs) @ to_valid_utf8 (to_valid_utf8 (drop n cs))"
      by (intro to_valid_utf8_step) auto
    with 2(2) [OF Suc] Suc show ?thesis by simp
  qed
qed simp
section \<open>Decimal numbers\<close>

definition digit_char :: "nat \<Rightarrow> char" where
  "digit_char d = char_of (48 + d)"

lemma digit_char_table: "\<forall>d \<in> set [0..<10]. digit_char d = ''0123456789'' ! d"
  by code_simp

lemma digit_char_code [code]:
  "digit_char d = (if d < 10 then ''0123456789'' ! d else char_of (48 + d))"
  using digit_char_table by (simp add: digit_char_def)

fun show_nat :: "nat \<Rightarrow> string" where
  "show_nat n = (if n < 10 then [digit_char n] else show_nat (n div 10) @ [digit_char (n mod 10)])"

declare show_nat.simps [simp del]

definition show_int :: "int \<Rightarrow> string" where
  "show_int i = (if i < 0 then CHR ''-'' # show_nat (nat (- i)) else show_nat (nat i))"

text \<open>\<open>%0wd\<close> of a natural number that fits: exactly \<open>w\<close> digits.\<close>

fun pad_nat :: "nat \<Rightarrow> nat \<Rightarrow> string" where
  "pad_nat 0 n = []"
| "pad_nat (Suc w) n = pad_nat w (n div 10) @ [digit_char (n mod 10)]"

lemma length_pad_nat [simp]: "length (pad_nat w n) = w"
  by (induction w arbitrary: n) auto

lemma byte_of_digit_char: "d < 10 \<Longrightarrow> byte_of (digit_char d) = 48 + d"
  by (simp add: byte_of_def digit_char_def of_char_of)

lemma digit_char_less_iff: "a < 10 \<Longrightarrow> b < 10 \<Longrightarrow> digit_char a < digit_char b \<longleftrightarrow> a < b"
  using byte_of_digit_char [of a] byte_of_digit_char [of b]
  by (simp add: less_char_def byte_of_def)

lemma digit_char_eq_iff: "a < 10 \<Longrightarrow> b < 10 \<Longrightarrow> digit_char a = digit_char b \<longleftrightarrow> a = b"
  using byte_of_digit_char [of a] byte_of_digit_char [of b] by (metis add_left_cancel)

lemma snoc_less_iff:
  fixes x y :: "'a :: linorder"
  assumes "length xs = length ys"
  shows "xs @ [x] < ys @ [y] \<longleftrightarrow> xs < ys \<or> (xs = ys \<and> x < y)"
  using assms by (induction xs ys rule: list_induct2) auto

text \<open>Zero-padded decimal numbers sort as numbers: the order of \<open>revisionName\<close>.\<close>

lemma pad_nat_inj: "m < 10 ^ w \<Longrightarrow> n < 10 ^ w \<Longrightarrow> pad_nat w m = pad_nat w n \<longleftrightarrow> m = n"
proof (induction w arbitrary: m n)
  case (Suc w)
  then have "m div 10 < 10 ^ w" "n div 10 < 10 ^ w" by (auto simp: less_mult_imp_div_less mult.commute)
  with Suc.IH have "pad_nat w (m div 10) = pad_nat w (n div 10) \<longleftrightarrow> m div 10 = n div 10" by blast
  moreover have "m = n \<longleftrightarrow> m div 10 = n div 10 \<and> m mod 10 = n mod 10"
    by (metis div_mod_decomp)
  ultimately show ?case by (simp add: digit_char_eq_iff)
qed simp

lemma pad_nat_less: "m < 10 ^ w \<Longrightarrow> n < 10 ^ w \<Longrightarrow> pad_nat w m < pad_nat w n \<longleftrightarrow> m < n"
proof (induction w arbitrary: m n)
  case (Suc w)
  then have b: "m div 10 < 10 ^ w" "n div 10 < 10 ^ w"
    by (auto simp: less_mult_imp_div_less mult.commute)
  have less_digits: "m < n \<longleftrightarrow> m div 10 < n div 10 \<or> (m div 10 = n div 10 \<and> m mod 10 < n mod 10)"
  proof -
    have "m = 10 * (m div 10) + m mod 10" "n = 10 * (n div 10) + n mod 10" by simp_all
    moreover have "m mod 10 < 10" "n mod 10 < 10" by simp_all
    ultimately show ?thesis by linarith
  qed
  with Suc.IH [OF b] show ?case
    by (simp add: snoc_less_iff digit_char_less_iff pad_nat_inj [OF b])
qed simp

section \<open>Digests\<close>

text \<open>\<open>hex.DecodeString\<close> accepts both cases; digests are compared after decoding.\<close>

definition hex_decodable :: "string \<Rightarrow> bool" where
  "hex_decodable s \<longleftrightarrow> even (length s) \<and> list_all is_hex s"

definition valid_sha256 :: "string \<Rightarrow> bool" where
  "valid_sha256 s \<longleftrightarrow> length s = 64 \<and> hex_decodable s"

end
