(* ===== verification/GoTime.thy ===== *)
theory GoTime
  imports GoStrings
begin

text \<open>
  \<open>time.Time\<close> in UTC as the number of nanoseconds since Go's zero instant
  (0001-01-01T00:00:00Z), so \<open>IsZero\<close> is equality with 0, \<open>Before\<close> and \<open>After\<close> are the
  order of the integers and \<open>Add\<close> is addition. \<open>Sub\<close> saturates at the 64-bit range of
  \<open>time.Duration\<close>. The civil calendar is the proleptic Gregorian one, as in package time.
\<close>

type_synonym time = int
type_synonym duration = int

definition is_zero :: "time \<Rightarrow> bool" where
  "is_zero t \<longleftrightarrow> t = 0"

definition nanosecond :: duration where "nanosecond = 1"
definition second :: duration where "second = 10 ^ 9"
definition minute :: duration where "minute = 60 * second"
definition hour :: duration where "hour = 60 * minute"

definition time_sub :: "time \<Rightarrow> time \<Rightarrow> duration" where
  "time_sub t u = max min_int64 (min max_int64 (t - u))"

lemma time_units [simp]: "0 < second" "0 < minute" "0 < hour"
  by (simp_all add: second_def minute_def hour_def)

lemma time_sub_less_iff: "min_int64 \<le> d \<Longrightarrow> d < max_int64 \<Longrightarrow> d < time_sub t u \<longleftrightarrow> d < t - u"
  by (auto simp: time_sub_def min_int64_def max_int64_def)

lemma time_sub_le_iff: "min_int64 \<le> d \<Longrightarrow> d < max_int64 \<Longrightarrow> time_sub t u \<le> d \<longleftrightarrow> t - u \<le> d"
  by (auto simp: time_sub_def min_int64_def max_int64_def)

section \<open>The civil calendar\<close>

record civil =
  cv_year :: int
  cv_month :: int
  cv_day :: int

text \<open>
  Days are counted from 0001-01-01. The year of the algorithm starts on the first of
  March, 306 days before the first of January; 146097 days make 400 years.
\<close>

definition civil_of_days :: "int \<Rightarrow> civil" where
  "civil_of_days n =
     (let z = n + 306; era = z div 146097; doe = z mod 146097;
          yoe = (doe - doe div 1460 + doe div 36524 - doe div 146096) div 365;
          doy = doe - (365 * yoe + yoe div 4 - yoe div 100);
          mp = (5 * doy + 2) div 153;
          d = doy - (153 * mp + 2) div 5 + 1;
          m = (if mp < 10 then mp + 3 else mp - 9)
      in \<lparr>cv_year = yoe + era * 400 + (if m \<le> 2 then 1 else 0), cv_month = m, cv_day = d\<rparr>)"

definition days_of_civil :: "int \<Rightarrow> int \<Rightarrow> int \<Rightarrow> int" where
  "days_of_civil y m d =
     (let y' = y + (m - 1) div 12; m' = (m - 1) mod 12 + 1;
          y2 = (if m' \<le> 2 then y' - 1 else y');
          era = y2 div 400; yoe = y2 mod 400;
          mp = (if m' > 2 then m' - 3 else m' + 9);
          doy = (153 * mp + 2) div 5 + d - 1;
          doe = yoe * 365 + yoe div 4 - yoe div 100 + doy
      in era * 146097 + doe - 306)"

definition day_ns :: duration where "day_ns = 24 * hour"

definition time_days :: "time \<Rightarrow> int" where "time_days t = t div day_ns"
definition time_of_day :: "time \<Rightarrow> int" where "time_of_day t = t mod day_ns"

definition time_year :: "time \<Rightarrow> int" where
  "time_year t = cv_year (civil_of_days (time_days t))"

text \<open>\<open>Format(time.RFC3339Nano)\<close> of a UTC instant with a four-digit year.\<close>

fun strip_zeros :: "string \<Rightarrow> string" where
  "strip_zeros s = rev (dropWhile (\<lambda>c. c = CHR ''0'') (rev s))"

definition fraction :: "int \<Rightarrow> string" where
  "fraction ns = (if ns = 0 then [] else CHR ''.'' # strip_zeros (pad_nat 9 (nat ns)))"

definition rfc3339nano :: "time \<Rightarrow> string" where
  "rfc3339nano t =
     (let c = civil_of_days (time_days t); s = time_of_day t div second; ns = time_of_day t mod second
      in pad_nat 4 (nat (cv_year c)) @ ''-'' @ pad_nat 2 (nat (cv_month c)) @ ''-''
         @ pad_nat 2 (nat (cv_day c)) @ ''T'' @ pad_nat 2 (nat (s div 3600)) @ '':''
         @ pad_nat 2 (nat (s div 60 mod 60)) @ '':'' @ pad_nat 2 (nat (s mod 60))
         @ fraction ns @ ''Z'')"

text \<open>\<open>Time.MarshalJSON\<close> refuses a year outside \<open>[0, 9999]\<close>.\<close>

definition marshalable_time :: "time \<Rightarrow> bool" where
  "marshalable_time t \<longleftrightarrow> 0 \<le> time_year t \<and> time_year t \<le> 9999"

lemma length_fraction: "length (fraction ns) \<le> 10"
proof -
  have "length (dropWhile P xs) \<le> length xs" for P and xs :: string
    by (induction xs) auto
  from this [of "\<lambda>c. c = CHR ''0''" "rev (pad_nat 9 (nat ns))"]
  show ?thesis by (simp add: fraction_def)
qed

lemma length_rfc3339nano: "length (rfc3339nano t) \<le> 30"
  using length_fraction by (simp add: rfc3339nano_def Let_def)

end
