(* ===== verification/GoJson.thy ===== *)
theory GoJson
  imports GoTime
begin

text \<open>
  The part of \<open>encoding/json\<close> the ledger and the stores use: the values their structs
  become (fields in declaration order, \<open>omitempty\<close> already applied), the compact encoding of
  \<open>json.Marshal\<close> and the indented one of \<open>json.MarshalIndent(v, "", "  ")\<close>. Digests and the
  byte limits of the program are computed over these encodings.
\<close>

datatype json =
    JNull
  | JBool bool
  | JNum int
  | JStr string
  | JTime time
  | JArr "json list"
  | JObj "(string \<times> json) list"

section \<open>String literals\<close>

definition hex_digit :: "nat \<Rightarrow> char" where
  "hex_digit d = (if d < 10 then char_of (48 + d) else char_of (87 + d))"

definition u00 :: "char \<Rightarrow> string" where
  "u00 c = CHR 0x5C # ''u00'' @ [hex_digit (byte_of c div 16), hex_digit (byte_of c mod 16)]"

text \<open>
  One ASCII byte: quote and backslash are escaped, five control characters have short
  forms, the other controls and the three HTML characters are six bytes long.
\<close>

definition json_escape :: "char \<Rightarrow> string" where
  "json_escape c =
     (if c = CHR 0x22 \<or> c = CHR 0x5C then [CHR 0x5C, c]
      else if c = CHR 0x08 then [CHR 0x5C, CHR ''b'']
      else if c = CHR 0x0C then [CHR 0x5C, CHR ''f'']
      else if c = CHR 0x0A then [CHR 0x5C, CHR ''n'']
      else if c = CHR 0x0D then [CHR 0x5C, CHR ''r'']
      else if c = CHR 0x09 then [CHR 0x5C, CHR ''t'']
      else if byte_of c < 32 \<or> c = CHR ''<'' \<or> c = CHR ''>'' \<or> c = CHR ''&'' then u00 c
      else [c])"

definition line_separator :: "string \<Rightarrow> string option" where
  "line_separator s =
     (if has_prefix s [CHR 0xE2, CHR 0x80, CHR 0xA8] then Some (CHR 0x5C # ''u2028'')
      else if has_prefix s [CHR 0xE2, CHR 0x80, CHR 0xA9] then Some (CHR 0x5C # ''u2029'')
      else None)"

fun json_body :: "string \<Rightarrow> string" where
  "json_body [] = []"
| "json_body (c # cs) =
     (if byte_of c < 128 then json_escape c @ json_body cs
      else case rune_len (c # cs) of
        0 \<Rightarrow> CHR 0x5C # ''ufffd'' @ json_body cs
      | Suc n \<Rightarrow> (case line_separator (c # cs) of Some e \<Rightarrow> e | None \<Rightarrow> c # take n cs)
                  @ json_body (drop n cs))"

lemma json_escape_alnum: "is_alnum c \<Longrightarrow> json_escape c = [c]"
proof (cases c)
  case (Char b0 b1 b2 b3 b4 b5 b6 b7)
  have "is_alnum (Char b0 b1 b2 b3 b4 b5 b6 b7) \<longrightarrow>
      json_escape (Char b0 b1 b2 b3 b4 b5 b6 b7) = [Char b0 b1 b2 b3 b4 b5 b6 b7]"
    by (cases b7; cases b6; cases b5; cases b4; cases b3; cases b2; cases b1; cases b0;
        simp add: is_alnum_def char_class_code json_escape_def byte_of_bounds of_char_Char)
  then show "is_alnum c \<Longrightarrow> json_escape c = [c]" by (simp only: Char)
qed

lemma json_escape_code [code]:
  "json_escape c =
     (if is_alnum c then [c]
      else if c = CHR 0x22 \<or> c = CHR 0x5C then [CHR 0x5C, c]
      else if c = CHR 0x08 then [CHR 0x5C, CHR ''b'']
      else if c = CHR 0x0C then [CHR 0x5C, CHR ''f'']
      else if c = CHR 0x0A then [CHR 0x5C, CHR ''n'']
      else if c = CHR 0x0D then [CHR 0x5C, CHR ''r'']
      else if c = CHR 0x09 then [CHR 0x5C, CHR ''t'']
      else if (of_char c :: int) < 32 \<or> c = CHR ''<'' \<or> c = CHR ''>'' \<or> c = CHR ''&'' then u00 c
      else [c])"
  using json_escape_alnum [of c] by (simp add: json_escape_def byte_of_bounds)

lemma json_body_code [code]:
  "json_body [] = []"
  "json_body (c # cs) =
     (if low_byte c then json_escape c @ json_body cs
      else case rune_len (c # cs) of
        0 \<Rightarrow> CHR 0x5C # ''ufffd'' @ json_body cs
      | Suc n \<Rightarrow> (case line_separator (c # cs) of Some e \<Rightarrow> e | None \<Rightarrow> c # take n cs)
                  @ json_body (drop n cs))"
  by (simp_all only: json_body.simps low_byte_def)

definition json_quote :: "string \<Rightarrow> string" where
  "json_quote s = CHR 0x22 # json_body s @ [CHR 0x22]"

section \<open>Encodings\<close>

lemma size_json_field [termination_simp]:
  "(k, v) \<in> set fs \<Longrightarrow> size v < Suc (size_list (size_prod (\<lambda>_. 0) size) fs)"
  by (induction fs) auto

fun marshal :: "json \<Rightarrow> string" where
  "marshal JNull = ''null''"
| "marshal (JBool b) = (if b then ''true'' else ''false'')"
| "marshal (JNum n) = show_int n"
| "marshal (JStr s) = json_quote s"
| "marshal (JTime t) = CHR 0x22 # rfc3339nano t @ [CHR 0x22]"
| "marshal (JArr xs) = ''['' @ join_with '','' (map marshal xs) @ '']''"
| "marshal (JObj fs) =
     ''{'' @ join_with '','' (map (\<lambda>(k, v). json_quote k @ '':'' @ marshal v) fs) @ ''}''"

definition newline :: "nat \<Rightarrow> string" where
  "newline d = CHR 0x0A # replicate (2 * d) (CHR '' '')"

fun marshal_indent :: "nat \<Rightarrow> json \<Rightarrow> string" where
  "marshal_indent d (JArr xs) =
     (if xs = [] then ''[]''
      else ''['' @ join_with '',''
             (map (\<lambda>x. newline (Suc d) @ marshal_indent (Suc d) x) xs) @ newline d @ '']'')"
| "marshal_indent d (JObj fs) =
     (if fs = [] then ''{}''
      else ''{'' @ join_with '',''
             (map (\<lambda>(k, v). newline (Suc d) @ json_quote k @ '': '' @ marshal_indent (Suc d) v) fs)
           @ newline d @ ''}'')"
| "marshal_indent d j = marshal j"

fun json_times :: "json \<Rightarrow> time list" where
  "json_times (JTime t) = [t]"
| "json_times (JArr xs) = concat (map json_times xs)"
| "json_times (JObj fs) = concat (map (\<lambda>(k, v). json_times v) fs)"
| "json_times _ = []"

text \<open>\<open>json.Marshal\<close> fails when a time does not encode; nothing else in these values can.\<close>

definition encodable :: "json \<Rightarrow> bool" where
  "encodable j \<longleftrightarrow> list_all marshalable_time (json_times j)"

text \<open>Struct fields with \<open>omitempty\<close>.\<close>

definition opt_str :: "string \<Rightarrow> string \<Rightarrow> (string \<times> json) list" where
  "opt_str k s = (if s = [] then [] else [(k, JStr s)])"

definition opt_int :: "string \<Rightarrow> int \<Rightarrow> (string \<times> json) list" where
  "opt_int k n = (if n = 0 then [] else [(k, JNum n)])"

definition opt_ptr :: "string \<Rightarrow> ('a \<Rightarrow> json) \<Rightarrow> 'a option \<Rightarrow> (string \<times> json) list" where
  "opt_ptr k f x = (case x of None \<Rightarrow> [] | Some v \<Rightarrow> [(k, f v)])"

text \<open>A slice of strings: a nil slice is \<open>null\<close>.\<close>

definition str_slice :: "string list \<Rightarrow> json" where
  "str_slice xs = (if xs = [] then JNull else JArr (map JStr xs))"

definition opt_strs :: "string \<Rightarrow> string list \<Rightarrow> (string \<times> json) list" where
  "opt_strs k xs = (if xs = [] then [] else [(k, str_slice xs)])"

section \<open>Lengths\<close>

text \<open>Bytes that the encoder copies.\<close>

definition plain_char :: "char \<Rightarrow> bool" where
  "plain_char c \<longleftrightarrow> byte_of c < 128 \<and> json_escape c = [c]"

lemma json_body_plain: "list_all plain_char s \<Longrightarrow> json_body s = s"
  by (induction s) (auto simp: plain_char_def)

lemma json_body_replicate: "plain_char c \<Longrightarrow> json_body (replicate n c) = replicate n c"
  by (rule json_body_plain) (simp add: list_all_iff)

lemma json_body_append_plain: "list_all plain_char s \<Longrightarrow> json_body (s @ t) = s @ json_body t"
  by (induction s) (auto simp: plain_char_def)

end
