(* ===== verification/ExecTypes.thy ===== *)
theory ExecTypes
  imports GoJson
begin

text \<open>
  The data of the execution ledger (\<open>internal/execution\<close>): the string enumerations as
  datatypes (the \<open>Other\<close> constructor is any string that is none of the constants, as a
  decoded file may hold), the structs as records, and their JSON form, which the contract
  digest, the file size limit and the projection limit are computed over.
\<close>

section \<open>Enumerations\<close>

datatype ItemState =
    StateReady | StateRunning | StatePaused | StateEvaluating | StateCompleted | StateCancelled
  | StateOther string

datatype AttemptState =
    AttemptActive | AttemptInterrupted | AttemptCompleted | AttemptCancelled | AttemptOther string

datatype CriterionType = CriterionArtifactSnapshot | CriterionCommandCheck | CriterionOther string

datatype EvidenceOutcome = EvidencePassed | EvidenceFailed | EvidenceOther string

datatype ToolCallState =
    ToolCallStarted | ToolCallSucceeded | ToolCallFailed | ToolCallUnavailable
  | ToolCallOther string

datatype YodaReviewDecision = YodaReviewApproved | YodaReviewRejected | YodaReviewOther string

fun item_state_text :: "ItemState \<Rightarrow> string" where
  "item_state_text StateReady = ''ready''"
| "item_state_text StateRunning = ''running''"
| "item_state_text StatePaused = ''paused''"
| "item_state_text StateEvaluating = ''evaluating''"
| "item_state_text StateCompleted = ''completed''"
| "item_state_text StateCancelled = ''cancelled''"
| "item_state_text (StateOther s) = s"

fun attempt_state_text :: "AttemptState \<Rightarrow> string" where
  "attempt_state_text AttemptActive = ''active''"
| "attempt_state_text AttemptInterrupted = ''interrupted''"
| "attempt_state_text AttemptCompleted = ''completed''"
| "attempt_state_text AttemptCancelled = ''cancelled''"
| "attempt_state_text (AttemptOther s) = s"

fun criterion_type_text :: "CriterionType \<Rightarrow> string" where
  "criterion_type_text CriterionArtifactSnapshot = ''artifact_snapshot''"
| "criterion_type_text CriterionCommandCheck = ''command_check''"
| "criterion_type_text (CriterionOther s) = s"

fun evidence_outcome_text :: "EvidenceOutcome \<Rightarrow> string" where
  "evidence_outcome_text EvidencePassed = ''passed''"
| "evidence_outcome_text EvidenceFailed = ''failed''"
| "evidence_outcome_text (EvidenceOther s) = s"

fun tool_call_state_text :: "ToolCallState \<Rightarrow> string" where
  "tool_call_state_text ToolCallStarted = ''started''"
| "tool_call_state_text ToolCallSucceeded = ''succeeded''"
| "tool_call_state_text ToolCallFailed = ''failed''"
| "tool_call_state_text ToolCallUnavailable = ''unavailable''"
| "tool_call_state_text (ToolCallOther s) = s"

fun decision_text :: "YodaReviewDecision \<Rightarrow> string" where
  "decision_text YodaReviewApproved = ''approved''"
| "decision_text YodaReviewRejected = ''rejected''"
| "decision_text (YodaReviewOther s) = s"

section \<open>Structs\<close>

record Criterion =
  cr_ID :: string
  cr_Type :: CriterionType
  cr_TargetRef :: string
  cr_Command :: "string list"

record Contract =
  ct_SchemaVersion :: int
  ct_ContractVersion :: int
  ct_ItemID :: string
  ct_WorkspaceID :: string
  ct_AuthorityKind :: string
  ct_Objective :: string
  ct_InitialNextStep :: string
  ct_Criteria :: "Criterion list"
  ct_AllowedRefs :: "string list"
  ct_RequireYodaReview :: bool
  ct_YodaPublicKey :: string
  ct_YodaKeyID :: string
  ct_YodaInstallationID :: string
  ct_CreatedAt :: time

record State =
  st_SchemaVersion :: int
  st_ItemID :: string
  st_WorkspaceID :: string
  st_State :: ItemState
  st_StateRevision :: int
  st_ContractVersion :: int
  st_ContractSHA256 :: string
  st_ActiveAttemptID :: string
  st_CreatedAt :: time
  st_UpdatedAt :: time

record Attempt =
  at_SchemaVersion :: int
  at_AttemptID :: string
  at_ItemID :: string
  at_WorkspaceID :: string
  at_State :: AttemptState
  at_StartedAt :: time

record Checkpoint =
  cp_SchemaVersion :: int
  cp_CheckpointID :: string
  cp_ItemID :: string
  cp_WorkspaceID :: string
  cp_AttemptID :: string
  cp_Summary :: string
  cp_NextStep :: string
  cp_Blocker :: string
  cp_ArtifactRefs :: "string list"
  cp_CreatedAt :: time

record EvidenceReceipt =
  ev_SchemaVersion :: int
  ev_EvidenceID :: string
  ev_ItemID :: string
  ev_WorkspaceID :: string
  ev_AttemptID :: string
  ev_CriterionID :: string
  ev_Type :: CriterionType
  ev_Outcome :: EvidenceOutcome
  ev_TargetRef :: string
  ev_ArtifactSHA256 :: string
  ev_ArtifactBytes :: int
  ev_CommandSHA256 :: string
  ev_ToolSHA256 :: string
  ev_ExitCode :: "int option"
  ev_ObservedAt :: time

record ToolCallReceipt =
  tc_SchemaVersion :: int
  tc_ToolCallID :: string
  tc_ItemID :: string
  tc_WorkspaceID :: string
  tc_AttemptID :: string
  tc_AgentID :: string
  tc_ToolID :: string
  tc_State :: ToolCallState
  tc_StartedAt :: time
  tc_FinishedAt :: "time option"

record YodaReviewReceipt =
  yr_SchemaVersion :: int
  yr_ReviewID :: string
  yr_ItemID :: string
  yr_WorkspaceID :: string
  yr_AttemptID :: string
  yr_ReviewedRevision :: int
  yr_RecordedRevision :: int
  yr_ContractSHA256 :: string
  yr_SignerKeyID :: string
  yr_InstallationID :: string
  yr_CustodyScope :: string
  yr_Decision :: YodaReviewDecision
  yr_SignerSHA256 :: string
  yr_EnvelopeSHA256 :: string
  yr_ObservedAt :: time

record Transition =
  tr_SchemaVersion :: int
  tr_ItemID :: string
  tr_WorkspaceID :: string
  tr_AttemptID :: string
  tr_State :: ItemState
  tr_StateRevision :: int
  tr_OccurredAt :: time

record Revision =
  rv_SchemaVersion :: int
  rv_State :: State
  rv_Attempt :: "Attempt option"
  rv_Checkpoint :: "Checkpoint option"
  rv_Evidence :: "EvidenceReceipt option"
  rv_ToolCall :: "ToolCallReceipt option"
  rv_YodaReview :: "YodaReviewReceipt option"
  rv_Transition :: Transition

record Item =
  it_Contract :: Contract
  it_State :: State
  it_Attempt :: "Attempt option"
  it_Checkpoint :: "Checkpoint option"
  it_Evidence :: "EvidenceReceipt option"

record NextProjection =
  np_SchemaVersion :: int
  np_ItemID :: string
  np_State :: ItemState
  np_StateRevision :: int
  np_AttemptID :: string
  np_Summary :: string
  np_NextStep :: string
  np_Blocker :: string
  np_ArtifactRefs :: "string list"
  np_CheckpointAt :: "time option"

record CreateInput =
  ci_WorkspaceID :: string
  ci_Objective :: string
  ci_InitialNextStep :: string
  ci_Criteria :: "Criterion list"
  ci_AllowedRefs :: "string list"
  ci_RequireYodaReview :: bool
  ci_YodaPublicKey :: string
  ci_YodaKeyID :: string
  ci_YodaInstallationID :: string

record CheckpointInput =
  ki_ExpectedRevision :: int
  ki_AttemptID :: string
  ki_Summary :: string
  ki_NextStep :: string
  ki_Blocker :: string
  ki_ArtifactRefs :: "string list"

section \<open>Errors\<close>

text \<open>
  The sentinel errors a caller can test for with \<open>errors.Is\<close>, the messages built on the
  spot (\<open>Msg\<close>, the source's words without the formatted arguments), the operating system's
  refusals and the faults a test injects.
\<close>

datatype ledger_error =
    ErrRevisionConflict
  | ErrAttemptConflict
  | ErrContractChanged
  | ErrConfirmationRequired
  | ErrItemBusy
  | ErrActiveItemAmbiguous
  | ErrCompletionUnsatisfied
  | ErrYodaReviewUnsatisfied
  | ErrUnsafeLedgerFile
  | ErrNotExist
  | ErrExist
  | ErrOS string
  | Msg string

section \<open>JSON forms\<close>

definition criterion_json :: "Criterion \<Rightarrow> json" where
  "criterion_json c = JObj
     ([(''id'', JStr (cr_ID c)), (''type'', JStr (criterion_type_text (cr_Type c)))]
      @ opt_str ''target_ref'' (cr_TargetRef c) @ opt_strs ''command'' (cr_Command c))"

definition contract_json :: "Contract \<Rightarrow> json" where
  "contract_json c = JObj
     ([(''schema_version'', JNum (ct_SchemaVersion c)),
       (''contract_version'', JNum (ct_ContractVersion c)),
       (''item_id'', JStr (ct_ItemID c)),
       (''workspace_id'', JStr (ct_WorkspaceID c)),
       (''authority_kind'', JStr (ct_AuthorityKind c)),
       (''objective'', JStr (ct_Objective c)),
       (''initial_next_step'', JStr (ct_InitialNextStep c)),
       (''criteria'', if ct_Criteria c = [] then JNull else JArr (map criterion_json (ct_Criteria c))),
       (''allowed_refs'', str_slice (ct_AllowedRefs c)),
       (''require_yoda_review'', JBool (ct_RequireYodaReview c))]
      @ opt_str ''yoda_public_key'' (ct_YodaPublicKey c)
      @ opt_str ''yoda_key_id'' (ct_YodaKeyID c)
      @ opt_str ''yoda_installation_id'' (ct_YodaInstallationID c)
      @ [(''created_at'', JTime (ct_CreatedAt c))])"

definition state_json :: "State \<Rightarrow> json" where
  "state_json s = JObj
     ([(''schema_version'', JNum (st_SchemaVersion s)),
       (''item_id'', JStr (st_ItemID s)),
       (''workspace_id'', JStr (st_WorkspaceID s)),
       (''state'', JStr (item_state_text (st_State s))),
       (''state_revision'', JNum (st_StateRevision s)),
       (''contract_version'', JNum (st_ContractVersion s)),
       (''contract_sha256'', JStr (st_ContractSHA256 s))]
      @ opt_str ''active_attempt_id'' (st_ActiveAttemptID s)
      @ [(''created_at'', JTime (st_CreatedAt s)), (''updated_at'', JTime (st_UpdatedAt s))])"

definition attempt_json :: "Attempt \<Rightarrow> json" where
  "attempt_json a = JObj
     [(''schema_version'', JNum (at_SchemaVersion a)),
      (''attempt_id'', JStr (at_AttemptID a)),
      (''item_id'', JStr (at_ItemID a)),
      (''workspace_id'', JStr (at_WorkspaceID a)),
      (''state'', JStr (attempt_state_text (at_State a))),
      (''started_at'', JTime (at_StartedAt a))]"

definition checkpoint_json :: "Checkpoint \<Rightarrow> json" where
  "checkpoint_json c = JObj
     ([(''schema_version'', JNum (cp_SchemaVersion c)),
       (''checkpoint_id'', JStr (cp_CheckpointID c)),
       (''item_id'', JStr (cp_ItemID c)),
       (''workspace_id'', JStr (cp_WorkspaceID c)),
       (''attempt_id'', JStr (cp_AttemptID c)),
       (''summary'', JStr (cp_Summary c)),
       (''next_step'', JStr (cp_NextStep c))]
      @ opt_str ''blocker'' (cp_Blocker c)
      @ [(''artifact_refs'', str_slice (cp_ArtifactRefs c)),
         (''created_at'', JTime (cp_CreatedAt c))])"

definition evidence_json :: "EvidenceReceipt \<Rightarrow> json" where
  "evidence_json e = JObj
     ([(''schema_version'', JNum (ev_SchemaVersion e)),
       (''evidence_id'', JStr (ev_EvidenceID e)),
       (''item_id'', JStr (ev_ItemID e)),
       (''workspace_id'', JStr (ev_WorkspaceID e)),
       (''attempt_id'', JStr (ev_AttemptID e)),
       (''criterion_id'', JStr (ev_CriterionID e)),
       (''type'', JStr (criterion_type_text (ev_Type e))),
       (''outcome'', JStr (evidence_outcome_text (ev_Outcome e)))]
      @ opt_str ''target_ref'' (ev_TargetRef e)
      @ opt_str ''artifact_sha256'' (ev_ArtifactSHA256 e)
      @ opt_int ''artifact_bytes'' (ev_ArtifactBytes e)
      @ opt_str ''command_sha256'' (ev_CommandSHA256 e)
      @ opt_str ''tool_sha256'' (ev_ToolSHA256 e)
      @ opt_ptr ''exit_code'' JNum (ev_ExitCode e)
      @ [(''observed_at'', JTime (ev_ObservedAt e))])"

definition tool_call_json :: "ToolCallReceipt \<Rightarrow> json" where
  "tool_call_json t = JObj
     ([(''schema_version'', JNum (tc_SchemaVersion t)),
       (''tool_call_id'', JStr (tc_ToolCallID t)),
       (''item_id'', JStr (tc_ItemID t)),
       (''workspace_id'', JStr (tc_WorkspaceID t)),
       (''attempt_id'', JStr (tc_AttemptID t)),
       (''agent_id'', JStr (tc_AgentID t)),
       (''tool_id'', JStr (tc_ToolID t)),
       (''state'', JStr (tool_call_state_text (tc_State t))),
       (''started_at'', JTime (tc_StartedAt t))]
      @ opt_ptr ''finished_at'' JTime (tc_FinishedAt t))"

definition yoda_review_json :: "YodaReviewReceipt \<Rightarrow> json" where
  "yoda_review_json r = JObj
     [(''schema_version'', JNum (yr_SchemaVersion r)),
      (''review_id'', JStr (yr_ReviewID r)),
      (''item_id'', JStr (yr_ItemID r)),
      (''workspace_id'', JStr (yr_WorkspaceID r)),
      (''attempt_id'', JStr (yr_AttemptID r)),
      (''reviewed_revision'', JNum (yr_ReviewedRevision r)),
      (''recorded_revision'', JNum (yr_RecordedRevision r)),
      (''contract_sha256'', JStr (yr_ContractSHA256 r)),
      (''signer_key_id'', JStr (yr_SignerKeyID r)),
      (''installation_id'', JStr (yr_InstallationID r)),
      (''custody_scope'', JStr (yr_CustodyScope r)),
      (''decision'', JStr (decision_text (yr_Decision r))),
      (''signer_sha256'', JStr (yr_SignerSHA256 r)),
      (''envelope_sha256'', JStr (yr_EnvelopeSHA256 r)),
      (''observed_at'', JTime (yr_ObservedAt r))]"

definition transition_json :: "Transition \<Rightarrow> json" where
  "transition_json t = JObj
     ([(''schema_version'', JNum (tr_SchemaVersion t)),
       (''item_id'', JStr (tr_ItemID t)),
       (''workspace_id'', JStr (tr_WorkspaceID t))]
      @ opt_str ''attempt_id'' (tr_AttemptID t)
      @ [(''state'', JStr (item_state_text (tr_State t))),
         (''state_revision'', JNum (tr_StateRevision t)),
         (''occurred_at'', JTime (tr_OccurredAt t))])"

definition revision_json :: "Revision \<Rightarrow> json" where
  "revision_json r = JObj
     ([(''schema_version'', JNum (rv_SchemaVersion r)), (''state'', state_json (rv_State r))]
      @ opt_ptr ''attempt'' attempt_json (rv_Attempt r)
      @ opt_ptr ''checkpoint'' checkpoint_json (rv_Checkpoint r)
      @ opt_ptr ''evidence'' evidence_json (rv_Evidence r)
      @ opt_ptr ''tool_call'' tool_call_json (rv_ToolCall r)
      @ opt_ptr ''yoda_review'' yoda_review_json (rv_YodaReview r)
      @ [(''transition'', transition_json (rv_Transition r))])"

definition projection_json :: "NextProjection \<Rightarrow> json" where
  "projection_json p = JObj
     ([(''schema_version'', JNum (np_SchemaVersion p)),
       (''item_id'', JStr (np_ItemID p)),
       (''state'', JStr (item_state_text (np_State p))),
       (''state_revision'', JNum (np_StateRevision p))]
      @ opt_str ''attempt_id'' (np_AttemptID p)
      @ opt_str ''summary'' (np_Summary p)
      @ [(''next_step'', JStr (np_NextStep p))]
      @ opt_str ''blocker'' (np_Blocker p)
      @ opt_strs ''artifact_refs'' (np_ArtifactRefs p)
      @ opt_ptr ''checkpoint_at'' JTime (np_CheckpointAt p))"

end
