(* ===== verification/ExecValidate.thy ===== *)
theory ExecValidate
  imports ExecTypes
begin

text \<open>
  The validators of the execution ledger. Each returns the first error in the order of the
  source (where the source ranges over a map literal the order of the entries is Go's
  random one; only whether it fails is determined), and each has an inversion lemma in
  \<open>valid_simps\<close> that lists what a value that passed satisfies.
\<close>

named_theorems valid_simps \<open>what a validated value satisfies\<close>

section \<open>Limits and constants\<close>

definition AuthorityLocalExecution :: string where
  "AuthorityLocalExecution = ''local_execution''"

definition MaximumCheckpointSummaryBytes :: int where "MaximumCheckpointSummaryBytes = 768"
definition MaximumCheckpointNextStepBytes :: int where "MaximumCheckpointNextStepBytes = 768"
definition MaximumCheckpointBlockerBytes :: int where "MaximumCheckpointBlockerBytes = 256"
definition MaximumCheckpointArtifactRefs :: int where "MaximumCheckpointArtifactRefs = 8"
definition MaximumNextProjectionBytes :: int where "MaximumNextProjectionBytes = 2048"
definition MaximumListItems :: int where "MaximumListItems = 128"
definition maximumLedgerJSONBytes :: int where "maximumLedgerJSONBytes = 2 ^ 20"
definition maximumArtifactBytes :: int where "maximumArtifactBytes = 100 * 2 ^ 20"
definition YodaReviewScope :: string where "YodaReviewScope = ''maestro/yoda-review''"

section \<open>Identifiers and references\<close>

definition id_char :: "char \<Rightarrow> bool" where
  "id_char c \<longleftrightarrow> is_alnum c \<or> c = CHR ''_'' \<or> c = CHR ''-''"

definition idPattern :: "string \<Rightarrow> bool" where
  "idPattern s \<longleftrightarrow> first_rest is_alnum id_char 95 s"

definition workspaceIDPattern :: "string \<Rightarrow> bool" where
  "workspaceIDPattern s \<longleftrightarrow> length s = 32 \<and> list_all is_lower_hex s"

definition logical_ref_char :: "char \<Rightarrow> bool" where
  "logical_ref_char c \<longleftrightarrow> is_alnum c \<or> c \<in> {CHR ''/'', CHR ''_'', CHR ''.'', CHR ''-''}"

definition logicalRefPattern :: "string \<Rightarrow> bool" where
  "logicalRefPattern s \<longleftrightarrow>
     has_prefix s ''bcgos://'' \<and> drop 8 s \<noteq> [] \<and> list_all logical_ref_char (drop 8 s)"

definition validateID :: "string \<Rightarrow> string \<Rightarrow> ledger_error + unit" where
  "validateID kind ident = checks
     [fail_if (kind = ''workspace'' \<and> \<not> workspaceIDPattern ident) (Msg ''invalid opaque workspace ID''),
      fail_if (\<not> idPattern ident) (Msg (''invalid '' @ kind @ '' ID''))]"

definition validateStoreRoot :: "string \<Rightarrow> ledger_error + unit" where
  "validateStoreRoot root = fail_if (TrimSpace root = []) (Msg ''execution store root is required'')"

lemma validateID_ok [valid_simps]:
  "validateID k i = Inr u \<longleftrightarrow> (k = ''workspace'' \<longrightarrow> workspaceIDPattern i) \<and> idPattern i"
  by (auto simp: validateID_def)

lemma idPattern_not_Nil [dest]: "idPattern s \<Longrightarrow> s \<noteq> []"
  by (auto simp: idPattern_def first_rest_not_Nil)

section \<open>Artifact references stay inside the workspace\<close>

text \<open>
  \<open>workspaceRelativePath\<close>: the part after the prefix, cleaned; absolute paths, the
  workspace root itself and anything that climbs out of it are refused.
\<close>

definition workspaceRelativePath :: "string \<Rightarrow> ledger_error + string" where
  "workspaceRelativePath reference =
     (if \<not> has_prefix reference ''bcgos://workspace/''
      then Inl (Msg ''artifact target must be a workspace logical reference'')
      else let clean = path_clean (trim_prefix reference ''bcgos://workspace/'') in
        if clean = ''.'' \<or> has_prefix clean ''/'' \<or> clean = ''..'' \<or> has_prefix clean ''../''
        then Inl (Msg ''artifact target escapes the workspace'')
        else Inr clean)"

definition allowedCommand :: "string list \<Rightarrow> bool" where
  "allowedCommand command \<longleftrightarrow>
     command = [''go'', ''version''] \<or> command = [''go'', ''test'', ''./...'']
     \<or> command = [''go'', ''vet'', ''./...'']"

section \<open>Ed25519 keys in the contract\<close>

definition b64_value :: "char \<Rightarrow> char \<Rightarrow> char \<Rightarrow> nat option" where
  "b64_value c62 c63 c =
     (if is_upper c then Some (byte_of c - 65)
      else if is_lower c then Some (byte_of c - 71)
      else if is_digit c then Some (byte_of c + 4)
      else if c = c62 then Some 62 else if c = c63 then Some 63 else None)"

fun b64_groups :: "nat list \<Rightarrow> nat list option" where
  "b64_groups [] = Some []"
| "b64_groups [a] = None"
| "b64_groups [a, b] = Some [4 * a + b div 16]"
| "b64_groups [a, b, c] = Some [4 * a + b div 16, 16 * (b mod 16) + c div 4]"
| "b64_groups (a # b # c # d # r) =
     map_option (\<lambda>t. [4 * a + b div 16, 16 * (b mod 16) + c div 4, 64 * (c mod 4) + d] @ t)
       (b64_groups r)"

text \<open>
  Unpadded base64 with the two last alphabet characters given: line breaks are skipped,
  any other foreign character is an error, and so is a single character left over.
\<close>

definition b64_decode :: "char \<Rightarrow> char \<Rightarrow> string \<Rightarrow> string option" where
  "b64_decode c62 c63 s =
     (let vs = map (b64_value c62 c63) (filter (\<lambda>c. c \<noteq> CHR 0x0A \<and> c \<noteq> CHR 0x0D) s)
      in if None \<in> set vs then None
         else map_option (map char_of) (b64_groups (map the vs)))"

definition RawURL_decode :: "string \<Rightarrow> string option" where
  "RawURL_decode = b64_decode (CHR ''-'') (CHR ''_'')"

definition RawStd_decode :: "string \<Rightarrow> string option" where
  "RawStd_decode = b64_decode (CHR ''+'') (CHR ''/'')"

definition decodeYodaPublicKey :: "string \<Rightarrow> ledger_error + string" where
  "decodeYodaPublicKey encoded =
     (case RawURL_decode (TrimSpace encoded) of
        Some key \<Rightarrow> if length key = 32 then Inr key else Inl (Msg ''invalid Yoda Ed25519 public key'')
      | None \<Rightarrow> Inl (Msg ''invalid Yoda Ed25519 public key''))"

definition safeCustodyIdentity :: "string \<Rightarrow> bool" where
  "safeCustodyIdentity v \<longleftrightarrow> v \<noteq> [] \<and> len v \<le> 96 \<and> list_all id_char v"

definition validateYodaContractSettings ::
    "bool \<Rightarrow> string \<Rightarrow> string \<Rightarrow> string \<Rightarrow> ledger_error + unit" where
  "validateYodaContractSettings required key keyID installationID =
     (if \<not> required then
        fail_if (TrimSpace key \<noteq> [] \<or> TrimSpace keyID \<noteq> [] \<or> TrimSpace installationID \<noteq> [])
          (Msg ''Yoda public key requires the review gate'')
      else checks
        [fail_if (\<not> safeCustodyIdentity keyID \<or> \<not> safeCustodyIdentity installationID)
           (Msg ''Yoda review custody identity is required''),
         bind_r (decodeYodaPublicKey key) (\<lambda>_. Inr ())])"

section \<open>Inputs\<close>

definition valid_ref :: "string \<Rightarrow> ledger_error + unit" where
  "valid_ref r = fail_if (len r > 512 \<or> \<not> logicalRefPattern r) (Msg ''invalid logical reference'')"

definition criterion_shape :: "string list \<Rightarrow> Criterion \<Rightarrow> ledger_error + unit" where
  "criterion_shape allowed c =
     (case cr_Type c of
        CriterionArtifactSnapshot \<Rightarrow> checks
          [fail_if (cr_TargetRef c = [] \<or> cr_TargetRef c \<notin> set allowed \<or> cr_Command c \<noteq> [])
             (Msg ''artifact criterion requires one allowed target_ref and no command''),
           bind_r (workspaceRelativePath (cr_TargetRef c)) (\<lambda>_. Inr ())]
      | CriterionCommandCheck \<Rightarrow>
          fail_if (cr_TargetRef c \<noteq> [] \<or> \<not> allowedCommand (cr_Command c))
            (Msg ''command criterion contains an unsupported command'')
      | CriterionOther _ \<Rightarrow> Inl (Msg ''unsupported completion criterion type''))"

fun valid_criteria :: "string list \<Rightarrow> string list \<Rightarrow> Criterion list \<Rightarrow> ledger_error + unit" where
  "valid_criteria allowed seen [] = Inr ()"
| "valid_criteria allowed seen (c # cs) = checks
     [validateID ''criterion'' (cr_ID c),
      fail_if (cr_ID c \<in> set seen) (Msg ''duplicate completion criterion''),
      criterion_shape allowed c,
      valid_criteria allowed (cr_ID c # seen) cs]"

definition validateCreateInput :: "CreateInput \<Rightarrow> ledger_error + unit" where
  "validateCreateInput i =
     (let objective = TrimSpace (ci_Objective i); nxt = TrimSpace (ci_InitialNextStep i) in checks
       ([validateID ''workspace'' (ci_WorkspaceID i),
         validateYodaContractSettings (ci_RequireYodaReview i) (ci_YodaPublicKey i)
           (ci_YodaKeyID i) (ci_YodaInstallationID i),
         fail_if (objective = [] \<or> len objective > 4096)
           (Msg ''execution objective must contain 1 to 4096 bytes''),
         fail_if (nxt = [] \<or> len nxt > 2048)
           (Msg ''initial next step must contain 1 to 2048 bytes''),
         fail_if (ci_Criteria i = []) (Msg ''at least one completion criterion is required'')]
        @ map valid_ref (ci_AllowedRefs i)
        @ [valid_criteria (ci_AllowedRefs i) [] (ci_Criteria i)]))"

fun distinct_refs :: "string list \<Rightarrow> string list \<Rightarrow> ledger_error + unit" where
  "distinct_refs seen [] = Inr ()"
| "distinct_refs seen (r # rs) = checks
     [valid_ref r,
      fail_if (r \<in> set seen) (Msg ''duplicate checkpoint artifact reference''),
      distinct_refs (r # seen) rs]"

definition validateCheckpointInput :: "CheckpointInput \<Rightarrow> ledger_error + unit" where
  "validateCheckpointInput i =
     (let summary = TrimSpace (ki_Summary i); nxt = TrimSpace (ki_NextStep i) in checks
       [fail_if (ki_ExpectedRevision i < 1) (Msg ''checkpoint expected revision must be positive''),
        validateID ''attempt'' (ki_AttemptID i),
        fail_if (summary = [] \<or> len summary > MaximumCheckpointSummaryBytes)
          (Msg ''checkpoint summary must contain 1 to 768 bytes''),
        fail_if (nxt = [] \<or> len nxt > MaximumCheckpointNextStepBytes)
          (Msg ''checkpoint next step must contain 1 to 768 bytes''),
        fail_if (len (TrimSpace (ki_Blocker i)) > MaximumCheckpointBlockerBytes)
          (Msg ''checkpoint blocker must contain at most 256 bytes''),
        fail_if (len (ki_ArtifactRefs i) > MaximumCheckpointArtifactRefs)
          (Msg ''checkpoint may contain at most 8 artifact references''),
        distinct_refs [] (ki_ArtifactRefs i)])"

section \<open>Ledger documents\<close>

definition validateContract :: "Contract \<Rightarrow> ledger_error + unit" where
  "validateContract c = checks
     [fail_if (ct_SchemaVersion c \<noteq> 1 \<or> ct_ContractVersion c \<noteq> 1
               \<or> ct_AuthorityKind c \<noteq> AuthorityLocalExecution \<or> is_zero (ct_CreatedAt c))
        (Msg ''invalid execution contract header''),
      fail_if (ct_ItemID c = []) (Msg ''execution contract item ID is required''),
      validateCreateInput
        \<lparr>ci_WorkspaceID = ct_WorkspaceID c, ci_Objective = ct_Objective c,
         ci_InitialNextStep = ct_InitialNextStep c, ci_Criteria = ct_Criteria c,
         ci_AllowedRefs = ct_AllowedRefs c, ci_RequireYodaReview = ct_RequireYodaReview c,
         ci_YodaPublicKey = ct_YodaPublicKey c, ci_YodaKeyID = ct_YodaKeyID c,
         ci_YodaInstallationID = ct_YodaInstallationID c\<rparr>]"

fun known_item_state :: "ItemState \<Rightarrow> bool" where
  "known_item_state (StateOther _) = False"
| "known_item_state _ = True"

fun known_attempt_state :: "AttemptState \<Rightarrow> bool" where
  "known_attempt_state (AttemptOther _) = False"
| "known_attempt_state _ = True"

definition validateState :: "State \<Rightarrow> ledger_error + unit" where
  "validateState s = checks
     [fail_if (st_SchemaVersion s \<noteq> 1 \<or> st_ContractVersion s \<noteq> 1 \<or> st_StateRevision s < 1
               \<or> is_zero (st_CreatedAt s) \<or> is_zero (st_UpdatedAt s))
        (Msg ''invalid execution state header''),
      validateID ''workspace'' (st_WorkspaceID s),
      validateID ''item'' (st_ItemID s),
      fail_if (\<not> known_item_state (st_State s)) (Msg ''invalid execution item state''),
      fail_if (length (st_ContractSHA256 s) \<noteq> 64) (Msg ''invalid execution contract digest''),
      if st_ActiveAttemptID s \<noteq> [] then validateID ''attempt'' (st_ActiveAttemptID s) else Inr ()]"

definition validateAttempt :: "Attempt \<Rightarrow> ledger_error + unit" where
  "validateAttempt a = checks
     [fail_if (at_SchemaVersion a \<noteq> 1 \<or> is_zero (at_StartedAt a))
        (Msg ''invalid execution attempt header''),
      validateID ''workspace'' (at_WorkspaceID a),
      validateID ''item'' (at_ItemID a),
      validateID ''attempt'' (at_AttemptID a),
      fail_if (\<not> known_attempt_state (at_State a)) (Msg ''invalid execution attempt state'')]"

definition validateCheckpoint :: "Checkpoint \<Rightarrow> ledger_error + unit" where
  "validateCheckpoint c = checks
     [fail_if (cp_SchemaVersion c \<noteq> 1 \<or> is_zero (cp_CreatedAt c))
        (Msg ''invalid execution checkpoint header''),
      validateID ''workspace'' (cp_WorkspaceID c),
      validateID ''item'' (cp_ItemID c),
      validateID ''attempt'' (cp_AttemptID c),
      validateID ''checkpoint'' (cp_CheckpointID c),
      validateCheckpointInput
        \<lparr>ki_ExpectedRevision = 1, ki_AttemptID = cp_AttemptID c, ki_Summary = cp_Summary c,
         ki_NextStep = cp_NextStep c, ki_Blocker = cp_Blocker c,
         ki_ArtifactRefs = cp_ArtifactRefs c\<rparr>]"

definition validateTransition :: "Transition \<Rightarrow> ledger_error + unit" where
  "validateTransition t = checks
     [fail_if (tr_SchemaVersion t \<noteq> 1 \<or> tr_StateRevision t < 1 \<or> is_zero (tr_OccurredAt t))
        (Msg ''invalid execution transition header''),
      validateID ''workspace'' (tr_WorkspaceID t),
      validateID ''item'' (tr_ItemID t),
      if tr_AttemptID t \<noteq> [] then validateID ''attempt'' (tr_AttemptID t) else Inr (),
      fail_if (\<not> known_item_state (tr_State t)) (Msg ''invalid execution transition state'')]"

definition validateEvidenceReceipt :: "EvidenceReceipt \<Rightarrow> ledger_error + unit" where
  "validateEvidenceReceipt e = checks
     [fail_if (ev_SchemaVersion e \<noteq> 1 \<or> is_zero (ev_ObservedAt e))
        (Msg ''invalid execution evidence header''),
      validateID ''workspace'' (ev_WorkspaceID e),
      validateID ''item'' (ev_ItemID e),
      validateID ''attempt'' (ev_AttemptID e),
      validateID ''criterion'' (ev_CriterionID e),
      validateID ''evidence'' (ev_EvidenceID e),
      fail_if (ev_Outcome e \<noteq> EvidencePassed \<and> ev_Outcome e \<noteq> EvidenceFailed)
        (Msg ''invalid evidence outcome''),
      (case ev_Type e of
         CriterionArtifactSnapshot \<Rightarrow>
           fail_if (ev_TargetRef e = [] \<or> length (ev_ArtifactSHA256 e) \<noteq> 64
                    \<or> ev_CommandSHA256 e \<noteq> [] \<or> ev_ToolSHA256 e \<noteq> [] \<or> ev_ExitCode e \<noteq> None)
             (Msg ''invalid artifact evidence receipt'')
       | CriterionCommandCheck \<Rightarrow>
           fail_if (length (ev_CommandSHA256 e) \<noteq> 64 \<or> length (ev_ToolSHA256 e) \<noteq> 64
                    \<or> ev_TargetRef e \<noteq> [] \<or> ev_ArtifactSHA256 e \<noteq> [] \<or> ev_ExitCode e = None)
             (Msg ''invalid command evidence receipt'')
       | CriterionOther _ \<Rightarrow> Inl (Msg ''invalid evidence type''))]"

definition canonicalToolCallAgents :: "string list" where
  "canonicalToolCallAgents = [''claude'', ''codex'', ''maestro-core'']"

definition canonicalToolCallTools :: "string list" where
  "canonicalToolCallTools =
     [''browser'', ''filesystem-read'', ''filesystem-write'', ''git'', ''github'', ''other'',
      ''shell'', ''skill'', ''subagent'', ''web'']"

definition validateToolCallReceipt :: "ToolCallReceipt \<Rightarrow> ledger_error + unit" where
  "validateToolCallReceipt t = checks
     [fail_if (tc_SchemaVersion t \<noteq> 1 \<or> is_zero (tc_StartedAt t))
        (Msg ''invalid tool call receipt header''),
      validateID ''workspace'' (tc_WorkspaceID t),
      validateID ''item'' (tc_ItemID t),
      validateID ''attempt'' (tc_AttemptID t),
      validateID ''tool-call'' (tc_ToolCallID t),
      validateID ''agent'' (tc_AgentID t),
      validateID ''tool'' (tc_ToolID t),
      fail_if (tc_AgentID t \<notin> set canonicalToolCallAgents) (Msg ''unsupported canonical agent ID''),
      fail_if (tc_ToolID t \<notin> set canonicalToolCallTools) (Msg ''unsupported canonical tool ID''),
      (case tc_State t of
         ToolCallStarted \<Rightarrow>
           fail_if (tc_FinishedAt t \<noteq> None) (Msg ''started tool call cannot have a finish time'')
       | ToolCallOther _ \<Rightarrow> Inl (Msg ''invalid tool call state'')
       | _ \<Rightarrow> (case tc_FinishedAt t of
                None \<Rightarrow> Inl (Msg ''terminal tool call requires a valid finish time'')
              | Some f \<Rightarrow> fail_if (f < tc_StartedAt t)
                            (Msg ''terminal tool call requires a valid finish time'')))]"

definition validateYodaReviewReceipt :: "YodaReviewReceipt \<Rightarrow> ledger_error + unit" where
  "validateYodaReviewReceipt r = checks
     [fail_if (yr_SchemaVersion r \<noteq> 1 \<or> is_zero (yr_ObservedAt r) \<or> yr_ReviewedRevision r < 1
               \<or> yr_RecordedRevision r \<noteq> wrap64 (yr_ReviewedRevision r + 1))
        (Msg ''invalid Yoda review receipt header''),
      validateID ''workspace'' (yr_WorkspaceID r),
      validateID ''item'' (yr_ItemID r),
      validateID ''attempt'' (yr_AttemptID r),
      validateID ''review'' (yr_ReviewID r),
      fail_if (\<not> safeCustodyIdentity (yr_SignerKeyID r) \<or> \<not> safeCustodyIdentity (yr_InstallationID r)
               \<or> yr_CustodyScope r \<noteq> YodaReviewScope)
        (Msg ''invalid Yoda review custody identity''),
      fail_if (yr_Decision r \<noteq> YodaReviewApproved \<and> yr_Decision r \<noteq> YodaReviewRejected)
        (Msg ''invalid Yoda review receipt decision''),
      fail_if (length (yr_ContractSHA256 r) \<noteq> 64) (Msg ''invalid Yoda review contract digest''),
      fail_if (length (yr_SignerSHA256 r) \<noteq> 64) (Msg ''invalid Yoda review signer digest''),
      fail_if (length (yr_EnvelopeSHA256 r) \<noteq> 64) (Msg ''invalid Yoda review envelope digest'')]"

section \<open>Revisions\<close>

text \<open>The attempt of a revision must fit the state of the item; the last part of \<open>validateRevision\<close>.\<close>

definition attempt_fits :: "State \<Rightarrow> Checkpoint option \<Rightarrow> Attempt \<Rightarrow> ledger_error + unit" where
  "attempt_fits s c a =
     (case st_State s of
        StateRunning \<Rightarrow>
          fail_if (at_State a \<noteq> AttemptActive \<or> at_AttemptID a \<noteq> st_ActiveAttemptID s)
            (Msg ''running execution revision requires its active attempt'')
      | StatePaused \<Rightarrow>
          fail_if (at_State a \<noteq> AttemptInterrupted \<or> st_ActiveAttemptID s \<noteq> [] \<or> c = None)
            (Msg ''paused execution revision requires an interrupted attempt and checkpoint'')
      | StateCompleted \<Rightarrow>
          fail_if (at_State a \<noteq> AttemptCompleted \<or> st_ActiveAttemptID s \<noteq> [])
            (Msg ''completed execution revision requires its completed attempt'')
      | _ \<Rightarrow> fail_if (st_ActiveAttemptID s \<noteq> [])
            (Msg ''non-running execution revision cannot retain an active attempt''))"

definition validateRevision :: "Revision \<Rightarrow> ledger_error + unit" where
  "validateRevision r =
     (let s = rv_State r; t = rv_Transition r in checks
       [fail_if (rv_SchemaVersion r \<noteq> 1) (Msg ''invalid execution revision header''),
        validateState s,
        validateTransition t,
        fail_if (st_ItemID s \<noteq> tr_ItemID t \<or> st_WorkspaceID s \<noteq> tr_WorkspaceID t
                 \<or> st_State s \<noteq> tr_State t \<or> st_StateRevision s \<noteq> tr_StateRevision t)
          (Msg ''execution revision state and transition do not match''),
        when_some (rv_Checkpoint r) (\<lambda>c. checks
          [validateCheckpoint c,
           fail_if (cp_ItemID c \<noteq> st_ItemID s \<or> cp_WorkspaceID c \<noteq> st_WorkspaceID s)
             (Msg ''execution revision checkpoint does not match state'')]),
        when_some (rv_Evidence r) (\<lambda>e. checks
          [validateEvidenceReceipt e,
           fail_if (ev_ItemID e \<noteq> st_ItemID s \<or> ev_WorkspaceID e \<noteq> st_WorkspaceID s
                    \<or> ev_AttemptID e \<noteq> tr_AttemptID t)
             (Msg ''execution revision evidence does not match state'')]),
        when_some (rv_ToolCall r) (\<lambda>c. checks
          [fail_if (rv_Evidence r \<noteq> None)
             (Msg ''execution revision cannot contain both evidence and a tool call''),
           fail_if (rv_YodaReview r \<noteq> None)
             (Msg ''execution revision cannot contain multiple mutation receipts''),
           validateToolCallReceipt c,
           fail_if (tc_ItemID c \<noteq> st_ItemID s \<or> tc_WorkspaceID c \<noteq> st_WorkspaceID s
                    \<or> tc_AttemptID c \<noteq> tr_AttemptID t)
             (Msg ''execution revision tool call does not match state''),
           fail_if (st_State s \<noteq> StateRunning)
             (Msg ''execution tool call revision requires a running item'')]),
        when_some (rv_YodaReview r) (\<lambda>y. checks
          [fail_if (rv_Evidence r \<noteq> None)
             (Msg ''execution revision cannot contain multiple mutation receipts''),
           validateYodaReviewReceipt y,
           fail_if (yr_ItemID y \<noteq> st_ItemID s \<or> yr_WorkspaceID y \<noteq> st_WorkspaceID s
                    \<or> yr_AttemptID y \<noteq> tr_AttemptID t
                    \<or> yr_RecordedRevision y \<noteq> st_StateRevision s)
             (Msg ''execution Yoda review does not match state''),
           fail_if (st_State s \<noteq> StateRunning)
             (Msg ''Yoda review revision requires a running item'')]),
        (case rv_Attempt r of
           None \<Rightarrow> fail_if (st_ActiveAttemptID s \<noteq> [] \<or> tr_AttemptID t \<noteq> [])
                     (Msg ''execution revision is missing its active attempt'')
         | Some a \<Rightarrow> checks
             [validateAttempt a,
              fail_if (at_AttemptID a \<noteq> tr_AttemptID t \<or> at_ItemID a \<noteq> st_ItemID s
                       \<or> at_WorkspaceID a \<noteq> st_WorkspaceID s)
                (Msg ''execution revision attempt does not match state''),
              attempt_fits s (rv_Checkpoint r) a])])"

section \<open>The bounded projection\<close>

definition nextProjection :: "Contract \<Rightarrow> State \<Rightarrow> Checkpoint option \<Rightarrow> NextProjection" where
  "nextProjection c s cp =
     (case cp of
        None \<Rightarrow> \<lparr>np_SchemaVersion = 1, np_ItemID = st_ItemID s, np_State = st_State s,
                 np_StateRevision = st_StateRevision s, np_AttemptID = st_ActiveAttemptID s,
                 np_Summary = [], np_NextStep = ct_InitialNextStep c, np_Blocker = [],
                 np_ArtifactRefs = [], np_CheckpointAt = None\<rparr>
      | Some k \<Rightarrow> \<lparr>np_SchemaVersion = 1, np_ItemID = st_ItemID s, np_State = st_State s,
                 np_StateRevision = st_StateRevision s, np_AttemptID = st_ActiveAttemptID s,
                 np_Summary = cp_Summary k, np_NextStep = cp_NextStep k, np_Blocker = cp_Blocker k,
                 np_ArtifactRefs = cp_ArtifactRefs k, np_CheckpointAt = Some (cp_CreatedAt k)\<rparr>)"

definition validateNextProjection :: "NextProjection \<Rightarrow> ledger_error + unit" where
  "validateNextProjection p = checks
     [fail_if (np_SchemaVersion p \<noteq> 1 \<or> np_StateRevision p < 1 \<or> TrimSpace (np_NextStep p) = [])
        (Msg ''invalid next-action projection''),
      validateID ''item'' (np_ItemID p),
      fail_if (\<not> encodable (projection_json p)) (Msg ''year outside of range''),
      fail_if (len (marshal (projection_json p)) + 1 > MaximumNextProjectionBytes)
        (Msg ''next-action projection exceeds 2048 bytes'')]"

section \<open>What validated values satisfy\<close>

lemma validateState_ok [valid_simps]:
  "validateState s = Inr u \<longleftrightarrow>
     st_SchemaVersion s = 1 \<and> st_ContractVersion s = 1 \<and> 1 \<le> st_StateRevision s
     \<and> st_CreatedAt s \<noteq> 0 \<and> st_UpdatedAt s \<noteq> 0
     \<and> workspaceIDPattern (st_WorkspaceID s) \<and> idPattern (st_WorkspaceID s) \<and> idPattern (st_ItemID s)
     \<and> known_item_state (st_State s) \<and> length (st_ContractSHA256 s) = 64
     \<and> (st_ActiveAttemptID s \<noteq> [] \<longrightarrow> idPattern (st_ActiveAttemptID s))"
  by (auto simp: validateState_def validateID_ok is_zero_def)

lemma validateTransition_ok [valid_simps]:
  "validateTransition t = Inr u \<longleftrightarrow>
     tr_SchemaVersion t = 1 \<and> 1 \<le> tr_StateRevision t \<and> tr_OccurredAt t \<noteq> 0
     \<and> workspaceIDPattern (tr_WorkspaceID t) \<and> idPattern (tr_WorkspaceID t) \<and> idPattern (tr_ItemID t)
     \<and> (tr_AttemptID t \<noteq> [] \<longrightarrow> idPattern (tr_AttemptID t)) \<and> known_item_state (tr_State t)"
  by (auto simp: validateTransition_def validateID_ok is_zero_def)

lemma validateAttempt_ok [valid_simps]:
  "validateAttempt a = Inr u \<longleftrightarrow>
     at_SchemaVersion a = 1 \<and> at_StartedAt a \<noteq> 0
     \<and> workspaceIDPattern (at_WorkspaceID a) \<and> idPattern (at_WorkspaceID a) \<and> idPattern (at_ItemID a)
     \<and> idPattern (at_AttemptID a) \<and> known_attempt_state (at_State a)"
  by (auto simp: validateAttempt_def validateID_ok is_zero_def)

lemma attempt_fits_ok [valid_simps]:
  "attempt_fits s c a = Inr u \<longleftrightarrow>
     (st_State s = StateRunning \<longrightarrow> at_State a = AttemptActive \<and> at_AttemptID a = st_ActiveAttemptID s)
     \<and> (st_State s = StatePaused \<longrightarrow> at_State a = AttemptInterrupted \<and> st_ActiveAttemptID s = [] \<and> c \<noteq> None)
     \<and> (st_State s = StateCompleted \<longrightarrow> at_State a = AttemptCompleted \<and> st_ActiveAttemptID s = [])
     \<and> (st_State s \<noteq> StateRunning \<longrightarrow> st_ActiveAttemptID s = [])"
  by (cases "st_State s") (auto simp: attempt_fits_def)

end
