(* ===== verification/ExecLedger.thy ===== *)
theory ExecLedger
  imports ExecValidate
begin

text \<open>
  The files of the execution ledger and the primitive operations on them
  (\<open>internal/execution/store.go\<close> and \<open>filesystem_unix.go\<close>). A workspace holds a directory
  of items; an item directory holds the immutable contract, the revisions directory (the
  authority), the \<open>state.json\<close> projection and the mutation lock. A document is kept as
  the value that was written; reading it applies \<open>decode_contract\<close> or \<open>decode_revision\<close>,
  which is what encoding with \<open>encoding/json\<close> and strict decoding make of that value.

  What the operating system decides is in the environment: the clock, the random
  identifiers, the calls it refuses (\<open>e_OS\<close>, by name) and the digests and signatures.
\<close>

section \<open>Documents and directories\<close>

datatype rev_entry = RevDoc Revision | BadDoc | RevDir

record lock_dir =
  lk_Owner :: string
  lk_ModTime :: time

record item_dir =
  id_Contract :: "Contract option"
  id_State :: "State option"
  id_Revisions :: "(string \<times> rev_entry) list option"
  id_Lock :: "lock_dir option"

datatype items_entry = ItemDir item_dir | PlainFile

type_synonym ledger = "string \<Rightarrow> (string \<times> items_entry) list option"

record env =
  e_Root :: string
  e_Clock :: "nat \<Rightarrow> time"
  e_LockNow :: time
  e_NewID :: "string \<Rightarrow> ledger_error + string"
  e_Fault :: "string \<Rightarrow> ledger_error option"
  e_OS :: "string \<Rightarrow> ledger_error option"
  e_Token :: string
  e_SHA256 :: "string \<Rightarrow> string"
  e_Verify :: "string \<Rightarrow> string \<Rightarrow> string \<Rightarrow> bool"

definition empty_dir :: item_dir where
  "empty_dir = \<lparr>id_Contract = None, id_State = None, id_Revisions = None, id_Lock = None\<rparr>"

definition get_entry :: "ledger \<Rightarrow> string \<Rightarrow> string \<Rightarrow> items_entry option" where
  "get_entry L ws it = (case L ws of None \<Rightarrow> None | Some es \<Rightarrow> map_of es it)"

definition get_item :: "ledger \<Rightarrow> string \<Rightarrow> string \<Rightarrow> item_dir option" where
  "get_item L ws it = (case get_entry L ws it of Some (ItemDir d) \<Rightarrow> Some d | _ \<Rightarrow> None)"

definition put_item :: "ledger \<Rightarrow> string \<Rightarrow> string \<Rightarrow> item_dir \<Rightarrow> ledger" where
  "put_item L ws it d =
     L(ws := Some (AList.update it (ItemDir d) (case L ws of None \<Rightarrow> [] | Some es \<Rightarrow> es)))"

definition del_item :: "ledger \<Rightarrow> string \<Rightarrow> string \<Rightarrow> ledger" where
  "del_item L ws it = L(ws := map_option (AList.delete it) (L ws))"

lemma get_put_entry [simp]:
  "get_entry (put_item L ws it d) ws' it' =
     (if ws' = ws \<and> it' = it then Some (ItemDir d) else get_entry L ws' it')"
  by (auto simp: get_entry_def put_item_def update_conv' split: option.splits)

lemma get_put_item [simp]:
  "get_item (put_item L ws it d) ws' it' =
     (if ws' = ws \<and> it' = it then Some d else get_item L ws' it')"
  by (simp add: get_item_def)

lemma get_del_entry [simp]:
  "get_entry (del_item L ws it) ws' it' =
     (if ws' = ws \<and> it' = it then None else get_entry L ws' it')"
  by (auto simp: get_entry_def del_item_def delete_conv' split: option.splits)

lemma get_del_item [simp]:
  "get_item (del_item L ws it) ws' it' =
     (if ws' = ws \<and> it' = it then None else get_item L ws' it')"
  by (simp add: get_item_def)

lemma get_item_SomeD: "get_item L ws it = Some d \<Longrightarrow> get_entry L ws it = Some (ItemDir d)"
  by (auto simp: get_item_def split: option.splits items_entry.splits)

section \<open>Writing and reading JSON documents\<close>

text \<open>
  \<open>encoding/json\<close> replaces invalid UTF-8, so the free text of a contract or a checkpoint
  may come back different; every other string of a validated document is ASCII.
\<close>

definition decode_contract :: "Contract \<Rightarrow> Contract" where
  "decode_contract c = c\<lparr>ct_Objective := to_valid_utf8 (ct_Objective c),
                         ct_InitialNextStep := to_valid_utf8 (ct_InitialNextStep c)\<rparr>"

definition decode_checkpoint :: "Checkpoint \<Rightarrow> Checkpoint" where
  "decode_checkpoint c = c\<lparr>cp_Summary := to_valid_utf8 (cp_Summary c),
                           cp_NextStep := to_valid_utf8 (cp_NextStep c),
                           cp_Blocker := to_valid_utf8 (cp_Blocker c)\<rparr>"

definition decode_revision :: "Revision \<Rightarrow> Revision" where
  "decode_revision r = r\<lparr>rv_Checkpoint := map_option decode_checkpoint (rv_Checkpoint r)\<rparr>"

definition fits_int64 :: "int \<Rightarrow> bool" where
  "fits_int64 n \<longleftrightarrow> min_int64 \<le> n \<and> n \<le> max_int64"

text \<open>\<open>boundedJSON\<close>: a document must encode and, with its newline, fit in 1 MiB.\<close>

definition boundedJSON :: "json \<Rightarrow> ledger_error + unit" where
  "boundedJSON j = checks
     [fail_if (\<not> encodable j) (Msg ''year outside of range''),
      fail_if (len (marshal_indent 0 j) + 1 > maximumLedgerJSONBytes)
        (Msg ''execution JSON exceeds size limit'')]"

text \<open>Strict decoding of a published revision; a number that overflows \<open>int\<close> is refused.\<close>

definition read_revision :: "rev_entry \<Rightarrow> ledger_error + Revision" where
  "read_revision x =
     (case x of
        RevDoc r \<Rightarrow>
          if fits_int64 (st_StateRevision (rv_State r)) then Inr (decode_revision r)
          else Inl (Msg ''json: cannot unmarshal number'')
      | BadDoc \<Rightarrow> Inl (Msg ''invalid execution JSON'')
      | RevDir \<Rightarrow> Inl ErrUnsafeLedgerFile)"

definition contractDigest :: "env \<Rightarrow> Contract \<Rightarrow> ledger_error + string" where
  "contractDigest e c =
     (if encodable (contract_json c) then Inr (e_SHA256 e (marshal (contract_json c)))
      else Inl (Msg ''year outside of range''))"

section \<open>Revision names\<close>

text \<open>\<open>fmt.Sprintf("%020d.json", revision)\<close>.\<close>

definition revisionName :: "int \<Rightarrow> string" where
  "revisionName n = (if n < 0 then CHR ''-'' # pad_nat 19 (nat (- n)) else pad_nat 20 (nat n)) @ ''.json''"

definition is_json_name :: "string \<Rightarrow> bool" where
  "is_json_name name \<longleftrightarrow> has_suffix name ''.json''"

lemma append_less_same_length:
  fixes xs ys :: "'a :: linorder list"
  shows "length xs = length ys \<Longrightarrow> xs @ zs < ys @ zs \<longleftrightarrow> xs < ys"
  by (induction xs ys rule: list_induct2) auto

lemma small_revision: "0 \<le> n \<Longrightarrow> n \<le> max_int64 \<Longrightarrow> nat n < 10 ^ 20"
  by (simp add: max_int64_def nat_less_iff)

lemma revisionName_less_iff:
  assumes "0 \<le> m" "m \<le> max_int64" "0 \<le> n" "n \<le> max_int64"
  shows "revisionName m < revisionName n \<longleftrightarrow> m < n"
  using assms small_revision [of m] small_revision [of n]
  by (auto simp: revisionName_def append_less_same_length pad_nat_less)

lemma revisionName_eq_iff:
  assumes "0 \<le> m" "m \<le> max_int64" "0 \<le> n" "n \<le> max_int64"
  shows "revisionName m = revisionName n \<longleftrightarrow> m = n"
  using assms small_revision [of m] small_revision [of n]
  by (auto simp: revisionName_def pad_nat_inj)

lemma revisionName_json [simp]: "is_json_name (revisionName n)"
  by (simp add: is_json_name_def revisionName_def has_suffix_def has_prefix_def)

section \<open>Listing and the newest revision\<close>

text \<open>\<open>ledgerReadDir\<close> lists a directory sorted by name.\<close>

definition ledgerReadDir :: "(string \<times> 'a) list option \<Rightarrow> ledger_error + (string \<times> 'a) list" where
  "ledgerReadDir d = (case d of None \<Rightarrow> Inl ErrNotExist | Some es \<Rightarrow> Inr (sort_key fst es))"

definition checked_revision :: "string \<times> rev_entry \<Rightarrow> ledger_error + Revision" where
  "checked_revision x = bind_r (read_revision (snd x)) (\<lambda>r.
     bind_r (validateRevision r) (\<lambda>_.
       if fst x \<noteq> revisionName (st_StateRevision (rv_State r))
       then Inl (Msg ''execution revision filename does not match its revision'') else Inr r))"

fun first_revision :: "(string \<times> rev_entry) list \<Rightarrow> ledger_error + Revision" where
  "first_revision [] = Inl ErrNotExist"
| "first_revision (x # xs) =
     (if \<not> is_json_name (fst x) then first_revision xs else checked_revision x)"

definition latestValidRevision :: "item_dir \<Rightarrow> ledger_error + Revision" where
  "latestValidRevision d =
     bind_r (ledgerReadDir (id_Revisions d)) (\<lambda>es. first_revision (rev es))"

section \<open>Inspection\<close>

definition validateItemInput :: "env \<Rightarrow> string \<Rightarrow> string \<Rightarrow> ledger_error + unit" where
  "validateItemInput e ws it = checks
     [validateStoreRoot (e_Root e), validateID ''workspace'' ws, validateID ''item'' it]"

definition readContract :: "item_dir \<Rightarrow> ledger_error + Contract" where
  "readContract d =
     (case id_Contract d of None \<Rightarrow> Inl ErrUnsafeLedgerFile | Some c \<Rightarrow> Inr (decode_contract c))"

definition inspect_dir :: "env \<Rightarrow> string \<Rightarrow> string \<Rightarrow> item_dir \<Rightarrow> ledger_error + Item" where
  "inspect_dir e ws it d =
     bind_r (readContract d) (\<lambda>contract.
     bind_r (validateContract contract) (\<lambda>_.
     bind_r (latestValidRevision d) (\<lambda>revision.
     let state = rv_State revision in
     bind_r (fail_if (ct_ItemID contract \<noteq> it \<or> st_ItemID state \<noteq> it
                      \<or> ct_WorkspaceID contract \<noteq> ws \<or> st_WorkspaceID state \<noteq> ws)
              (Msg ''execution item does not match requested workspace and item'')) (\<lambda>_.
     bind_r (contractDigest e contract) (\<lambda>digest.
     bind_r (fail_if (digest \<noteq> st_ContractSHA256 state) ErrContractChanged) (\<lambda>_.
     bind_r (when_some (rv_Attempt revision) (\<lambda>a.
              fail_if (at_ItemID a \<noteq> it \<or> at_WorkspaceID a \<noteq> ws)
                (Msg ''attempt does not match execution item''))) (\<lambda>_.
     Inr \<lparr>it_Contract = contract, it_State = state, it_Attempt = rv_Attempt revision,
          it_Checkpoint = rv_Checkpoint revision, it_Evidence = rv_Evidence revision\<rparr>)))))))"

definition inspectUnlocked :: "env \<Rightarrow> string \<Rightarrow> string \<Rightarrow> ledger \<Rightarrow> ledger_error + Item" where
  "inspectUnlocked e ws it L =
     (case get_item L ws it of None \<Rightarrow> Inl ErrUnsafeLedgerFile | Some d \<Rightarrow> inspect_dir e ws it d)"

definition Inspect :: "env \<Rightarrow> string \<Rightarrow> string \<Rightarrow> ledger \<Rightarrow> ledger_error + Item" where
  "Inspect e ws it L = bind_r (validateItemInput e ws it) (\<lambda>_. inspectUnlocked e ws it L)"

section \<open>Publication\<close>

text \<open>
  \<open>ledgerPublishJSON\<close> with \<open>immutable\<close> set: the temporary file is linked under the final
  name, and the link fails when the name exists. The revisions directory is not created.
\<close>

definition publish_link :: "string \<Rightarrow> 'a \<Rightarrow> (string \<times> 'a) list option \<Rightarrow> ledger_error + (string \<times> 'a) list" where
  "publish_link name x d =
     (case d of None \<Rightarrow> Inl ErrNotExist
      | Some es \<Rightarrow> if name \<in> set (map fst es) then Inl ErrExist else Inr (es @ [(name, x)]))"

definition os_call :: "env \<Rightarrow> string \<Rightarrow> ledger_error + unit" where
  "os_call e name = (case e_OS e name of None \<Rightarrow> Inr () | Some x \<Rightarrow> Inl x)"

definition fault :: "env \<Rightarrow> string \<Rightarrow> ledger_error + unit" where
  "fault e point = (case e_Fault e point of None \<Rightarrow> Inr () | Some x \<Rightarrow> Inl x)"

definition writeImmutableRevision ::
    "env \<Rightarrow> string \<Rightarrow> string \<Rightarrow> string \<Rightarrow> Revision \<Rightarrow> ledger \<Rightarrow> ledger_error + ledger" where
  "writeImmutableRevision e ws it name r L =
     bind_r (boundedJSON (revision_json r)) (\<lambda>_.
     bind_r (os_call e ''publish revision'') (\<lambda>_.
     (case get_item L ws it of
        None \<Rightarrow> Inl ErrNotExist
      | Some d \<Rightarrow> bind_r (publish_link name (RevDoc r) (id_Revisions d)) (\<lambda>es.
          Inr (put_item L ws it (d\<lparr>id_Revisions := Some es\<rparr>))))))"

text \<open>
  \<open>writeAtomicJSON\<close> of \<open>state.json\<close>: renames over the old projection and creates the
  directories on the way when they are missing.
\<close>

definition writeState :: "env \<Rightarrow> string \<Rightarrow> string \<Rightarrow> State \<Rightarrow> ledger \<Rightarrow> ledger_error + ledger" where
  "writeState e ws it s L =
     bind_r (boundedJSON (state_json s)) (\<lambda>_.
     bind_r (os_call e ''publish state'') (\<lambda>_.
     (case get_entry L ws it of
        Some PlainFile \<Rightarrow> Inl (ErrOS ''not a directory'')
      | Some (ItemDir d) \<Rightarrow> Inr (put_item L ws it (d\<lparr>id_State := Some s\<rparr>))
      | None \<Rightarrow> Inr (put_item L ws it (empty_dir\<lparr>id_State := Some s\<rparr>)))))"

definition commitRevision ::
    "env \<Rightarrow> string \<Rightarrow> string \<Rightarrow> Revision \<Rightarrow> ledger \<Rightarrow> (ledger_error + unit) \<times> ledger" where
  "commitRevision e ws it r L =
     (case bind_r (fault e ''before_revision_commit'') (\<lambda>_.
             writeImmutableRevision e ws it (revisionName (st_StateRevision (rv_State r))) r L) of
        Inl x \<Rightarrow> (Inl x, L)
      | Inr L1 \<Rightarrow>
          (case bind_r (fault e ''after_revision_commit'') (\<lambda>_. writeState e ws it (rv_State r) L1) of
             Inl x \<Rightarrow> (Inl x, L1)
           | Inr L2 \<Rightarrow> (fault e ''after_state_projection'', L2)))"

section \<open>The mutation lock\<close>

text \<open>
  The lock is a directory whose owner file carries a random token. A lock older than two
  minutes is renamed away and taken over; anything else that exists means busy. Unlocking
  removes the owner file of this holder's token and leaves a lock taken over by another.
\<close>

definition acquire :: "env \<Rightarrow> string \<Rightarrow> string \<Rightarrow> item_dir \<Rightarrow> ledger \<Rightarrow> (ledger_error + unit) \<times> ledger" where
  "acquire e ws it d L =
     (case os_call e ''lock'' of
        Inl x \<Rightarrow> (Inl x, put_item L ws it (d\<lparr>id_Lock := None\<rparr>))
      | Inr _ \<Rightarrow> (Inr (), put_item L ws it
          (d\<lparr>id_Lock := Some \<lparr>lk_Owner = e_Token e, lk_ModTime = e_LockNow e\<rparr>\<rparr>)))"

definition lock :: "env \<Rightarrow> string \<Rightarrow> string \<Rightarrow> ledger \<Rightarrow> (ledger_error + unit) \<times> ledger" where
  "lock e ws it L =
     (case get_item L ws it of
        None \<Rightarrow> (Inl ErrNotExist, L)
      | Some d \<Rightarrow>
          (case id_Lock d of
             None \<Rightarrow> acquire e ws it d L
           | Some k \<Rightarrow>
               if time_sub (e_LockNow e) (lk_ModTime k) \<le> 2 * minute then (Inl ErrItemBusy, L)
               else (case os_call e ''rename stale lock'' of
                       Inl _ \<Rightarrow> (Inl ErrItemBusy, L)
                     | Inr _ \<Rightarrow> acquire e ws it d L)))"

definition unlock :: "env \<Rightarrow> string \<Rightarrow> string \<Rightarrow> ledger \<Rightarrow> ledger" where
  "unlock e ws it L =
     (case get_item L ws it of
        None \<Rightarrow> L
      | Some d \<Rightarrow> (case id_Lock d of
          None \<Rightarrow> L
        | Some k \<Rightarrow> if lk_Owner k = e_Token e then put_item L ws it (d\<lparr>id_Lock := None\<rparr>) else L))"

definition with_lock ::
    "env \<Rightarrow> string \<Rightarrow> string \<Rightarrow> (ledger \<Rightarrow> (ledger_error + 'a) \<times> ledger) \<Rightarrow> ledger
     \<Rightarrow> (ledger_error + 'a) \<times> ledger" where
  "with_lock e ws it body L =
     (case lock e ws it L of
        (Inl x, L1) \<Rightarrow> (Inl x, L1)
      | (Inr _, L1) \<Rightarrow> (case body L1 of (r, L2) \<Rightarrow> (r, unlock e ws it L2)))"

text \<open>
  The body every mutation shares: inspect under the lock, plan the next revision from the
  item (guards, identifiers, validation), commit it, return the plan's result.
\<close>

definition commit_plan ::
    "env \<Rightarrow> string \<Rightarrow> string \<Rightarrow> (ledger \<Rightarrow> Item \<Rightarrow> ledger_error + Revision \<times> 'a) \<Rightarrow> ledger
     \<Rightarrow> (ledger_error + 'a) \<times> ledger" where
  "commit_plan e ws it plan L =
     (case bind_r (inspectUnlocked e ws it L) (plan L) of
        Inl x \<Rightarrow> (Inl x, L)
      | Inr (r, out) \<Rightarrow>
          (case commitRevision e ws it r L of
             (Inl x, L') \<Rightarrow> (Inl x, L')
           | (Inr _, L') \<Rightarrow> (Inr out, L')))"

definition mutate ::
    "env \<Rightarrow> string \<Rightarrow> string \<Rightarrow> (ledger \<Rightarrow> Item \<Rightarrow> ledger_error + Revision \<times> 'a) \<Rightarrow> ledger
     \<Rightarrow> (ledger_error + 'a) \<times> ledger" where
  "mutate e ws it plan = with_lock e ws it (commit_plan e ws it plan)"

end
