(* ===== verification/ExecHistory.thy ===== *)
theory ExecHistory
  imports ExecLedger
begin

text \<open>
  The readers of an item's revision history (\<open>transitions\<close>, \<open>evidences\<close>, \<open>toolCalls\<close>,
  \<open>yodaReviews\<close>): each walks the revisions directory in name order, skips what is not a
  published document, fails closed on a document that does not decode or validate, and
  collects one kind of receipt.
\<close>

fun collect :: "(string \<times> rev_entry \<Rightarrow> ledger_error + 'a list) \<Rightarrow> (string \<times> rev_entry) list
    \<Rightarrow> ledger_error + 'a list" where
  "collect f [] = Inr []"
| "collect f (x # xs) =
     (if snd x = RevDir \<or> \<not> is_json_name (fst x) then collect f xs
      else bind_r (f x) (\<lambda>a. bind_r (collect f xs) (\<lambda>b. Inr (a @ b))))"

definition history ::
    "(string \<times> rev_entry \<Rightarrow> ledger_error + 'a list) \<Rightarrow> string \<Rightarrow> string \<Rightarrow> ledger
     \<Rightarrow> ledger_error + 'a list" where
  "history f ws it L =
     (case get_item L ws it of
        None \<Rightarrow> Inl ErrNotExist
      | Some d \<Rightarrow> bind_r (ledgerReadDir (id_Revisions d)) (collect f))"

text \<open>\<open>transitions\<close> checks the identity of each transition but not the file name.\<close>

definition transition_of :: "string \<Rightarrow> string \<Rightarrow> string \<times> rev_entry \<Rightarrow> ledger_error + Transition list" where
  "transition_of ws it x =
     bind_r (read_revision (snd x)) (\<lambda>r.
     bind_r (validateRevision r) (\<lambda>_.
     bind_r (validateTransition (rv_Transition r)) (\<lambda>_.
     if tr_WorkspaceID (rv_Transition r) \<noteq> ws \<or> tr_ItemID (rv_Transition r) \<noteq> it
     then Inl (Msg ''transition does not match execution item'')
     else Inr [rv_Transition r])))"

definition transitions :: "string \<Rightarrow> string \<Rightarrow> ledger \<Rightarrow> ledger_error + Transition list" where
  "transitions ws it = history (transition_of ws it) ws it"

text \<open>The other three reject a document that does not validate or is misnamed.\<close>

definition named_revision :: "string \<Rightarrow> string \<times> rev_entry \<Rightarrow> ledger_error + Revision" where
  "named_revision msg x =
     bind_r (read_revision (snd x)) (\<lambda>r.
       if validateRevision r \<noteq> Inr () \<or> fst x \<noteq> revisionName (st_StateRevision (rv_State r))
       then Inl (Msg msg) else Inr r)"

definition evidence_of :: "string \<times> rev_entry \<Rightarrow> ledger_error + EvidenceReceipt list" where
  "evidence_of x =
     bind_r (named_revision ''execution evidence belongs to an invalid revision'' x) (\<lambda>r.
       case rv_Evidence r of
         None \<Rightarrow> Inr []
       | Some e \<Rightarrow> bind_r (validateEvidenceReceipt e) (\<lambda>_. Inr [e]))"

definition evidences :: "string \<Rightarrow> string \<Rightarrow> ledger \<Rightarrow> ledger_error + EvidenceReceipt list" where
  "evidences = history evidence_of"

definition tool_call_of :: "string \<times> rev_entry \<Rightarrow> ledger_error + ToolCallReceipt list" where
  "tool_call_of x =
     bind_r (named_revision ''execution tool call belongs to an invalid revision'' x) (\<lambda>r.
       Inr (case rv_ToolCall r of None \<Rightarrow> [] | Some c \<Rightarrow> [c]))"

definition toolCalls :: "string \<Rightarrow> string \<Rightarrow> ledger \<Rightarrow> ledger_error + ToolCallReceipt list" where
  "toolCalls = history tool_call_of"

definition yoda_review_of :: "string \<times> rev_entry \<Rightarrow> ledger_error + YodaReviewReceipt list" where
  "yoda_review_of x =
     bind_r (named_revision ''Yoda review belongs to an invalid revision'' x) (\<lambda>r.
       Inr (case rv_YodaReview r of None \<Rightarrow> [] | Some y \<Rightarrow> [y]))"

definition yodaReviews :: "string \<Rightarrow> string \<Rightarrow> ledger \<Rightarrow> ledger_error + YodaReviewReceipt list" where
  "yodaReviews = history yoda_review_of"

text \<open>
  A map filled by a loop over the receipts keeps the last receipt of every key
  (\<open>latestEvidence\<close>, \<open>latestToolCalls\<close>).
\<close>

definition latest_by :: "('a \<Rightarrow> string) \<Rightarrow> 'a list \<Rightarrow> string \<Rightarrow> 'a option" where
  "latest_by key xs k = find (\<lambda>x. key x = k) (rev xs)"

definition latestEvidence :: "string \<Rightarrow> string \<Rightarrow> ledger \<Rightarrow> ledger_error + (string \<Rightarrow> EvidenceReceipt option)" where
  "latestEvidence ws it L = bind_r (evidences ws it L) (\<lambda>es. Inr (latest_by ev_CriterionID es))"

definition latestToolCalls :: "string \<Rightarrow> string \<Rightarrow> ledger \<Rightarrow> ledger_error + (string \<Rightarrow> ToolCallReceipt option)" where
  "latestToolCalls ws it L = bind_r (toolCalls ws it L) (\<lambda>cs. Inr (latest_by tc_ToolCallID cs))"

lemma latest_by_Some: "latest_by key xs k = Some x \<Longrightarrow> x \<in> set xs \<and> key x = k"
  unfolding latest_by_def by (drule find_Some_in) auto

lemma latest_by_snoc:
  "latest_by key (xs @ [x]) k = (if key x = k then Some x else latest_by key xs k)"
  by (simp add: latest_by_def)

lemma collect_append:
  "collect f (xs @ ys) = bind_r (collect f xs) (\<lambda>a. bind_r (collect f ys) (\<lambda>b. Inr (a @ b)))"
proof (induction xs)
  case Nil
  show ?case by (cases "collect f ys") simp_all
next
  case (Cons x xs)
  show ?case
    by (cases "f x"; cases "collect f xs"; cases "collect f ys") (simp_all add: Cons)
qed

end
