(* ===== verification/ExecOps.thy ===== *)
theory ExecOps
  imports ExecHistory
begin

text \<open>
  The operations of \<open>internal/execution/store.go\<close>: \<open>Create\<close>, \<open>Start\<close>, \<open>Checkpoint\<close>,
  \<open>Pause\<close>, \<open>Resume\<close>, \<open>Delete\<close> and the readers. Every mutation inspects the item under its
  lock, checks the caller's expected revision and the state, and plans one new revision; the
  plan is a pure function of the inspected item, \<open>commitRevision\<close> publishes it.
\<close>

section \<open>Revisions a mutation plans\<close>

text \<open>The transition every running mutation writes.\<close>

definition transition_to :: "State \<Rightarrow> string \<Rightarrow> string \<Rightarrow> string \<Rightarrow> time \<Rightarrow> Transition" where
  "transition_to s ws it attempt now =
     \<lparr>tr_SchemaVersion = 1, tr_ItemID = it, tr_WorkspaceID = ws, tr_AttemptID = attempt,
      tr_State = st_State s, tr_StateRevision = st_StateRevision s, tr_OccurredAt = now\<rparr>"

definition bump :: "State \<Rightarrow> time \<Rightarrow> State" where
  "bump s now = s\<lparr>st_StateRevision := wrap64 (st_StateRevision s + 1), st_UpdatedAt := now\<rparr>"

definition plain_revision :: "State \<Rightarrow> Attempt option \<Rightarrow> Checkpoint option \<Rightarrow> Transition \<Rightarrow> Revision" where
  "plain_revision s a c t =
     \<lparr>rv_SchemaVersion = 1, rv_State = s, rv_Attempt = a, rv_Checkpoint = c, rv_Evidence = None,
      rv_ToolCall = None, rv_YodaReview = None, rv_Transition = t\<rparr>"

definition active_attempt :: "Item \<Rightarrow> string \<Rightarrow> bool" where
  "active_attempt item attemptID \<longleftrightarrow>
     (case it_Attempt item of
        None \<Rightarrow> False
      | Some a \<Rightarrow> at_State a = AttemptActive \<and> st_ActiveAttemptID (it_State item) = attemptID
                  \<and> at_AttemptID a = attemptID)"

definition new_id :: "env \<Rightarrow> string \<Rightarrow> ledger_error + string" where
  "new_id e kind = bind_r (e_NewID e kind) (\<lambda>i. bind_r (validateID kind i) (\<lambda>_. Inr i))"

section \<open>Create\<close>

definition contract_of :: "CreateInput \<Rightarrow> string \<Rightarrow> time \<Rightarrow> Contract" where
  "contract_of i itemID now =
     \<lparr>ct_SchemaVersion = 1, ct_ContractVersion = 1, ct_ItemID = itemID,
      ct_WorkspaceID = ci_WorkspaceID i, ct_AuthorityKind = AuthorityLocalExecution,
      ct_Objective = TrimSpace (ci_Objective i),
      ct_InitialNextStep = TrimSpace (ci_InitialNextStep i),
      ct_Criteria = ci_Criteria i, ct_AllowedRefs = ci_AllowedRefs i,
      ct_RequireYodaReview = ci_RequireYodaReview i,
      ct_YodaPublicKey = TrimSpace (ci_YodaPublicKey i),
      ct_YodaKeyID = TrimSpace (ci_YodaKeyID i),
      ct_YodaInstallationID = TrimSpace (ci_YodaInstallationID i),
      ct_CreatedAt = now\<rparr>"

definition initial_state :: "string \<Rightarrow> string \<Rightarrow> string \<Rightarrow> time \<Rightarrow> State" where
  "initial_state ws itemID digest now =
     \<lparr>st_SchemaVersion = 1, st_ItemID = itemID, st_WorkspaceID = ws, st_State = StateReady,
      st_StateRevision = 1, st_ContractVersion = 1, st_ContractSHA256 = digest,
      st_ActiveAttemptID = [], st_CreatedAt = now, st_UpdatedAt = now\<rparr>"

definition create_plan :: "env \<Rightarrow> CreateInput \<Rightarrow> ledger_error + (Contract \<times> State \<times> Revision)" where
  "create_plan e i =
     bind_r (validateStoreRoot (e_Root e)) (\<lambda>_.
     bind_r (validateCreateInput i) (\<lambda>_.
     bind_r (new_id e ''item'') (\<lambda>itemID.
     let now = e_Clock e 0; contract = contract_of i itemID now in
     bind_r (contractDigest e contract) (\<lambda>digest.
     let state = initial_state (ci_WorkspaceID i) itemID digest now;
         transition = transition_to state (ci_WorkspaceID i) itemID [] now;
         revision = plain_revision state None None transition in
     bind_r (validateContract contract) (\<lambda>_.
     bind_r (validateState state) (\<lambda>_.
     bind_r (validateNextProjection (nextProjection contract state None)) (\<lambda>_.
     Inr (contract, state, revision))))))))"

text \<open>
  The item is staged in a directory of its own and renamed into place: nothing of it is
  visible until the rename, which fails when the destination exists and is not empty.
\<close>

definition create_dir :: "Contract \<Rightarrow> State \<Rightarrow> Revision \<Rightarrow> item_dir" where
  "create_dir c s r =
     \<lparr>id_Contract = Some c, id_State = Some s,
      id_Revisions = Some [(revisionName 1, RevDoc r)], id_Lock = None\<rparr>"

definition mkdir_items :: "string \<Rightarrow> ledger \<Rightarrow> ledger" where
  "mkdir_items ws L = L(ws := Some (case L ws of None \<Rightarrow> [] | Some es \<Rightarrow> es))"

definition Create :: "env \<Rightarrow> CreateInput \<Rightarrow> ledger \<Rightarrow> (ledger_error + Item) \<times> ledger" where
  "Create e i L =
     (case create_plan e i of
        Inl x \<Rightarrow> (Inl x, L)
      | Inr (c, s, r) \<Rightarrow>
          (case checks [os_call e ''stage'', boundedJSON (contract_json c), boundedJSON (state_json s),
                        boundedJSON (revision_json r), os_call e ''mkdir items''] of
             Inl x \<Rightarrow> (Inl x, L)
           | Inr _ \<Rightarrow>
               (let ws = ci_WorkspaceID i; it = ct_ItemID c; L1 = mkdir_items ws L in
                case os_call e ''rename item'' of
                  Inl x \<Rightarrow> (Inl x, L1)
                | Inr _ \<Rightarrow>
                    (case get_entry L1 ws it of
                       Some PlainFile \<Rightarrow> (Inl (ErrOS ''not a directory''), L1)
                     | Some (ItemDir d) \<Rightarrow>
                         if d \<noteq> empty_dir then (Inl ErrExist, L1)
                         else (Inr \<lparr>it_Contract = c, it_State = s, it_Attempt = None,
                                    it_Checkpoint = None, it_Evidence = None\<rparr>,
                               put_item L1 ws it (create_dir c s r))
                     | None \<Rightarrow>
                         (Inr \<lparr>it_Contract = c, it_State = s, it_Attempt = None,
                               it_Checkpoint = None, it_Evidence = None\<rparr>,
                          put_item L1 ws it (create_dir c s r))))))"

section \<open>Start\<close>

definition new_attempt :: "string \<Rightarrow> string \<Rightarrow> string \<Rightarrow> time \<Rightarrow> Attempt" where
  "new_attempt ws it attemptID now =
     \<lparr>at_SchemaVersion = 1, at_AttemptID = attemptID, at_ItemID = it, at_WorkspaceID = ws,
      at_State = AttemptActive, at_StartedAt = now\<rparr>"

definition start_plan :: "env \<Rightarrow> string \<Rightarrow> string \<Rightarrow> int \<Rightarrow> ledger \<Rightarrow> Item \<Rightarrow> ledger_error + Revision \<times> Item" where
  "start_plan e ws it expected L item =
     bind_r (fail_if (st_StateRevision (it_State item) \<noteq> expected) ErrRevisionConflict) (\<lambda>_.
     bind_r (fail_if (st_State (it_State item) \<noteq> StateReady)
              (Msg ''execution item must be ready to start'')) (\<lambda>_.
     bind_r (new_id e ''attempt'') (\<lambda>attemptID.
     let now = e_Clock e 0; attempt = new_attempt ws it attemptID now in
     bind_r (validateAttempt attempt) (\<lambda>_.
     let state = (bump (it_State item) now)\<lparr>st_State := StateRunning, st_ActiveAttemptID := attemptID\<rparr>;
         revision = plain_revision state (Some attempt) None (transition_to state ws it attemptID now) in
     bind_r (validateRevision revision) (\<lambda>_.
     Inr (revision, \<lparr>it_Contract = it_Contract item, it_State = state, it_Attempt = Some attempt,
                     it_Checkpoint = None, it_Evidence = None\<rparr>))))))"

definition Start :: "env \<Rightarrow> string \<Rightarrow> string \<Rightarrow> int \<Rightarrow> ledger \<Rightarrow> (ledger_error + Item) \<times> ledger" where
  "Start e ws it expected L =
     (case validateItemInput e ws it of
        Inl x \<Rightarrow> (Inl x, L)
      | Inr _ \<Rightarrow> mutate e ws it (start_plan e ws it expected) L)"

section \<open>Checkpoint\<close>

definition new_checkpoint :: "string \<Rightarrow> string \<Rightarrow> string \<Rightarrow> CheckpointInput \<Rightarrow> time \<Rightarrow> Checkpoint" where
  "new_checkpoint ws it checkpointID i now =
     \<lparr>cp_SchemaVersion = 1, cp_CheckpointID = checkpointID, cp_ItemID = it, cp_WorkspaceID = ws,
      cp_AttemptID = ki_AttemptID i, cp_Summary = TrimSpace (ki_Summary i),
      cp_NextStep = TrimSpace (ki_NextStep i), cp_Blocker = TrimSpace (ki_Blocker i),
      cp_ArtifactRefs = ki_ArtifactRefs i, cp_CreatedAt = now\<rparr>"

definition checkpoint_plan ::
    "env \<Rightarrow> string \<Rightarrow> string \<Rightarrow> CheckpointInput \<Rightarrow> ledger \<Rightarrow> Item \<Rightarrow> ledger_error + Revision \<times> Item" where
  "checkpoint_plan e ws it i L item =
     bind_r (fail_if (st_StateRevision (it_State item) \<noteq> ki_ExpectedRevision i) ErrRevisionConflict) (\<lambda>_.
     bind_r (fail_if (st_State (it_State item) \<noteq> StateRunning)
              (Msg ''execution item must be running to checkpoint'')) (\<lambda>_.
     bind_r (fail_if (\<not> active_attempt item (ki_AttemptID i)) ErrAttemptConflict) (\<lambda>_.
     bind_r (fail_if (\<not> list_all (\<lambda>r. r \<in> set (ct_AllowedRefs (it_Contract item))) (ki_ArtifactRefs i))
              (Msg ''checkpoint artifact reference is not allowed by the execution contract'')) (\<lambda>_.
     bind_r (new_id e ''checkpoint'') (\<lambda>checkpointID.
     let now = e_Clock e 0; checkpoint = new_checkpoint ws it checkpointID i now in
     bind_r (validateCheckpoint checkpoint) (\<lambda>_.
     let state = bump (it_State item) now;
         revision = plain_revision state (it_Attempt item) (Some checkpoint)
                      ((transition_to state ws it (ki_AttemptID i) now)\<lparr>tr_State := StateRunning\<rparr>) in
     bind_r (validateRevision revision) (\<lambda>_.
     bind_r (validateNextProjection (nextProjection (it_Contract item) state (Some checkpoint))) (\<lambda>_.
     Inr (revision, \<lparr>it_Contract = it_Contract item, it_State = state, it_Attempt = it_Attempt item,
                     it_Checkpoint = Some checkpoint, it_Evidence = None\<rparr>)))))))))"

definition Checkpoint :: "env \<Rightarrow> string \<Rightarrow> string \<Rightarrow> CheckpointInput \<Rightarrow> ledger \<Rightarrow> (ledger_error + Item) \<times> ledger" where
  "Checkpoint e ws it i L =
     (case checks [validateItemInput e ws it, validateCheckpointInput i] of
        Inl x \<Rightarrow> (Inl x, L)
      | Inr _ \<Rightarrow> mutate e ws it (checkpoint_plan e ws it i) L)"

section \<open>Pause and Resume\<close>

definition pause_plan ::
    "env \<Rightarrow> string \<Rightarrow> string \<Rightarrow> int \<Rightarrow> string \<Rightarrow> ledger \<Rightarrow> Item \<Rightarrow> ledger_error + Revision \<times> Item" where
  "pause_plan e ws it expected attemptID L item =
     bind_r (fail_if (st_StateRevision (it_State item) \<noteq> expected) ErrRevisionConflict) (\<lambda>_.
     bind_r (fail_if (st_State (it_State item) \<noteq> StateRunning)
              (Msg ''execution item must be running to pause'')) (\<lambda>_.
     bind_r (fail_if (\<not> active_attempt item attemptID) ErrAttemptConflict) (\<lambda>_.
     bind_r (fail_if (case it_Checkpoint item of None \<Rightarrow> True | Some c \<Rightarrow> cp_AttemptID c \<noteq> attemptID)
              (Msg ''current attempt must create a checkpoint before pause'')) (\<lambda>_.
     let now = e_Clock e 0;
         attempt = map_option (\<lambda>a. a\<lparr>at_State := AttemptInterrupted\<rparr>) (it_Attempt item);
         state = (bump (it_State item) now)\<lparr>st_State := StatePaused, st_ActiveAttemptID := []\<rparr>;
         revision = plain_revision state attempt (it_Checkpoint item)
                      (transition_to state ws it attemptID now) in
     bind_r (validateRevision revision) (\<lambda>_.
     Inr (revision, \<lparr>it_Contract = it_Contract item, it_State = state, it_Attempt = attempt,
                     it_Checkpoint = it_Checkpoint item, it_Evidence = None\<rparr>))))))"

definition Pause :: "env \<Rightarrow> string \<Rightarrow> string \<Rightarrow> int \<Rightarrow> string \<Rightarrow> ledger \<Rightarrow> (ledger_error + Item) \<times> ledger" where
  "Pause e ws it expected attemptID L =
     (case checks [validateItemInput e ws it, validateID ''attempt'' attemptID] of
        Inl x \<Rightarrow> (Inl x, L)
      | Inr _ \<Rightarrow> mutate e ws it (pause_plan e ws it expected attemptID) L)"

definition interrupted :: "Item \<Rightarrow> bool" where
  "interrupted item \<longleftrightarrow>
     it_Checkpoint item \<noteq> None \<and> map_option at_State (it_Attempt item) = Some AttemptInterrupted"

definition resume_plan ::
    "env \<Rightarrow> string \<Rightarrow> string \<Rightarrow> int \<Rightarrow> ledger \<Rightarrow> Item \<Rightarrow> ledger_error + Revision \<times> Item" where
  "resume_plan e ws it expected L item =
     bind_r (fail_if (st_StateRevision (it_State item) \<noteq> expected) ErrRevisionConflict) (\<lambda>_.
     bind_r (fail_if (st_State (it_State item) \<noteq> StatePaused)
              (Msg ''execution item must be paused to resume'')) (\<lambda>_.
     bind_r (fail_if (\<not> interrupted item)
              (Msg ''paused execution item is missing its checkpoint or interrupted attempt'')) (\<lambda>_.
     bind_r (new_id e ''attempt'') (\<lambda>attemptID.
     let now = e_Clock e 0; attempt = new_attempt ws it attemptID now;
         state = (bump (it_State item) now)\<lparr>st_State := StateRunning, st_ActiveAttemptID := attemptID\<rparr>;
         revision = plain_revision state (Some attempt) (it_Checkpoint item)
                      (transition_to state ws it attemptID now) in
     bind_r (validateRevision revision) (\<lambda>_.
     Inr (revision, \<lparr>it_Contract = it_Contract item, it_State = state, it_Attempt = Some attempt,
                     it_Checkpoint = it_Checkpoint item, it_Evidence = None\<rparr>))))))"

definition Resume :: "env \<Rightarrow> string \<Rightarrow> string \<Rightarrow> int \<Rightarrow> ledger \<Rightarrow> (ledger_error + Item) \<times> ledger" where
  "Resume e ws it expected L =
     (case validateItemInput e ws it of
        Inl x \<Rightarrow> (Inl x, L)
      | Inr _ \<Rightarrow> mutate e ws it (resume_plan e ws it expected) L)"

section \<open>Delete\<close>

text \<open>
  Deletion publishes a tombstone revision first, so that it takes part in the
  compare-and-swap of the revision names, then renames the item into the trash.
\<close>

definition tombstone :: "string \<Rightarrow> string \<Rightarrow> State \<Rightarrow> time \<Rightarrow> Revision" where
  "tombstone ws it s now =
     (let state = (bump s now)\<lparr>st_State := StateCancelled, st_ActiveAttemptID := []\<rparr>
      in plain_revision state None None (transition_to state ws it [] now))"

definition delete_plan :: "env \<Rightarrow> string \<Rightarrow> string \<Rightarrow> int \<Rightarrow> Item \<Rightarrow> ledger_error + Revision" where
  "delete_plan e ws it expected item =
     bind_r (fail_if (st_StateRevision (it_State item) \<noteq> expected) ErrRevisionConflict) (\<lambda>_.
     bind_r (fail_if (st_State (it_State item) = StateRunning \<or> st_State (it_State item) = StateEvaluating)
              (Msg ''execution item must be paused, ready, cancelled or completed before deletion'')) (\<lambda>_.
     let r = tombstone ws it (it_State item) (e_Clock e 0) in
     bind_r (validateRevision r) (\<lambda>_. Inr r)))"

definition delete_body :: "env \<Rightarrow> string \<Rightarrow> string \<Rightarrow> int \<Rightarrow> ledger \<Rightarrow> (ledger_error + unit) \<times> ledger" where
  "delete_body e ws it expected L =
     (case bind_r (inspectUnlocked e ws it L) (\<lambda>item.
             bind_r (delete_plan e ws it expected item) (\<lambda>r.
               writeImmutableRevision e ws it (revisionName (st_StateRevision (rv_State r))) r L)) of
        Inl x \<Rightarrow> (Inl x, L)
      | Inr L1 \<Rightarrow>
          (case checks [os_call e ''mkdir trash'', os_call e ''rename trash''] of
             Inl x \<Rightarrow> (Inl x, L1)
           | Inr _ \<Rightarrow> (os_call e ''remove trash'', del_item L1 ws it)))"

definition Delete :: "env \<Rightarrow> string \<Rightarrow> string \<Rightarrow> int \<Rightarrow> bool \<Rightarrow> ledger \<Rightarrow> (ledger_error + unit) \<times> ledger" where
  "Delete e ws it expected confirmed L =
     (case checks [fail_if (\<not> confirmed) ErrConfirmationRequired, validateItemInput e ws it] of
        Inl x \<Rightarrow> (Inl x, L)
      | Inr _ \<Rightarrow> with_lock e ws it (delete_body e ws it expected) L)"

end
