(* ===== verification/ExecEvidence.thy ===== *)
theory ExecEvidence
  imports ExecOps
begin

text \<open>
  Completion evidence (\<open>internal/execution/evidence.go\<close>): observing a criterion
  (\<open>witnessCriterion\<close>), recording the observation (\<open>CollectEvidence\<close>) and completing an
  item whose criteria hold (\<open>Complete\<close>). Both operations take the lock twice: they read
  under the first lock, observe the workspace without it, and re-check and commit under the
  second. The host (files, the Go toolchain) is a parameter, the record \<open>host\<close>.
\<close>

record host_file =
  hf_Regular :: bool
  hf_Content :: string

record host =
  h_Cwd :: string
  h_Open :: "string \<Rightarrow> ledger_error + host_file"
  h_IsDir :: "string \<Rightarrow> bool"
  h_GoTool :: "ledger_error + string"
  h_Exec :: "string \<Rightarrow> string \<Rightarrow> string list \<Rightarrow> ledger_error + int"

record EvidenceInput =
  ei_WorkspaceRoot :: string
  ei_ExpectedRevision :: int
  ei_AttemptID :: string
  ei_CriterionID :: string

record CompletionInput =
  mi_WorkspaceRoot :: string
  mi_ExpectedRevision :: int
  mi_AttemptID :: string

section \<open>Observing a criterion\<close>

definition abs_path :: "host \<Rightarrow> string \<Rightarrow> string" where
  "abs_path h p = (if has_prefix p ''/'' then path_clean p else path_clean (h_Cwd h @ ''/'' @ p))"

definition resolveWorkspaceArtifact :: "host \<Rightarrow> string \<Rightarrow> string \<Rightarrow> ledger_error + string" where
  "resolveWorkspaceArtifact h root reference =
     bind_r (workspaceRelativePath reference) (\<lambda>relative.
       Inr (path_clean (abs_path h root @ ''/'' @ relative)))"

definition hashFile :: "env \<Rightarrow> host \<Rightarrow> string \<Rightarrow> ledger_error + string \<times> int" where
  "hashFile e h path =
     bind_r (h_Open h path) (\<lambda>f.
       if \<not> hf_Regular f \<or> len (hf_Content f) > maximumArtifactBytes
       then Inl (Msg ''artifact evidence requires a regular file up to 100 MiB'')
       else Inr (e_SHA256 e (hf_Content f), int (length (hf_Content f))))"

definition commandDigest :: "env \<Rightarrow> string list \<Rightarrow> string" where
  "commandDigest e command = e_SHA256 e (marshal (str_slice command))"

definition runValidatedCommand ::
    "env \<Rightarrow> host \<Rightarrow> string \<Rightarrow> string list \<Rightarrow> ledger_error + int \<times> string" where
  "runValidatedCommand e h root command =
     bind_r (fail_if (\<not> allowedCommand command)
              (Msg ''command is not allowed for completion evidence'')) (\<lambda>_.
     bind_r (fail_if (\<not> h_IsDir h (abs_path h root))
              (Msg ''workspace root is not a readable directory'')) (\<lambda>_.
     bind_r (h_GoTool h) (\<lambda>tool.
     bind_r (hashFile e h tool) (\<lambda>(digest, _).
     bind_r (h_Exec h tool (abs_path h root) (tl command)) (\<lambda>exit_code.
     Inr (exit_code, digest))))))"

definition blank_receipt :: "Item \<Rightarrow> Criterion \<Rightarrow> string \<Rightarrow> time \<Rightarrow> EvidenceReceipt" where
  "blank_receipt item c evidenceID now =
     \<lparr>ev_SchemaVersion = 1, ev_EvidenceID = evidenceID, ev_ItemID = st_ItemID (it_State item),
      ev_WorkspaceID = st_WorkspaceID (it_State item),
      ev_AttemptID = (case it_Attempt item of None \<Rightarrow> [] | Some a \<Rightarrow> at_AttemptID a),
      ev_CriterionID = cr_ID c, ev_Type = cr_Type c, ev_Outcome = EvidencePassed,
      ev_TargetRef = [], ev_ArtifactSHA256 = [], ev_ArtifactBytes = 0, ev_CommandSHA256 = [],
      ev_ToolSHA256 = [], ev_ExitCode = None, ev_ObservedAt = now\<rparr>"

definition witnessCriterion ::
    "env \<Rightarrow> host \<Rightarrow> string \<Rightarrow> Item \<Rightarrow> Criterion \<Rightarrow> string \<Rightarrow> time \<Rightarrow> ledger_error + EvidenceReceipt" where
  "witnessCriterion e h root item c evidenceID now =
     bind_r (case cr_Type c of
       CriterionArtifactSnapshot \<Rightarrow>
         bind_r (resolveWorkspaceArtifact h root (cr_TargetRef c)) (\<lambda>path.
         bind_r (hashFile e h path) (\<lambda>(digest, size).
         Inr ((blank_receipt item c evidenceID now)
                \<lparr>ev_TargetRef := cr_TargetRef c, ev_ArtifactSHA256 := digest,
                 ev_ArtifactBytes := size\<rparr>)))
     | CriterionCommandCheck \<Rightarrow>
         bind_r (runValidatedCommand e h root (cr_Command c)) (\<lambda>(exit_code, tool).
         Inr ((blank_receipt item c evidenceID now)
                \<lparr>ev_CommandSHA256 := commandDigest e (cr_Command c), ev_ExitCode := Some exit_code,
                 ev_ToolSHA256 := tool,
                 ev_Outcome := (if exit_code \<noteq> 0 then EvidenceFailed else EvidencePassed)\<rparr>))
     | CriterionOther _ \<Rightarrow> Inl (Msg ''unsupported evidence criterion'')) (\<lambda>receipt.
     bind_r (validateEvidenceReceipt receipt) (\<lambda>_. Inr receipt))"

definition findCriterion :: "Contract \<Rightarrow> string \<Rightarrow> ledger_error + Criterion" where
  "findCriterion c criterionID =
     (case find (\<lambda>k. cr_ID k = criterionID) (ct_Criteria c) of
        None \<Rightarrow> Inl (Msg ''completion criterion was not found'')
      | Some k \<Rightarrow> Inr k)"

section \<open>CollectEvidence\<close>

text \<open>What the first critical section reads: the item, the criterion, an identifier, the time.\<close>

definition collect_read ::
    "env \<Rightarrow> string \<Rightarrow> string \<Rightarrow> EvidenceInput \<Rightarrow> ledger \<Rightarrow> ledger_error + Item \<times> Criterion \<times> string \<times> time" where
  "collect_read e ws it i L =
     bind_r (inspectUnlocked e ws it L) (\<lambda>item.
     bind_r (fail_if (st_StateRevision (it_State item) \<noteq> ei_ExpectedRevision i) ErrRevisionConflict) (\<lambda>_.
     bind_r (fail_if (st_State (it_State item) \<noteq> StateRunning \<or> \<not> active_attempt item (ei_AttemptID i))
              ErrAttemptConflict) (\<lambda>_.
     bind_r (findCriterion (it_Contract item) (ei_CriterionID i)) (\<lambda>c.
     bind_r (e_NewID e ''evidence'') (\<lambda>evidenceID.
     Inr (item, c, evidenceID, e_Clock e 0))))))"

definition collect_begin ::
    "env \<Rightarrow> string \<Rightarrow> string \<Rightarrow> EvidenceInput \<Rightarrow> ledger
     \<Rightarrow> (ledger_error + Item \<times> Criterion \<times> string \<times> time) \<times> ledger" where
  "collect_begin e ws it i L =
     (case checks [validateItemInput e ws it,
                   fail_if (TrimSpace (ei_WorkspaceRoot i) = [] \<or> ei_ExpectedRevision i < 1)
                     (Msg ''workspace root and expected revision are required''),
                   validateID ''attempt'' (ei_AttemptID i),
                   validateID ''criterion'' (ei_CriterionID i)] of
        Inl x \<Rightarrow> (Inl x, L)
      | Inr _ \<Rightarrow> with_lock e ws it (\<lambda>L. (collect_read e ws it i L, L)) L)"

text \<open>
  The second critical section re-checks the current item, but builds the revision from
  the item the first one read.
\<close>

definition still_running :: "Item \<Rightarrow> int \<Rightarrow> string \<Rightarrow> ledger_error + unit" where
  "still_running item expected attemptID = checks
     [fail_if (st_StateRevision (it_State item) \<noteq> expected) ErrRevisionConflict,
      fail_if (st_State (it_State item) \<noteq> StateRunning
               \<or> st_ActiveAttemptID (it_State item) \<noteq> attemptID
               \<or> map_option at_AttemptID (it_Attempt item) \<noteq> Some attemptID) ErrAttemptConflict]"

definition collect_plan ::
    "env \<Rightarrow> string \<Rightarrow> string \<Rightarrow> EvidenceInput \<Rightarrow> Item \<Rightarrow> time \<Rightarrow> EvidenceReceipt \<Rightarrow> ledger \<Rightarrow> Item
     \<Rightarrow> ledger_error + Revision \<times> (Item \<times> EvidenceReceipt)" where
  "collect_plan e ws it i item now receipt L current =
     bind_r (still_running current (ei_ExpectedRevision i) (ei_AttemptID i)) (\<lambda>_.
     let state = bump (it_State item) now;
         revision = (plain_revision state (it_Attempt item) (it_Checkpoint item)
                       ((transition_to state ws it (ei_AttemptID i) now)\<lparr>tr_State := StateRunning\<rparr>))
                      \<lparr>rv_Evidence := Some receipt\<rparr> in
     bind_r (validateRevision revision) (\<lambda>_.
     Inr (revision, (\<lparr>it_Contract = it_Contract item, it_State = state, it_Attempt = it_Attempt item,
                      it_Checkpoint = it_Checkpoint item, it_Evidence = Some receipt\<rparr>, receipt))))"

definition CollectEvidence ::
    "env \<Rightarrow> host \<Rightarrow> string \<Rightarrow> string \<Rightarrow> EvidenceInput \<Rightarrow> ledger
     \<Rightarrow> (ledger_error + Item \<times> EvidenceReceipt) \<times> ledger" where
  "CollectEvidence e h ws it i L =
     (case collect_begin e ws it i L of
        (Inl x, L1) \<Rightarrow> (Inl x, L1)
      | (Inr (item, c, evidenceID, now), L1) \<Rightarrow>
          (case witnessCriterion e h (ei_WorkspaceRoot i) item c evidenceID now of
             Inl x \<Rightarrow> (Inl x, L1)
           | Inr receipt \<Rightarrow> mutate e ws it (collect_plan e ws it i item now receipt) L1))"

section \<open>Complete\<close>

definition currentYodaApproval :: "string \<Rightarrow> string \<Rightarrow> State \<Rightarrow> ledger \<Rightarrow> ledger_error + unit" where
  "currentYodaApproval ws it s L =
     bind_r (yodaReviews ws it L) (\<lambda>reviews.
       if reviews = [] then Inl ErrYodaReviewUnsatisfied
       else let review = last reviews in
         fail_if (yr_Decision review \<noteq> YodaReviewApproved
                  \<or> yr_RecordedRevision review \<noteq> st_StateRevision s
                  \<or> yr_ContractSHA256 review \<noteq> st_ContractSHA256 s
                  \<or> yr_AttemptID review \<noteq> st_ActiveAttemptID s) ErrYodaReviewUnsatisfied)"

definition complete_read ::
    "env \<Rightarrow> string \<Rightarrow> string \<Rightarrow> CompletionInput \<Rightarrow> ledger
     \<Rightarrow> ledger_error + Item \<times> (string \<Rightarrow> EvidenceReceipt option)" where
  "complete_read e ws it i L =
     bind_r (inspectUnlocked e ws it L) (\<lambda>item.
     bind_r (still_running item (mi_ExpectedRevision i) (mi_AttemptID i)) (\<lambda>_.
     bind_r (latestEvidence ws it L) (\<lambda>evidence.
     bind_r (if ct_RequireYodaReview (it_Contract item)
             then currentYodaApproval ws it (it_State item) L else Inr ()) (\<lambda>_.
     Inr (item, evidence)))))"

definition complete_begin ::
    "env \<Rightarrow> string \<Rightarrow> string \<Rightarrow> CompletionInput \<Rightarrow> ledger
     \<Rightarrow> (ledger_error + Item \<times> (string \<Rightarrow> EvidenceReceipt option)) \<times> ledger" where
  "complete_begin e ws it i L =
     (case validateItemInput e ws it of
        Inl x \<Rightarrow> (Inl x, L)
      | Inr _ \<Rightarrow> with_lock e ws it (\<lambda>L. (complete_read e ws it i L, L)) L)"

text \<open>One turn of the loop over the contract's criteria: the recorded receipt passed, and
  observing the criterion again now gives the same digests.\<close>

definition criterion_still_holds ::
    "env \<Rightarrow> host \<Rightarrow> string \<Rightarrow> Item \<Rightarrow> (string \<Rightarrow> EvidenceReceipt option) \<Rightarrow> time \<Rightarrow> Criterion
     \<Rightarrow> ledger_error + unit" where
  "criterion_still_holds e h root item evidence now c =
     (case evidence (cr_ID c) of
        None \<Rightarrow> Inl ErrCompletionUnsatisfied
      | Some prior \<Rightarrow>
          if ev_Outcome prior \<noteq> EvidencePassed then Inl ErrCompletionUnsatisfied
          else (case witnessCriterion e h root item c (ev_EvidenceID prior) now of
            Inl _ \<Rightarrow> Inl ErrCompletionUnsatisfied
          | Inr current \<Rightarrow>
              fail_if (ev_Outcome current \<noteq> EvidencePassed
                       \<or> ev_ArtifactSHA256 current \<noteq> ev_ArtifactSHA256 prior
                       \<or> ev_CommandSHA256 current \<noteq> ev_CommandSHA256 prior
                       \<or> ev_ToolSHA256 current \<noteq> ev_ToolSHA256 prior) ErrCompletionUnsatisfied))"

fun all_criteria_hold ::
    "env \<Rightarrow> host \<Rightarrow> string \<Rightarrow> Item \<Rightarrow> (string \<Rightarrow> EvidenceReceipt option) \<Rightarrow> nat \<Rightarrow> Criterion list
     \<Rightarrow> ledger_error + unit" where
  "all_criteria_hold e h root item evidence k [] = Inr ()"
| "all_criteria_hold e h root item evidence k (c # cs) = checks
     [criterion_still_holds e h root item evidence (e_Clock e k) c,
      all_criteria_hold e h root item evidence (Suc k) cs]"

definition complete_plan ::
    "env \<Rightarrow> string \<Rightarrow> string \<Rightarrow> CompletionInput \<Rightarrow> Item \<Rightarrow> ledger \<Rightarrow> Item \<Rightarrow> ledger_error + Revision \<times> Item" where
  "complete_plan e ws it i item L current =
     bind_r (still_running current (mi_ExpectedRevision i) (mi_AttemptID i)) (\<lambda>_.
     let now = e_Clock e (length (ct_Criteria (it_Contract item)));
         attempt = map_option (\<lambda>a. a\<lparr>at_State := AttemptCompleted\<rparr>) (it_Attempt item);
         state = (bump (it_State item) now)\<lparr>st_State := StateCompleted, st_ActiveAttemptID := []\<rparr>;
         revision = plain_revision state attempt (it_Checkpoint item)
                      (transition_to state ws it (mi_AttemptID i) now) in
     bind_r (validateRevision revision) (\<lambda>_.
     Inr (revision, \<lparr>it_Contract = it_Contract item, it_State = state, it_Attempt = attempt,
                     it_Checkpoint = it_Checkpoint item, it_Evidence = None\<rparr>)))"

definition Complete ::
    "env \<Rightarrow> host \<Rightarrow> string \<Rightarrow> string \<Rightarrow> CompletionInput \<Rightarrow> ledger \<Rightarrow> (ledger_error + Item) \<times> ledger" where
  "Complete e h ws it i L =
     (case complete_begin e ws it i L of
        (Inl x, L1) \<Rightarrow> (Inl x, L1)
      | (Inr (item, evidence), L1) \<Rightarrow>
          (case all_criteria_hold e h (mi_WorkspaceRoot i) item evidence 0
                  (ct_Criteria (it_Contract item)) of
             Inl x \<Rightarrow> (Inl x, L1)
           | Inr _ \<Rightarrow> mutate e ws it (complete_plan e ws it i item) L1))"

end
