(* ===== verification/ExecReview.thy ===== *)
theory ExecReview
  imports ExecEvidence
begin

text \<open>
  Tool-call breadcrumbs (\<open>internal/execution/toolcall.go\<close>) and signed Yoda reviews
  (\<open>internal/execution/yoda_review.go\<close>): both append one receipt to a running item.
\<close>

section \<open>Tool calls\<close>

record ToolCallStartInput =
  si_ExpectedRevision :: int
  si_AttemptID :: string
  si_AgentID :: string
  si_ToolID :: string

record ToolCallFinishInput =
  fi_ExpectedRevision :: int
  fi_AttemptID :: string
  fi_ToolCallID :: string
  fi_Outcome :: ToolCallState

definition tool_call_revision :: "Item \<Rightarrow> ToolCallReceipt \<Rightarrow> time \<Rightarrow> Revision" where
  "tool_call_revision item receipt now =
     (let s = it_State item; state = bump s now
      in (plain_revision state (it_Attempt item) (it_Checkpoint item)
            ((transition_to state (st_WorkspaceID s) (st_ItemID s) (tc_AttemptID receipt) now)
               \<lparr>tr_State := StateRunning\<rparr>))
           \<lparr>rv_ToolCall := Some receipt\<rparr>)"

text \<open>\<open>commitToolCall\<close> up to the commit itself.\<close>

definition commitToolCall_plan ::
    "Item \<Rightarrow> ToolCallReceipt \<Rightarrow> time \<Rightarrow> ledger_error + Revision \<times> (Item \<times> ToolCallReceipt)" where
  "commitToolCall_plan item receipt now =
     bind_r (validateToolCallReceipt receipt) (\<lambda>_.
     let revision = tool_call_revision item receipt now in
     bind_r (validateRevision revision) (\<lambda>_.
     Inr (revision, (\<lparr>it_Contract = it_Contract item, it_State = rv_State revision,
                      it_Attempt = it_Attempt item, it_Checkpoint = it_Checkpoint item,
                      it_Evidence = None\<rparr>, receipt))))"

definition running_attempt :: "Item \<Rightarrow> int \<Rightarrow> string \<Rightarrow> ledger_error + unit" where
  "running_attempt item expected attemptID = checks
     [fail_if (st_StateRevision (it_State item) \<noteq> expected) ErrRevisionConflict,
      fail_if (st_State (it_State item) \<noteq> StateRunning \<or> \<not> active_attempt item attemptID)
        ErrAttemptConflict]"

definition start_tool_plan ::
    "env \<Rightarrow> string \<Rightarrow> string \<Rightarrow> ToolCallStartInput \<Rightarrow> ledger \<Rightarrow> Item
     \<Rightarrow> ledger_error + Revision \<times> (Item \<times> ToolCallReceipt)" where
  "start_tool_plan e ws it i L item =
     bind_r (running_attempt item (si_ExpectedRevision i) (si_AttemptID i)) (\<lambda>_.
     bind_r (new_id e ''tool-call'') (\<lambda>callID.
     let now = e_Clock e 0 in
     commitToolCall_plan item
       \<lparr>tc_SchemaVersion = 1, tc_ToolCallID = callID, tc_ItemID = it, tc_WorkspaceID = ws,
        tc_AttemptID = si_AttemptID i, tc_AgentID = si_AgentID i, tc_ToolID = si_ToolID i,
        tc_State = ToolCallStarted, tc_StartedAt = now, tc_FinishedAt = None\<rparr> now))"

definition StartToolCall ::
    "env \<Rightarrow> string \<Rightarrow> string \<Rightarrow> ToolCallStartInput \<Rightarrow> ledger
     \<Rightarrow> (ledger_error + Item \<times> ToolCallReceipt) \<times> ledger" where
  "StartToolCall e ws it i L =
     (case checks [validateItemInput e ws it,
                   validateID ''attempt'' (si_AttemptID i),
                   validateID ''agent'' (si_AgentID i),
                   validateID ''tool'' (si_ToolID i),
                   fail_if (si_AgentID i \<notin> set canonicalToolCallAgents)
                     (Msg ''unsupported canonical agent ID''),
                   fail_if (si_ToolID i \<notin> set canonicalToolCallTools)
                     (Msg ''unsupported canonical tool ID''),
                   fail_if (si_ExpectedRevision i < 1)
                     (Msg ''tool call expected revision must be positive'')] of
        Inl x \<Rightarrow> (Inl x, L)
      | Inr _ \<Rightarrow> mutate e ws it (start_tool_plan e ws it i) L)"

definition finish_tool_plan ::
    "env \<Rightarrow> string \<Rightarrow> string \<Rightarrow> ToolCallFinishInput \<Rightarrow> ledger \<Rightarrow> Item
     \<Rightarrow> ledger_error + Revision \<times> (Item \<times> ToolCallReceipt)" where
  "finish_tool_plan e ws it i L item =
     bind_r (running_attempt item (fi_ExpectedRevision i) (fi_AttemptID i)) (\<lambda>_.
     bind_r (latestToolCalls ws it L) (\<lambda>latest.
     (case latest (fi_ToolCallID i) of
        None \<Rightarrow> Inl (Msg ''tool call was not found'')
      | Some receipt \<Rightarrow>
          bind_r (fail_if (tc_AttemptID receipt \<noteq> fi_AttemptID i) ErrAttemptConflict) (\<lambda>_.
          bind_r (fail_if (tc_State receipt \<noteq> ToolCallStarted)
                   (Msg ''tool call is already terminal'')) (\<lambda>_.
          let now = e_Clock e 0 in
          commitToolCall_plan item
            (receipt\<lparr>tc_State := fi_Outcome i, tc_FinishedAt := Some now\<rparr>) now)))))"

definition FinishToolCall ::
    "env \<Rightarrow> string \<Rightarrow> string \<Rightarrow> ToolCallFinishInput \<Rightarrow> ledger
     \<Rightarrow> (ledger_error + Item \<times> ToolCallReceipt) \<times> ledger" where
  "FinishToolCall e ws it i L =
     (case checks [validateItemInput e ws it,
                   validateID ''attempt'' (fi_AttemptID i),
                   validateID ''tool-call'' (fi_ToolCallID i),
                   fail_if (fi_ExpectedRevision i < 1)
                     (Msg ''tool call expected revision must be positive''),
                   fail_if (fi_Outcome i \<notin> {ToolCallSucceeded, ToolCallFailed, ToolCallUnavailable})
                     (Msg ''invalid terminal tool call outcome'')] of
        Inl x \<Rightarrow> (Inl x, L)
      | Inr _ \<Rightarrow> mutate e ws it (finish_tool_plan e ws it i) L)"

section \<open>Yoda reviews\<close>

record YodaReviewEnvelope =
  ye_SchemaVersion :: int
  ye_ItemID :: string
  ye_WorkspaceID :: string
  ye_AttemptID :: string
  ye_ReviewedRevision :: int
  ye_ContractSHA256 :: string
  ye_SignerKeyID :: string
  ye_InstallationID :: string
  ye_CustodyScope :: string
  ye_Decision :: YodaReviewDecision
  ye_Nonce :: string
  ye_IssuedAt :: time
  ye_Signature :: string

record YodaReviewInput =
  yi_ExpectedRevision :: int
  yi_AttemptID :: string
  yi_Envelope :: YodaReviewEnvelope

definition payload_fields :: "YodaReviewEnvelope \<Rightarrow> (string \<times> json) list" where
  "payload_fields y =
     [(''schema_version'', JNum (ye_SchemaVersion y)),
      (''item_id'', JStr (ye_ItemID y)),
      (''workspace_id'', JStr (ye_WorkspaceID y)),
      (''attempt_id'', JStr (ye_AttemptID y)),
      (''reviewed_revision'', JNum (ye_ReviewedRevision y)),
      (''contract_sha256'', JStr (ye_ContractSHA256 y)),
      (''signer_key_id'', JStr (ye_SignerKeyID y)),
      (''installation_id'', JStr (ye_InstallationID y)),
      (''custody_scope'', JStr (ye_CustodyScope y)),
      (''decision'', JStr (decision_text (ye_Decision y))),
      (''nonce'', JStr (ye_Nonce y)),
      (''issued_at'', JTime (ye_IssuedAt y))]"

text \<open>The bytes the signature covers, and the whole envelope, whose digest identifies it.\<close>

definition YodaReviewSigningPayload :: "YodaReviewEnvelope \<Rightarrow> ledger_error + string" where
  "YodaReviewSigningPayload y =
     (if encodable (JObj (payload_fields y)) then Inr (marshal (JObj (payload_fields y)))
      else Inl (Msg ''year outside of range''))"

definition envelope_json :: "YodaReviewEnvelope \<Rightarrow> json" where
  "envelope_json y = JObj (payload_fields y @ [(''signature'', JStr (ye_Signature y))])"

definition verifyYodaReviewEnvelope :: "env \<Rightarrow> Item \<Rightarrow> YodaReviewEnvelope \<Rightarrow> time \<Rightarrow> ledger_error + unit" where
  "verifyYodaReviewEnvelope e item y now =
     (let s = it_State item; c = it_Contract item in
      bind_r (checks
        [fail_if (ye_SchemaVersion y \<noteq> 1 \<or> is_zero (ye_IssuedAt y))
           (Msg ''invalid Yoda review envelope header''),
         fail_if (ye_ItemID y \<noteq> st_ItemID s \<or> ye_WorkspaceID y \<noteq> st_WorkspaceID s
                  \<or> ye_AttemptID y \<noteq> st_ActiveAttemptID s
                  \<or> ye_ReviewedRevision y \<noteq> st_StateRevision s
                  \<or> ye_ContractSHA256 y \<noteq> st_ContractSHA256 s)
           (Msg ''Yoda review envelope does not match the current ledger''),
         fail_if (ye_SignerKeyID y \<noteq> ct_YodaKeyID c \<or> ye_InstallationID y \<noteq> ct_YodaInstallationID c
                  \<or> ye_CustodyScope y \<noteq> YodaReviewScope)
           (Msg ''Yoda review envelope is outside the installation custody scope''),
         fail_if (ye_Decision y \<noteq> YodaReviewApproved \<and> ye_Decision y \<noteq> YodaReviewRejected)
           (Msg ''invalid Yoda review decision''),
         validateID ''nonce'' (ye_Nonce y),
         fail_if (now + 5 * minute < ye_IssuedAt y)
           (Msg ''Yoda review envelope is issued in the future'')]) (\<lambda>_.
      bind_r (decodeYodaPublicKey (ct_YodaPublicKey c)) (\<lambda>key.
      (case RawStd_decode (ye_Signature y) of
         None \<Rightarrow> Inl (Msg ''invalid Yoda review signature'')
       | Some signature \<Rightarrow>
           if length signature \<noteq> 64 then Inl (Msg ''invalid Yoda review signature'')
           else bind_r (YodaReviewSigningPayload y) (\<lambda>payload.
             fail_if (\<not> e_Verify e key payload signature)
               (Msg ''Yoda review signature verification failed''))))))"

definition review_plan ::
    "env \<Rightarrow> string \<Rightarrow> string \<Rightarrow> YodaReviewInput \<Rightarrow> ledger \<Rightarrow> Item
     \<Rightarrow> ledger_error + Revision \<times> (Item \<times> YodaReviewReceipt)" where
  "review_plan e ws it i L item =
     bind_r (running_attempt item (yi_ExpectedRevision i) (yi_AttemptID i)) (\<lambda>_.
     bind_r (fail_if (\<not> ct_RequireYodaReview (it_Contract item))
              (Msg ''execution contract does not require Yoda review'')) (\<lambda>_.
     bind_r (verifyYodaReviewEnvelope e item (yi_Envelope i) (e_Clock e 0)) (\<lambda>_.
     bind_r (fail_if (\<not> encodable (envelope_json (yi_Envelope i))) (Msg ''year outside of range'')) (\<lambda>_.
     let envelope = yi_Envelope i; digest = e_SHA256 e (marshal (envelope_json envelope)) in
     bind_r (yodaReviews ws it L) (\<lambda>reviews.
     bind_r (fail_if (\<exists>r \<in> set reviews. yr_EnvelopeSHA256 r = digest)
              (Msg ''Yoda review envelope was already recorded'')) (\<lambda>_.
     bind_r (new_id e ''review'') (\<lambda>reviewID.
     bind_r (decodeYodaPublicKey (ct_YodaPublicKey (it_Contract item))) (\<lambda>key.
     let now = e_Clock e 1; state = bump (it_State item) now;
         receipt = \<lparr>yr_SchemaVersion = 1, yr_ReviewID = reviewID, yr_ItemID = it,
                    yr_WorkspaceID = ws, yr_AttemptID = yi_AttemptID i,
                    yr_ReviewedRevision = yi_ExpectedRevision i,
                    yr_RecordedRevision = st_StateRevision state,
                    yr_ContractSHA256 = st_ContractSHA256 (it_State item),
                    yr_SignerKeyID = ye_SignerKeyID envelope,
                    yr_InstallationID = ye_InstallationID envelope,
                    yr_CustodyScope = ye_CustodyScope envelope,
                    yr_Decision = ye_Decision envelope, yr_SignerSHA256 = e_SHA256 e key,
                    yr_EnvelopeSHA256 = digest, yr_ObservedAt = now\<rparr>;
         revision = (plain_revision state (it_Attempt item) (it_Checkpoint item)
                       ((transition_to state ws it (yi_AttemptID i) now)\<lparr>tr_State := StateRunning\<rparr>))
                      \<lparr>rv_YodaReview := Some receipt\<rparr> in
     bind_r (validateRevision revision) (\<lambda>_.
     Inr (revision, (\<lparr>it_Contract = it_Contract item, it_State = state, it_Attempt = it_Attempt item,
                      it_Checkpoint = it_Checkpoint item, it_Evidence = None\<rparr>, receipt)))))))))))"

definition RecordYodaReview ::
    "env \<Rightarrow> string \<Rightarrow> string \<Rightarrow> YodaReviewInput \<Rightarrow> ledger
     \<Rightarrow> (ledger_error + Item \<times> YodaReviewReceipt) \<times> ledger" where
  "RecordYodaReview e ws it i L =
     (case checks [validateItemInput e ws it,
                   fail_if (yi_ExpectedRevision i < 1)
                     (Msg ''Yoda review expected revision must be positive''),
                   validateID ''attempt'' (yi_AttemptID i)] of
        Inl x \<Rightarrow> (Inl x, L)
      | Inr _ \<Rightarrow> mutate e ws it (review_plan e ws it i) L)"

end
