(* ===== verification/ExecRead.thy ===== *)
theory ExecRead
  imports ExecReview
begin

text \<open>
  The readers of \<open>internal/execution/store.go\<close>: the bounded next-action projection, the
  active pointer and continuity status, listing, receipts and the full export.
\<close>

record Summary =
  sm_ItemID :: string
  sm_WorkspaceID :: string
  sm_State :: ItemState
  sm_StateRevision :: int
  sm_ActiveAttemptID :: string
  sm_CheckpointState :: string
  sm_UpdatedAt :: time

record MutationReceipt =
  mr_SchemaVersion :: int
  mr_ItemID :: string
  mr_WorkspaceID :: string
  mr_State :: ItemState
  mr_StateRevision :: int
  mr_AttemptID :: string
  mr_CheckpointID :: string

record ActivePointer =
  ap_Path :: string
  ap_Available :: bool
  ap_State :: string

record ActiveContinuity =
  ac_Path :: string
  ac_Available :: bool
  ac_State :: string
  ac_WorkState :: "ItemState option"
  ac_CheckpointState :: string

record Export =
  ex_Contract :: Contract
  ex_State :: State
  ex_Attempt :: "Attempt option"
  ex_Checkpoint :: "Checkpoint option"
  ex_Evidences :: "EvidenceReceipt list"
  ex_ToolCalls :: "ToolCallReceipt list"
  ex_YodaReviews :: "YodaReviewReceipt list"
  ex_Transitions :: "Transition list"

definition ActivePointerPath :: string where "ActivePointerPath = ''bcgos://execution/active''"

section \<open>The next action\<close>

definition Next :: "env \<Rightarrow> string \<Rightarrow> string \<Rightarrow> ledger \<Rightarrow> ledger_error + NextProjection" where
  "Next e ws it L =
     bind_r (Inspect e ws it L) (\<lambda>item.
     let projection = nextProjection (it_Contract item) (it_State item) (it_Checkpoint item) in
     bind_r (validateNextProjection projection) (\<lambda>_. Inr projection))"

text \<open>\<open>activeItemIDs\<close> skips what is not an item directory and fails on an item that does not
  inspect; the directory is listed in name order, so the final sort changes nothing.\<close>

fun active_ids :: "env \<Rightarrow> string \<Rightarrow> ledger \<Rightarrow> (string \<times> items_entry) list \<Rightarrow> ledger_error + string list" where
  "active_ids e ws L [] = Inr []"
| "active_ids e ws L ((name, x) # es) =
     (if x = PlainFile \<or> validateID ''item'' name \<noteq> Inr () then active_ids e ws L es
      else bind_r (Inspect e ws name L) (\<lambda>item.
           bind_r (active_ids e ws L es) (\<lambda>rest.
           Inr (if st_State (it_State item) = StateRunning \<or> st_State (it_State item) = StatePaused
                then name # rest else rest))))"

definition activeItemIDs :: "env \<Rightarrow> string \<Rightarrow> ledger \<Rightarrow> ledger_error + string list" where
  "activeItemIDs e ws L =
     bind_r (checks [validateStoreRoot (e_Root e), validateID ''workspace'' ws]) (\<lambda>_.
     (case L ws of
        None \<Rightarrow> Inr []
      | Some es \<Rightarrow>
          bind_r (fail_if (len es > MaximumListItems)
                   (Msg ''execution item listing exceeds 128 item bound'')) (\<lambda>_.
          bind_r (active_ids e ws L (sort_key fst es)) (\<lambda>ids. Inr (sort ids)))))"

definition NextActive :: "env \<Rightarrow> string \<Rightarrow> ledger \<Rightarrow> ledger_error + NextProjection" where
  "NextActive e ws L =
     bind_r (activeItemIDs e ws L) (\<lambda>active.
     (case active of
        [] \<Rightarrow> Inl (Msg ''no active execution item was found'')
      | [it] \<Rightarrow> Next e ws it L
      | _ \<Rightarrow> Inl ErrActiveItemAmbiguous))"

definition ActivePointer_of :: "env \<Rightarrow> string \<Rightarrow> ledger \<Rightarrow> ledger_error + ActivePointer" where
  "ActivePointer_of e ws L =
     bind_r (activeItemIDs e ws L) (\<lambda>active. Inr
       (case active of
          [] \<Rightarrow> \<lparr>ap_Path = [], ap_Available = False, ap_State = ''unavailable''\<rparr>
        | [_] \<Rightarrow> \<lparr>ap_Path = ActivePointerPath, ap_Available = True, ap_State = ''available''\<rparr>
        | _ \<Rightarrow> \<lparr>ap_Path = [], ap_Available = False, ap_State = ''ambiguous''\<rparr>))"

definition checkpoint_state :: "Item \<Rightarrow> string" where
  "checkpoint_state item = (if it_Checkpoint item \<noteq> None then ''available'' else ''missing'')"

definition ActiveContinuity_of :: "env \<Rightarrow> string \<Rightarrow> ledger \<Rightarrow> ledger_error + ActiveContinuity" where
  "ActiveContinuity_of e ws L =
     bind_r (activeItemIDs e ws L) (\<lambda>active.
     (case active of
        [] \<Rightarrow> Inr \<lparr>ac_Path = [], ac_Available = False, ac_State = ''unavailable'',
                  ac_WorkState = None, ac_CheckpointState = ''unavailable''\<rparr>
      | [it] \<Rightarrow> bind_r (Inspect e ws it L) (\<lambda>item.
          Inr \<lparr>ac_Path = ActivePointerPath, ac_Available = True, ac_State = ''available'',
               ac_WorkState = Some (st_State (it_State item)),
               ac_CheckpointState = checkpoint_state item\<rparr>)
      | _ \<Rightarrow> Inr \<lparr>ac_Path = [], ac_Available = False, ac_State = ''ambiguous'',
                 ac_WorkState = None, ac_CheckpointState = ''unavailable''\<rparr>))"

section \<open>Receipts, listing, export\<close>

definition Receipt :: "Item \<Rightarrow> MutationReceipt" where
  "Receipt item =
     \<lparr>mr_SchemaVersion = 1, mr_ItemID = st_ItemID (it_State item),
      mr_WorkspaceID = st_WorkspaceID (it_State item), mr_State = st_State (it_State item),
      mr_StateRevision = st_StateRevision (it_State item),
      mr_AttemptID = st_ActiveAttemptID (it_State item),
      mr_CheckpointID = (case it_Checkpoint item of None \<Rightarrow> [] | Some c \<Rightarrow> cp_CheckpointID c)\<rparr>"

definition summary_of :: "Item \<Rightarrow> Summary" where
  "summary_of item =
     \<lparr>sm_ItemID = st_ItemID (it_State item), sm_WorkspaceID = st_WorkspaceID (it_State item),
      sm_State = st_State (it_State item), sm_StateRevision = st_StateRevision (it_State item),
      sm_ActiveAttemptID = st_ActiveAttemptID (it_State item),
      sm_CheckpointState = checkpoint_state item, sm_UpdatedAt = st_UpdatedAt (it_State item)\<rparr>"

fun list_entries :: "env \<Rightarrow> string \<Rightarrow> ledger \<Rightarrow> (string \<times> items_entry) list \<Rightarrow> ledger_error + Summary list" where
  "list_entries e ws L [] = Inr []"
| "list_entries e ws L ((name, x) # es) =
     (if x = PlainFile then list_entries e ws L es
      else bind_r (validateID ''item'' name) (\<lambda>_.
           bind_r (Inspect e ws name L) (\<lambda>item.
           bind_r (list_entries e ws L es) (\<lambda>rest. Inr (summary_of item # rest)))))"

definition List_items :: "env \<Rightarrow> string \<Rightarrow> ledger \<Rightarrow> ledger_error + Summary list" where
  "List_items e ws L =
     bind_r (checks [validateStoreRoot (e_Root e), validateID ''workspace'' ws]) (\<lambda>_.
     (case L ws of
        None \<Rightarrow> Inr []
      | Some es \<Rightarrow>
          bind_r (fail_if (len es > MaximumListItems)
                   (Msg ''execution item listing exceeds 128 item bound'')) (\<lambda>_.
          bind_r (list_entries e ws L (sort_key fst es)) (\<lambda>items. Inr (sort_key sm_ItemID items)))))"

definition Export_of :: "env \<Rightarrow> string \<Rightarrow> string \<Rightarrow> ledger \<Rightarrow> ledger_error + Export" where
  "Export_of e ws it L =
     bind_r (Inspect e ws it L) (\<lambda>item.
     bind_r (transitions ws it L) (\<lambda>ts.
     bind_r (evidences ws it L) (\<lambda>es.
     bind_r (toolCalls ws it L) (\<lambda>cs.
     bind_r (yodaReviews ws it L) (\<lambda>ys.
     Inr \<lparr>ex_Contract = it_Contract item, ex_State = it_State item, ex_Attempt = it_Attempt item,
          ex_Checkpoint = it_Checkpoint item, ex_Evidences = es, ex_ToolCalls = cs,
          ex_YodaReviews = ys, ex_Transitions = ts\<rparr>)))))"

end
