(* ===== verification/ExecLog.thy ===== *)
theory ExecLog
  imports ExecRead
begin

text \<open>
  The revisions directory as an append-only log. \<open>no_replace\<close> is the contract of the link
  that publishes a revision (a name is written once); \<open>docs\<close> abstracts the directory to
  the list of published revisions, and \<open>wf_item\<close> is the invariant of an item directory:
  the names are exactly those of revisions 1 to n, and the revisions form a legal history.
\<close>

section \<open>The publication contract\<close>

locale no_replace =
  fixes put :: "'k \<Rightarrow> 'v \<Rightarrow> 'd \<Rightarrow> 'e + 'd"
    and get :: "'d \<Rightarrow> 'k \<Rightarrow> 'v option"
  assumes put_fresh: "put k v d = Inr d' \<Longrightarrow> get d k = None"
    and put_get: "put k v d = Inr d' \<Longrightarrow> get d' = (get d)(k \<mapsto> v)"
begin

lemma put_mono: "put k v d = Inr d' \<Longrightarrow> get d \<subseteq>\<^sub>m get d'"
  using put_fresh [of k v d d'] put_get [of k v d d'] by (auto simp: map_le_def)

lemma put_lookup: "put k v d = Inr d' \<Longrightarrow> get d' k = Some v"
  by (simp add: put_get)

text \<open>Of two writers of one name at most one wins, however much was published in between.\<close>

lemma put_once:
  assumes "put k v d = Inr d'" "get d' \<subseteq>\<^sub>m get d2"
  shows "put k w d2 \<noteq> Inr d3"
proof
  assume "put k w d2 = Inr d3"
  then have "get d2 k = None" by (rule put_fresh)
  moreover have "get d2 k = Some v"
    using assms put_lookup [OF assms(1)] by (auto simp: map_le_def dom_def)
  ultimately show False by simp
qed

end

definition link_put :: "string \<Rightarrow> 'a \<Rightarrow> (string \<times> 'a) list option \<Rightarrow> ledger_error + (string \<times> 'a) list option" where
  "link_put name x d = bind_r (publish_link name x d) (\<lambda>es. Inr (Some es))"

definition link_get :: "(string \<times> 'a) list option \<Rightarrow> string \<Rightarrow> 'a option" where
  "link_get d name = (case d of None \<Rightarrow> None | Some es \<Rightarrow> map_of es name)"

interpretation link: no_replace link_put link_get
proof unfold_locales
  fix k and v :: 'a and d d' :: "(string \<times> 'a) list option"
  assume "link_put k v d = Inr d'"
  then obtain es where es: "d = Some es" "k \<notin> fst ` set es" "d' = Some (es @ [(k, v)])"
    by (auto simp: link_put_def publish_link_def res_simps split: option.splits if_splits)
  then have none: "map_of es k = None" by (simp add: map_of_eq_None_iff)
  then show "link_get d k = None" by (simp add: link_get_def es)
  show "link_get d' = (link_get d)(k \<mapsto> v)"
    using none by (auto simp: link_get_def es map_add_def fun_eq_iff split: option.splits)
qed

lemma publish_link_ok:
  "publish_link name x d = Inr es' \<longleftrightarrow>
     (\<exists>es. d = Some es \<and> name \<notin> fst ` set es \<and> es' = es @ [(name, x)])"
  by (auto simp: publish_link_def split: option.splits)

section \<open>The log\<close>

fun docs_of :: "(string \<times> rev_entry) list \<Rightarrow> Revision list" where
  "docs_of [] = []"
| "docs_of ((name, RevDoc r) # es) = r # docs_of es"
| "docs_of (_ # es) = docs_of es"

definition docs :: "item_dir \<Rightarrow> Revision list" where
  "docs d = (case id_Revisions d of None \<Rightarrow> [] | Some es \<Rightarrow> docs_of es)"

definition revs :: "ledger \<Rightarrow> string \<Rightarrow> string \<Rightarrow> Revision list" where
  "revs L ws it = (case get_item L ws it of None \<Rightarrow> [] | Some d \<Rightarrow> docs d)"

fun log_entries :: "int \<Rightarrow> Revision list \<Rightarrow> (string \<times> rev_entry) list" where
  "log_entries k [] = []"
| "log_entries k (r # rs) = (revisionName k, RevDoc r) # log_entries (k + 1) rs"

lemma docs_log_entries [simp]: "docs_of (log_entries k rs) = rs"
  by (induction rs arbitrary: k) auto

lemma log_entries_append:
  "log_entries k (rs @ [r]) = log_entries k rs @ [(revisionName (k + int (length rs)), RevDoc r)]"
  by (induction rs arbitrary: k) (auto simp: algebra_simps)

lemma log_entries_names:
  "name \<in> fst ` set (log_entries k rs) \<longleftrightarrow> (\<exists>i < length rs. name = revisionName (k + int i))"
proof (induction rs arbitrary: k)
  case (Cons r rs)
  have "(\<exists>i < Suc n. P i) \<longleftrightarrow> P 0 \<or> (\<exists>i < n. P (Suc i))" for n and P :: "nat \<Rightarrow> bool"
    by (metis less_Suc_eq_0_disj)
  then show ?case using Cons [of "k + 1"] by (simp add: algebra_simps)
qed simp

lemma log_entries_sorted:
  "0 \<le> k \<Longrightarrow> k + int (length rs) \<le> max_int64 + 1 \<Longrightarrow> sorted (map fst (log_entries k rs))"
proof (induction rs arbitrary: k)
  case (Cons r rs)
  have "revisionName k \<le> name" if in_rest: "name \<in> fst ` set (log_entries (k + 1) rs)" for name
  proof -
    from in_rest obtain i where i: "i < length rs" "name = revisionName (k + 1 + int i)"
      unfolding log_entries_names by blast
    with Cons.prems have "revisionName k < name"
      by (subst i(2), subst revisionName_less_iff) auto
    then show ?thesis by simp
  qed
  with Cons show ?case by auto
qed simp

lemma ledgerReadDir_log:
  "0 \<le> k \<Longrightarrow> k + int (length rs) \<le> max_int64 + 1 \<Longrightarrow>
   ledgerReadDir (Some (log_entries k rs)) = Inr (log_entries k rs)"
  by (simp add: ledgerReadDir_def sort_key_id_if_sorted log_entries_sorted)

section \<open>Legal histories\<close>

text \<open>The state machine of an item: which state may follow which.\<close>

inductive item_step :: "ItemState \<Rightarrow> ItemState \<Rightarrow> bool" where
  begin_work: "item_step StateReady StateRunning"
| record_work: "item_step StateRunning StateRunning"
| suspend: "item_step StateRunning StatePaused"
| continue_work: "item_step StatePaused StateRunning"
| finish: "item_step StateRunning StateCompleted"
| discard: "s \<notin> {StateRunning, StateEvaluating} \<Longrightarrow> item_step s StateCancelled"

inductive_simps item_step_simps:
  "item_step s StateRunning" "item_step s StatePaused" "item_step s StateCompleted"
  "item_step s StateReady" "item_step s StateEvaluating" "item_step s StateCancelled"

lemma item_step_code [code]:
  "item_step s s' \<longleftrightarrow>
     (case s' of
        StateRunning \<Rightarrow> s = StateReady \<or> s = StateRunning \<or> s = StatePaused
      | StatePaused \<Rightarrow> s = StateRunning
      | StateCompleted \<Rightarrow> s = StateRunning
      | StateCancelled \<Rightarrow> s \<noteq> StateRunning \<and> s \<noteq> StateEvaluating
      | _ \<Rightarrow> False)"
  by (cases s') (auto simp: item_step.simps)

inductive_cases item_step_from_completed: "item_step StateCompleted s"
inductive_cases item_step_from_running: "item_step StateRunning s"
inductive_cases item_step_from_cancelled: "item_step StateCancelled s"

text \<open>A revision that may be published after the state \<open>s\<close>.\<close>

definition follows :: "State \<Rightarrow> State \<Rightarrow> bool" where
  "follows s s' \<longleftrightarrow>
     st_StateRevision s' = st_StateRevision s + 1
     \<and> st_ItemID s' = st_ItemID s \<and> st_WorkspaceID s' = st_WorkspaceID s
     \<and> st_ContractSHA256 s' = st_ContractSHA256 s \<and> st_CreatedAt s' = st_CreatedAt s
     \<and> item_step (st_State s) (st_State s')"

fun chain :: "Revision \<Rightarrow> Revision list \<Rightarrow> bool" where
  "chain p [] = True"
| "chain p (r # rs) = (follows (rv_State p) (rv_State r) \<and> chain r rs)"

definition first_ok :: "string \<Rightarrow> string \<Rightarrow> Revision \<Rightarrow> bool" where
  "first_ok ws it r \<longleftrightarrow>
     st_StateRevision (rv_State r) = 1 \<and> st_State (rv_State r) = StateReady
     \<and> st_ItemID (rv_State r) = it \<and> st_WorkspaceID (rv_State r) = ws"

definition hist_ok :: "string \<Rightarrow> string \<Rightarrow> Revision list \<Rightarrow> bool" where
  "hist_ok ws it h \<longleftrightarrow>
     (case h of [] \<Rightarrow> False | r # rs \<Rightarrow> first_ok ws it r \<and> chain r rs)
     \<and> (\<forall>r \<in> set h. validateRevision r = Inr ())
     \<and> int (length h) \<le> max_int64"

definition wf_item :: "string \<Rightarrow> string \<Rightarrow> item_dir \<Rightarrow> bool" where
  "wf_item ws it d \<longleftrightarrow> id_Revisions d = Some (log_entries 1 (docs d)) \<and> hist_ok ws it (docs d)"

definition wf_ledger :: "ledger \<Rightarrow> bool" where
  "wf_ledger L \<longleftrightarrow> (\<forall>ws it d. get_item L ws it = Some d \<longrightarrow> wf_item ws it d)"

lemma chain_append:
  "chain p (rs @ [r]) \<longleftrightarrow> chain p rs \<and> follows (rv_State (last (p # rs))) (rv_State r)"
  by (induction rs arbitrary: p) auto

lemma chain_nth:
  assumes "chain p rs" "i < length rs"
  shows "follows (rv_State ((p # rs) ! i)) (rv_State (rs ! i))"
  using assms
proof (induction rs arbitrary: p i)
  case (Cons r rs)
  then show ?case by (cases i) auto
qed simp

lemma hist_ok_first:
  "hist_ok ws it h \<Longrightarrow> h \<noteq> [] \<and> first_ok ws it (hd h) \<and> chain (hd h) (tl h)"
  by (auto simp: hist_ok_def split: list.splits)

lemma hist_ok_nth:
  assumes "hist_ok ws it h" "i < length h"
  shows "st_StateRevision (rv_State (h ! i)) = int i + 1
    \<and> st_ItemID (rv_State (h ! i)) = it \<and> st_WorkspaceID (rv_State (h ! i)) = ws
    \<and> st_ContractSHA256 (rv_State (h ! i)) = st_ContractSHA256 (rv_State (hd h))"
  using assms(2)
proof (induction i)
  case 0
  with hist_ok_first [OF assms(1)] have "h \<noteq> []" "first_ok ws it (hd h)" by auto
  then show ?case by (simp add: first_ok_def hd_conv_nth)
next
  case (Suc i)
  from hist_ok_first [OF assms(1)] have h: "h = hd h # tl h" and c: "chain (hd h) (tl h)"
    by auto
  from Suc.prems h have "i < length (tl h)" by (metis Suc_less_eq length_Cons)
  from chain_nth [OF c this] have "follows (rv_State (h ! i)) (rv_State (h ! Suc i))"
    using h by (metis nth_Cons_Suc)
  with Suc show ?case by (auto simp: follows_def)
qed

lemma hist_ok_last:
  assumes "hist_ok ws it h"
  shows "st_StateRevision (rv_State (last h)) = int (length h)
    \<and> st_ItemID (rv_State (last h)) = it \<and> st_WorkspaceID (rv_State (last h)) = ws
    \<and> validateRevision (last h) = Inr ()"
proof -
  from assms have ne: "h \<noteq> []" using hist_ok_first by blast
  then have "last h \<in> set h" by simp
  with assms have "validateRevision (last h) = Inr ()" by (simp add: hist_ok_def)
  moreover have "int (length h - 1) + 1 = int (length h)" using ne by (cases h) auto
  ultimately show ?thesis
    using hist_ok_nth [OF assms, of "length h - 1"] ne by (simp add: last_conv_nth)
qed

lemma hist_ok_snoc:
  assumes "hist_ok ws it h" "follows (rv_State (last h)) (rv_State r)"
    "validateRevision r = Inr ()" "int (length h) < max_int64"
  shows "hist_ok ws it (h @ [r])"
proof -
  obtain p rs where h: "h = p # rs" using hist_ok_first [OF assms(1)] by (cases h) auto
  with assms show ?thesis
    by (auto simp: hist_ok_def chain_append simp del: last.simps)
qed

lemma max_int64_pos [simp]: "0 < max_int64" "1 \<le> max_int64"
  by (simp_all add: max_int64_def)

section \<open>Reading a well-formed item\<close>

lemma decode_revision_simps [simp]:
  "rv_State (decode_revision r) = rv_State r"
  "rv_Attempt (decode_revision r) = rv_Attempt r"
  "rv_Evidence (decode_revision r) = rv_Evidence r"
  "rv_ToolCall (decode_revision r) = rv_ToolCall r"
  "rv_YodaReview (decode_revision r) = rv_YodaReview r"
  "rv_Transition (decode_revision r) = rv_Transition r"
  "rv_Checkpoint (decode_revision r) = map_option decode_checkpoint (rv_Checkpoint r)"
  by (simp_all add: decode_revision_def)

lemma wf_item_revisions: "wf_item ws it d \<Longrightarrow> id_Revisions d = Some (log_entries 1 (docs d))"
  by (simp add: wf_item_def)

lemma wf_item_hist: "wf_item ws it d \<Longrightarrow> hist_ok ws it (docs d)"
  by (simp add: wf_item_def)

lemma rev_log_entries:
  "rs \<noteq> [] \<Longrightarrow> \<exists>es. rev (log_entries 1 rs) = (revisionName (int (length rs)), RevDoc (last rs)) # es"
  using log_entries_append [of 1 "butlast rs" "last rs"]
  by (simp add: of_nat_diff Suc_leI)

text \<open>The newest name is authoritative: the read is that of the last published revision.\<close>

lemma latest_is_last:
  assumes "wf_item ws it d"
  shows "latestValidRevision d =
    bind_r (validateRevision (decode_revision (last (docs d)))) (\<lambda>_. Inr (decode_revision (last (docs d))))"
proof -
  let ?h = "docs d"
  from assms have h: "hist_ok ws it ?h" by (rule wf_item_hist)
  then have ne: "?h \<noteq> []" and len: "int (length ?h) \<le> max_int64"
    using hist_ok_first by (auto simp: hist_ok_def)
  from hist_ok_last [OF h] have rev: "st_StateRevision (rv_State (last ?h)) = int (length ?h)"
    by simp
  from rev_log_entries [OF ne] obtain es where
    es: "rev (log_entries 1 ?h) = (revisionName (int (length ?h)), RevDoc (last ?h)) # es" by blast
  have "ledgerReadDir (id_Revisions d) = Inr (log_entries 1 ?h)"
    using assms len by (simp add: wf_item_def ledgerReadDir_log)
  moreover have "fits_int64 (int (length ?h))"
    using len by (simp add: fits_int64_def min_int64_def)
  ultimately show ?thesis
    by (simp add: latestValidRevision_def es checked_revision_def read_revision_def rev)
qed

lemma inspect_dir_SomeD:
  assumes "inspect_dir e ws it d = Inr item" "wf_item ws it d"
  shows "it_State item = rv_State (last (docs d))
    \<and> it_Attempt item = rv_Attempt (last (docs d))
    \<and> it_Checkpoint item = map_option decode_checkpoint (rv_Checkpoint (last (docs d)))
    \<and> it_Evidence item = rv_Evidence (last (docs d))
    \<and> Inr (it_Contract item) = readContract d
    \<and> validateRevision (decode_revision (last (docs d))) = Inr ()"
  using assms(1) latest_is_last [OF assms(2)]
  by (auto simp: inspect_dir_def res_simps Let_def)

text \<open>Reading depends on the contract and the revisions alone.\<close>

lemma inspect_dir_cong:
  "id_Contract d = id_Contract d' \<Longrightarrow> id_Revisions d = id_Revisions d' \<Longrightarrow>
   inspect_dir e ws it d = inspect_dir e ws it d'"
  by (simp add: inspect_dir_def readContract_def latestValidRevision_def)

lemma docs_cong: "id_Revisions d = id_Revisions d' \<Longrightarrow> docs d = docs d'"
  by (simp add: docs_def)

lemma wf_item_cong: "id_Revisions d = id_Revisions d' \<Longrightarrow> wf_item ws it d = wf_item ws it d'"
  by (simp add: wf_item_def docs_cong [of d d'])

text \<open>Publishing the next revision, and only the next one, extends the log.\<close>

lemma publish_wf:
  assumes wf: "wf_item ws it d"
    and pub: "publish_link (revisionName (st_StateRevision (rv_State r))) (RevDoc r) (id_Revisions d) = Inr es"
    and fol: "\<exists>i < length (docs d). follows (rv_State (docs d ! i)) (rv_State r)"
    and valid: "validateRevision r = Inr ()" and fits: "st_StateRevision (rv_State r) \<le> max_int64"
  shows "follows (rv_State (last (docs d))) (rv_State r) \<and> es = log_entries 1 (docs d @ [r])
    \<and> hist_ok ws it (docs d @ [r])"
proof -
  let ?h = "docs d" and ?n = "st_StateRevision (rv_State r)"
  from wf have h: "hist_ok ws it ?h" and revs: "id_Revisions d = Some (log_entries 1 ?h)"
    by (simp_all add: wf_item_def)
  from fol obtain i where i: "i < length ?h" "follows (rv_State (?h ! i)) (rv_State r)" by blast
  from hist_ok_nth [OF h i(1)] i(2) have n: "?n = int i + 2" by (simp add: follows_def)
  from pub revs have fresh: "revisionName ?n \<notin> fst ` set (log_entries 1 ?h)"
    and es: "es = log_entries 1 ?h @ [(revisionName ?n, RevDoc r)]"
    by (auto simp: publish_link_ok)
  have "\<not> Suc i < length ?h"
  proof
    assume "Suc i < length ?h"
    from n have "?n = 1 + int (Suc i)" by simp
    then have "revisionName ?n = revisionName (1 + int (Suc i))" by (rule arg_cong)
    with \<open>Suc i < length ?h\<close> fresh show False unfolding log_entries_names by blast
  qed
  with i(1) have last: "i = length ?h - 1" by simp
  from i(1) have ne: "?h \<noteq> []" by auto
  with last have "?h ! i = last ?h" by (simp add: last_conv_nth)
  with i(2) have f: "follows (rv_State (last ?h)) (rv_State r)" by simp
  from last ne n have n': "?n = 1 + int (length ?h)"
    by (cases "length ?h") auto
  with fits have "int (length ?h) < max_int64" by simp
  with hist_ok_snoc [OF h f valid] f es n' show ?thesis by (simp add: log_entries_append)
qed

end
