(* ===== verification/ExecMutation.thy ===== *)
theory ExecMutation
  imports ExecLog
begin

text \<open>
  What a mutation of the ledger does to the published documents. \<open>view\<close> is the part of the
  ledger that readers use (contracts and revisions, not locks or projections);
  \<open>mutate_cases\<close> says that a mutation leaves the view alone or publishes one revision of
  one item; the locale \<open>item_mutation\<close> is the contract between \<open>mutate\<close> and the plan of an
  operation, under which the published revision extends a legal history.
\<close>

section \<open>The view of the readers\<close>

definition view :: "ledger \<Rightarrow> string \<times> string \<Rightarrow> (Contract option \<times> (string \<times> rev_entry) list option) option" where
  "view L = (\<lambda>(ws, it). map_option (\<lambda>d. (id_Contract d, id_Revisions d)) (get_item L ws it))"

lemma view_apply:
  "view L (ws, it) = map_option (\<lambda>d. (id_Contract d, id_Revisions d)) (get_item L ws it)"
  by (simp add: view_def)

lemma view_put:
  "view (put_item L ws it d) = (view L)((ws, it) \<mapsto> (id_Contract d, id_Revisions d))"
  by (auto simp: view_def fun_eq_iff)

lemma view_del: "view (del_item L ws it) = (view L)((ws, it) := None)"
  by (auto simp: view_def fun_eq_iff)

lemma view_put_same:
  "get_item L ws it = Some d \<Longrightarrow> id_Contract d' = id_Contract d \<Longrightarrow> id_Revisions d' = id_Revisions d
   \<Longrightarrow> view (put_item L ws it d') = view L"
  by (auto simp: view_put view_apply fun_eq_iff)

lemma view_eqD:
  assumes "view L = view L'" "get_item L ws it = Some d"
  obtains d' where "get_item L' ws it = Some d'" "id_Contract d' = id_Contract d"
    "id_Revisions d' = id_Revisions d"
proof -
  have "view L' (ws, it) = view L (ws, it)" using assms(1) by simp
  with assms(2) that show thesis by (auto simp: view_apply)
qed

lemma view_eq_None:
  assumes "view L = view L'"
  shows "get_item L ws it = None \<longleftrightarrow> get_item L' ws it = None"
  using fun_cong [OF assms, of "(ws, it)"] by (auto simp: view_apply)

lemma inspect_view:
  assumes "view L = view L'"
  shows "inspectUnlocked e ws it L = inspectUnlocked e ws it L'"
proof (cases "get_item L ws it")
  case None
  with view_eq_None [OF assms, of ws it] show ?thesis by (simp add: inspectUnlocked_def)
next
  case (Some d)
  then obtain d' where "get_item L' ws it = Some d'" "id_Contract d' = id_Contract d"
    "id_Revisions d' = id_Revisions d" by (rule view_eqD [OF assms])
  with Some show ?thesis by (simp add: inspectUnlocked_def inspect_dir_cong [of d' d])
qed

lemma history_view:
  assumes "view L = view L'"
  shows "history f ws it L = history f ws it L'"
proof (cases "get_item L ws it")
  case None
  with view_eq_None [OF assms, of ws it] show ?thesis by (simp add: history_def)
next
  case (Some d)
  then obtain d' where "get_item L' ws it = Some d'" "id_Revisions d' = id_Revisions d"
    by (rule view_eqD [OF assms])
  with Some show ?thesis by (simp add: history_def)
qed

lemma wf_ledger_view:
  assumes "view L = view L'"
  shows "wf_ledger L \<longleftrightarrow> wf_ledger L'"
proof -
  have "wf_ledger L2" if wf1: "wf_ledger L1" and same: "view L1 = view L2" for L1 L2
    unfolding wf_ledger_def
  proof (intro allI impI)
    fix ws it d assume d: "get_item L2 ws it = Some d"
    obtain d' where "get_item L1 ws it = Some d'" "id_Revisions d' = id_Revisions d"
      by (rule view_eqD [OF same [symmetric] d])
    then show "wf_item ws it d"
      using wf1 wf_item_cong [of d' d ws it] by (simp add: wf_ledger_def)
  qed
  with assms show ?thesis by metis
qed

lemma revs_view: "view L (ws, it) = view L' (ws, it) \<Longrightarrow> revs L ws it = revs L' ws it"
  by (auto simp: revs_def view_apply docs_def split: option.splits)

section \<open>Locking, committing and the shared body\<close>

lemma acquire_view: "get_item L ws it = Some d \<Longrightarrow> view (snd (acquire e ws it d L)) = view L"
  by (auto simp: acquire_def view_put_same split: sum.splits)

lemma lock_view: "lock e ws it L = (x, L') \<Longrightarrow> view L' = view L"
  by (auto simp: lock_def split: option.splits if_splits sum.splits)
     (metis acquire_view snd_conv)+

lemma unlock_view: "view (unlock e ws it L) = view L"
  by (simp add: unlock_def view_put_same split: option.split)

lemma with_lock_cases:
  assumes "with_lock e ws it body L = (res, L')"
  shows "(\<exists>x. res = Inl x \<and> view L' = view L)
    \<or> (\<exists>L1 L2. lock e ws it L = (Inr (), L1) \<and> view L1 = view L \<and> body L1 = (res, L2)
              \<and> view L' = view L2 \<and> L' = unlock e ws it L2)"
proof (cases "lock e ws it L")
  case (Pair r L1)
  with assms lock_view [OF Pair] show ?thesis
    by (cases r) (auto simp: with_lock_def unlock_view split: prod.splits)
qed

text \<open>The shape a published revision gives to the view.\<close>

definition published :: "ledger \<Rightarrow> string \<Rightarrow> string \<Rightarrow> Revision \<Rightarrow> ledger \<Rightarrow> bool" where
  "published L ws it r L' \<longleftrightarrow> (\<exists>d es. get_item L ws it = Some d
     \<and> publish_link (revisionName (st_StateRevision (rv_State r))) (RevDoc r) (id_Revisions d) = Inr es
     \<and> view L' = (view L)((ws, it) \<mapsto> (id_Contract d, Some es)))"

lemma writeImmutableRevision_published:
  "writeImmutableRevision e ws it (revisionName (st_StateRevision (rv_State r))) r L = Inr L'
   \<Longrightarrow> published L ws it r L' \<and> (\<exists>d'. get_item L' ws it = Some d')"
  by (auto simp: writeImmutableRevision_def published_def view_put res_simps split: option.splits)

lemma writeState_view:
  "writeState e ws it s L = Inr L' \<Longrightarrow> get_item L ws it = Some d \<Longrightarrow> view L' = view L"
  by (auto simp: writeState_def res_simps view_put_same get_item_SomeD)

lemma published_view: "published L ws it r L1 \<Longrightarrow> view L2 = view L1 \<Longrightarrow> published L ws it r L2"
  by (simp add: published_def)

lemma published_from:
  assumes "view L = view L0" "published L ws it r L'"
  shows "published L0 ws it r L'"
proof -
  from assms(2) obtain d es where d: "get_item L ws it = Some d"
    and link: "publish_link (revisionName (st_StateRevision (rv_State r))) (RevDoc r) (id_Revisions d) = Inr es"
    and L': "view L' = (view L)((ws, it) \<mapsto> (id_Contract d, Some es))"
    unfolding published_def by blast
  from d obtain d0 where "get_item L0 ws it = Some d0" "id_Contract d0 = id_Contract d"
    "id_Revisions d0 = id_Revisions d" by (rule view_eqD [OF assms(1)])
  with link L' assms(1) show ?thesis unfolding published_def by metis
qed

lemma commitRevision_cases:
  assumes "commitRevision e ws it r L = (res, L')"
  shows "(\<exists>x. res = Inl x) \<and> view L' = view L \<or> published L ws it r L'"
proof (cases "bind_r (fault e ''before_revision_commit'') (\<lambda>_.
     writeImmutableRevision e ws it (revisionName (st_StateRevision (rv_State r))) r L)")
  case (Inl x)
  with assms show ?thesis by (auto simp: commitRevision_def)
next
  case (Inr L1)
  then have L1: "writeImmutableRevision e ws it (revisionName (st_StateRevision (rv_State r))) r L = Inr L1"
    by (auto simp: res_simps)
  from writeImmutableRevision_published [OF this] obtain d1
    where p: "published L ws it r L1" and d1: "get_item L1 ws it = Some d1" by blast
  have "view L' = view L1"
    using assms Inr d1 by (auto simp: commitRevision_def res_simps dest: writeState_view split: sum.splits)
  with p show ?thesis by (auto intro: published_view)
qed

lemma commit_plan_cases:
  assumes "commit_plan e ws it plan L = (res, L')"
  shows "(\<exists>x. res = Inl x) \<and> view L' = view L
    \<or> (\<exists>item r out. inspectUnlocked e ws it L = Inr item \<and> plan L item = Inr (r, out)
         \<and> published L ws it r L' \<and> (\<forall>y. res = Inr y \<longrightarrow> y = out))"
proof (cases "bind_r (inspectUnlocked e ws it L) (plan L)")
  case (Inl x)
  with assms show ?thesis by (auto simp: commit_plan_def)
next
  case (Inr p)
  obtain r out where p: "p = (r, out)" by (cases p)
  obtain res1 L1 where c: "commitRevision e ws it r L = (res1, L1)" by fastforce
  have "L' = L1" and res: "(\<forall>y. res = Inr y \<longrightarrow> y = out)" and err: "(\<exists>x. res1 = Inl x) \<longrightarrow> (\<exists>x. res = Inl x)"
    using assms Inr p c by (auto simp: commit_plan_def split: sum.splits)
  with commitRevision_cases [OF c] Inr p show ?thesis by (auto simp: res_simps)
qed

section \<open>The contract of a plan\<close>

text \<open>
  \<open>plan\<close> is the part of an operation between the inspection and the commit. It reads the
  ledger through the view, returns validated revisions only, and the revision it returns
  continues a state \<open>base\<close> that has the revision number of the inspected item: the
  inspected state itself, or the one an earlier critical section read.
\<close>

locale item_mutation =
  fixes ws it :: string
    and base :: "Item \<Rightarrow> State"
    and plan :: "ledger \<Rightarrow> Item \<Rightarrow> ledger_error + Revision \<times> 'a"
  assumes plan_view: "view L = view L' \<Longrightarrow> plan L item = plan L' item"
    and plan_valid: "plan L item = Inr (r, out) \<Longrightarrow> validateRevision r = Inr ()"
    and plan_follows: "plan L item = Inr (r, out) \<Longrightarrow> fits_int64 (st_StateRevision (base item)) \<Longrightarrow>
      follows (base item) (rv_State r) \<and> st_StateRevision (rv_State r) \<le> max_int64"
begin

lemma mutate_cases:
  assumes "mutate e ws it plan L = (res, L')"
  shows "(\<exists>x. res = Inl x) \<and> view L' = view L
    \<or> (\<exists>item r out. inspectUnlocked e ws it L = Inr item \<and> plan L item = Inr (r, out)
         \<and> published L ws it r L' \<and> (\<forall>y. res = Inr y \<longrightarrow> y = out))"
  using with_lock_cases [OF assms [unfolded mutate_def]]
proof
  assume "\<exists>L1 L2. lock e ws it L = (Inr (), L1) \<and> view L1 = view L
    \<and> commit_plan e ws it plan L1 = (res, L2) \<and> view L' = view L2 \<and> L' = unlock e ws it L2"
  then obtain L1 L2 where v: "view L1 = view L" and c: "commit_plan e ws it plan L1 = (res, L2)"
    and L': "view L' = view L2" by blast
  from commit_plan_cases [OF c] v L' inspect_view [OF v, of e ws it] plan_view [OF v]
  show ?thesis
    by (metis published_from published_view)
qed auto

end

section \<open>A published plan extends the log\<close>

lemma inspect_item_dir:
  "inspectUnlocked e ws it L = Inr item \<Longrightarrow> \<exists>d. get_item L ws it = Some d \<and> inspect_dir e ws it d = Inr item"
  by (auto simp: inspectUnlocked_def split: option.splits)

lemma wf_ledgerD: "wf_ledger L \<Longrightarrow> get_item L ws it = Some d \<Longrightarrow> wf_item ws it d"
  by (simp add: wf_ledger_def)

lemma revs_get: "get_item L ws it = Some d \<Longrightarrow> revs L ws it = docs d"
  by (simp add: revs_def)

lemma inspect_last:
  assumes "wf_ledger L" "inspectUnlocked e ws it L = Inr item"
  shows "revs L ws it \<noteq> [] \<and> it_State item = rv_State (last (revs L ws it))
    \<and> it_Attempt item = rv_Attempt (last (revs L ws it))
    \<and> st_StateRevision (it_State item) = int (length (revs L ws it))
    \<and> st_ItemID (it_State item) = it \<and> st_WorkspaceID (it_State item) = ws
    \<and> fits_int64 (st_StateRevision (it_State item))"
proof -
  from inspect_item_dir [OF assms(2)] obtain d
    where d: "get_item L ws it = Some d" "inspect_dir e ws it d = Inr item" by blast
  with assms(1) have wf: "wf_item ws it d" by (simp add: wf_ledgerD)
  then have h: "hist_ok ws it (docs d)" by (rule wf_item_hist)
  with inspect_dir_SomeD [OF d(2) wf] hist_ok_last [OF h] hist_ok_first [OF h]
  show ?thesis by (simp add: revs_get [OF d(1)] fits_int64_def hist_ok_def min_int64_def)
qed

lemma published_wf:
  assumes wf: "wf_ledger L" and pub: "published L ws it r L'"
    and fol: "\<exists>s. s \<in> rv_State ` set (revs L ws it) \<and> follows s (rv_State r)"
    and valid: "validateRevision r = Inr ()"
    and fits: "st_StateRevision (rv_State r) \<le> max_int64"
  shows "wf_ledger L' \<and> revs L' ws it = revs L ws it @ [r]
    \<and> follows (rv_State (last (revs L ws it))) (rv_State r)
    \<and> (\<forall>ws' it'. (ws', it') \<noteq> (ws, it) \<longrightarrow> view L' (ws', it') = view L (ws', it'))"
proof -
  from pub obtain d es where d: "get_item L ws it = Some d"
    and link: "publish_link (revisionName (st_StateRevision (rv_State r))) (RevDoc r) (id_Revisions d) = Inr es"
    and L': "view L' = (view L)((ws, it) \<mapsto> (id_Contract d, Some es))"
    unfolding published_def by blast
  from wf d have wfd: "wf_item ws it d" by (rule wf_ledgerD)
  from fol have "\<exists>i < length (docs d). follows (rv_State (docs d ! i)) (rv_State r)"
    by (auto simp: revs_get [OF d] in_set_conv_nth)
  from publish_wf [OF wfd link this valid fits]
  have *: "follows (rv_State (last (docs d))) (rv_State r)" "es = log_entries 1 (docs d @ [r])"
    "hist_ok ws it (docs d @ [r])" by auto
  have same: "\<forall>ws' it'. (ws', it') \<noteq> (ws, it) \<longrightarrow> view L' (ws', it') = view L (ws', it')"
    by (simp add: L')
  have "wf_ledger L'"
    unfolding wf_ledger_def
  proof (intro allI impI)
    fix ws' it' d' assume d': "get_item L' ws' it' = Some d'"
    show "wf_item ws' it' d'"
    proof (cases "(ws', it') = (ws, it)")
      case True
      with d' have "id_Revisions d' = Some es"
        using fun_cong [OF L', of "(ws, it)"] by (simp add: view_apply)
      with * True show ?thesis by (simp add: wf_item_def docs_def)
    next
      case False
      with same d' have "view L (ws', it') = Some (id_Contract d', id_Revisions d')"
        by (metis view_apply option.simps(9))
      then obtain d0 where "get_item L ws' it' = Some d0" "id_Revisions d0 = id_Revisions d'"
        by (auto simp: view_apply)
      with wf show ?thesis by (metis wf_ledgerD wf_item_cong)
    qed
  qed
  moreover have "revs L' ws it = docs d @ [r]"
    using fun_cong [OF L', of "(ws, it)"] * by (auto simp: view_apply revs_def docs_def)
  ultimately show ?thesis using * same by (simp add: revs_get [OF d])
qed

text \<open>The outcome of a mutation over the abstract log: refused, or exactly one revision appended.\<close>

definition appends :: "ledger \<Rightarrow> string \<Rightarrow> string \<Rightarrow> Revision \<Rightarrow> ledger \<Rightarrow> bool" where
  "appends L ws it r L' \<longleftrightarrow>
     revs L' ws it = revs L ws it @ [r]
     \<and> follows (rv_State (last (revs L ws it))) (rv_State r)
     \<and> map_option fst (view L' (ws, it)) = map_option fst (view L (ws, it))
     \<and> (\<forall>ws' it'. (ws', it') \<noteq> (ws, it) \<longrightarrow> view L' (ws', it') = view L (ws', it'))"

lemma published_appends:
  assumes "wf_ledger L" "published L ws it r L'"
    "\<exists>s. s \<in> rv_State ` set (revs L ws it) \<and> follows s (rv_State r)"
    "validateRevision r = Inr ()" "st_StateRevision (rv_State r) \<le> max_int64"
  shows "wf_ledger L' \<and> appends L ws it r L'"
proof -
  from assms(2) obtain d es where d: "get_item L ws it = Some d"
    and L': "view L' = (view L)((ws, it) \<mapsto> (id_Contract d, Some es))"
    unfolding published_def by blast
  have "view L' (ws, it) = Some (id_Contract d, Some es)" by (simp add: L')
  moreover have "view L (ws, it) = Some (id_Contract d, id_Revisions d)" by (simp add: view_apply d)
  ultimately have "map_option fst (view L' (ws, it)) = map_option fst (view L (ws, it))" by simp
  with published_wf [OF assms] show ?thesis by (simp add: appends_def)
qed

lemma known_state_fits:
  assumes "wf_ledger L" "s \<in> rv_State ` set (revs L ws it)"
  shows "fits_int64 (st_StateRevision s)"
proof -
  from assms(2) obtain d where d: "get_item L ws it = Some d"
    by (cases "get_item L ws it") (auto simp: revs_def)
  with assms obtain i where "i < length (docs d)" "s = rv_State (docs d ! i)"
    by (auto simp: revs_get in_set_conv_nth)
  with hist_ok_nth [OF wf_item_hist [OF wf_ledgerD [OF assms(1) d]], of i]
    wf_item_hist [OF wf_ledgerD [OF assms(1) d]]
  show ?thesis by (auto simp: fits_int64_def min_int64_def hist_ok_def)
qed

text \<open>
  The outcome of \<open>mutate\<close>: it refused and no document changed, or the plan succeeded on the
  inspected item and its revision, and no other, was published. (A failure after the
  publication is reported although the revision stays.)
\<close>

definition outcome ::
    "env \<Rightarrow> string \<Rightarrow> string \<Rightarrow> (ledger \<Rightarrow> Item \<Rightarrow> ledger_error + Revision \<times> 'a) \<Rightarrow> ledger
     \<Rightarrow> ledger_error + 'a \<Rightarrow> ledger \<Rightarrow> bool" where
  "outcome e ws it plan L res L' \<longleftrightarrow>
     (\<exists>x. res = Inl x) \<and> view L' = view L
     \<or> (\<exists>item r out. inspectUnlocked e ws it L = Inr item \<and> plan L item = Inr (r, out)
          \<and> validateRevision r = Inr () \<and> wf_ledger L' \<and> appends L ws it r L'
          \<and> (\<forall>y. res = Inr y \<longrightarrow> y = out))"

lemma outcome_success:
  assumes "outcome e ws it plan L (Inr out) L'"
  obtains item r where "inspectUnlocked e ws it L = Inr item" "plan L item = Inr (r, out)"
    "validateRevision r = Inr ()" "wf_ledger L'" "appends L ws it r L'"
  using assms that by (auto simp: outcome_def)

lemma outcome_wf: "wf_ledger L \<Longrightarrow> outcome e ws it plan L res L' \<Longrightarrow> wf_ledger L'"
  using wf_ledger_view [of L' L] by (auto simp: outcome_def)

context item_mutation
begin

text \<open>The client lemma, when the base is a published state of the item.\<close>

lemma mutate_outcome:
  assumes wf: "wf_ledger L" and run: "mutate e ws it plan L = (res, L')"
    and known: "\<And>item. inspectUnlocked e ws it L = Inr item \<Longrightarrow> base item \<in> rv_State ` set (revs L ws it)"
  shows "outcome e ws it plan L res L'"
  using mutate_cases [OF run]
proof
  assume "\<exists>item r out. inspectUnlocked e ws it L = Inr item \<and> plan L item = Inr (r, out)
         \<and> published L ws it r L' \<and> (\<forall>y. res = Inr y \<longrightarrow> y = out)"
  then obtain item r out where i: "inspectUnlocked e ws it L = Inr item" and p: "plan L item = Inr (r, out)"
    and pub: "published L ws it r L'" and res: "\<forall>y. res = Inr y \<longrightarrow> y = out" by blast
  have base: "base item \<in> rv_State ` set (revs L ws it)" by (rule known [OF i])
  with plan_follows [OF p known_state_fits [OF wf base]] plan_valid [OF p]
    published_appends [OF wf pub]
  show ?thesis using i p res unfolding outcome_def by blast
qed (simp add: outcome_def)

end

lemma inspect_known: "wf_ledger L \<Longrightarrow> inspectUnlocked e ws it L = Inr item \<Longrightarrow>
   it_State item \<in> rv_State ` set (revs L ws it)"
  using inspect_last [of L e ws it item] by (auto intro!: image_eqI [OF _ last_in_set])

text \<open>A plan that continues the inspected state needs no more than a well-formed ledger.\<close>

locale current_mutation = item_mutation ws it it_State plan
  for ws it :: string and plan :: "ledger \<Rightarrow> Item \<Rightarrow> ledger_error + Revision \<times> 'a"
begin

lemma call_outcome:
  assumes "wf_ledger L"
    "(case guard of Inl x \<Rightarrow> (Inl x, L) | Inr _ \<Rightarrow> mutate e ws it plan L) = (res, L')"
  shows "outcome e ws it plan L res L'"
proof (cases guard)
  case (Inl x)
  with assms show ?thesis by (auto simp: outcome_def)
next
  case (Inr u)
  with assms show ?thesis by (auto intro: mutate_outcome inspect_known)
qed

end

end
