(* ===== verification/ExecPlans.thy ===== *)
theory ExecPlans
  imports ExecMutation
begin

text \<open>
  Every mutation of the ledger meets the contract \<open>item_mutation\<close>: the plans of \<open>Start\<close>,
  \<open>Checkpoint\<close>, \<open>Pause\<close>, \<open>Resume\<close>, \<open>StartToolCall\<close>, \<open>FinishToolCall\<close> and
  \<open>RecordYodaReview\<close> continue the inspected state, those of \<open>CollectEvidence\<close> and
  \<open>Complete\<close> the state their first critical section read.
\<close>

lemma bump_fits:
  assumes "fits_int64 (st_StateRevision s)" "1 \<le> st_StateRevision (bump s now)"
  shows "st_StateRevision (bump s now) = st_StateRevision s + 1
    \<and> st_StateRevision s + 1 \<le> max_int64"
  using assms wrap64_succ_pos [of "st_StateRevision s"] wrap64_range [of "st_StateRevision s + 1"]
  by (auto simp: bump_def fits_int64_def)

lemma bump_simps [simp]:
  "st_State (bump s now) = st_State s" "st_ItemID (bump s now) = st_ItemID s"
  "st_WorkspaceID (bump s now) = st_WorkspaceID s" "st_ContractSHA256 (bump s now) = st_ContractSHA256 s"
  "st_CreatedAt (bump s now) = st_CreatedAt s" "st_ActiveAttemptID (bump s now) = st_ActiveAttemptID s"
  "st_UpdatedAt (bump s now) = now"
  by (simp_all add: bump_def)

lemma validRevision_positive: "validateRevision r = Inr u \<Longrightarrow> 1 \<le> st_StateRevision (rv_State r)"
  by (auto simp: validateRevision_def Let_def validateState_ok)

lemma plain_revision_simps [simp]:
  "rv_State (plain_revision s a c t) = s" "rv_Attempt (plain_revision s a c t) = a"
  "rv_Checkpoint (plain_revision s a c t) = c" "rv_Transition (plain_revision s a c t) = t"
  "rv_Evidence (plain_revision s a c t) = None" "rv_ToolCall (plain_revision s a c t) = None"
  "rv_YodaReview (plain_revision s a c t) = None"
  by (simp_all add: plain_revision_def)

text \<open>A revision on top of \<open>s\<close> that changes at most the state and the active attempt follows \<open>s\<close>.\<close>

lemma bumped_follows:
  assumes "validateRevision r = Inr u" "fits_int64 (st_StateRevision s)"
    "st_StateRevision (rv_State r) = st_StateRevision (bump s now)"
    "st_ItemID (rv_State r) = st_ItemID s" "st_WorkspaceID (rv_State r) = st_WorkspaceID s"
    "st_ContractSHA256 (rv_State r) = st_ContractSHA256 s" "st_CreatedAt (rv_State r) = st_CreatedAt s"
    "item_step (st_State s) (st_State (rv_State r))"
  shows "follows s (rv_State r) \<and> st_StateRevision (rv_State r) \<le> max_int64"
  using assms bump_fits [OF assms(2), of now] validRevision_positive [OF assms(1)]
  by (simp add: follows_def)

lemmas reader_views =
  history_view [of _ _ tool_call_of] history_view [of _ _ yoda_review_of] history_view [of _ _ evidence_of]

section \<open>What a successful plan is made of\<close>

lemma start_plan_ok:
  "start_plan e ws it expected L item = Inr (r, out) \<longleftrightarrow>
     st_StateRevision (it_State item) = expected \<and> st_State (it_State item) = StateReady
     \<and> (\<exists>a. new_id e ''attempt'' = Inr a
         \<and> validateAttempt (new_attempt ws it a (e_Clock e 0)) = Inr ()
         \<and> validateRevision r = Inr ()
         \<and> (let s = (bump (it_State item) (e_Clock e 0))\<lparr>st_State := StateRunning, st_ActiveAttemptID := a\<rparr>;
                att = new_attempt ws it a (e_Clock e 0) in
            r = plain_revision s (Some att) None (transition_to s ws it a (e_Clock e 0))
            \<and> out = \<lparr>it_Contract = it_Contract item, it_State = s, it_Attempt = Some att,
                     it_Checkpoint = None, it_Evidence = None\<rparr>))"
  by (auto simp: start_plan_def res_simps Let_def)

lemma checkpoint_plan_ok:
  "checkpoint_plan e ws it i L item = Inr (r, out) \<longleftrightarrow>
     st_StateRevision (it_State item) = ki_ExpectedRevision i \<and> st_State (it_State item) = StateRunning
     \<and> active_attempt item (ki_AttemptID i)
     \<and> set (ki_ArtifactRefs i) \<subseteq> set (ct_AllowedRefs (it_Contract item))
     \<and> (\<exists>k. new_id e ''checkpoint'' = Inr k
         \<and> (let now = e_Clock e 0; c = new_checkpoint ws it k i now; s = bump (it_State item) now in
            validateCheckpoint c = Inr () \<and> validateRevision r = Inr ()
            \<and> validateNextProjection (nextProjection (it_Contract item) s (Some c)) = Inr ()
            \<and> r = plain_revision s (it_Attempt item) (Some c)
                    ((transition_to s ws it (ki_AttemptID i) now)\<lparr>tr_State := StateRunning\<rparr>)
            \<and> out = \<lparr>it_Contract = it_Contract item, it_State = s, it_Attempt = it_Attempt item,
                     it_Checkpoint = Some c, it_Evidence = None\<rparr>))"
  by (auto simp: checkpoint_plan_def res_simps Let_def list_all_iff)

lemma pause_plan_ok:
  "pause_plan e ws it expected attemptID L item = Inr (r, out) \<longleftrightarrow>
     st_StateRevision (it_State item) = expected \<and> st_State (it_State item) = StateRunning
     \<and> active_attempt item attemptID
     \<and> (\<exists>c. it_Checkpoint item = Some c \<and> cp_AttemptID c = attemptID)
     \<and> validateRevision r = Inr ()
     \<and> (let now = e_Clock e 0; a = map_option (\<lambda>a. a\<lparr>at_State := AttemptInterrupted\<rparr>) (it_Attempt item);
            s = (bump (it_State item) now)\<lparr>st_State := StatePaused, st_ActiveAttemptID := []\<rparr> in
        r = plain_revision s a (it_Checkpoint item) (transition_to s ws it attemptID now)
        \<and> out = \<lparr>it_Contract = it_Contract item, it_State = s, it_Attempt = a,
                 it_Checkpoint = it_Checkpoint item, it_Evidence = None\<rparr>)"
  by (auto simp: pause_plan_def res_simps Let_def split: option.splits)

lemma resume_plan_ok:
  "resume_plan e ws it expected L item = Inr (r, out) \<longleftrightarrow>
     st_StateRevision (it_State item) = expected \<and> st_State (it_State item) = StatePaused
     \<and> interrupted item
     \<and> (\<exists>a. new_id e ''attempt'' = Inr a \<and> validateRevision r = Inr ()
         \<and> (let now = e_Clock e 0; att = new_attempt ws it a now;
                s = (bump (it_State item) now)\<lparr>st_State := StateRunning, st_ActiveAttemptID := a\<rparr> in
            r = plain_revision s (Some att) (it_Checkpoint item) (transition_to s ws it a now)
            \<and> out = \<lparr>it_Contract = it_Contract item, it_State = s, it_Attempt = Some att,
                     it_Checkpoint = it_Checkpoint item, it_Evidence = None\<rparr>))"
  by (auto simp: resume_plan_def res_simps Let_def)

lemma still_running_ok:
  "still_running item expected attemptID = Inr u \<longleftrightarrow>
     st_StateRevision (it_State item) = expected \<and> st_State (it_State item) = StateRunning
     \<and> st_ActiveAttemptID (it_State item) = attemptID
     \<and> map_option at_AttemptID (it_Attempt item) = Some attemptID"
  by (auto simp: still_running_def)

lemma running_attempt_ok:
  "running_attempt item expected attemptID = Inr u \<longleftrightarrow>
     st_StateRevision (it_State item) = expected \<and> st_State (it_State item) = StateRunning
     \<and> active_attempt item attemptID"
  by (auto simp: running_attempt_def)

lemma collect_plan_ok:
  "collect_plan e ws it i item now receipt L current = Inr (r, out) \<longleftrightarrow>
     still_running current (ei_ExpectedRevision i) (ei_AttemptID i) = Inr ()
     \<and> validateRevision r = Inr ()
     \<and> (let s = bump (it_State item) now in
        r = (plain_revision s (it_Attempt item) (it_Checkpoint item)
               ((transition_to s ws it (ei_AttemptID i) now)\<lparr>tr_State := StateRunning\<rparr>))
               \<lparr>rv_Evidence := Some receipt\<rparr>
        \<and> out = (\<lparr>it_Contract = it_Contract item, it_State = s, it_Attempt = it_Attempt item,
                  it_Checkpoint = it_Checkpoint item, it_Evidence = Some receipt\<rparr>, receipt))"
  by (auto simp: collect_plan_def res_simps Let_def)

lemma complete_plan_ok:
  "complete_plan e ws it i item L current = Inr (r, out) \<longleftrightarrow>
     still_running current (mi_ExpectedRevision i) (mi_AttemptID i) = Inr ()
     \<and> validateRevision r = Inr ()
     \<and> (let now = e_Clock e (length (ct_Criteria (it_Contract item)));
            a = map_option (\<lambda>a. a\<lparr>at_State := AttemptCompleted\<rparr>) (it_Attempt item);
            s = (bump (it_State item) now)\<lparr>st_State := StateCompleted, st_ActiveAttemptID := []\<rparr> in
        r = plain_revision s a (it_Checkpoint item) (transition_to s ws it (mi_AttemptID i) now)
        \<and> out = \<lparr>it_Contract = it_Contract item, it_State = s, it_Attempt = a,
                 it_Checkpoint = it_Checkpoint item, it_Evidence = None\<rparr>)"
  by (auto simp: complete_plan_def res_simps Let_def)

lemma commitToolCall_plan_ok:
  "commitToolCall_plan item receipt now = Inr (r, out) \<longleftrightarrow>
     validateToolCallReceipt receipt = Inr () \<and> validateRevision r = Inr ()
     \<and> r = tool_call_revision item receipt now
     \<and> out = (\<lparr>it_Contract = it_Contract item, it_State = rv_State r, it_Attempt = it_Attempt item,
               it_Checkpoint = it_Checkpoint item, it_Evidence = None\<rparr>, receipt)"
  by (auto simp: commitToolCall_plan_def res_simps Let_def)

lemma tool_call_revision_simps [simp]:
  "rv_State (tool_call_revision item receipt now) = bump (it_State item) now"
  "rv_ToolCall (tool_call_revision item receipt now) = Some receipt"
  by (simp_all add: tool_call_revision_def Let_def)

lemma start_tool_plan_ok:
  "start_tool_plan e ws it i L item = Inr (r, out) \<longleftrightarrow>
     running_attempt item (si_ExpectedRevision i) (si_AttemptID i) = Inr ()
     \<and> (\<exists>k. new_id e ''tool-call'' = Inr k \<and> commitToolCall_plan item
          \<lparr>tc_SchemaVersion = 1, tc_ToolCallID = k, tc_ItemID = it, tc_WorkspaceID = ws,
           tc_AttemptID = si_AttemptID i, tc_AgentID = si_AgentID i, tc_ToolID = si_ToolID i,
           tc_State = ToolCallStarted, tc_StartedAt = e_Clock e 0, tc_FinishedAt = None\<rparr>
          (e_Clock e 0) = Inr (r, out))"
  by (auto simp: start_tool_plan_def res_simps Let_def)

lemma finish_tool_plan_ok:
  "finish_tool_plan e ws it i L item = Inr (r, out) \<longleftrightarrow>
     running_attempt item (fi_ExpectedRevision i) (fi_AttemptID i) = Inr ()
     \<and> (\<exists>calls c. toolCalls ws it L = Inr calls \<and> latest_by tc_ToolCallID calls (fi_ToolCallID i) = Some c
         \<and> tc_AttemptID c = fi_AttemptID i \<and> tc_State c = ToolCallStarted
         \<and> commitToolCall_plan item (c\<lparr>tc_State := fi_Outcome i, tc_FinishedAt := Some (e_Clock e 0)\<rparr>)
             (e_Clock e 0) = Inr (r, out))"
  by (auto simp: finish_tool_plan_def latestToolCalls_def res_simps Let_def split: option.splits)

text \<open>For the signed review only what the proofs use: the guards, and the recorded revision.\<close>

lemma review_plan_okD:
  assumes "review_plan e ws it i L item = Inr (r, (item', receipt))"
  shows "running_attempt item (yi_ExpectedRevision i) (yi_AttemptID i) = Inr ()"
    and "ct_RequireYodaReview (it_Contract item)"
    and "verifyYodaReviewEnvelope e item (yi_Envelope i) (e_Clock e 0) = Inr ()"
    and "\<exists>reviews. yodaReviews ws it L = Inr reviews \<and> (\<forall>y \<in> set reviews.
           yr_EnvelopeSHA256 y \<noteq> e_SHA256 e (marshal (envelope_json (yi_Envelope i))))"
    and "validateRevision r = Inr ()"
    and "rv_State r = bump (it_State item) (e_Clock e 1)"
    and "rv_YodaReview r = Some receipt"
    and "it_State item' = rv_State r"
    and "yr_EnvelopeSHA256 receipt = e_SHA256 e (marshal (envelope_json (yi_Envelope i)))"
    and "yr_Decision receipt = ye_Decision (yi_Envelope i)"
    and "yr_RecordedRevision receipt = st_StateRevision (rv_State r)"
    and "yr_ContractSHA256 receipt = st_ContractSHA256 (it_State item)"
    and "yr_AttemptID receipt = yi_AttemptID i"
  using assms by (auto simp: review_plan_def res_simps Let_def)

section \<open>The contract holds for every operation\<close>

interpretation start: current_mutation ws it "start_plan e ws it expected"
  for e ws it expected
proof unfold_locales
  fix L L' :: ledger and item r out
  show "start_plan e ws it expected L item = start_plan e ws it expected L' item"
    by (simp add: start_plan_def)
  assume p: "start_plan e ws it expected L item = Inr (r, out)"
  then show v: "validateRevision r = Inr ()" by (auto simp: start_plan_ok)
  assume "fits_int64 (st_StateRevision (it_State item))"
  with p show "follows (it_State item) (rv_State r) \<and> st_StateRevision (rv_State r) \<le> max_int64"
    by (intro bumped_follows [OF v]) (auto simp: start_plan_ok Let_def begin_work)
qed

interpretation checkpoint: current_mutation ws it "checkpoint_plan e ws it i"
  for e ws it i
proof unfold_locales
  fix L L' :: ledger and item r out
  show "checkpoint_plan e ws it i L item = checkpoint_plan e ws it i L' item"
    by (simp add: checkpoint_plan_def)
  assume p: "checkpoint_plan e ws it i L item = Inr (r, out)"
  then show v: "validateRevision r = Inr ()" by (auto simp: checkpoint_plan_ok Let_def)
  assume "fits_int64 (st_StateRevision (it_State item))"
  with p show "follows (it_State item) (rv_State r) \<and> st_StateRevision (rv_State r) \<le> max_int64"
    by (intro bumped_follows [OF v]) (auto simp: checkpoint_plan_ok Let_def record_work)
qed

interpretation pause: current_mutation ws it "pause_plan e ws it expected attemptID"
  for e ws it expected attemptID
proof unfold_locales
  fix L L' :: ledger and item r out
  show "pause_plan e ws it expected attemptID L item = pause_plan e ws it expected attemptID L' item"
    by (simp add: pause_plan_def)
  assume p: "pause_plan e ws it expected attemptID L item = Inr (r, out)"
  then show v: "validateRevision r = Inr ()" by (auto simp: pause_plan_ok)
  assume "fits_int64 (st_StateRevision (it_State item))"
  with p show "follows (it_State item) (rv_State r) \<and> st_StateRevision (rv_State r) \<le> max_int64"
    by (intro bumped_follows [OF v]) (auto simp: pause_plan_ok Let_def suspend)
qed

interpretation resume: current_mutation ws it "resume_plan e ws it expected"
  for e ws it expected
proof unfold_locales
  fix L L' :: ledger and item r out
  show "resume_plan e ws it expected L item = resume_plan e ws it expected L' item"
    by (simp add: resume_plan_def)
  assume p: "resume_plan e ws it expected L item = Inr (r, out)"
  then show v: "validateRevision r = Inr ()" by (auto simp: resume_plan_ok)
  assume "fits_int64 (st_StateRevision (it_State item))"
  with p show "follows (it_State item) (rv_State r) \<and> st_StateRevision (rv_State r) \<le> max_int64"
    by (intro bumped_follows [OF v]) (auto simp: resume_plan_ok Let_def continue_work)
qed

interpretation start_tool: current_mutation ws it "start_tool_plan e ws it i"
  for e ws it i
proof unfold_locales
  fix L L' :: ledger and item r out
  show "start_tool_plan e ws it i L item = start_tool_plan e ws it i L' item"
    by (simp add: start_tool_plan_def)
  assume p: "start_tool_plan e ws it i L item = Inr (r, out)"
  then show v: "validateRevision r = Inr ()" by (auto simp: start_tool_plan_ok commitToolCall_plan_ok)
  assume "fits_int64 (st_StateRevision (it_State item))"
  with p show "follows (it_State item) (rv_State r) \<and> st_StateRevision (rv_State r) \<le> max_int64"
    by (intro bumped_follows [OF v])
       (auto simp: start_tool_plan_ok commitToolCall_plan_ok running_attempt_ok record_work)
qed

interpretation finish_tool: current_mutation ws it "finish_tool_plan e ws it i"
  for e ws it i
proof unfold_locales
  fix L L' :: ledger and item r out
  assume "view L = view L'"
  then show "finish_tool_plan e ws it i L item = finish_tool_plan e ws it i L' item"
    by (simp add: finish_tool_plan_def latestToolCalls_def toolCalls_def history_view [of L L'])
next
  fix L :: ledger and item r out
  assume p: "finish_tool_plan e ws it i L item = Inr (r, out)"
  then show v: "validateRevision r = Inr ()" by (auto simp: finish_tool_plan_ok commitToolCall_plan_ok)
  assume "fits_int64 (st_StateRevision (it_State item))"
  with p show "follows (it_State item) (rv_State r) \<and> st_StateRevision (rv_State r) \<le> max_int64"
    by (intro bumped_follows [OF v])
       (auto simp: finish_tool_plan_ok commitToolCall_plan_ok running_attempt_ok record_work)
qed

interpretation review: current_mutation ws it "review_plan e ws it i"
  for e ws it i
proof unfold_locales
  fix L L' :: ledger and item r and out :: "Item \<times> YodaReviewReceipt"
  assume "view L = view L'"
  then show "review_plan e ws it i L item = review_plan e ws it i L' item"
    by (simp add: review_plan_def yodaReviews_def history_view [of L L'])
next
  fix L :: ledger and item r and out :: "Item \<times> YodaReviewReceipt"
  assume "review_plan e ws it i L item = Inr (r, out)"
  then have p: "review_plan e ws it i L item = Inr (r, (fst out, snd out))" by simp
  show v: "validateRevision r = Inr ()" by (rule review_plan_okD(5) [OF p])
  assume "fits_int64 (st_StateRevision (it_State item))"
  with review_plan_okD(1,6) [OF p]
  show "follows (it_State item) (rv_State r) \<and> st_StateRevision (rv_State r) \<le> max_int64"
    by (intro bumped_follows [OF v]) (auto simp: running_attempt_ok record_work)
qed

text \<open>The plans of the second critical sections carry the item of the first.\<close>

lemma collect_mutation:
  assumes "st_State (it_State item) = StateRunning"
  shows "item_mutation (\<lambda>_. it_State item) (collect_plan e ws it i item now receipt)"
proof unfold_locales
  fix L L' :: ledger and cur r out
  show "collect_plan e ws it i item now receipt L cur = collect_plan e ws it i item now receipt L' cur"
    by (simp add: collect_plan_def)
  assume p: "collect_plan e ws it i item now receipt L cur = Inr (r, out)"
  then show v: "validateRevision r = Inr ()" by (auto simp: collect_plan_ok)
  assume "fits_int64 (st_StateRevision (it_State item))"
  with p assms show "follows (it_State item) (rv_State r) \<and> st_StateRevision (rv_State r) \<le> max_int64"
    by (intro bumped_follows [OF v]) (auto simp: collect_plan_ok Let_def record_work)
qed

lemma complete_mutation:
  assumes "st_State (it_State item) = StateRunning"
  shows "item_mutation (\<lambda>_. it_State item) (complete_plan e ws it i item)"
proof unfold_locales
  fix L L' :: ledger and cur r out
  show "complete_plan e ws it i item L cur = complete_plan e ws it i item L' cur"
    by (simp add: complete_plan_def)
  assume p: "complete_plan e ws it i item L cur = Inr (r, out)"
  then show v: "validateRevision r = Inr ()" by (auto simp: complete_plan_ok)
  assume "fits_int64 (st_StateRevision (it_State item))"
  with p assms show "follows (it_State item) (rv_State r) \<and> st_StateRevision (rv_State r) \<le> max_int64"
    by (intro bumped_follows [OF v]) (auto simp: complete_plan_ok Let_def finish)
qed

end
