(* ===== verification/ExecSystem.thy ===== *)
theory ExecSystem
  imports ExecPlans
begin

text \<open>
  The ledger as a state machine: a step is one call of one operation, with any inputs, any
  environment and any result, failures halfway included. Every reachable ledger is well
  formed, and a step refuses, creates an item, appends one legal revision to one item, or
  deletes an item that was not running.
\<close>

section \<open>Every operation over the log\<close>

lemma Start_outcome:
  "wf_ledger L \<Longrightarrow> Start e ws it n L = (res, L') \<Longrightarrow> outcome e ws it (start_plan e ws it n) L res L'"
  unfolding Start_def by (rule start.call_outcome)

lemma Checkpoint_outcome:
  "wf_ledger L \<Longrightarrow> Checkpoint e ws it i L = (res, L') \<Longrightarrow> outcome e ws it (checkpoint_plan e ws it i) L res L'"
  unfolding Checkpoint_def by (rule checkpoint.call_outcome)

lemma Pause_outcome:
  "wf_ledger L \<Longrightarrow> Pause e ws it n a L = (res, L') \<Longrightarrow> outcome e ws it (pause_plan e ws it n a) L res L'"
  unfolding Pause_def by (rule pause.call_outcome)

lemma Resume_outcome:
  "wf_ledger L \<Longrightarrow> Resume e ws it n L = (res, L') \<Longrightarrow> outcome e ws it (resume_plan e ws it n) L res L'"
  unfolding Resume_def by (rule resume.call_outcome)

lemma StartToolCall_outcome:
  "wf_ledger L \<Longrightarrow> StartToolCall e ws it i L = (res, L') \<Longrightarrow> outcome e ws it (start_tool_plan e ws it i) L res L'"
  unfolding StartToolCall_def by (rule start_tool.call_outcome)

lemma FinishToolCall_outcome:
  "wf_ledger L \<Longrightarrow> FinishToolCall e ws it i L = (res, L') \<Longrightarrow> outcome e ws it (finish_tool_plan e ws it i) L res L'"
  unfolding FinishToolCall_def by (rule finish_tool.call_outcome)

lemma RecordYodaReview_outcome:
  "wf_ledger L \<Longrightarrow> RecordYodaReview e ws it i L = (res, L') \<Longrightarrow> outcome e ws it (review_plan e ws it i) L res L'"
  unfolding RecordYodaReview_def by (rule review.call_outcome)

text \<open>The first critical sections leave the view alone and return what they read of it.\<close>

lemma reading_section:
  assumes "with_lock e ws it (\<lambda>L. (f L, L)) L = (res, L')"
    and "\<And>L1. view L1 = view L \<Longrightarrow> f L1 = f L"
  shows "view L' = view L \<and> (\<forall>y. res = Inr y \<longrightarrow> f L = Inr y)"
  using with_lock_cases [OF assms(1)]
proof
  assume "\<exists>L1 L2. lock e ws it L = (Inr (), L1) \<and> view L1 = view L
    \<and> (f L1, L1) = (res, L2) \<and> view L' = view L2 \<and> L' = unlock e ws it L2"
  then obtain L1 where v: "view L1 = view L" and "res = f L1" "view L' = view L1" by auto
  with assms(2) [OF v] show ?thesis by simp
qed auto

lemma collect_read_ok:
  "collect_read e ws it i L = Inr (item, c, evidenceID, now) \<Longrightarrow>
     inspectUnlocked e ws it L = Inr item
     \<and> st_StateRevision (it_State item) = ei_ExpectedRevision i
     \<and> st_State (it_State item) = StateRunning \<and> active_attempt item (ei_AttemptID i)
     \<and> findCriterion (it_Contract item) (ei_CriterionID i) = Inr c"
  by (auto simp: collect_read_def res_simps)

lemma collect_begin_ok:
  assumes "collect_begin e ws it i L = (res, L')"
  shows "view L' = view L \<and> (\<forall>y. res = Inr y \<longrightarrow> collect_read e ws it i L = Inr y)"
proof (cases "checks [validateItemInput e ws it,
                   fail_if (TrimSpace (ei_WorkspaceRoot i) = [] \<or> ei_ExpectedRevision i < 1)
                     (Msg ''workspace root and expected revision are required''),
                   validateID ''attempt'' (ei_AttemptID i),
                   validateID ''criterion'' (ei_CriterionID i)]")
  case (Inl x)
  with assms show ?thesis unfolding collect_begin_def by auto
next
  case (Inr u)
  have "collect_read e ws it i L1 = collect_read e ws it i L" if same: "view L1 = view L" for L1
    unfolding collect_read_def inspect_view [OF same] ..
  moreover have "with_lock e ws it (\<lambda>L. (collect_read e ws it i L, L)) L = (res, L')"
    using assms Inr unfolding collect_begin_def by auto
  ultimately show ?thesis by (rule reading_section [rotated])
qed

lemma complete_read_ok:
  "complete_read e ws it i L = Inr (item, evidence) \<Longrightarrow>
     inspectUnlocked e ws it L = Inr item
     \<and> still_running item (mi_ExpectedRevision i) (mi_AttemptID i) = Inr ()
     \<and> latestEvidence ws it L = Inr evidence
     \<and> (ct_RequireYodaReview (it_Contract item) \<longrightarrow> currentYodaApproval ws it (it_State item) L = Inr ())"
  by (auto simp: complete_read_def res_simps split: if_splits)

lemma complete_begin_ok:
  assumes "complete_begin e ws it i L = (res, L')"
  shows "view L' = view L \<and> (\<forall>y. res = Inr y \<longrightarrow> complete_read e ws it i L = Inr y)"
proof (cases "validateItemInput e ws it")
  case (Inl x)
  with assms show ?thesis by (auto simp: complete_begin_def)
next
  case (Inr u)
  have "complete_read e ws it i L1 = complete_read e ws it i L" if same: "view L1 = view L" for L1
    unfolding complete_read_def inspect_view [OF same] latestEvidence_def evidences_def
      currentYodaApproval_def yodaReviews_def history_view [OF same] ..
  moreover have "with_lock e ws it (\<lambda>L. (complete_read e ws it i L, L)) L = (res, L')"
    using assms Inr by (simp add: complete_begin_def)
  ultimately show ?thesis by (rule reading_section [rotated])
qed

text \<open>The second critical section runs on a ledger with the same documents.\<close>

lemma second_section:
  assumes contract: "st_State (it_State item) = StateRunning \<Longrightarrow> item_mutation (\<lambda>_. it_State item) plan"
    and wf: "wf_ledger L" and v: "view L1 = view L" and m: "mutate e ws it plan L1 = (res, L')"
    and read: "inspectUnlocked e ws it L = Inr item" "st_State (it_State item) = StateRunning"
  shows "outcome e ws it plan L res L'"
proof -
  have im: "item_mutation (\<lambda>_. it_State item) plan" by (rule contract [OF read(2)])
  have revs: "revs L1 ws' it' = revs L ws' it'" for ws' it' by (rule revs_view) (simp add: v)
  have "outcome e ws it plan L1 res L'"
    using item_mutation.mutate_outcome [OF im _ m] inspect_known [OF wf read(1)] wf v
    by (simp add: wf_ledger_view [OF v] revs)
  moreover have "plan L1 item' = plan L item'" for item'
    by (rule item_mutation.plan_view [OF im v])
  ultimately show ?thesis
    unfolding outcome_def appends_def by (simp add: v revs inspect_view [OF v])
qed

lemma CollectEvidence_cases:
  assumes wf: "wf_ledger L" and run: "CollectEvidence e h ws it i L = (res, L')"
  shows "(\<exists>x. res = Inl x) \<and> view L' = view L
    \<or> (\<exists>item c k now receipt.
        collect_read e ws it i L = Inr (item, c, k, now)
        \<and> witnessCriterion e h (ei_WorkspaceRoot i) item c k now = Inr receipt
        \<and> outcome e ws it (collect_plan e ws it i item now receipt) L res L')"
proof -
  obtain b L1 where b: "collect_begin e ws it i L = (b, L1)" by fastforce
  from collect_begin_ok [OF b] have v: "view L1 = view L" by simp
  show ?thesis
  proof (cases b)
    case (Inl x)
    with run b v show ?thesis by (auto simp: CollectEvidence_def)
  next
    case (Inr y)
    obtain item c k now where y: "y = (item, c, k, now)" by (cases y) auto
    from collect_begin_ok [OF b] Inr y have read: "collect_read e ws it i L = Inr (item, c, k, now)" by simp
    show ?thesis
    proof (cases "witnessCriterion e h (ei_WorkspaceRoot i) item c k now")
      case (Inl x)
      with run b Inr y v show ?thesis by (auto simp: CollectEvidence_def)
    next
      case w: (Inr receipt)
      with run b Inr y have m: "mutate e ws it (collect_plan e ws it i item now receipt) L1 = (res, L')"
        by (simp add: CollectEvidence_def)
      from second_section [OF collect_mutation wf v m] collect_read_ok [OF read] read w
      show ?thesis by blast
    qed
  qed
qed

lemma Complete_cases:
  assumes wf: "wf_ledger L" and run: "Complete e h ws it i L = (res, L')"
  shows "(\<exists>x. res = Inl x) \<and> view L' = view L
    \<or> (\<exists>item evidence. complete_read e ws it i L = Inr (item, evidence)
        \<and> all_criteria_hold e h (mi_WorkspaceRoot i) item evidence 0 (ct_Criteria (it_Contract item)) = Inr ()
        \<and> outcome e ws it (complete_plan e ws it i item) L res L')"
proof -
  obtain b L1 where b: "complete_begin e ws it i L = (b, L1)" by fastforce
  from complete_begin_ok [OF b] have v: "view L1 = view L" by simp
  show ?thesis
  proof (cases b)
    case (Inl x)
    with run b v show ?thesis by (auto simp: Complete_def)
  next
    case (Inr y)
    obtain item evidence where y: "y = (item, evidence)" by (cases y)
    from complete_begin_ok [OF b] Inr y have read: "complete_read e ws it i L = Inr (item, evidence)" by simp
    show ?thesis
    proof (cases "all_criteria_hold e h (mi_WorkspaceRoot i) item evidence 0 (ct_Criteria (it_Contract item))")
      case (Inl x)
      with run b Inr y v show ?thesis by (auto simp: Complete_def)
    next
      case w: (Inr u)
      with run b Inr y have m: "mutate e ws it (complete_plan e ws it i item) L1 = (res, L')"
        by (simp add: Complete_def)
      from second_section [OF complete_mutation wf v m] complete_read_ok [OF read] read w
      show ?thesis by (auto simp: still_running_ok)
    qed
  qed
qed

section \<open>Create and Delete\<close>

lemma get_mkdir_items [simp]: "get_item (mkdir_items ws L) ws' it = get_item L ws' it"
  by (auto simp: get_item_def get_entry_def mkdir_items_def split: option.splits)

lemma mkdir_items_view: "view (mkdir_items ws L) = view L"
  by (simp add: view_def fun_eq_iff)

lemma Create_cases:
  assumes "Create e i L = (res, L')"
  shows "view L' = view L \<or> (\<exists>c s r. create_plan e i = Inr (c, s, r)
    \<and> L' = put_item (mkdir_items (ci_WorkspaceID i) L) (ci_WorkspaceID i) (ct_ItemID c) (create_dir c s r))"
  using assms
  by (auto simp: Create_def Let_def mkdir_items_view
      split: sum.splits option.splits items_entry.splits if_splits)

lemma create_plan_ok:
  assumes "create_plan e i = Inr (c, s, r)"
  shows "validateRevision r = Inr () \<and> first_ok (ci_WorkspaceID i) (ct_ItemID c) r
    \<and> validateContract c = Inr () \<and> rv_State r = s
    \<and> contractDigest e c = Inr (st_ContractSHA256 s) \<and> encodable (contract_json c)
    \<and> (\<exists>k. new_id e ''item'' = Inr k \<and> c = contract_of i k (e_Clock e 0)
         \<and> s = initial_state (ci_WorkspaceID i) k (st_ContractSHA256 s) (e_Clock e 0)
         \<and> r = plain_revision s None None (transition_to s (ci_WorkspaceID i) k [] (e_Clock e 0)))"
  using assms
  by (auto simp: create_plan_def res_simps Let_def first_ok_def initial_state_def contract_of_def
      validateRevision_def transition_to_def plain_revision_def validateState_ok validateTransition_ok
      contractDigest_def split: if_splits)

text \<open>The log of a new item.\<close>

lemma create_dir_wf:
  assumes "validateRevision r = Inr ()" "first_ok ws it r"
  shows "wf_item ws it (create_dir c s r)"
  using assms by (simp add: wf_item_def create_dir_def docs_def hist_ok_def)

definition created :: "ledger \<Rightarrow> string \<Rightarrow> string \<Rightarrow> Contract \<Rightarrow> Revision \<Rightarrow> ledger \<Rightarrow> bool" where
  "created L ws it c r L' \<longleftrightarrow> view L (ws, it) = None
     \<and> view L' = (view L)((ws, it) \<mapsto> (Some c, Some [(revisionName 1, RevDoc r)]))"

lemma wf_not_empty_dir: "wf_item ws it d \<Longrightarrow> d \<noteq> empty_dir"
  by (auto simp: wf_item_def empty_dir_def)

lemma wf_ledger_put:
  assumes "wf_ledger L" "wf_item ws it d" "view L' = (view L)((ws, it) \<mapsto> (id_Contract d, id_Revisions d))"
  shows "wf_ledger L'"
proof -
  from assms(1,2) have "wf_ledger (put_item L ws it d)" by (auto simp: wf_ledger_def)
  moreover have "view L' = view (put_item L ws it d)" using assms(3) by (simp add: view_put)
  ultimately show ?thesis using wf_ledger_view by blast
qed

lemma wf_ledger_del: "wf_ledger L \<Longrightarrow> wf_ledger (del_item L ws it)"
  by (simp add: wf_ledger_def)

lemma Create_outcome:
  assumes wf: "wf_ledger L" and run: "Create e i L = (res, L')"
  shows "(\<exists>x. res = Inl x) \<and> view L' = view L
    \<or> (\<exists>c s r. create_plan e i = Inr (c, s, r) \<and> wf_ledger L'
        \<and> created L (ci_WorkspaceID i) (ct_ItemID c) c r L'
        \<and> res = Inr \<lparr>it_Contract = c, it_State = s, it_Attempt = None,
                     it_Checkpoint = None, it_Evidence = None\<rparr>)"
proof (cases "create_plan e i")
  case (Inl x)
  with run show ?thesis by (auto simp: Create_def)
next
  case (Inr p)
  obtain c s r where p: "p = (c, s, r)" by (cases p)
  note ok = create_plan_ok [OF Inr [unfolded p]]
  let ?ws = "ci_WorkspaceID i" and ?it = "ct_ItemID c" and ?L1 = "mkdir_items (ci_WorkspaceID i) L"
  have wf1: "wf_ledger ?L1" using wf wf_ledger_view [OF mkdir_items_view] by blast
  have put: "created L ?ws ?it c r (put_item ?L1 ?ws ?it (create_dir c s r))
      \<and> wf_ledger (put_item ?L1 ?ws ?it (create_dir c s r))" if none: "get_item ?L1 ?ws ?it = None"
  proof -
    have "view L (?ws, ?it) = None"
      using none mkdir_items_view [of ?ws L] by (metis view_apply option.simps(8))
    moreover have "wf_item ?ws ?it (create_dir c s r)" using ok by (intro create_dir_wf) auto
    ultimately show ?thesis
      using wf1 by (auto simp: created_def view_put mkdir_items_view create_dir_def wf_ledger_def)
  qed
  have no_empty: "get_entry ?L1 ?ws ?it \<noteq> Some (ItemDir empty_dir)"
    using wf1 wf_not_empty_dir [of ?ws ?it empty_dir] by (auto simp: wf_ledger_def get_item_def)
  show ?thesis
    using run Inr p put no_empty
    by (auto simp: Create_def Let_def mkdir_items_view get_item_def
        split: sum.splits option.splits items_entry.splits if_splits)
qed

lemma delete_plan_ok:
  "delete_plan e ws it expected item = Inr r \<longleftrightarrow>
     st_StateRevision (it_State item) = expected
     \<and> st_State (it_State item) \<notin> {StateRunning, StateEvaluating}
     \<and> r = tombstone ws it (it_State item) (e_Clock e 0) \<and> validateRevision r = Inr ()"
  by (auto simp: delete_plan_def res_simps Let_def)

lemma tombstone_follows:
  assumes "validateRevision (tombstone ws it s now) = Inr ()" "fits_int64 (st_StateRevision s)"
    "st_State s \<notin> {StateRunning, StateEvaluating}"
  shows "follows s (rv_State (tombstone ws it s now))
    \<and> st_StateRevision (rv_State (tombstone ws it s now)) \<le> max_int64"
  using assms
  by (intro bumped_follows [OF assms(1,2)]) (simp_all add: tombstone_def Let_def discard)

text \<open>Deleting publishes the tombstone and then removes the item, or stops on the way.\<close>

definition deletion :: "env \<Rightarrow> string \<Rightarrow> string \<Rightarrow> int \<Rightarrow> ledger \<Rightarrow> ledger_error + unit \<Rightarrow> ledger \<Rightarrow> bool" where
  "deletion e ws it expected L res L' \<longleftrightarrow>
     (\<exists>x. res = Inl x) \<and> view L' = view L
     \<or> (\<exists>item r. inspectUnlocked e ws it L = Inr item \<and> delete_plan e ws it expected item = Inr r
          \<and> wf_ledger L'
          \<and> ((\<exists>x. res = Inl x) \<and> appends L ws it r L' \<or> view L' = (view L)((ws, it) := None)))"

lemma delete_body_outcome:
  assumes wf: "wf_ledger L" and run: "delete_body e ws it expected L = (res, L')"
  shows "deletion e ws it expected L res L'"
proof (cases "bind_r (inspectUnlocked e ws it L) (\<lambda>item.
             bind_r (delete_plan e ws it expected item) (\<lambda>r.
               writeImmutableRevision e ws it (revisionName (st_StateRevision (rv_State r))) r L))")
  case (Inl x)
  with run show ?thesis by (auto simp: delete_body_def deletion_def)
next
  case (Inr L1)
  then obtain item r where i: "inspectUnlocked e ws it L = Inr item"
    and p: "delete_plan e ws it expected item = Inr r"
    and w: "writeImmutableRevision e ws it (revisionName (st_StateRevision (rv_State r))) r L = Inr L1"
    by (auto simp: res_simps)
  from p have r: "r = tombstone ws it (it_State item) (e_Clock e 0)" "validateRevision r = Inr ()"
    "st_State (it_State item) \<notin> {StateRunning, StateEvaluating}"
    unfolding delete_plan_ok by blast+
  note pub = writeImmutableRevision_published [OF w, THEN conjunct1]
  have fol: "follows (it_State item) (rv_State r) \<and> st_StateRevision (rv_State r) \<le> max_int64"
    unfolding r(1) using r(2) [unfolded r(1)] r(3) inspect_last [OF wf i]
    by (intro tombstone_follows) blast+
  have a: "wf_ledger L1 \<and> appends L ws it r L1"
    using fol by (intro published_appends [OF wf pub] r(2) exI [of _ "it_State item"] conjI
        inspect_known [OF wf i]) auto
  have v: "view (del_item L1 ws it) = (view L)((ws, it) := None)"
    using pub by (auto simp: view_del published_def)
  show ?thesis
  proof (cases "checks [os_call e ''mkdir trash'', os_call e ''rename trash'']")
    case err: (Inl x)
    from run have "L' = L1" "res = Inl x" by (simp_all only: delete_body_def Inr err sum.case prod.inject)
    with a i p show ?thesis unfolding deletion_def by blast
  next
    case ok: (Inr u)
    from run have "L' = del_item L1 ws it" by (simp only: delete_body_def Inr ok sum.case prod.inject)
    with v a i p wf_ledger_del [of L1 ws it] show ?thesis unfolding deletion_def by auto
  qed
qed

lemma Delete_outcome:
  assumes wf: "wf_ledger L" and run: "Delete e ws it expected confirmed L = (res, L')"
  shows "deletion e ws it expected L res L' \<and> (view L' \<noteq> view L \<longrightarrow> confirmed)"
proof (cases "checks [fail_if (\<not> confirmed) ErrConfirmationRequired, validateItemInput e ws it]")
  case (Inl x)
  with run have "L' = L" "res = Inl x" unfolding Delete_def by auto
  then show ?thesis by (simp add: deletion_def)
next
  case (Inr u)
  then have "confirmed" by simp
  from run have "with_lock e ws it (delete_body e ws it expected) L = (res, L')"
    by (simp only: Delete_def Inr sum.case)
  from with_lock_cases [OF this]
  have "deletion e ws it expected L res L'"
  proof
    assume "\<exists>L1 L2. lock e ws it L = (Inr (), L1) \<and> view L1 = view L
      \<and> delete_body e ws it expected L1 = (res, L2) \<and> view L' = view L2 \<and> L' = unlock e ws it L2"
    then obtain L1 L2 where v: "view L1 = view L" and b: "delete_body e ws it expected L1 = (res, L2)"
      and v2: "view L' = view L2" by blast
    have revs: "revs L1 ws' it' = revs L ws' it'" "revs L' ws' it' = revs L2 ws' it'" for ws' it'
      by (rule revs_view, simp add: v v2)+
    from wf v have "wf_ledger L1" using wf_ledger_view by blast
    from delete_body_outcome [OF this b] show ?thesis
      unfolding deletion_def appends_def
      by (simp add: v v2 revs inspect_view [OF v] wf_ledger_view [OF v2])
  qed (auto simp: deletion_def)
  with \<open>confirmed\<close> show ?thesis by simp
qed

section \<open>Reachable ledgers\<close>

inductive ledger_step :: "ledger \<Rightarrow> ledger \<Rightarrow> bool" where
  step_create: "Create e i L = (res, L') \<Longrightarrow> ledger_step L L'"
| step_start: "Start e ws it n L = (res, L') \<Longrightarrow> ledger_step L L'"
| step_checkpoint: "Checkpoint e ws it k L = (res, L') \<Longrightarrow> ledger_step L L'"
| step_pause: "Pause e ws it n a L = (res, L') \<Longrightarrow> ledger_step L L'"
| step_resume: "Resume e ws it n L = (res, L') \<Longrightarrow> ledger_step L L'"
| step_delete: "Delete e ws it n c L = (res, L') \<Longrightarrow> ledger_step L L'"
| step_collect: "CollectEvidence e h ws it v L = (res, L') \<Longrightarrow> ledger_step L L'"
| step_complete: "Complete e h ws it m L = (res, L') \<Longrightarrow> ledger_step L L'"
| step_start_tool: "StartToolCall e ws it s L = (res, L') \<Longrightarrow> ledger_step L L'"
| step_finish_tool: "FinishToolCall e ws it f L = (res, L') \<Longrightarrow> ledger_step L L'"
| step_review: "RecordYodaReview e ws it y L = (res, L') \<Longrightarrow> ledger_step L L'"

inductive reachable :: "ledger \<Rightarrow> bool" where
  fresh: "reachable (\<lambda>_. None)"
| after: "reachable L \<Longrightarrow> ledger_step L L' \<Longrightarrow> reachable L'"

text \<open>What one step does to one item, over the abstract log.\<close>

definition item_change :: "ledger \<Rightarrow> ledger \<Rightarrow> string \<Rightarrow> string \<Rightarrow> bool" where
  "item_change L L' ws it \<longleftrightarrow>
     view L' (ws, it) = view L (ws, it)
     \<or> (\<exists>r. revs L' ws it = revs L ws it @ [r]
           \<and> follows (rv_State (last (revs L ws it))) (rv_State r) \<and> validateRevision r = Inr ()
           \<and> map_option fst (view L' (ws, it)) = map_option fst (view L (ws, it)))
     \<or> (view L (ws, it) = None
         \<and> (\<exists>c r. view L' (ws, it) = Some (Some c, Some [(revisionName 1, RevDoc r)]) \<and> first_ok ws it r))
     \<or> (view L' (ws, it) = None
         \<and> st_State (rv_State (last (revs L ws it))) \<notin> {StateRunning, StateEvaluating})"

lemma outcome_change: "outcome e ws it plan L res L' \<Longrightarrow> item_change L L' ws' it'"
  unfolding outcome_def appends_def item_change_def by (cases "(ws', it') = (ws, it)") auto

lemma same_view_change: "view L' = view L \<Longrightarrow> item_change L L' ws it"
  by (simp add: item_change_def)

lemma ledger_step_effect:
  assumes wf: "wf_ledger L" and step: "ledger_step L L'"
  shows "wf_ledger L' \<and> (\<forall>ws it. item_change L L' ws it)"
  using step
proof cases
  case (step_create e i res)
  from Create_outcome [OF wf step_create] show ?thesis
  proof
    assume "\<exists>c s r. create_plan e i = Inr (c, s, r) \<and> wf_ledger L'
        \<and> created L (ci_WorkspaceID i) (ct_ItemID c) c r L'
        \<and> res = Inr \<lparr>it_Contract = c, it_State = s, it_Attempt = None,
                     it_Checkpoint = None, it_Evidence = None\<rparr>"
    then obtain c s r where p: "create_plan e i = Inr (c, s, r)" and "wf_ledger L'"
      and "created L (ci_WorkspaceID i) (ct_ItemID c) c r L'" by blast
    with create_plan_ok [OF p] show ?thesis by (auto simp: created_def item_change_def)
  qed (use wf in \<open>auto simp: wf_ledger_view [of L' L] same_view_change\<close>)
next
  case (step_delete e ws it n c res)
  from Delete_outcome [OF wf step_delete] have "deletion e ws it n L res L'" by simp
  then show ?thesis
    unfolding deletion_def
  proof
    assume "\<exists>item r. inspectUnlocked e ws it L = Inr item \<and> delete_plan e ws it n item = Inr r
      \<and> wf_ledger L' \<and> ((\<exists>x. res = Inl x) \<and> appends L ws it r L' \<or> view L' = (view L)((ws, it) := None))"
    then obtain item r where i: "inspectUnlocked e ws it L = Inr item"
      and p: "delete_plan e ws it n item = Inr r" and wf': "wf_ledger L'"
      and d: "appends L ws it r L' \<or> view L' = (view L)((ws, it) := None)" by blast
    from p inspect_last [OF wf i] have "validateRevision r = Inr ()"
      "st_State (rv_State (last (revs L ws it))) \<notin> {StateRunning, StateEvaluating}"
      by (auto simp: delete_plan_ok)
    with d have "item_change L L' ws' it'" for ws' it'
      unfolding item_change_def appends_def by (cases "(ws', it') = (ws, it)") auto
    with wf' show ?thesis by simp
  qed (use wf in \<open>auto simp: wf_ledger_view [of L' L] same_view_change\<close>)
next
  case (step_collect e h ws it v res)
  from CollectEvidence_cases [OF wf step_collect] wf show ?thesis
    by (auto simp: wf_ledger_view [of L' L] same_view_change dest: outcome_wf outcome_change)
next
  case (step_complete e h ws it m res)
  from Complete_cases [OF wf step_complete] wf show ?thesis
    by (auto simp: wf_ledger_view [of L' L] same_view_change dest: outcome_wf outcome_change)
qed (use wf in \<open>auto dest: outcome_wf outcome_change
      Start_outcome Checkpoint_outcome Pause_outcome Resume_outcome StartToolCall_outcome
      FinishToolCall_outcome RecordYodaReview_outcome\<close>)

lemma reachable_wf: "reachable L \<Longrightarrow> wf_ledger L"
proof (induction rule: reachable.induct)
  case fresh
  show ?case by (simp add: wf_ledger_def get_item_def get_entry_def)
qed (simp add: ledger_step_effect)

end
