(* ===== verification/GoPath.thy ===== *)
theory GoPath
  imports GoStrings "HOL-Library.Sublist"
begin

text \<open>
  \<open>path/filepath\<close> on Unix: the components of a rooted path, and \<open>Join\<close>, \<open>Dir\<close>, \<open>Base\<close> and the
  question whether one path lies in another. A path is resolved to its components, so two spellings
  of a path are the same place.
\<close>

section \<open>Components\<close>

lemma split_on_append: "split_on d (a @ d # b) = split_on d a @ split_on d b"
proof (induction a)
  case (Cons c a)
  then show ?case by (cases "split_on d a") auto
qed simp

definition path_parts :: "string \<Rightarrow> string list" where
  "path_parts p = clean_parts True (split_on (CHR ''/'') p)"

lemma foldl_proper: "list_all is_proper cs \<Longrightarrow> foldl (clean_step r) stk cs = rev cs @ stk"
  by (induction cs arbitrary: stk) (auto simp: is_proper_def)

lemma path_parts_append:
  "list_all is_proper (split_on (CHR ''/'') p) \<Longrightarrow>
   path_parts (root @ CHR ''/'' # p) = path_parts root @ split_on (CHR ''/'') p"
  by (simp add: path_parts_def clean_parts_def split_on_append foldl_proper)

text \<open>An absolute path is the join of its components, so cleaning it again changes nothing.\<close>

lemma path_parts_clean:
  assumes "has_prefix p ''/''"
  shows "path_clean p = CHR ''/'' # join_with ''/'' (path_parts p)"
  using assms by (simp add: path_clean_def path_parts_def Let_def)

lemma rooted_step: "list_all is_proper stk \<Longrightarrow> list_all is_proper (clean_step True stk c)"
  by (cases stk) (auto simp: is_proper_def)

lemma rooted_parts: "list_all is_proper (path_parts p)"
proof -
  have "list_all is_proper stk \<Longrightarrow> list_all is_proper (foldl (clean_step True) stk cs)" for stk cs
  proof (induction cs arbitrary: stk)
    case (Cons c cs)
    then show ?case by (simp only: foldl_Cons rooted_step)
  qed simp
  from this [of "[]" "split_on (CHR ''/'') p"] show ?thesis
    by (simp add: path_parts_def clean_parts_def list_all_iff)
qed

lemma path_parts_of_clean:
  assumes "has_prefix p ''/''"
  shows "path_parts (path_clean p) = path_parts p"
proof (cases "path_parts p = []")
  case True
  with assms show ?thesis by (simp add: path_parts_clean) (simp add: path_parts_def clean_parts_def)
next
  case False
  have "split_on (CHR ''/'') (join_with ''/'' (path_parts p)) = path_parts p"
    using clean_parts_no_sep [of _ True "CHR ''/''" p] False
    by (intro split_join) (auto simp: path_parts_def)
  then have "path_parts (path_clean p) = clean_parts True ([] # path_parts p)"
    using assms by (simp add: path_parts_clean) (simp add: path_parts_def)
  also have "\<dots> = path_parts p"
    using rooted_parts [of p] by (simp add: clean_parts_def foldl_proper)
  finally show ?thesis .
qed

text \<open>A cleaned relative path that does not climb has proper components.\<close>

lemma clean_parts_relative:
  assumes "hd (clean_parts False cs) \<noteq> ''..''" "clean_parts False cs \<noteq> []"
  shows "list_all is_proper (clean_parts False cs)"
proof -
  have "clean_stack (foldl (clean_step False) [] cs)" by (rule foldl_clean_stack) simp
  with assms have "list_all is_proper (foldl (clean_step False) [] cs)"
    by (intro clean_stack_no_dotdot) (auto simp: clean_parts_def hd_rev)
  then show ?thesis by (simp add: clean_parts_def list_all_iff)
qed

lemma join_with_cons: "join_with d (w # ws) = (if ws = [] then w else w @ d @ join_with d ws)"
  by (cases ws) auto

lemma clean_relative_components:
  assumes "p = path_clean q" "p \<noteq> ''.''" "\<not> has_prefix p ''/''" "p \<noteq> ''..''" "\<not> has_prefix p ''../''"
  shows "list_all is_proper (split_on (CHR ''/'') p)"
proof -
  define parts where "parts = clean_parts False (split_on (CHR ''/'') q)"
  from assms have "\<not> has_prefix q ''/''" by (auto simp: path_clean_def Let_def has_prefix_iff)
  with assms(1,2) have body: "p = join_with ''/'' parts" "parts \<noteq> []"
    by (auto simp: path_clean_def Let_def parts_def split: if_splits)
  then obtain w ws where ws: "parts = w # ws" by (cases parts) auto
  have "w \<noteq> ''..''"
    using assms(4,5) body ws by (auto simp: join_with_cons has_prefix_iff split: if_splits)
  with ws have "list_all is_proper parts" unfolding parts_def by (intro clean_parts_relative) auto
  moreover have "split_on (CHR ''/'') p = parts"
    unfolding body(1) using clean_parts_no_sep [of _ False "CHR ''/''" q]
    by (intro split_join body(2)) (auto simp: parts_def)
  ultimately show ?thesis by simp
qed

section \<open>filepath\<close>

definition IsAbs :: "string \<Rightarrow> bool" where
  "IsAbs p \<longleftrightarrow> has_prefix p ''/''"

text \<open>\<open>filepath.Join\<close> leaves out empty elements.\<close>

definition filepath_Join :: "string list \<Rightarrow> string" where
  "filepath_Join elems =
     (let es = filter (\<lambda>e. e \<noteq> []) elems in if es = [] then [] else path_clean (join_with ''/'' es))"

text \<open>What is before the last separator, cleaned, and what is after it.\<close>

definition filepath_Dir :: "string \<Rightarrow> string" where
  "filepath_Dir p = path_clean (rev (dropWhile (\<lambda>c. c \<noteq> CHR ''/'') (rev p)))"

definition strip_slashes :: "string \<Rightarrow> string" where
  "strip_slashes p = rev (dropWhile (\<lambda>c. c = CHR ''/'') (rev p))"

definition filepath_Base :: "string \<Rightarrow> string" where
  "filepath_Base p =
     (if p = [] then ''.''
      else let body = rev (takeWhile (\<lambda>c. c \<noteq> CHR ''/'') (rev (strip_slashes p)))
           in if body = [] then ''/'' else body)"

text \<open>
  \<open>filepath.Rel(root, candidate)\<close> succeeds and does not begin with a step upwards. The roots of this
  program are absolute, and there is no relative path from an absolute to a relative one.
\<close>

definition path_within :: "string \<Rightarrow> string \<Rightarrow> bool" where
  "path_within root candidate \<longleftrightarrow> IsAbs root \<and> IsAbs candidate \<and> prefix (path_parts root) (path_parts candidate)"

section \<open>Facts\<close>

text \<open>A plain name is one component of a path.\<close>

definition plain_name :: "string \<Rightarrow> bool" where
  "plain_name c \<longleftrightarrow> is_proper c \<and> CHR ''/'' \<notin> set c"

lemma plain_parts: "p \<in> set (path_parts s) \<Longrightarrow> plain_name p"
  using rooted_parts [of s] clean_parts_no_sep [of p True "CHR ''/''" s]
  by (auto simp: plain_name_def path_parts_def list_all_iff)

lemma split_plain: "list_all plain_name cs \<Longrightarrow> cs \<noteq> [] \<Longrightarrow> split_on (CHR ''/'') (join_with ''/'' cs) = cs"
  by (intro split_join) (auto simp: plain_name_def list_all_iff)

lemma join_with_append: "cs \<noteq> [] \<Longrightarrow> ds \<noteq> [] \<Longrightarrow> join_with d (cs @ ds) = join_with d cs @ d @ join_with d ds"
proof (induction cs)
  case (Cons c cs)
  then show ?case by (cases cs; cases ds) auto
qed simp

lemma IsAbs_clean: "IsAbs p \<Longrightarrow> IsAbs (path_clean p)"
  by (simp add: IsAbs_def path_parts_clean has_prefix_def)

lemma parts_clean [simp]: "IsAbs p \<Longrightarrow> path_parts (path_clean p) = path_parts p"
  by (simp add: IsAbs_def path_parts_of_clean)

lemma path_clean_idem: "IsAbs p \<Longrightarrow> path_clean (path_clean p) = path_clean p"
  using IsAbs_clean [of p] path_parts_of_clean [of p] by (simp add: IsAbs_def path_parts_clean)

lemma clean_eq_parts: "IsAbs p \<Longrightarrow> IsAbs q \<Longrightarrow> path_clean p = path_clean q \<longleftrightarrow> path_parts p = path_parts q"
  by (metis IsAbs_def path_parts_clean parts_clean)

lemma parts_Join:
  assumes "IsAbs root" "list_all plain_name cs"
  shows "path_parts (filepath_Join (root # cs)) = path_parts root @ cs" "IsAbs (filepath_Join (root # cs))"
proof -
  have root: "root \<noteq> []" using assms(1) by (auto simp: IsAbs_def has_prefix_def)
  have cs: "filter (\<lambda>e. e \<noteq> []) cs = cs" using assms(2) by (auto simp: filter_id_conv list_all_iff plain_name_def is_proper_def)
  have "IsAbs (join_with ''/'' (root # cs))" using assms(1) by (cases cs) (auto simp: IsAbs_def has_prefix_iff)
  then have "path_parts (filepath_Join (root # cs)) = path_parts (join_with ''/'' (root # cs))" "IsAbs (filepath_Join (root # cs))"
    using root cs by (simp_all add: filepath_Join_def IsAbs_clean)
  moreover have "path_parts (join_with ''/'' (root # cs)) = path_parts root @ cs"
  proof (cases "cs = []")
    case False
    then have "join_with ''/'' (root # cs) = root @ CHR ''/'' # join_with ''/'' cs"
      using join_with_append [of "[root]" cs "''/''"] by simp
    moreover have "list_all is_proper cs" using assms(2) by (auto simp: list_all_iff plain_name_def)
    ultimately show ?thesis using path_parts_append [of "join_with ''/'' cs" root] split_plain [OF assms(2) False] by simp
  qed simp
  ultimately show "path_parts (filepath_Join (root # cs)) = path_parts root @ cs" "IsAbs (filepath_Join (root # cs))" by simp_all
qed

lemma clean_shape: "IsAbs p \<Longrightarrow> path_clean p = p \<Longrightarrow> p = CHR ''/'' # join_with ''/'' (path_parts p)"
  by (metis IsAbs_def path_parts_clean)

lemma last_part_split:
  assumes "IsAbs p" "path_clean p = p" "path_parts p = cs @ [c]"
  shows "p = (CHR ''/'' # join_with ''/'' cs) @ (if cs = [] then [] else ''/'') @ c" "plain_name c"
proof -
  show "plain_name c" using plain_parts [of c p] assms(3) by simp
  show "p = (CHR ''/'' # join_with ''/'' cs) @ (if cs = [] then [] else ''/'') @ c"
    using clean_shape [OF assms(1,2)] assms(3) join_with_append [of cs "[c]" "''/''"] by (cases "cs = []") simp_all
qed

lemma split_slash: "split_on (CHR ''/'') (CHR ''/'' # s) = [] # split_on (CHR ''/'') s"
  by simp

lemma parts_of_shape:
  assumes "list_all plain_name cs"
  shows "path_parts (CHR ''/'' # join_with ''/'' cs) = cs"
proof (cases "cs = []")
  case True
  then show ?thesis by (simp add: path_parts_def clean_parts_def)
next
  case False
  have "list_all is_proper cs" using assms by (auto simp: list_all_iff plain_name_def)
  then show ?thesis using split_plain [OF assms False] by (simp add: path_parts_def clean_parts_def foldl_proper)
qed

lemma Dir_parts:
  assumes "IsAbs p" "path_clean p = p" "path_parts p = cs @ [c]"
  shows "path_parts (filepath_Dir p) = cs" "IsAbs (filepath_Dir p)" "path_clean (filepath_Dir p) = filepath_Dir p"
proof -
  note p = last_part_split [OF assms]
  have c: "CHR ''/'' \<notin> set c" using p(2) by (simp add: plain_name_def)
  have plain: "list_all plain_name cs" using plain_parts [of _ p] assms(3) by (auto simp: list_all_iff)
  define head where "head = (CHR ''/'' # join_with ''/'' cs) @ (if cs = [] then [] else ''/'')"
  have head: "p = head @ c" "last head = CHR ''/''" "head \<noteq> []" using p(1) by (simp_all add: head_def)
  have "dropWhile (\<lambda>x. x \<noteq> CHR ''/'') (rev c @ rev head) = rev head"
    using c head(2,3) dropWhile_append2 [of "rev c" "\<lambda>x. x \<noteq> CHR ''/''" "rev head"]
    by (cases "rev head") (auto simp: hd_rev [symmetric])
  then have dir: "filepath_Dir p = path_clean head" using head by (simp add: filepath_Dir_def)
  have abs: "IsAbs head" by (simp add: head_def IsAbs_def has_prefix_def)
  have "path_parts head = cs"
  proof (cases "cs = []")
    case True
    then show ?thesis by (simp add: head_def path_parts_def clean_parts_def)
  next
    case False
    then have "split_on (CHR ''/'') head = [] # cs @ [[]]"
      using split_on_append [of "CHR ''/''" "CHR ''/'' # join_with ''/'' cs" "[]"] split_plain [OF plain False] by (simp add: head_def)
    moreover have "list_all is_proper cs" using plain by (auto simp: list_all_iff plain_name_def)
    ultimately show ?thesis by (simp add: path_parts_def clean_parts_def foldl_proper)
  qed
  then show "path_parts (filepath_Dir p) = cs" "IsAbs (filepath_Dir p)" "path_clean (filepath_Dir p) = filepath_Dir p"
    using abs by (simp_all add: dir IsAbs_clean path_clean_idem)
qed

lemma Base_parts:
  assumes "IsAbs p" "path_clean p = p" "path_parts p = cs @ [c]"
  shows "filepath_Base p = c"
proof -
  note p = last_part_split [OF assms]
  have c: "CHR ''/'' \<notin> set c" "c \<noteq> []" using p(2) by (auto simp: plain_name_def is_proper_def)
  define head where "head = (CHR ''/'' # join_with ''/'' cs) @ (if cs = [] then [] else ''/'')"
  have head: "p = head @ c" "last head = CHR ''/''" "head \<noteq> []" using p(1) by (simp_all add: head_def)
  have "strip_slashes p = p"
  proof -
    obtain d ds where d: "rev c = d # ds" using c(2) by (cases "rev c") auto
    then have "d \<in> set c" by (metis list.set_intros(1) set_rev)
    then have "d \<noteq> CHR ''/''" using c(1) by auto
    then have "dropWhile (\<lambda>x. x = CHR ''/'') (rev p) = rev p" using d by (simp add: head(1))
    then show ?thesis by (simp add: strip_slashes_def)
  qed
  moreover have "takeWhile (\<lambda>x. x \<noteq> CHR ''/'') (rev c @ rev head) = rev c"
    using c(1) head(2,3) takeWhile_append2 [of "rev c" "\<lambda>x. x \<noteq> CHR ''/''" "rev head"]
    by (cases "rev head") (auto simp: hd_rev [symmetric])
  ultimately show ?thesis using c(2) head(1) by (simp add: filepath_Base_def)
qed

end
