(* ===== verification/ExecFacts.thy ===== *)
theory ExecFacts
  imports ExecSystem GoPath
begin

text \<open>
  Facts the properties of the ledger rest on: reading back what was published, what the
  receipt readers return on a well-formed log, what an unsuccessful check reports, the lock,
  and the path and projection bounds.
\<close>

section \<open>Reading back\<close>

lemma inspect_dir_ok:
  "inspect_dir e ws it d = Inr item \<longleftrightarrow>
     (\<exists>c r. id_Contract d = Some c \<and> it_Contract item = decode_contract c
        \<and> validateContract (decode_contract c) = Inr () \<and> latestValidRevision d = Inr r
        \<and> ct_ItemID c = it \<and> st_ItemID (rv_State r) = it
        \<and> ct_WorkspaceID c = ws \<and> st_WorkspaceID (rv_State r) = ws
        \<and> contractDigest e (decode_contract c) = Inr (st_ContractSHA256 (rv_State r))
        \<and> (\<forall>a. rv_Attempt r = Some a \<longrightarrow> at_ItemID a = it \<and> at_WorkspaceID a = ws)
        \<and> item = \<lparr>it_Contract = decode_contract c, it_State = rv_State r, it_Attempt = rv_Attempt r,
                  it_Checkpoint = rv_Checkpoint r, it_Evidence = rv_Evidence r\<rparr>)"
  by (auto simp: inspect_dir_def readContract_def res_simps Let_def decode_contract_def split: option.splits)

lemma validRevision_attempt:
  "validateRevision r = Inr u \<Longrightarrow> rv_Attempt r = Some a \<Longrightarrow>
     at_ItemID a = st_ItemID (rv_State r) \<and> at_WorkspaceID a = st_WorkspaceID (rv_State r)
     \<and> attempt_fits (rv_State r) (rv_Checkpoint r) a = Inr () \<and> validateAttempt a = Inr ()
     \<and> at_AttemptID a = tr_AttemptID (rv_Transition r)"
  by (auto simp: validateRevision_def Let_def)

text \<open>After a successful mutation the item reads as the plan said, when its text is UTF-8.\<close>

lemma inspect_after:
  assumes wf: "wf_ledger L" and i: "inspectUnlocked e ws it L = Inr item"
    and a: "appends L ws it r L'" and wf': "wf_ledger L'"
    and v: "validateRevision r = Inr ()" and utf8: "decode_revision r = r"
  shows "inspectUnlocked e ws it L' = Inr \<lparr>it_Contract = it_Contract item, it_State = rv_State r,
     it_Attempt = rv_Attempt r, it_Checkpoint = rv_Checkpoint r, it_Evidence = rv_Evidence r\<rparr>"
proof -
  from inspect_item_dir [OF i] obtain d where d: "get_item L ws it = Some d"
    and id: "inspect_dir e ws it d = Inr item" by blast
  from inspect_last [OF wf i] have ne: "revs L ws it \<noteq> []"
    and ids: "st_ItemID (it_State item) = it" "st_WorkspaceID (it_State item) = ws"
    and st: "it_State item = rv_State (last (revs L ws it))" by auto
  from a have revs': "revs L' ws it = revs L ws it @ [r]"
    and fol: "follows (it_State item) (rv_State r)"
    and con: "map_option fst (view L' (ws, it)) = map_option fst (view L (ws, it))"
    by (simp_all add: appends_def st)
  from con d obtain d' where d': "get_item L' ws it = Some d'" "id_Contract d' = id_Contract d"
    by (auto simp: view_apply)
  have "docs d' = revs L ws it @ [r]" using revs' by (simp add: revs_get [OF d'(1)])
  then have "last (docs d') = r" by simp
  with latest_is_last [OF wf_ledgerD [OF wf' d'(1)]] utf8 v have latest: "latestValidRevision d' = Inr r"
    by simp
  from id [unfolded inspect_dir_ok] obtain c where c: "id_Contract d' = Some c"
    "it_Contract item = decode_contract c" "validateContract (decode_contract c) = Inr ()"
    "ct_ItemID c = it" "ct_WorkspaceID c = ws"
    "contractDigest e (decode_contract c) = Inr (st_ContractSHA256 (it_State item))"
    by (auto simp: d')
  have same: "st_ItemID (rv_State r) = it" "st_WorkspaceID (rv_State r) = ws"
    "st_ContractSHA256 (rv_State r) = st_ContractSHA256 (it_State item)"
    using fol ids by (simp_all add: follows_def)
  have "inspect_dir e ws it d' = Inr \<lparr>it_Contract = it_Contract item, it_State = rv_State r,
     it_Attempt = rv_Attempt r, it_Checkpoint = rv_Checkpoint r, it_Evidence = rv_Evidence r\<rparr>"
    unfolding inspect_dir_ok using c same latest validRevision_attempt [OF v]
    by (intro exI [of _ c] exI [of _ r]) simp
  with d' show ?thesis by (simp add: inspectUnlocked_def)
qed

lemma decode_checkpoint_idem [simp]: "decode_checkpoint (decode_checkpoint c) = decode_checkpoint c"
  by (simp add: decode_checkpoint_def to_valid_utf8_idem)

lemma latest_decoded: "latestValidRevision d = Inr r \<Longrightarrow> \<exists>r0. r = decode_revision r0"
proof -
  have "first_revision es = Inr r \<Longrightarrow> \<exists>r0. r = decode_revision r0" for es
    by (induction es)
       (auto simp: checked_revision_def read_revision_def res_simps split: if_splits rev_entry.splits)
  then show "latestValidRevision d = Inr r \<Longrightarrow> ?thesis" by (auto simp: latestValidRevision_def res_simps)
qed

text \<open>A checkpoint that was read decodes to itself.\<close>

lemma inspected_checkpoint:
  assumes "inspectUnlocked e ws it L = Inr item"
  shows "map_option decode_checkpoint (it_Checkpoint item) = it_Checkpoint item"
proof -
  from inspect_item_dir [OF assms] obtain d where "inspect_dir e ws it d = Inr item" by blast
  then obtain r where r: "latestValidRevision d = Inr r" "it_Checkpoint item = rv_Checkpoint r"
    unfolding inspect_dir_ok by auto
  from latest_decoded [OF r(1)] obtain r0 where "r = decode_revision r0" by blast
  with r(2) show ?thesis by (simp add: decode_revision_def option.map_comp comp_def)
qed

lemma decode_plain_revision:
  "map_option decode_checkpoint c = c \<Longrightarrow> decode_revision (plain_revision s a c t) = plain_revision s a c t"
  by (simp add: decode_revision_def plain_revision_def)

lemma inspectUnlocked_ids:
  "wf_ledger L \<Longrightarrow> inspectUnlocked e ws it L = Inr item \<Longrightarrow>
   st_ItemID (it_State item) = it \<and> st_WorkspaceID (it_State item) = ws"
  using inspect_last by blast

text \<open>A new item reads as it was created, when its text is UTF-8.\<close>

lemma inspect_created:
  assumes p: "create_plan e i = Inr (c, s, r)" and utf8: "decode_contract c = c"
    and c: "created L (ci_WorkspaceID i) (ct_ItemID c) c r L'" and wf': "wf_ledger L'"
  shows "inspectUnlocked e (ci_WorkspaceID i) (ct_ItemID c) L'
     = Inr \<lparr>it_Contract = c, it_State = s, it_Attempt = None, it_Checkpoint = None, it_Evidence = None\<rparr>"
proof -
  let ?ws = "ci_WorkspaceID i" and ?it = "ct_ItemID c"
  note ok = create_plan_ok [OF p]
  then obtain t where "r = plain_revision s None None t" by blast
  then have r: "decode_revision r = r" "rv_Attempt r = None" "rv_Checkpoint r = None" "rv_Evidence r = None"
    by (simp_all add: decode_revision_def plain_revision_def)
  from c have "view L' (?ws, ?it) = Some (Some c, Some [(revisionName 1, RevDoc r)])"
    by (simp add: created_def)
  then obtain d where d: "get_item L' ?ws ?it = Some d" "id_Contract d = Some c"
    "id_Revisions d = Some [(revisionName 1, RevDoc r)]" by (auto simp: view_apply)
  have "docs d = [r]" by (simp add: docs_def d)
  with latest_is_last [OF wf_ledgerD [OF wf' d(1)]] r ok have "latestValidRevision d = Inr r" by simp
  moreover have "ct_WorkspaceID c = ?ws" using ok by (auto simp: contract_of_def)
  moreover have "st_ItemID s = ?it" "st_WorkspaceID s = ?ws" "rv_State r = s"
    using ok by (auto simp: first_ok_def)
  ultimately have "inspect_dir e ?ws ?it d =
      Inr \<lparr>it_Contract = c, it_State = s, it_Attempt = None, it_Checkpoint = None, it_Evidence = None\<rparr>"
    unfolding inspect_dir_ok using ok d r utf8
    by (intro exI [of _ c] exI [of _ r]) simp
  with d show ?thesis by (simp add: inspectUnlocked_def)
qed

section \<open>The receipt readers on a well-formed log\<close>

definition receipts_of :: "(Revision \<Rightarrow> 'a option) \<Rightarrow> Revision list \<Rightarrow> 'a list" where
  "receipts_of f = List.map_filter f"

lemma receipts_of_simps [simp]:
  "receipts_of f [] = []"
  "receipts_of f (r # rs) = (case f r of None \<Rightarrow> [] | Some x \<Rightarrow> [x]) @ receipts_of f rs"
  "receipts_of f (xs @ ys) = receipts_of f xs @ receipts_of f ys"
  by (auto simp: receipts_of_def List.map_filter_def split: option.splits)

lemma in_receipts_of: "x \<in> set (receipts_of f rs) \<longleftrightarrow> (\<exists>r \<in> set rs. f r = Some x)"
  by (induction rs) (auto split: option.splits)

lemma collect_log:
  assumes "collect g (log_entries k rs) = Inr xs"
    "\<And>name r ys. g (name, RevDoc r) = Inr ys \<Longrightarrow> ys = (case f r of None \<Rightarrow> [] | Some x \<Rightarrow> [x])"
  shows "xs = receipts_of f rs"
  using assms(1)
proof (induction rs arbitrary: k xs)
  case (Cons r rs)
  then obtain a b where "g (revisionName k, RevDoc r) = Inr a" "collect g (log_entries (k + 1) rs) = Inr b"
    "xs = a @ b" by (auto simp: res_simps)
  with Cons.IH [of "k + 1" b] assms(2) [of "revisionName k" r a] show ?case by simp
qed simp

lemma history_receipts:
  assumes wf: "wf_ledger L" and h: "history g ws it L = Inr xs"
    and g: "\<And>name r ys. g (name, RevDoc r) = Inr ys \<Longrightarrow> ys = (case f r of None \<Rightarrow> [] | Some x \<Rightarrow> [x])"
  shows "xs = receipts_of f (revs L ws it)"
proof -
  from h obtain d where d: "get_item L ws it = Some d" by (auto simp: history_def split: option.splits)
  with wf have w: "wf_item ws it d" by (rule wf_ledgerD)
  then have "ledgerReadDir (id_Revisions d) = Inr (log_entries 1 (docs d))"
    by (auto simp: wf_item_def hist_ok_def ledgerReadDir_log)
  with h d have "collect g (log_entries 1 (docs d)) = Inr xs" by (simp add: history_def)
  from collect_log [OF this, of f] g show ?thesis by (auto simp: revs_get [OF d])
qed

lemma named_revision_ok:
  "named_revision msg (name, RevDoc r) = Inr r' \<Longrightarrow> r' = decode_revision r"
  by (auto simp: named_revision_def read_revision_def res_simps split: if_splits)

lemma evidences_receipts:
  "wf_ledger L \<Longrightarrow> evidences ws it L = Inr es \<Longrightarrow> es = receipts_of rv_Evidence (revs L ws it)"
  unfolding evidences_def
  by (erule history_receipts, assumption)
     (auto simp: evidence_of_def res_simps dest!: named_revision_ok split: option.splits)

lemma toolCalls_receipts:
  "wf_ledger L \<Longrightarrow> toolCalls ws it L = Inr es \<Longrightarrow> es = receipts_of rv_ToolCall (revs L ws it)"
  unfolding toolCalls_def
  by (erule history_receipts, assumption)
     (auto simp: tool_call_of_def res_simps dest!: named_revision_ok split: option.splits)

lemma yodaReviews_receipts:
  "wf_ledger L \<Longrightarrow> yodaReviews ws it L = Inr es \<Longrightarrow> es = receipts_of rv_YodaReview (revs L ws it)"
  unfolding yodaReviews_def
  by (erule history_receipts, assumption)
     (auto simp: yoda_review_of_def res_simps dest!: named_revision_ok split: option.splits)

section \<open>Completion\<close>

lemma all_criteria_hold_nth:
  "all_criteria_hold e h root item ev k cs = Inr u \<longleftrightarrow>
     (\<forall>j < length cs. criterion_still_holds e h root item ev (e_Clock e (k + j)) (cs ! j) = Inr ())"
proof (induction cs arbitrary: k)
  case (Cons c cs)
  have "(\<forall>j < Suc n. P j) \<longleftrightarrow> P 0 \<and> (\<forall>j < n. P (Suc j))" for n and P :: "nat \<Rightarrow> bool"
    by (metis less_Suc_eq_0_disj)
  with Cons [of "Suc k"] show ?case by simp
qed simp

lemma criterion_still_holds_ok:
  "criterion_still_holds e h root item ev now c = Inr u \<longleftrightarrow>
     (\<exists>prior current. ev (cr_ID c) = Some prior \<and> ev_Outcome prior = EvidencePassed
        \<and> witnessCriterion e h root item c (ev_EvidenceID prior) now = Inr current
        \<and> ev_Outcome current = EvidencePassed
        \<and> ev_ArtifactSHA256 current = ev_ArtifactSHA256 prior
        \<and> ev_CommandSHA256 current = ev_CommandSHA256 prior
        \<and> ev_ToolSHA256 current = ev_ToolSHA256 prior)"
  by (auto simp: criterion_still_holds_def split: option.splits sum.splits)

lemma currentYodaApproval_ok:
  "currentYodaApproval ws it s L = Inr u \<longleftrightarrow>
     (\<exists>ys. yodaReviews ws it L = Inr ys \<and> ys \<noteq> []
        \<and> yr_Decision (last ys) = YodaReviewApproved
        \<and> yr_RecordedRevision (last ys) = st_StateRevision s
        \<and> yr_ContractSHA256 (last ys) = st_ContractSHA256 s
        \<and> yr_AttemptID (last ys) = st_ActiveAttemptID s)"
  by (auto simp: currentYodaApproval_def res_simps Let_def)

section \<open>The lock\<close>

lemma lock_busy:
  assumes "get_item L ws it = Some d" "id_Lock d = Some k"
    "time_sub (e_LockNow e) (lk_ModTime k) \<le> 2 * minute"
  shows "with_lock e ws it body L = (Inl ErrItemBusy, L)"
  using assms by (simp add: with_lock_def lock_def)

section \<open>Paths\<close>

lemma workspaceRelativePath_ok:
  "workspaceRelativePath r = Inr p \<longleftrightarrow>
     has_prefix r ''bcgos://workspace/'' \<and> p = path_clean (trim_prefix r ''bcgos://workspace/'')
     \<and> p \<noteq> ''.'' \<and> \<not> has_prefix p ''/'' \<and> p \<noteq> ''..'' \<and> \<not> has_prefix p ''../''"
  by (auto simp: workspaceRelativePath_def Let_def)

lemma relative_components:
  assumes "workspaceRelativePath reference = Inr p"
  shows "list_all is_proper (split_on (CHR ''/'') p)"
proof -
  from assms have "p = path_clean (trim_prefix reference ''bcgos://workspace/'')"
    "p \<noteq> ''.''" "\<not> has_prefix p ''/''" "p \<noteq> ''..''" "\<not> has_prefix p ''../''"
    unfolding workspaceRelativePath_ok by blast+
  then show ?thesis by (rule clean_relative_components)
qed

lemma abs_path_rooted: "has_prefix (h_Cwd h) ''/'' \<Longrightarrow> has_prefix (abs_path h p) ''/''"
  by (auto simp: abs_path_def path_clean_def Let_def has_prefix_iff)

end
