(* ===== verification/ExecRace.thy ===== *)
theory ExecRace
  imports ExecFacts
begin

text \<open>
  Mutations that overlap. The lock is advisory: one older than two minutes is taken over while
  its holder may still be running, so two mutations of an item can be between inspection and
  publication at the same time. Here every phase of a mutation is a step of its own, in any
  order, and nothing is assumed of the lock: the revision name is the compare-and-swap that
  keeps the history legal.
\<close>

section \<open>Phases as steps\<close>

text \<open>The revisions a single critical section may plan from the item it inspected.\<close>

inductive planned :: "env \<Rightarrow> string \<Rightarrow> string \<Rightarrow> ledger \<Rightarrow> Item \<Rightarrow> Revision \<Rightarrow> bool"
  for e ws it L item where
  plan_start: "start_plan e ws it n L item = Inr (r, out) \<Longrightarrow> planned e ws it L item r"
| plan_checkpoint: "checkpoint_plan e ws it i L item = Inr (r, out) \<Longrightarrow> planned e ws it L item r"
| plan_pause: "pause_plan e ws it n a L item = Inr (r, out) \<Longrightarrow> planned e ws it L item r"
| plan_resume: "resume_plan e ws it n L item = Inr (r, out) \<Longrightarrow> planned e ws it L item r"
| plan_start_tool: "start_tool_plan e ws it s L item = Inr (r, out') \<Longrightarrow> planned e ws it L item r"
| plan_finish_tool: "finish_tool_plan e ws it f L item = Inr (r, out') \<Longrightarrow> planned e ws it L item r"
| plan_review: "review_plan e ws it y L item = Inr (r, out'') \<Longrightarrow> planned e ws it L item r"
| plan_delete: "delete_plan e ws it n item = Inr r \<Longrightarrow> planned e ws it L item r"

text \<open>Those of a second critical section: the item read by the first is carried along.\<close>

inductive replanned :: "env \<Rightarrow> string \<Rightarrow> string \<Rightarrow> ledger \<Rightarrow> Item \<Rightarrow> Item \<Rightarrow> Revision \<Rightarrow> bool"
  for e ws it L item cur where
  replan_collect: "collect_plan e ws it i item now receipt L cur = Inr (r, out) \<Longrightarrow>
    st_State (it_State item) = StateRunning \<Longrightarrow> replanned e ws it L item cur r"
| replan_complete: "complete_plan e ws it m item L cur = Inr (r, out) \<Longrightarrow>
    st_State (it_State item) = StateRunning \<Longrightarrow> replanned e ws it L item cur r"

text \<open>
  \<open>rc_Read\<close> are the items first critical sections have read, \<open>rc_Pending\<close> the planned
  revisions, \<open>rc_Used\<close> every identifier ever given to an item (identifiers are 128 random
  bits, so creation takes a new one). A step that reads or plans may be repeated or abandoned.
\<close>

record race =
  rc_Ledger :: ledger
  rc_Read :: "(string \<times> string \<times> Item) set"
  rc_Pending :: "(string \<times> string \<times> Revision) set"
  rc_Used :: "(string \<times> string) set"

inductive race_step :: "race \<Rightarrow> race \<Rightarrow> bool" where
  phase_read:
    "inspectUnlocked e ws it (rc_Ledger s) = Inr item \<Longrightarrow>
     race_step s (s\<lparr>rc_Read := insert (ws, it, item) (rc_Read s)\<rparr>)"
| phase_plan:
    "inspectUnlocked e ws it (rc_Ledger s) = Inr item \<Longrightarrow> planned e ws it (rc_Ledger s) item r \<Longrightarrow>
     race_step s (s\<lparr>rc_Pending := insert (ws, it, r) (rc_Pending s)\<rparr>)"
| phase_replan:
    "(ws, it, item) \<in> rc_Read s \<Longrightarrow> inspectUnlocked e ws it (rc_Ledger s) = Inr cur \<Longrightarrow>
     replanned e ws it (rc_Ledger s) item cur r \<Longrightarrow>
     race_step s (s\<lparr>rc_Pending := insert (ws, it, r) (rc_Pending s)\<rparr>)"
| phase_publish:
    "(ws, it, r) \<in> rc_Pending s \<Longrightarrow>
     writeImmutableRevision e ws it (revisionName (st_StateRevision (rv_State r))) r (rc_Ledger s) = Inr L' \<Longrightarrow>
     race_step s (s\<lparr>rc_Ledger := L'\<rparr>)"
| phase_project:
    "writeState e ws it st (rc_Ledger s) = Inr L' \<Longrightarrow> race_step s (s\<lparr>rc_Ledger := L'\<rparr>)"
| phase_lock: "lock e ws it (rc_Ledger s) = (res, L') \<Longrightarrow> race_step s (s\<lparr>rc_Ledger := L'\<rparr>)"
| phase_unlock: "race_step s (s\<lparr>rc_Ledger := unlock e ws it (rc_Ledger s)\<rparr>)"
| phase_remove: "race_step s (s\<lparr>rc_Ledger := del_item (rc_Ledger s) ws it\<rparr>)"
| phase_create:
    "create_plan e i = Inr (c, st, r) \<Longrightarrow> (ci_WorkspaceID i, ct_ItemID c) \<notin> rc_Used s \<Longrightarrow>
     Create e i (rc_Ledger s) = (res, L') \<Longrightarrow>
     race_step s (s\<lparr>rc_Ledger := L', rc_Used := insert (ci_WorkspaceID i, ct_ItemID c) (rc_Used s)\<rparr>)"

inductive race_reachable :: "race \<Rightarrow> bool" where
  race_fresh:
    "race_reachable \<lparr>rc_Ledger = (\<lambda>_. None), rc_Read = {}, rc_Pending = {}, rc_Used = {}\<rparr>"
| race_after: "race_reachable s \<Longrightarrow> race_step s s' \<Longrightarrow> race_reachable s'"

section \<open>The invariant\<close>

text \<open>
  A late projection can re-create the directory of a removed item: it holds a \<open>state.json\<close>
  and nothing else, and no reader accepts it.
\<close>

definition orphan :: "item_dir \<Rightarrow> bool" where
  "orphan d \<longleftrightarrow> id_Revisions d = None \<and> id_Contract d = None"

definition dirs_ok :: "ledger \<Rightarrow> (string \<times> string) set \<Rightarrow> bool" where
  "dirs_ok L used \<longleftrightarrow> (\<forall>ws it d. get_item L ws it = Some d \<longrightarrow>
     orphan d \<or> wf_item ws it d \<and> (ws, it) \<in> used)"

text \<open>A state that was published for an item, if the item is still there.\<close>

definition known :: "ledger \<Rightarrow> (string \<times> string) set \<Rightarrow> string \<Rightarrow> string \<Rightarrow> State \<Rightarrow> bool" where
  "known L used ws it st \<longleftrightarrow> (ws, it) \<in> used \<and> fits_int64 (st_StateRevision st)
     \<and> (\<forall>d. get_item L ws it = Some d \<longrightarrow> \<not> orphan d \<longrightarrow> st \<in> rv_State ` set (docs d))"

definition pending_ok :: "ledger \<Rightarrow> (string \<times> string) set \<Rightarrow> string \<Rightarrow> string \<Rightarrow> Revision \<Rightarrow> bool" where
  "pending_ok L used ws it r \<longleftrightarrow> validateRevision r = Inr () \<and> st_StateRevision (rv_State r) \<le> max_int64
     \<and> (\<exists>st. known L used ws it st \<and> follows st (rv_State r))"

definition race_ok :: "race \<Rightarrow> bool" where
  "race_ok s \<longleftrightarrow> dirs_ok (rc_Ledger s) (rc_Used s)
     \<and> (\<forall>(ws, it, item) \<in> rc_Read s. known (rc_Ledger s) (rc_Used s) ws it (it_State item))
     \<and> (\<forall>(ws, it, r) \<in> rc_Pending s. pending_ok (rc_Ledger s) (rc_Used s) ws it r)"

text \<open>Published documents of a used identifier never disappear from a directory that stays.\<close>

definition grows :: "(string \<times> string) set \<Rightarrow> ledger \<Rightarrow> ledger \<Rightarrow> bool" where
  "grows used L L' \<longleftrightarrow> (\<forall>ws it d'. (ws, it) \<in> used \<longrightarrow> get_item L' ws it = Some d' \<longrightarrow> \<not> orphan d' \<longrightarrow>
     (\<exists>d. get_item L ws it = Some d \<and> \<not> orphan d \<and> set (docs d) \<subseteq> set (docs d')))"

lemma known_grows:
  "known L used ws it st \<Longrightarrow> grows used L L' \<Longrightarrow> used \<subseteq> used' \<Longrightarrow> known L' used' ws it st"
  unfolding known_def grows_def by (meson image_mono subsetD)

lemma race_ok_step:
  assumes "race_ok s" "dirs_ok (rc_Ledger s') (rc_Used s')" "grows (rc_Used s) (rc_Ledger s) (rc_Ledger s')"
    "rc_Used s \<subseteq> rc_Used s'" "rc_Read s' = rc_Read s" "rc_Pending s' = rc_Pending s"
  shows "race_ok s'"
  using assms unfolding race_ok_def pending_ok_def by (fastforce intro: known_grows)

text \<open>Steps after which every directory has the documents it had, or none.\<close>

definition keeps :: "ledger \<Rightarrow> ledger \<Rightarrow> bool" where
  "keeps L L' \<longleftrightarrow> (\<forall>ws it d'. get_item L' ws it = Some d' \<longrightarrow> orphan d' \<or>
     (\<exists>d. get_item L ws it = Some d \<and> id_Contract d' = id_Contract d \<and> id_Revisions d' = id_Revisions d))"

lemma keeps_view:
  assumes "view L' = view L"
  shows "keeps L L'"
  unfolding keeps_def
proof (intro allI impI disjI2)
  fix ws it d' assume "get_item L' ws it = Some d'"
  from view_eqD [OF assms this] obtain d where "get_item L ws it = Some d"
    "id_Contract d = id_Contract d'" "id_Revisions d = id_Revisions d'" .
  then show "\<exists>d. get_item L ws it = Some d \<and> id_Contract d' = id_Contract d
      \<and> id_Revisions d' = id_Revisions d" by (intro exI [of _ d]) simp
qed

lemma keeps_del: "keeps L (del_item L ws it)"
  by (auto simp: keeps_def)

lemma keeps_writeState:
  assumes "writeState e ws it st L = Inr L'"
  shows "keeps L L'"
proof (cases "get_entry L ws it")
  case None
  with assms have "L' = put_item L ws it (empty_dir\<lparr>id_State := Some st\<rparr>)"
    by (simp add: writeState_def res_simps)
  then show ?thesis by (auto simp: keeps_def orphan_def empty_dir_def)
next
  case (Some x)
  show ?thesis
  proof (cases x)
    case (ItemDir d)
    with Some have d: "get_item L ws it = Some d" by (simp add: get_item_def)
    with assms Some ItemDir have "L' = put_item L ws it (d\<lparr>id_State := Some st\<rparr>)"
      by (simp add: writeState_def res_simps)
    with d show ?thesis by (intro keeps_view) (simp add: view_put_same)
  qed (use assms Some in \<open>simp add: writeState_def res_simps\<close>)
qed

lemma keeps_grows: "keeps L L' \<Longrightarrow> grows used L L'"
  unfolding keeps_def grows_def orphan_def by (fastforce dest: docs_cong)

lemma keeps_dirs_ok: "dirs_ok L used \<Longrightarrow> keeps L L' \<Longrightarrow> dirs_ok L' used"
  unfolding keeps_def dirs_ok_def
proof (intro allI impI)
  fix ws it d'
  assume dirs: "\<forall>ws it d. get_item L ws it = Some d \<longrightarrow> orphan d \<or> wf_item ws it d \<and> (ws, it) \<in> used"
    and keep: "\<forall>ws it d'. get_item L' ws it = Some d' \<longrightarrow> orphan d' \<or>
      (\<exists>d. get_item L ws it = Some d \<and> id_Contract d' = id_Contract d \<and> id_Revisions d' = id_Revisions d)"
    and d': "get_item L' ws it = Some d'"
  show "orphan d' \<or> wf_item ws it d' \<and> (ws, it) \<in> used"
  proof (cases "orphan d'")
    case False
    with keep d' obtain d where d: "get_item L ws it = Some d" "id_Contract d' = id_Contract d"
      "id_Revisions d' = id_Revisions d" by blast
    with False have "\<not> orphan d" by (simp add: orphan_def)
    with dirs d(1) wf_item_cong [OF d(3)] show ?thesis by blast
  qed simp
qed

lemma race_ok_keeps: "race_ok s \<Longrightarrow> keeps (rc_Ledger s) L' \<Longrightarrow> race_ok (s\<lparr>rc_Ledger := L'\<rparr>)"
  by (rule race_ok_step) (auto simp: race_ok_def keeps_grows keeps_dirs_ok)

section \<open>Every step keeps it\<close>

lemma inspect_dir_fits:
  assumes "wf_item ws it d" "inspect_dir e ws it d = Inr item"
  shows "it_State item \<in> rv_State ` set (docs d) \<and> fits_int64 (st_StateRevision (it_State item))"
  using inspect_dir_SomeD [OF assms(2,1)] hist_ok_last [OF wf_item_hist [OF assms(1)]]
    wf_item_hist [OF assms(1)] hist_ok_first [OF wf_item_hist [OF assms(1)]]
  by (auto simp: fits_int64_def hist_ok_def min_int64_def)

lemma inspected_known:
  assumes ok: "dirs_ok L used" and i: "inspectUnlocked e ws it L = Inr item"
  shows "known L used ws it (it_State item)"
proof -
  from inspect_item_dir [OF i] obtain d where d: "get_item L ws it = Some d" "inspect_dir e ws it d = Inr item"
    by blast
  then have "\<not> orphan d" by (auto simp: orphan_def inspect_dir_def readContract_def)
  with ok d have "wf_item ws it d" "(ws, it) \<in> used" by (auto simp: dirs_ok_def)
  with inspect_dir_fits [OF this(1) d(2)] d show ?thesis by (simp add: known_def)
qed

lemma planned_follows:
  assumes p: "planned e ws it L item r" and fits: "fits_int64 (st_StateRevision (it_State item))"
  shows "validateRevision r = Inr () \<and> follows (it_State item) (rv_State r)
    \<and> st_StateRevision (rv_State r) \<le> max_int64"
  using p
proof cases
  case (plan_start n out)
  with start.plan_valid start.plan_follows fits show ?thesis by blast
next
  case (plan_checkpoint i out)
  with checkpoint.plan_valid checkpoint.plan_follows fits show ?thesis by blast
next
  case (plan_pause n a out)
  with pause.plan_valid pause.plan_follows fits show ?thesis by blast
next
  case (plan_resume n out)
  with resume.plan_valid resume.plan_follows fits show ?thesis by blast
next
  case (plan_start_tool s out)
  with start_tool.plan_valid start_tool.plan_follows fits show ?thesis by blast
next
  case (plan_finish_tool f out)
  with finish_tool.plan_valid finish_tool.plan_follows fits show ?thesis by blast
next
  case (plan_review y out)
  with review.plan_valid review.plan_follows fits show ?thesis by blast
next
  case (plan_delete n)
  with fits tombstone_follows [of ws it "it_State item" "e_Clock e 0"] show ?thesis
    unfolding delete_plan_ok by blast
qed

lemma replanned_follows:
  assumes p: "replanned e ws it L item cur r" and fits: "fits_int64 (st_StateRevision (it_State item))"
  shows "validateRevision r = Inr () \<and> follows (it_State item) (rv_State r)
    \<and> st_StateRevision (rv_State r) \<le> max_int64"
  using p
proof cases
  case (replan_collect i now receipt out)
  then show ?thesis
    using item_mutation.plan_valid [OF collect_mutation replan_collect(1)]
      item_mutation.plan_follows [OF collect_mutation replan_collect(1)] fits by blast
next
  case (replan_complete m out)
  then show ?thesis
    using item_mutation.plan_valid [OF complete_mutation replan_complete(1)]
      item_mutation.plan_follows [OF complete_mutation replan_complete(1)] fits by blast
qed

text \<open>The publication of a pending revision, if it succeeds, extends a legal history.\<close>

lemma publish_pending:
  assumes ok: "race_ok s" and p: "(ws, it, r) \<in> rc_Pending s"
    and w: "writeImmutableRevision e ws it (revisionName (st_StateRevision (rv_State r))) r (rc_Ledger s) = Inr L'"
  shows "\<exists>d es. get_item (rc_Ledger s) ws it = Some d \<and> wf_item ws it d
     \<and> L' = put_item (rc_Ledger s) ws it (d\<lparr>id_Revisions := Some es\<rparr>)
     \<and> es = log_entries 1 (docs d @ [r]) \<and> hist_ok ws it (docs d @ [r])
     \<and> follows (rv_State (last (docs d))) (rv_State r) \<and> (ws, it) \<in> rc_Used s"
proof -
  let ?L = "rc_Ledger s"
  from w obtain d es where d: "get_item ?L ws it = Some d"
    and link: "publish_link (revisionName (st_StateRevision (rv_State r))) (RevDoc r) (id_Revisions d) = Inr es"
    and L': "L' = put_item ?L ws it (d\<lparr>id_Revisions := Some es\<rparr>)"
    by (auto simp: writeImmutableRevision_def res_simps split: option.splits)
  from link have "\<not> orphan d" by (auto simp: orphan_def publish_link_ok)
  with ok d have wf: "wf_item ws it d" and used: "(ws, it) \<in> rc_Used s"
    by (auto simp: race_ok_def dirs_ok_def)
  from ok p have "pending_ok ?L (rc_Used s) ws it r" by (auto simp: race_ok_def)
  with d \<open>\<not> orphan d\<close> have r: "validateRevision r = Inr ()" "st_StateRevision (rv_State r) \<le> max_int64"
    "\<exists>i < length (docs d). follows (rv_State (docs d ! i)) (rv_State r)"
    by (auto simp: pending_ok_def known_def in_set_conv_nth)
  from publish_wf [OF wf link r(3,1,2)] d wf L' used show ?thesis by blast
qed

lemma race_step_ok:
  assumes "race_step s s'" and ok: "race_ok s"
  shows "race_ok s'"
  using assms(1)
proof cases
  case (phase_read e ws it item)
  with ok inspected_known [of "rc_Ledger s" "rc_Used s"] show ?thesis by (auto simp: race_ok_def)
next
  case (phase_plan e ws it item r)
  with ok have k: "known (rc_Ledger s) (rc_Used s) ws it (it_State item)"
    by (auto simp: race_ok_def intro: inspected_known)
  then have "fits_int64 (st_StateRevision (it_State item))" by (simp add: known_def)
  with planned_follows [OF phase_plan(3)] k have "pending_ok (rc_Ledger s) (rc_Used s) ws it r"
    by (auto simp: pending_ok_def)
  with phase_plan ok show ?thesis by (auto simp: race_ok_def)
next
  case (phase_replan ws it item e cur r)
  with ok have k: "known (rc_Ledger s) (rc_Used s) ws it (it_State item)"
    by (auto simp: race_ok_def)
  then have "fits_int64 (st_StateRevision (it_State item))" by (simp add: known_def)
  with replanned_follows [OF phase_replan(4)] k have "pending_ok (rc_Ledger s) (rc_Used s) ws it r"
    by (auto simp: pending_ok_def)
  with phase_replan ok show ?thesis by (auto simp: race_ok_def)
next
  case (phase_publish ws it r e L')
  from publish_pending [OF ok phase_publish(2,3)] obtain d where d: "get_item (rc_Ledger s) ws it = Some d"
    and wf: "wf_item ws it d" and h: "hist_ok ws it (docs d @ [r])" and used: "(ws, it) \<in> rc_Used s"
    and L': "L' = put_item (rc_Ledger s) ws it (d\<lparr>id_Revisions := Some (log_entries 1 (docs d @ [r]))\<rparr>)"
    by blast
  have docs: "docs (d\<lparr>id_Revisions := Some (log_entries 1 (docs d @ [r]))\<rparr>) = docs d @ [r]"
    by (simp add: docs_def)
  have "\<not> orphan d" using wf by (simp add: orphan_def wf_item_def)
  have "dirs_ok L' (rc_Used s)"
    using ok h used docs by (auto simp: race_ok_def dirs_ok_def L' wf_item_def)
  moreover have "grows (rc_Used s) (rc_Ledger s) L'"
    using d \<open>\<not> orphan d\<close> docs by (auto simp: grows_def L')
  ultimately show ?thesis using phase_publish by (intro race_ok_step [OF ok]) auto
next
  case (phase_project e ws it st L')
  with ok show ?thesis by (auto intro: race_ok_keeps keeps_writeState)
next
  case (phase_lock e ws it res L')
  with ok show ?thesis by (auto intro: race_ok_keeps keeps_view dest: lock_view)
next
  case (phase_unlock e ws it)
  with ok show ?thesis by (auto intro: race_ok_keeps keeps_view unlock_view)
next
  case (phase_remove ws it)
  with ok show ?thesis by (auto intro: race_ok_keeps keeps_del)
next
  case (phase_create e i c st r res L')
  let ?ws = "ci_WorkspaceID i" and ?it = "ct_ItemID c" and ?L = "rc_Ledger s"
  from create_plan_ok [OF phase_create(2)] have wf: "wf_item ?ws ?it (create_dir c st r)"
    by (intro create_dir_wf) auto
  have "view L' = view ?L \<or> L' = put_item (mkdir_items ?ws ?L) ?ws ?it (create_dir c st r)"
    using Create_cases [OF phase_create(4)] phase_create(2) by auto
  then have "dirs_ok L' (rc_Used s') \<and> grows (rc_Used s) ?L L'"
  proof
    assume "view L' = view ?L"
    then have "keeps ?L L'" by (rule keeps_view)
    moreover have "dirs_ok ?L (rc_Used s')" using ok phase_create(1) by (auto simp: race_ok_def dirs_ok_def)
    ultimately show ?thesis by (simp add: keeps_grows keeps_dirs_ok)
  next
    assume "L' = put_item (mkdir_items ?ws ?L) ?ws ?it (create_dir c st r)"
    with ok wf phase_create(1,3) show ?thesis by (auto simp: race_ok_def dirs_ok_def grows_def)
  qed
  then show ?thesis using phase_create(1) by (intro race_ok_step [OF ok]) auto
qed

lemma race_reachable_ok: "race_reachable s \<Longrightarrow> race_ok s"
proof (induction rule: race_reachable.induct)
  case race_fresh
  show ?case by (simp add: race_ok_def dirs_ok_def get_item_def get_entry_def)
qed (rule race_step_ok)

end
