(* ===== verification/ExecDemo.thy ===== *)
theory ExecDemo
  imports ExecRace
begin

text \<open>
  A concrete run of the ledger: an item is created, started, checkpointed, its one criterion is
  observed, reviewed and the item completed, and another path pauses and deletes it. The
  witnesses of the properties are instances of it.
\<close>

definition demo_env :: env where
  "demo_env = \<lparr>e_Root = ''/r'', e_Clock = (\<lambda>k. int k + 1),
     e_LockNow = 1, e_NewID = (\<lambda>kind. Inr kind), e_Fault = (\<lambda>_. None),
     e_OS = (\<lambda>_. None), e_Token = ''t'', e_SHA256 = (\<lambda>_. replicate 64 (CHR ''a'')),
     e_Verify = (\<lambda>_ _ _. True)\<rparr>"

definition demo_ws :: string where "demo_ws = replicate 32 (CHR ''a'')"

definition demo_key :: string where "demo_key = replicate 43 (CHR ''A'')"

definition demo_input :: CreateInput where
  "demo_input = \<lparr>ci_WorkspaceID = demo_ws, ci_Objective = ''ship it'', ci_InitialNextStep = ''begin'',
     ci_Criteria = [\<lparr>cr_ID = ''vet'', cr_Type = CriterionCommandCheck, cr_TargetRef = [],
                     cr_Command = [''go'', ''vet'', ''./...'']\<rparr>],
     ci_AllowedRefs = [''bcgos://workspace/a''], ci_RequireYodaReview = True,
     ci_YodaPublicKey = demo_key, ci_YodaKeyID = ''k'', ci_YodaInstallationID = ''i''\<rparr>"

definition demo_checkpoint :: CheckpointInput where
  "demo_checkpoint = \<lparr>ki_ExpectedRevision = 2, ki_AttemptID = ''attempt'', ki_Summary = ''half'',
     ki_NextStep = ''rest'', ki_Blocker = [], ki_ArtifactRefs = [''bcgos://workspace/a'']\<rparr>"

definition demo_host :: host where
  "demo_host = \<lparr>h_Cwd = ''/w'', h_Open = (\<lambda>_. Inr \<lparr>hf_Regular = True, hf_Content = ''x''\<rparr>),
     h_IsDir = (\<lambda>_. True), h_GoTool = Inr ''/go'', h_Exec = (\<lambda>_ _ _. Inr 0)\<rparr>"

definition demo_evidence :: EvidenceInput where
  "demo_evidence = \<lparr>ei_WorkspaceRoot = ''/w'', ei_ExpectedRevision = 3, ei_AttemptID = ''attempt'',
     ei_CriterionID = ''vet''\<rparr>"

definition demo_envelope :: YodaReviewEnvelope where
  "demo_envelope = \<lparr>ye_SchemaVersion = 1, ye_ItemID = ''item'', ye_WorkspaceID = demo_ws,
     ye_AttemptID = ''attempt'', ye_ReviewedRevision = 4, ye_ContractSHA256 = replicate 64 (CHR ''a''),
     ye_SignerKeyID = ''k'', ye_InstallationID = ''i'', ye_CustodyScope = YodaReviewScope,
     ye_Decision = YodaReviewApproved, ye_Nonce = ''n'', ye_IssuedAt = 1,
     ye_Signature = replicate 86 (CHR ''A'')\<rparr>"

definition demo_review :: YodaReviewInput where
  "demo_review = \<lparr>yi_ExpectedRevision = 4, yi_AttemptID = ''attempt'', yi_Envelope = demo_envelope\<rparr>"

definition demo_completion :: CompletionInput where
  "demo_completion = \<lparr>mi_WorkspaceRoot = ''/w'', mi_ExpectedRevision = 5, mi_AttemptID = ''attempt''\<rparr>"

text \<open>The revisions the run publishes, and the ledger after the first \<open>k\<close> of them.\<close>

definition demo_digest :: string where "demo_digest = replicate 64 (CHR ''a'')"

definition demo_contract :: Contract where
  "demo_contract = contract_of demo_input ''item'' 1"

definition demo_state :: "int \<Rightarrow> ItemState \<Rightarrow> string \<Rightarrow> State" where
  "demo_state n s attemptID =
     \<lparr>st_SchemaVersion = 1, st_ItemID = ''item'', st_WorkspaceID = demo_ws, st_State = s,
      st_StateRevision = n, st_ContractVersion = 1, st_ContractSHA256 = demo_digest,
      st_ActiveAttemptID = attemptID, st_CreatedAt = 1, st_UpdatedAt = 1\<rparr>"

definition demo_attempt :: "AttemptState \<Rightarrow> Attempt" where
  "demo_attempt s = (new_attempt demo_ws ''item'' ''attempt'' 1)\<lparr>at_State := s\<rparr>"

definition demo_cp :: Checkpoint where
  "demo_cp = new_checkpoint demo_ws ''item'' ''checkpoint'' demo_checkpoint 1"

definition demo_receipt :: EvidenceReceipt where
  "demo_receipt = \<lparr>ev_SchemaVersion = 1, ev_EvidenceID = ''evidence'', ev_ItemID = ''item'',
     ev_WorkspaceID = demo_ws, ev_AttemptID = ''attempt'', ev_CriterionID = ''vet'',
     ev_Type = CriterionCommandCheck, ev_Outcome = EvidencePassed, ev_TargetRef = [],
     ev_ArtifactSHA256 = [], ev_ArtifactBytes = 0, ev_CommandSHA256 = demo_digest,
     ev_ToolSHA256 = demo_digest, ev_ExitCode = Some 0, ev_ObservedAt = 1\<rparr>"

definition demo_yoda :: YodaReviewReceipt where
  "demo_yoda = \<lparr>yr_SchemaVersion = 1, yr_ReviewID = ''review'', yr_ItemID = ''item'',
     yr_WorkspaceID = demo_ws, yr_AttemptID = ''attempt'', yr_ReviewedRevision = 4,
     yr_RecordedRevision = 5, yr_ContractSHA256 = demo_digest, yr_SignerKeyID = ''k'',
     yr_InstallationID = ''i'', yr_CustodyScope = YodaReviewScope,
     yr_Decision = YodaReviewApproved, yr_SignerSHA256 = demo_digest,
     yr_EnvelopeSHA256 = demo_digest, yr_ObservedAt = 1\<rparr>"

definition demo_revision ::
    "State \<Rightarrow> string \<Rightarrow> Attempt option \<Rightarrow> Checkpoint option \<Rightarrow> Revision" where
  "demo_revision s attemptID a c = plain_revision s a c (transition_to s demo_ws ''item'' attemptID 1)"

definition demo_revs :: "Revision list" where
  "demo_revs =
     (let a = Some (demo_attempt AttemptActive) in
      [demo_revision (demo_state 1 StateReady []) [] None None,
       demo_revision (demo_state 2 StateRunning ''attempt'') ''attempt'' a None,
       demo_revision (demo_state 3 StateRunning ''attempt'') ''attempt'' a (Some demo_cp),
       (demo_revision (demo_state 4 StateRunning ''attempt'') ''attempt'' a (Some demo_cp))
         \<lparr>rv_Evidence := Some demo_receipt\<rparr>,
       (demo_revision (demo_state 5 StateRunning ''attempt'') ''attempt'' a (Some demo_cp))
         \<lparr>rv_YodaReview := Some demo_yoda\<rparr>])"

definition demo_pause :: Revision where
  "demo_pause = demo_revision (demo_state 4 StatePaused []) ''attempt''
     (Some (demo_attempt AttemptInterrupted)) (Some demo_cp)"

definition demo_dir :: "Revision list \<Rightarrow> item_dir" where
  "demo_dir rs = \<lparr>id_Contract = Some demo_contract, id_State = None,
     id_Revisions = Some (log_entries 1 rs), id_Lock = None\<rparr>"

definition demo :: "Revision list \<Rightarrow> ledger" where
  "demo rs = (\<lambda>ws. if ws = demo_ws then Some [(''item'', ItemDir (demo_dir rs))] else None)"

lemma get_demo:
  "get_item (demo rs) ws it = (if ws = demo_ws \<and> it = ''item'' then Some (demo_dir rs) else None)"
  by (simp add: get_item_def get_entry_def demo_def)

lemma demo_wf: "hist_ok demo_ws ''item'' rs \<Longrightarrow> wf_ledger (demo rs)"
  by (auto simp: wf_ledger_def get_demo wf_item_def demo_dir_def docs_def)

lemma demo_hist:
  "hist_ok demo_ws ''item'' (take 1 demo_revs)" "hist_ok demo_ws ''item'' (take 2 demo_revs)"
  "hist_ok demo_ws ''item'' (take 3 demo_revs)" "hist_ok demo_ws ''item'' (take 4 demo_revs)"
  "hist_ok demo_ws ''item'' (take 5 demo_revs)" "hist_ok demo_ws ''item'' (take 3 demo_revs @ [demo_pause])"
  by code_simp+

fun is_ok :: "'e + 'a \<Rightarrow> bool" where
  "is_ok (Inr _) = True"
| "is_ok (Inl _) = False"

lemma is_okD: "is_ok (fst p) \<Longrightarrow> \<exists>x L'. p = (Inr x, L')"
  by (cases p; cases "fst p") auto

lemma demo_create_ok: "is_ok (fst (Create demo_env demo_input (\<lambda>_. None)))"
  by code_simp

lemma demo_start_ok: "is_ok (fst (Start demo_env demo_ws ''item'' 1 (demo (take 1 demo_revs))))"
  by code_simp

lemma demo_checkpoint_ok:
  "is_ok (fst (Checkpoint demo_env demo_ws ''item'' demo_checkpoint (demo (take 2 demo_revs))))"
  by code_simp

lemma demo_pause_ok:
  "is_ok (fst (Pause demo_env demo_ws ''item'' 3 ''attempt'' (demo (take 3 demo_revs))))"
  by code_simp

lemma demo_resume_ok:
  "is_ok (fst (Resume demo_env demo_ws ''item'' 4 (demo (take 3 demo_revs @ [demo_pause]))))"
  by code_simp

lemma demo_collect_ok:
  "is_ok (fst (CollectEvidence demo_env demo_host demo_ws ''item'' demo_evidence (demo (take 3 demo_revs))))"
  by code_simp

lemma demo_review_ok:
  "is_ok (fst (RecordYodaReview demo_env demo_ws ''item'' demo_review (demo (take 4 demo_revs))))"
  by code_simp

lemma demo_complete_ok:
  "is_ok (fst (Complete demo_env demo_host demo_ws ''item'' demo_completion (demo (take 5 demo_revs))))"
  by code_simp

lemma demo_delete_ok:
  "is_ok (fst (Delete demo_env demo_ws ''item'' 4 True (demo (take 3 demo_revs @ [demo_pause]))))"
  by code_simp

end
