(* ===== verification/ExecProps.thy ===== *)
theory ExecProps
  imports ExecDemo
begin

text \<open>The properties of the execution ledger, each with a concrete instance.\<close>

lemmas demo_wfs = demo_hist [THEN demo_wf]

section \<open>Histories\<close>

text \<open>C1: whatever calls were made, with whatever inputs and failures, the revisions directory
  of every item holds exactly the revisions 1 to n under their names, each one validated, each
  one a legal successor of the one before, and the first one a ready item.\<close>

theorem reachable_history:
  assumes "reachable L" "get_item L ws it = Some d"
  shows "id_Revisions d = Some (log_entries 1 (docs d)) \<and> hist_ok ws it (docs d)"
  using reachable_wf [OF assms(1)] assms(2) by (simp add: wf_ledger_def wf_item_def)

definition demo_created :: ledger where
  "demo_created = snd (Create demo_env demo_input (\<lambda>_. None))"

lemma demo_step: "ledger_step (\<lambda>_. None) demo_created"
  unfolding demo_created_def by (rule ledger_step.step_create [OF prod.collapse [symmetric]])

lemma demo_reached: "reachable demo_created"
  by (rule reachable.after [OF reachable.fresh demo_step])

lemma demo_created_item: "\<exists>d. get_item demo_created demo_ws ''item'' = Some d"
proof -
  have "get_item demo_created demo_ws ''item'' \<noteq> None" by code_simp
  then show ?thesis by auto
qed

theorem reachable_history_witness:
  "\<exists>d. get_item demo_created demo_ws ''item'' = Some d \<and> hist_ok demo_ws ''item'' (docs d)"
  using reachable_history [OF demo_reached] demo_created_item by blast

text \<open>C4: one call changes the published documents of an item in one of four ways only: not at
  all, by appending one validated revision that legally follows the last one and keeps the
  contract, by creating it with its first revision, or by removing an item that was neither
  running nor evaluating.\<close>

theorem one_call_one_change:
  assumes "reachable L" "ledger_step L L'"
  shows "view L' (ws, it) = view L (ws, it)
     \<or> (\<exists>r. revs L' ws it = revs L ws it @ [r]
           \<and> follows (rv_State (last (revs L ws it))) (rv_State r) \<and> validateRevision r = Inr ()
           \<and> map_option fst (view L' (ws, it)) = map_option fst (view L (ws, it)))
     \<or> (view L (ws, it) = None
         \<and> (\<exists>c r. view L' (ws, it) = Some (Some c, Some [(revisionName 1, RevDoc r)]) \<and> first_ok ws it r))
     \<or> (view L' (ws, it) = None
         \<and> st_State (rv_State (last (revs L ws it))) \<notin> {StateRunning, StateEvaluating})"
  using ledger_step_effect [OF reachable_wf [OF assms(1)] assms(2)] by (simp add: item_change_def)

theorem one_call_one_change_witness:
  "\<exists>c r. view demo_created (demo_ws, ''item'') = Some (Some c, Some [(revisionName 1, RevDoc r)])"
proof -
  have none: "view (\<lambda>_. None) (demo_ws, ''item'') = None" "revs (\<lambda>_. None) demo_ws ''item'' = []"
    by (simp_all add: view_apply get_item_def get_entry_def revs_def)
  from one_call_one_change [OF reachable.fresh demo_step, of demo_ws "''item''"] demo_created_item none
  show ?thesis by (auto simp: view_apply)
qed

text \<open>C2: publication is a compare-and-swap that does not depend on the lock. However the
  phases of overlapping mutations interleave, a revision that is published extends the last
  revision of a legal history and nothing published before is lost.\<close>

theorem race_publish_extends:
  assumes "race_reachable s" "(ws, it, r) \<in> rc_Pending s"
    "writeImmutableRevision e ws it (revisionName (st_StateRevision (rv_State r))) r (rc_Ledger s) = Inr L'"
  shows "revs L' ws it = revs (rc_Ledger s) ws it @ [r]
     \<and> follows (rv_State (last (revs (rc_Ledger s) ws it))) (rv_State r)
     \<and> hist_ok ws it (revs L' ws it)"
proof -
  from publish_pending [OF race_reachable_ok [OF assms(1)] assms(2,3)] obtain d
    where d: "get_item (rc_Ledger s) ws it = Some d"
      and L': "L' = put_item (rc_Ledger s) ws it (d\<lparr>id_Revisions := Some (log_entries 1 (docs d @ [r]))\<rparr>)"
      and ok: "hist_ok ws it (docs d @ [r])" "follows (rv_State (last (docs d))) (rv_State r)" by blast
  have "revs L' ws it = docs d @ [r]" by (simp add: L' revs_def docs_def)
  with ok show ?thesis by (simp add: revs_get [OF d])
qed

definition demo_race :: race where
  "demo_race =
     \<lparr>rc_Ledger = demo_created, rc_Read = {}, rc_Pending = {(demo_ws, ''item'', demo_revs ! 1)},
      rc_Used = {(demo_ws, ''item'')}\<rparr>"

lemma demo_race_created:
  "race_reachable \<lparr>rc_Ledger = demo_created, rc_Read = {}, rc_Pending = {}, rc_Used = {(demo_ws, ''item'')}\<rparr>"
proof -
  let ?s0 = "\<lparr>rc_Ledger = (\<lambda>_. None), rc_Read = {}, rc_Pending = {}, rc_Used = {}\<rparr> :: race"
  have "case create_plan demo_env demo_input of Inl _ \<Rightarrow> False | Inr (c, _) \<Rightarrow> ct_ItemID c = ''item''"
    by code_simp
  then obtain c st r where p: "create_plan demo_env demo_input = Inr (c, st, r)" "ct_ItemID c = ''item''"
    by (auto split: sum.splits prod.splits)
  have "race_step ?s0 (?s0\<lparr>rc_Ledger := demo_created,
      rc_Used := insert (ci_WorkspaceID demo_input, ct_ItemID c) (rc_Used ?s0)\<rparr>)"
    by (rule phase_create [where res = "fst (Create demo_env demo_input (\<lambda>_. None))", OF p(1)])
       (simp_all add: demo_created_def)
  moreover have "ci_WorkspaceID demo_input = demo_ws" by (simp add: demo_input_def)
  ultimately show ?thesis using p(2) race_after [OF race_fresh] by simp
qed

lemma demo_race_reachable: "race_reachable demo_race"
proof -
  let ?s1 = "\<lparr>rc_Ledger = demo_created, rc_Read = {}, rc_Pending = {}, rc_Used = {(demo_ws, ''item'')}\<rparr> :: race"
  have "case inspectUnlocked demo_env demo_ws ''item'' demo_created of Inl _ \<Rightarrow> False
      | Inr x \<Rightarrow> (case start_plan demo_env demo_ws ''item'' 1 demo_created x of Inl _ \<Rightarrow> False
                 | Inr (r, _) \<Rightarrow> r = demo_revs ! 1)" by code_simp
  then obtain x out where x: "inspectUnlocked demo_env demo_ws ''item'' (rc_Ledger ?s1) = Inr x"
    "start_plan demo_env demo_ws ''item'' 1 (rc_Ledger ?s1) x = Inr (demo_revs ! 1, out)"
    by (auto split: sum.splits prod.splits)
  from phase_plan [OF x(1) plan_start [OF x(2)]] have "race_step ?s1 demo_race"
    by (simp add: demo_race_def)
  with demo_race_created show ?thesis by (rule race_after)
qed

theorem race_publish_extends_witness:
  "\<exists>L'. writeImmutableRevision demo_env demo_ws ''item'' (revisionName 2) (demo_revs ! 1)
      (rc_Ledger demo_race) = Inr L' \<and> hist_ok demo_ws ''item'' (revs L' demo_ws ''item'')"
proof -
  have n: "st_StateRevision (rv_State (demo_revs ! 1)) = 2" by code_simp
  have "is_ok (writeImmutableRevision demo_env demo_ws ''item'' (revisionName 2) (demo_revs ! 1)
      (rc_Ledger demo_race))" by code_simp
  then obtain L' where L': "writeImmutableRevision demo_env demo_ws ''item'' (revisionName 2) (demo_revs ! 1)
      (rc_Ledger demo_race) = Inr L'" by (metis is_ok.elims(2))
  have "(demo_ws, ''item'', demo_revs ! 1) \<in> rc_Pending demo_race" by (simp add: demo_race_def)
  from race_publish_extends [OF demo_race_reachable this] L' n show ?thesis by fastforce
qed

section \<open>The operations\<close>

text \<open>What a successful call published, and what it left: the facts the next proofs start from.\<close>

lemma success_facts:
  assumes wf: "wf_ledger L" and o: "outcome e ws it plan L (Inr out) L'"
  obtains item r where "inspectUnlocked e ws it L = Inr item" "plan L item = Inr (r, out)"
    "wf_ledger L'" "appends L ws it r L'"
    "st_StateRevision (rv_State r) = st_StateRevision (it_State item) + 1"
    "decode_revision r = r \<Longrightarrow> inspectUnlocked e ws it L' = Inr \<lparr>it_Contract = it_Contract item,
       it_State = rv_State r, it_Attempt = rv_Attempt r, it_Checkpoint = rv_Checkpoint r,
       it_Evidence = rv_Evidence r\<rparr>"
proof -
  from o obtain item r where i: "inspectUnlocked e ws it L = Inr item" "plan L item = Inr (r, out)"
    and v: "validateRevision r = Inr ()" "wf_ledger L'" "appends L ws it r L'" by (rule outcome_success)
  have "st_StateRevision (rv_State r) = st_StateRevision (it_State item) + 1"
    using inspect_last [OF wf i(1)] v(3) by (simp add: appends_def follows_def)
  with i v inspect_after [OF wf i(1) v(3,2,1)] show thesis by (intro that) blast+
qed

text \<open>A successful \<open>Start\<close> found the item ready at the expected revision, gave it a fresh
  active attempt and state running at the next revision, and the item then reads as returned.\<close>

theorem Start_success:
  assumes "wf_ledger L" "Start e ws it n L = (Inr item', L')"
  shows "\<exists>item a. inspectUnlocked e ws it L = Inr item
     \<and> st_StateRevision (it_State item) = n \<and> st_State (it_State item) = StateReady
     \<and> st_State (it_State item') = StateRunning \<and> st_StateRevision (it_State item') = n + 1
     \<and> st_ActiveAttemptID (it_State item') = a
     \<and> it_Attempt item' = Some (new_attempt ws it a (e_Clock e 0))
     \<and> it_Contract item' = it_Contract item
     \<and> inspectUnlocked e ws it L' = Inr item'"
proof -
  from success_facts [OF assms(1) Start_outcome [OF assms]] obtain item r
    where i: "inspectUnlocked e ws it L = Inr item" "start_plan e ws it n L item = Inr (r, item')"
      "st_StateRevision (rv_State r) = st_StateRevision (it_State item) + 1"
      and read: "decode_revision r = r \<Longrightarrow> inspectUnlocked e ws it L' = Inr \<lparr>it_Contract = it_Contract item,
       it_State = rv_State r, it_Attempt = rv_Attempt r, it_Checkpoint = rv_Checkpoint r,
       it_Evidence = rv_Evidence r\<rparr>" by metis
  with i(2,3) show ?thesis
    by (auto simp: start_plan_ok Let_def decode_plain_revision)
qed

theorem Start_success_witness:
  "\<exists>item' L'. Start demo_env demo_ws ''item'' 1 (demo (take 1 demo_revs)) = (Inr item', L')
     \<and> st_State (it_State item') = StateRunning \<and> inspectUnlocked demo_env demo_ws ''item'' L' = Inr item'"
  using is_okD [OF demo_start_ok] Start_success [OF demo_wfs(1)] by metis

text \<open>A successful \<open>Checkpoint\<close> was made by the active attempt of the running item at the
  expected revision, names allowed artifacts only, keeps the item running at the next revision,
  keeps the projection of the next action within its bound, and, when its text is valid UTF-8,
  the item then reads as returned.\<close>

theorem Checkpoint_success:
  assumes "wf_ledger L" "Checkpoint e ws it i L = (Inr item', L')"
    "valid_utf8 (TrimSpace (ki_Summary i))" "valid_utf8 (TrimSpace (ki_NextStep i))"
    "valid_utf8 (TrimSpace (ki_Blocker i))"
  shows "\<exists>item c. inspectUnlocked e ws it L = Inr item
     \<and> st_StateRevision (it_State item) = ki_ExpectedRevision i
     \<and> st_State (it_State item) = StateRunning \<and> active_attempt item (ki_AttemptID i)
     \<and> it_Checkpoint item' = Some c \<and> cp_AttemptID c = ki_AttemptID i
     \<and> set (cp_ArtifactRefs c) \<subseteq> set (ct_AllowedRefs (it_Contract item))
     \<and> st_State (it_State item') = StateRunning
     \<and> st_StateRevision (it_State item') = ki_ExpectedRevision i + 1
     \<and> inspectUnlocked e ws it L' = Inr item' \<and> (\<exists>p. Next e ws it L' = Inr p)"
proof -
  from success_facts [OF assms(1) Checkpoint_outcome [OF assms(1,2)]] obtain item r
    where i: "inspectUnlocked e ws it L = Inr item" "checkpoint_plan e ws it i L item = Inr (r, item')"
      "st_StateRevision (rv_State r) = st_StateRevision (it_State item) + 1"
      and read: "decode_revision r = r \<Longrightarrow> inspectUnlocked e ws it L' = Inr \<lparr>it_Contract = it_Contract item,
       it_State = rv_State r, it_Attempt = rv_Attempt r, it_Checkpoint = rv_Checkpoint r,
       it_Evidence = rv_Evidence r\<rparr>" by metis
  have valid: "validateItemInput e ws it = Inr ()"
    using assms(2) by (auto simp: Checkpoint_def split: sum.splits)
  have "decode_checkpoint (new_checkpoint ws it k i now) = new_checkpoint ws it k i now" for k now
    using assms(3-5) by (simp add: decode_checkpoint_def new_checkpoint_def valid_utf8_def)
  with i(2,3) read valid i(1) show ?thesis
    by (auto simp: checkpoint_plan_ok Let_def decode_plain_revision new_checkpoint_def Next_def Inspect_def)
qed

theorem Checkpoint_success_witness:
  "\<exists>item' L'. Checkpoint demo_env demo_ws ''item'' demo_checkpoint (demo (take 2 demo_revs)) = (Inr item', L')
     \<and> inspectUnlocked demo_env demo_ws ''item'' L' = Inr item'"
proof -
  have "valid_utf8 (TrimSpace (ki_Summary demo_checkpoint))" "valid_utf8 (TrimSpace (ki_NextStep demo_checkpoint))"
    "valid_utf8 (TrimSpace (ki_Blocker demo_checkpoint))" by code_simp+
  with is_okD [OF demo_checkpoint_ok] Checkpoint_success [OF demo_wfs(2)] show ?thesis by metis
qed

text \<open>\<open>Pause\<close> succeeds only on the active attempt of the running item that has made the
  current checkpoint; the attempt becomes interrupted and no attempt stays active.\<close>

theorem Pause_success:
  assumes "wf_ledger L" "Pause e ws it n a L = (Inr item', L')"
  shows "\<exists>item c. inspectUnlocked e ws it L = Inr item
     \<and> st_StateRevision (it_State item) = n \<and> st_State (it_State item) = StateRunning
     \<and> active_attempt item a \<and> it_Checkpoint item = Some c \<and> cp_AttemptID c = a
     \<and> it_Checkpoint item' = Some c \<and> st_State (it_State item') = StatePaused
     \<and> st_StateRevision (it_State item') = n + 1 \<and> st_ActiveAttemptID (it_State item') = []
     \<and> map_option at_State (it_Attempt item') = Some AttemptInterrupted
     \<and> inspectUnlocked e ws it L' = Inr item'"
proof -
  from success_facts [OF assms(1) Pause_outcome [OF assms]] obtain item r
    where i: "inspectUnlocked e ws it L = Inr item" "pause_plan e ws it n a L item = Inr (r, item')"
      "st_StateRevision (rv_State r) = st_StateRevision (it_State item) + 1"
      and read: "decode_revision r = r \<Longrightarrow> inspectUnlocked e ws it L' = Inr \<lparr>it_Contract = it_Contract item,
       it_State = rv_State r, it_Attempt = rv_Attempt r, it_Checkpoint = rv_Checkpoint r,
       it_Evidence = rv_Evidence r\<rparr>" by metis
  with i(2,3) inspected_checkpoint [OF i(1)] show ?thesis
    by (auto simp: pause_plan_ok Let_def decode_plain_revision active_attempt_def split: option.splits)
qed

theorem Pause_success_witness:
  "\<exists>item' L'. Pause demo_env demo_ws ''item'' 3 ''attempt'' (demo (take 3 demo_revs)) = (Inr item', L')
     \<and> inspectUnlocked demo_env demo_ws ''item'' L' = Inr item'"
  using is_okD [OF demo_pause_ok] Pause_success [OF demo_wfs(3)] by metis

text \<open>\<open>Resume\<close> succeeds only on a paused item with its checkpoint and interrupted attempt;
  it gives a new active attempt and keeps the checkpoint.\<close>

theorem Resume_success:
  assumes "wf_ledger L" "Resume e ws it n L = (Inr item', L')"
  shows "\<exists>item a. inspectUnlocked e ws it L = Inr item
     \<and> st_StateRevision (it_State item) = n \<and> st_State (it_State item) = StatePaused
     \<and> it_Checkpoint item \<noteq> None \<and> it_Checkpoint item' = it_Checkpoint item
     \<and> map_option at_State (it_Attempt item) = Some AttemptInterrupted
     \<and> st_State (it_State item') = StateRunning \<and> st_StateRevision (it_State item') = n + 1
     \<and> st_ActiveAttemptID (it_State item') = a
     \<and> it_Attempt item' = Some (new_attempt ws it a (e_Clock e 0))
     \<and> inspectUnlocked e ws it L' = Inr item'"
proof -
  from success_facts [OF assms(1) Resume_outcome [OF assms]] obtain item r
    where i: "inspectUnlocked e ws it L = Inr item" "resume_plan e ws it n L item = Inr (r, item')"
      "st_StateRevision (rv_State r) = st_StateRevision (it_State item) + 1"
      and read: "decode_revision r = r \<Longrightarrow> inspectUnlocked e ws it L' = Inr \<lparr>it_Contract = it_Contract item,
       it_State = rv_State r, it_Attempt = rv_Attempt r, it_Checkpoint = rv_Checkpoint r,
       it_Evidence = rv_Evidence r\<rparr>" by metis
  with i(2,3) inspected_checkpoint [OF i(1)] show ?thesis
    by (auto simp: resume_plan_ok Let_def decode_plain_revision interrupted_def)
qed

theorem Resume_success_witness:
  "\<exists>item' L'. Resume demo_env demo_ws ''item'' 4 (demo (take 3 demo_revs @ [demo_pause])) = (Inr item', L')
     \<and> inspectUnlocked demo_env demo_ws ''item'' L' = Inr item'"
  using is_okD [OF demo_resume_ok] Resume_success [OF demo_wfs(6)] by metis

section \<open>Completion\<close>

text \<open>C3: an item is completed only when every criterion of its contract has a last recorded
  receipt that passed, and observing it again gives a passing receipt with the same digests; and
  when the contract asks for it, the last signed review approved exactly this revision, contract
  and attempt. The item then reads as completed, with no active attempt.\<close>

theorem Complete_success:
  assumes "wf_ledger L" "Complete e h ws it i L = (Inr item', L')"
  shows "\<exists>item. inspectUnlocked e ws it L = Inr item
     \<and> st_StateRevision (it_State item) = mi_ExpectedRevision i
     \<and> st_State (it_State item) = StateRunning \<and> st_ActiveAttemptID (it_State item) = mi_AttemptID i
     \<and> (\<forall>j < length (ct_Criteria (it_Contract item)). \<exists>prior current.
          let c = ct_Criteria (it_Contract item) ! j in
          latest_by ev_CriterionID (receipts_of rv_Evidence (revs L ws it)) (cr_ID c) = Some prior
          \<and> ev_Outcome prior = EvidencePassed
          \<and> witnessCriterion e h (mi_WorkspaceRoot i) item c (ev_EvidenceID prior) (e_Clock e j) = Inr current
          \<and> ev_Outcome current = EvidencePassed
          \<and> ev_ArtifactSHA256 current = ev_ArtifactSHA256 prior
          \<and> ev_CommandSHA256 current = ev_CommandSHA256 prior
          \<and> ev_ToolSHA256 current = ev_ToolSHA256 prior)
     \<and> (ct_RequireYodaReview (it_Contract item) \<longrightarrow> (\<exists>y ys.
          receipts_of rv_YodaReview (revs L ws it) = ys @ [y]
          \<and> yr_Decision y = YodaReviewApproved \<and> yr_RecordedRevision y = st_StateRevision (it_State item)
          \<and> yr_ContractSHA256 y = st_ContractSHA256 (it_State item) \<and> yr_AttemptID y = mi_AttemptID i))
     \<and> st_State (it_State item') = StateCompleted \<and> st_ActiveAttemptID (it_State item') = []
     \<and> inspectUnlocked e ws it L' = Inr item'"
proof -
  from Complete_cases [OF assms] obtain item ev
    where read: "complete_read e ws it i L = Inr (item, ev)"
      and hold: "all_criteria_hold e h (mi_WorkspaceRoot i) item ev 0 (ct_Criteria (it_Contract item)) = Inr ()"
      and o: "outcome e ws it (complete_plan e ws it i item) L (Inr item') L'" by auto
  from success_facts [OF assms(1) o] obtain cur r
    where i: "inspectUnlocked e ws it L = Inr cur" "complete_plan e ws it i item L cur = Inr (r, item')"
      and readback: "decode_revision r = r \<Longrightarrow> inspectUnlocked e ws it L' = Inr \<lparr>it_Contract = it_Contract cur,
       it_State = rv_State r, it_Attempt = rv_Attempt r, it_Checkpoint = rv_Checkpoint r,
       it_Evidence = rv_Evidence r\<rparr>" by metis
  from complete_read_ok [OF read] have ins: "inspectUnlocked e ws it L = Inr item"
    and run: "still_running item (mi_ExpectedRevision i) (mi_AttemptID i) = Inr ()"
    and lat: "latestEvidence ws it L = Inr ev"
    and yoda: "ct_RequireYodaReview (it_Contract item) \<longrightarrow> currentYodaApproval ws it (it_State item) L = Inr ()"
    by auto
  from lat have ev: "ev = latest_by ev_CriterionID (receipts_of rv_Evidence (revs L ws it))"
    by (auto simp: latestEvidence_def res_simps dest: evidences_receipts [OF assms(1)])
  have "\<exists>y ys. receipts_of rv_YodaReview (revs L ws it) = ys @ [y] \<and> yr_Decision y = YodaReviewApproved
      \<and> yr_RecordedRevision y = st_StateRevision (it_State item)
      \<and> yr_ContractSHA256 y = st_ContractSHA256 (it_State item) \<and> yr_AttemptID y = mi_AttemptID i"
    if "ct_RequireYodaReview (it_Contract item)"
    using yoda that run yodaReviews_receipts [OF assms(1)]
    by (auto simp: currentYodaApproval_ok still_running_ok)
       (metis append_butlast_last_id)
  moreover have "cur = item" using ins i(1) by simp
  ultimately show ?thesis
    using ins run hold i(2) readback inspected_checkpoint [OF ins]
    by (auto simp: all_criteria_hold_nth criterion_still_holds_ok ev still_running_ok
        complete_plan_ok Let_def decode_plain_revision)
qed

theorem Complete_success_witness:
  "\<exists>item' L'. Complete demo_env demo_host demo_ws ''item'' demo_completion (demo (take 5 demo_revs)) = (Inr item', L')
     \<and> st_State (it_State item') = StateCompleted"
  using is_okD [OF demo_complete_ok] Complete_success [OF demo_wfs(5)] by metis

text \<open>C8: completion is final: after it, a call leaves the history alone, appends the tombstone of
  a deletion, or removes the item.\<close>

theorem completed_is_final:
  assumes "wf_ledger L" "ledger_step L L'" "get_item L ws it = Some d"
    "st_State (rv_State (last (docs d))) = StateCompleted"
  shows "revs L' ws it = docs d \<or> view L' (ws, it) = None
     \<or> (\<exists>r. revs L' ws it = docs d @ [r] \<and> st_State (rv_State r) = StateCancelled)"
proof -
  have "item_change L L' ws it" using ledger_step_effect [OF assms(1,2)] by simp
  moreover have "revs L ws it = docs d" by (rule revs_get [OF assms(3)])
  moreover have "view L (ws, it) \<noteq> None" by (simp add: view_apply assms(3))
  moreover have "st_State (rv_State r) = StateCancelled" if "follows (rv_State (last (docs d))) (rv_State r)" for r
    using that assms(4) by (auto simp: follows_def elim: item_step_from_completed)
  ultimately show ?thesis unfolding item_change_def using revs_view [of L' ws it L] by auto
qed

definition demo_done :: Revision where
  "demo_done = demo_revision (demo_state 6 StateCompleted []) ''attempt''
     (Some (demo_attempt AttemptCompleted)) (Some demo_cp)"

theorem completed_is_final_witness:
  "\<exists>L'. ledger_step (demo (take 5 demo_revs @ [demo_done])) L'
     \<and> (revs L' demo_ws ''item'' = take 5 demo_revs @ [demo_done] \<or> view L' (demo_ws, ''item'') = None
        \<or> (\<exists>r. revs L' demo_ws ''item'' = (take 5 demo_revs @ [demo_done]) @ [r]
              \<and> st_State (rv_State r) = StateCancelled))"
proof -
  let ?h = "take 5 demo_revs @ [demo_done]"
  have wf: "wf_ledger (demo ?h)" by (rule demo_wf) code_simp
  have step: "ledger_step (demo ?h) (snd (Delete demo_env demo_ws ''item'' 6 True (demo ?h)))"
    by (rule ledger_step.step_delete [OF prod.collapse [symmetric]])
  have d: "get_item (demo ?h) demo_ws ''item'' = Some (demo_dir ?h)" by (simp add: get_demo)
  have docs: "docs (demo_dir ?h) = ?h" by (simp add: docs_def demo_dir_def)
  have "st_State (rv_State (last (docs (demo_dir ?h)))) = StateCompleted" unfolding docs by code_simp
  from completed_is_final [OF wf step d this] step show ?thesis unfolding docs by blast
qed

text \<open>The receipt \<open>CollectEvidence\<close> records is of the criterion asked for, made by the
  active attempt of the running item, and records what was observed: the digest and size of the
  artifact below the workspace root, or the exit code of the contract's own command, passed
  exactly when it was zero.\<close>

theorem CollectEvidence_success:
  assumes "wf_ledger L" "CollectEvidence e h ws it i L = (Inr (item', receipt), L')"
  shows "\<exists>item c. inspectUnlocked e ws it L = Inr item \<and> c \<in> set (ct_Criteria (it_Contract item))
     \<and> cr_ID c = ei_CriterionID i \<and> active_attempt item (ei_AttemptID i)
     \<and> ev_CriterionID receipt = cr_ID c \<and> ev_Type receipt = cr_Type c
     \<and> (cr_Type c = CriterionArtifactSnapshot \<longrightarrow> (\<exists>p f.
          workspaceRelativePath (cr_TargetRef c) = Inr p
          \<and> h_Open h (path_clean (abs_path h (ei_WorkspaceRoot i) @ ''/'' @ p)) = Inr f
          \<and> hf_Regular f \<and> ev_ArtifactSHA256 receipt = e_SHA256 e (hf_Content f)
          \<and> ev_ArtifactBytes receipt = len (hf_Content f) \<and> ev_Outcome receipt = EvidencePassed))
     \<and> (cr_Type c = CriterionCommandCheck \<longrightarrow> (\<exists>tool code.
          allowedCommand (cr_Command c) \<and> h_GoTool h = Inr tool
          \<and> h_Exec h tool (abs_path h (ei_WorkspaceRoot i)) (tl (cr_Command c)) = Inr code
          \<and> ev_ExitCode receipt = Some code
          \<and> (ev_Outcome receipt = EvidencePassed \<longleftrightarrow> code = 0)))
     \<and> receipts_of rv_Evidence (revs L' ws it) = receipts_of rv_Evidence (revs L ws it) @ [receipt]"
proof -
  from CollectEvidence_cases [OF assms] obtain item c k now rc
    where read: "collect_read e ws it i L = Inr (item, c, k, now)"
      and w: "witnessCriterion e h (ei_WorkspaceRoot i) item c k now = Inr rc"
      and o: "outcome e ws it (collect_plan e ws it i item now rc) L (Inr (item', receipt)) L'" by auto
  from success_facts [OF assms(1) o] obtain cur r
    where p: "collect_plan e ws it i item now rc L cur = Inr (r, (item', receipt))"
      and a: "appends L ws it r L'" by metis
  from p have rc: "receipt = rc" "rv_Evidence r = Some receipt" by (auto simp: collect_plan_ok Let_def)
  from collect_read_ok [OF read] have ok: "inspectUnlocked e ws it L = Inr item"
    "active_attempt item (ei_AttemptID i)" "findCriterion (it_Contract item) (ei_CriterionID i) = Inr c" by auto
  from ok(3) have c: "c \<in> set (ct_Criteria (it_Contract item))" "cr_ID c = ei_CriterionID i"
    by (auto simp: findCriterion_def dest!: find_Some_in split: option.splits)
  have "receipts_of rv_Evidence (revs L' ws it) = receipts_of rv_Evidence (revs L ws it) @ [receipt]"
    using a rc(2) by (simp add: appends_def)
  with ok c w show ?thesis
    by (cases "cr_Type c")
       (auto simp: rc(1) witnessCriterion_def blank_receipt_def res_simps hashFile_def
          resolveWorkspaceArtifact_def runValidatedCommand_def Let_def split: if_splits)
qed

theorem CollectEvidence_success_witness:
  "\<exists>item' receipt L'. CollectEvidence demo_env demo_host demo_ws ''item'' demo_evidence (demo (take 3 demo_revs))
     = (Inr (item', receipt), L') \<and> ev_CriterionID receipt = ''vet''"
proof -
  from is_okD [OF demo_collect_ok] obtain item' receipt L' where
    r: "CollectEvidence demo_env demo_host demo_ws ''item'' demo_evidence (demo (take 3 demo_revs))
     = (Inr (item', receipt), L')" by auto
  from CollectEvidence_success [OF demo_wfs(3) r] have "ev_CriterionID receipt = ei_CriterionID demo_evidence"
    by auto
  with r show ?thesis by (simp add: demo_evidence_def)
qed

section \<open>Deletion and creation\<close>

text \<open>C7: \<open>Delete\<close> does nothing without confirmation; when it succeeds the item was at the
  expected revision and neither running nor evaluating, it is gone, and every other item keeps
  its documents.\<close>

theorem Delete_guarded:
  assumes "wf_ledger L" "Delete e ws it n confirmed L = (res, L')"
  shows "(\<not> confirmed \<longrightarrow> res = Inl ErrConfirmationRequired \<and> L' = L)
     \<and> (res = Inr () \<longrightarrow> (\<exists>item. inspectUnlocked e ws it L = Inr item
          \<and> st_StateRevision (it_State item) = n
          \<and> st_State (it_State item) \<notin> {StateRunning, StateEvaluating}
          \<and> view L' = (view L)((ws, it) := None)))"
proof
  show "\<not> confirmed \<longrightarrow> res = Inl ErrConfirmationRequired \<and> L' = L"
    using assms(2) by (auto simp: Delete_def checks.simps)
  show "res = Inr () \<longrightarrow> (\<exists>item. inspectUnlocked e ws it L = Inr item
          \<and> st_StateRevision (it_State item) = n
          \<and> st_State (it_State item) \<notin> {StateRunning, StateEvaluating}
          \<and> view L' = (view L)((ws, it) := None))"
    using Delete_outcome [OF assms] by (auto simp: deletion_def delete_plan_ok)
qed

theorem Delete_guarded_witness:
  "\<exists>L'. Delete demo_env demo_ws ''item'' 4 True (demo (take 3 demo_revs @ [demo_pause])) = (Inr (), L')
     \<and> view L' (demo_ws, ''item'') = None"
proof -
  from is_okD [OF demo_delete_ok] obtain u L' where
    r: "Delete demo_env demo_ws ''item'' 4 True (demo (take 3 demo_revs @ [demo_pause])) = (Inr u, L')" by auto
  with Delete_guarded [OF demo_wfs(6) r] show ?thesis by auto
qed

text \<open>A new item, whose texts are valid UTF-8, is visible at once and reads exactly as it was
  returned; it took the place of no other item, and every other item keeps its documents.\<close>

theorem Create_then_Inspect:
  assumes "wf_ledger L" "Create e i L = (Inr item, L')"
    "valid_utf8 (TrimSpace (ci_Objective i))" "valid_utf8 (TrimSpace (ci_InitialNextStep i))"
  shows "Inspect e (ci_WorkspaceID i) (ct_ItemID (it_Contract item)) L' = Inr item
     \<and> st_State (it_State item) = StateReady \<and> st_StateRevision (it_State item) = 1
     \<and> get_item L (ci_WorkspaceID i) (ct_ItemID (it_Contract item)) = None
     \<and> (\<forall>ws it. (ws, it) \<noteq> (ci_WorkspaceID i, ct_ItemID (it_Contract item)) \<longrightarrow>
          view L' (ws, it) = view L (ws, it))"
proof -
  from Create_outcome [OF assms(1,2)] obtain c s r where p: "create_plan e i = Inr (c, s, r)"
    and wf': "wf_ledger L'" and cr: "created L (ci_WorkspaceID i) (ct_ItemID c) c r L'"
    and item: "item = \<lparr>it_Contract = c, it_State = s, it_Attempt = None, it_Checkpoint = None, it_Evidence = None\<rparr>"
    by auto
  note ok = create_plan_ok [OF p]
  then have "decode_contract c = c"
    using assms(3,4) by (auto simp: decode_contract_def contract_of_def valid_utf8_def)
  from inspect_created [OF p this cr wf']
  have ins: "inspectUnlocked e (ci_WorkspaceID i) (ct_ItemID c) L' = Inr item" by (simp add: item)
  have "validateItemInput e (ci_WorkspaceID i) (ct_ItemID c) = Inr ()"
    using p by (auto simp: create_plan_def res_simps Let_def validateItemInput_def contract_of_def
        validateState_ok initial_state_def valid_simps)
  with ins ok cr show ?thesis
    by (auto simp: Inspect_def item created_def first_ok_def view_apply)
qed

theorem Create_then_Inspect_witness:
  "\<exists>item L'. Create demo_env demo_input (\<lambda>_. None) = (Inr item, L')
     \<and> Inspect demo_env demo_ws (ct_ItemID (it_Contract item)) L' = Inr item"
proof -
  have wf: "wf_ledger (\<lambda>_. None)" by (rule reachable_wf [OF reachable.fresh])
  have "valid_utf8 (TrimSpace (ci_Objective demo_input))" "valid_utf8 (TrimSpace (ci_InitialNextStep demo_input))"
    by code_simp+
  moreover have "ci_WorkspaceID demo_input = demo_ws" by (simp add: demo_input_def)
  ultimately show ?thesis using is_okD [OF demo_create_ok] Create_then_Inspect [OF wf] by metis
qed

section \<open>Receipts\<close>

text \<open>A recorded review was required by the contract, was signed over the item's current
  workspace, item, attempt, revision and contract digest by the custodian's key, and its envelope
  was never recorded for the item before.\<close>

theorem RecordYodaReview_success:
  assumes "wf_ledger L" "RecordYodaReview e ws it i L = (Inr (item', receipt), L')"
  shows "\<exists>item key payload sig. inspectUnlocked e ws it L = Inr item
     \<and> ct_RequireYodaReview (it_Contract item)
     \<and> decodeYodaPublicKey (ct_YodaPublicKey (it_Contract item)) = Inr key
     \<and> YodaReviewSigningPayload (yi_Envelope i) = Inr payload
     \<and> RawStd_decode (ye_Signature (yi_Envelope i)) = Some sig \<and> e_Verify e key payload sig
     \<and> ye_ItemID (yi_Envelope i) = it \<and> ye_WorkspaceID (yi_Envelope i) = ws
     \<and> ye_AttemptID (yi_Envelope i) = st_ActiveAttemptID (it_State item)
     \<and> ye_ReviewedRevision (yi_Envelope i) = st_StateRevision (it_State item)
     \<and> ye_ContractSHA256 (yi_Envelope i) = st_ContractSHA256 (it_State item)
     \<and> receipts_of rv_YodaReview (revs L' ws it) = receipts_of rv_YodaReview (revs L ws it) @ [receipt]
     \<and> yr_EnvelopeSHA256 receipt \<notin> yr_EnvelopeSHA256 ` set (receipts_of rv_YodaReview (revs L ws it))
     \<and> yr_RecordedRevision receipt = st_StateRevision (it_State item) + 1"
proof -
  from success_facts [OF assms(1) RecordYodaReview_outcome [OF assms]] obtain item r
    where i: "inspectUnlocked e ws it L = Inr item" "review_plan e ws it i L item = Inr (r, (item', receipt))"
      "st_StateRevision (rv_State r) = st_StateRevision (it_State item) + 1" and a: "appends L ws it r L'"
    by metis
  note plan = review_plan_okD [OF i(2)]
  from plan(4) have fresh: "yr_EnvelopeSHA256 receipt \<notin> yr_EnvelopeSHA256 ` set (receipts_of rv_YodaReview (revs L ws it))"
    using yodaReviews_receipts [OF assms(1)] plan(9) by auto
  have "receipts_of rv_YodaReview (revs L' ws it) = receipts_of rv_YodaReview (revs L ws it) @ [receipt]"
    using a plan(7) by (simp add: appends_def)
  with fresh plan(2,3,11) i inspect_last [OF assms(1) i(1)] show ?thesis
    by (auto simp: verifyYodaReviewEnvelope_def Let_def res_simps split: option.splits if_splits)
qed

theorem RecordYodaReview_success_witness:
  "\<exists>item' receipt L'. RecordYodaReview demo_env demo_ws ''item'' demo_review (demo (take 4 demo_revs))
     = (Inr (item', receipt), L')
     \<and> receipts_of rv_YodaReview (revs L' demo_ws ''item'')
       = receipts_of rv_YodaReview (revs (demo (take 4 demo_revs)) demo_ws ''item'') @ [receipt]"
proof -
  from is_okD [OF demo_review_ok] obtain item' receipt L' where
    r: "RecordYodaReview demo_env demo_ws ''item'' demo_review (demo (take 4 demo_revs))
     = (Inr (item', receipt), L')" by auto
  with RecordYodaReview_success [OF demo_wfs(4) r] show ?thesis by blast
qed

end
