(* ===== verification/ExecGuards.thy ===== *)
theory ExecGuards
  imports ExecProps
begin

text \<open>
  Properties of what guards the ledger: artifact paths, the lock, tool-call receipts, the active
  item and the bound of its projection, and the inputs the bounds do not cover.
\<close>

section \<open>Paths, locks and readers\<close>

text \<open>C6: an artifact reference that resolves names a path strictly below the workspace root: its
  components are those of the root followed by at least one ordinary name, none of them empty,
  dot or dot-dot, whatever the reference contained.\<close>

theorem artifact_confined:
  assumes "has_prefix (h_Cwd h) ''/''" "resolveWorkspaceArtifact h root reference = Inr path"
  shows "\<exists>names. path_parts path = path_parts (abs_path h root) @ names
     \<and> names \<noteq> [] \<and> list_all is_proper names"
proof -
  from assms(2) obtain p where p: "workspaceRelativePath reference = Inr p"
    and path: "path = path_clean (abs_path h root @ ''/'' @ p)"
    by (auto simp: resolveWorkspaceArtifact_def res_simps)
  have "has_prefix (abs_path h root @ ''/'' @ p) ''/''"
    using abs_path_rooted [OF assms(1), of root] by (auto simp: has_prefix_iff)
  then have "path_parts path = path_parts (abs_path h root) @ split_on (CHR ''/'') p"
    using path_parts_append [OF relative_components [OF p], of "abs_path h root"]
    by (simp add: path path_parts_of_clean)
  with relative_components [OF p] show ?thesis by auto
qed

theorem artifact_confined_witness:
  "resolveWorkspaceArtifact demo_host ''/w/'' ''bcgos://workspace/a/../b//c'' = Inr ''/w/b/c''
   \<and> (\<exists>names. path_parts ''/w/b/c'' = path_parts (abs_path demo_host ''/w/'') @ names \<and> names \<noteq> [])"
proof -
  have r: "resolveWorkspaceArtifact demo_host ''/w/'' ''bcgos://workspace/a/../b//c'' = Inr ''/w/b/c''"
    by code_simp
  have "has_prefix (h_Cwd demo_host) ''/''" by code_simp
  from artifact_confined [OF this r] r show ?thesis by blast
qed



text \<open>A mutation that got the lock gives it back.\<close>

lemma commitRevision_lock:
  assumes "commitRevision e ws it r L = (res, L')"
  shows "map_option id_Lock (get_item L' ws it) = map_option id_Lock (get_item L ws it)"
proof -
  have a: "map_option id_Lock (get_item L1 ws it) = map_option id_Lock (get_item L ws it)"
    if "writeImmutableRevision e ws it n r L = Inr L1" for n L1
    using that by (auto simp: writeImmutableRevision_def res_simps split: option.splits)
  have b: "map_option id_Lock (get_item L2 ws it) = map_option id_Lock (get_item L1 ws it)"
    if "writeState e ws it s L1 = Inr L2" "get_item L1 ws it = Some d" for s L1 L2 d
    using that by (auto simp: writeState_def res_simps get_item_SomeD)
  have c: "\<exists>d. get_item L1 ws it = Some d" if "writeImmutableRevision e ws it n r L = Inr L1" for n L1
    using that by (auto simp: writeImmutableRevision_def res_simps split: option.splits)
  show ?thesis
    using assms
    by (auto simp: commitRevision_def res_simps dest: a c b split: sum.splits)
       (metis a b c)+
qed

lemma commit_plan_lock:
  "commit_plan e ws it plan L = (res, L') \<Longrightarrow>
   map_option id_Lock (get_item L' ws it) = map_option id_Lock (get_item L ws it)"
  by (auto simp: commit_plan_def dest: commitRevision_lock split: sum.splits prod.splits)

lemma lock_taken:
  "lock e ws it L = (Inr (), L') \<Longrightarrow> \<exists>d. get_item L' ws it = Some d \<and>
     id_Lock d = Some \<lparr>lk_Owner = e_Token e, lk_ModTime = e_LockNow e\<rparr>"
  by (auto simp: lock_def acquire_def split: option.splits if_splits sum.splits)

text \<open>Whatever a mutation does after it took the lock, the lock is free again when it returns.\<close>

lemma mutate_releases:
  assumes "mutate e ws it plan L = (res, L')" "lock e ws it L = (Inr (), L1)" "get_item L' ws it = Some d"
  shows "id_Lock d = None"
proof -
  obtain res2 L2 where c: "commit_plan e ws it plan L1 = (res2, L2)" by fastforce
  with assms(1,2) have L': "L' = unlock e ws it L2" by (simp add: mutate_def with_lock_def)
  from lock_taken [OF assms(2)] commit_plan_lock [OF c] obtain d2
    where "get_item L2 ws it = Some d2" "id_Lock d2 = Some \<lparr>lk_Owner = e_Token e, lk_ModTime = e_LockNow e\<rparr>"
    by (metis (no_types, lifting) map_option_eq_Some option.simps(9))
  with L' assms(3) show ?thesis by (auto simp: unlock_def)
qed

theorem mutate_releases_witness:
  "\<exists>d. get_item (snd (Start demo_env demo_ws ''item'' 1 (demo (take 1 demo_revs)))) demo_ws ''item'' = Some d
     \<and> id_Lock d = None"
proof -
  let ?L = "demo (take 1 demo_revs)"
  have v: "validateItemInput demo_env demo_ws ''item'' = Inr ()" by code_simp
  then have s: "Start demo_env demo_ws ''item'' 1 ?L = mutate demo_env demo_ws ''item'' (start_plan demo_env demo_ws ''item'' 1) ?L"
    by (simp add: Start_def)
  have "is_ok (fst (lock demo_env demo_ws ''item'' ?L))" by code_simp
  from is_okD [OF this] obtain L1 where l: "lock demo_env demo_ws ''item'' ?L = (Inr (), L1)" by auto
  from is_okD [OF demo_start_ok] obtain item' L' where r: "Start demo_env demo_ws ''item'' 1 ?L = (Inr item', L')"
    by auto
  from outcome_success [OF Start_outcome [OF demo_wfs(1) r]] obtain rv
    where "appends ?L demo_ws ''item'' rv L'" by metis
  then have "revs L' demo_ws ''item'' \<noteq> []" by (simp add: appends_def)
  then obtain d where "get_item L' demo_ws ''item'' = Some d"
    by (cases "get_item L' demo_ws ''item''") (simp_all add: revs_def)
  with r have d: "get_item (snd (Start demo_env demo_ws ''item'' 1 ?L)) demo_ws ''item'' = Some d"
    by simp
  from mutate_releases [OF prod.collapse [symmetric] l d [unfolded s]] d show ?thesis by blast
qed

section \<open>Tool calls\<close>

text \<open>C5: a tool call finishes once. \<open>FinishToolCall\<close> succeeds only on a call whose latest receipt
  says started by the same attempt, records the terminal outcome with a finish time not before its
  start, and any later \<open>FinishToolCall\<close> of the same call is refused.\<close>

theorem FinishToolCall_once:
  assumes "wf_ledger L" "FinishToolCall e ws it i L = (Inr (item', receipt), L')"
  shows "(\<exists>started. latest_by tc_ToolCallID (receipts_of rv_ToolCall (revs L ws it)) (fi_ToolCallID i) = Some started
        \<and> tc_State started = ToolCallStarted \<and> tc_AttemptID started = fi_AttemptID i
        \<and> receipt = started\<lparr>tc_State := fi_Outcome i, tc_FinishedAt := Some (e_Clock e 0)\<rparr>
        \<and> tc_StartedAt started \<le> e_Clock e 0)
     \<and> fi_Outcome i \<in> {ToolCallSucceeded, ToolCallFailed, ToolCallUnavailable}
     \<and> (\<forall>e2 i2 res L2. FinishToolCall e2 ws it i2 L' = (res, L2) \<longrightarrow> fi_ToolCallID i2 = fi_ToolCallID i \<longrightarrow>
          (\<exists>x. res = Inl x) \<and> view L2 = view L')"
proof -
  from success_facts [OF assms(1) FinishToolCall_outcome [OF assms]] obtain item r
    where i: "finish_tool_plan e ws it i L item = Inr (r, (item', receipt))" and wf': "wf_ledger L'"
      and a: "appends L ws it r L'" by metis
  from i obtain calls c where c: "toolCalls ws it L = Inr calls"
    "latest_by tc_ToolCallID calls (fi_ToolCallID i) = Some c" "tc_AttemptID c = fi_AttemptID i"
    "tc_State c = ToolCallStarted"
    and p: "commitToolCall_plan item (c\<lparr>tc_State := fi_Outcome i, tc_FinishedAt := Some (e_Clock e 0)\<rparr>)
             (e_Clock e 0) = Inr (r, (item', receipt))"
    unfolding finish_tool_plan_ok by blast
  from p have rc: "receipt = c\<lparr>tc_State := fi_Outcome i, tc_FinishedAt := Some (e_Clock e 0)\<rparr>"
    "validateToolCallReceipt receipt = Inr ()" "rv_ToolCall r = Some receipt"
    by (auto simp: commitToolCall_plan_ok)
  have out: "fi_Outcome i \<in> {ToolCallSucceeded, ToolCallFailed, ToolCallUnavailable}"
    using assms(2) by (auto simp: FinishToolCall_def split: sum.splits)
  have calls: "calls = receipts_of rv_ToolCall (revs L ws it)" by (rule toolCalls_receipts [OF assms(1) c(1)])
  have id: "tc_ToolCallID receipt = fi_ToolCallID i" using latest_by_Some [OF c(2)] rc(1) by simp
  have time: "tc_StartedAt c \<le> e_Clock e 0"
    using rc out by (auto simp: validateToolCallReceipt_def)
  have all: "receipts_of rv_ToolCall (revs L' ws it) = receipts_of rv_ToolCall (revs L ws it) @ [receipt]"
    using a rc(3) by (simp add: appends_def)
  have "(\<exists>x. res = Inl x) \<and> view L2 = view L'"
    if f: "FinishToolCall e2 ws it i2 L' = (res, L2)" and same: "fi_ToolCallID i2 = fi_ToolCallID i" for e2 i2 res L2
  proof -
    have "finish_tool_plan e2 ws it i2 L' item2 \<noteq> Inr (r2, out2)" for item2 r2 out2
    proof
      assume "finish_tool_plan e2 ws it i2 L' item2 = Inr (r2, out2)"
      then obtain calls2 c2 where "toolCalls ws it L' = Inr calls2"
        "latest_by tc_ToolCallID calls2 (fi_ToolCallID i2) = Some c2" "tc_State c2 = ToolCallStarted"
        by (cases out2) (auto simp: finish_tool_plan_ok)
      with toolCalls_receipts [OF wf'] all id same rc(1) out show False by (auto simp: latest_by_snoc)
    qed
    with FinishToolCall_outcome [OF wf' f] show ?thesis by (auto simp: outcome_def)
  qed
  with c calls rc(1) out time show ?thesis by auto
qed

definition demo_call :: ToolCallReceipt where
  "demo_call = \<lparr>tc_SchemaVersion = 1, tc_ToolCallID = ''tool-call'', tc_ItemID = ''item'',
     tc_WorkspaceID = demo_ws, tc_AttemptID = ''attempt'', tc_AgentID = ''codex'', tc_ToolID = ''git'',
     tc_State = ToolCallStarted, tc_StartedAt = 1, tc_FinishedAt = None\<rparr>"

definition demo_calling :: Revision where
  "demo_calling = (demo_revision (demo_state 4 StateRunning ''attempt'') ''attempt''
     (Some (demo_attempt AttemptActive)) (Some demo_cp))\<lparr>rv_ToolCall := Some demo_call\<rparr>"

definition demo_finish :: ToolCallFinishInput where
  "demo_finish = \<lparr>fi_ExpectedRevision = 4, fi_AttemptID = ''attempt'', fi_ToolCallID = ''tool-call'',
     fi_Outcome = ToolCallSucceeded\<rparr>"

theorem FinishToolCall_once_witness:
  "\<exists>p L'. FinishToolCall demo_env demo_ws ''item'' demo_finish (demo (take 3 demo_revs @ [demo_calling])) = (Inr p, L')
     \<and> (\<forall>res L2. FinishToolCall demo_env demo_ws ''item'' (demo_finish\<lparr>fi_ExpectedRevision := 5\<rparr>) L' = (res, L2)
           \<longrightarrow> (\<exists>x. res = Inl x))"
proof -
  let ?L = "demo (take 3 demo_revs @ [demo_calling])"
  have wf: "wf_ledger ?L" by (rule demo_wf) code_simp
  have "is_ok (fst (FinishToolCall demo_env demo_ws ''item'' demo_finish ?L))" by code_simp
  from is_okD [OF this] obtain item' rc L'
    where r: "FinishToolCall demo_env demo_ws ''item'' demo_finish ?L = (Inr (item', rc), L')" by auto
  from FinishToolCall_once [OF wf r] r show ?thesis by fastforce
qed

section \<open>The active item\<close>

definition working :: "env \<Rightarrow> string \<Rightarrow> ledger \<Rightarrow> string \<Rightarrow> Item \<Rightarrow> bool" where
  "working e ws L it item \<longleftrightarrow> validateID ''item'' it = Inr () \<and> Inspect e ws it L = Inr item
     \<and> st_State (it_State item) \<in> {StateRunning, StatePaused}"

lemma Inspect_dir: "Inspect e ws it L = Inr item \<Longrightarrow> get_entry L ws it \<noteq> None"
  by (auto simp: Inspect_def res_simps inspectUnlocked_def get_item_def split: option.splits items_entry.splits)

lemma active_ids_set:
  "active_ids e ws L es = Inr ids \<Longrightarrow>
   set ids = {name. (\<exists>x. (name, x) \<in> set es \<and> x \<noteq> PlainFile) \<and> (\<exists>item. working e ws L name item)}"
proof (induction es arbitrary: ids)
  case (Cons p es)
  obtain name x where p: "p = (name, x)" by (cases p)
  show ?case
  proof (cases "x = PlainFile \<or> validateID ''item'' name \<noteq> Inr ()")
    case True
    with Cons have "set ids = {name. (\<exists>x. (name, x) \<in> set es \<and> x \<noteq> PlainFile) \<and> (\<exists>item. working e ws L name item)}"
      by (simp add: p)
    with True show ?thesis by (auto simp: p working_def)
  next
    case False
    with Cons.prems obtain item rest where i: "Inspect e ws name L = Inr item" "active_ids e ws L es = Inr rest"
      "ids = (if st_State (it_State item) = StateRunning \<or> st_State (it_State item) = StatePaused
              then name # rest else rest)"
      by (auto simp: p res_simps)
    with Cons.IH [OF i(2)] False show ?thesis by (auto simp: p working_def)
  qed
qed simp

lemma activeItemIDs_set:
  assumes "activeItemIDs e ws L = Inr ids" "\<forall>es. L ws = Some es \<longrightarrow> distinct (map fst es)"
  shows "set ids = {it. \<exists>item. working e ws L it item}"
proof (cases "L ws")
  case None
  with assms(1) have "ids = []" by (auto simp: activeItemIDs_def res_simps)
  moreover have "\<not> working e ws L it item" for it item
    using None Inspect_dir by (fastforce simp: working_def get_entry_def)
  ultimately show ?thesis by simp
next
  case (Some es)
  with assms(1) obtain ids0 where "active_ids e ws L (sort_key fst es) = Inr ids0" "set ids = set ids0"
    by (auto simp: activeItemIDs_def res_simps)
  with active_ids_set [OF this(1)] have ids: "set ids = {name. (\<exists>x. (name, x) \<in> set es \<and> x \<noteq> PlainFile)
      \<and> (\<exists>item. working e ws L name item)}" by simp
  have "\<exists>x. (it, x) \<in> set es \<and> x \<noteq> PlainFile" if w: "working e ws L it item" for it item
  proof -
    from w obtain d where "get_item L ws it = Some d"
      by (auto simp: working_def Inspect_def res_simps inspectUnlocked_def split: option.splits)
    then have "map_of es it = Some (ItemDir d)" using Some by (auto dest!: get_item_SomeD simp: get_entry_def)
    then have "(it, ItemDir d) \<in> set es" by (rule map_of_SomeD)
    then show ?thesis by blast
  qed
  with ids show ?thesis by blast
qed

text \<open>\<open>NextActive\<close> answers only when exactly one item of the workspace is running or paused,
  its answer is the projection of that item, and it fits in 2048 bytes.\<close>

theorem NextActive_unique:
  assumes "NextActive e ws L = Inr p" "\<forall>es. L ws = Some es \<longrightarrow> distinct (map fst es)"
  shows "\<exists>it item. working e ws L it item \<and> (\<forall>it' item'. working e ws L it' item' \<longrightarrow> it' = it)
     \<and> p = nextProjection (it_Contract item) (it_State item) (it_Checkpoint item)
     \<and> len (marshal (projection_json p)) + 1 \<le> 2048"
proof -
  from assms(1) obtain ids where ids: "activeItemIDs e ws L = Inr ids"
    "(case ids of [] \<Rightarrow> Inl (Msg ''no active execution item was found'')
      | [it] \<Rightarrow> Next e ws it L | _ \<Rightarrow> Inl ErrActiveItemAmbiguous) = Inr p"
    unfolding NextActive_def bind_r_Inr by blast
  then obtain it where "ids = [it]" and n: "Next e ws it L = Inr p"
    by (cases ids; cases "tl ids") auto
  with ids(1) have a: "activeItemIDs e ws L = Inr [it]" by simp
  from activeItemIDs_set [OF a assms(2)] have s: "{it'. \<exists>item. working e ws L it' item} = {it}" by simp
  then obtain item where w: "working e ws L it item" by blast
  with n have p: "p = nextProjection (it_Contract item) (it_State item) (it_Checkpoint item)"
    "validateNextProjection p = Inr ()" by (auto simp: Next_def res_simps Let_def working_def)
  then have "len (marshal (projection_json p)) + 1 \<le> 2048"
    by (simp add: validateNextProjection_def MaximumNextProjectionBytes_def)
  with s w p show ?thesis by blast
qed

theorem NextActive_unique_witness:
  "\<exists>p. NextActive demo_env demo_ws (demo (take 2 demo_revs)) = Inr p
     \<and> len (marshal (projection_json p)) + 1 \<le> 2048"
proof -
  have "is_ok (NextActive demo_env demo_ws (demo (take 2 demo_revs)))" by code_simp
  then obtain p where p: "NextActive demo_env demo_ws (demo (take 2 demo_revs)) = Inr p"
    by (metis is_ok.elims(2))
  have "\<forall>es. demo (take 2 demo_revs) demo_ws = Some es \<longrightarrow> distinct (map fst es)" by (simp add: demo_def)
  from NextActive_unique [OF p this] p show ?thesis by blast
qed

section \<open>Texts that are not UTF-8\<close>




end
