(* ===== verification/GoUrl.thy ===== *)
theory GoUrl
  imports GoStrings
begin

text \<open>
  The part of package \<open>net/url\<close> (Go 1.26) the resource names of the orchestration rest on:
  \<open>url.Parse\<close> of a reference with a scheme and without a percent sign, which the callers
  refuse first. Two corners are parameters: lower-casing text that is not ASCII and the check of
  an address in brackets; neither can name a host of the program.
\<close>

record text_lib =
  tl_Lower :: "string \<Rightarrow> string"
  tl_Bracket :: "string \<Rightarrow> bool"

definition ToLower :: "text_lib \<Rightarrow> string \<Rightarrow> string" where
  "ToLower tx s = (if is_ascii s then map to_lower s else tl_Lower tx s)"

record url =
  u_Scheme :: string
  u_Opaque :: string
  u_User :: bool
  u_Host :: string
  u_Path :: string
  u_RawPath :: string
  u_RawQuery :: string
  u_Fragment :: string

text \<open>\<open>strings.Cut\<close> at the first occurrence of a byte.\<close>

definition cut :: "char \<Rightarrow> string \<Rightarrow> string \<times> string" where
  "cut c s = (takeWhile (\<lambda>x. x \<noteq> c) s, drop 1 (dropWhile (\<lambda>x. x \<noteq> c) s))"

definition is_letter :: "char \<Rightarrow> bool" where
  "is_letter c \<longleftrightarrow> is_lower c \<or> is_upper c"

definition is_ctl :: "char \<Rightarrow> bool" where
  "is_ctl c \<longleftrightarrow> byte_of c < 32 \<or> byte_of c = 127"

lemma is_ctl_code [code]: "is_ctl c \<longleftrightarrow> (of_char c :: int) < 32 \<or> (of_char c :: int) = 127"
  by (simp add: is_ctl_def flip: int_byte_of)

definition scheme_char :: "char \<Rightarrow> bool" where
  "scheme_char c \<longleftrightarrow> is_alnum c \<or> c \<in> set ''+-.''"

definition get_scheme :: "string \<Rightarrow> (string \<times> string) option" where
  "get_scheme s =
     (let p = takeWhile scheme_char s; r = dropWhile scheme_char s
      in if p \<noteq> [] \<and> is_letter (hd p) \<and> r \<noteq> [] \<and> hd r = CHR '':'' then Some (p, tl r) else None)"

text \<open>Bytes a host may hold, and those a path holds without being escaped by default.\<close>

definition host_char :: "char \<Rightarrow> bool" where
  "host_char c \<longleftrightarrow> \<not> low_byte c \<or> is_alnum c
     \<or> c \<in> set [CHR ''-'', CHR ''_'', CHR ''.'', CHR ''~'', CHR ''!'', CHR ''$'', CHR ''&'', CHR 0x27,
               CHR ''('', CHR '')'', CHR ''*'', CHR ''+'', CHR '','', CHR '';'', CHR ''='', CHR '':'',
               CHR ''['', CHR '']'', CHR ''<'', CHR ''>'', CHR 0x22]"

definition path_char :: "char \<Rightarrow> bool" where
  "path_char c \<longleftrightarrow> is_alnum c \<or> c \<in> set ''-_.~$&+,/:;=@''"

definition valid_optional_port :: "string \<Rightarrow> bool" where
  "valid_optional_port s \<longleftrightarrow> s = [] \<or> hd s = CHR '':'' \<and> list_all is_digit (tl s)"

definition valid_host :: "text_lib \<Rightarrow> string \<Rightarrow> bool" where
  "valid_host tx h \<longleftrightarrow>
     (if CHR ''['' \<in> set h then tl_Bracket tx h
      else valid_optional_port (dropWhile (\<lambda>c. c \<noteq> CHR '':'') h) \<and> list_all host_char h)"

text \<open>User information is refused by every caller, whether it parses or not.\<close>

definition url_parse :: "text_lib \<Rightarrow> string \<Rightarrow> url option" where
  "url_parse tx s =
     (let (u, frag) = cut (CHR ''#'') s in
      if list_ex is_ctl u then None
      else (case get_scheme u of None \<Rightarrow> None
        | Some (scheme, after) \<Rightarrow>
            let (rest, query) = cut (CHR ''?'') after;
                base = \<lparr>u_Scheme = map to_lower scheme, u_Opaque = [], u_User = False, u_Host = [],
                        u_Path = rest, u_RawPath = (if list_all path_char rest then [] else rest),
                        u_RawQuery = query, u_Fragment = frag\<rparr>
            in if \<not> has_prefix rest ''/'' then Some (base\<lparr>u_Opaque := rest, u_Path := [], u_RawPath := []\<rparr>)
               else if \<not> has_prefix rest ''//'' then Some base
               else let authority = takeWhile (\<lambda>c. c \<noteq> CHR ''/'') (drop 2 rest);
                        p = dropWhile (\<lambda>c. c \<noteq> CHR ''/'') (drop 2 rest);
                        full = base\<lparr>u_Host := authority, u_Path := p,
                                    u_RawPath := (if list_all path_char p then [] else p)\<rparr>
                    in if CHR ''@'' \<in> set authority then Some (full\<lparr>u_User := True\<rparr>)
                       else if valid_host tx authority then Some full else None))"

lemma cut_free: "c \<notin> set s \<Longrightarrow> cut c s = (s, [])"
  by (induction s) (auto simp: cut_def)

lemma cut_fst: "cut c s = (a, b) \<Longrightarrow> c \<notin> set a \<and> set a \<subseteq> set s"
  by (auto simp: cut_def dest: set_takeWhileD)

lemma cut_snd_Nil: "cut c s = (a, []) \<Longrightarrow> s = a \<or> s = a @ [c]"
  unfolding cut_def
  by (induction s arbitrary: a) (auto split: if_splits)

text \<open>A URL that names a host and a plain path parses back from its parts.\<close>

definition host_safe :: "char \<Rightarrow> bool" where
  "host_safe c \<longleftrightarrow> \<not> is_ctl c \<and> c \<noteq> CHR ''/'' \<and> c \<noteq> CHR ''?'' \<and> c \<noteq> CHR ''#'' \<and> c \<noteq> CHR ''@''"

definition plain_url :: "text_lib \<Rightarrow> string \<Rightarrow> string \<Rightarrow> bool" where
  "plain_url tx h p \<longleftrightarrow> valid_host tx h
     \<and> list_all host_safe h
     \<and> list_all path_char p \<and> has_prefix p ''/''"

text \<open>Checked for each of the 256 bytes.\<close>

lemma char_classes:
  "\<forall>c. (path_char c \<longrightarrow> \<not> is_ctl c \<and> c \<noteq> CHR ''?'' \<and> c \<noteq> CHR ''#'' \<and> c \<noteq> CHR ''%'' \<and> c \<noteq> CHR 0x5C)
     \<and> (c \<in> set ''bcgos://'' \<longrightarrow> \<not> is_ctl c \<and> c \<noteq> CHR ''?'' \<and> c \<noteq> CHR ''#'' \<and> c \<noteq> CHR ''%'' \<and> c \<noteq> CHR 0x5C)"
  by code_simp

lemma path_char_plain:
  "path_char c \<Longrightarrow> \<not> is_ctl c \<and> c \<noteq> CHR ''?'' \<and> c \<noteq> CHR ''#'' \<and> c \<noteq> CHR ''%'' \<and> c \<noteq> CHR 0x5C"
  using char_classes by blast

lemma scheme_text_plain:
  "c \<in> set ''bcgos://'' \<Longrightarrow> \<not> is_ctl c \<and> c \<noteq> CHR ''?'' \<and> c \<noteq> CHR ''#'' \<and> c \<noteq> CHR ''%'' \<and> c \<noteq> CHR 0x5C"
  using char_classes by blast

lemma url_parse_plain:
  assumes "plain_url tx h p"
  shows "url_parse tx (''bcgos://'' @ h @ p) =
    Some \<lparr>u_Scheme = ''bcgos'', u_Opaque = [], u_User = False, u_Host = h, u_Path = p, u_RawPath = [],
          u_RawQuery = [], u_Fragment = []\<rparr>"
proof -
  have P: "list_all path_char p" and H: "list_all host_safe h" "valid_host tx h"
    using assms by (auto simp: plain_url_def)
  have all: "\<not> is_ctl c \<and> c \<noteq> CHR ''?'' \<and> c \<noteq> CHR ''#''"
    if "c \<in> set ''bcgos://'' \<or> c \<in> set h \<or> c \<in> set p" for c
    using that P H scheme_text_plain path_char_plain by (auto simp only: list_all_iff host_safe_def)
  have ctl: "\<not> list_ex is_ctl (''bcgos://'' @ h @ p)"
    using all by (simp only: list_ex_iff set_append) blast
  have free: "c \<notin> set (''bcgos://'' @ h @ p)" if "c = CHR ''?'' \<or> c = CHR ''#''" for c
    using all that by (simp only: set_append) blast
  have sc: "get_scheme (''bcgos://'' @ h @ p) = Some (''bcgos'', ''//'' @ h @ p)"
  proof -
    have "list_all scheme_char ''bcgos'' \<and> \<not> scheme_char (CHR '':'') \<and> is_letter (CHR ''b'')" by code_simp
    then show ?thesis by (simp add: get_scheme_def)
  qed
  have low: "map to_lower ''bcgos'' = ''bcgos''" by code_simp
  have split: "takeWhile (\<lambda>c. c \<noteq> CHR ''/'') (h @ p) = h" "dropWhile (\<lambda>c. c \<noteq> CHR ''/'') (h @ p) = p"
  proof -
    have h: "\<forall>c \<in> set h. c \<noteq> CHR ''/''" using H(1) by (auto simp: list_all_iff host_safe_def)
    obtain p' where "p = CHR ''/'' # p'" using assms by (auto simp: plain_url_def has_prefix_iff)
    with h show "takeWhile (\<lambda>c. c \<noteq> CHR ''/'') (h @ p) = h" "dropWhile (\<lambda>c. c \<noteq> CHR ''/'') (h @ p) = p"
      by (simp_all add: takeWhile_append2 dropWhile_append2)
  qed
  have at: "CHR ''@'' \<notin> set h" using H(1) by (auto simp: list_all_iff host_safe_def)
  have "cut (CHR ''#'') (''bcgos://'' @ h @ p) = (''bcgos://'' @ h @ p, [])"
    by (rule cut_free) (use free [of "CHR ''#''"] in simp)
  moreover have "cut (CHR ''?'') (''//'' @ h @ p) = (''//'' @ h @ p, [])"
    by (rule cut_free) (use free [of "CHR ''?''"] in simp)
  ultimately show ?thesis
    using ctl sc low split at P assms
    by (simp add: url_parse_def Let_def has_prefix_def plain_url_def)
qed

end
