(* ===== verification/AgentCatalog.thy ===== *)
theory AgentCatalog
  imports GoUrl
begin

text \<open>
  The managed-agent catalog (\<open>internal/agentcatalog/catalog.go\<close>): the role contracts, the
  delegation policy and its validation, and the delegation questions asked of a catalog. A Go
  map is the list of its entries, each key once, in any order. Reading the catalog and the agent
  definitions from files is not modelled.
\<close>

section \<open>Data\<close>

record DelegationEdge =
  de_FromRole :: string
  de_ToRoles :: "string list"

record DelegationPolicy =
  dp_Mode :: string
  dp_RegisteredChains :: string
  dp_MaxActiveBranches :: int
  dp_MaxDepth :: int
  dp_MaxChildrenPerAgent :: int
  dp_MaxErrandHelpers :: int
  dp_ErrandScope :: string
  dp_AllowedEdges :: "DelegationEdge list"

record NativeAdvisoryPolicy =
  na_Mode :: string
  na_MaxDepth :: int
  na_MaxChildrenPerAgent :: int
  na_AllowedEdges :: "DelegationEdge list"

record LegacyRoleAlias =
  la_CanonicalRole :: string
  la_Status :: string
  la_Migration :: string

record LegacyIDMigration =
  li_CanonicalRole :: string
  li_Status :: string
  li_Migration :: string

record Agent =
  ag_ID :: string
  ag_Role :: string
  ag_DirectUserAccess :: bool
  ag_ToolAccess :: string
  ag_MayDelegate :: bool
  ag_InputContract :: string
  ag_RelativePath :: string
  ag_DisplayName :: string
  ag_DefaultEmoji :: string
  ag_OwnershipScope :: string
  ag_Customizable :: bool

record Catalog =
  cg_SchemaVersion :: int
  cg_Hub :: string
  cg_Delegation :: DelegationPolicy
  cg_NativeAdvisory :: NativeAdvisoryPolicy
  cg_LegacyAliases :: "(string \<times> LegacyRoleAlias) list"
  cg_LegacyIDs :: "(string \<times> LegacyIDMigration) list"
  cg_Agents :: "Agent list"

record RoleContract =
  rc_DirectUserAccess :: bool
  rc_ToolAccess :: string
  rc_MayDelegate :: bool
  rc_InputContract :: string

definition ValidAgentID :: "string \<Rightarrow> bool" where
  "ValidAgentID s \<longleftrightarrow>
     s \<noteq> [] \<and> (is_lower (hd s) \<or> is_digit (hd s)) \<and> (is_lower (last s) \<or> is_digit (last s))
     \<and> list_all (\<lambda>c. is_lower c \<or> is_digit c \<or> c = CHR ''-'') s"

fun role_contract :: "bool \<times> string \<times> bool \<times> string \<Rightarrow> RoleContract" where
  "role_contract (d, t, m, i) = \<lparr>rc_DirectUserAccess = d, rc_ToolAccess = t, rc_MayDelegate = m, rc_InputContract = i\<rparr>"

definition roleContracts :: "(string \<times> RoleContract) list" where
  "roleContracts = map (\<lambda>(r, c). (r, role_contract c))
    [(''account_agent'', False, ''scoped'', False, ''bounded_account_packet''),
     (''case_agent'', False, ''scoped'', False, ''bounded_case_packet''),
     (''client_account_agent'', False, ''scoped'', False, ''bounded_client_account_packet''),
     (''errand_helper'', False, ''scoped'', False, ''bounded_errand_packet''),
     (''governance_analyst'', False, ''scoped'', False, ''bounded_health_packet''),
     (''hub'', True, ''none'', True, ''session_context_packet''),
     (''pa_expert'', False, ''none'', False, ''bounded_advisory_packet''),
     (''quality_guardian'', False, ''scoped'', False, ''bounded_quality_packet''),
     (''reviewer'', False, ''none'', False, ''sealed_review_packet''),
     (''workspace_agent'', False, ''scoped'', False, ''bounded_workspace_packet'')]"

section \<open>Roles\<close>

definition CanonicalRole :: "Catalog \<Rightarrow> string \<Rightarrow> string" where
  "CanonicalRole c role =
     (case map_of (cg_LegacyAliases c) role of
        Some alias \<Rightarrow> if la_Status alias = ''compatibility_only'' then la_CanonicalRole alias else role
      | None \<Rightarrow> role)"

definition ContractForRole :: "Catalog \<Rightarrow> string \<Rightarrow> RoleContract option" where
  "ContractForRole c role =
     (let canonical = CanonicalRole c role;
          role' = (if canonical \<noteq> role \<and> (canonical = ''client_account_agent'' \<or> canonical = ''case_agent'')
                   then canonical else role)
      in map_of roleContracts role')"

definition RejectLegacyRegistration :: "Catalog \<Rightarrow> string \<Rightarrow> string \<Rightarrow> go_error + unit" where
  "RejectLegacyRegistration c agentID role =
     bind_r (case map_of (cg_LegacyAliases c) role of
         Some alias \<Rightarrow> fail_if (has_prefix (la_Status alias) ''deprecated'')
           (Errorf ''legacy role %q is deprecated; %s'' [role, la_Migration alias])
       | None \<Rightarrow> Inr ()) (\<lambda>_.
     checks (map (\<lambda>(p, m). fail_if (has_prefix agentID p \<and> has_prefix (li_Status m) ''deprecated'')
         (Errorf ''legacy agent ID %q is deprecated; %s'' [agentID, li_Migration m])) (cg_LegacyIDs c)))"

definition edge_allows :: "DelegationEdge list \<Rightarrow> string \<Rightarrow> string \<Rightarrow> bool" where
  "edge_allows edges fromRole toRole \<longleftrightarrow>
     list_ex (\<lambda>e. de_FromRole e = fromRole \<and> toRole \<in> set (de_ToRoles e)) edges"

definition AllowsDelegation :: "Catalog \<Rightarrow> string \<Rightarrow> string \<Rightarrow> int \<Rightarrow> bool" where
  "AllowsDelegation c fromRole toRole depth \<longleftrightarrow>
     \<not> (depth < 1 \<or> depth > dp_MaxDepth (cg_Delegation c))
     \<and> \<not> (CanonicalRole c fromRole \<noteq> ''hub'' \<or> depth \<noteq> 1)
     \<and> edge_allows (dp_AllowedEdges (cg_Delegation c)) (CanonicalRole c fromRole) (CanonicalRole c toRole)"

definition AllowsNativeConsultation :: "Catalog \<Rightarrow> string \<Rightarrow> string \<Rightarrow> int \<Rightarrow> bool" where
  "AllowsNativeConsultation c fromRole toRole depth \<longleftrightarrow>
     \<not> (depth < 1 \<or> depth > na_MaxDepth (cg_NativeAdvisory c))
     \<and> edge_allows (na_AllowedEdges (cg_NativeAdvisory c)) (CanonicalRole c fromRole) (CanonicalRole c toRole)"

definition roleMayDelegate :: "Catalog \<Rightarrow> string \<Rightarrow> bool" where
  "roleMayDelegate c role \<longleftrightarrow>
     list_ex (\<lambda>e. de_FromRole e = CanonicalRole c role) (dp_AllowedEdges (cg_Delegation c))"

section \<open>Validation\<close>

definition hub_targets :: "string list" where
  "hub_targets = [''case_agent'', ''client_account_agent'', ''errand_helper'', ''governance_analyst'',
                  ''pa_expert'', ''quality_guardian'', ''reviewer'']"

definition delegation_edges :: "DelegationEdge list" where
  "delegation_edges = [\<lparr>de_FromRole = ''hub'', de_ToRoles = hub_targets\<rparr>]"

definition advisory_edges :: "DelegationEdge list" where
  "advisory_edges =
    [\<lparr>de_FromRole = ''hub'', de_ToRoles = hub_targets\<rparr>,
     \<lparr>de_FromRole = ''case_agent'', de_ToRoles = [''client_account_agent'', ''pa_expert'', ''quality_guardian'', ''reviewer'']\<rparr>,
     \<lparr>de_FromRole = ''client_account_agent'', de_ToRoles = [''case_agent'', ''pa_expert'', ''reviewer'']\<rparr>]"

definition same_edges :: "DelegationEdge list \<Rightarrow> DelegationEdge list \<Rightarrow> bool" where
  "same_edges edges wanted \<longleftrightarrow>
     list_all2 (\<lambda>e w. de_FromRole e = de_FromRole w \<and> de_ToRoles e = de_ToRoles w) edges wanted"

definition validateDelegationEdges :: "DelegationEdge list \<Rightarrow> go_error + unit" where
  "validateDelegationEdges edges =
     checks [fail_if (length edges \<noteq> length delegation_edges)
               (errors_New ''agent catalog has an incomplete or unauthorized delegation graph''),
             fail_if (\<not> same_edges edges delegation_edges)
               (errors_New ''agent catalog delegation edges must use the canonical sorted role graph'')]"

definition validateNativeAdvisoryEdges :: "DelegationEdge list \<Rightarrow> go_error + unit" where
  "validateNativeAdvisoryEdges edges =
     checks [fail_if (length edges \<noteq> length advisory_edges)
               (errors_New ''agent catalog native advisory graph is incomplete''),
             fail_if (\<not> same_edges edges advisory_edges)
               (errors_New ''agent catalog native advisory edges must use the canonical sorted role graph'')]"

definition legacy_aliases :: "(string \<times> LegacyRoleAlias) list" where
  "legacy_aliases = map (\<lambda>(k, r, s, m). (k, \<lparr>la_CanonicalRole = r, la_Status = s, la_Migration = m\<rparr>))
    [(''account_agent'', ''client_account_agent'', ''compatibility_only'', []),
     (''workspace_agent'', ''case_agent'', ''compatibility_only'', []),
     (''practice_agent'', ''pa_expert'', ''deprecated_rejected'', ''re-register as pa_expert with expert_kind FPA or IPA''),
     (''subject_specialist'', ''pa_expert'', ''deprecated_rejected'', ''re-register as pa_expert with expert_kind FPA or IPA'')]"

definition legacy_ids :: "(string \<times> LegacyIDMigration) list" where
  "legacy_ids = map (\<lambda>k. (k, \<lparr>li_CanonicalRole = ''pa_expert'', li_Status = ''deprecated_rejected'',
       li_Migration = ''re-register as pa-expert-{fpa|ipa}-{scope}''\<rparr>)) [''practice-'', ''subject-'']"

definition validateLegacyAliases :: "(string \<times> LegacyRoleAlias) list \<Rightarrow> go_error + unit" where
  "validateLegacyAliases aliases =
     (if aliases = [] then Inr ()
      else checks [fail_if (length aliases \<noteq> length legacy_aliases)
                     (errors_New ''agent catalog must declare the complete legacy-role migration map''),
                   fail_if (\<not> list_all (\<lambda>(k, a). map_of aliases k = Some a) legacy_aliases)
                     (errors_New ''agent catalog legacy-role migration map is invalid'')])"

definition validateLegacyIDs :: "(string \<times> LegacyIDMigration) list \<Rightarrow> go_error + unit" where
  "validateLegacyIDs ids =
     (if ids = [] then Inr ()
      else checks [fail_if (length ids \<noteq> length legacy_ids)
                     (errors_New ''agent catalog must declare the complete legacy-ID migration map''),
                   fail_if (\<not> list_all (\<lambda>(k, a). map_of ids k = Some a) legacy_ids)
                     (errors_New ''agent catalog legacy-ID migration map is invalid'')])"

text \<open>Does an agent have exactly the contract of a role?\<close>

definition meets_contract :: "Agent \<Rightarrow> RoleContract \<Rightarrow> bool" where
  "meets_contract a c \<longleftrightarrow> ag_DirectUserAccess a = rc_DirectUserAccess c \<and> ag_ToolAccess a = rc_ToolAccess c
     \<and> ag_MayDelegate a = rc_MayDelegate c \<and> ag_InputContract a = rc_InputContract c"

definition core_agents :: "(string \<times> string) list" where
  "core_agents =
    [(''maestro'', ''hub''), (''yoda'', ''reviewer''), (''darwin'', ''governance_analyst''),
     (''case-agent'', ''case_agent''), (''client-account-agent'', ''client_account_agent''),
     (''pa-expert'', ''pa_expert''), (''gamma-guardian'', ''quality_guardian'')]"

fun validate_agents :: "Catalog \<Rightarrow> string \<Rightarrow> Agent list \<Rightarrow> go_error + unit" where
  "validate_agents c previous [] = Inr ()"
| "validate_agents c previous (a # as) =
     bind_r (fail_if (\<not> ValidAgentID (ag_ID a) \<or> ag_ID a \<le> previous)
       (errors_New ''agent catalog IDs must be non-empty, unique and sorted'')) (\<lambda>_.
     bind_r (fail_if (ag_RelativePath a \<noteq> ''agents/'' @ ag_ID a @ ''/AGENT.md'')
       (Errorf ''agent %s has an invalid role, input contract or definition pointer'' [ag_ID a])) (\<lambda>_.
     (case map_of roleContracts (ag_Role a) of
        None \<Rightarrow> Inl (Errorf ''agent %s has unsupported role %q'' [ag_ID a, ag_Role a])
      | Some contract \<Rightarrow>
          bind_r (checks
            [fail_if (\<not> meets_contract a contract)
               (Errorf ''agent %s violates the %s role contract'' [ag_ID a, ag_Role a]),
             fail_if (ag_DirectUserAccess a \<and> ag_ID a \<noteq> cg_Hub c)
               (Errorf ''agent %s cannot address the user directly'' [ag_ID a]),
             fail_if (ag_MayDelegate a \<and> \<not> roleMayDelegate c (ag_Role a))
               (Errorf ''agent %s has no authorized outgoing delegation edge'' [ag_ID a])]) (\<lambda>_.
          validate_agents c (ag_ID a) as))))"

definition core_present :: "Agent list \<Rightarrow> string \<times> string \<Rightarrow> go_error + unit" where
  "core_present agents =
     (\<lambda>(id, role). case find (\<lambda>a. ag_ID a = id) agents of
        None \<Rightarrow> Inl (Errorf ''agent catalog is missing core agent %s'' [id])
      | Some a \<Rightarrow> fail_if (ag_Role a \<noteq> role \<or> \<not> (\<exists>c \<in> set_option (map_of roleContracts role). meets_contract a c))
          (Errorf ''core agent %s violates the lean orchestration contract'' [id]))"

definition Validate :: "Catalog \<Rightarrow> go_error + unit" where
  "Validate c =
     (let d = cg_Delegation c; n = cg_NativeAdvisory c in
      bind_r (checks
        [fail_if (cg_SchemaVersion c \<noteq> 1)
           (Errorf ''agent catalog schema version %d is unsupported'' [show_int (cg_SchemaVersion c)]),
         fail_if (cg_Hub c \<noteq> ''maestro'') (Errorf ''agent catalog hub must be maestro, got %q'' [cg_Hub c]),
         validateLegacyAliases (cg_LegacyAliases c),
         validateLegacyIDs (cg_LegacyIDs c),
         fail_if (dp_Mode d \<noteq> ''maestro_planner'' \<or> dp_RegisteredChains d \<noteq> ''bounded_sequential''
                  \<or> dp_MaxActiveBranches d \<noteq> 1 \<or> dp_MaxDepth d \<noteq> 1 \<or> dp_MaxChildrenPerAgent d \<noteq> 0
                  \<or> dp_MaxErrandHelpers d \<noteq> 1 \<or> dp_ErrandScope d \<noteq> ''basic_reversible'')
           (errors_New ''agent catalog must enforce Maestro planning, one active spoke and depth one''),
         validateDelegationEdges (dp_AllowedEdges d),
         fail_if (na_Mode n \<noteq> ''host_runtime'' \<or> na_MaxDepth n \<noteq> 2 \<or> na_MaxChildrenPerAgent n \<noteq> 2)
           (errors_New ''agent catalog must declare the bounded native advisory profile''),
         validateNativeAdvisoryEdges (na_AllowedEdges n),
         fail_if (len (cg_Agents c) < 3) (errors_New ''agent catalog is missing the Maestro core'')]) (\<lambda>_.
      bind_r (validate_agents c [] (cg_Agents c)) (\<lambda>_.
      checks (fail_if (length (filter ag_DirectUserAccess (cg_Agents c)) \<noteq> 1)
                (errors_New ''Maestro must be the sole direct user interface'')
              # map (core_present (cg_Agents c)) core_agents))))"

section \<open>A validated catalog\<close>

lemma same_edges_iff: "same_edges xs ys \<longleftrightarrow> xs = ys"
proof -
  have "(\<lambda>e w :: DelegationEdge. de_FromRole e = de_FromRole w \<and> de_ToRoles e = de_ToRoles w) = (=)"
    by (intro ext) (auto intro: DelegationEdge.equality)
  then show ?thesis by (simp add: same_edges_def list.rel_eq)
qed

text \<open>A list with as many entries as another that it contains, key by key, has no other key.\<close>

lemma map_of_complete:
  assumes "distinct (map fst xs)" "distinct (map fst ys)" "length xs = length ys"
    "\<forall>(k, v) \<in> set ys. map_of xs k = Some v"
  shows "map_of xs = map_of ys"
proof -
  have sub: "set ys \<subseteq> set xs" using assms(4) map_of_SomeD by fastforce
  have "card (set xs) = card (set ys)"
    using assms(1-3) by (metis distinct_card distinct_map)
  then have "set xs = set ys" by (metis sub card_subset_eq finite_set)
  then have "map_of xs k = Some v \<longleftrightarrow> map_of ys k = Some v" for k v
    using assms(1,2) by simp
  then show ?thesis by (metis ext option.exhaust)
qed

lemma Validate_facts:
  assumes "Validate c = Inr ()"
  shows "dp_MaxDepth (cg_Delegation c) = 1"
    "dp_AllowedEdges (cg_Delegation c) = delegation_edges"
    "na_MaxDepth (cg_NativeAdvisory c) = 2"
    "na_AllowedEdges (cg_NativeAdvisory c) = advisory_edges"
    "validateLegacyAliases (cg_LegacyAliases c) = Inr ()"
    "cg_Hub c = ''maestro''"
    "validate_agents c [] (cg_Agents c) = Inr ()"
    "length (filter ag_DirectUserAccess (cg_Agents c)) = 1"
    "\<forall>p \<in> set core_agents. core_present (cg_Agents c) p = Inr ()"
  using assms
  by (simp_all add: Validate_def Let_def bind_r_Inr validateDelegationEdges_def
        validateNativeAdvisoryEdges_def same_edges_iff)

text \<open>What compatibility does to a role of a validated catalog.\<close>

definition current_role :: "bool \<Rightarrow> string \<Rightarrow> string" where
  "current_role legacy role =
     (if legacy \<and> role = ''account_agent'' then ''client_account_agent''
      else if legacy \<and> role = ''workspace_agent'' then ''case_agent'' else role)"

lemma CanonicalRole_validated:
  assumes "Validate c = Inr ()" "distinct (map fst (cg_LegacyAliases c))"
  shows "CanonicalRole c role = current_role (cg_LegacyAliases c \<noteq> []) role"
proof (cases "cg_LegacyAliases c = []")
  case True
  then show ?thesis by (simp add: CanonicalRole_def current_role_def)
next
  case False
  have v: "length (cg_LegacyAliases c) = length legacy_aliases"
    "list_all (\<lambda>(k, a). map_of (cg_LegacyAliases c) k = Some a) legacy_aliases"
    using Validate_facts(5) [OF assms(1)] False by (simp_all add: validateLegacyAliases_def)
  have "map_of (cg_LegacyAliases c) = map_of legacy_aliases"
    using assms(2) v
    by (intro map_of_complete) (auto simp: list_all_iff legacy_aliases_def)
  then show ?thesis
    by (simp add: CanonicalRole_def legacy_aliases_def current_role_def False)
qed

end
