(* ===== verification/OrchResource.thy ===== *)
theory OrchResource
  imports AgentCatalog
begin

text \<open>
  Resource names of the orchestration (\<open>canonicalResource\<close>, \<open>NormalizeResource\<close>,
  \<open>ResourceWithinScope\<close> and \<open>resourceBoundToScope\<close> of
  \<open>internal/agentorchestration/controller.go\<close>): a URL \<open>bcgos://kind/scope/...\<close> with a clean
  path. A pair \<open>(string, bool)\<close> of the source is an option.
\<close>

section \<open>Definitions\<close>

definition trim_one_slash :: "string \<Rightarrow> string" where
  "trim_one_slash p = (let t = trim_suffix p ''/'' in if t = [] then ''/'' else t)"

definition clean_resource_path :: "string \<Rightarrow> bool" where
  "clean_resource_path p \<longleftrightarrow>
     has_prefix p ''/'' \<and> \<not> contains_sub p ''//'' \<and> path_clean p = trim_one_slash p
     \<and> \<not> contains_sub p ''/../'' \<and> \<not> contains_sub p ''/./''"

definition canonicalResource :: "text_lib \<Rightarrow> string \<Rightarrow> bool \<Rightarrow> string option" where
  "canonicalResource tx value requirePrefix =
     (if contains_sub value ''%'' \<or> contains_sub value [CHR 0x5C] then None
      else (case url_parse tx value of None \<Rightarrow> None
        | Some u \<Rightarrow>
            if u_Scheme u \<noteq> ''bcgos'' \<or> u_Host u = [] \<or> u_Host u \<noteq> ToLower tx (u_Host u)
               \<or> u_User u \<or> u_RawQuery u \<noteq> [] \<or> u_Fragment u \<noteq> [] \<or> u_Opaque u \<noteq> [] \<or> u_RawPath u \<noteq> []
            then None
            else if \<not> clean_resource_path (u_Path u) then None
            else if requirePrefix \<noteq> has_suffix (u_Path u) ''/'' then None
            else Some (''bcgos://'' @ u_Host u @ u_Path u)))"

definition NormalizeResource :: "text_lib \<Rightarrow> string \<Rightarrow> string option" where
  "NormalizeResource tx value = canonicalResource tx value (has_suffix value ''/'')"

text \<open>
  The source ignores the error of the second parse: it is the parse of a normalised name. A
  nil URL would be a nil dereference; \<open>ResourceWithinScope_parses\<close> shows it is not reached.
\<close>

definition ResourceWithinScope :: "text_lib \<Rightarrow> string \<Rightarrow> string \<Rightarrow> string \<Rightarrow> bool" where
  "ResourceWithinScope tx resource scopeKind scope =
     (case NormalizeResource tx resource of None \<Rightarrow> False
      | Some normalized \<Rightarrow>
          if has_suffix normalized ''/'' then False
          else (case url_parse tx normalized of None \<Rightarrow> False
            | Some u \<Rightarrow>
                if u_Host u = ''public'' then u_Path u \<noteq> ''/''
                else let scopeRoot = ''/'' @ scope @ ''/''
                     in u_Host u = scopeKind \<and> has_prefix (u_Path u) scopeRoot
                        \<and> length (u_Path u) > length scopeRoot))"

definition resourceBoundToScope :: "text_lib \<Rightarrow> string \<Rightarrow> string \<Rightarrow> string \<Rightarrow> bool" where
  "resourceBoundToScope tx resourcePrefix scope scopeKind =
     (case url_parse tx resourcePrefix of None \<Rightarrow> False
      | Some u \<Rightarrow>
          if u_Host u = ''public'' then u_Path u = ''/''
          else u_Host u = scopeKind \<and> u_Path u = ''/'' @ scope @ ''/'')"

section \<open>Canonical names\<close>

text \<open>What an accepted name is made of.\<close>

definition canonical_parts :: "text_lib \<Rightarrow> bool \<Rightarrow> string \<Rightarrow> string \<Rightarrow> bool" where
  "canonical_parts tx pre h p \<longleftrightarrow>
     plain_url tx h p \<and> h \<noteq> [] \<and> h = ToLower tx h \<and> CHR ''%'' \<notin> set h \<and> CHR 0x5C \<notin> set h
     \<and> clean_resource_path p \<and> has_suffix p ''/'' = pre"

lemma contains_sub_single: "contains_sub s [c] \<longleftrightarrow> c \<in> set s"
  by (induction s) (auto simp: has_prefix_def)

lemma has_suffix_slash: "p \<noteq> [] \<Longrightarrow> has_suffix (xs @ p) ''/'' = has_suffix p ''/''"
proof -
  assume "p \<noteq> []"
  then obtain q c where "p = q @ [c]" by (metis append_butlast_last_id)
  then show ?thesis by (simp add: has_suffix_def has_prefix_def)
qed

lemma url_parse_authority:
  assumes "url_parse tx s = Some u" "u_Opaque u = []" "u_RawPath u = []" "\<not> u_User u" "u_Host u \<noteq> []"
    "has_prefix (u_Path u) ''/''"
  shows "plain_url tx (u_Host u) (u_Path u) \<and> set (u_Host u) \<subseteq> set s"
proof -
  obtain a frag where a: "cut (CHR ''#'') s = (a, frag)" by fastforce
  with assms(1) obtain scheme after where g: "get_scheme a = Some (scheme, after)" and ctl: "\<not> list_ex is_ctl a"
    by (auto simp: url_parse_def Let_def split: if_splits option.splits)
  obtain rest query where r: "cut (CHR ''?'') after = (rest, query)" by fastforce
  let ?h = "takeWhile (\<lambda>c. c \<noteq> CHR ''/'') (drop 2 rest)"
  let ?p = "dropWhile (\<lambda>c. c \<noteq> CHR ''/'') (drop 2 rest)"
  have ne: "u_Path u \<noteq> []" using assms(6) by (auto simp: has_prefix_def)
  have u: "u_Host u = ?h" "u_Path u = ?p" "CHR ''@'' \<notin> set ?h" "valid_host tx ?h" "list_all path_char ?p"
    using assms(1-5) ne a g r ctl by (auto simp: url_parse_def Let_def split: if_splits)
  have "set after \<subseteq> set a"
  proof -
    have "set after \<subseteq> set (dropWhile scheme_char a)"
      using g by (cases "dropWhile scheme_char a") (auto simp: get_scheme_def Let_def split: if_splits)
    then show ?thesis using set_dropWhileD [of _ scheme_char a] by blast
  qed
  moreover have "set rest \<subseteq> set after" "CHR ''?'' \<notin> set rest" using cut_fst [OF r] by auto
  moreover have "set ?h \<subseteq> set rest"
    using set_takeWhileD [of _ "\<lambda>c. c \<noteq> CHR ''/''" "drop 2 rest"] set_drop_subset [of 2 rest] by blast
  moreover have "set a \<subseteq> set s" "CHR ''#'' \<notin> set a" using cut_fst [OF a] by auto
  ultimately have sub: "set ?h \<subseteq> set a" "set a \<subseteq> set s" "CHR ''?'' \<notin> set ?h" "CHR ''#'' \<notin> set ?h" by blast+
  have "CHR ''/'' \<notin> set ?h" using set_takeWhileD by fastforce
  then have "list_all host_safe ?h"
    using sub ctl u(3) by (auto simp: list_all_iff list_ex_iff host_safe_def)
  then show ?thesis using u sub assms(6) by (auto simp: plain_url_def)
qed

lemma canonicalResource_parts:
  assumes "canonicalResource tx v pre = Some r"
  shows "\<exists>h p. r = ''bcgos://'' @ h @ p \<and> canonical_parts tx pre h p"
proof -
  from assms obtain u where u: "url_parse tx v = Some u" "r = ''bcgos://'' @ u_Host u @ u_Path u"
    and c: "CHR ''%'' \<notin> set v" "CHR 0x5C \<notin> set v" "u_Host u \<noteq> []" "u_Host u = ToLower tx (u_Host u)"
      "\<not> u_User u" "u_Opaque u = []" "u_RawPath u = []" "clean_resource_path (u_Path u)"
      "has_suffix (u_Path u) ''/'' = pre"
    by (auto simp: canonicalResource_def contains_sub_single split: if_splits option.splits)
  moreover from c have "has_prefix (u_Path u) ''/''" by (simp add: clean_resource_path_def)
  ultimately have "plain_url tx (u_Host u) (u_Path u)" "set (u_Host u) \<subseteq> set v"
    using url_parse_authority by blast+
  then have "canonical_parts tx pre (u_Host u) (u_Path u)"
    using c by (auto simp: canonical_parts_def)
  then show ?thesis using u(2) by blast
qed

lemma canonical_parse:
  assumes "canonical_parts tx pre h p"
  shows "url_parse tx (''bcgos://'' @ h @ p) =
    Some \<lparr>u_Scheme = ''bcgos'', u_Opaque = [], u_User = False, u_Host = h, u_Path = p, u_RawPath = [],
          u_RawQuery = [], u_Fragment = []\<rparr>"
  using assms by (intro url_parse_plain) (simp add: canonical_parts_def)

text \<open>An accepted name is its own canonical form.\<close>

lemma canonicalResource_stable:
  assumes "canonical_parts tx pre h p"
  shows "canonicalResource tx (''bcgos://'' @ h @ p) pre = Some (''bcgos://'' @ h @ p)"
proof -
  have free: "c \<notin> set (''bcgos://'' @ h @ p)" if "c = CHR ''%'' \<or> c = CHR 0x5C" for c
  proof -
    have "c \<notin> set ''bcgos://''" using that scheme_text_plain by blast
    moreover have "c \<notin> set h" using that assms by (auto simp: canonical_parts_def)
    moreover have "c \<notin> set p"
      using that assms path_char_plain by (auto simp: canonical_parts_def plain_url_def list_all_iff)
    ultimately show ?thesis by simp
  qed
  have pre: "\<not> contains_sub (''bcgos://'' @ h @ p) ''%''" "\<not> contains_sub (''bcgos://'' @ h @ p) [CHR 0x5C]"
    unfolding contains_sub_single using free by blast+
  have c: "h \<noteq> []" "h = ToLower tx h" "clean_resource_path p" "has_suffix p ''/'' = pre"
    using assms by (auto simp: canonical_parts_def)
  show ?thesis
    unfolding canonicalResource_def canonical_parse [OF assms] if_not_P [OF conjI [OF pre, simplified de_Morgan_disj [symmetric]]]
    using c by (simp del: append_Cons)
qed

lemma canonical_path_not_Nil: "canonical_parts tx pre h p \<Longrightarrow> p \<noteq> []"
  by (auto simp: canonical_parts_def clean_resource_path_def has_prefix_def)

lemma canonical_suffix:
  assumes "canonical_parts tx pre h p"
  shows "has_suffix (''bcgos://'' @ h @ p) ''/'' = pre"
proof -
  have "has_suffix ((''bcgos://'' @ h) @ p) ''/'' = pre"
    using assms has_suffix_slash [OF canonical_path_not_Nil [OF assms], of "''bcgos://'' @ h"]
    by (simp add: canonical_parts_def)
  then show ?thesis by simp
qed

lemma NormalizeResource_stable:
  assumes "NormalizeResource tx v = Some r"
  shows "NormalizeResource tx r = Some r"
proof -
  obtain h p where r: "r = ''bcgos://'' @ h @ p" and c: "canonical_parts tx (has_suffix v ''/'') h p"
    using canonicalResource_parts assms unfolding NormalizeResource_def by blast
  show ?thesis
    unfolding NormalizeResource_def r canonical_suffix [OF c] by (rule canonicalResource_stable [OF c])
qed

lemma ResourceWithinScope_parses:
  "NormalizeResource tx v = Some r \<Longrightarrow> url_parse tx r \<noteq> None"
  using canonicalResource_parts canonical_parse unfolding NormalizeResource_def by blast

text \<open>A prefix bound to a scope and the names under it.\<close>

lemma bound_prefix_within:
  assumes r: "canonicalResource tx v False = Some r" and g: "canonicalResource tx w True = Some g"
    and b: "resourceBoundToScope tx g scope kind" and p: "has_prefix r g"
  shows "ResourceWithinScope tx r kind scope"
proof -
  obtain h q where rq: "r = ''bcgos://'' @ h @ q" "canonical_parts tx False h q"
    using canonicalResource_parts [OF r] by blast
  obtain k z where gz: "g = ''bcgos://'' @ k @ z" "canonical_parts tx True k z"
    using canonicalResource_parts [OF g] by blast
  have no: "CHR ''/'' \<notin> set h" "CHR ''/'' \<notin> set k"
    using rq(2) gz(2) by (auto simp: canonical_parts_def plain_url_def list_all_iff host_safe_def)
  obtain q' z' where s: "q = CHR ''/'' # q'" "z = CHR ''/'' # z'"
    using rq(2) gz(2) by (auto simp: canonical_parts_def plain_url_def has_prefix_iff)
  obtain t where t: "h @ q = k @ z @ t" using p rq(1) gz(1) by (auto simp: has_prefix_iff)
  have hk: "h = k \<and> q = z @ t"
  proof -
    have "takeWhile (\<lambda>c. c \<noteq> CHR ''/'') (h @ q) = h" "takeWhile (\<lambda>c. c \<noteq> CHR ''/'') (k @ z @ t) = k"
      using no s by (simp_all add: takeWhile_tail takeWhile_append)
    then show ?thesis using t by simp
  qed
  have "has_suffix z ''/''" "\<not> has_suffix q ''/''" using rq(2) gz(2) by (auto simp: canonical_parts_def)
  then have "t \<noteq> []" using hk by auto
  have n: "NormalizeResource tx r = Some r" "\<not> has_suffix r ''/''"
    using canonicalResource_stable [OF rq(2)] canonical_suffix [OF rq(2)] rq(1)
    by (simp_all add: NormalizeResource_def)
  have b': "if k = ''public'' then z = ''/'' else k = kind \<and> z = ''/'' @ scope @ ''/''"
    using b canonical_parse [OF gz(2)] gz(1) by (simp add: resourceBoundToScope_def split: if_splits)
  have l: "length q > length z" using hk \<open>t \<noteq> []\<close> by simp
  show ?thesis
    using n canonical_parse [OF rq(2)] b' hk l \<open>t \<noteq> []\<close> rq(1)
    by (simp add: ResourceWithinScope_def Let_def has_prefix_def split: if_splits)
qed

end
