(* ===== verification/OrchState.thy ===== *)
theory OrchState
  imports OrchResource GoJson "HOL-Library.Word"
begin

text \<open>
  The durable state of the orchestration (\<open>internal/agentorchestration/controller.go\<close>): the
  snapshot, the hash-linked tail of breadcrumbs, their validation and the step that appends a
  breadcrumb. Go's \<open>uint64\<close> counters are \<open>64 word\<close>. SHA-256 is a parameter from bytes to the
  hexadecimal text of the digest.
\<close>

section \<open>Data\<close>

record NativeEvent =
  ne_Name :: string
  ne_BranchID :: string
  ne_DispatchID :: string
  ne_ActorID :: string
  ne_ActorCapability :: string
  ne_TargetID :: string
  ne_Scope :: string
  ne_ScopeKind :: string
  ne_Tool :: string
  ne_Operation :: string
  ne_Resource :: string
  ne_FenceEpoch :: "64 word"

record Decision =
  dc_Allowed :: bool
  dc_Code :: string

record Breadcrumb =
  bc_SchemaVersion :: int
  bc_Sequence :: "64 word"
  bc_Event :: string
  bc_ActorID :: string
  bc_TargetID :: string
  bc_BranchID :: string
  bc_DispatchID :: string
  bc_Tool :: string
  bc_Operation :: string
  bc_ResourceSHA256 :: string
  bc_Allowed :: bool
  bc_DecisionCode :: string
  bc_OccurredAt :: time
  bc_PreviousDigest :: string
  bc_Digest :: string

record StateSnapshot =
  sn_PolicySHA256 :: string
  sn_BranchID :: string
  sn_ScopeID :: string
  sn_ScopeKind :: string
  sn_RootID :: string
  sn_ChildID :: string
  sn_ChildDispatchID :: string
  sn_Updated :: time
  sn_FenceEpoch :: "64 word"
  sn_BreadcrumbSeq :: "64 word"
  sn_BreadcrumbTail :: "Breadcrumb list"

definition empty_snapshot :: StateSnapshot where
  "empty_snapshot = \<lparr>sn_PolicySHA256 = [], sn_BranchID = [], sn_ScopeID = [], sn_ScopeKind = [],
     sn_RootID = [], sn_ChildID = [], sn_ChildDispatchID = [], sn_Updated = 0, sn_FenceEpoch = 0,
     sn_BreadcrumbSeq = 0, sn_BreadcrumbTail = []\<rparr>"

definition MaximumBreadcrumbTail :: int where "MaximumBreadcrumbTail = 64"
definition MaximumDurableStateBytes :: int where "MaximumDurableStateBytes = 65536"

definition breadcrumb_json :: "Breadcrumb \<Rightarrow> json" where
  "breadcrumb_json b = JObj
    ([(''schema_version'', JNum (bc_SchemaVersion b)), (''sequence'', JNum (uint (bc_Sequence b))),
      (''event'', JStr (bc_Event b)), (''actor_id'', JStr (bc_ActorID b))]
     @ opt_str ''target_id'' (bc_TargetID b) @ opt_str ''branch_id'' (bc_BranchID b)
     @ opt_str ''dispatch_id'' (bc_DispatchID b) @ opt_str ''tool'' (bc_Tool b)
     @ opt_str ''operation'' (bc_Operation b) @ opt_str ''resource_sha256'' (bc_ResourceSHA256 b)
     @ [(''allowed'', JBool (bc_Allowed b)), (''decision_code'', JStr (bc_DecisionCode b)),
        (''occurred_at'', JTime (bc_OccurredAt b))]
     @ opt_str ''previous_digest'' (bc_PreviousDigest b) @ [(''digest'', JStr (bc_Digest b))])"

definition snapshot_json :: "StateSnapshot \<Rightarrow> json" where
  "snapshot_json s = JObj
    ([(''policy_sha256'', JStr (sn_PolicySHA256 s)), (''branch_id'', JStr (sn_BranchID s)),
      (''scope_id'', JStr (sn_ScopeID s)), (''scope_kind'', JStr (sn_ScopeKind s)),
      (''root_id'', JStr (sn_RootID s))]
     @ opt_str ''child_id'' (sn_ChildID s) @ opt_str ''child_dispatch_id'' (sn_ChildDispatchID s)
     @ [(''updated'', JTime (sn_Updated s)), (''fence_epoch'', JNum (uint (sn_FenceEpoch s))),
        (''breadcrumb_seq'', JNum (uint (sn_BreadcrumbSeq s)))]
     @ (if sn_BreadcrumbTail s = [] then []
        else [(''breadcrumb_tail'', JArr (map breadcrumb_json (sn_BreadcrumbTail s)))]))"

section \<open>Breadcrumbs\<close>

definition breadcrumbEvents :: "string list" where
  "breadcrumbEvents = [''branch_start'', ''child_start'', ''tool_request'', ''child_finish'', ''branch_finish'']"

definition token_char :: "char \<Rightarrow> bool" where
  "token_char c \<longleftrightarrow> is_alnum c \<or> c = CHR ''_'' \<or> c = CHR ''-'' \<or> c = CHR ''.''"

definition validBreadcrumbToken :: "string \<Rightarrow> int \<Rightarrow> bool" where
  "validBreadcrumbToken value maximum \<longleftrightarrow>
     value = [] \<or> len value \<le> maximum \<and> list_all token_char value \<and> hd value \<noteq> CHR ''.''"

definition validDigest :: "string \<Rightarrow> bool" where
  "validDigest value \<longleftrightarrow> length value = 64 \<and> hex_decodable value"

text \<open>When the encoder refuses the time, the digest is that of no bytes.\<close>

definition breadcrumbDigest :: "(string \<Rightarrow> string) \<Rightarrow> Breadcrumb \<Rightarrow> string" where
  "breadcrumbDigest sha b =
     (let j = breadcrumb_json (b\<lparr>bc_Digest := []\<rparr>) in sha (if encodable j then marshal j else []))"

definition validateBreadcrumb :: "(string \<Rightarrow> string) \<Rightarrow> Breadcrumb \<Rightarrow> go_error + unit" where
  "validateBreadcrumb sha b = checks
    [fail_if (bc_SchemaVersion b \<noteq> 1 \<or> bc_Sequence b = 0 \<or> bc_Event b \<notin> set breadcrumbEvents
              \<or> \<not> ValidAgentID (bc_ActorID b)
              \<or> (bc_TargetID b \<noteq> [] \<and> \<not> ValidAgentID (bc_TargetID b))
              \<or> \<not> validBreadcrumbToken (bc_BranchID b) 128 \<or> \<not> validBreadcrumbToken (bc_DispatchID b) 128
              \<or> \<not> validBreadcrumbToken (bc_Tool b) 64 \<or> \<not> validBreadcrumbToken (bc_Operation b) 64
              \<or> \<not> validBreadcrumbToken (bc_DecisionCode b) 96
              \<or> is_zero (bc_OccurredAt b) \<or> \<not> validDigest (bc_Digest b))
       (errors_New ''orchestration breadcrumb is invalid''),
     fail_if (bc_PreviousDigest b \<noteq> [] \<and> \<not> validDigest (bc_PreviousDigest b))
       (errors_New ''orchestration breadcrumb previous digest is invalid''),
     fail_if (bc_ResourceSHA256 b \<noteq> [] \<and> \<not> validDigest (bc_ResourceSHA256 b))
       (errors_New ''orchestration breadcrumb resource digest is invalid''),
     fail_if (bc_Digest b \<noteq> breadcrumbDigest sha b)
       (errors_New ''orchestration breadcrumb digest is invalid'')]"

section \<open>Snapshots\<close>

fun validate_tail :: "(string \<Rightarrow> string) \<Rightarrow> Breadcrumb option \<Rightarrow> Breadcrumb list \<Rightarrow> go_error + unit" where
  "validate_tail sha previous [] = Inr ()"
| "validate_tail sha previous (b # bs) =
     bind_r (validateBreadcrumb sha b) (\<lambda>_.
     bind_r (case previous of None \<Rightarrow> Inr ()
       | Some p \<Rightarrow> checks
           [fail_if (bc_Sequence b \<noteq> bc_Sequence p + 1)
              (errors_New ''orchestration breadcrumb sequence is not contiguous''),
            fail_if (bc_PreviousDigest b \<noteq> bc_Digest p)
              (errors_New ''orchestration breadcrumb chain is not linked'')]) (\<lambda>_.
     validate_tail sha (Some b) bs))"

definition validateSnapshot :: "(string \<Rightarrow> string) \<Rightarrow> StateSnapshot \<Rightarrow> go_error + unit" where
  "validateSnapshot sha s =
     bind_r (checks
       [fail_if ((sn_BranchID s = []) \<noteq> (sn_RootID s = []) \<or> (sn_BranchID s = []) \<noteq> (sn_ScopeID s = [])
                 \<or> (sn_BranchID s = []) \<noteq> (sn_ScopeKind s = []))
          (errors_New ''orchestration snapshot has incomplete branch identity''),
        fail_if ((sn_ChildID s = []) \<noteq> (sn_ChildDispatchID s = []) \<or> (sn_ChildID s \<noteq> [] \<and> sn_RootID s = []))
          (errors_New ''orchestration snapshot has a child without a root''),
        fail_if (len (sn_BreadcrumbTail s) > MaximumBreadcrumbTail)
          (errors_New ''orchestration breadcrumb tail exceeds its bounded limit'')]) (\<lambda>_.
     bind_r (validate_tail sha None (sn_BreadcrumbTail s)) (\<lambda>_.
     fail_if (sn_BreadcrumbTail s \<noteq> [] \<and> sn_BreadcrumbSeq s \<noteq> bc_Sequence (last (sn_BreadcrumbTail s)))
       (errors_New ''orchestration breadcrumb sequence is not current'')))"

definition new_breadcrumb ::
    "(string \<Rightarrow> string) \<Rightarrow> StateSnapshot \<Rightarrow> string \<Rightarrow> NativeEvent \<Rightarrow> Decision \<Rightarrow> time \<Rightarrow> Breadcrumb" where
  "new_breadcrumb sha s event native decision occurredAt =
     (let b = \<lparr>bc_SchemaVersion = 1, bc_Sequence = sn_BreadcrumbSeq s + 1, bc_Event = event,
               bc_ActorID = ne_ActorID native, bc_TargetID = ne_TargetID native,
               bc_BranchID = ne_BranchID native, bc_DispatchID = ne_DispatchID native,
               bc_Tool = ne_Tool native, bc_Operation = ne_Operation native,
               bc_ResourceSHA256 = (if ne_Resource native = [] then [] else sha (ne_Resource native)),
               bc_Allowed = dc_Allowed decision, bc_DecisionCode = dc_Code decision,
               bc_OccurredAt = occurredAt,
               bc_PreviousDigest = (if sn_BreadcrumbTail s = [] then []
                                    else bc_Digest (last (sn_BreadcrumbTail s))),
               bc_Digest = []\<rparr>
      in b\<lparr>bc_Digest := breadcrumbDigest sha b\<rparr>)"

definition appendBreadcrumb ::
    "(string \<Rightarrow> string) \<Rightarrow> StateSnapshot \<Rightarrow> string \<Rightarrow> NativeEvent \<Rightarrow> Decision \<Rightarrow> time
     \<Rightarrow> go_error + StateSnapshot" where
  "appendBreadcrumb sha s event native decision occurredAt =
     (let b = new_breadcrumb sha s event native decision occurredAt in
      bind_r (validateBreadcrumb sha b) (\<lambda>_.
      Inr (s\<lparr>sn_BreadcrumbSeq := bc_Sequence b,
             sn_BreadcrumbTail := last_n 64 (sn_BreadcrumbTail s @ [b])\<rparr>)))"

section \<open>The chain\<close>

text \<open>Neighbours in the tail are numbered one after the other and linked by digest.\<close>

fun chained :: "Breadcrumb list \<Rightarrow> bool" where
  "chained (a # b # bs) \<longleftrightarrow>
     bc_Sequence b = bc_Sequence a + 1 \<and> bc_PreviousDigest b = bc_Digest a \<and> chained (b # bs)"
| "chained _ \<longleftrightarrow> True"

lemma validate_tail_iff:
  "validate_tail sha p bs = Inr () \<longleftrightarrow>
     (\<forall>b \<in> set bs. validateBreadcrumb sha b = Inr ()) \<and> chained (case p of None \<Rightarrow> bs | Some a \<Rightarrow> a # bs)"
proof (induction sha p bs rule: validate_tail.induct)
  case (1 sha p)
  then show ?case by (cases p) simp_all
next
  case (2 sha p b bs)
  then show ?case
    by (cases p; cases bs; cases "validateBreadcrumb sha b") (auto simp: bind_r_Inr fail_if_def split: if_splits)
qed

lemma validateSnapshot_iff:
  "validateSnapshot sha s = Inr () \<longleftrightarrow>
     ((sn_BranchID s = []) = (sn_RootID s = []) \<and> (sn_BranchID s = []) = (sn_ScopeID s = [])
      \<and> (sn_BranchID s = []) = (sn_ScopeKind s = []))
     \<and> (sn_ChildID s = []) = (sn_ChildDispatchID s = []) \<and> (sn_ChildID s = [] \<or> sn_RootID s \<noteq> [])
     \<and> length (sn_BreadcrumbTail s) \<le> 64
     \<and> (\<forall>b \<in> set (sn_BreadcrumbTail s). validateBreadcrumb sha b = Inr ())
     \<and> chained (sn_BreadcrumbTail s)
     \<and> (sn_BreadcrumbTail s = [] \<or> sn_BreadcrumbSeq s = bc_Sequence (last (sn_BreadcrumbTail s)))"
  by (auto simp: validateSnapshot_def bind_r_Inr validate_tail_iff MaximumBreadcrumbTail_def)

lemma chained_snoc:
  "chained (bs @ [b]) \<longleftrightarrow> chained bs
     \<and> (bs = [] \<or> bc_Sequence b = bc_Sequence (last bs) + 1 \<and> bc_PreviousDigest b = bc_Digest (last bs))"
  by (induction bs rule: chained.induct) auto

lemma chained_tl: "chained bs \<Longrightarrow> chained (tl bs)"
  by (cases bs rule: chained.cases) auto

lemma chained_drop: "chained bs \<Longrightarrow> chained (drop n bs)"
  by (induction n arbitrary: bs) (simp_all add: drop_Suc chained_tl)

lemma chained_nth:
  "chained bs \<Longrightarrow> i < length bs \<Longrightarrow> bc_Sequence (bs ! i) = bc_Sequence (hd bs) + of_nat i"
proof (induction bs arbitrary: i rule: chained.induct)
  case (1 a b bs)
  then show ?case by (cases i) (auto simp: algebra_simps)
qed auto

text \<open>Appending keeps the tail valid, linked and bounded, and adds exactly one entry.\<close>

lemma appendBreadcrumb_Inr:
  "appendBreadcrumb sha s ev ne d t = Inr s' \<longleftrightarrow>
     validateBreadcrumb sha (new_breadcrumb sha s ev ne d t) = Inr ()
     \<and> s' = s\<lparr>sn_BreadcrumbSeq := sn_BreadcrumbSeq s + 1,
              sn_BreadcrumbTail := last_n 64 (sn_BreadcrumbTail s @ [new_breadcrumb sha s ev ne d t])\<rparr>"
  by (auto simp: appendBreadcrumb_def Let_def bind_r_Inr new_breadcrumb_def)

lemma new_breadcrumb_links:
  "bc_Sequence (new_breadcrumb sha s ev ne d t) = sn_BreadcrumbSeq s + 1"
  "bc_PreviousDigest (new_breadcrumb sha s ev ne d t) =
     (if sn_BreadcrumbTail s = [] then [] else bc_Digest (last (sn_BreadcrumbTail s)))"
  by (simp_all add: new_breadcrumb_def Let_def)

text \<open>The fields that say who holds the branch.\<close>

definition branch_part :: "StateSnapshot \<Rightarrow> string \<times> string \<times> string \<times> string \<times> string \<times> string" where
  "branch_part s = (sn_BranchID s, sn_ScopeID s, sn_ScopeKind s, sn_RootID s, sn_ChildID s, sn_ChildDispatchID s)"

lemma appendBreadcrumb_valid:
  assumes "appendBreadcrumb sha s ev ne d t = Inr s'" "validateSnapshot sha s = Inr ()"
  shows "validateSnapshot sha s' = Inr ()"
proof -
  let ?b = "new_breadcrumb sha s ev ne d t"
  from assms(1) have b: "validateBreadcrumb sha ?b = Inr ()"
    and s': "s' = s\<lparr>sn_BreadcrumbSeq := sn_BreadcrumbSeq s + 1,
              sn_BreadcrumbTail := last_n 64 (sn_BreadcrumbTail s @ [?b])\<rparr>"
    by (simp_all add: appendBreadcrumb_Inr)
  have v: "\<forall>b \<in> set (sn_BreadcrumbTail s). validateBreadcrumb sha b = Inr ()" "chained (sn_BreadcrumbTail s)"
    "sn_BreadcrumbTail s = [] \<or> sn_BreadcrumbSeq s = bc_Sequence (last (sn_BreadcrumbTail s))"
    using assms(2) by (simp_all add: validateSnapshot_iff)
  then have "chained (sn_BreadcrumbTail s @ [?b])"
    by (auto simp: chained_snoc new_breadcrumb_links)
  then have c: "chained (last_n 64 (sn_BreadcrumbTail s @ [?b]))"
    unfolding last_n_def by (rule chained_drop)
  have l: "last (last_n 64 (sn_BreadcrumbTail s @ [?b])) = ?b"
    by (subst last_last_n) simp_all
  have all: "\<forall>b \<in> set (last_n 64 (sn_BreadcrumbTail s @ [?b])). validateBreadcrumb sha b = Inr ()"
    using v(1) b set_last_n [of 64 "sn_BreadcrumbTail s @ [?b]"] by auto
  show ?thesis
    using assms(2) c l all unfolding validateSnapshot_iff by (auto simp: s' new_breadcrumb_links)
qed

end
