(* ===== verification/OrchStore.thy ===== *)
theory OrchStore
  imports OrchState
begin

text \<open>
  The state store of the orchestration: the snapshot held in memory, the file it is persisted to
  and the lock file beside it (\<open>internal/agentorchestration/controller.go\<close>, \<open>filelock.go\<close>).
  What the operating system may refuse, the clock and the random lock token are fields of the
  environment. A file is described by what the code looks at: whether it is a regular file that
  only its owner can read, its size, and what decoding its bytes gives. The Windows variants
  (privacy by access lists, no directory sync) are not modelled.
\<close>

record orch_env =
  oe_SHA256 :: "string \<Rightarrow> string"
  oe_Now :: "nat \<Rightarrow> time"
  oe_OS :: "string \<Rightarrow> go_error option"
  oe_Token :: string
  oe_Text :: text_lib

definition sys_call :: "orch_env \<Rightarrow> string \<Rightarrow> go_error + unit" where
  "sys_call e name = (case oe_OS e name of None \<Rightarrow> Inr () | Some x \<Rightarrow> Inl x)"

record state_file =
  sf_Regular :: bool
  sf_Private :: bool
  sf_Size :: int
  sf_Decoded :: "go_error + StateSnapshot"

datatype lock_file = LockToken string | LockIrregular

record disk =
  dk_State :: "state_file option"
  dk_Lock :: "lock_file option"

text \<open>An empty path is a store in memory only.\<close>

record StateStore =
  so_State :: StateSnapshot
  so_Recovery :: string
  so_Path :: string

section \<open>The lock file\<close>

text \<open>
  A lock that another process holds is waited for; when it is still there at the deadline the
  caller gets the busy error. A lock that is released earlier is the call made later.
\<close>

definition errStateLockBusy :: go_error where
  "errStateLockBusy = errors_New ''orchestration state lock is busy''"

definition acquireStateFileLock :: "orch_env \<Rightarrow> disk \<Rightarrow> go_error + disk" where
  "acquireStateFileLock e d =
     bind_r (checks [sys_call e ''state parents'', sys_call e ''rand'', sys_call e ''lstat lock'']) (\<lambda>_.
     (case dk_Lock d of
        Some LockIrregular \<Rightarrow> Inl (errors_New ''orchestration state lock is not a regular file'')
      | Some (LockToken _) \<Rightarrow> Inl errStateLockBusy
      | None \<Rightarrow>
          bind_r (checks [sys_call e ''create lock'', sys_call e ''write lock'']) (\<lambda>_.
          Inr (d\<lparr>dk_Lock := Some (LockToken (oe_Token e))\<rparr>))))"

definition releaseStateFileLock :: "orch_env \<Rightarrow> disk \<Rightarrow> disk" where
  "releaseStateFileLock e d =
     (if dk_Lock d = Some (LockToken (oe_Token e)) \<and> oe_OS e ''remove lock'' = None
      then d\<lparr>dk_Lock := None\<rparr> else d)"

text \<open>Both, for a store that may be in memory only.\<close>

definition lock_store :: "orch_env \<Rightarrow> StateStore \<Rightarrow> disk \<Rightarrow> go_error + disk" where
  "lock_store e st d = (if so_Path st = [] then Inr d else acquireStateFileLock e d)"

definition unlock_store :: "orch_env \<Rightarrow> StateStore \<Rightarrow> disk \<Rightarrow> disk" where
  "unlock_store e st d = (if so_Path st = [] then d else releaseStateFileLock e d)"

section \<open>Reading and writing the snapshot\<close>

definition validateDurableStateFileInfo :: "orch_env \<Rightarrow> state_file \<Rightarrow> go_error + unit" where
  "validateDurableStateFileInfo e f = checks
    [fail_if (\<not> sf_Regular f) (errors_New ''orchestration state target is not a regular non-symlink file''),
     fail_if (sf_Size f > MaximumDurableStateBytes)
       (errors_New ''orchestration state exceeds the bounded JSON limit''),
     fail_if (\<not> sf_Private f) (errors_New ''orchestration state must be owner-only (0600 or stricter)'')]"

text \<open>What a written snapshot decodes to: strings that are not UTF-8 are rewritten.\<close>

definition decode_breadcrumb :: "Breadcrumb \<Rightarrow> Breadcrumb" where
  "decode_breadcrumb b = b\<lparr>bc_Event := to_valid_utf8 (bc_Event b), bc_ActorID := to_valid_utf8 (bc_ActorID b),
     bc_TargetID := to_valid_utf8 (bc_TargetID b), bc_BranchID := to_valid_utf8 (bc_BranchID b),
     bc_DispatchID := to_valid_utf8 (bc_DispatchID b), bc_Tool := to_valid_utf8 (bc_Tool b),
     bc_Operation := to_valid_utf8 (bc_Operation b), bc_ResourceSHA256 := to_valid_utf8 (bc_ResourceSHA256 b),
     bc_DecisionCode := to_valid_utf8 (bc_DecisionCode b),
     bc_PreviousDigest := to_valid_utf8 (bc_PreviousDigest b), bc_Digest := to_valid_utf8 (bc_Digest b)\<rparr>"

definition decode_snapshot :: "StateSnapshot \<Rightarrow> StateSnapshot" where
  "decode_snapshot s = s\<lparr>sn_PolicySHA256 := to_valid_utf8 (sn_PolicySHA256 s),
     sn_BranchID := to_valid_utf8 (sn_BranchID s), sn_ScopeID := to_valid_utf8 (sn_ScopeID s),
     sn_ScopeKind := to_valid_utf8 (sn_ScopeKind s), sn_RootID := to_valid_utf8 (sn_RootID s),
     sn_ChildID := to_valid_utf8 (sn_ChildID s), sn_ChildDispatchID := to_valid_utf8 (sn_ChildDispatchID s),
     sn_BreadcrumbTail := map decode_breadcrumb (sn_BreadcrumbTail s)\<rparr>"

definition state_bytes :: "StateSnapshot \<Rightarrow> int" where
  "state_bytes s = len (marshal_indent 0 (snapshot_json s)) + 1"

definition written_file :: "StateSnapshot \<Rightarrow> state_file" where
  "written_file s = \<lparr>sf_Regular = True, sf_Private = True, sf_Size = state_bytes s,
                     sf_Decoded = Inr (decode_snapshot s)\<rparr>"

text \<open>
  The rename puts the file in place; the sync of the directory comes after it and may still
  fail, so an error does not mean that nothing was written.
\<close>

definition persistLocked :: "orch_env \<Rightarrow> StateStore \<Rightarrow> disk \<Rightarrow> (go_error + unit) \<times> disk" where
  "persistLocked e st d =
     (if so_Path st = [] then (Inr (), d)
      else (case checks
         [validateSnapshot (oe_SHA256 e) (so_State st),
          fail_if (\<not> encodable (snapshot_json (so_State st)))
            (errors_New ''json: Time.MarshalJSON: year outside of range [0,9999]''),
          sys_call e ''state parents'', sys_call e ''lstat state'',
          fail_if (\<exists>f \<in> set_option (dk_State d). \<not> sf_Regular f)
            (errors_New ''orchestration state target is not a regular file''),
          sys_call e ''create temp'', sys_call e ''chmod temp'', sys_call e ''write temp'',
          sys_call e ''sync temp'', sys_call e ''close temp'', sys_call e ''rename state''] of
        Inl x \<Rightarrow> (Inl x, d)
      | Inr _ \<Rightarrow> (checks [sys_call e ''open directory'', sys_call e ''sync directory''],
                  d\<lparr>dk_State := Some (written_file (so_State st))\<rparr>)))"

definition read_state :: "orch_env \<Rightarrow> state_file \<Rightarrow> StateSnapshot \<Rightarrow> go_error + StateSnapshot" where
  "read_state e f current =
     bind_r (validateDurableStateFileInfo e f) (\<lambda>_.
     bind_r (sys_call e ''read state'') (\<lambda>_.
     if sf_Size f = 0 then Inr current
     else bind_r (sf_Decoded f) (\<lambda>s.
          bind_r (validateSnapshot (oe_SHA256 e) s) (\<lambda>_. Inr s))))"

definition refreshLocked :: "orch_env \<Rightarrow> StateStore \<Rightarrow> disk \<Rightarrow> go_error + StateStore" where
  "refreshLocked e st d =
     (if so_Path st = [] then Inr st
      else bind_r (sys_call e ''lstat state'') (\<lambda>_.
      (case dk_State d of
         None \<Rightarrow> if sn_BranchID (so_State st) \<noteq> [] then Inl (errors_New ''durable orchestration state disappeared'')
                 else Inr st
       | Some f \<Rightarrow> bind_r (read_state e f (so_State st)) (\<lambda>s. Inr (st\<lparr>so_State := s\<rparr>)))))"

definition Snapshot :: "orch_env \<Rightarrow> StateStore \<Rightarrow> disk \<Rightarrow> StateSnapshot \<times> StateStore" where
  "Snapshot e st d =
     (let st' = (case refreshLocked e st d of Inl _ \<Rightarrow> st | Inr x \<Rightarrow> x) in (so_State st', st'))"

section \<open>Opening a store\<close>

definition NewStateStore :: "orch_env \<Rightarrow> string \<Rightarrow> go_error + StateStore" where
  "NewStateStore e capability =
     bind_r (fail_if (capability = []) (errors_New ''orchestration state store requires a recovery capability'')) (\<lambda>_.
     Inr \<lparr>so_State = empty_snapshot, so_Recovery = oe_SHA256 e capability, so_Path = []\<rparr>)"

definition RestoreStateStore :: "orch_env \<Rightarrow> StateSnapshot \<Rightarrow> string \<Rightarrow> go_error + StateStore" where
  "RestoreStateStore e snapshot capability =
     bind_r (fail_if (capability = []) (errors_New ''orchestration state store requires a recovery capability'')) (\<lambda>_.
     bind_r (validateSnapshot (oe_SHA256 e) snapshot) (\<lambda>_.
     Inr \<lparr>so_State = snapshot, so_Recovery = oe_SHA256 e capability, so_Path = []\<rparr>))"

definition NewDurableStateStore :: "orch_env \<Rightarrow> string \<Rightarrow> string \<Rightarrow> disk \<Rightarrow> go_error + StateStore" where
  "NewDurableStateStore e path capability d =
     bind_r (checks [fail_if (TrimSpace path = []) (errors_New ''durable orchestration state path is required''),
                     fail_if (capability = []) (errors_New ''orchestration state store requires a recovery capability''),
                     sys_call e ''lstat state'']) (\<lambda>_.
     let store = \<lparr>so_State = empty_snapshot, so_Recovery = oe_SHA256 e capability, so_Path = path\<rparr> in
     (case dk_State d of
        None \<Rightarrow> Inr store
      | Some f \<Rightarrow> bind_r (read_state e f (so_State store)) (\<lambda>s. Inr (store\<lparr>so_State := s\<rparr>))))"

definition state_present :: "orch_env \<Rightarrow> disk \<Rightarrow> go_error + bool" where
  "state_present e d =
     bind_r (sys_call e ''lstat state'') (\<lambda>_.
     (case dk_State d of None \<Rightarrow> Inr False
      | Some f \<Rightarrow> bind_r (validateDurableStateFileInfo e f) (\<lambda>_. Inr (sf_Size f > 0))))"

definition EnsureDurableState :: "orch_env \<Rightarrow> string \<Rightarrow> string \<Rightarrow> disk \<Rightarrow> (go_error + unit) \<times> disk" where
  "EnsureDurableState e path capability d =
     (case bind_r (state_present e d) (\<lambda>present.
             bind_r (NewDurableStateStore e path capability d) (\<lambda>store. Inr (present, store))) of
        Inl x \<Rightarrow> (Inl x, d)
      | Inr (present, store) \<Rightarrow>
          if present then (Inr (), d)
          else (case acquireStateFileLock e d of
              Inl x \<Rightarrow> (Inl x, d)
            | Inr d1 \<Rightarrow>
                (case state_present e d1 of
                   Inl x \<Rightarrow> (Inl x, releaseStateFileLock e d1)
                 | Inr True \<Rightarrow> (Inr (), releaseStateFileLock e d1)
                 | Inr False \<Rightarrow> (let (r, d2) = persistLocked e store d1 in (r, releaseStateFileLock e d2)))))"

section \<open>Facts\<close>

lemma sys_call_Inr [simp]: "sys_call e n = Inr () \<longleftrightarrow> oe_OS e n = None"
  by (simp add: sys_call_def split: option.splits)

lemma lock_store_Inr:
  "lock_store e st d = Inr d1 \<Longrightarrow> dk_State d1 = dk_State d"
  by (auto simp: lock_store_def acquireStateFileLock_def bind_r_Inr split: if_splits option.splits lock_file.splits)

lemma unlock_store_state [simp]: "dk_State (unlock_store e st d) = dk_State d"
  by (simp add: unlock_store_def releaseStateFileLock_def)

text \<open>The lock is exclusive: held by one, it is refused to all; released, it is free again.\<close>

lemma lock_unlock:
  assumes "lock_store e st d = Inr d1" "so_Path st \<noteq> []"
  shows "dk_Lock d = None" "dk_Lock d1 = Some (LockToken (oe_Token e))"
    "dk_Lock d2 = dk_Lock d1 \<Longrightarrow> oe_OS e ''remove lock'' = None \<Longrightarrow> dk_Lock (unlock_store e st d2) = None"
  using assms
  by (auto simp: lock_store_def acquireStateFileLock_def bind_r_Inr unlock_store_def releaseStateFileLock_def
      split: option.splits lock_file.splits)

lemma persistLocked_effect:
  assumes "persistLocked e st d = (r, d')"
  shows "dk_Lock d' = dk_Lock d"
    "dk_State d' \<noteq> dk_State d \<Longrightarrow> so_Path st \<noteq> [] \<and> validateSnapshot (oe_SHA256 e) (so_State st) = Inr ()
       \<and> encodable (snapshot_json (so_State st)) \<and> dk_State d' = Some (written_file (so_State st))"
    "r = Inr () \<Longrightarrow> so_Path st \<noteq> [] \<Longrightarrow> validateSnapshot (oe_SHA256 e) (so_State st) = Inr ()
       \<and> encodable (snapshot_json (so_State st)) \<and> dk_State d' = Some (written_file (so_State st))"
  using assms by (auto simp: persistLocked_def split: if_splits sum.splits)

text \<open>Bytes that survive encoding and decoding.\<close>

definition utf8_snapshot :: "StateSnapshot \<Rightarrow> bool" where
  "utf8_snapshot s \<longleftrightarrow> decode_snapshot s = s"

lemma state_bytes_pos: "state_bytes s > 0"
  by (simp add: state_bytes_def)

text \<open>What one process persists, another reads, as long as it fits the bound.\<close>

lemma persist_then_refresh:
  assumes "persistLocked e st d = (Inr (), d')" "so_Path st \<noteq> []"
    and "utf8_snapshot (so_State st)" "state_bytes (so_State st) \<le> MaximumDurableStateBytes"
    and "so_Path st' \<noteq> []" "oe_OS e' ''lstat state'' = None" "oe_OS e' ''read state'' = None"
    and "oe_SHA256 e' = oe_SHA256 e"
  shows "refreshLocked e' st' d' = Inr (st'\<lparr>so_State := so_State st\<rparr>)"
proof -
  from persistLocked_effect(3) [OF assms(1) refl assms(2)]
  have v: "validateSnapshot (oe_SHA256 e) (so_State st) = Inr ()"
    and d: "dk_State d' = Some (written_file (so_State st))" by auto
  show ?thesis
    using assms(3-) v d state_bytes_pos [of "so_State st"]
    by (simp add: refreshLocked_def read_state_def validateDurableStateFileInfo_def written_file_def
          bind_r_Inr sys_call_def utf8_snapshot_def checks.simps)
qed

end
