(* ===== verification/OrchController.thy ===== *)
theory OrchController
  imports OrchStore
begin

text \<open>
  The adapter of the orchestration (\<open>internal/agentorchestration/controller.go\<close>): the
  authorization policy, the decisions on the five semantic events and the operations that run
  them under the lock. Every operation takes the store in memory and the disk and returns both.
  A Go map of authorizations is the list of its entries in the order they were added.
\<close>

section \<open>Authorizations\<close>

record ToolGrant =
  tg_Tool :: string
  tg_Operation :: string
  tg_ResourcePrefix :: string

record Authorization =
  au_AgentID :: string
  au_Role :: string
  au_Scope :: string
  au_ScopeKind :: string
  au_Capability :: string
  au_Tools :: "ToolGrant list"

record authorization =
  az_Role :: string
  az_Scope :: string
  az_ScopeKind :: string
  az_CapabilitySHA256 :: string
  az_Tools :: "ToolGrant list"

definition roleScopeKinds :: "(string \<times> string list) list" where
  "roleScopeKinds =
    [(''case_agent'', [''case'', ''workspace'']), (''client_account_agent'', [''account'']),
     (''errand_helper'', [''errand'']), (''governance_analyst'', [''health'']), (''hub'', [''control'']),
     (''pa_expert'', [''practice'']), (''quality_guardian'', [''workspace'']), (''reviewer'', [''review''])]"

definition role_scope_kind :: "string \<Rightarrow> string \<Rightarrow> bool" where
  "role_scope_kind role kind \<longleftrightarrow>
     (case map_of roleScopeKinds role of None \<Rightarrow> False | Some ks \<Rightarrow> kind \<in> set ks)"

definition NUL :: string where "NUL = [CHR 0x00]"

definition grant_key :: "ToolGrant \<Rightarrow> string" where
  "grant_key g = tg_Tool g @ NUL @ tg_Operation g @ NUL @ tg_ResourcePrefix g"

definition normal_grant ::
    "text_lib \<Rightarrow> RoleContract \<Rightarrow> Authorization \<Rightarrow> ToolGrant \<Rightarrow> go_error + ToolGrant" where
  "normal_grant tx contract g t =
     (case canonicalResource tx (tg_ResourcePrefix t) True of
        None \<Rightarrow> Inl (errors_New ''agent tool grant is invalid or unscoped'')
      | Some pfx \<Rightarrow>
          if rc_ToolAccess contract \<noteq> ''scoped'' \<or> tg_Tool t = [] \<or> tg_Operation t = []
             \<or> \<not> resourceBoundToScope tx pfx (au_Scope g) (au_ScopeKind g)
          then Inl (errors_New ''agent tool grant is invalid or unscoped'')
          else Inr (t\<lparr>tg_ResourcePrefix := pfx\<rparr>))"

fun normal_grants ::
    "text_lib \<Rightarrow> RoleContract \<Rightarrow> Authorization \<Rightarrow> ToolGrant list \<Rightarrow> go_error + ToolGrant list" where
  "normal_grants tx contract g [] = Inr []"
| "normal_grants tx contract g (t # ts) =
     bind_r (normal_grant tx contract g t) (\<lambda>t'.
     bind_r (normal_grants tx contract g ts) (\<lambda>ts'. Inr (t' # ts')))"

definition authorize ::
    "orch_env \<Rightarrow> Catalog \<Rightarrow> (string \<times> authorization) list \<Rightarrow> Authorization \<Rightarrow> go_error + authorization" where
  "authorize e c values g0 =
     bind_r (RejectLegacyRegistration c (au_AgentID g0) (au_Role g0)) (\<lambda>_.
     let role = CanonicalRole c (au_Role g0); g = g0\<lparr>au_Role := role\<rparr> in
     (case ContractForRole c role of
        None \<Rightarrow> Inl (errors_New ''agent authorization is incomplete or uses an unsupported role'')
      | Some contract \<Rightarrow>
          bind_r (checks
            [fail_if (\<not> ValidAgentID (au_AgentID g) \<or> au_Capability g = [])
               (errors_New ''agent authorization is incomplete or uses an unsupported role''),
             fail_if (map_of values (au_AgentID g) \<noteq> None)
               (errors_New ''agent authorization IDs must be unique''),
             fail_if (\<not> role_scope_kind role (au_ScopeKind g) \<or> (role \<noteq> ''hub'' \<and> au_Scope g = [])
                      \<or> (role = ''hub'' \<and> au_Scope g \<noteq> []))
               (errors_New ''agent authorization has an invalid scope kind or identity''),
             fail_if (rc_ToolAccess contract = ''none'' \<and> au_Tools g \<noteq> [])
               (errors_New ''no-tool role cannot receive tool grants''),
             fail_if (rc_ToolAccess contract = ''scoped'' \<and> au_Scope g = [])
               (errors_New ''scoped agent authorization requires an immutable scope'')]) (\<lambda>_.
          bind_r (normal_grants (oe_Text e) contract g (au_Tools g)) (\<lambda>tools.
          Inr \<lparr>az_Role = role, az_Scope = au_Scope g, az_ScopeKind = au_ScopeKind g,
               az_CapabilitySHA256 = oe_SHA256 e (au_Capability g),
               az_Tools = sort_key grant_key tools\<rparr>))))"

fun authorize_all ::
    "orch_env \<Rightarrow> Catalog \<Rightarrow> (string \<times> authorization) list \<Rightarrow> Authorization list
     \<Rightarrow> go_error + (string \<times> authorization) list" where
  "authorize_all e c values [] = Inr values"
| "authorize_all e c values (g # gs) =
     bind_r (authorize e c values g) (\<lambda>a. authorize_all e c (values @ [(au_AgentID g, a)]) gs)"

text \<open>
  The fingerprint hashes the raw digest bytes of the capabilities; here the digest's text stands
  for them.
\<close>

definition authorization_bytes :: "string \<times> authorization \<Rightarrow> string" where
  "authorization_bytes = (\<lambda>(id, a).
     id @ NUL @ az_Role a @ NUL @ az_ScopeKind a @ NUL @ az_Scope a @ NUL @ az_CapabilitySHA256 a
     @ concat (map (\<lambda>t. NUL @ grant_key t) (az_Tools a)))"

definition authorizationFingerprint :: "orch_env \<Rightarrow> (string \<times> authorization) list \<Rightarrow> string" where
  "authorizationFingerprint e values = oe_SHA256 e (concat (map authorization_bytes (sort_key fst values)))"

definition validateAuthorizations ::
    "orch_env \<Rightarrow> Catalog \<Rightarrow> Authorization list \<Rightarrow> go_error + (string \<times> authorization) list \<times> string" where
  "validateAuthorizations e c grants =
     bind_r (authorize_all e c [] grants) (\<lambda>values.
     bind_r (fail_if (\<not> (\<exists>m \<in> set_option (map_of values ''maestro''). az_Role m = ''hub''))
       (errors_New ''agent authorizations require the canonical Maestro identity'')) (\<lambda>_.
     Inr (values, authorizationFingerprint e values)))"

section \<open>The adapter\<close>

record Adapter =
  ad_Runtime :: string
  ad_Catalog :: Catalog
  ad_Authorizations :: "(string \<times> authorization) list"

definition adapterEvents :: "(string \<times> (string \<times> string) list) list" where
  "adapterEvents =
    [(''claude'', [(''agent_branch_start'', ''branch_start''), (''agent_child_start'', ''child_start''),
                   (''pre_tool_use'', ''tool_request''), (''agent_child_stop'', ''child_finish''),
                   (''agent_branch_stop'', ''branch_finish'')]),
     (''codex'', [(''collaboration_branch_start'', ''branch_start''), (''collaboration_child_start'', ''child_start''),
                  (''tool_call_guard'', ''tool_request''), (''collaboration_child_stop'', ''child_finish''),
                  (''collaboration_branch_stop'', ''branch_finish'')])]"

definition semantic_event :: "Adapter \<Rightarrow> string \<Rightarrow> string option" where
  "semantic_event a name =
     (case map_of adapterEvents (ad_Runtime a) of None \<Rightarrow> None | Some m \<Rightarrow> map_of m name)"

definition nativeEvent :: "Adapter \<Rightarrow> string \<Rightarrow> string" where
  "nativeEvent a semantic =
     (case map_of adapterEvents (ad_Runtime a) of None \<Rightarrow> []
      | Some m \<Rightarrow> (case find (\<lambda>(_, s). s = semantic) m of None \<Rightarrow> [] | Some (n, _) \<Rightarrow> n))"

definition allowed :: Decision where
  "allowed = \<lparr>dc_Allowed = True, dc_Code = ''allowed''\<rparr>"

definition denied :: "string \<Rightarrow> Decision" where
  "denied code = \<lparr>dc_Allowed = False, dc_Code = code\<rparr>"

definition RoleForAgent :: "Adapter \<Rightarrow> string \<Rightarrow> string option" where
  "RoleForAgent a agentID = map_option az_Role (map_of (ad_Authorizations a) agentID)"

definition authenticate :: "orch_env \<Rightarrow> Adapter \<Rightarrow> string \<Rightarrow> string \<Rightarrow> authorization option" where
  "authenticate e a agentID capability =
     (case map_of (ad_Authorizations a) agentID of
        None \<Rightarrow> None
      | Some v \<Rightarrow> if capability = [] then None
                  else if az_CapabilitySHA256 v = oe_SHA256 e capability then Some v else None)"

text \<open>A refreshed store, with the lock held, or the reason why not.\<close>

definition bind_locked :: "orch_env \<Rightarrow> StateStore \<Rightarrow> string \<Rightarrow> disk \<Rightarrow> (go_error + unit) \<times> StateStore \<times> disk" where
  "bind_locked e st policy d =
     (case refreshLocked e st d of
        Inl x \<Rightarrow> (Inl x, st, d)
      | Inr st1 \<Rightarrow>
          if sn_PolicySHA256 (so_State st1) = [] then
            let st2 = st1\<lparr>so_State := (so_State st1)\<lparr>sn_PolicySHA256 := policy\<rparr>\<rparr>;
                (r, d2) = persistLocked e st2 d
            in (r, st2, d2)
          else (fail_if (sn_PolicySHA256 (so_State st1) \<noteq> policy)
                  (errors_New ''orchestration state store authorization policy changed''), st1, d))"

definition bindPolicy :: "orch_env \<Rightarrow> StateStore \<Rightarrow> string \<Rightarrow> disk \<Rightarrow> (go_error + unit) \<times> StateStore \<times> disk" where
  "bindPolicy e st policy d =
     (case lock_store e st d of
        Inl x \<Rightarrow> (Inl x, st, d)
      | Inr d1 \<Rightarrow> (let (r, st2, d2) = bind_locked e st policy d1 in (r, st2, unlock_store e st d2)))"

definition root_authorized :: "Adapter \<Rightarrow> StateSnapshot \<Rightarrow> bool" where
  "root_authorized a s \<longleftrightarrow>
     (\<exists>root \<in> set_option (map_of (ad_Authorizations a) (sn_RootID s)).
        az_Scope root = sn_ScopeID s \<and> az_ScopeKind root = sn_ScopeKind s
        \<and> AllowsDelegation (ad_Catalog a) ''hub'' (az_Role root) 1)"

definition validateStoreState :: "Adapter \<Rightarrow> StateStore \<Rightarrow> go_error + unit" where
  "validateStoreState a st =
     (let s = so_State st in
      if sn_BranchID s = [] then Inr ()
      else checks
        [fail_if (sn_ChildID s \<noteq> [] \<or> sn_ChildDispatchID s \<noteq> [])
           (errors_New ''orchestration state contains a forbidden nested child''),
         fail_if (\<not> root_authorized a s \<or> is_zero (sn_Updated s))
           (errors_New ''orchestration state references an unauthorized root'')])"

definition NewAdapter ::
    "orch_env \<Rightarrow> string \<Rightarrow> Catalog \<Rightarrow> Authorization list \<Rightarrow> StateStore \<Rightarrow> disk
     \<Rightarrow> (go_error + Adapter) \<times> StateStore \<times> disk" where
  "NewAdapter e runtime c grants st d =
     (case bind_r (checks [fail_if (map_of adapterEvents runtime = None)
                             (errors_New ''agent orchestration runtime is unsupported''),
                           Validate c]) (\<lambda>_. validateAuthorizations e c grants) of
        Inl x \<Rightarrow> (Inl x, st, d)
      | Inr (values, policy) \<Rightarrow>
          let a = \<lparr>ad_Runtime = runtime, ad_Catalog = c, ad_Authorizations = values\<rparr> in
          (case bindPolicy e st policy d of
             (Inl x, st1, d1) \<Rightarrow> (Inl x, st1, d1)
           | (Inr _, st1, d1) \<Rightarrow>
               (case validateStoreState a st1 of
                  Inl x \<Rightarrow> (Inl x, st1, d1)
                | Inr _ \<Rightarrow> (Inr a, st1, d1))))"

section \<open>Decisions\<close>

definition startBranch ::
    "Adapter \<Rightarrow> NativeEvent \<Rightarrow> authorization \<Rightarrow> StateSnapshot \<Rightarrow> Decision \<times> StateSnapshot" where
  "startBranch a ev actor s =
     (if sn_BranchID s \<noteq> [] then (denied ''branch_active'', s)
      else (case map_of (ad_Authorizations a) (ne_TargetID ev) of
          None \<Rightarrow> (denied ''target_denied'', s)
        | Some target \<Rightarrow>
            if ne_BranchID ev = [] \<or> ne_Scope ev = [] \<or> az_Role actor \<noteq> ''hub'' \<or> ne_ActorID ev \<noteq> ''maestro''
               \<or> az_Scope target \<noteq> ne_Scope ev \<or> az_ScopeKind target \<noteq> ne_ScopeKind ev
               \<or> \<not> AllowsDelegation (ad_Catalog a) (az_Role actor) (az_Role target) 1
            then (denied ''edge_denied'', s)
            else (allowed,
                  empty_snapshot\<lparr>sn_PolicySHA256 := sn_PolicySHA256 s, sn_BranchID := ne_BranchID ev,
                    sn_ScopeID := ne_Scope ev, sn_ScopeKind := az_ScopeKind target, sn_RootID := ne_TargetID ev,
                    sn_FenceEpoch := sn_FenceEpoch s + 1, sn_BreadcrumbSeq := sn_BreadcrumbSeq s,
                    sn_BreadcrumbTail := sn_BreadcrumbTail s\<rparr>)))"

text \<open>Depth one: a child is never started.\<close>

definition startChild ::
    "Adapter \<Rightarrow> NativeEvent \<Rightarrow> authorization \<Rightarrow> StateSnapshot \<Rightarrow> Decision \<times> StateSnapshot" where
  "startChild a ev actor s = (denied ''depth_one_no_children'', s)"

definition grant_matches :: "NativeEvent \<Rightarrow> string \<Rightarrow> ToolGrant \<Rightarrow> bool" where
  "grant_matches ev resource g \<longleftrightarrow>
     ne_Tool ev = tg_Tool g \<and> ne_Operation ev = tg_Operation g \<and> has_prefix resource (tg_ResourcePrefix g)"

definition guardTool :: "orch_env \<Rightarrow> Adapter \<Rightarrow> NativeEvent \<Rightarrow> authorization \<Rightarrow> StateSnapshot \<Rightarrow> Decision" where
  "guardTool e a ev actor s =
     (if \<not> (\<exists>c \<in> set_option (ContractForRole (ad_Catalog a) (az_Role actor)). rc_ToolAccess c = ''scoped'')
      then denied ''tool_denied''
      else if sn_BranchID s = [] then denied ''branch_missing''
      else if ne_BranchID ev \<noteq> sn_BranchID s \<or> ne_Scope ev \<noteq> az_Scope actor \<or> az_Scope actor \<noteq> sn_ScopeID s
              \<or> az_ScopeKind actor \<noteq> sn_ScopeKind s
      then denied ''scope_denied''
      else if ne_ActorID ev \<noteq> sn_RootID s \<and> ne_ActorID ev \<noteq> sn_ChildID s then denied ''actor_denied''
      else if (ne_ActorID ev = sn_ChildID s \<and> ne_DispatchID ev \<noteq> sn_ChildDispatchID s)
              \<or> (ne_ActorID ev = sn_RootID s \<and> ne_DispatchID ev \<noteq> [])
      then denied ''dispatch_denied''
      else (case canonicalResource (oe_Text e) (ne_Resource ev) False of
          None \<Rightarrow> denied ''resource_denied''
        | Some resource \<Rightarrow>
            if list_ex (grant_matches ev resource) (az_Tools actor) then allowed
            else denied ''resource_denied''))"

definition finishChild :: "NativeEvent \<Rightarrow> StateSnapshot \<Rightarrow> Decision \<times> StateSnapshot" where
  "finishChild ev s =
     (if sn_BranchID s = [] then (denied ''branch_missing'', s)
      else if sn_ChildID s = [] then (denied ''child_missing'', s)
      else if ne_BranchID ev \<noteq> sn_BranchID s \<or> ne_DispatchID ev \<noteq> sn_ChildDispatchID s
              \<or> ne_ActorID ev \<noteq> sn_ChildID s
      then (denied ''actor_denied'', s)
      else (allowed, s\<lparr>sn_ChildID := [], sn_ChildDispatchID := []\<rparr>))"

definition keep_trace :: "StateSnapshot \<Rightarrow> StateSnapshot" where
  "keep_trace s = empty_snapshot\<lparr>sn_PolicySHA256 := sn_PolicySHA256 s, sn_FenceEpoch := sn_FenceEpoch s,
     sn_BreadcrumbSeq := sn_BreadcrumbSeq s, sn_BreadcrumbTail := sn_BreadcrumbTail s\<rparr>"

definition finishBranch :: "NativeEvent \<Rightarrow> StateSnapshot \<Rightarrow> Decision \<times> StateSnapshot" where
  "finishBranch ev s =
     (if sn_BranchID s = [] then (denied ''branch_missing'', s)
      else if sn_ChildID s \<noteq> [] then (denied ''child_active'', s)
      else if ne_BranchID ev \<noteq> sn_BranchID s \<or> ne_ActorID ev \<noteq> sn_RootID s
      then (denied ''actor_denied'', s)
      else (allowed, keep_trace s))"

definition decide ::
    "orch_env \<Rightarrow> Adapter \<Rightarrow> string \<Rightarrow> NativeEvent \<Rightarrow> authorization \<Rightarrow> StateSnapshot \<Rightarrow> Decision \<times> StateSnapshot" where
  "decide e a sem ev actor s =
     (if sem = ''branch_start'' then startBranch a ev actor s
      else if sem = ''child_start'' then startChild a ev actor s
      else if sem = ''tool_request'' then (guardTool e a ev actor s, s)
      else if sem = ''child_finish'' then finishChild ev s
      else if sem = ''branch_finish'' then finishBranch ev s
      else (denied ''event_unsupported'', s))"

section \<open>Operations\<close>

text \<open>The body of \<open>Handle\<close> with the lock held; the clock is read twice when the event is allowed.\<close>

definition handle_locked ::
    "orch_env \<Rightarrow> Adapter \<Rightarrow> string \<Rightarrow> NativeEvent \<Rightarrow> authorization \<Rightarrow> StateStore \<Rightarrow> disk
     \<Rightarrow> Decision \<times> StateStore \<times> disk" where
  "handle_locked e a sem ev actor st d =
     (case refreshLocked e st d of
        Inl _ \<Rightarrow> (denied ''state_refresh_failed'', st, d)
      | Inr st1 \<Rightarrow>
          let previous = so_State st1 in
          if sem \<noteq> ''branch_start'' \<and> ne_FenceEpoch ev \<noteq> 0 \<and> ne_FenceEpoch ev \<noteq> sn_FenceEpoch previous
          then (denied ''fence_epoch_mismatch'', st1, d)
          else
            let (decision, s1) = decide e a sem ev actor previous;
                s2 = (if dc_Allowed decision then s1\<lparr>sn_Updated := oe_Now e 0\<rparr> else s1)
            in (case appendBreadcrumb (oe_SHA256 e) s2 sem ev decision (oe_Now e 1) of
                  Inl _ \<Rightarrow> (denied ''breadcrumb_invalid'', st1, d)
                | Inr s3 \<Rightarrow>
                    (case persistLocked e (st1\<lparr>so_State := s3\<rparr>) d of
                       (Inl _, d2) \<Rightarrow> (denied ''state_persist_failed'', st1, d2)
                     | (Inr _, d2) \<Rightarrow> (decision, st1\<lparr>so_State := s3\<rparr>, d2))))"

definition Handle :: "orch_env \<Rightarrow> Adapter \<Rightarrow> NativeEvent \<Rightarrow> StateStore \<Rightarrow> disk \<Rightarrow> Decision \<times> StateStore \<times> disk" where
  "Handle e a ev st d =
     (case semantic_event a (ne_Name ev) of
        None \<Rightarrow> (denied ''event_unsupported'', st, d)
      | Some sem \<Rightarrow>
          (case authenticate e a (ne_ActorID ev) (ne_ActorCapability ev) of
             None \<Rightarrow> (denied ''actor_denied'', st, d)
           | Some actor \<Rightarrow>
               (case lock_store e st d of
                  Inl _ \<Rightarrow> (denied ''state_lock_unavailable'', st, d)
                | Inr d1 \<Rightarrow>
                    (let (r, st2, d2) = handle_locked e a sem ev actor st d1
                     in (r, st2, unlock_store e st d2)))))"

definition active_root :: "StateSnapshot \<Rightarrow> authorization \<Rightarrow> string \<Rightarrow> string \<Rightarrow> string \<Rightarrow> string \<Rightarrow> Decision" where
  "active_root s actor actorID branchID scopeID scopeKind =
     (if sn_BranchID s = [] then denied ''branch_missing''
      else if sn_ChildID s \<noteq> [] then denied ''child_active''
      else if actorID \<noteq> sn_RootID s \<or> branchID \<noteq> sn_BranchID s \<or> scopeID \<noteq> sn_ScopeID s
              \<or> scopeKind \<noteq> sn_ScopeKind s \<or> az_Scope actor \<noteq> sn_ScopeID s \<or> az_ScopeKind actor \<noteq> sn_ScopeKind s
      then denied ''actor_denied'' else allowed)"

definition AuthorizeActiveRoot ::
    "orch_env \<Rightarrow> Adapter \<Rightarrow> string \<Rightarrow> string \<Rightarrow> string \<Rightarrow> string \<Rightarrow> string \<Rightarrow> StateStore \<Rightarrow> disk
     \<Rightarrow> Decision \<times> StateStore \<times> disk" where
  "AuthorizeActiveRoot e a actorID capability branchID scopeID scopeKind st d =
     (case authenticate e a actorID capability of
        None \<Rightarrow> (denied ''actor_denied'', st, d)
      | Some actor \<Rightarrow>
          (case lock_store e st d of
             Inl _ \<Rightarrow> (denied ''state_lock_unavailable'', st, d)
           | Inr d1 \<Rightarrow>
               (case refreshLocked e st d1 of
                  Inl _ \<Rightarrow> (denied ''state_refresh_failed'', st, unlock_store e st d1)
                | Inr st1 \<Rightarrow> (active_root (so_State st1) actor actorID branchID scopeID scopeKind,
                              st1, unlock_store e st d1))))"

definition recover_locked :: "orch_env \<Rightarrow> duration \<Rightarrow> StateStore \<Rightarrow> disk \<Rightarrow> bool \<times> StateStore \<times> disk" where
  "recover_locked e maxAge st d =
     (case refreshLocked e st d of
        Inl _ \<Rightarrow> (False, st, d)
      | Inr st1 \<Rightarrow>
          let s = so_State st1 in
          if sn_BranchID s = [] \<or> is_zero (sn_Updated s) \<or> time_sub (oe_Now e 0) (sn_Updated s) \<le> maxAge
          then (False, st1, d)
          else (case persistLocked e (st1\<lparr>so_State := keep_trace s\<rparr>) d of
              (Inl _, d2) \<Rightarrow> (False, st1, d2)
            | (Inr _, d2) \<Rightarrow> (True, st1\<lparr>so_State := keep_trace s\<rparr>, d2)))"

definition RecoverStale :: "orch_env \<Rightarrow> duration \<Rightarrow> string \<Rightarrow> StateStore \<Rightarrow> disk \<Rightarrow> bool \<times> StateStore \<times> disk" where
  "RecoverStale e maxAge capability st d =
     (if maxAge \<le> 0 \<or> so_Recovery st \<noteq> oe_SHA256 e capability then (False, st, d)
      else (case lock_store e st d of
          Inl _ \<Rightarrow> (False, st, d)
        | Inr d1 \<Rightarrow> (let (r, st2, d2) = recover_locked e maxAge st d1 in (r, st2, unlock_store e st d2))))"

section \<open>Calls of the native adapters\<close>

definition blank_event :: NativeEvent where
  "blank_event = \<lparr>ne_Name = [], ne_BranchID = [], ne_DispatchID = [], ne_ActorID = [], ne_ActorCapability = [],
     ne_TargetID = [], ne_Scope = [], ne_ScopeKind = [], ne_Tool = [], ne_Operation = [], ne_Resource = [],
     ne_FenceEpoch = 0\<rparr>"

definition StartBranch where
  "StartBranch e a actorID capability targetID branchID scopeID scopeKind st d =
     Handle e a (blank_event\<lparr>ne_Name := nativeEvent a ''branch_start'', ne_ActorID := actorID,
       ne_ActorCapability := capability, ne_TargetID := targetID, ne_BranchID := branchID,
       ne_Scope := scopeID, ne_ScopeKind := scopeKind\<rparr>) st d"

text \<open>The other four read the current epoch first, which also refreshes the store in memory.\<close>

definition fenced :: "orch_env \<Rightarrow> Adapter \<Rightarrow> NativeEvent \<Rightarrow> StateStore \<Rightarrow> disk \<Rightarrow> Decision \<times> StateStore \<times> disk" where
  "fenced e a ev st d =
     (let (s, st1) = Snapshot e st d in Handle e a (ev\<lparr>ne_FenceEpoch := sn_FenceEpoch s\<rparr>) st1 d)"

definition StartChild where
  "StartChild e a actorID capability targetID branchID dispatchID scopeID scopeKind st d =
     fenced e a (blank_event\<lparr>ne_Name := nativeEvent a ''child_start'', ne_ActorID := actorID,
       ne_ActorCapability := capability, ne_TargetID := targetID, ne_BranchID := branchID,
       ne_DispatchID := dispatchID, ne_Scope := scopeID, ne_ScopeKind := scopeKind\<rparr>) st d"

definition FinishChild where
  "FinishChild e a actorID capability branchID dispatchID st d =
     fenced e a (blank_event\<lparr>ne_Name := nativeEvent a ''child_finish'', ne_ActorID := actorID,
       ne_ActorCapability := capability, ne_BranchID := branchID, ne_DispatchID := dispatchID\<rparr>) st d"

definition FinishBranch where
  "FinishBranch e a actorID capability branchID st d =
     fenced e a (blank_event\<lparr>ne_Name := nativeEvent a ''branch_finish'', ne_ActorID := actorID,
       ne_ActorCapability := capability, ne_BranchID := branchID\<rparr>) st d"

definition GuardTool where
  "GuardTool e a actorID capability branchID dispatchID scopeID scopeKind tool operation resource st d =
     fenced e a (blank_event\<lparr>ne_Name := nativeEvent a ''tool_request'', ne_ActorID := actorID,
       ne_ActorCapability := capability, ne_BranchID := branchID, ne_DispatchID := dispatchID,
       ne_Scope := scopeID, ne_ScopeKind := scopeKind, ne_Tool := tool, ne_Operation := operation,
       ne_Resource := resource\<rparr>) st d"

end
