(* ===== verification/OrchSystem.thy ===== *)
theory OrchSystem
  imports OrchController
begin

text \<open>
  Processes that share the state file. Each process has an adapter and its own copy of the state
  in memory; every operation of the package is one step, since it holds the lock file while it
  reads and writes. The environment of a step is arbitrary, so any call of the operating system
  may fail; only the digest function is fixed.
\<close>

section \<open>What an event does to the state\<close>

text \<open>The state that is persisted for an event: the decision's change and its breadcrumb.\<close>

definition after_event ::
    "orch_env \<Rightarrow> Adapter \<Rightarrow> string \<Rightarrow> NativeEvent \<Rightarrow> authorization \<Rightarrow> StateSnapshot \<Rightarrow> Decision \<Rightarrow> StateSnapshot \<Rightarrow> bool" where
  "after_event e a sem ev actor s dec s3 \<longleftrightarrow>
     (\<exists>s1. decide e a sem ev actor s = (dec, s1)
        \<and> appendBreadcrumb (oe_SHA256 e) (if dc_Allowed dec then s1\<lparr>sn_Updated := oe_Now e 0\<rparr> else s1)
            sem ev dec (oe_Now e 1) = Inr s3)"

definition fence_ok :: "string \<Rightarrow> NativeEvent \<Rightarrow> StateSnapshot \<Rightarrow> bool" where
  "fence_ok sem ev s \<longleftrightarrow> sem = ''branch_start'' \<or> ne_FenceEpoch ev = 0 \<or> ne_FenceEpoch ev = sn_FenceEpoch s"

lemma denied_code [simp]: "dc_Allowed (denied c) = False" "dc_Code (denied c) = c"
  "dc_Allowed allowed = True" "denied c = denied c' \<longleftrightarrow> c = c'" "allowed \<noteq> denied c"
  by (simp_all add: denied_def allowed_def)

lemma handle_locked_cases:
  assumes "handle_locked e a sem ev actor st d = (r, st', d')"
  obtains (refused) "\<not> dc_Allowed r" "d' = d" "st' = st \<or> refreshLocked e st d = Inr st'"
    "dc_Code r \<in> {''state_refresh_failed'', ''fence_epoch_mismatch'', ''breadcrumb_invalid''}"
  | (failed) st1 s3 dec x where "refreshLocked e st d = Inr st1" "fence_ok sem ev (so_State st1)"
      "after_event e a sem ev actor (so_State st1) dec s3" "persistLocked e (st1\<lparr>so_State := s3\<rparr>) d = (Inl x, d')"
      "r = denied ''state_persist_failed''" "st' = st1"
  | (kept) st1 s3 where "refreshLocked e st d = Inr st1" "fence_ok sem ev (so_State st1)"
      "after_event e a sem ev actor (so_State st1) r s3" "persistLocked e (st1\<lparr>so_State := s3\<rparr>) d = (Inr (), d')"
      "st' = st1\<lparr>so_State := s3\<rparr>"
proof (cases "refreshLocked e st d")
  case (Inl x)
  with assms show ?thesis by (intro refused) (auto simp: handle_locked_def)
next
  case (Inr st1)
  show ?thesis
  proof (cases "fence_ok sem ev (so_State st1)")
    case False
    with assms Inr show ?thesis
      by (intro refused) (auto simp: handle_locked_def fence_ok_def Let_def)
  next
    case True
    obtain dec s1 where dec: "decide e a sem ev actor (so_State st1) = (dec, s1)" by fastforce
    let ?s2 = "if dc_Allowed dec then s1\<lparr>sn_Updated := oe_Now e 0\<rparr> else s1"
    show ?thesis
    proof (cases "appendBreadcrumb (oe_SHA256 e) ?s2 sem ev dec (oe_Now e 1)")
      case (Inl x)
      with assms Inr True dec show ?thesis
        by (intro refused) (auto simp: handle_locked_def fence_ok_def Let_def)
    next
      case (Inr s3)
      then have ae: "after_event e a sem ev actor (so_State st1) dec s3"
        using dec by (auto simp: after_event_def)
      obtain q d2 where p: "persistLocked e (st1\<lparr>so_State := s3\<rparr>) d = (q, d2)" by fastforce
      have h: "handle_locked e a sem ev actor st d =
          (case q of Inl _ \<Rightarrow> (denied ''state_persist_failed'', st1, d2)
           | Inr _ \<Rightarrow> (dec, st1\<lparr>so_State := s3\<rparr>, d2))"
        using \<open>refreshLocked e st d = Inr st1\<close> True dec Inr p
        by (auto simp: handle_locked_def fence_ok_def Let_def split: sum.splits)
      show ?thesis
      proof (cases q)
        case (Inl x)
        with h assms p ae True \<open>refreshLocked e st d = Inr st1\<close> show ?thesis by (intro failed) auto
      next
        case (Inr u)
        with h assms p ae True \<open>refreshLocked e st d = Inr st1\<close> show ?thesis by (intro kept) auto
      qed
    qed
  qed
qed

lemma Handle_cases:
  assumes "Handle e a ev st d = (r, st', d')"
  obtains (early) "\<not> dc_Allowed r" "st' = st" "d' = d"
  | (locked) sem actor d1 d2 where "semantic_event a (ne_Name ev) = Some sem"
      "authenticate e a (ne_ActorID ev) (ne_ActorCapability ev) = Some actor" "lock_store e st d = Inr d1"
      "handle_locked e a sem ev actor st d1 = (r, st', d2)" "d' = unlock_store e st d2"
proof (cases "semantic_event a (ne_Name ev)")
  case None
  with assms show ?thesis by (intro early) (auto simp: Handle_def)
next
  case (Some sem)
  show ?thesis
  proof (cases "authenticate e a (ne_ActorID ev) (ne_ActorCapability ev)")
    case None
    with assms Some show ?thesis by (intro early) (auto simp: Handle_def)
  next
    case actor: (Some actor)
    show ?thesis
    proof (cases "lock_store e st d")
      case (Inl x)
      with assms Some actor show ?thesis by (intro early) (auto simp: Handle_def)
    next
      case (Inr d1)
      obtain r2 st2 d2 where "handle_locked e a sem ev actor st d1 = (r2, st2, d2)" by (metis prod_cases3)
      with assms Some actor Inr show ?thesis by (intro locked) (auto simp: Handle_def)
    qed
  qed
qed

section \<open>The changes of a branch\<close>

text \<open>
  What the decision does before the breadcrumb: nothing, or the start or the end of a branch.
\<close>

lemma startBranch_cases:
  assumes "startBranch a ev actor s = (dec, s1)"
  shows "\<not> dc_Allowed dec \<and> s1 = s
    \<or> dec = allowed \<and> sn_BranchID s = [] \<and> ne_ActorID ev = ''maestro'' \<and> az_Role actor = ''hub''
      \<and> ne_BranchID ev \<noteq> [] \<and> ne_Scope ev \<noteq> []
      \<and> (\<exists>target. map_of (ad_Authorizations a) (ne_TargetID ev) = Some target
           \<and> az_Scope target = ne_Scope ev \<and> az_ScopeKind target = ne_ScopeKind ev
           \<and> AllowsDelegation (ad_Catalog a) ''hub'' (az_Role target) 1)
      \<and> s1 = (keep_trace s)\<lparr>sn_BranchID := ne_BranchID ev, sn_ScopeID := ne_Scope ev,
                sn_ScopeKind := ne_ScopeKind ev, sn_RootID := ne_TargetID ev,
                sn_FenceEpoch := sn_FenceEpoch s + 1\<rparr>"
  using assms
  by (auto simp: startBranch_def keep_trace_def allowed_def denied_def empty_snapshot_def
      split: if_splits option.splits)

lemma finishBranch_cases:
  assumes "finishBranch ev s = (dec, s1)"
  shows "\<not> dc_Allowed dec \<and> s1 = s
    \<or> dec = allowed \<and> sn_BranchID s \<noteq> [] \<and> sn_ChildID s = [] \<and> ne_BranchID ev = sn_BranchID s
      \<and> ne_ActorID ev = sn_RootID s \<and> s1 = keep_trace s"
  using assms by (auto simp: finishBranch_def split: if_splits)

lemma finishChild_idle:
  "sn_ChildID s = [] \<Longrightarrow> finishChild ev s = (dec, s1) \<Longrightarrow> \<not> dc_Allowed dec \<and> s1 = s"
  by (auto simp: finishChild_def split: if_splits)

lemma decide_cases:
  assumes "decide e a sem ev actor s = (dec, s1)" "sn_ChildID s = []"
  obtains (nothing) "\<not> dc_Allowed dec" "s1 = s"
  | (start) target where "sem = ''branch_start''" "dec = allowed" "sn_BranchID s = []"
      "ne_ActorID ev = ''maestro''" "az_Role actor = ''hub''" "ne_BranchID ev \<noteq> []" "ne_Scope ev \<noteq> []"
      "map_of (ad_Authorizations a) (ne_TargetID ev) = Some target"
      "az_Scope target = ne_Scope ev" "az_ScopeKind target = ne_ScopeKind ev"
      "AllowsDelegation (ad_Catalog a) ''hub'' (az_Role target) 1"
      "s1 = (keep_trace s)\<lparr>sn_BranchID := ne_BranchID ev, sn_ScopeID := ne_Scope ev,
                sn_ScopeKind := ne_ScopeKind ev, sn_RootID := ne_TargetID ev,
                sn_FenceEpoch := sn_FenceEpoch s + 1\<rparr>"
  | (tool) "sem = ''tool_request''" "dec = guardTool e a ev actor s" "dc_Allowed dec" "s1 = s"
  | (finish) "sem = ''branch_finish''" "dec = allowed" "sn_BranchID s \<noteq> []" "ne_BranchID ev = sn_BranchID s"
      "ne_ActorID ev = sn_RootID s" "s1 = keep_trace s"
proof (cases "dc_Allowed dec")
  case False
  have "s1 = s"
    using assms False startBranch_cases [of a ev actor s dec s1] finishBranch_cases [of ev s dec s1]
      finishChild_idle [of s ev dec s1]
    by (auto simp: decide_def startChild_def split: if_splits)
  with False show ?thesis by (rule nothing)
next
  case True
  have "sem = ''branch_start'' \<and> startBranch a ev actor s = (dec, s1)
      \<or> sem = ''tool_request'' \<and> guardTool e a ev actor s = dec \<and> s1 = s
      \<or> sem = ''branch_finish'' \<and> finishBranch ev s = (dec, s1)"
    using assms(1) True finishChild_idle [OF assms(2), of ev dec s1]
    by (simp add: decide_def startChild_def split: if_split_asm) auto
  then consider "sem = ''branch_start''" "startBranch a ev actor s = (dec, s1)"
    | "sem = ''tool_request''" "guardTool e a ev actor s = dec" "s1 = s"
    | "sem = ''branch_finish''" "finishBranch ev s = (dec, s1)" by blast
  then show ?thesis
  proof cases
    case 1
    from startBranch_cases [OF 1(2)] True 1(1) show ?thesis
      by (elim disjE exE conjE) (simp, rule start, assumption+)
  next
    case 2
    with True show ?thesis by (intro tool) simp_all
  next
    case 3
    from finishBranch_cases [OF 3(2)] True 3(1) show ?thesis
      by (elim disjE exE conjE) (simp, rule finish, assumption+)
  qed
qed

section \<open>The policy of an adapter\<close>

definition grants_bound :: "text_lib \<Rightarrow> authorization \<Rightarrow> bool" where
  "grants_bound tx v \<longleftrightarrow> (\<forall>g \<in> set (az_Tools v).
     (\<exists>w. canonicalResource tx w True = Some (tg_ResourcePrefix g))
     \<and> resourceBoundToScope tx (tg_ResourcePrefix g) (az_Scope v) (az_ScopeKind v))"

definition policy_ok :: "text_lib \<Rightarrow> (string \<times> authorization) list \<Rightarrow> bool" where
  "policy_ok tx au \<longleftrightarrow> distinct (map fst au)
     \<and> (\<forall>(i, v) \<in> set au. ValidAgentID i \<and> role_scope_kind (az_Role v) (az_ScopeKind v)
          \<and> (az_Role v = ''hub'' \<longleftrightarrow> az_Scope v = []) \<and> grants_bound tx v)"

lemma normal_grants_bound:
  "normal_grants tx contract g ts = Inr ts' \<Longrightarrow>
     (\<forall>t \<in> set ts'. (\<exists>w. canonicalResource tx w True = Some (tg_ResourcePrefix t))
        \<and> resourceBoundToScope tx (tg_ResourcePrefix t) (au_Scope g) (au_ScopeKind g))"
  by (induction ts arbitrary: ts')
    (auto simp: bind_r_Inr normal_grant_def split: option.splits if_splits, blast)

lemma authorize_ok:
  assumes "authorize e c vals g = Inr v"
  shows "ValidAgentID (au_AgentID g)" "map_of vals (au_AgentID g) = None"
    "role_scope_kind (az_Role v) (az_ScopeKind v)" "az_Role v = ''hub'' \<longleftrightarrow> az_Scope v = []"
    "grants_bound (oe_Text e) v"
proof -
  let ?g = "g\<lparr>au_Role := CanonicalRole c (au_Role g)\<rparr>"
  from assms obtain contract where contract: "ContractForRole c (CanonicalRole c (au_Role g)) = Some contract"
    by (cases "ContractForRole c (CanonicalRole c (au_Role g))") (simp_all add: authorize_def Let_def bind_r_Inr)
  from assms [unfolded authorize_def Let_def contract option.case bind_r_Inr]
  obtain tools where t: "normal_grants (oe_Text e) contract ?g (au_Tools g) = Inr tools"
    and v: "v = \<lparr>az_Role = CanonicalRole c (au_Role g), az_Scope = au_Scope g, az_ScopeKind = au_ScopeKind g,
               az_CapabilitySHA256 = oe_SHA256 e (au_Capability g), az_Tools = sort_key grant_key tools\<rparr>"
    and f: "ValidAgentID (au_AgentID g)" "map_of vals (au_AgentID g) = None"
      "role_scope_kind (CanonicalRole c (au_Role g)) (au_ScopeKind g)"
      "CanonicalRole c (au_Role g) = ''hub'' \<longrightarrow> au_Scope g = []"
      "CanonicalRole c (au_Role g) \<noteq> ''hub'' \<longrightarrow> au_Scope g \<noteq> []"
    by simp blast
  from f show "ValidAgentID (au_AgentID g)" "map_of vals (au_AgentID g) = None"
    "role_scope_kind (az_Role v) (az_ScopeKind v)" "az_Role v = ''hub'' \<longleftrightarrow> az_Scope v = []"
    by (auto simp: v)
  show "grants_bound (oe_Text e) v"
    using normal_grants_bound [OF t] by (simp add: grants_bound_def v)
qed

lemma authorize_all_ok:
  "policy_ok (oe_Text e) vals \<Longrightarrow> authorize_all e c vals gs = Inr au \<Longrightarrow> policy_ok (oe_Text e) au"
proof (induction gs arbitrary: vals)
  case (Cons g gs)
  then obtain v where v: "authorize e c vals g = Inr v"
    and r: "authorize_all e c (vals @ [(au_AgentID g, v)]) gs = Inr au"
    by (auto simp: bind_r_Inr)
  have "au_AgentID g \<notin> fst ` set vals" using authorize_ok(2) [OF v] by (simp add: map_of_eq_None_iff)
  then have "policy_ok (oe_Text e) (vals @ [(au_AgentID g, v)])"
    using Cons.prems(1) authorize_ok [OF v] by (auto simp: policy_ok_def)
  from Cons.IH [OF this r] show ?case .
qed simp

lemma validateAuthorizations_ok:
  "validateAuthorizations e c grants = Inr (au, fp) \<Longrightarrow>
     policy_ok (oe_Text e) au \<and> fp = authorizationFingerprint e au
     \<and> (\<exists>m. map_of au ''maestro'' = Some m \<and> az_Role m = ''hub'')"
  using authorize_all_ok [of e "[]" c grants au]
  by (auto simp: validateAuthorizations_def bind_r_Inr policy_ok_def)

lemma NewAdapter_ok:
  assumes "NewAdapter e rt c grants st d = (Inr a, st', d')"
  shows "ad_Catalog a = c" "Validate c = Inr ()" "policy_ok (oe_Text e) (ad_Authorizations a)"
    "\<exists>fp. validateAuthorizations e c grants = Inr (ad_Authorizations a, fp)"
proof -
  from assms obtain au fp where v: "Validate c = Inr ()" "validateAuthorizations e c grants = Inr (au, fp)"
    and a: "a = \<lparr>ad_Runtime = rt, ad_Catalog = c, ad_Authorizations = au\<rparr>"
    by (auto simp: NewAdapter_def bind_r_Inr Let_def split: sum.splits prod.splits)
  then show "ad_Catalog a = c" "Validate c = Inr ()" "policy_ok (oe_Text e) (ad_Authorizations a)"
    "\<exists>fp. validateAuthorizations e c grants = Inr (ad_Authorizations a, fp)"
    using validateAuthorizations_ok [OF v(2)] by auto
qed

section \<open>Tool calls\<close>

lemma guardTool_allowed:
  assumes "dc_Allowed (guardTool e a ev actor s)"
  obtains r g where "sn_BranchID s \<noteq> []" "ne_BranchID ev = sn_BranchID s" "az_Scope actor = sn_ScopeID s"
    "az_ScopeKind actor = sn_ScopeKind s" "ne_ActorID ev = sn_RootID s \<or> ne_ActorID ev = sn_ChildID s"
    "canonicalResource (oe_Text e) (ne_Resource ev) False = Some r" "g \<in> set (az_Tools actor)"
    "tg_Tool g = ne_Tool ev" "tg_Operation g = ne_Operation ev" "has_prefix r (tg_ResourcePrefix g)"
  using assms
  by (auto simp: guardTool_def list_ex_iff grant_matches_def split: if_split_asm option.splits)

lemma guardTool_within:
  assumes "dc_Allowed (guardTool e a ev actor s)" "grants_bound (oe_Text e) actor"
  shows "\<exists>r. canonicalResource (oe_Text e) (ne_Resource ev) False = Some r
     \<and> ResourceWithinScope (oe_Text e) r (sn_ScopeKind s) (sn_ScopeID s)"
proof -
  from assms(1) obtain r g where r: "canonicalResource (oe_Text e) (ne_Resource ev) False = Some r"
    and g: "g \<in> set (az_Tools actor)" "has_prefix r (tg_ResourcePrefix g)"
    and sc: "az_Scope actor = sn_ScopeID s" "az_ScopeKind actor = sn_ScopeKind s"
    by (rule guardTool_allowed)
  from assms(2) g(1) obtain w where w: "canonicalResource (oe_Text e) w True = Some (tg_ResourcePrefix g)"
    "resourceBoundToScope (oe_Text e) (tg_ResourcePrefix g) (sn_ScopeID s) (sn_ScopeKind s)"
    using sc by (auto simp: grants_bound_def)
  from bound_prefix_within [OF r w g(2)] r show ?thesis by blast
qed

lemma authenticate_in:
  "authenticate e a i cap = Some v \<Longrightarrow> (i, v) \<in> set (ad_Authorizations a)"
  by (auto simp: authenticate_def split: option.splits if_splits dest: map_of_SomeD)

end
