(* ===== verification/OrchInvariant.thy ===== *)
theory OrchInvariant
  imports OrchSystem
begin

text \<open>
  The invariant of the shared state and the refinement of an abstract machine: one branch at a
  time, held by an authorized root, under an epoch that counts the branches started.
\<close>

section \<open>Texts that survive the file\<close>

lemma ascii_classes:
  "\<forall>c. is_hex c \<or> token_char c \<or> is_lower c \<or> is_digit c \<or> c = CHR ''-'' \<longrightarrow> low_byte c"
  by code_simp

lemma ascii_list: "(\<And>c. P c \<Longrightarrow> low_byte c) \<Longrightarrow> list_all P s \<Longrightarrow> valid_utf8 s"
  by (rule valid_utf8_ascii) (auto simp: is_ascii_def low_byte_def list_all_iff)

lemma validDigest_utf8: "validDigest s \<Longrightarrow> valid_utf8 s"
  by (rule ascii_list [where P = is_hex]) (simp_all add: ascii_classes validDigest_def hex_decodable_def)

lemma token_utf8: "validBreadcrumbToken s n \<Longrightarrow> valid_utf8 s"
  by (cases "s = []", simp add: valid_utf8_def, rule ascii_list [where P = token_char])
    (simp_all add: ascii_classes validBreadcrumbToken_def)

lemma agent_id_utf8: "ValidAgentID s \<Longrightarrow> valid_utf8 s"
  by (rule ascii_list [where P = "\<lambda>c. is_lower c \<or> is_digit c \<or> c = CHR ''-''"])
    (auto simp: ascii_classes ValidAgentID_def)

lemma event_utf8: "s \<in> set breadcrumbEvents \<Longrightarrow> valid_utf8 s"
proof -
  have "list_all valid_utf8 breadcrumbEvents" by code_simp
  then show "s \<in> set breadcrumbEvents \<Longrightarrow> valid_utf8 s" by (simp add: list_all_iff)
qed

lemma valid_breadcrumb_decode:
  assumes "validateBreadcrumb sha b = Inr ()"
  shows "decode_breadcrumb b = b"
proof -
  have empty: "valid_utf8 []" by (simp add: valid_utf8_def)
  have v: "valid_utf8 (bc_Event b)" "valid_utf8 (bc_ActorID b)" "valid_utf8 (bc_TargetID b)"
    "valid_utf8 (bc_BranchID b)" "valid_utf8 (bc_DispatchID b)" "valid_utf8 (bc_Tool b)"
    "valid_utf8 (bc_Operation b)" "valid_utf8 (bc_ResourceSHA256 b)" "valid_utf8 (bc_DecisionCode b)"
    "valid_utf8 (bc_PreviousDigest b)" "valid_utf8 (bc_Digest b)"
    using assms empty event_utf8 agent_id_utf8 token_utf8 validDigest_utf8
    by (auto simp: validateBreadcrumb_def)
  then show ?thesis by (simp add: decode_breadcrumb_def valid_utf8_def)
qed

section \<open>The invariant of a state\<close>

text \<open>
  The policy's scopes are UTF-8 text, and a digest is 64 hexadecimal digits: what the
  configuration files and SHA-256 give.
\<close>

definition utf8_policy :: "(string \<times> authorization) list \<Rightarrow> bool" where
  "utf8_policy au \<longleftrightarrow> (\<forall>(i, v) \<in> set au. valid_utf8 (az_Scope v))"

definition good_digest :: "(string \<Rightarrow> string) \<Rightarrow> bool" where
  "good_digest sha \<longleftrightarrow> (\<forall>x. validDigest (sha x))"

definition state_ok :: "(string \<Rightarrow> string) \<Rightarrow> Adapter \<Rightarrow> StateSnapshot \<Rightarrow> bool" where
  "state_ok sha a s \<longleftrightarrow> validateSnapshot sha s = Inr () \<and> sn_ChildID s = [] \<and> sn_ChildDispatchID s = []
     \<and> valid_utf8 (sn_PolicySHA256 s) \<and> validBreadcrumbToken (sn_BranchID s) 128 \<and> valid_utf8 (sn_ScopeID s)
     \<and> valid_utf8 (sn_ScopeKind s) \<and> valid_utf8 (sn_RootID s)
     \<and> (sn_BranchID s = [] \<or> root_authorized a s)"

lemma empty_text [simp]: "valid_utf8 []" "validBreadcrumbToken [] n"
  by (simp_all add: valid_utf8_def validBreadcrumbToken_def)

lemma state_ok_utf8: "state_ok sha a s \<Longrightarrow> utf8_snapshot s"
proof -
  assume s: "state_ok sha a s"
  then have "\<forall>b \<in> set (sn_BreadcrumbTail s). validateBreadcrumb sha b = Inr ()"
    by (simp add: state_ok_def validateSnapshot_iff)
  then have "map decode_breadcrumb (sn_BreadcrumbTail s) = sn_BreadcrumbTail s"
    by (intro map_idI valid_breadcrumb_decode) blast
  moreover have "valid_utf8 (sn_BranchID s)" using s token_utf8 by (auto simp: state_ok_def)
  ultimately show "utf8_snapshot s"
    using s by (simp add: utf8_snapshot_def decode_snapshot_def state_ok_def valid_utf8_def)
qed

lemma scope_kind_text: "role_scope_kind r k \<Longrightarrow> k \<noteq> [] \<and> valid_utf8 k"
proof -
  have "list_all (\<lambda>(r, ks). list_all (\<lambda>k. k \<noteq> [] \<and> valid_utf8 k) ks) roleScopeKinds" by code_simp
  then show "role_scope_kind r k \<Longrightarrow> k \<noteq> [] \<and> valid_utf8 k"
    by (fastforce simp: role_scope_kind_def list_all_iff split: option.splits dest: map_of_SomeD)
qed

text \<open>Fields the structural checks do not look at.\<close>

lemma validateSnapshot_other [simp]:
  "validateSnapshot sha (s\<lparr>sn_Updated := t\<rparr>) = validateSnapshot sha s"
  "validateSnapshot sha (s\<lparr>sn_PolicySHA256 := p\<rparr>) = validateSnapshot sha s"
  by (simp_all add: validateSnapshot_def)

lemma root_authorized_other [simp]:
  "root_authorized a (s\<lparr>sn_Updated := t\<rparr>) = root_authorized a s"
  "root_authorized a (s\<lparr>sn_PolicySHA256 := p\<rparr>) = root_authorized a s"
  "root_authorized a (s\<lparr>sn_BreadcrumbSeq := n, sn_BreadcrumbTail := bs\<rparr>) = root_authorized a s"
  by (simp_all add: root_authorized_def)

lemma state_ok_empty: "state_ok sha a empty_snapshot"
  by (simp add: state_ok_def empty_snapshot_def validateSnapshot_iff)

lemma state_ok_policy: "state_ok sha a s \<Longrightarrow> valid_utf8 p \<Longrightarrow> state_ok sha a (s\<lparr>sn_PolicySHA256 := p\<rparr>)"
  by (simp add: state_ok_def)

lemma state_ok_updated: "state_ok sha a s \<Longrightarrow> state_ok sha a (s\<lparr>sn_Updated := t\<rparr>)"
  by (simp add: state_ok_def)

lemma state_ok_keep_trace: "state_ok sha a s \<Longrightarrow> state_ok sha a (keep_trace s)"
  by (auto simp: state_ok_def validateSnapshot_iff keep_trace_def empty_snapshot_def)

lemma appendBreadcrumb_fields:
  assumes "appendBreadcrumb sha s ev ne d t = Inr s'"
  shows "s' = s\<lparr>sn_BreadcrumbSeq := sn_BreadcrumbSeq s + 1,
      sn_BreadcrumbTail := last_n 64 (sn_BreadcrumbTail s @ [new_breadcrumb sha s ev ne d t])\<rparr>"
    "validBreadcrumbToken (ne_BranchID ne) 128" "ne_TargetID ne = [] \<or> ValidAgentID (ne_TargetID ne)"
    "ValidAgentID (ne_ActorID ne)"
  using assms by (auto simp: appendBreadcrumb_Inr validateBreadcrumb_def new_breadcrumb_def Let_def)

lemma state_ok_append:
  assumes "state_ok sha a s" "appendBreadcrumb sha s ev ne d t = Inr s'"
  shows "state_ok sha a s'"
proof -
  have "validateSnapshot sha s' = Inr ()"
    using appendBreadcrumb_valid assms by (simp add: state_ok_def)
  with assms(1) show ?thesis
    by (simp add: state_ok_def appendBreadcrumb_fields(1) [OF assms(2)])
qed

text \<open>The events keep the invariant.\<close>

lemma after_event_ok:
  assumes "state_ok (oe_SHA256 e) a s" "after_event e a sem ev actor s dec s3"
    and p: "policy_ok tx (ad_Authorizations a)" "utf8_policy (ad_Authorizations a)"
  shows "state_ok (oe_SHA256 e) a s3"
proof -
  from assms(2) obtain s1 where d: "decide e a sem ev actor s = (dec, s1)"
    and ap: "appendBreadcrumb (oe_SHA256 e) (if dc_Allowed dec then s1\<lparr>sn_Updated := oe_Now e 0\<rparr> else s1)
            sem ev dec (oe_Now e 1) = Inr s3" by (auto simp: after_event_def)
  have c: "sn_ChildID s = []" using assms(1) by (simp add: state_ok_def)
  from d c have "state_ok (oe_SHA256 e) a s1"
  proof (cases rule: decide_cases)
    case (start target)
    have t: "valid_utf8 (az_Scope target)" "role_scope_kind (az_Role target) (az_ScopeKind target)"
      "ValidAgentID (ne_TargetID ev)"
      using p map_of_SomeD [OF start(8)] by (auto simp: policy_ok_def utf8_policy_def)
    have b: "validBreadcrumbToken (ne_BranchID ev) 128" using appendBreadcrumb_fields(2) [OF ap] .
    have n: "ne_TargetID ev \<noteq> []" using t(3) by (simp add: ValidAgentID_def)
    show ?thesis
      using assms(1) start t b n scope_kind_text [OF t(2)] agent_id_utf8 [OF t(3)]
      by (simp add: state_ok_def validateSnapshot_iff keep_trace_def empty_snapshot_def root_authorized_def)
  qed (use assms(1) state_ok_keep_trace in auto)
  then have "state_ok (oe_SHA256 e) a (if dc_Allowed dec then s1\<lparr>sn_Updated := oe_Now e 0\<rparr> else s1)"
    by (simp add: state_ok_updated)
  from state_ok_append [OF this ap] show ?thesis .
qed

section \<open>Processes and the shared file\<close>

record orch =
  or_Disk :: disk
  or_Stores :: "nat \<Rightarrow> StateStore"

definition bound :: "Adapter \<Rightarrow> Adapter \<Rightarrow> bool" where
  "bound a0 a \<longleftrightarrow> ad_Catalog a = ad_Catalog a0 \<and> ad_Authorizations a = ad_Authorizations a0"

definition orch_init :: "orch \<Rightarrow> bool" where
  "orch_init s \<longleftrightarrow> or_Disk s = \<lparr>dk_State = None, dk_Lock = None\<rparr>
     \<and> (\<forall>p. so_State (or_Stores s p) = empty_snapshot \<and> so_Path (or_Stores s p) \<noteq> [])"

text \<open>All adapters of an installation have the same catalog and authorizations, those of \<open>a0\<close>.\<close>

inductive orch_step :: "(string \<Rightarrow> string) \<Rightarrow> Adapter \<Rightarrow> orch \<Rightarrow> orch \<Rightarrow> bool" for sha a0 where
  step_handle:
    "oe_SHA256 e = sha \<Longrightarrow> bound a0 a \<Longrightarrow>
     Handle e a ev (or_Stores s p) (or_Disk s) = (r, st', d') \<Longrightarrow>
     orch_step sha a0 s \<lparr>or_Disk = d', or_Stores = (or_Stores s)(p := st')\<rparr>"
| step_recover:
    "oe_SHA256 e = sha \<Longrightarrow>
     RecoverStale e maxAge capability (or_Stores s p) (or_Disk s) = (r', st', d') \<Longrightarrow>
     orch_step sha a0 s \<lparr>or_Disk = d', or_Stores = (or_Stores s)(p := st')\<rparr>"
| step_active:
    "oe_SHA256 e = sha \<Longrightarrow> bound a0 a \<Longrightarrow>
     AuthorizeActiveRoot e a i cap b sc k (or_Stores s p) (or_Disk s) = (r, st', d') \<Longrightarrow>
     orch_step sha a0 s \<lparr>or_Disk = d', or_Stores = (or_Stores s)(p := st')\<rparr>"
| step_snapshot:
    "oe_SHA256 e = sha \<Longrightarrow> Snapshot e (or_Stores s p) (or_Disk s) = (snap, st') \<Longrightarrow>
     orch_step sha a0 s (s\<lparr>or_Stores := (or_Stores s)(p := st')\<rparr>)"
| step_open:
    "oe_SHA256 e = sha \<Longrightarrow> NewDurableStateStore e path capability (or_Disk s) = Inr st' \<Longrightarrow>
     orch_step sha a0 s (s\<lparr>or_Stores := (or_Stores s)(p := st')\<rparr>)"
| step_ensure:
    "oe_SHA256 e = sha \<Longrightarrow> EnsureDurableState e path capability (or_Disk s) = (u, d') \<Longrightarrow>
     orch_step sha a0 s (s\<lparr>or_Disk := d'\<rparr>)"
| step_adapter:
    "oe_SHA256 e = sha \<Longrightarrow> NewAdapter e rt c grants (or_Stores s p) (or_Disk s) = (w, st', d') \<Longrightarrow>
     orch_step sha a0 s \<lparr>or_Disk = d', or_Stores = (or_Stores s)(p := st')\<rparr>"

inductive orch_reachable :: "(string \<Rightarrow> string) \<Rightarrow> Adapter \<Rightarrow> orch \<Rightarrow> bool" for sha a0 where
  orch_first: "orch_init s \<Longrightarrow> orch_reachable sha a0 s"
| orch_next: "orch_reachable sha a0 s \<Longrightarrow> orch_step sha a0 s s' \<Longrightarrow> orch_reachable sha a0 s'"

text \<open>
  The file is one the program wrote. While there is none, no process has more than the policy
  in memory.
\<close>

definition file_ok :: "(string \<Rightarrow> string) \<Rightarrow> Adapter \<Rightarrow> state_file \<Rightarrow> bool" where
  "file_ok sha a f \<longleftrightarrow> (\<exists>s. f = written_file s \<and> state_ok sha a s \<and> encodable (snapshot_json s))"

definition blank_state :: "StateSnapshot \<Rightarrow> bool" where
  "blank_state s \<longleftrightarrow> s\<lparr>sn_PolicySHA256 := []\<rparr> = empty_snapshot"

definition disk_ok :: "(string \<Rightarrow> string) \<Rightarrow> Adapter \<Rightarrow> disk \<Rightarrow> bool" where
  "disk_ok sha a d \<longleftrightarrow> (\<forall>f. dk_State d = Some f \<longrightarrow> file_ok sha a f)"

definition store_ok :: "(string \<Rightarrow> string) \<Rightarrow> Adapter \<Rightarrow> disk \<Rightarrow> StateStore \<Rightarrow> bool" where
  "store_ok sha a d st \<longleftrightarrow> so_Path st \<noteq> [] \<and> state_ok sha a (so_State st)
     \<and> (dk_State d = None \<longrightarrow> blank_state (so_State st))"

definition orch_ok :: "(string \<Rightarrow> string) \<Rightarrow> Adapter \<Rightarrow> orch \<Rightarrow> bool" where
  "orch_ok sha a s \<longleftrightarrow> disk_ok sha a (or_Disk s) \<and> (\<forall>p. store_ok sha a (or_Disk s) (or_Stores s p))"

text \<open>The state every process works from.\<close>

definition disk_state :: "disk \<Rightarrow> StateSnapshot" where
  "disk_state d = (case dk_State d of
     None \<Rightarrow> empty_snapshot
   | Some f \<Rightarrow> (case sf_Decoded f of Inl _ \<Rightarrow> empty_snapshot | Inr s \<Rightarrow> s))"

lemma disk_state_written:
  "dk_State d = Some (written_file s) \<Longrightarrow> state_ok sha a s \<Longrightarrow> disk_state d = s"
  using state_ok_utf8 by (auto simp: disk_state_def written_file_def utf8_snapshot_def)

lemma refreshLocked_ok:
  assumes "refreshLocked e st d = Inr st1" "disk_ok sha a d" "store_ok sha a d st"
  shows "store_ok sha a d st1" "so_Path st1 = so_Path st" "so_Recovery st1 = so_Recovery st"
    "(so_State st1)\<lparr>sn_PolicySHA256 := []\<rparr> = (disk_state d)\<lparr>sn_PolicySHA256 := []\<rparr>"
    "dk_State d \<noteq> None \<Longrightarrow> so_State st1 = disk_state d"
proof -
  have "store_ok sha a d st1 \<and> so_Path st1 = so_Path st \<and> so_Recovery st1 = so_Recovery st
    \<and> (so_State st1)\<lparr>sn_PolicySHA256 := []\<rparr> = (disk_state d)\<lparr>sn_PolicySHA256 := []\<rparr>
    \<and> (dk_State d \<noteq> None \<longrightarrow> so_State st1 = disk_state d)"
  proof (cases "dk_State d")
    case None
    then have "st1 = st" using assms(1,3) by (auto simp: refreshLocked_def bind_r_Inr store_ok_def split: if_splits)
    then show ?thesis
      using assms(3) None by (simp add: store_ok_def blank_state_def disk_state_def) (simp add: empty_snapshot_def)
  next
    case (Some f)
    then obtain s where s: "f = written_file s" "state_ok sha a s" using assms(2) by (auto simp: disk_ok_def file_ok_def)
    have "so_State st1 = s \<and> so_Path st1 = so_Path st \<and> so_Recovery st1 = so_Recovery st"
      using assms(1,3) Some s state_bytes_pos [of s] state_ok_utf8 [OF s(2)]
      by (auto simp: refreshLocked_def bind_r_Inr read_state_def written_file_def utf8_snapshot_def store_ok_def
          split: if_splits)
    moreover have "disk_state d = s" using disk_state_written Some s by blast
    ultimately show ?thesis using assms(3) Some s(2) by (simp add: store_ok_def)
  qed
  then show "store_ok sha a d st1" "so_Path st1 = so_Path st" "so_Recovery st1 = so_Recovery st"
    "(so_State st1)\<lparr>sn_PolicySHA256 := []\<rparr> = (disk_state d)\<lparr>sn_PolicySHA256 := []\<rparr>"
    "dk_State d \<noteq> None \<Longrightarrow> so_State st1 = disk_state d" by blast+
qed

text \<open>What persisting does to the disk and the stores.\<close>

lemma persistLocked_ok:
  assumes "persistLocked e st d = (r, d')" "disk_ok sha a d" "state_ok sha a (so_State st)" "so_Path st \<noteq> []"
  shows "disk_ok sha a d'" "dk_State d' = dk_State d \<or> dk_State d' = Some (written_file (so_State st))"
    "r = Inr () \<Longrightarrow> dk_State d' = Some (written_file (so_State st))"
    "disk_state d' = disk_state d \<or> disk_state d' = so_State st"
    "r = Inr () \<Longrightarrow> disk_state d' = so_State st"
proof -
  show w: "dk_State d' = dk_State d \<or> dk_State d' = Some (written_file (so_State st))"
    using persistLocked_effect(2) [OF assms(1)] by blast
  show w': "r = Inr () \<Longrightarrow> dk_State d' = Some (written_file (so_State st))"
    using persistLocked_effect(3) [OF assms(1)] assms(4) by blast
  show "disk_ok sha a d'"
    using persistLocked_effect(2) [OF assms(1)] assms(2,3)
    by (cases "dk_State d' = dk_State d") (auto simp: disk_ok_def file_ok_def)
  show "disk_state d' = disk_state d \<or> disk_state d' = so_State st"
    using w disk_state_written [OF _ assms(3)] by (auto simp: disk_state_def)
  show "r = Inr () \<Longrightarrow> disk_state d' = so_State st"
    using w' disk_state_written [OF _ assms(3)] by blast
qed

lemma store_ok_same_state: "dk_State d' = dk_State d \<Longrightarrow> store_ok sha a d' st = store_ok sha a d st"
  by (simp add: store_ok_def)

lemma store_ok_mono:
  "store_ok sha a d st \<Longrightarrow> dk_State d = dk_State d' \<or> dk_State d' = Some f \<Longrightarrow> store_ok sha a d' st"
  by (auto simp: store_ok_def)

end
