(* ===== verification/OrchRefine.thy ===== *)
theory OrchRefine
  imports OrchInvariant
begin

text \<open>
  The abstract machine of the orchestration: at most one branch, with the root that holds it, an
  epoch that counts the branches started and the number of traced events. Every step of every
  process, with any failure of the operating system, is a step of this machine on the shared
  file.
\<close>

section \<open>The abstract machine\<close>

record branch_spec =
  bs_Holder :: "(string \<times> string \<times> string \<times> string) option"
  bs_Epoch :: "64 word"
  bs_Trace :: "64 word"

definition branch_abs :: "StateSnapshot \<Rightarrow> branch_spec" where
  "branch_abs s = \<lparr>bs_Holder = (if sn_BranchID s = [] then None
                     else Some (sn_BranchID s, sn_ScopeID s, sn_ScopeKind s, sn_RootID s)),
                   bs_Epoch = sn_FenceEpoch s, bs_Trace = sn_BreadcrumbSeq s\<rparr>"

text \<open>The hub may delegate to this root, which is authorized for exactly this scope.\<close>

definition may_root :: "Adapter \<Rightarrow> string \<Rightarrow> string \<Rightarrow> string \<Rightarrow> bool" where
  "may_root a scope kind root \<longleftrightarrow>
     (\<exists>v. map_of (ad_Authorizations a) root = Some v \<and> az_Scope v = scope \<and> az_ScopeKind v = kind
        \<and> AllowsDelegation (ad_Catalog a) ''hub'' (az_Role v) 1)"

inductive spec_step :: "Adapter \<Rightarrow> branch_spec \<Rightarrow> branch_spec \<Rightarrow> bool" for a where
  spec_idle: "spec_step a b b"
| spec_trace: "spec_step a b (b\<lparr>bs_Trace := bs_Trace b + 1\<rparr>)"
| spec_start: "bs_Holder b = None \<Longrightarrow> i \<noteq> [] \<Longrightarrow> may_root a scope kind root \<Longrightarrow>
    spec_step a b \<lparr>bs_Holder = Some (i, scope, kind, root), bs_Epoch = bs_Epoch b + 1, bs_Trace = bs_Trace b + 1\<rparr>"
| spec_finish: "bs_Holder b \<noteq> None \<Longrightarrow>
    spec_step a b (b\<lparr>bs_Holder := None, bs_Trace := bs_Trace b + 1\<rparr>)"
| spec_recover: "bs_Holder b \<noteq> None \<Longrightarrow> spec_step a b (b\<lparr>bs_Holder := None\<rparr>)"

inductive_cases spec_stepE: "spec_step a b b'"

text \<open>The epoch names the branch: while it is the same, the holder is, or there is none.\<close>

lemma spec_step_epoch:
  assumes "spec_step a b b'"
  shows "bs_Epoch b' = bs_Epoch b \<and> (bs_Holder b' = bs_Holder b \<or> bs_Holder b' = None)
    \<or> bs_Epoch b' = bs_Epoch b + 1 \<and> bs_Holder b = None \<and> bs_Holder b' \<noteq> None"
  using assms by (cases rule: spec_step.cases) auto

lemma branch_abs_policy [simp]:
  "branch_abs (s\<lparr>sn_PolicySHA256 := p\<rparr>) = branch_abs s" "branch_abs (s\<lparr>sn_Updated := t\<rparr>) = branch_abs s"
  by (simp_all add: branch_abs_def)

lemma branch_abs_cong: "s\<lparr>sn_PolicySHA256 := []\<rparr> = s'\<lparr>sn_PolicySHA256 := []\<rparr> \<Longrightarrow> branch_abs s = branch_abs s'"
  by (metis branch_abs_policy(1))

section \<open>Operations\<close>

lemma after_event_spec:
  assumes "after_event e a sem ev actor s dec s3" "sn_ChildID s = []"
  shows "spec_step a (branch_abs s) (branch_abs s3)"
proof -
  from assms(1) obtain s1 where d: "decide e a sem ev actor s = (dec, s1)"
    and ap: "appendBreadcrumb (oe_SHA256 e) (if dc_Allowed dec then s1\<lparr>sn_Updated := oe_Now e 0\<rparr> else s1)
            sem ev dec (oe_Now e 1) = Inr s3" by (auto simp: after_event_def)
  have t: "branch_abs s3 = (branch_abs s1)\<lparr>bs_Trace := bs_Trace (branch_abs s1) + 1\<rparr>"
    using appendBreadcrumb_fields(1) [OF ap] by (simp add: branch_abs_def)
  have keep: "branch_abs (keep_trace s) = (branch_abs s)\<lparr>bs_Holder := None\<rparr>"
    by (simp add: branch_abs_def keep_trace_def empty_snapshot_def)
  from d assms(2) show ?thesis
  proof (cases rule: decide_cases)
    case nothing
    then show ?thesis using spec_trace t by simp
  next
    case (start target)
    have "branch_abs s3 = \<lparr>bs_Holder = Some (ne_BranchID ev, ne_Scope ev, ne_ScopeKind ev, ne_TargetID ev),
        bs_Epoch = bs_Epoch (branch_abs s) + 1, bs_Trace = bs_Trace (branch_abs s) + 1\<rparr>"
      unfolding t start(12) using start(6) by (simp add: branch_abs_def keep_trace_def empty_snapshot_def)
    moreover have "may_root a (ne_Scope ev) (ne_ScopeKind ev) (ne_TargetID ev)"
      using start by (auto simp: may_root_def)
    moreover have "bs_Holder (branch_abs s) = None" using start(3) by (simp add: branch_abs_def)
    ultimately show ?thesis using spec_start start(6) by simp
  next
    case tool
    then show ?thesis using spec_trace t by simp
  next
    case finish
    then have "bs_Holder (branch_abs s) \<noteq> None" by (simp add: branch_abs_def)
    from spec_finish [OF this] show ?thesis by (simp add: t finish(6) keep)
  qed
qed

text \<open>What a process leaves behind, and how the shared state moved.\<close>

definition good_move :: "(string \<Rightarrow> string) \<Rightarrow> Adapter \<Rightarrow> disk \<Rightarrow> StateStore \<Rightarrow> disk \<Rightarrow> bool" where
  "good_move sha a d st' d' \<longleftrightarrow> disk_ok sha a d' \<and> store_ok sha a d' st'
     \<and> (dk_State d' = None \<longrightarrow> dk_State d = None)
     \<and> spec_step a (branch_abs (disk_state d)) (branch_abs (disk_state d'))"

lemma good_move_state:
  "good_move sha a d1 st d2 \<Longrightarrow> dk_State d1 = dk_State d \<Longrightarrow> dk_State d' = dk_State d2 \<Longrightarrow> good_move sha a d st d'"
  by (simp add: good_move_def disk_ok_def store_ok_def disk_state_def)

lemma good_move_stay:
  "disk_ok sha a d \<Longrightarrow> store_ok sha a d st \<Longrightarrow> good_move sha a d st d"
  by (simp add: good_move_def spec_idle)

lemma good_move_refresh:
  "disk_ok sha a d \<Longrightarrow> store_ok sha a d st \<Longrightarrow> refreshLocked e st d = Inr st1 \<Longrightarrow> good_move sha a d st1 d"
  by (simp add: good_move_stay refreshLocked_ok(1))

lemma good_move_persist:
  assumes "disk_ok sha a d" "store_ok sha a d st" "refreshLocked e st d = Inr st1"
    and "persistLocked e (st1\<lparr>so_State := s3\<rparr>) d = (q, d')"
    and "state_ok sha a s3" "spec_step a (branch_abs (so_State st1)) (branch_abs s3)"
  shows "good_move sha a d (if q = Inr () then st1\<lparr>so_State := s3\<rparr> else st1) d'"
proof -
  note r = refreshLocked_ok [OF assms(3,1,2)]
  have path: "so_Path (st1\<lparr>so_State := s3\<rparr>) \<noteq> []" using r(1) by (simp add: store_ok_def)
  have "branch_abs (so_State st1) = branch_abs (disk_state d)"
    using r(4) by (rule branch_abs_cong)
  moreover note p = persistLocked_ok [OF assms(4,1) _ path]
  ultimately show ?thesis
    using assms(5,6) r(1) by (auto simp: good_move_def store_ok_def intro: spec_idle)
qed

lemma Handle_good:
  assumes ok: "disk_ok (oe_SHA256 e) a d" "store_ok (oe_SHA256 e) a d st"
    and p: "policy_ok tx (ad_Authorizations a)" "utf8_policy (ad_Authorizations a)"
    and h: "Handle e a ev st d = (r, st', d')"
  shows "good_move (oe_SHA256 e) a d st' d'"
  using h
proof (cases rule: Handle_cases)
  case early
  then show ?thesis using good_move_stay ok by simp
next
  case (locked sem actor d1 d2)
  have same: "dk_State d1 = dk_State d" "dk_State d' = dk_State d2"
    using lock_store_Inr [OF locked(3)] locked(5) by simp_all
  have ok1: "disk_ok (oe_SHA256 e) a d1" "store_ok (oe_SHA256 e) a d1 st"
    using ok same by (simp_all add: disk_ok_def store_ok_def)
  have keep: "state_ok (oe_SHA256 e) a s3 \<and> spec_step a (branch_abs (so_State st1)) (branch_abs s3)"
    if "refreshLocked e st d1 = Inr st1" "after_event e a sem ev actor (so_State st1) dec s3" for st1 dec s3
  proof -
    have "state_ok (oe_SHA256 e) a (so_State st1)"
      using refreshLocked_ok(1) [OF that(1) ok1] by (simp add: store_ok_def)
    then show ?thesis using after_event_ok [OF _ that(2) p] after_event_spec [OF that(2)] by (simp add: state_ok_def)
  qed
  from locked(4) have "good_move (oe_SHA256 e) a d1 st' d2"
  proof (cases rule: handle_locked_cases)
    case refused
    then show ?thesis using good_move_stay good_move_refresh ok1 by auto
  next
    case (failed st1 s3 dec x)
    then show ?thesis using good_move_persist [OF ok1 failed(1,4)] keep [OF failed(1,3)] by simp
  next
    case (kept st1 s3)
    then show ?thesis using good_move_persist [OF ok1 kept(1,4)] keep [OF kept(1,3)] by simp
  qed
  then show ?thesis using same by (rule good_move_state)
qed

lemma RecoverStale_good:
  assumes ok: "disk_ok (oe_SHA256 e) a d" "store_ok (oe_SHA256 e) a d st"
    and h: "RecoverStale e maxAge capability st d = (r, st', d')"
  shows "good_move (oe_SHA256 e) a d st' d'"
proof (cases "maxAge \<le> 0 \<or> so_Recovery st \<noteq> oe_SHA256 e capability \<or> (\<exists>x. lock_store e st d = Inl x)")
  case True
  then have "st' = st \<and> d' = d" using h by (auto simp: RecoverStale_def split: if_splits)
  then show ?thesis using good_move_stay ok by simp
next
  case False
  then obtain d1 where d1: "lock_store e st d = Inr d1" by (metis old.sum.exhaust)
  obtain r2 st2 d2 where l: "recover_locked e maxAge st d1 = (r2, st2, d2)" by (metis prod_cases3)
  have st': "st' = st2" "d' = unlock_store e st d2" using h False d1 l by (auto simp: RecoverStale_def)
  have same: "dk_State d1 = dk_State d" "dk_State d' = dk_State d2"
    using lock_store_Inr [OF d1] st' by simp_all
  have ok1: "disk_ok (oe_SHA256 e) a d1" "store_ok (oe_SHA256 e) a d1 st"
    using ok same by (simp_all add: disk_ok_def store_ok_def)
  have "good_move (oe_SHA256 e) a d1 st2 d2"
  proof (cases "refreshLocked e st d1")
    case (Inl x)
    then show ?thesis using l good_move_stay ok1 by (auto simp: recover_locked_def)
  next
    case (Inr st1)
    let ?s = "so_State st1"
    have s: "state_ok (oe_SHA256 e) a ?s" using refreshLocked_ok(1) [OF Inr ok1] by (simp add: store_ok_def)
    show ?thesis
    proof (cases "sn_BranchID ?s = [] \<or> is_zero (sn_Updated ?s) \<or> time_sub (oe_Now e 0) (sn_Updated ?s) \<le> maxAge")
      case True
      then show ?thesis using l Inr good_move_refresh [OF ok1 Inr] by (auto simp: recover_locked_def Let_def)
    next
      case False
      obtain q d3 where q: "persistLocked e (st1\<lparr>so_State := keep_trace ?s\<rparr>) d1 = (q, d3)" by fastforce
      have "bs_Holder (branch_abs ?s) \<noteq> None" using False by (simp add: branch_abs_def)
      from spec_recover [OF this, of a]
      have "spec_step a (branch_abs ?s) (branch_abs (keep_trace ?s))"
        by (simp add: branch_abs_def keep_trace_def empty_snapshot_def)
      from good_move_persist [OF ok1 Inr q state_ok_keep_trace [OF s] this]
      show ?thesis using l Inr False q by (cases q) (auto simp: recover_locked_def Let_def)
    qed
  qed
  then show ?thesis unfolding st'(1) using same by (rule good_move_state)
qed

lemma AuthorizeActiveRoot_good:
  assumes ok: "disk_ok (oe_SHA256 e) a d" "store_ok (oe_SHA256 e) a d st"
    and h: "AuthorizeActiveRoot e a' i cap b sc k st d = (r, st', d')"
  shows "good_move (oe_SHA256 e) a d st' d'"
proof -
  have "(st' = st \<or> (\<exists>d1. lock_store e st d = Inr d1 \<and> refreshLocked e st d1 = Inr st')) \<and> dk_State d' = dk_State d"
    using h lock_store_Inr [of e st d]
    by (auto simp: AuthorizeActiveRoot_def split: option.splits sum.splits)
  then show ?thesis
  proof (elim conjE disjE exE)
    assume "st' = st" "dk_State d' = dk_State d"
    then show ?thesis using good_move_state [OF good_move_stay [OF ok] refl] by simp
  next
    fix d1 assume d1: "dk_State d' = dk_State d" "lock_store e st d = Inr d1" "refreshLocked e st d1 = Inr st'"
    have same: "dk_State d1 = dk_State d" using lock_store_Inr [OF d1(2)] .
    have ok1: "disk_ok (oe_SHA256 e) a d1" "store_ok (oe_SHA256 e) a d1 st"
      using ok same by (simp_all add: disk_ok_def store_ok_def)
    from good_move_state [OF good_move_refresh [OF ok1 d1(3)] same] show ?thesis
      using same d1(1) by simp
  qed
qed

lemma bindPolicy_good:
  assumes ok: "disk_ok (oe_SHA256 e) a d" "store_ok (oe_SHA256 e) a d st" and u: "valid_utf8 policy"
    and h: "bindPolicy e st policy d = (r, st', d')"
  shows "good_move (oe_SHA256 e) a d st' d'"
proof (cases "lock_store e st d")
  case (Inl x)
  then show ?thesis using h good_move_stay ok by (auto simp: bindPolicy_def)
next
  case d1: (Inr d1)
  obtain r2 st2 d2 where l: "bind_locked e st policy d1 = (r2, st2, d2)" by (metis prod_cases3)
  have st': "st' = st2" "d' = unlock_store e st d2" using h d1 l by (auto simp: bindPolicy_def)
  have same: "dk_State d1 = dk_State d" "dk_State d' = dk_State d2"
    using lock_store_Inr [OF d1] st' by simp_all
  have ok1: "disk_ok (oe_SHA256 e) a d1" "store_ok (oe_SHA256 e) a d1 st"
    using ok same by (simp_all add: disk_ok_def store_ok_def)
  have "good_move (oe_SHA256 e) a d1 st2 d2"
  proof (cases "refreshLocked e st d1")
    case (Inl x)
    then show ?thesis using l good_move_stay ok1 by (auto simp: bind_locked_def)
  next
    case (Inr st1)
    let ?s = "(so_State st1)\<lparr>sn_PolicySHA256 := policy\<rparr>"
    have s: "store_ok (oe_SHA256 e) a d1 st1" using refreshLocked_ok(1) [OF Inr ok1] .
    show ?thesis
    proof (cases "sn_PolicySHA256 (so_State st1) = []")
      case False
      then show ?thesis using l Inr good_move_refresh [OF ok1 Inr] by (auto simp: bind_locked_def)
    next
      case True
      obtain q d3 where q: "persistLocked e (st1\<lparr>so_State := ?s\<rparr>) d1 = (q, d3)" by fastforce
      have sok: "state_ok (oe_SHA256 e) a ?s" using s u by (simp add: store_ok_def state_ok_policy)
      have "spec_step a (branch_abs (so_State st1)) (branch_abs ?s)" by (simp add: spec_idle)
      from good_move_persist [OF ok1 Inr q sok this]
      have g: "good_move (oe_SHA256 e) a d1 (if q = Inr () then st1\<lparr>so_State := ?s\<rparr> else st1) d3" .
      then have "store_ok (oe_SHA256 e) a d3 (st1\<lparr>so_State := ?s\<rparr>)"
        using s sok by (auto simp: good_move_def store_ok_def blank_state_def)
      then have "good_move (oe_SHA256 e) a d1 (st1\<lparr>so_State := ?s\<rparr>) d3"
        using g by (simp add: good_move_def)
      then show ?thesis using l Inr True q by (auto simp: bind_locked_def Let_def)
    qed
  qed
  then show ?thesis unfolding st'(1) using same by (rule good_move_state)
qed

lemma fingerprint_utf8: "good_digest (oe_SHA256 e) \<Longrightarrow> valid_utf8 (authorizationFingerprint e au)"
  by (simp add: authorizationFingerprint_def good_digest_def validDigest_utf8)

lemma NewAdapter_good:
  assumes ok: "disk_ok (oe_SHA256 e) a d" "store_ok (oe_SHA256 e) a d st" and g: "good_digest (oe_SHA256 e)"
    and h: "NewAdapter e rt c grants st d = (w, st', d')"
  shows "good_move (oe_SHA256 e) a d st' d'"
proof (cases "bind_r (checks [fail_if (map_of adapterEvents rt = None)
                             (errors_New ''agent orchestration runtime is unsupported''),
                           Validate c]) (\<lambda>_. validateAuthorizations e c grants)")
  case (Inl x)
  then show ?thesis using h good_move_stay [OF ok] by (simp add: NewAdapter_def)
next
  case (Inr v)
  then obtain au fp where v: "v = (au, fp)" "validateAuthorizations e c grants = Inr (au, fp)"
    by (cases v) (simp add: bind_r_Inr)
  have "valid_utf8 fp" using validateAuthorizations_ok [OF v(2)] fingerprint_utf8 [OF g] by simp
  obtain r st1 d1 where b: "bindPolicy e st fp d = (r, st1, d1)" by (metis prod_cases3)
  have "st' = st1 \<and> d' = d1"
    using h Inr v(1) b by (auto simp: NewAdapter_def Let_def split: sum.splits)
  then show ?thesis using bindPolicy_good [OF ok \<open>valid_utf8 fp\<close> b] by simp
qed

lemma NewDurableStateStore_ok:
  assumes "NewDurableStateStore e path capability d = Inr st" "disk_ok sha a d"
  shows "store_ok sha a d st" "so_State st = disk_state d" "so_Path st = path"
proof -
  have "path \<noteq> [] \<and> so_Path st = path \<and> so_State st = disk_state d"
  proof (cases "dk_State d")
    case None
    then show ?thesis using assms(1) by (auto simp: NewDurableStateStore_def bind_r_Inr Let_def disk_state_def)
  next
    case (Some f)
    then obtain s where s: "f = written_file s" "state_ok sha a s" using assms(2) by (auto simp: disk_ok_def file_ok_def)
    have "disk_state d = s" using disk_state_written Some s by blast
    then show ?thesis
      using assms(1) Some s state_bytes_pos [of s] state_ok_utf8 [OF s(2)]
      by (auto simp: NewDurableStateStore_def bind_r_Inr Let_def read_state_def written_file_def utf8_snapshot_def
          split: if_splits)
  qed
  moreover have "state_ok sha a (disk_state d)"
  proof (cases "dk_State d")
    case None
    then show ?thesis by (simp add: disk_state_def state_ok_empty)
  next
    case (Some f)
    then show ?thesis using assms(2) disk_state_written by (auto simp: disk_ok_def file_ok_def)
  qed
  moreover have "dk_State d = None \<longrightarrow> blank_state (disk_state d)"
    by (simp add: disk_state_def blank_state_def empty_snapshot_def)
  ultimately show "store_ok sha a d st" "so_State st = disk_state d" "so_Path st = path"
    by (simp_all add: store_ok_def)
qed

lemma EnsureDurableState_good:
  assumes ok: "disk_ok sha a d" and h: "EnsureDurableState e path capability d = (u, d')"
    and s: "oe_SHA256 e = sha"
  shows "disk_ok sha a d'" "dk_State d' = None \<longrightarrow> dk_State d = None"
    "branch_abs (disk_state d') = branch_abs (disk_state d)"
proof -
  have rel: "dk_State (releaseStateFileLock e x) = dk_State x" for x by (simp add: releaseStateFileLock_def)
  have eff: "dk_State d' = dk_State d \<or> dk_State d = None \<and> dk_State d' = Some (written_file empty_snapshot)"
  proof (cases "bind_r (state_present e d) (\<lambda>present.
             bind_r (NewDurableStateStore e path capability d) (\<lambda>store. Inr (present, store)))")
    case (Inl x)
    then show ?thesis using h by (simp add: EnsureDurableState_def)
  next
    case (Inr v)
    then obtain present store where v: "v = (present, store)" "state_present e d = Inr present"
      and n: "NewDurableStateStore e path capability d = Inr store" by (cases v) (auto simp: bind_r_Inr)
    show ?thesis
    proof (cases "present \<or> (\<exists>x. acquireStateFileLock e d = Inl x)")
      case True
      then have "d' = d" using h Inr v(1) by (cases present) (auto simp: EnsureDurableState_def)
      then show ?thesis by simp
    next
      case False
      then obtain d1 where d1: "acquireStateFileLock e d = Inr d1" by (metis old.sum.exhaust)
      have none: "dk_State d = None"
      proof (rule ccontr)
        assume "dk_State d \<noteq> None"
        then obtain s where "dk_State d = Some (written_file s)" using ok by (auto simp: disk_ok_def file_ok_def)
        then show False
          using v(2) False state_bytes_pos [of s] by (auto simp: state_present_def bind_r_Inr written_file_def)
      qed
      have d1s: "dk_State d1 = None"
        using none d1 by (auto simp: acquireStateFileLock_def bind_r_Inr split: option.splits lock_file.splits)
      have store: "so_State store = empty_snapshot" "so_Path store \<noteq> []"
        using NewDurableStateStore_ok [OF n ok] none by (simp_all add: disk_state_def store_ok_def)
      obtain q d2 where q: "persistLocked e store d1 = (q, d2)" by fastforce
      have p: "dk_State d2 = None \<or> dk_State d2 = Some (written_file empty_snapshot)"
        using persistLocked_effect(2) [OF q] store d1s by (cases "dk_State d2 = dk_State d1") simp_all
      have "d' = releaseStateFileLock e d1 \<or> d' = releaseStateFileLock e d2"
        using h Inr v(1) False d1 q by (cases "state_present e d1") (auto simp: EnsureDurableState_def split: bool.splits)
      then show ?thesis using p none d1s by (auto simp: rel)
    qed
  qed
  have "state_ok sha a empty_snapshot" by (rule state_ok_empty)
  moreover have "encodable (snapshot_json empty_snapshot)"
    by code_simp
  ultimately show "disk_ok sha a d'" using eff ok by (auto simp: disk_ok_def file_ok_def)
  from eff show "dk_State d' = None \<longrightarrow> dk_State d = None" by auto
  from eff disk_state_written [of d' empty_snapshot, OF _ state_ok_empty [of sha a]]
  show "branch_abs (disk_state d') = branch_abs (disk_state d)"
    by (auto simp: disk_state_def)
qed

section \<open>The system\<close>

text \<open>The policy every adapter of the installation was built with.\<close>

definition policy_of :: "text_lib \<Rightarrow> (string \<Rightarrow> string) \<Rightarrow> Adapter \<Rightarrow> bool" where
  "policy_of tx sha a \<longleftrightarrow>
     policy_ok tx (ad_Authorizations a) \<and> utf8_policy (ad_Authorizations a) \<and> good_digest sha"

lemma bound_state_ok: "bound a0 a \<Longrightarrow> state_ok sha a s = state_ok sha a0 s"
  by (simp add: bound_def state_ok_def root_authorized_def)

lemma spec_step_bound: "bound a0 a \<Longrightarrow> spec_step a b b' \<Longrightarrow> spec_step a0 b b'"
proof -
  assume a: "bound a0 a"
  assume "spec_step a b b'"
  then show ?thesis
  proof cases
    case (spec_start i scope kind root)
    moreover have "may_root a0 scope kind root" using a spec_start(4) by (simp add: may_root_def bound_def)
    ultimately show ?thesis using spec_step.spec_start by blast
  qed (auto intro: spec_step.intros)
qed

lemma good_move_bound: "bound a0 a \<Longrightarrow> good_move sha a d st d' \<Longrightarrow> good_move sha a0 d st d'"
  by (auto simp: good_move_def disk_ok_def file_ok_def store_ok_def bound_state_ok intro: spec_step_bound)

lemma disk_ok_bound: "bound a0 a \<Longrightarrow> disk_ok sha a d = disk_ok sha a0 d"
  by (simp add: disk_ok_def file_ok_def bound_state_ok)

lemma store_ok_bound: "bound a0 a \<Longrightarrow> store_ok sha a d st = store_ok sha a0 d st"
  by (simp add: store_ok_def bound_state_ok)

lemma good_move_system:
  assumes "orch_ok sha a0 s" "good_move sha a0 (or_Disk s) st' d'"
  shows "orch_ok sha a0 \<lparr>or_Disk = d', or_Stores = (or_Stores s)(p := st')\<rparr>
    \<and> spec_step a0 (branch_abs (disk_state (or_Disk s))) (branch_abs (disk_state d'))"
  using assms by (auto simp: orch_ok_def good_move_def store_ok_def)

lemma stores_update: "s\<lparr>or_Stores := f\<rparr> = \<lparr>or_Disk = or_Disk s, or_Stores = f\<rparr>"
  by (cases s) simp

lemma orch_step_ok:
  assumes "orch_step sha a0 s s'" "orch_ok sha a0 s" and p: "policy_of tx sha a0"
  shows "orch_ok sha a0 s'
    \<and> spec_step a0 (branch_abs (disk_state (or_Disk s))) (branch_abs (disk_state (or_Disk s')))"
  using assms(1)
proof cases
  case (step_handle e a ev q r st' d')
  have b: "disk_ok (oe_SHA256 e) a (or_Disk s)" "store_ok (oe_SHA256 e) a (or_Disk s) (or_Stores s q)"
    using assms(2) disk_ok_bound [OF step_handle(3)] store_ok_bound [OF step_handle(3)] step_handle(2)
    by (simp_all add: orch_ok_def)
  have "policy_ok tx (ad_Authorizations a)" "utf8_policy (ad_Authorizations a)"
    using p step_handle(3) by (simp_all add: policy_of_def bound_def)
  from Handle_good [OF b this step_handle(4)] have "good_move sha a (or_Disk s) st' d'"
    by (simp add: step_handle(2))
  from good_move_system [OF assms(2) good_move_bound [OF step_handle(3) this]] show ?thesis
    by (simp add: step_handle(1))
next
  case (step_recover e maxAge capability q r' st' d')
  have "good_move sha a0 (or_Disk s) st' d'"
    using RecoverStale_good [OF _ _ step_recover(3), of a0] assms(2) step_recover(2) by (simp add: orch_ok_def)
  from good_move_system [OF assms(2) this] show ?thesis by (simp add: step_recover(1))
next
  case (step_active e a i cap b sc k q r st' d')
  have "good_move sha a0 (or_Disk s) st' d'"
    using AuthorizeActiveRoot_good [OF _ _ step_active(4), of a0] assms(2) step_active(2) by (simp add: orch_ok_def)
  from good_move_system [OF assms(2) this] show ?thesis by (simp add: step_active(1))
next
  case (step_snapshot e q snap st')
  have "store_ok sha a0 (or_Disk s) st'"
    using step_snapshot(3) assms(2) refreshLocked_ok(1) [of e "or_Stores s q" "or_Disk s"]
    by (auto simp: Snapshot_def Let_def orch_ok_def split: sum.splits)
  then have "good_move sha a0 (or_Disk s) st' (or_Disk s)"
    using assms(2) by (intro good_move_stay) (simp_all add: orch_ok_def)
  from good_move_system [OF assms(2) this, of q] show ?thesis by (simp add: step_snapshot(1) stores_update)
next
  case (step_open e path capability st' q)
  have "store_ok sha a0 (or_Disk s) st'"
    using NewDurableStateStore_ok(1) [OF step_open(3)] assms(2) by (simp add: orch_ok_def)
  then have "good_move sha a0 (or_Disk s) st' (or_Disk s)"
    using assms(2) by (intro good_move_stay) (simp_all add: orch_ok_def)
  from good_move_system [OF assms(2) this, of q] show ?thesis by (simp add: step_open(1) stores_update)
next
  case (step_ensure e path capability u d')
  note g = EnsureDurableState_good [OF _ step_ensure(3) step_ensure(2), of a0]
  have "disk_ok sha a0 (or_Disk s)" using assms(2) by (simp add: orch_ok_def)
  from g [OF this] show ?thesis
    using assms(2) by (auto simp: step_ensure(1) orch_ok_def store_ok_def spec_idle)
next
  case (step_adapter e rt c grants q w st' d')
  have "good_move sha a0 (or_Disk s) st' d'"
    using NewAdapter_good [OF _ _ _ step_adapter(3), of a0] assms(2) step_adapter(2) p
    by (simp add: orch_ok_def policy_of_def)
  from good_move_system [OF assms(2) this] show ?thesis by (simp add: step_adapter(1))
qed

lemma blank_empty: "blank_state empty_snapshot"
  by (simp add: blank_state_def empty_snapshot_def)

lemma orch_init_ok: "orch_init s \<Longrightarrow> orch_ok sha a0 s"
  by (auto simp: orch_init_def orch_ok_def disk_ok_def store_ok_def state_ok_empty blank_empty)

lemma orch_reachable_ok: "orch_reachable sha a0 s \<Longrightarrow> policy_of tx sha a0 \<Longrightarrow> orch_ok sha a0 s"
  by (induction rule: orch_reachable.induct) (auto simp: orch_init_ok dest: orch_step_ok)

lemma disk_state_ok: "orch_ok sha a0 s \<Longrightarrow> state_ok sha a0 (disk_state (or_Disk s))"
proof (cases "dk_State (or_Disk s)")
  case None
  then show ?thesis by (simp add: disk_state_def state_ok_empty)
next
  case (Some f)
  assume "orch_ok sha a0 s"
  then show ?thesis using Some disk_state_written by (auto simp: orch_ok_def disk_ok_def file_ok_def)
qed

end
