(* ===== verification/OrchFacts.thy ===== *)
theory OrchFacts
  imports OrchRefine
begin

text \<open>
  What single calls do to the shared state, seen from any reachable system, and calls that are
  certain to succeed.
\<close>

section \<open>One call of Handle\<close>

lemma Handle_disk:
  assumes ok: "disk_ok (oe_SHA256 e) a d" "store_ok (oe_SHA256 e) a d st"
    and p: "policy_ok tx (ad_Authorizations a)" "utf8_policy (ad_Authorizations a)"
    and h: "Handle e a ev st d = (r, st', d')"
  obtains (same) "\<not> dc_Allowed r" "dk_State d' = dk_State d"
  | (moved) sem actor and st1 :: StateStore and dec s3 where "semantic_event a (ne_Name ev) = Some sem"
      "authenticate e a (ne_ActorID ev) (ne_ActorCapability ev) = Some actor"
      "(so_State st1)\<lparr>sn_PolicySHA256 := []\<rparr> = (disk_state d)\<lparr>sn_PolicySHA256 := []\<rparr>"
      "state_ok (oe_SHA256 e) a (so_State st1)" "fence_ok sem ev (so_State st1)"
      "after_event e a sem ev actor (so_State st1) dec s3" "disk_state d' = s3" "dk_State d' = Some (written_file s3)"
      "state_ok (oe_SHA256 e) a s3" "r = dec \<or> r = denied ''state_persist_failed''"
  using h
proof (cases rule: Handle_cases)
  case early
  then show ?thesis by (intro same) auto
next
  case (locked sem actor d1 d2)
  have eq: "dk_State d1 = dk_State d" "dk_State d' = dk_State d2"
    using lock_store_Inr [OF locked(3)] locked(5) by simp_all
  have ok1: "disk_ok (oe_SHA256 e) a d1" "store_ok (oe_SHA256 e) a d1 st"
    using ok eq by (simp_all add: disk_ok_def store_ok_def)
  have ds: "disk_state d1 = disk_state d" "disk_state d' = disk_state d2" using eq by (simp_all add: disk_state_def)
  have move: thesis
    if st1: "refreshLocked e st d1 = Inr st1" and f: "fence_ok sem ev (so_State st1)"
      and ae: "after_event e a sem ev actor (so_State st1) dec s3"
      and pe: "persistLocked e (st1\<lparr>so_State := s3\<rparr>) d1 = (q, d2)"
      and r: "if q = Inr () then r = dec else r = denied ''state_persist_failed''" for st1 :: StateStore and dec s3 q
  proof -
    note rf = refreshLocked_ok [OF st1 ok1]
    have s1: "state_ok (oe_SHA256 e) a (so_State st1)" using rf(1) by (simp add: store_ok_def)
    have s3: "state_ok (oe_SHA256 e) a s3" using after_event_ok [OF s1 ae p] .
    have path: "so_Path (st1\<lparr>so_State := s3\<rparr>) \<noteq> []" using rf(1) by (simp add: store_ok_def)
    show thesis
    proof (cases "dk_State d2 = Some (written_file s3)")
      case True
      then have "disk_state d2 = s3" using disk_state_written s3 by blast
      then show thesis
        using moved [of sem actor st1 dec s3] locked(1,2) s1 f ae s3 rf(4) ds r True eq(2)
        by (simp split: if_split_asm)
    next
      case False
      then have "q \<noteq> Inr ()" "dk_State d2 = dk_State d1"
        using persistLocked_effect [OF pe] path by auto
      then show thesis using same r eq by simp
    qed
  qed
  from locked(4) show ?thesis
  proof (cases rule: handle_locked_cases)
    case refused
    then show ?thesis using same eq by simp
  next
    case (failed st1 s3 dec x)
    show ?thesis by (rule move [OF failed(1-4)]) (simp add: failed(5))
  next
    case (kept st1 s3)
    show ?thesis by (rule move [OF kept(1-4)]) simp
  qed
qed

text \<open>The same from a reachable system.\<close>

lemma reachable_parts:
  assumes "orch_reachable sha a0 s" "policy_of tx sha a0" "bound a0 a"
  shows "disk_ok sha a (or_Disk s)" "store_ok sha a (or_Disk s) (or_Stores s p)"
    "policy_ok tx (ad_Authorizations a)" "utf8_policy (ad_Authorizations a)"
    "state_ok sha a (disk_state (or_Disk s))"
proof -
  have ok: "orch_ok sha a0 s" using assms(1,2) by (rule orch_reachable_ok)
  then show "disk_ok sha a (or_Disk s)" "store_ok sha a (or_Disk s) (or_Stores s p)"
    using disk_ok_bound [OF assms(3)] store_ok_bound [OF assms(3)] by (simp_all add: orch_ok_def)
  show "policy_ok tx (ad_Authorizations a)" "utf8_policy (ad_Authorizations a)"
    using assms(2,3) by (simp_all add: policy_of_def bound_def)
  show "state_ok sha a (disk_state (or_Disk s))"
    using disk_state_ok [OF ok] bound_state_ok [OF assms(3)] by simp
qed

lemma after_event_trace:
  assumes "after_event e a sem ev actor s dec s3" "sn_ChildID s = []"
  shows "sn_BreadcrumbSeq s3 = sn_BreadcrumbSeq s + 1"
    "\<exists>b. sn_BreadcrumbTail s3 = last_n 64 (sn_BreadcrumbTail s @ [b])
       \<and> validateBreadcrumb (oe_SHA256 e) b = Inr () \<and> bc_Sequence b = sn_BreadcrumbSeq s + 1
       \<and> bc_PreviousDigest b = (if sn_BreadcrumbTail s = [] then [] else bc_Digest (last (sn_BreadcrumbTail s)))
       \<and> bc_Event b = sem \<and> bc_ActorID b = ne_ActorID ev \<and> bc_TargetID b = ne_TargetID ev
       \<and> bc_BranchID b = ne_BranchID ev \<and> bc_Allowed b = dc_Allowed dec \<and> bc_DecisionCode b = dc_Code dec"
proof -
  from assms(1) obtain s1 where d: "decide e a sem ev actor s = (dec, s1)"
    and ap: "appendBreadcrumb (oe_SHA256 e) (if dc_Allowed dec then s1\<lparr>sn_Updated := oe_Now e 0\<rparr> else s1)
            sem ev dec (oe_Now e 1) = Inr s3" by (auto simp: after_event_def)
  have "sn_BreadcrumbTail s1 = sn_BreadcrumbTail s \<and> sn_BreadcrumbSeq s1 = sn_BreadcrumbSeq s"
    using d assms(2) by (cases rule: decide_cases) (simp_all add: keep_trace_def)
  then have t: "sn_BreadcrumbTail (if dc_Allowed dec then s1\<lparr>sn_Updated := oe_Now e 0\<rparr> else s1) = sn_BreadcrumbTail s"
    "sn_BreadcrumbSeq (if dc_Allowed dec then s1\<lparr>sn_Updated := oe_Now e 0\<rparr> else s1) = sn_BreadcrumbSeq s" by simp_all
  let ?b = "new_breadcrumb (oe_SHA256 e) (if dc_Allowed dec then s1\<lparr>sn_Updated := oe_Now e 0\<rparr> else s1) sem ev dec (oe_Now e 1)"
  from ap show "sn_BreadcrumbSeq s3 = sn_BreadcrumbSeq s + 1" by (simp add: appendBreadcrumb_Inr t)
  show "\<exists>b. sn_BreadcrumbTail s3 = last_n 64 (sn_BreadcrumbTail s @ [b])
       \<and> validateBreadcrumb (oe_SHA256 e) b = Inr () \<and> bc_Sequence b = sn_BreadcrumbSeq s + 1
       \<and> bc_PreviousDigest b = (if sn_BreadcrumbTail s = [] then [] else bc_Digest (last (sn_BreadcrumbTail s)))
       \<and> bc_Event b = sem \<and> bc_ActorID b = ne_ActorID ev \<and> bc_TargetID b = ne_TargetID ev
       \<and> bc_BranchID b = ne_BranchID ev \<and> bc_Allowed b = dc_Allowed dec \<and> bc_DecisionCode b = dc_Code dec"
    using ap by (intro exI [of _ ?b]) (simp add: appendBreadcrumb_Inr t new_breadcrumb_links, simp add: new_breadcrumb_def Let_def)
qed

section \<open>Events that are traced\<close>

text \<open>A new breadcrumb is valid when the texts of the event are; its links are by construction.\<close>

lemma new_breadcrumb_valid:
  assumes "good_digest sha" "sn_BreadcrumbTail s = [] \<or> validDigest (bc_Digest (last (sn_BreadcrumbTail s)))"
    and "sn_BreadcrumbSeq s + 1 \<noteq> 0" "sem \<in> set breadcrumbEvents" "ValidAgentID (ne_ActorID ev)"
    "ne_TargetID ev = [] \<or> ValidAgentID (ne_TargetID ev)" "validBreadcrumbToken (ne_BranchID ev) 128"
    "validBreadcrumbToken (ne_DispatchID ev) 128" "validBreadcrumbToken (ne_Tool ev) 64"
    "validBreadcrumbToken (ne_Operation ev) 64" "validBreadcrumbToken (dc_Code dec) 96" "t \<noteq> 0"
  shows "validateBreadcrumb sha (new_breadcrumb sha s sem ev dec t) = Inr ()"
proof -
  have d: "breadcrumbDigest sha (b\<lparr>bc_Digest := x\<rparr>) = breadcrumbDigest sha b" for b :: Breadcrumb and x
    by (simp add: breadcrumbDigest_def)
  have v: "validDigest (breadcrumbDigest sha b)" "validDigest (sha x)" for b x
    using assms(1) by (simp_all add: breadcrumbDigest_def Let_def good_digest_def)
  define b0 where "b0 = (new_breadcrumb sha s sem ev dec t)\<lparr>bc_Digest := []\<rparr>"
  have nb: "new_breadcrumb sha s sem ev dec t = b0\<lparr>bc_Digest := breadcrumbDigest sha b0\<rparr>"
    by (simp add: b0_def new_breadcrumb_def Let_def)
  have f: "bc_SchemaVersion b0 = 1" "bc_Sequence b0 = sn_BreadcrumbSeq s + 1" "bc_Event b0 = sem"
    "bc_ActorID b0 = ne_ActorID ev" "bc_TargetID b0 = ne_TargetID ev" "bc_BranchID b0 = ne_BranchID ev"
    "bc_DispatchID b0 = ne_DispatchID ev" "bc_Tool b0 = ne_Tool ev" "bc_Operation b0 = ne_Operation ev"
    "bc_ResourceSHA256 b0 = (if ne_Resource ev = [] then [] else sha (ne_Resource ev))"
    "bc_DecisionCode b0 = dc_Code dec" "bc_OccurredAt b0 = t"
    "bc_PreviousDigest b0 = (if sn_BreadcrumbTail s = [] then [] else bc_Digest (last (sn_BreadcrumbTail s)))"
    by (simp_all add: b0_def new_breadcrumb_def Let_def)
  show ?thesis
    using assms(2-) unfolding nb by (simp add: validateBreadcrumb_def d v f is_zero_def) blast
qed

lemma after_event_exists:
  assumes "decide e a sem ev actor s = (dec, s1)" "state_ok (oe_SHA256 e) a s" "good_digest (oe_SHA256 e)"
    and "sn_BreadcrumbSeq s + 1 \<noteq> 0" "sem \<in> set breadcrumbEvents" "ValidAgentID (ne_ActorID ev)"
    "ne_TargetID ev = [] \<or> ValidAgentID (ne_TargetID ev)" "validBreadcrumbToken (ne_BranchID ev) 128"
    "validBreadcrumbToken (ne_DispatchID ev) 128" "validBreadcrumbToken (ne_Tool ev) 64"
    "validBreadcrumbToken (ne_Operation ev) 64" "validBreadcrumbToken (dc_Code dec) 96" "oe_Now e 1 \<noteq> 0"
  obtains s3 where "after_event e a sem ev actor s dec s3"
    "branch_abs s3 = (branch_abs s1)\<lparr>bs_Trace := bs_Trace (branch_abs s1) + 1\<rparr>"
    "sn_Updated s3 = (if dc_Allowed dec then oe_Now e 0 else sn_Updated s)"
    "\<forall>b \<in> set (sn_BreadcrumbTail s3). b \<in> set (sn_BreadcrumbTail s) \<or> bc_OccurredAt b = oe_Now e 1"
proof -
  let ?s2 = "if dc_Allowed dec then s1\<lparr>sn_Updated := oe_Now e 0\<rparr> else s1"
  have child: "sn_ChildID s = []" using assms(2) by (simp add: state_ok_def)
  have same: "sn_BreadcrumbTail ?s2 = sn_BreadcrumbTail s" "sn_BreadcrumbSeq ?s2 = sn_BreadcrumbSeq s"
    "\<not> dc_Allowed dec \<Longrightarrow> s1 = s"
    using assms(1) child by (cases rule: decide_cases, simp_all add: keep_trace_def)+
  have last: "sn_BreadcrumbTail s = [] \<or> validDigest (bc_Digest (last (sn_BreadcrumbTail s)))"
  proof (cases "sn_BreadcrumbTail s = []")
    case False
    then have "validateBreadcrumb (oe_SHA256 e) (last (sn_BreadcrumbTail s)) = Inr ()"
      using assms(2) by (simp add: state_ok_def validateSnapshot_iff)
    then show ?thesis by (simp add: validateBreadcrumb_def) metis
  qed simp
  let ?b = "new_breadcrumb (oe_SHA256 e) ?s2 sem ev dec (oe_Now e 1)"
  have b: "validateBreadcrumb (oe_SHA256 e) ?b = Inr ()"
    by (rule new_breadcrumb_valid) (use assms same last in simp_all)
  define s3 where "s3 = ?s2\<lparr>sn_BreadcrumbSeq := sn_BreadcrumbSeq ?s2 + 1,
      sn_BreadcrumbTail := last_n 64 (sn_BreadcrumbTail ?s2 @ [?b])\<rparr>"
  have "appendBreadcrumb (oe_SHA256 e) ?s2 sem ev dec (oe_Now e 1) = Inr s3"
    using b by (simp add: appendBreadcrumb_Inr s3_def)
  then have "after_event e a sem ev actor s dec s3" using assms(1) by (auto simp: after_event_def)
  moreover have "branch_abs s3 = (branch_abs s1)\<lparr>bs_Trace := bs_Trace (branch_abs s1) + 1\<rparr>"
    by (simp add: s3_def branch_abs_def)
  moreover have "sn_Updated s3 = (if dc_Allowed dec then oe_Now e 0 else sn_Updated s)"
    using same(3) by (simp add: s3_def)
  moreover have "\<forall>x \<in> set (sn_BreadcrumbTail s3). x \<in> set (sn_BreadcrumbTail s) \<or> bc_OccurredAt x = oe_Now e 1"
  proof
    fix x assume "x \<in> set (sn_BreadcrumbTail s3)"
    then have "x \<in> set (sn_BreadcrumbTail ?s2 @ [?b])" using set_last_n by (fastforce simp: s3_def)
    then show "x \<in> set (sn_BreadcrumbTail s) \<or> bc_OccurredAt x = oe_Now e 1"
      unfolding same(1) set_append by (auto simp: new_breadcrumb_def Let_def)
  qed
  ultimately show thesis by (rule that)
qed

section \<open>Encodings\<close>

lemma json_times_opt_str [simp]: "concat (map (\<lambda>(k, v). json_times v) (opt_str k s)) = []"
  by (simp add: opt_str_def)

lemma encodable_breadcrumb: "json_times (breadcrumb_json b) = [bc_OccurredAt b]"
  by (simp add: breadcrumb_json_def)

lemma encodable_snapshot:
  "encodable (snapshot_json s) \<longleftrightarrow>
     marshalable_time (sn_Updated s) \<and> (\<forall>b \<in> set (sn_BreadcrumbTail s). marshalable_time (bc_OccurredAt b))"
  by (auto simp: encodable_def snapshot_json_def encodable_breadcrumb list_all_iff o_def)

text \<open>An encoding is at least as long as any text in it.\<close>

lemma length_join_with: "x \<in> set xs \<Longrightarrow> length x \<le> length (join_with d xs)"
  by (induction d xs rule: join_with.induct) auto

lemma length_field: "(k, v) \<in> set fs \<Longrightarrow> length (marshal_indent (Suc n) v) \<le> length (marshal_indent n (JObj fs))"
proof -
  assume f: "(k, v) \<in> set fs"
  let ?g = "\<lambda>(k, v). newline (Suc n) @ json_quote k @ '': '' @ marshal_indent (Suc n) v"
  have "length (?g (k, v)) \<le> length (join_with '','' (map ?g fs))"
    by (rule length_join_with) (use f in force)
  then show ?thesis using f by auto
qed

lemma length_element: "v \<in> set xs \<Longrightarrow> length (marshal_indent (Suc n) v) \<le> length (marshal_indent n (JArr xs))"
proof -
  assume v: "v \<in> set xs"
  let ?g = "\<lambda>x. newline (Suc n) @ marshal_indent (Suc n) x"
  have "length (?g v) \<le> length (join_with '','' (map ?g xs))"
    by (rule length_join_with) (use v in force)
  then show ?thesis using v by auto
qed

lemma agent_id_plain: "ValidAgentID s \<Longrightarrow> json_body s = s"
proof (rule json_body_plain)
  have "\<forall>c. is_lower c \<or> is_digit c \<or> c = CHR ''-'' \<longrightarrow> low_byte c \<and> json_escape c = [c]" by code_simp
  then show "ValidAgentID s \<Longrightarrow> list_all plain_char s"
    by (auto simp: ValidAgentID_def list_all_iff plain_char_def low_byte_def)
qed

lemma target_in_state_bytes:
  assumes "b \<in> set (sn_BreadcrumbTail s)" "ValidAgentID (bc_TargetID b)"
  shows "len (bc_TargetID b) < state_bytes s"
proof -
  have t: "bc_TargetID b \<noteq> []" using assms(2) by (simp add: ValidAgentID_def)
  have "length (bc_TargetID b) \<le> length (marshal_indent 3 (JStr (bc_TargetID b)))"
    using agent_id_plain [OF assms(2)] by (simp add: json_quote_def)
  also have "\<dots> \<le> length (marshal_indent 2 (breadcrumb_json b))"
    using length_field [of "''target_id''" "JStr (bc_TargetID b)" _ 2] t
    by (simp add: breadcrumb_json_def opt_str_def numeral_3_eq_3 numeral_2_eq_2 del: marshal_indent.simps)
  also have "\<dots> \<le> length (marshal_indent 1 (JArr (map breadcrumb_json (sn_BreadcrumbTail s))))"
    using length_element [of "breadcrumb_json b" "map breadcrumb_json (sn_BreadcrumbTail s)" 1] assms(1)
    by (simp add: numeral_2_eq_2 del: marshal_indent.simps)
  also have "\<dots> \<le> length (marshal_indent 0 (snapshot_json s))"
    using length_field [of "''breadcrumb_tail''" "JArr (map breadcrumb_json (sn_BreadcrumbTail s))" _ 0] assms(1)
    by (auto simp: snapshot_json_def simp del: marshal_indent.simps)
  finally show ?thesis by (simp add: state_bytes_def)
qed

section \<open>Calls that succeed\<close>

lemma sys_call_none [simp]: "oe_OS e = (\<lambda>_. None) \<Longrightarrow> sys_call e n = Inr ()"
  by simp

lemma lock_free: "oe_OS e = (\<lambda>_. None) \<Longrightarrow> dk_Lock d = None \<Longrightarrow>
    lock_store e st d = Inr (if so_Path st = [] then d else d\<lparr>dk_Lock := Some (LockToken (oe_Token e))\<rparr>)"
  by (simp add: lock_store_def acquireStateFileLock_def checks.simps)

lemma refresh_lock [simp]: "refreshLocked e st (d\<lparr>dk_Lock := l\<rparr>) = refreshLocked e st d"
  by (simp add: refreshLocked_def)

lemma persist_ok:
  assumes "oe_OS e = (\<lambda>_. None)" "validateSnapshot (oe_SHA256 e) (so_State st) = Inr ()"
    "encodable (snapshot_json (so_State st))" "\<forall>f. dk_State d = Some f \<longrightarrow> sf_Regular f"
  shows "persistLocked e st d =
    (Inr (), if so_Path st = [] then d else d\<lparr>dk_State := Some (written_file (so_State st))\<rparr>)"
proof -
  have "\<not> (\<exists>f \<in> set_option (dk_State d). \<not> sf_Regular f)" using assms(4) by (cases "dk_State d") auto
  then show ?thesis using assms(1-3) by (simp add: persistLocked_def checks.simps)
qed

lemma Handle_succeeds:
  assumes os: "oe_OS e = (\<lambda>_. None)" and l: "dk_Lock d = None" and reg: "\<forall>f. dk_State d = Some f \<longrightarrow> sf_Regular f"
    and sem: "semantic_event a (ne_Name ev) = Some sem"
    and au: "authenticate e a (ne_ActorID ev) (ne_ActorCapability ev) = Some actor"
    and r: "refreshLocked e st d = Inr st1" and f: "fence_ok sem ev (so_State st1)"
    and ae: "after_event e a sem ev actor (so_State st1) dec s3"
    and v: "validateSnapshot (oe_SHA256 e) s3 = Inr ()" "encodable (snapshot_json s3)" and p: "so_Path st1 = so_Path st"
  shows "Handle e a ev st d =
    (dec, st1\<lparr>so_State := s3\<rparr>, if so_Path st = [] then d else d\<lparr>dk_State := Some (written_file s3)\<rparr>)"
proof -
  from ae obtain s1 where s1: "decide e a sem ev actor (so_State st1) = (dec, s1)"
    "appendBreadcrumb (oe_SHA256 e) (if dc_Allowed dec then s1\<lparr>sn_Updated := oe_Now e 0\<rparr> else s1) sem ev dec (oe_Now e 1) = Inr s3"
    by (auto simp: after_event_def)
  have h: "handle_locked e a sem ev actor st d0 =
      (dec, st1\<lparr>so_State := s3\<rparr>, if so_Path st = [] then d0 else d0\<lparr>dk_State := Some (written_file s3)\<rparr>)"
    if "refreshLocked e st d0 = Inr st1" "\<forall>f. dk_State d0 = Some f \<longrightarrow> sf_Regular f" for d0
    using that s1 f persist_ok [OF os, of "st1\<lparr>so_State := s3\<rparr>" d0] v p
    by (auto simp: handle_locked_def fence_ok_def Let_def)
  show ?thesis
  proof (cases "so_Path st = []")
    case True
    then show ?thesis
      using sem au lock_free [OF os l, of st] h [OF r reg] by (simp add: Handle_def unlock_store_def)
  next
    case False
    have "unlock_store e (st1\<lparr>so_State := s3\<rparr>)
        ((d\<lparr>dk_Lock := Some (LockToken (oe_Token e))\<rparr>)\<lparr>dk_State := Some (written_file s3)\<rparr>)
      = d\<lparr>dk_State := Some (written_file s3)\<rparr>"
      using False p os l by (cases d) (simp add: unlock_store_def releaseStateFileLock_def)
    then show ?thesis
      using sem au lock_free [OF os l, of st] False
        h [of "d\<lparr>dk_Lock := Some (LockToken (oe_Token e))\<rparr>"] r reg
      by (simp add: Handle_def) (simp add: unlock_store_def p)
  qed
qed

end
