(* ===== verification/OrchDemo.thy ===== *)
theory OrchDemo
  imports OrchFacts
begin

text \<open>
  A small installation to evaluate the orchestration on: the canonical catalog, two authorized
  agents, a start of a branch, a tool call and the end of the branch.
\<close>

fun demo_agent :: "string \<times> string \<Rightarrow> Agent" where
  "demo_agent (i, role) =
     (case map_of roleContracts role of
        Some c \<Rightarrow> \<lparr>ag_ID = i, ag_Role = role, ag_DirectUserAccess = rc_DirectUserAccess c,
          ag_ToolAccess = rc_ToolAccess c, ag_MayDelegate = rc_MayDelegate c, ag_InputContract = rc_InputContract c,
          ag_RelativePath = ''agents/'' @ i @ ''/AGENT.md'', ag_DisplayName = [], ag_DefaultEmoji = [],
          ag_OwnershipScope = [], ag_Customizable = False\<rparr>
      | None \<Rightarrow> undefined)"

definition demo_catalog :: Catalog where
  "demo_catalog = \<lparr>cg_SchemaVersion = 1, cg_Hub = ''maestro'',
     cg_Delegation = \<lparr>dp_Mode = ''maestro_planner'', dp_RegisteredChains = ''bounded_sequential'',
       dp_MaxActiveBranches = 1, dp_MaxDepth = 1, dp_MaxChildrenPerAgent = 0, dp_MaxErrandHelpers = 1,
       dp_ErrandScope = ''basic_reversible'', dp_AllowedEdges = delegation_edges\<rparr>,
     cg_NativeAdvisory = \<lparr>na_Mode = ''host_runtime'', na_MaxDepth = 2, na_MaxChildrenPerAgent = 2,
       na_AllowedEdges = advisory_edges\<rparr>,
     cg_LegacyAliases = legacy_aliases, cg_LegacyIDs = legacy_ids,
     cg_Agents = map demo_agent
       [(''case-agent'', ''case_agent''), (''client-account-agent'', ''client_account_agent''),
        (''darwin'', ''governance_analyst''), (''gamma-guardian'', ''quality_guardian''),
        (''maestro'', ''hub''), (''pa-expert'', ''pa_expert''), (''yoda'', ''reviewer'')]\<rparr>"

definition demo_text :: text_lib where
  "demo_text = \<lparr>tl_Lower = (\<lambda>s. s), tl_Bracket = (\<lambda>_. False)\<rparr>"

definition demo_sha :: "string \<Rightarrow> string" where
  "demo_sha s = replicate 64 (if s = ''key'' then CHR ''b'' else CHR ''a'')"

definition demo_oenv :: orch_env where
  "demo_oenv = \<lparr>oe_SHA256 = demo_sha, oe_Now = (\<lambda>k. int k + 1),
     oe_OS = (\<lambda>_. None), oe_Token = ''t'', oe_Text = demo_text\<rparr>"

definition demo_grant :: ToolGrant where
  "demo_grant = \<lparr>tg_Tool = ''read'', tg_Operation = ''get'', tg_ResourcePrefix = ''bcgos://case/c1/''\<rparr>"

definition demo_grants :: "Authorization list" where
  "demo_grants =
    [\<lparr>au_AgentID = ''maestro'', au_Role = ''hub'', au_Scope = [], au_ScopeKind = ''control'',
      au_Capability = ''cap'', au_Tools = []\<rparr>,
     \<lparr>au_AgentID = ''case-agent'', au_Role = ''workspace_agent'', au_Scope = ''c1'', au_ScopeKind = ''case'',
      au_Capability = ''key'', au_Tools = [demo_grant]\<rparr>]"

definition demo_authorizations :: "(string \<times> authorization) list" where
  "demo_authorizations =
    [(''maestro'', \<lparr>az_Role = ''hub'', az_Scope = [], az_ScopeKind = ''control'',
       az_CapabilitySHA256 = demo_sha ''cap'', az_Tools = []\<rparr>),
     (''case-agent'', \<lparr>az_Role = ''case_agent'', az_Scope = ''c1'', az_ScopeKind = ''case'',
       az_CapabilitySHA256 = demo_sha ''key'', az_Tools = [demo_grant]\<rparr>)]"

definition demo_adapter :: Adapter where
  "demo_adapter = \<lparr>ad_Runtime = ''claude'', ad_Catalog = demo_catalog, ad_Authorizations = demo_authorizations\<rparr>"

definition demo_start :: NativeEvent where
  "demo_start = blank_event\<lparr>ne_Name := ''agent_branch_start'', ne_ActorID := ''maestro'',
     ne_ActorCapability := ''cap'', ne_TargetID := ''case-agent'', ne_BranchID := ''b1'', ne_Scope := ''c1'',
     ne_ScopeKind := ''case''\<rparr>"

definition demo_tool :: NativeEvent where
  "demo_tool = blank_event\<lparr>ne_Name := ''pre_tool_use'', ne_ActorID := ''case-agent'',
     ne_ActorCapability := ''key'', ne_BranchID := ''b1'', ne_Scope := ''c1'', ne_ScopeKind := ''case'',
     ne_Tool := ''read'', ne_Operation := ''get'', ne_Resource := ''bcgos://case/c1/a/b.md'', ne_FenceEpoch := 1\<rparr>"

definition demo_finish :: NativeEvent where
  "demo_finish = blank_event\<lparr>ne_Name := ''agent_branch_stop'', ne_ActorID := ''case-agent'',
     ne_ActorCapability := ''key'', ne_BranchID := ''b1'', ne_FenceEpoch := 1\<rparr>"

definition demo_store :: StateStore where
  "demo_store = \<lparr>so_State = empty_snapshot, so_Recovery = demo_sha ''rescue'', so_Path = ''/s''\<rparr>"

definition demo_orch :: orch where
  "demo_orch = \<lparr>or_Disk = \<lparr>dk_State = None, dk_Lock = None\<rparr>, or_Stores = (\<lambda>_. demo_store)\<rparr>"

text \<open>The state an event leads to, when its breadcrumb is accepted.\<close>

definition demo_after :: "string \<Rightarrow> NativeEvent \<Rightarrow> StateSnapshot \<Rightarrow> Decision \<times> StateSnapshot" where
  "demo_after sem ev s =
     (let actor = the (authenticate demo_oenv demo_adapter (ne_ActorID ev) (ne_ActorCapability ev));
          (dec, s1) = decide demo_oenv demo_adapter sem ev actor s;
          s2 = (if dc_Allowed dec then s1\<lparr>sn_Updated := 1\<rparr> else s1)
      in (dec, s2\<lparr>sn_BreadcrumbSeq := sn_BreadcrumbSeq s2 + 1,
             sn_BreadcrumbTail := last_n 64 (sn_BreadcrumbTail s2 @ [new_breadcrumb demo_sha s2 sem ev dec 2])\<rparr>))"

definition demo_branch :: StateSnapshot where
  "demo_branch = snd (demo_after ''branch_start'' demo_start empty_snapshot)"

lemma demo_validated: "Validate demo_catalog = Inr ()"
  by code_simp

lemma demo_authorized:
  "validateAuthorizations demo_oenv demo_catalog demo_grants =
     Inr (demo_authorizations, authorizationFingerprint demo_oenv demo_authorizations)"
  by code_simp

lemma demo_digest: "good_digest demo_sha"
proof -
  have "validDigest (replicate 64 (CHR ''a'')) \<and> validDigest (replicate 64 (CHR ''b''))" by code_simp
  then have "validDigest (demo_sha x)" for x
    unfolding demo_sha_def by (cases "x = ''key''") (simp_all only: if_True if_False simp_thms)
  then show ?thesis by (simp add: good_digest_def)
qed

lemma demo_policy: "policy_of demo_text demo_sha demo_adapter"
proof -
  have "policy_ok (oe_Text demo_oenv) demo_authorizations" using validateAuthorizations_ok [OF demo_authorized] by blast
  moreover have "utf8_policy demo_authorizations" by code_simp
  ultimately show ?thesis using demo_digest by (simp add: policy_of_def demo_adapter_def demo_oenv_def)
qed

lemma demo_first: "orch_reachable demo_sha demo_adapter demo_orch"
  by (rule orch_first) (simp add: orch_init_def demo_orch_def demo_store_def)

lemma bound_refl [simp]: "bound a a"
  by (simp add: bound_def)

text \<open>The first event, piece by piece.\<close>

definition demo_started :: StateSnapshot where
  "demo_started = empty_snapshot\<lparr>sn_BranchID := ''b1'', sn_ScopeID := ''c1'', sn_ScopeKind := ''case'',
     sn_RootID := ''case-agent'', sn_FenceEpoch := 1\<rparr>"

lemma demo_start_steps:
  "semantic_event demo_adapter (ne_Name demo_start) = Some ''branch_start''"
  "authenticate demo_oenv demo_adapter (ne_ActorID demo_start) (ne_ActorCapability demo_start) \<noteq> None"
  "decide demo_oenv demo_adapter ''branch_start'' demo_start
     (the (authenticate demo_oenv demo_adapter (ne_ActorID demo_start) (ne_ActorCapability demo_start))) empty_snapshot
     = (allowed, demo_started)"
  by code_simp+

lemma demo_texts:
  "\<forall>ev \<in> set [demo_start, demo_tool, demo_finish].
     ValidAgentID (ne_ActorID ev) \<and> (ne_TargetID ev = [] \<or> ValidAgentID (ne_TargetID ev))
     \<and> validBreadcrumbToken (ne_BranchID ev) 128 \<and> validBreadcrumbToken (ne_DispatchID ev) 128
     \<and> validBreadcrumbToken (ne_Tool ev) 64 \<and> validBreadcrumbToken (ne_Operation ev) 64"
  "validBreadcrumbToken (dc_Code allowed) 96"
  "list_all (\<lambda>x. x \<in> set breadcrumbEvents) [''branch_start'', ''tool_request'', ''branch_finish'']"
  "marshalable_time 1" "marshalable_time 2" "marshalable_time 0"
  by code_simp+

lemma demo_env_simps [simp]:
  "oe_SHA256 demo_oenv = demo_sha" "oe_OS demo_oenv = (\<lambda>_. None)" "oe_Now demo_oenv k = int k + 1"
  "oe_Text demo_oenv = demo_text"
  by (simp_all add: demo_oenv_def)

lemma demo_branch_def':
  "demo_branch = demo_started\<lparr>sn_Updated := 1, sn_BreadcrumbSeq := 1,
     sn_BreadcrumbTail := [new_breadcrumb demo_sha (demo_started\<lparr>sn_Updated := 1\<rparr>) ''branch_start'' demo_start allowed 2]\<rparr>"
  using demo_start_steps(3)
  by (simp add: demo_branch_def demo_after_def Let_def last_n_def demo_started_def empty_snapshot_def)

lemma demo_branch_fields [simp]:
  "sn_PolicySHA256 demo_branch = []" "sn_BranchID demo_branch = ''b1''" "sn_ScopeID demo_branch = ''c1''"
  "sn_ScopeKind demo_branch = ''case''" "sn_RootID demo_branch = ''case-agent''" "sn_ChildID demo_branch = []"
  "sn_FenceEpoch demo_branch = 1" "sn_BreadcrumbSeq demo_branch = 1" "sn_Updated demo_branch = 1"
  by (simp_all add: demo_branch_def' demo_started_def empty_snapshot_def)

lemma demo_start_event:
  assumes "authenticate demo_oenv demo_adapter (ne_ActorID demo_start) (ne_ActorCapability demo_start) = Some actor"
  shows "after_event demo_oenv demo_adapter ''branch_start'' demo_start actor empty_snapshot allowed demo_branch"
proof -
  let ?s2 = "demo_started\<lparr>sn_Updated := 1\<rparr>"
  have s: "sn_BreadcrumbTail ?s2 = []" "sn_BreadcrumbSeq ?s2 = 0"
    by (simp_all add: demo_started_def empty_snapshot_def)
  have "validateBreadcrumb demo_sha (new_breadcrumb demo_sha ?s2 ''branch_start'' demo_start allowed 2) = Inr ()"
    by (rule new_breadcrumb_valid) (use demo_digest s demo_texts in simp_all)
  then have "appendBreadcrumb demo_sha ?s2 ''branch_start'' demo_start allowed 2 = Inr demo_branch"
    using s by (simp add: appendBreadcrumb_Inr demo_branch_def' last_n_def)
  then show ?thesis using demo_start_steps(3) assms by (auto simp: after_event_def)
qed

lemma demo_branch_ok: "state_ok demo_sha demo_adapter demo_branch"
proof -
  obtain actor where a: "authenticate demo_oenv demo_adapter (ne_ActorID demo_start) (ne_ActorCapability demo_start) = Some actor"
    using demo_start_steps(2) by blast
  have p: "policy_ok demo_text (ad_Authorizations demo_adapter)" "utf8_policy (ad_Authorizations demo_adapter)"
    using demo_policy by (simp_all add: policy_of_def)
  from after_event_ok [OF _ demo_start_event [OF a] p] state_ok_empty show ?thesis by simp
qed

lemma demo_branch_encodable: "encodable (snapshot_json demo_branch)"
  using demo_texts(4,5)
  by (simp add: encodable_snapshot) (simp add: demo_branch_def' new_breadcrumb_def Let_def)

lemma demo_start_handled:
  "Handle demo_oenv demo_adapter demo_start demo_store (or_Disk demo_orch) =
     (allowed, demo_store\<lparr>so_State := demo_branch\<rparr>, \<lparr>dk_State = Some (written_file demo_branch), dk_Lock = None\<rparr>)"
proof -
  obtain actor where a: "authenticate demo_oenv demo_adapter (ne_ActorID demo_start) (ne_ActorCapability demo_start) = Some actor"
    using demo_start_steps(2) by blast
  have e: "after_event demo_oenv demo_adapter ''branch_start'' demo_start actor (so_State demo_store) allowed demo_branch"
    using demo_start_event [OF a] by (simp add: demo_store_def)
  have r: "refreshLocked demo_oenv demo_store (or_Disk demo_orch) = Inr demo_store"
    by (simp add: refreshLocked_def demo_store_def demo_orch_def sys_call_def empty_snapshot_def)
  have v: "validateSnapshot (oe_SHA256 demo_oenv) demo_branch = Inr ()" using demo_branch_ok by (simp add: state_ok_def)
  from Handle_succeeds [OF _ _ _ demo_start_steps(1) a r _ e v demo_branch_encodable refl]
  show ?thesis by (simp add: demo_orch_def demo_store_def fence_ok_def)
qed

definition demo_orch1 :: orch where
  "demo_orch1 = \<lparr>or_Disk = \<lparr>dk_State = Some (written_file demo_branch), dk_Lock = None\<rparr>,
     or_Stores = (\<lambda>_. demo_store)(0 := demo_store\<lparr>so_State := demo_branch\<rparr>)\<rparr>"

lemma demo_start_step: "orch_step demo_sha demo_adapter demo_orch demo_orch1"
  using step_handle [of demo_oenv demo_sha demo_adapter demo_adapter demo_start demo_orch 0 allowed]
    demo_start_handled
  by (simp add: demo_orch1_def demo_orch_def demo_oenv_def)

lemma demo_second: "orch_reachable demo_sha demo_adapter demo_orch1"
  using demo_first demo_start_step by (rule orch_next)

lemma demo_fits: "state_bytes demo_branch \<le> MaximumDurableStateBytes"
  by code_simp

lemma demo_disk_state: "disk_state (or_Disk demo_orch1) = demo_branch"
  using disk_state_written [OF _ demo_branch_ok] by (simp add: demo_orch1_def)

text \<open>A store in memory, so that nothing but the decision is evaluated.\<close>

definition demo_memory :: StateStore where
  "demo_memory = \<lparr>so_State = demo_branch, so_Recovery = demo_sha ''rescue'', so_Path = []\<rparr>"

definition no_disk :: disk where
  "no_disk = \<lparr>dk_State = None, dk_Lock = None\<rparr>"

lemma demo_tool_steps:
  "semantic_event demo_adapter (ne_Name demo_tool) = Some ''tool_request''"
  "authenticate demo_oenv demo_adapter (ne_ActorID demo_tool) (ne_ActorCapability demo_tool) \<noteq> None"
  "guardTool demo_oenv demo_adapter demo_tool
     (the (authenticate demo_oenv demo_adapter (ne_ActorID demo_tool) (ne_ActorCapability demo_tool))) demo_started = allowed"
  by code_simp+

lemma demo_tool_allowed: "dc_Allowed (fst (Handle demo_oenv demo_adapter demo_tool demo_memory no_disk))"
proof -
  obtain actor where a: "authenticate demo_oenv demo_adapter (ne_ActorID demo_tool) (ne_ActorCapability demo_tool) = Some actor"
    using demo_tool_steps(2) by blast
  have "guardTool demo_oenv demo_adapter demo_tool actor demo_branch = guardTool demo_oenv demo_adapter demo_tool actor demo_started"
    by (simp add: guardTool_def demo_branch_def')
  then have d: "decide demo_oenv demo_adapter ''tool_request'' demo_tool actor demo_branch = (allowed, demo_branch)"
    using demo_tool_steps(3) a by (simp add: decide_def)
  obtain s3 where s3: "after_event demo_oenv demo_adapter ''tool_request'' demo_tool actor demo_branch allowed s3"
    "sn_Updated s3 = 1" "\<forall>b \<in> set (sn_BreadcrumbTail s3). b \<in> set (sn_BreadcrumbTail demo_branch) \<or> bc_OccurredAt b = 2"
    by (rule after_event_exists [OF d]) (use demo_branch_ok demo_digest demo_texts in auto)
  have enc: "encodable (snapshot_json s3)"
    using s3(2,3) demo_texts demo_branch_encodable by (auto simp: encodable_snapshot)
  have p: "policy_ok demo_text (ad_Authorizations demo_adapter)" "utf8_policy (ad_Authorizations demo_adapter)"
    using demo_policy by (simp_all add: policy_of_def)
  have "state_ok demo_sha demo_adapter s3"
    using after_event_ok [OF _ s3(1) p] demo_branch_ok by simp
  then have v: "validateSnapshot (oe_SHA256 demo_oenv) s3 = Inr ()" by (simp add: state_ok_def)
  have r: "refreshLocked demo_oenv demo_memory no_disk = Inr demo_memory"
    by (simp add: refreshLocked_def demo_memory_def)
  have f: "fence_ok ''tool_request'' demo_tool (so_State demo_memory)"
    by (simp add: fence_ok_def demo_memory_def demo_tool_def)
  have s3': "after_event demo_oenv demo_adapter ''tool_request'' demo_tool actor (so_State demo_memory) allowed s3"
    using s3(1) by (simp add: demo_memory_def)
  from Handle_succeeds [OF _ _ _ demo_tool_steps(1) a r f s3' v enc refl] show ?thesis
    by (simp add: no_disk_def)
qed

end
