(* ===== verification/OrchProps.thy ===== *)
theory OrchProps
  imports OrchDemo
begin

text \<open>The properties of the orchestration, each with a concrete instance.\<close>

section \<open>Refinement and invariant\<close>

text \<open>C11: every step of any process, whatever the operating system refuses, is a step of the
  abstract machine on the shared state: at most one branch at a time, started only when there is
  none and for a root the hub may delegate to, an epoch that is raised by every start and by
  nothing else, and a branch that goes away only by its end or a recovery.\<close>

theorem orchestration_refines:
  assumes "orch_reachable sha a0 s" "policy_of tx sha a0" "orch_step sha a0 s s'"
  shows "spec_step a0 (branch_abs (disk_state (or_Disk s))) (branch_abs (disk_state (or_Disk s')))"
  using orch_step_ok [OF assms(3) orch_reachable_ok [OF assms(1,2)] assms(2)] by blast

theorem orchestration_refines_witness:
  "spec_step demo_adapter (branch_abs (disk_state (or_Disk demo_orch))) (branch_abs (disk_state (or_Disk demo_orch1)))
   \<and> bs_Holder (branch_abs (disk_state (or_Disk demo_orch1))) = Some (''b1'', ''c1'', ''case'', ''case-agent'')"
proof
  show "spec_step demo_adapter (branch_abs (disk_state (or_Disk demo_orch))) (branch_abs (disk_state (or_Disk demo_orch1)))"
    by (rule orchestration_refines [OF demo_first demo_policy demo_start_step])
  show "bs_Holder (branch_abs (disk_state (or_Disk demo_orch1))) = Some (''b1'', ''c1'', ''case'', ''case-agent'')"
    by (simp add: demo_disk_state branch_abs_def)
qed

text \<open>C12: in every reachable state nothing is nested below the root, an active branch is held by
  an agent the policy authorizes for exactly its scope and the hub may delegate to, and the trace
  is a valid chain of at most 64 entries, numbered without gaps up to the current number and
  linked by digest.\<close>

theorem orchestration_state_valid:
  assumes "orch_reachable sha a0 s" "policy_of tx sha a0"
  shows "let x = disk_state (or_Disk s); tail = sn_BreadcrumbTail x in
     sn_ChildID x = [] \<and> sn_ChildDispatchID x = []
     \<and> (sn_BranchID x = [] \<or> may_root a0 (sn_ScopeID x) (sn_ScopeKind x) (sn_RootID x))
     \<and> length tail \<le> 64 \<and> chained tail \<and> (\<forall>b \<in> set tail. validateBreadcrumb sha b = Inr ())
     \<and> (\<forall>i < length tail. bc_Sequence (tail ! i) = sn_BreadcrumbSeq x - of_nat (length tail - 1 - i))"
proof -
  let ?x = "disk_state (or_Disk s)"
  have ok: "state_ok sha a0 ?x" using reachable_parts(5) [OF assms bound_refl] .
  then have v: "length (sn_BreadcrumbTail ?x) \<le> 64" "chained (sn_BreadcrumbTail ?x)"
    "\<forall>b \<in> set (sn_BreadcrumbTail ?x). validateBreadcrumb sha b = Inr ()"
    "sn_BreadcrumbTail ?x = [] \<or> sn_BreadcrumbSeq ?x = bc_Sequence (last (sn_BreadcrumbTail ?x))"
    by (auto simp: state_ok_def validateSnapshot_iff)
  have "bc_Sequence (sn_BreadcrumbTail ?x ! i) = sn_BreadcrumbSeq ?x - of_nat (length (sn_BreadcrumbTail ?x) - 1 - i)"
    if i: "i < length (sn_BreadcrumbTail ?x)" for i
  proof -
    have ne: "sn_BreadcrumbTail ?x \<noteq> []" using i by auto
    have "sn_BreadcrumbSeq ?x = bc_Sequence (hd (sn_BreadcrumbTail ?x)) + of_nat (length (sn_BreadcrumbTail ?x) - 1)"
      using v(4) ne chained_nth [OF v(2), of "length (sn_BreadcrumbTail ?x) - 1"] i by (simp add: last_conv_nth)
    then show ?thesis using chained_nth [OF v(2) i] i by (simp add: of_nat_diff)
  qed
  moreover have "sn_BranchID ?x = [] \<or> may_root a0 (sn_ScopeID ?x) (sn_ScopeKind ?x) (sn_RootID ?x)"
    using ok by (auto simp: state_ok_def root_authorized_def may_root_def)
  ultimately show ?thesis using ok v by (simp add: Let_def state_ok_def)
qed

theorem orchestration_state_valid_witness:
  "length (sn_BreadcrumbTail (disk_state (or_Disk demo_orch1))) \<le> 64
   \<and> sn_ChildID (disk_state (or_Disk demo_orch1)) = []"
  using orchestration_state_valid [OF demo_second demo_policy] by (simp only: Let_def)

section \<open>Single calls\<close>

text \<open>C13: a call of \<open>Handle\<close> either is denied and leaves the shared state as it was, or adds exactly
  one breadcrumb, linked to the one before, that records the event and the decision taken; the
  caller gets that decision, or the report that persisting failed. So no event is allowed
  without a trace.\<close>

theorem Handle_recorded:
  assumes "orch_reachable (oe_SHA256 e) a0 s" "policy_of tx (oe_SHA256 e) a0" "bound a0 a"
    and "Handle e a ev (or_Stores s p) (or_Disk s) = (r, st', d')"
  shows "\<not> dc_Allowed r \<and> dk_State d' = dk_State (or_Disk s)
    \<or> (\<exists>b. let x = disk_state (or_Disk s) in
         sn_BreadcrumbTail (disk_state d') = last_n 64 (sn_BreadcrumbTail x @ [b])
         \<and> sn_BreadcrumbSeq (disk_state d') = sn_BreadcrumbSeq x + 1
         \<and> bc_Sequence b = sn_BreadcrumbSeq x + 1
         \<and> bc_PreviousDigest b = (if sn_BreadcrumbTail x = [] then [] else bc_Digest (last (sn_BreadcrumbTail x)))
         \<and> semantic_event a (ne_Name ev) = Some (bc_Event b) \<and> bc_ActorID b = ne_ActorID ev
         \<and> bc_TargetID b = ne_TargetID ev \<and> bc_BranchID b = ne_BranchID ev
         \<and> (bc_Allowed b = dc_Allowed r \<and> bc_DecisionCode b = dc_Code r \<or> r = denied ''state_persist_failed''))"
  using reachable_parts(1) [OF assms(1-3)] reachable_parts(2) [OF assms(1-3), of p]
    reachable_parts(3,4) [OF assms(1-3)] assms(4)
proof (cases rule: Handle_disk)
  case same
  then show ?thesis by blast
next
  case (moved sem actor st1 dec s3)
  have x: "sn_BreadcrumbTail (so_State st1) = sn_BreadcrumbTail (disk_state (or_Disk s))"
    "sn_BreadcrumbSeq (so_State st1) = sn_BreadcrumbSeq (disk_state (or_Disk s))"
    using moved(3) by (auto dest: arg_cong [where f = sn_BreadcrumbTail] arg_cong [where f = sn_BreadcrumbSeq])
  have "sn_ChildID (so_State st1) = []" using moved(4) by (simp add: state_ok_def)
  from after_event_trace [OF moved(6) this] show ?thesis
    using moved(1,7,10) x by (auto simp: Let_def)
qed

theorem Handle_recorded_witness:
  "\<exists>b. sn_BreadcrumbTail (disk_state \<lparr>dk_State = Some (written_file demo_branch), dk_Lock = None\<rparr>) = [b]
     \<and> bc_Allowed b \<and> bc_Event b = ''branch_start'' \<and> bc_ActorID b = ''maestro''"
proof -
  have h: "Handle demo_oenv demo_adapter demo_start (or_Stores demo_orch 0) (or_Disk demo_orch) =
      (allowed, demo_store\<lparr>so_State := demo_branch\<rparr>, \<lparr>dk_State = Some (written_file demo_branch), dk_Lock = None\<rparr>)"
    using demo_start_handled by (simp add: demo_orch_def)
  have pre: "orch_reachable (oe_SHA256 demo_oenv) demo_adapter demo_orch" "policy_of demo_text (oe_SHA256 demo_oenv) demo_adapter"
    using demo_first demo_policy by (simp_all add: demo_oenv_def)
  have "sn_BreadcrumbTail (disk_state (or_Disk demo_orch)) = []"
    by (simp add: disk_state_def demo_orch_def empty_snapshot_def)
  with Handle_recorded [OF pre bound_refl h] demo_start_steps(1) show ?thesis
    by (auto simp: Let_def last_n_def demo_start_def blank_event_def)
qed

text \<open>C14: an event that carries the epoch of another branch is refused and changes nothing; only
  the start of a branch is exempt.\<close>

theorem stale_epoch_refused:
  assumes "orch_reachable (oe_SHA256 e) a0 s" "policy_of tx (oe_SHA256 e) a0" "bound a0 a"
    and "Handle e a ev (or_Stores s p) (or_Disk s) = (r, st', d')"
    and "semantic_event a (ne_Name ev) \<noteq> Some ''branch_start''"
    and "ne_FenceEpoch ev \<noteq> 0" "ne_FenceEpoch ev \<noteq> sn_FenceEpoch (disk_state (or_Disk s))"
  shows "\<not> dc_Allowed r \<and> dk_State d' = dk_State (or_Disk s)"
  using reachable_parts(1) [OF assms(1-3)] reachable_parts(2) [OF assms(1-3), of p]
    reachable_parts(3,4) [OF assms(1-3)] assms(4)
proof (cases rule: Handle_disk)
  case same
  then show ?thesis by blast
next
  case (moved sem actor st1 dec s3)
  have "sn_FenceEpoch (so_State st1) = sn_FenceEpoch (disk_state (or_Disk s))"
    using moved(3) by (auto dest: arg_cong [where f = sn_FenceEpoch])
  then show ?thesis using moved(1,5) assms(5-7) by (simp add: fence_ok_def)
qed

theorem stale_epoch_refused_witness:
  "\<not> dc_Allowed (fst (Handle demo_oenv demo_adapter (demo_tool\<lparr>ne_FenceEpoch := 7\<rparr>) (or_Stores demo_orch1 0) (or_Disk demo_orch1)))"
proof -
  obtain r st' d' where h: "Handle demo_oenv demo_adapter (demo_tool\<lparr>ne_FenceEpoch := 7\<rparr>) (or_Stores demo_orch1 0) (or_Disk demo_orch1) = (r, st', d')"
    by (metis prod_cases3)
  have pre: "orch_reachable (oe_SHA256 demo_oenv) demo_adapter demo_orch1" "policy_of demo_text (oe_SHA256 demo_oenv) demo_adapter"
    using demo_second demo_policy by (simp_all add: demo_oenv_def)
  have sem: "semantic_event demo_adapter (ne_Name (demo_tool\<lparr>ne_FenceEpoch := 7\<rparr>)) \<noteq> Some ''branch_start''"
    by code_simp
  have ep: "ne_FenceEpoch (demo_tool\<lparr>ne_FenceEpoch := 7\<rparr>) \<noteq> sn_FenceEpoch (disk_state (or_Disk demo_orch1))"
    by (simp add: demo_disk_state)
  from stale_epoch_refused [OF pre bound_refl h sem _ ep] h show ?thesis by simp
qed

text \<open>C15: a tool call is allowed only while a branch is active, to its root, for a tool and an
  operation granted to the caller, on a resource inside the branch's scope (or the public one).
  The grants were bound to the caller's scope when the adapter was built.\<close>

theorem tool_call_confined:
  assumes "NewAdapter e0 rt c grants st0 d0 = (Inr a, st0', d0')" "oe_Text e = oe_Text e0"
    and "semantic_event a (ne_Name ev) = Some ''tool_request''"
    and "Handle e a ev st d = (r, st', d')" "dc_Allowed r"
  shows "\<exists>d1 st1 actor res. lock_store e st d = Inr d1 \<and> refreshLocked e st d1 = Inr st1
     \<and> authenticate e a (ne_ActorID ev) (ne_ActorCapability ev) = Some actor
     \<and> sn_BranchID (so_State st1) \<noteq> [] \<and> ne_BranchID ev = sn_BranchID (so_State st1)
     \<and> ne_ActorID ev \<in> {sn_RootID (so_State st1), sn_ChildID (so_State st1)}
     \<and> (\<exists>g \<in> set (az_Tools actor). tg_Tool g = ne_Tool ev \<and> tg_Operation g = ne_Operation ev)
     \<and> canonicalResource (oe_Text e) (ne_Resource ev) False = Some res
     \<and> ResourceWithinScope (oe_Text e) res (sn_ScopeKind (so_State st1)) (sn_ScopeID (so_State st1))"
  using assms(4)
proof (cases rule: Handle_cases)
  case early
  then show ?thesis using assms(5) by simp
next
  case (locked sem actor d1 d2)
  then have sem: "sem = ''tool_request''" using assms(3) by simp
  have bound: "grants_bound (oe_Text e) actor"
    using NewAdapter_ok(3) [OF assms(1)] authenticate_in [OF locked(2)] assms(2) by (auto simp: policy_ok_def)
  from locked(4) show ?thesis
  proof (cases rule: handle_locked_cases)
    case (kept st1 s3)
    have al: "dc_Allowed (guardTool e a ev actor (so_State st1))"
      using kept(3) sem assms(5) by (auto simp: after_event_def decide_def)
    obtain res g where g: "sn_BranchID (so_State st1) \<noteq> []" "ne_BranchID ev = sn_BranchID (so_State st1)"
      "ne_ActorID ev = sn_RootID (so_State st1) \<or> ne_ActorID ev = sn_ChildID (so_State st1)"
      "canonicalResource (oe_Text e) (ne_Resource ev) False = Some res" "g \<in> set (az_Tools actor)"
      "tg_Tool g = ne_Tool ev" "tg_Operation g = ne_Operation ev"
      using guardTool_allowed [OF al] by metis
    have "ResourceWithinScope (oe_Text e) res (sn_ScopeKind (so_State st1)) (sn_ScopeID (so_State st1))"
      using guardTool_within [OF al bound] g(4) by auto
    then show ?thesis using locked(2,3) kept(1) g by blast
  qed (use assms(5) in simp_all)
qed

theorem tool_call_confined_witness:
  "\<exists>res. canonicalResource demo_text ''bcgos://case/c1/a/b.md'' False = Some res
     \<and> ResourceWithinScope demo_text res ''case'' ''c1''"
proof -
  let ?d = no_disk
  have n: "fst (NewAdapter demo_oenv ''claude'' demo_catalog demo_grants (demo_memory\<lparr>so_State := empty_snapshot\<rparr>) ?d) = Inr demo_adapter"
    by code_simp
  note h = demo_tool_allowed and sem = demo_tool_steps(1)
  obtain st0' d0' where n': "NewAdapter demo_oenv ''claude'' demo_catalog demo_grants (demo_memory\<lparr>so_State := empty_snapshot\<rparr>) ?d = (Inr demo_adapter, st0', d0')"
    using n by (metis prod.collapse)
  obtain r st' d' where h': "Handle demo_oenv demo_adapter demo_tool demo_memory ?d = (r, st', d')" by (metis prod_cases3)
  have r: "dc_Allowed r" using h h' by simp
  from tool_call_confined [OF n' refl sem h' r] show ?thesis
    by (auto simp: refreshLocked_def demo_memory_def demo_oenv_def demo_tool_def)
qed

end
