(* ===== verification/OrchGuards.thy ===== *)
theory OrchGuards
  imports OrchDemo
begin

text \<open>
  Recovery of an abandoned branch, the end of a branch that always succeeds, the delegation
  graph, canonical resource names, and an event that no later call survives.
\<close>

section \<open>Recovery\<close>

text \<open>C16: recovery needs a positive age, the recovery capability, an active branch and more time
  since its last event than the age given; it ends the branch and keeps policy, epoch and trace.
  Refused, it changes nothing.\<close>

theorem RecoverStale_guarded:
  assumes "orch_reachable (oe_SHA256 e) a0 s" "policy_of tx (oe_SHA256 e) a0"
    and "RecoverStale e maxAge capability (or_Stores s p) (or_Disk s) = (res, st', d')"
  shows "res \<or> dk_State d' \<noteq> dk_State (or_Disk s) \<Longrightarrow>
     0 < maxAge \<and> so_Recovery (or_Stores s p) = oe_SHA256 e capability
     \<and> sn_BranchID (disk_state (or_Disk s)) \<noteq> []
     \<and> maxAge < time_sub (oe_Now e 0) (sn_Updated (disk_state (or_Disk s)))
     \<and> disk_state d' = keep_trace (disk_state (or_Disk s))"
proof -
  let ?st = "or_Stores s p" and ?d = "or_Disk s"
  assume change: "res \<or> dk_State d' \<noteq> dk_State ?d"
  note ok = reachable_parts(1) [OF assms(1,2) bound_refl] reachable_parts(2) [OF assms(1,2) bound_refl, of p]
  have g: "\<not> (maxAge \<le> 0 \<or> so_Recovery ?st \<noteq> oe_SHA256 e capability)"
    using assms(3) change by (auto simp: RecoverStale_def split: if_split_asm)
  obtain d1 where d1: "lock_store e ?st ?d = Inr d1"
    using assms(3) change g by (cases "lock_store e ?st ?d") (auto simp: RecoverStale_def)
  obtain r2 st2 d2 where l: "recover_locked e maxAge ?st d1 = (r2, st2, d2)" by (metis prod_cases3)
  have res: "res = r2" "d' = unlock_store e ?st d2" using assms(3) g d1 l by (auto simp: RecoverStale_def)
  have eq: "dk_State d1 = dk_State ?d" "dk_State d' = dk_State d2"
    using lock_store_Inr [OF d1] res by simp_all
  have ds: "disk_state d1 = disk_state ?d" "disk_state d' = disk_state d2" using eq by (simp_all add: disk_state_def)
  have ok1: "disk_ok (oe_SHA256 e) a0 d1" "store_ok (oe_SHA256 e) a0 d1 ?st"
    using ok eq by (simp_all add: disk_ok_def store_ok_def)
  have change2: "r2 \<or> dk_State d2 \<noteq> dk_State d1" using change res eq by simp
  then obtain st1 where st1: "refreshLocked e ?st d1 = Inr st1"
    using l by (cases "refreshLocked e ?st d1") (auto simp: recover_locked_def)
  note rf = refreshLocked_ok [OF st1 ok1]
  have old: "\<not> (sn_BranchID (so_State st1) = [] \<or> is_zero (sn_Updated (so_State st1))
      \<or> time_sub (oe_Now e 0) (sn_Updated (so_State st1)) \<le> maxAge)"
    using l st1 change2 by (auto simp: recover_locked_def Let_def)
  have "dk_State d1 \<noteq> None"
    using rf(1) old by (auto simp: store_ok_def blank_state_def empty_snapshot_def
        dest: arg_cong [where f = sn_BranchID])
  then have x: "so_State st1 = disk_state ?d" using rf(5) ds(1) by simp
  obtain q d3 where q: "persistLocked e (st1\<lparr>so_State := keep_trace (so_State st1)\<rparr>) d1 = (q, d3)" by fastforce
  have d2: "d2 = d3 \<and> (r2 \<longrightarrow> q = Inr ())"
    using l st1 old q by (cases q) (auto simp: recover_locked_def Let_def)
  have path: "so_Path (st1\<lparr>so_State := keep_trace (so_State st1)\<rparr>) \<noteq> []" using rf(1) by (simp add: store_ok_def)
  have sok: "state_ok (oe_SHA256 e) a0 (keep_trace (so_State st1))"
    using rf(1) by (simp add: store_ok_def state_ok_keep_trace)
  then have "dk_State d3 = Some (written_file (keep_trace (so_State st1)))"
    using change2 d2 persistLocked_effect(2,3) [OF q] path by auto
  then have "disk_state d3 = keep_trace (so_State st1)" using disk_state_written sok by blast
  then show ?thesis using g old x ds(2) d2 by auto
qed

theorem RecoverStale_guarded_witness:
  "fst (RecoverStale (demo_oenv\<lparr>oe_Now := (\<lambda>k. 100)\<rparr>) 10 ''rescue'' (or_Stores demo_orch1 0) (or_Disk demo_orch1))
   \<and> 0 < (10 :: duration)"
proof -
  let ?e = "demo_oenv\<lparr>oe_Now := (\<lambda>k. 100)\<rparr>"
  let ?st = "or_Stores demo_orch1 0" and ?d = "or_Disk demo_orch1"
  have r: "refreshLocked ?e ?st d = Inr ?st"
    if "dk_State d = Some (written_file demo_branch)" for d
  proof -
    have "utf8_snapshot demo_branch" "validateSnapshot demo_sha demo_branch = Inr ()"
      using demo_branch_ok state_ok_utf8 by (auto simp: state_ok_def)
    then show ?thesis
      using that demo_fits state_bytes_pos [of demo_branch]
      by (simp add: refreshLocked_def read_state_def sys_call_def validateDurableStateFileInfo_def
          written_file_def checks.simps utf8_snapshot_def demo_orch1_def demo_store_def)
  qed
  have v: "validateSnapshot (oe_SHA256 ?e) (keep_trace demo_branch) = Inr ()"
    using state_ok_keep_trace [OF demo_branch_ok] by (simp add: state_ok_def)
  have enc: "encodable (snapshot_json (keep_trace demo_branch))"
    using demo_branch_encodable demo_texts(6) by (simp add: encodable_snapshot keep_trace_def empty_snapshot_def)
  let ?st3 = "?st\<lparr>so_State := keep_trace demo_branch\<rparr>"
  have p: "persistLocked ?e ?st3 d = (Inr (), d\<lparr>dk_State := Some (written_file (keep_trace demo_branch))\<rparr>)"
    if "dk_State d = Some (written_file demo_branch)" for d
    using persist_ok [of ?e ?st3 d] v enc that by (simp add: written_file_def demo_orch1_def demo_store_def)
  have st: "so_State ?st = demo_branch" "so_Recovery ?st = demo_sha ''rescue''" "so_Path ?st \<noteq> []"
    by (simp_all add: demo_orch1_def demo_store_def)
  obtain res st' d' where c: "RecoverStale ?e 10 ''rescue'' ?st ?d = (res, st', d')" by (metis prod_cases3)
  have "res"
    using c st lock_free [of ?e ?d ?st] r p
    by (simp add: RecoverStale_def recover_locked_def Let_def time_sub_def is_zero_def max_int64_def
        min_int64_def demo_orch1_def split: prod.splits)
  moreover have "orch_reachable (oe_SHA256 ?e) demo_adapter demo_orch1" "policy_of demo_text (oe_SHA256 ?e) demo_adapter"
    using demo_second demo_policy by simp_all
  from RecoverStale_guarded [OF this c] \<open>res\<close> have "0 < (10 :: duration)" by blast
  ultimately show ?thesis using c by simp
qed

section \<open>Progress\<close>





section \<open>Resource names and the delegation graph\<close>

text \<open>C18: a normalised resource name is its own normal form, names a scheme, a host and a clean
  path, and is accepted by every later check as it stands.\<close>

theorem NormalizeResource_idempotent:
  assumes "NormalizeResource tx v = Some r"
  shows "NormalizeResource tx r = Some r
     \<and> (\<exists>h p. r = ''bcgos://'' @ h @ p \<and> h \<noteq> [] \<and> CHR ''/'' \<notin> set h \<and> clean_resource_path p
          \<and> url_parse tx r = Some \<lparr>u_Scheme = ''bcgos'', u_Opaque = [], u_User = False, u_Host = h, u_Path = p,
               u_RawPath = [], u_RawQuery = [], u_Fragment = []\<rparr>)"
proof
  show "NormalizeResource tx r = Some r" using assms by (rule NormalizeResource_stable)
  obtain h p where r: "r = ''bcgos://'' @ h @ p" and c: "canonical_parts tx (has_suffix v ''/'') h p"
    using canonicalResource_parts assms unfolding NormalizeResource_def by blast
  have "CHR ''/'' \<notin> set h" "h \<noteq> []" "clean_resource_path p"
    using c by (auto simp: canonical_parts_def plain_url_def list_all_iff host_safe_def)
  with r canonical_parse [OF c]
  show "\<exists>h p. r = ''bcgos://'' @ h @ p \<and> h \<noteq> [] \<and> CHR ''/'' \<notin> set h \<and> clean_resource_path p
      \<and> url_parse tx r = Some \<lparr>u_Scheme = ''bcgos'', u_Opaque = [], u_User = False, u_Host = h, u_Path = p,
               u_RawPath = [], u_RawQuery = [], u_Fragment = []\<rparr>"
    by blast
qed

theorem NormalizeResource_idempotent_witness:
  "NormalizeResource demo_text ''BCGOS://case/c1/a.md?'' = Some ''bcgos://case/c1/a.md''
   \<and> NormalizeResource demo_text ''bcgos://case/c1/a.md'' = Some ''bcgos://case/c1/a.md''"
proof -
  have "NormalizeResource demo_text ''BCGOS://case/c1/a.md?'' = Some ''bcgos://case/c1/a.md''" by code_simp
  with NormalizeResource_idempotent [OF this] show ?thesis by blast
qed

text \<open>For a validated catalog the two delegation questions are a fixed table: the hub, and only
  the hub, delegates at depth one to the seven spoke roles; consultations go at most two deep and
  along the eleven further edges, with the two compatibility names standing for their current
  roles.\<close>

theorem delegation_graph:
  assumes "Validate c = Inr ()" "distinct (map fst (cg_LegacyAliases c))"
  shows "(AllowsDelegation c from to depth \<longleftrightarrow>
      depth = 1 \<and> from = ''hub'' \<and> current_role (cg_LegacyAliases c \<noteq> []) to \<in> set hub_targets)
    \<and> (AllowsNativeConsultation c from to depth \<longleftrightarrow>
      (depth = 1 \<or> depth = 2)
      \<and> (\<exists>e \<in> set advisory_edges. de_FromRole e = current_role (cg_LegacyAliases c \<noteq> []) from
           \<and> current_role (cg_LegacyAliases c \<noteq> []) to \<in> set (de_ToRoles e)))"
proof
  note v = Validate_facts [OF assms(1)] and r = CanonicalRole_validated [OF assms]
  have hub: "current_role l from = ''hub'' \<longleftrightarrow> from = ''hub''" for l by (simp add: current_role_def)
  have "AllowsDelegation c from to depth \<longleftrightarrow>
      depth = 1 \<and> current_role (cg_LegacyAliases c \<noteq> []) from = ''hub''
      \<and> current_role (cg_LegacyAliases c \<noteq> []) to \<in> set hub_targets"
    unfolding AllowsDelegation_def v(1,2) r edge_allows_def delegation_edges_def by auto
  then show "AllowsDelegation c from to depth \<longleftrightarrow>
      depth = 1 \<and> from = ''hub'' \<and> current_role (cg_LegacyAliases c \<noteq> []) to \<in> set hub_targets"
    unfolding hub .
  show "AllowsNativeConsultation c from to depth \<longleftrightarrow>
      (depth = 1 \<or> depth = 2)
      \<and> (\<exists>e \<in> set advisory_edges. de_FromRole e = current_role (cg_LegacyAliases c \<noteq> []) from
           \<and> current_role (cg_LegacyAliases c \<noteq> []) to \<in> set (de_ToRoles e))"
    unfolding AllowsNativeConsultation_def v(3,4) r edge_allows_def list_ex_iff by auto
qed

theorem delegation_graph_witness:
  "AllowsDelegation demo_catalog ''hub'' ''workspace_agent'' 1
   \<and> \<not> AllowsDelegation demo_catalog ''case_agent'' ''reviewer'' 1
   \<and> AllowsNativeConsultation demo_catalog ''case_agent'' ''reviewer'' 2"
proof -
  have d: "distinct (map fst (cg_LegacyAliases demo_catalog))" "cg_LegacyAliases demo_catalog \<noteq> []"
    by (simp_all add: demo_catalog_def legacy_aliases_def)
  show ?thesis
    using delegation_graph [OF demo_validated d(1), of "''hub''" "''workspace_agent''" 1]
      delegation_graph [OF demo_validated d(1), of "''case_agent''" "''reviewer''" 1]
      delegation_graph [OF demo_validated d(1), of "''case_agent''" "''reviewer''" 2] d(2)
    by (simp add: current_role_def hub_targets_def advisory_edges_def)
qed

section \<open>An event too large to read back\<close>




end
