(* ===== verification/GoZone.thy ===== *)
theory GoZone
  imports GoTime
begin

text \<open>
  Local time: the civil calendar in both directions, and \<open>*time.Location\<close> with the
  operations of package time the scheduler uses (\<open>Date\<close>, \<open>AddDate\<close>, \<open>Weekday\<close>, \<open>Clock\<close>).
  A location is a first offset and a list of transitions, as in the zone database.
\<close>

section \<open>The calendar is a bijection\<close>

text \<open>
  Day of the four-century era on which a year (counted from March) begins, and its last day.
\<close>

definition year_start :: "int \<Rightarrow> int" where
  "year_start y = 365 * y + y div 4 - y div 100"

definition year_last :: "int \<Rightarrow> int" where
  "year_last y = (if y = 399 then 146096 else year_start (y + 1) - 1)"

definition era_count :: "int \<Rightarrow> int" where
  "era_count doe = doe - doe div 1460 + doe div 36524 - doe div 146096"

lemma era_count_step: "0 \<le> d \<Longrightarrow> d < 146096 \<Longrightarrow> era_count d \<le> era_count (d + 1)"
proof -
  assume d: "0 \<le> d" "d < 146096"
  have a: "(d + 1) div 1460 \<le> d div 1460 + 1"
    using zdiv_mono1 [of "d + 1" "d + 1460" 1460] by simp
  have b: "d div 36524 \<le> (d + 1) div 36524" by (simp add: zdiv_mono1)
  have e: "d div 146096 = 0" using d by simp
  show ?thesis
  proof (cases "d + 1 = 146096")
    case True
    then have "d = 146095" by simp
    then show ?thesis by (simp add: era_count_def)
  next
    case False
    then have "(d + 1) div 146096 = 0" using d by simp
    with a b e show ?thesis unfolding era_count_def by linarith
  qed
qed

lemma era_count_mono:
  assumes "0 \<le> d" "d \<le> d'" "d' \<le> 146096"
  shows "era_count d \<le> era_count d'"
proof -
  have "era_count d \<le> era_count (d + int k)" if "d + int k \<le> 146096" for k
    using that
  proof (induction k)
    case (Suc k)
    then show ?case using era_count_step [of "d + int k"] \<open>0 \<le> d\<close> by (simp add: ac_simps)
  qed simp
  from this [of "nat (d' - d)"] show ?thesis using assms by simp
qed

lemma era_count_years:
  "list_all (\<lambda>y. 0 \<le> year_start y \<and> 365 * y \<le> era_count (year_start y) \<and> era_count (year_last y) \<le> 365 * y + 364
      \<and> year_start y \<le> year_last y \<and> year_last y \<le> 146096
      \<and> 364 \<le> year_last y - year_start y \<and> year_last y - year_start y \<le> 365) [0..399]"
  by code_simp

lemma era_year:
  assumes "0 \<le> y" "y \<le> 399" "year_start y \<le> d" "d \<le> year_last y"
  shows "era_count d div 365 = y"
proof -
  from era_count_years assms(1,2)
  have b: "365 * y \<le> era_count (year_start y)" "era_count (year_last y) \<le> 365 * y + 364" "year_last y \<le> 146096"
    by (auto simp: list_all_iff)
  have "0 \<le> year_start y" using era_count_years assms(1,2) by (auto simp: list_all_iff)
  then have "era_count (year_start y) \<le> era_count d" "era_count d \<le> era_count (year_last y)"
    using era_count_mono assms b(3) by auto
  with b have "365 * y \<le> era_count d" "era_count d \<le> 365 * y + 364" by auto
  then show ?thesis by (intro int_div_pos_eq [where r = "era_count d - 365 * y"]) auto
qed

lemma era_year_exists:
  assumes "0 \<le> d" "d \<le> 146096"
  obtains y where "0 \<le> y" "y \<le> 399" "year_start y \<le> d" "d \<le> year_last y"
proof -
  have "\<exists>y\<in>{0..399}. year_start y \<le> d \<and> d \<le> year_last y" if "d < year_start (int k + 1)" "int k < 399" for k
    using that
  proof (induction k)
    case 0
    then show ?case using \<open>0 \<le> d\<close> by (intro bexI [of _ 0]) (auto simp: year_start_def year_last_def)
  next
    case (Suc k)
    show ?case
    proof (cases "d < year_start (int k + 1)")
      case True
      with Suc show ?thesis by auto
    next
      case False
      with Suc.prems show ?thesis
        by (intro bexI [of _ "int (Suc k)"]) (auto simp: year_last_def add.commute)
    qed
  qed
  from this [of 398] have "\<exists>y\<in>{0..399}. year_start y \<le> d \<and> d \<le> year_last y"
  proof (cases "d < year_start 399")
    case False
    then show ?thesis using assms by (intro bexI [of _ 399]) (auto simp: year_last_def)
  qed simp
  then show ?thesis using that by auto
qed

text \<open>
  A date in the coordinates of the algorithm: era, year of the era, month and day of the
  year that begins in March. Every day has exactly one, and both functions go through it.
\<close>

definition month_start :: "int \<Rightarrow> int" where
  "month_start mp = (153 * mp + 2) div 5"

definition month_length :: "int \<Rightarrow> int" where
  "month_length mp = (if mp = 11 then 29 else month_start (mp + 1) - month_start mp)"

definition era_date :: "int \<Rightarrow> int \<Rightarrow> int \<Rightarrow> int \<Rightarrow> bool" where
  "era_date e y mp d \<longleftrightarrow> 0 \<le> y \<and> y \<le> 399 \<and> 0 \<le> mp \<and> mp \<le> 11 \<and> 1 \<le> d \<and> d \<le> month_length mp
     \<and> year_start y + month_start mp + d - 1 \<le> year_last y"

definition era_day :: "int \<Rightarrow> int \<Rightarrow> int \<Rightarrow> int \<Rightarrow> int" where
  "era_day e y mp d = 146097 * e + year_start y + month_start mp + d - 307"

definition civil_year :: "int \<Rightarrow> int \<Rightarrow> int \<Rightarrow> int" where
  "civil_year e y mp = y + e * 400 + (if mp < 10 then 0 else 1)"

definition civil_month :: "int \<Rightarrow> int" where
  "civil_month mp = (if mp < 10 then mp + 3 else mp - 9)"

lemma month_cases:
  "0 \<le> mp \<Longrightarrow> mp \<le> 11 \<Longrightarrow>
     mp = 0 \<or> mp = 1 \<or> mp = 2 \<or> mp = 3 \<or> mp = 4 \<or> mp = 5 \<or> mp = 6 \<or> mp = 7 \<or> mp = 8 \<or> mp = 9 \<or> mp = 10 \<or> mp = (11 :: int)"
  by arith

lemma month_of_day:
  assumes "0 \<le> mp" "mp \<le> 11" "1 \<le> d" "d \<le> month_length mp"
  shows "(5 * (month_start mp + d - 1) + 2) div 153 = mp"
proof -
  have "153 * mp \<le> 5 * (month_start mp + d - 1) + 2 \<and> 5 * (month_start mp + d - 1) + 2 < 153 * mp + 153"
    using month_cases [OF assms(1,2)] assms(3,4)
    by (elim disjE) (simp_all add: month_length_def month_start_def)
  then show ?thesis by (intro int_div_pos_eq [where r = "5 * (month_start mp + d - 1) + 2 - 153 * mp"]) auto
qed

lemma month_length_bounds:
  "0 \<le> mp \<Longrightarrow> mp \<le> 11 \<Longrightarrow> 28 \<le> month_length mp \<and> month_length mp \<le> 31"
  by (drule (1) month_cases) (elim disjE; simp add: month_length_def month_start_def)

lemma month_exists:
  assumes "0 \<le> doy" "doy \<le> 365"
  obtains mp d where "0 \<le> mp" "mp \<le> 11" "1 \<le> d" "d \<le> month_length mp" "doy = month_start mp + d - 1"
proof -
  have "\<exists>mp\<in>set [0..11]. month_start mp \<le> doy \<and> doy < month_start mp + month_length mp"
    using assms by (simp add: upto_rec1 month_length_def month_start_def) arith
  then obtain mp where "0 \<le> mp" "mp \<le> 11" "month_start mp \<le> doy" "doy < month_start mp + month_length mp"
    by auto
  then show ?thesis using that [of mp "doy - month_start mp + 1"] by simp
qed

lemma era_date_exists:
  obtains e y mp d where "era_date e y mp d" "n = era_day e y mp d"
proof -
  let ?doe = "(n + 306) mod 146097"
  have "0 \<le> ?doe" "?doe \<le> 146096" by simp_all
  then obtain y where y: "0 \<le> y" "y \<le> 399" "year_start y \<le> ?doe" "?doe \<le> year_last y"
    by (rule era_year_exists)
  have "year_last y - year_start y \<le> 365"
    using era_count_years y(1,2) by (auto simp: list_all_iff)
  with y have "0 \<le> ?doe - year_start y" "?doe - year_start y \<le> 365" by auto
  then obtain mp d where md: "0 \<le> mp" "mp \<le> 11" "1 \<le> d" "d \<le> month_length mp"
      "?doe - year_start y = month_start mp + d - 1"
    by (rule month_exists)
  have "n + 306 = 146097 * ((n + 306) div 146097) + ?doe" by simp
  with md(5) have "n = era_day ((n + 306) div 146097) y mp d"
    unfolding era_day_def by linarith
  with y md show ?thesis by (intro that [of "(n + 306) div 146097" y mp d]) (simp_all add: era_date_def)
qed

lemma civil_of_era_day:
  assumes "era_date e y mp d"
  shows "civil_of_days (era_day e y mp d) =
    \<lparr>cv_year = civil_year e y mp, cv_month = civil_month mp, cv_day = d\<rparr>"
proof -
  note a = assms [unfolded era_date_def]
  let ?doe = "year_start y + month_start mp + d - 1"
  have m0: "0 \<le> month_start mp" using a by (simp add: month_start_def pos_imp_zdiv_nonneg_iff)
  have y0: "0 \<le> year_start y" "year_last y \<le> 146096"
    using era_count_years a by (auto simp: list_all_iff)
  have z: "era_day e y mp d + 306 = ?doe + 146097 * e" by (simp add: era_day_def)
  have b: "0 \<le> ?doe" "?doe < 146097" using a m0 y0 by auto
  have dv: "(era_day e y mp d + 306) div 146097 = e" "(era_day e y mp d + 306) mod 146097 = ?doe"
    unfolding z using b by simp_all
  have ye: "(?doe - ?doe div 1460 + ?doe div 36524 - ?doe div 146096) div 365 = y"
    using era_year [of y ?doe] a m0 by (simp add: era_count_def)
  have dy: "?doe - (365 * y + y div 4 - y div 100) = month_start mp + d - 1"
    by (simp add: year_start_def)
  have mo: "(5 * (month_start mp + d - 1) + 2) div 153 = mp"
    using a by (intro month_of_day) auto
  show ?thesis
    unfolding civil_of_days_def Let_def dv ye dy mo civil_year_def civil_month_def
    using a by (simp add: month_start_def)
qed

lemma days_of_era_day:
  assumes "0 \<le> y" "y \<le> 399" "0 \<le> mp" "mp \<le> 11"
  shows "days_of_civil (civil_year e y mp) (civil_month mp) d = era_day e y mp d"
proof -
  have m: "civil_year e y mp + (civil_month mp - 1) div 12 = civil_year e y mp"
    "(civil_month mp - 1) mod 12 + 1 = civil_month mp"
    using assms by (auto simp: civil_month_def)
  have y: "(if civil_month mp \<le> 2 then civil_year e y mp - 1 else civil_year e y mp) = y + e * 400"
    using assms by (auto simp: civil_month_def civil_year_def)
  have p: "(if 2 < civil_month mp then civil_month mp - 3 else civil_month mp + 9) = mp"
    using assms by (auto simp: civil_month_def)
  have e: "(y + e * 400) div 400 = e" "(y + e * 400) mod 400 = y" using assms by auto
  show ?thesis
    unfolding days_of_civil_def Let_def m y p e
    by (simp add: era_day_def year_start_def month_start_def)
qed

theorem days_of_civil_of_days:
  "days_of_civil (cv_year (civil_of_days n)) (cv_month (civil_of_days n)) (cv_day (civil_of_days n)) = n"
proof -
  obtain e y mp d where "era_date e y mp d" "n = era_day e y mp d" by (rule era_date_exists)
  then show ?thesis by (simp add: civil_of_era_day days_of_era_day era_date_def)
qed

lemma civil_bounds:
  "1 \<le> cv_month (civil_of_days n)" "cv_month (civil_of_days n) \<le> 12"
  "1 \<le> cv_day (civil_of_days n)" "cv_day (civil_of_days n) \<le> 31"
proof -
  obtain e y mp d where d: "era_date e y mp d" "n = era_day e y mp d" by (rule era_date_exists)
  then have "month_length mp \<le> 31" using month_length_bounds by (auto simp: era_date_def)
  with d show "1 \<le> cv_month (civil_of_days n)" "cv_month (civil_of_days n) \<le> 12"
    "1 \<le> cv_day (civil_of_days n)" "cv_day (civil_of_days n) \<le> 31"
    by (auto simp: civil_of_era_day era_date_def civil_month_def)
qed

text \<open>
  Months counted from January of year 0: the day a month begins on, and the month of a day.
\<close>

definition month_begin :: "int \<Rightarrow> int" where
  "month_begin k = days_of_civil 0 (k + 1) 1"

definition month_of :: "int \<Rightarrow> int" where
  "month_of n = 12 * cv_year (civil_of_days n) + cv_month (civil_of_days n) - 1"

lemma days_of_civil_month: "days_of_civil y m d = month_begin (12 * y + m - 1) + d - 1"
proof -
  have e: "12 * y + m - 1 + 1 - 1 = m - 1 + 12 * y" by simp
  have dm: "(m - 1 + 12 * y) div 12 = (m - 1) div 12 + y" "(m - 1 + 12 * y) mod 12 = (m - 1) mod 12"
    by simp_all
  show ?thesis
    unfolding month_begin_def days_of_civil_def Let_def e dm add_0_left add.commute [of y]
    by linarith
qed

lemma month_coordinates:
  obtains e y mp where "0 \<le> y" "y \<le> 399" "0 \<le> mp" "mp \<le> 11" "k = 12 * civil_year e y mp + civil_month mp - 1"
proof -
  let ?a = "k - 2"
  have "?a = 12 * (?a div 12) + ?a mod 12" "?a div 12 = 400 * (?a div 12 div 400) + ?a div 12 mod 400"
    by simp_all
  moreover have "0 \<le> ?a mod 12" "?a mod 12 \<le> 11" "0 \<le> ?a div 12 mod 400" "?a div 12 mod 400 \<le> 399"
    by simp_all
  ultimately show ?thesis
    by (intro that [of "?a div 12 mod 400" "?a mod 12" "?a div 12 div 400"])
      (auto simp: civil_year_def civil_month_def)
qed

lemma month_begin_era:
  assumes "0 \<le> y" "y \<le> 399" "0 \<le> mp" "mp \<le> 11"
  shows "month_begin (12 * civil_year e y mp + civil_month mp - 1) = era_day e y mp 1"
  using days_of_civil_month [of "civil_year e y mp" "civil_month mp" 1] days_of_era_day [OF assms] by simp

lemma month_begin_next:
  assumes "0 \<le> y" "y \<le> 399" "0 \<le> mp" "mp \<le> 11" "k = 12 * civil_year e y mp + civil_month mp - 1"
  shows "month_begin (k + 1) =
    (if mp < 11 then era_day e y (mp + 1) 1 else if y < 399 then era_day e (y + 1) 0 1 else era_day (e + 1) 0 0 1)"
proof -
  consider "mp < 11" | "mp = 11" "y < 399" | "mp = 11" "y = 399" using assms by arith
  then show ?thesis
  proof cases
    case 1
    then have "k + 1 = 12 * civil_year e y (mp + 1) + civil_month (mp + 1) - 1"
      using assms by (auto simp: civil_year_def civil_month_def)
    with 1 month_begin_era [of y "mp + 1" e] assms show ?thesis by simp
  next
    case 2
    then have "k + 1 = 12 * civil_year e (y + 1) 0 + civil_month 0 - 1"
      using assms by (auto simp: civil_year_def civil_month_def)
    with 2 month_begin_era [of "y + 1" 0 e] assms show ?thesis by simp
  next
    case 3
    then have "k + 1 = 12 * civil_year (e + 1) 0 0 + civil_month 0 - 1"
      using assms by (auto simp: civil_year_def civil_month_def)
    with 3 month_begin_era [of 0 0 "e + 1"] assms show ?thesis by simp
  qed
qed

lemma month_begin_step: "month_begin k + 28 \<le> month_begin (k + 1)"
proof -
  obtain e y mp where a: "0 \<le> y" "y \<le> 399" "0 \<le> mp" "mp \<le> 11" "k = 12 * civil_year e y mp + civil_month mp - 1"
    by (rule month_coordinates)
  note n = month_begin_next [OF a] and b = month_begin_era [OF a(1-4), of e, folded a(5)]
  show ?thesis
  proof (cases "mp < 11")
    case True
    with month_length_bounds [OF a(3,4)] show ?thesis
      unfolding n b by (simp add: month_length_def era_day_def)
  next
    case False
    then have "mp = 11" using a by simp
    moreover have "364 \<le> year_last y - year_start y" using era_count_years a(1,2) by (auto simp: list_all_iff)
    ultimately show ?thesis
      unfolding n b using a(2) by (auto simp: era_day_def month_start_def year_last_def year_start_def split: if_splits)
  qed
qed

lemma month_begin_mono: "k \<le> k' \<Longrightarrow> month_begin k \<le> month_begin k'"
proof -
  have "month_begin k \<le> month_begin (k + int j)" for j
  proof (induction j)
    case (Suc j)
    with month_begin_step [of "k + int j"] show ?case by (simp add: ac_simps)
  qed simp
  from this [of "nat (k' - k)"] show "k \<le> k' \<Longrightarrow> ?thesis" by simp
qed

lemma month_of_bounds: "month_begin (month_of n) \<le> n" "n < month_begin (month_of n + 1)"
proof -
  obtain e y mp d where d: "era_date e y mp d" "n = era_day e y mp d" by (rule era_date_exists)
  then have a: "0 \<le> y" "y \<le> 399" "0 \<le> mp" "mp \<le> 11" by (simp_all add: era_date_def)
  have k: "month_of n = 12 * civil_year e y mp + civil_month mp - 1"
    using d by (simp add: month_of_def civil_of_era_day)
  show "month_begin (month_of n) \<le> n"
    unfolding k month_begin_era [OF a] using d by (simp add: era_day_def era_date_def)
  show "n < month_begin (month_of n + 1)"
    unfolding month_begin_next [OF a k] using d
    by (auto simp: era_day_def era_date_def month_length_def month_start_def year_last_def year_start_def
        split: if_splits)
qed

lemma day_in_month: "n = month_begin (month_of n) + cv_day (civil_of_days n) - 1"
  using days_of_civil_of_days [of n] by (simp add: days_of_civil_month month_of_def)

lemma month_of_unique: "month_begin k \<le> n \<Longrightarrow> n < month_begin (k + 1) \<Longrightarrow> month_of n = k"
  using month_of_bounds [of n] month_begin_mono [of "month_of n + 1" k] month_begin_mono [of "k + 1" "month_of n"]
  by (cases "month_of n < k"; cases "k < month_of n") auto

lemma civil_of_civil:
  assumes "1 \<le> m" "m \<le> 12" "1 \<le> d" "d \<le> 28"
  shows "civil_of_days (days_of_civil y m d) = \<lparr>cv_year = y, cv_month = m, cv_day = d\<rparr>"
proof -
  let ?n = "days_of_civil y m d" and ?k = "12 * y + m - 1"
  have n: "?n = month_begin ?k + d - 1" by (rule days_of_civil_month)
  then have k: "month_of ?n = ?k"
    using month_begin_step [of ?k] assms by (intro month_of_unique) auto
  have "cv_day (civil_of_days ?n) = d" using day_in_month [of ?n] n k by simp
  moreover have "cv_year (civil_of_days ?n) = y \<and> cv_month (civil_of_days ?n) = m"
    using k civil_bounds(1,2) [of ?n] assms unfolding month_of_def by arith
  ultimately show ?thesis by (cases "civil_of_days ?n") simp
qed

lemma civil_of_month:
  assumes "1 \<le> d" "d \<le> 28"
  shows "civil_of_days (month_begin k + d - 1) = \<lparr>cv_year = k div 12, cv_month = k mod 12 + 1, cv_day = d\<rparr>"
proof -
  have "12 * (k div 12) + (k mod 12 + 1) - 1 = k" by simp
  then have "month_begin k + d - 1 = days_of_civil (k div 12) (k mod 12 + 1) d"
    using days_of_civil_month [of "k div 12" "k mod 12 + 1" d] by simp
  then show ?thesis using civil_of_civil [of "k mod 12 + 1" d "k div 12"] assms by simp
qed

lemma days_of_civil_civil:
  "days_of_civil (cv_year (civil_of_days n)) (cv_month (civil_of_days n) + j) d = month_begin (month_of n + j) + d - 1"
  unfolding days_of_civil_month month_of_def by (simp add: algebra_simps)

section \<open>Locations\<close>

text \<open>
  Seconds are counted like instants, from the first of January of year 1. A change
  \<open>(w, o)\<close> puts the offset \<open>o\<close> in force from second \<open>w\<close> on; \<open>zone_lookup\<close> also returns
  the interval in which the offset holds, as \<open>Location.lookup\<close> does.
\<close>

record location =
  loc_first :: int
  loc_changes :: "(int \<times> int) list"

definition FixedZone :: "int \<Rightarrow> location" where
  "FixedZone off = \<lparr>loc_first = off, loc_changes = []\<rparr>"

fun zone_from :: "int option \<Rightarrow> int \<Rightarrow> (int \<times> int) list \<Rightarrow> int \<Rightarrow> int \<times> int option \<times> int option" where
  "zone_from start off [] s = (off, start, None)"
| "zone_from start off ((w, off') # cs) s =
     (if s < w then (off, start, Some w) else zone_from (Some w) off' cs s)"

definition zone_lookup :: "location \<Rightarrow> int \<Rightarrow> int \<times> int option \<times> int option" where
  "zone_lookup loc s = zone_from None (loc_first loc) (loc_changes loc) s"

definition zone_offset :: "location \<Rightarrow> int \<Rightarrow> int" where
  "zone_offset loc s = fst (zone_lookup loc s)"

definition local_seconds :: "location \<Rightarrow> time \<Rightarrow> int" where
  "local_seconds loc t = t div second + zone_offset loc (t div second)"

definition local_day :: "location \<Rightarrow> time \<Rightarrow> int" where
  "local_day loc t = local_seconds loc t div 86400"

definition local_clock :: "location \<Rightarrow> time \<Rightarrow> int" where
  "local_clock loc t = local_seconds loc t mod 86400"

text \<open>\<open>t.In(loc).Date()\<close> and \<open>t.In(loc).Weekday()\<close>; day 0 was a Monday.\<close>

definition local_date :: "location \<Rightarrow> time \<Rightarrow> civil" where
  "local_date loc t = civil_of_days (local_day loc t)"

definition day_weekday :: "int \<Rightarrow> int" where
  "day_weekday n = (n + 1) mod 7"

definition local_weekday :: "location \<Rightarrow> time \<Rightarrow> int" where
  "local_weekday loc t = day_weekday (local_day loc t)"

text \<open>
  \<open>time.Date\<close>: the offset is looked up at the local seconds read as UTC and looked up again
  when the resulting instant is not in the interval of that offset.
\<close>

definition in_span :: "int \<Rightarrow> int option \<Rightarrow> int option \<Rightarrow> bool" where
  "in_span s start stop \<longleftrightarrow>
     (case start of None \<Rightarrow> True | Some w \<Rightarrow> w \<le> s) \<and> (case stop of None \<Rightarrow> True | Some w \<Rightarrow> s < w)"

definition from_local :: "location \<Rightarrow> int \<Rightarrow> int" where
  "from_local loc s =
     (let (off, start, stop) = zone_lookup loc s
      in if off = 0 then s
         else if in_span (s - off) start stop then s - off else s - zone_offset loc (s - off))"

definition time_Date :: "location \<Rightarrow> int \<Rightarrow> int \<Rightarrow> int \<Rightarrow> int \<Rightarrow> int \<Rightarrow> int \<Rightarrow> int \<Rightarrow> time" where
  "time_Date loc y m d h mi s ns =
     from_local loc (days_of_civil y m d * 86400 + h * 3600 + mi * 60 + s) * second + ns"

definition AddDate :: "location \<Rightarrow> time \<Rightarrow> int \<Rightarrow> int \<Rightarrow> int \<Rightarrow> time" where
  "AddDate loc t y m d =
     (let c = local_date loc t; k = local_clock loc t
      in time_Date loc (cv_year c + y) (cv_month c + m) (cv_day c + d)
           (k div 3600) (k div 60 mod 60) (k mod 60) (t mod second))"

subsection \<open>Fixed offsets\<close>

lemma zone_fixed [simp]: "zone_lookup (FixedZone off) s = (off, None, None)" "zone_offset (FixedZone off) s = off"
  by (simp_all add: zone_lookup_def zone_offset_def FixedZone_def)

lemma from_local_fixed [simp]: "from_local (FixedZone off) s = s - off"
  by (simp add: from_local_def in_span_def)

lemma clock_split: "0 \<le> k \<Longrightarrow> k div 3600 * 3600 + k div 60 mod 60 * 60 + k mod 60 = (k :: int)"
proof -
  have "k div 3600 = k div 60 div 60" by (simp add: zdiv_zmult2_eq)
  moreover have "k = k div 60 * 60 + k mod 60" "k div 60 = k div 60 div 60 * 60 + k div 60 mod 60"
    by simp_all
  ultimately show ?thesis by linarith
qed

text \<open>The instant that a local clock shows on a local day.\<close>

definition day_tick :: "int \<Rightarrow> int \<Rightarrow> int \<Rightarrow> time" where
  "day_tick off k n = (n * 86400 + k - off) * second"

lemma time_Date_fixed:
  "time_Date (FixedZone off) y m d h mi 0 0 = day_tick off (h * 3600 + mi * 60) (days_of_civil y m d)"
  by (simp add: time_Date_def day_tick_def algebra_simps)

lemma day_tick_local:
  assumes "0 \<le> k" "k < 86400"
  shows "local_day (FixedZone off) (day_tick off k n) = n"
    "local_clock (FixedZone off) (day_tick off k n) = k"
    "day_tick off k n mod second = 0"
proof -
  have "local_seconds (FixedZone off) (day_tick off k n) = k + n * 86400"
    by (simp add: local_seconds_def day_tick_def second_def)
  then show "local_day (FixedZone off) (day_tick off k n) = n" "local_clock (FixedZone off) (day_tick off k n) = k"
    using assms by (simp_all add: local_day_def local_clock_def)
  show "day_tick off k n mod second = 0" by (simp add: day_tick_def)
qed

lemma AddDate_day_tick:
  assumes "0 \<le> k" "k < 86400"
  shows "AddDate (FixedZone off) (day_tick off k n) 0 j d =
    day_tick off k (month_begin (month_of n + j) + cv_day (civil_of_days n) + d - 1)"
proof -
  have "AddDate (FixedZone off) (day_tick off k n) 0 j d =
      (days_of_civil (cv_year (civil_of_days n)) (cv_month (civil_of_days n) + j) (cv_day (civil_of_days n) + d) * 86400
        + (k div 3600 * 3600 + k div 60 mod 60 * 60 + k mod 60) - off) * second"
    using day_tick_local [OF assms, of off n]
    by (simp add: AddDate_def Let_def local_date_def time_Date_def algebra_simps)
  then show ?thesis
    unfolding clock_split [OF assms(1)] days_of_civil_civil by (simp add: day_tick_def algebra_simps)
qed

lemma AddDate_days:
  assumes "0 \<le> k" "k < 86400"
  shows "AddDate (FixedZone off) (day_tick off k n) 0 0 d = day_tick off k (n + d)"
proof -
  have "month_begin (month_of n + 0) + cv_day (civil_of_days n) + d - 1 = n + d"
    using day_in_month [of n] by simp
  then show ?thesis using AddDate_day_tick [OF assms, of off n 0 d] by (simp only:)
qed

lemma day_tick_mono: "0 \<le> k \<Longrightarrow> n < n' \<Longrightarrow> day_tick off k n + day_ns \<le> day_tick off k n'"
  unfolding day_tick_def day_ns_def hour_def minute_def second_def by simp

lemma day_tick_le_iff: "day_tick off k n \<le> day_tick off k n' \<longleftrightarrow> n \<le> n'"
  unfolding day_tick_def second_def by simp

text \<open>An instant lies between the starts of its local day and of the next.\<close>

lemma tick_bounds_arith:
  fixes s :: int
  assumes "s * 1000000000 \<le> t" "t < (s + 1) * 1000000000" "D * 86400 \<le> s + off" "s + off + 1 \<le> (D + 1) * 86400"
  shows "(D * 86400 + 0 - off) * 1000000000 \<le> t \<and> t < ((D + 1) * 86400 + 0 - off) * 1000000000"
proof
  show "(D * 86400 + 0 - off) * 1000000000 \<le> t" using assms(1,3) by (simp add: left_diff_distrib)
  show "t < ((D + 1) * 86400 + 0 - off) * 1000000000" using assms(2,4) by (simp add: left_diff_distrib distrib_right)
qed

lemma day_tick_bounds:
  "day_tick off 0 (local_day (FixedZone off) t) \<le> t"
  "t < day_tick off 0 (local_day (FixedZone off) t + 1)"
proof -
  let ?s = "t div second + off"
  have "t div 1000000000 * 1000000000 \<le> t" "t < (t div 1000000000 + 1) * 1000000000"
    "?s div 86400 * 86400 \<le> ?s" "?s + 1 \<le> (?s div 86400 + 1) * 86400" by simp_all
  then have "(?s div 86400 * 86400 + 0 - off) * second \<le> t \<and> t < ((?s div 86400 + 1) * 86400 + 0 - off) * second"
    using tick_bounds_arith [of "t div 1000000000" t "?s div 86400" off]
    by (simp add: second_def)
  then show "day_tick off 0 (local_day (FixedZone off) t) \<le> t"
    "t < day_tick off 0 (local_day (FixedZone off) t + 1)"
    by (simp_all add: day_tick_def local_day_def local_seconds_def)
qed

end
