(* ===== verification/SchedPlan.thy ===== *)
theory SchedPlan
  imports GoZone GoJson "HOL-Library.Product_Lexorder" "HOL-Library.List_Lexorder" "HOL-Library.Char_ord"
begin

text \<open>
  The planner of \<open>internal/scheduler/scheduler.go\<close>: jobs, occurrences and receipts,
  \<open>validateJob\<close>, \<open>nextOccurrence\<close>, the catch-up loop of \<open>PlanDue\<close> and \<open>RunDue\<close>. The loop
  of \<open>PlanDue\<close> has no bound of its own, so it is a partial function: \<open>None\<close> is a call that
  does not return.
\<close>

section \<open>Jobs, occurrences, receipts\<close>

datatype Cadence = Daily | Weekly | Monthly | Interval | OtherCadence string

datatype ReceiptState = Succeeded | Failed | Unavailable | Suppressed | OtherState string

record Job =
  jb_ID :: string
  jb_Cadence :: Cadence
  jb_Weekday :: int
  jb_DayOfMonth :: int
  jb_LocalHour :: int
  jb_LocalMinute :: int
  jb_IntervalHours :: int
  jb_MaxCatchUp :: int

record Occurrence =
  oc_JobID :: string
  oc_EventID :: string
  oc_ScheduledFor :: time

record Receipt =
  rc_SchemaVersion :: int
  rc_WorkspaceID :: string
  rc_JobID :: string
  rc_ScheduledFor :: time
  rc_AttemptedAt :: time
  rc_State :: ReceiptState
  rc_Error :: string

definition ErrCapabilityUnavailable :: go_error where
  "ErrCapabilityUnavailable = errors_New ''scheduler capability unavailable''"

definition receipt_Err :: "Receipt \<Rightarrow> go_error option" where
  "receipt_Err r =
     (if rc_Error r = [] then None
      else if rc_State r = Unavailable then Some (Errorf ''%w: %s'' [''scheduler capability unavailable'', rc_Error r])
      else Some (errors_New (rc_Error r)))"

definition jobIDPattern :: "string \<Rightarrow> bool" where
  "jobIDPattern = first_rest is_lower (\<lambda>c. is_lower c \<or> is_digit c \<or> c = CHR ''-'') 63"

definition workspaceIDPattern :: "string \<Rightarrow> bool" where
  "workspaceIDPattern = first_rest is_alnum (\<lambda>c. is_alnum c \<or> c = CHR ''_'' \<or> c = CHR ''-'') 63"

definition validateJob :: "Job \<Rightarrow> go_error + unit" where
  "validateJob job = checks [
     fail_if (\<not> jobIDPattern (jb_ID job)) (Errorf ''invalid scheduler job ID %q'' [jb_ID job]),
     fail_if (jb_Cadence job \<notin> {Daily, Weekly, Monthly, Interval}) (Errorf ''invalid cadence for job %q'' [jb_ID job]),
     (if jb_Cadence job = Interval
      then fail_if (jb_IntervalHours job \<le> 0 \<or> 8760 < jb_IntervalHours job)
             (Errorf ''invalid interval for job %q'' [jb_ID job])
      else fail_if (jb_IntervalHours job \<noteq> 0) (Errorf ''calendar job %q cannot define an interval'' [jb_ID job])),
     (if jb_Cadence job = Monthly
      then fail_if (jb_DayOfMonth job < 1 \<or> 28 < jb_DayOfMonth job)
             (Errorf ''monthly job %q requires day of month between 1 and 28'' [jb_ID job])
      else fail_if (jb_DayOfMonth job \<noteq> 0) (Errorf ''non-monthly job %q cannot define a day of month'' [jb_ID job])),
     fail_if (jb_LocalHour job < 0 \<or> 23 < jb_LocalHour job \<or> jb_LocalMinute job < 0 \<or> 59 < jb_LocalMinute job)
       (Errorf ''invalid local schedule for job %q'' [jb_ID job]),
     fail_if (jb_MaxCatchUp job \<le> 0) (Errorf ''positive catch-up limit required for job %q'' [jb_ID job]),
     fail_if (jb_Cadence job = Weekly \<and> (jb_Weekday job < 0 \<or> 6 < jb_Weekday job))
       (Errorf ''invalid weekday for job %q'' [jb_ID job])]"

lemma validateJob_ok:
  "validateJob job = Inr () \<longleftrightarrow>
     jobIDPattern (jb_ID job) \<and> jb_Cadence job \<in> {Daily, Weekly, Monthly, Interval}
     \<and> (if jb_Cadence job = Interval then 0 < jb_IntervalHours job \<and> jb_IntervalHours job \<le> 8760
        else jb_IntervalHours job = 0)
     \<and> (if jb_Cadence job = Monthly then 1 \<le> jb_DayOfMonth job \<and> jb_DayOfMonth job \<le> 28 else jb_DayOfMonth job = 0)
     \<and> 0 \<le> jb_LocalHour job \<and> jb_LocalHour job \<le> 23 \<and> 0 \<le> jb_LocalMinute job \<and> jb_LocalMinute job \<le> 59
     \<and> 0 < jb_MaxCatchUp job
     \<and> (jb_Cadence job = Weekly \<longrightarrow> 0 \<le> jb_Weekday job \<and> jb_Weekday job \<le> 6)"
  unfolding validateJob_def by (auto simp: not_le not_less)

section \<open>The next occurrence\<close>

definition nextOccurrence :: "location \<Rightarrow> Job \<Rightarrow> time \<Rightarrow> time" where
  "nextOccurrence loc job after =
     (if jb_Cadence job = Interval then after + jb_IntervalHours job * hour
      else
        let d = local_date loc after;
            start = time_Date loc (cv_year d) (cv_month d) (cv_day d) (jb_LocalHour job) (jb_LocalMinute job) 0 0;
            candidate =
              (if jb_Cadence job = Weekly
               then AddDate loc start 0 0 ((jb_Weekday job - local_weekday loc start + 7) mod 7)
               else if jb_Cadence job = Monthly
               then time_Date loc (cv_year d) (cv_month d) (jb_DayOfMonth job) (jb_LocalHour job) (jb_LocalMinute job) 0 0
               else start)
        in if after < candidate then candidate
           else if jb_Cadence job = Daily then AddDate loc candidate 0 0 1
           else if jb_Cadence job = Weekly then AddDate loc candidate 0 0 7
           else let c = local_date loc (AddDate loc candidate 0 1 0)
                in time_Date loc (cv_year c) (cv_month c) (jb_DayOfMonth job) (jb_LocalHour job) (jb_LocalMinute job) 0 0)"

section \<open>Planning\<close>

text \<open>\<open>occurrenceKey\<close> and the two maps that the receipts of successful attempts build.\<close>

definition occurrenceKey :: "string \<Rightarrow> time \<Rightarrow> string" where
  "occurrenceKey jobID scheduledFor = jobID @ [CHR 0x00] @ rfc3339nano scheduledFor"

definition succeeded_keys :: "Receipt list \<Rightarrow> string list" where
  "succeeded_keys receipts =
     map (\<lambda>r. occurrenceKey (rc_JobID r) (rc_ScheduledFor r)) (filter (\<lambda>r. rc_State r = Succeeded) receipts)"

definition note_success :: "(string \<Rightarrow> time) \<Rightarrow> Receipt \<Rightarrow> string \<Rightarrow> time" where
  "note_success m r =
     (if rc_State r = Succeeded \<and> m (rc_JobID r) < rc_AttemptedAt r then m(rc_JobID r := rc_AttemptedAt r) else m)"

definition lastSuccess :: "Receipt list \<Rightarrow> string \<Rightarrow> time" where
  "lastSuccess receipts = foldl note_success (\<lambda>_. 0) receipts"

definition countForJob :: "Occurrence list \<Rightarrow> string \<Rightarrow> int" where
  "countForJob occurrences jobID = len (filter (\<lambda>o'. oc_JobID o' = jobID) occurrences)"

definition planned :: "Job \<Rightarrow> time \<Rightarrow> Occurrence" where
  "planned job t = \<lparr>oc_JobID = jb_ID job, oc_EventID = [], oc_ScheduledFor = t\<rparr>"

text \<open>
  The inner loop: \<open>next\<close> is \<open>nextOccurrence\<close> at the location of \<open>now\<close>, \<open>succeeded\<close> the set of keys.
\<close>

partial_function (option) job_due ::
  "(Job \<Rightarrow> time \<Rightarrow> time) \<Rightarrow> Job \<Rightarrow> (string \<Rightarrow> bool) \<Rightarrow> time \<Rightarrow> time \<Rightarrow> Occurrence list \<Rightarrow> Occurrence list option" where
  "job_due step job succeeded now occurrence due =
     (if now < occurrence then Some due
      else if succeeded (occurrenceKey (jb_ID job) occurrence)
      then job_due step job succeeded now (step job occurrence) due
      else let due' = due @ [planned job occurrence]
           in if jb_MaxCatchUp job \<le> countForJob due' (jb_ID job) then Some due'
              else job_due step job succeeded now (step job occurrence) due')"

declare job_due.simps [code]

definition plan_start :: "Job \<Rightarrow> time \<Rightarrow> (string \<Rightarrow> time) \<Rightarrow> time" where
  "plan_start job enrolledAt prior =
     (if jb_Cadence job = Interval \<and> \<not> is_zero (prior (jb_ID job)) then prior (jb_ID job) else enrolledAt)"

fun plan_jobs ::
  "(Job \<Rightarrow> time \<Rightarrow> time) \<Rightarrow> time \<Rightarrow> (string \<Rightarrow> time) \<Rightarrow> (string \<Rightarrow> bool) \<Rightarrow> time
    \<Rightarrow> Job list \<Rightarrow> string list \<Rightarrow> Occurrence list \<Rightarrow> (go_error + Occurrence list) option" where
  "plan_jobs step enrolledAt prior succeeded now [] seen due = Some (Inr due)"
| "plan_jobs step enrolledAt prior succeeded now (job # jobs) seen due =
     (case validateJob job of
        Inl e \<Rightarrow> Some (Inl e)
      | Inr _ \<Rightarrow>
          if jb_ID job \<in> set seen then Some (Inl (Errorf ''duplicate scheduler job %q'' [jb_ID job]))
          else case job_due step job succeeded now (step job (plan_start job enrolledAt prior)) due of
                 None \<Rightarrow> None
               | Some due' \<Rightarrow> plan_jobs step enrolledAt prior succeeded now jobs (jb_ID job # seen) due')"

text \<open>The order of \<open>sort.Slice\<close>: by time, then by job. Equal elements are equal occurrences.\<close>

definition due_order :: "Occurrence \<Rightarrow> time \<times> string" where
  "due_order o' = (oc_ScheduledFor o', oc_JobID o')"

definition PlanDue ::
  "location \<Rightarrow> Job list \<Rightarrow> time \<Rightarrow> Receipt list \<Rightarrow> time \<Rightarrow> (go_error + Occurrence list) option" where
  "PlanDue loc jobs enrolledAt receipts now =
     (if is_zero enrolledAt \<or> is_zero now then Some (Inl (errors_New ''enrollment and current time are required''))
      else if now < enrolledAt then Some (Inl (errors_New ''current time cannot precede enrollment''))
      else case plan_jobs (nextOccurrence loc) enrolledAt (lastSuccess receipts)
                  (\<lambda>k. k \<in> set (succeeded_keys receipts)) now jobs [] [] of
             None \<Rightarrow> None
           | Some (Inl e) \<Rightarrow> Some (Inl e)
           | Some (Inr due) \<Rightarrow> Some (Inr (sort_key due_order due)))"

section \<open>Running\<close>

text \<open>
  An executor returns no error, an error that wraps \<open>ErrCapabilityUnavailable\<close>, or another
  error, the last two with their text; it and the context may answer differently at each
  iteration \<open>i\<close>.
\<close>

datatype exec_outcome = ExecOk | ExecUnavailable string | ExecError string

definition run_receipt :: "exec_outcome \<Rightarrow> Occurrence \<Rightarrow> time \<Rightarrow> Receipt" where
  "run_receipt outcome o' attemptedAt =
     (let receipt = \<lparr>rc_SchemaVersion = 0, rc_WorkspaceID = [], rc_JobID = oc_JobID o',
                     rc_ScheduledFor = oc_ScheduledFor o', rc_AttemptedAt = attemptedAt,
                     rc_State = Succeeded, rc_Error = []\<rparr>
      in case outcome of
           ExecOk \<Rightarrow> receipt
         | ExecUnavailable m \<Rightarrow> receipt\<lparr>rc_Error := m, rc_State := Unavailable\<rparr>
         | ExecError m \<Rightarrow> receipt\<lparr>rc_Error := m, rc_State := Failed\<rparr>)"

fun run_from :: "(nat \<Rightarrow> bool) \<Rightarrow> (nat \<Rightarrow> Occurrence \<Rightarrow> exec_outcome) \<Rightarrow> time \<Rightarrow> nat \<Rightarrow> Occurrence list \<Rightarrow> Receipt list" where
  "run_from cancelled execute attemptedAt i [] = []"
| "run_from cancelled execute attemptedAt i (o' # os) =
     (if cancelled i then []
      else run_receipt (execute i o') o' attemptedAt # run_from cancelled execute attemptedAt (Suc i) os)"

definition RunDue :: "(nat \<Rightarrow> bool) \<Rightarrow> (nat \<Rightarrow> Occurrence \<Rightarrow> exec_outcome) \<Rightarrow> Occurrence list \<Rightarrow> time \<Rightarrow> Receipt list" where
  "RunDue cancelled execute occurrences attemptedAt = run_from cancelled execute attemptedAt 0 occurrences"

end
