(* ===== verification/SchedDue.thy ===== *)
theory SchedDue
  imports SchedPlan
begin

text \<open>
  What the catch-up loop computes. The locale \<open>occurrence_stream\<close> is the contract between
  \<open>nextOccurrence\<close> and the loop of \<open>PlanDue\<close>: from the starting point or from an occurrence,
  the next one is the least later instant of the schedule. Under it the loop returns, and its
  result is the oldest missing occurrences up to the limit of the job. The contract is
  discharged for \<open>nextOccurrence\<close> at every fixed offset, the locations the program is tested
  with; a location that changes its offset is not such a stream, see \<open>SchedProps\<close>.
\<close>

definition missing :: "(Job \<Rightarrow> time \<Rightarrow> time \<Rightarrow> bool) \<Rightarrow> Job \<Rightarrow> (string \<Rightarrow> bool) \<Rightarrow> time \<Rightarrow> time \<Rightarrow> time \<Rightarrow> time list" where
  "missing due_at job succeeded now s a =
     filter (\<lambda>t. due_at job s t \<and> \<not> succeeded (occurrenceKey (jb_ID job) t)) [a + 1..now]"

locale occurrence_stream =
  fixes step :: "Job \<Rightarrow> time \<Rightarrow> time"
    and due_at :: "Job \<Rightarrow> time \<Rightarrow> time \<Rightarrow> bool"
    and good :: "Job \<Rightarrow> bool"
  assumes step_after: "good j \<Longrightarrow> a = s \<or> due_at j s a \<Longrightarrow> a < step j a"
    and step_due: "good j \<Longrightarrow> a = s \<or> due_at j s a \<Longrightarrow> due_at j s (step j a)"
    and step_least: "good j \<Longrightarrow> a = s \<or> due_at j s a \<Longrightarrow> a < t \<Longrightarrow> due_at j s t \<Longrightarrow> step j a \<le> t"
begin

lemma missing_step:
  assumes "good j" "a = s \<or> due_at j s a"
  shows "missing due_at j succ now s a =
    (if now < step j a then []
     else if succ (occurrenceKey (jb_ID j) (step j a)) then missing due_at j succ now s (step j a)
     else step j a # missing due_at j succ now s (step j a))"
proof -
  note later = step_after [OF assms] and least = step_least [OF assms]
  show ?thesis
  proof (cases "now < step j a")
    case True
    then show ?thesis using least by (force simp: missing_def filter_empty_conv)
  next
    case False
    then have "[a + 1..now] = [a + 1..step j a - 1] @ step j a # [step j a + 1..now]"
      using later upto_split2 [of "a + 1" "step j a" now] upto_rec1 [of "step j a" now] 
        upto_split1 [of "a + 1" "step j a" now] by simp
    moreover have "filter (\<lambda>t. due_at j s t \<and> \<not> succ (occurrenceKey (jb_ID j) t)) [a + 1..step j a - 1] = []"
      using least by (force simp: filter_empty_conv)
    ultimately show ?thesis using False step_due [OF assms] by (simp add: missing_def)
  qed
qed

theorem job_due_missing:
  assumes "good j" "a = s \<or> due_at j s a" "countForJob due (jb_ID j) < jb_MaxCatchUp j"
  shows "job_due step j succ now (step j a) due =
    Some (due @ map (planned j) (take (nat (jb_MaxCatchUp j - countForJob due (jb_ID j))) (missing due_at j succ now s a)))"
  using assms(2,3)
proof (induction "nat (now - a)" arbitrary: a due rule: less_induct)
  case less
  let ?o = "step j a"
  note later = step_after [OF assms(1) less.prems(1)] and at = step_due [OF assms(1) less.prems(1)]
  note ms = missing_step [OF assms(1) less.prems(1), of succ now]
  show ?case
  proof (cases "now < ?o")
    case True
    then show ?thesis unfolding ms by (simp add: job_due.simps)
  next
    case False
    then have dec: "nat (now - ?o) < nat (now - a)" using later by simp
    show ?thesis
    proof (cases "succ (occurrenceKey (jb_ID j) ?o)")
      case True
      then show ?thesis
        using less.hyps [OF dec _ less.prems(2)] at False
        by (subst job_due.simps) (simp add: ms)
    next
      case new: False
      let ?due = "due @ [planned j ?o]"
      have c: "countForJob ?due (jb_ID j) = countForJob due (jb_ID j) + 1"
        by (simp add: countForJob_def planned_def)
      show ?thesis
      proof (cases "jb_MaxCatchUp j \<le> countForJob ?due (jb_ID j)")
        case True
        then have "nat (jb_MaxCatchUp j - countForJob due (jb_ID j)) = 1" using less.prems(2) c by simp
        then show ?thesis using False new True by (subst job_due.simps) (simp add: ms Let_def)
      next
        case more: False
        let ?k = "jb_MaxCatchUp j - countForJob ?due (jb_ID j)"
        have "nat (jb_MaxCatchUp j - countForJob due (jb_ID j)) = Suc (nat ?k)"
          using more c by simp
        then show ?thesis
          using less.hyps [OF dec, of ?due] at False new more
          by (subst job_due.simps) (simp add: ms Let_def)
      qed
    qed
  qed
qed

end

section \<open>Schedules at a fixed offset\<close>

definition clock_of :: "Job \<Rightarrow> int" where
  "clock_of job = jb_LocalHour job * 3600 + jb_LocalMinute job * 60"

definition on_day :: "Job \<Rightarrow> int \<Rightarrow> bool" where
  "on_day job n \<longleftrightarrow>
     (jb_Cadence job = Weekly \<longrightarrow> day_weekday n = jb_Weekday job)
     \<and> (jb_Cadence job = Monthly \<longrightarrow> cv_day (civil_of_days n) = jb_DayOfMonth job)"

text \<open>
  The schedule of a job with respect to a starting point: whole intervals after it, or the
  instants after it at which the local clock shows the hour and minute of the job, on the
  right weekday or day of the month.
\<close>

definition scheduled_at :: "location \<Rightarrow> Job \<Rightarrow> time \<Rightarrow> time \<Rightarrow> bool" where
  "scheduled_at loc job s t \<longleftrightarrow> s < t \<and>
     (if jb_Cadence job = Interval then (t - s) mod (jb_IntervalHours job * hour) = 0
      else t mod second = 0 \<and> local_clock loc t = clock_of job \<and> on_day job (local_day loc t))"

lemma clock_of_bounds: "validateJob job = Inr () \<Longrightarrow> 0 \<le> clock_of job \<and> clock_of job < 86400"
  unfolding validateJob_ok clock_of_def by linarith

lemma tick_unique:
  assumes "t mod second = 0" "local_clock (FixedZone off) t = k"
  shows "t = day_tick off k (local_day (FixedZone off) t)"
proof -
  have "t div second + off = (t div second + off) div 86400 * 86400 + k"
    using assms(2) div_mult_mod_eq [of "t div second + off" 86400]
    by (simp add: local_clock_def local_seconds_def)
  then have "local_day (FixedZone off) t * 86400 + k - off = t div second"
    by (simp add: local_day_def local_seconds_def)
  moreover have "t div second * second = t" using assms(1) div_mult_mod_eq [of t second] by simp
  ultimately show ?thesis by (simp add: day_tick_def)
qed

lemma scheduled_calendar:
  assumes "validateJob job = Inr ()" "jb_Cadence job \<noteq> Interval"
  shows "scheduled_at (FixedZone off) job s t \<longleftrightarrow>
    s < t \<and> (\<exists>n. t = day_tick off (clock_of job) n \<and> on_day job n)"
  using tick_unique [of t off "clock_of job"] day_tick_local [of "clock_of job" off]
    clock_of_bounds [OF assms(1)] assms(2)
  by (auto simp: scheduled_at_def)

text \<open>The first candidate day of \<open>nextOccurrence\<close> and the one after it.\<close>

definition first_day :: "Job \<Rightarrow> int \<Rightarrow> int" where
  "first_day job D =
     (if jb_Cadence job = Weekly then D + (jb_Weekday job - day_weekday D + 7) mod 7
      else if jb_Cadence job = Monthly then month_begin (month_of D) + jb_DayOfMonth job - 1
      else D)"

definition second_day :: "Job \<Rightarrow> int \<Rightarrow> int" where
  "second_day job D =
     (if jb_Cadence job = Weekly then first_day job D + 7
      else if jb_Cadence job = Monthly then month_begin (month_of D + 1) + jb_DayOfMonth job - 1
      else D + 1)"

lemma nextOccurrence_days:
  fixes off after
  assumes "validateJob job = Inr ()" "jb_Cadence job \<noteq> Interval"
  defines "D \<equiv> local_day (FixedZone off) after"
  defines "tick \<equiv> day_tick off (clock_of job)"
  shows "nextOccurrence (FixedZone off) job after =
    (if after < tick (first_day job D) then tick (first_day job D) else tick (second_day job D))"
proof -
  note k = clock_of_bounds [OF assms(1)]
  have v: "jb_Cadence job \<in> {Daily, Weekly, Monthly}" "jb_Cadence job = Monthly \<Longrightarrow> 1 \<le> jb_DayOfMonth job \<and> jb_DayOfMonth job \<le> 28"
    using assms(1,2) by (auto simp: validateJob_ok)
  let ?c = "civil_of_days D"
  have start: "time_Date (FixedZone off) (cv_year ?c) (cv_month ?c) (cv_day ?c) (jb_LocalHour job) (jb_LocalMinute job) 0 0 = tick D"
    by (simp add: time_Date_fixed clock_of_def tick_def days_of_civil_of_days)
  have month: "time_Date (FixedZone off) (cv_year c') (cv_month c') dom (jb_LocalHour job) (jb_LocalMinute job) 0 0
      = tick (month_begin (month_of n) + dom - 1)" if "c' = civil_of_days n" for c' n dom
    using days_of_civil_civil [of n 0 dom] that by (simp add: time_Date_fixed clock_of_def tick_def)
  have wd: "local_weekday (FixedZone off) (tick D) = day_weekday D"
    using k by (simp add: local_weekday_def tick_def day_tick_local)
  have add: "AddDate (FixedZone off) (tick n) 0 0 d = tick (n + d)" for n d
    using k by (simp add: tick_def AddDate_days)
  have next_month: "month_of (month_begin (month_of n + 1) + d - 1) = month_of n + 1"
    if "1 \<le> d" "d \<le> 28" for n d
    using that month_begin_step [of "month_of n + 1"] by (intro month_of_unique) auto
  consider "jb_Cadence job = Daily" | "jb_Cadence job = Weekly" | "jb_Cadence job = Monthly" using v by auto
  then show ?thesis
  proof cases
    case 3
    let ?d = "jb_DayOfMonth job"
    let ?n = "month_begin (month_of D) + ?d - 1"
    have n: "month_of ?n = month_of D" "cv_day (civil_of_days ?n) = ?d"
    proof -
      show "month_of ?n = month_of D" using v(2) [OF 3] month_begin_step [of "month_of D"] by (intro month_of_unique) auto
      then show "cv_day (civil_of_days ?n) = ?d" using day_in_month [of ?n] by simp
    qed
    have "local_date (FixedZone off) (AddDate (FixedZone off) (tick ?n) 0 1 0)
        = civil_of_days (month_begin (month_of D + 1) + ?d - 1)"
      using k n by (simp add: tick_def AddDate_day_tick local_date_def day_tick_local)
    with 3 start month [of ?c D ?d] month [OF refl, of "month_begin (month_of D + 1) + ?d - 1" ?d] next_month [of ?d D] v(2)
    show ?thesis by (simp add: nextOccurrence_def first_day_def second_day_def D_def local_date_def Let_def)
  qed (simp_all add: nextOccurrence_def first_day_def second_day_def local_date_def start wd add Let_def flip: D_def)
qed

lemma weekday_hit:
  assumes "0 \<le> w" "w \<le> 6"
  shows "day_weekday (D + (w - day_weekday D + 7) mod 7) = w"
proof -
  have "D + 1 + (w - (D + 1) mod 7 + 7) = w + ((D + 1) div 7 + 1) * 7"
    using div_mult_mod_eq [of "D + 1" 7] unfolding distrib_right by linarith
  then have "(D + 1 + (w - (D + 1) mod 7 + 7) mod 7) mod 7 = w mod 7"
    by (simp only: mod_add_right_eq mod_mult_self1)
  moreover have "D + 1 + (w - (D + 1) mod 7 + 7) mod 7 = D + (w - (D + 1) mod 7 + 7) mod 7 + 1" by simp
  ultimately show ?thesis using assms by (simp only: day_weekday_def) simp
qed

lemma weekday_gap:
  assumes "day_weekday n = w" "D \<le> n"
  shows "D + (w - day_weekday D + 7) mod 7 \<le> n"
proof -
  have "(w - day_weekday D + 7) mod 7 = (n - D) mod 7"
    unfolding assms(1) [symmetric] day_weekday_def by (simp add: mod_simps)
  moreover have "(n - D) mod 7 \<le> n - D" using assms(2) by (intro zmod_le_nonneg_dividend) simp
  ultimately show ?thesis by simp
qed

lemma weekday_next:
  assumes "day_weekday n = day_weekday m" "m < n"
  shows "m + 7 \<le> n"
proof -
  have "7 dvd n - m" using assms(1) by (simp add: day_weekday_def mod_eq_dvd_iff)
  then show ?thesis using assms(2) zdvd_imp_le [of 7 "n - m"] by simp
qed

lemma weekday_period: "day_weekday (n + 7) = day_weekday n"
  unfolding day_weekday_def by (metis add.assoc add.commute mod_add_self2)

lemma monthly_day:
  assumes "1 \<le> d" "d \<le> 28"
  shows "cv_day (civil_of_days (month_begin k + d - 1)) = d" "month_of (month_begin k + d - 1) = k"
  using civil_of_month [OF assms, of k] by (simp_all add: month_of_def)

text \<open>The two candidate days are the next two days of the schedule, the second later than \<open>D\<close>.\<close>

lemma candidate_days:
  assumes "validateJob job = Inr ()" "jb_Cadence job \<noteq> Interval"
  shows "on_day job (first_day job D)" "on_day job (second_day job D)" "D < second_day job D"
    "on_day job n \<Longrightarrow> D \<le> n \<Longrightarrow> first_day job D \<le> n"
    "on_day job n \<Longrightarrow> first_day job D < n \<Longrightarrow> second_day job D \<le> n"
proof -
  have v: "jb_Cadence job \<in> {Daily, Weekly, Monthly}"
    "jb_Cadence job = Monthly \<Longrightarrow> 1 \<le> jb_DayOfMonth job \<and> jb_DayOfMonth job \<le> 28"
    "jb_Cadence job = Weekly \<Longrightarrow> 0 \<le> jb_Weekday job \<and> jb_Weekday job \<le> 6"
    using assms by (auto simp: validateJob_ok)
  consider (d) "jb_Cadence job = Daily" | (w) "jb_Cadence job = Weekly" | (m) "jb_Cadence job = Monthly" using v by auto
  note c = this
  have month: "month_begin (month_of D) + jb_DayOfMonth job - 1 \<le> n"
    if "jb_Cadence job = Monthly" "cv_day (civil_of_days n) = jb_DayOfMonth job" "D \<le> n" for n
  proof -
    have "month_of D \<le> month_of n"
      using month_of_bounds [of n] month_of_bounds [of D] month_begin_mono [of "month_of n + 1" "month_of D"] that(3)
      by (cases "month_of n < month_of D") auto
    then show ?thesis using day_in_month [of n] month_begin_mono that(2) by fastforce
  qed
  have month': "month_begin (month_of D + 1) + jb_DayOfMonth job - 1 \<le> n"
    if "cv_day (civil_of_days n) = jb_DayOfMonth job" "month_begin (month_of D) + jb_DayOfMonth job - 1 < n" for n
  proof -
    have "month_of D < month_of n"
      using day_in_month [of n] month_begin_mono [of "month_of n" "month_of D"] that
      by (cases "month_of D < month_of n") auto
    then show ?thesis using day_in_month [of n] month_begin_mono [of "month_of D + 1" "month_of n"] that(1) by simp
  qed
  show "on_day job (first_day job D)"
    using c by cases (use v(2,3) weekday_hit monthly_day in \<open>auto simp: on_day_def first_day_def\<close>)
  show "on_day job (second_day job D)"
    using c by cases (use v(2,3) weekday_hit weekday_period monthly_day in \<open>auto simp: on_day_def first_day_def second_day_def\<close>)
  show "D < second_day job D"
    using c by cases (use v(2,3) month_of_bounds [of D] in \<open>auto simp: first_day_def second_day_def\<close>)
  show "on_day job n \<Longrightarrow> D \<le> n \<Longrightarrow> first_day job D \<le> n"
    using c by cases (use v(2,3) weekday_gap [of n "jb_Weekday job" D] month [of n] in \<open>auto simp: on_day_def first_day_def\<close>)
  show "on_day job n \<Longrightarrow> first_day job D < n \<Longrightarrow> second_day job D \<le> n"
    using c by cases (use v(2,3) weekday_hit [of "jb_Weekday job" D] weekday_next month' [of n] in
        \<open>auto simp: on_day_def first_day_def second_day_def\<close>)
qed

lemma interval_least:
  fixes h :: int
  assumes "0 < h" "(t - s) mod h = 0" "(a - s) mod h = 0" "a < t"
  shows "a + h \<le> t"
proof -
  have "h dvd (t - s) - (a - s)" using assms(2,3) by (intro dvd_diff mod_0_imp_dvd)
  then show ?thesis using assms(1,4) zdvd_imp_le [of h "t - a"] by simp
qed

lemma day_tick_of_day:
  assumes "0 \<le> k"
  shows "day_tick off k n \<le> t \<Longrightarrow> n \<le> local_day (FixedZone off) t"
    "t < day_tick off k n \<Longrightarrow> k < 86400 \<Longrightarrow> local_day (FixedZone off) t \<le> n"
    "local_day (FixedZone off) t < n \<Longrightarrow> t < day_tick off k n"
proof -
  have k: "day_tick off 0 m \<le> day_tick off k m" for m
    using assms by (simp add: day_tick_def second_def)
  have k': "k < 86400 \<Longrightarrow> day_tick off k m < day_tick off 0 (m + 1)" for m
    by (simp add: day_tick_def second_def)
  note b = day_tick_bounds [where off = off and t = t]
  show "day_tick off k n \<le> t \<Longrightarrow> n \<le> local_day (FixedZone off) t"
  proof -
    assume "day_tick off k n \<le> t"
    with k [of n] b have "day_tick off 0 n < day_tick off 0 (local_day (FixedZone off) t + 1)" by linarith
    then show ?thesis using day_tick_le_iff [of off 0 "local_day (FixedZone off) t + 1" n] by linarith
  qed
  show "local_day (FixedZone off) t \<le> n" if "t < day_tick off k n" "k < 86400"
  proof -
    from that k' [of n] b have "day_tick off 0 (local_day (FixedZone off) t) < day_tick off 0 (n + 1)" by simp
    then show ?thesis using day_tick_le_iff [of off 0 "n + 1" "local_day (FixedZone off) t"] by linarith
  qed
  show "t < day_tick off k n" if "local_day (FixedZone off) t < n"
  proof -
    have "day_tick off 0 (local_day (FixedZone off) t + 1) \<le> day_tick off 0 n" using that by (simp add: day_tick_le_iff)
    with k [of n] b show ?thesis by linarith
  qed
qed

text \<open>The contract of \<open>nextOccurrence\<close> for the jobs with a calendar.\<close>

lemma next_calendar:
  fixes off
  assumes "validateJob job = Inr ()" "jb_Cadence job \<noteq> Interval"
  defines "nx \<equiv> \<lambda>a. nextOccurrence (FixedZone off) job a"
  shows "a < nx a" "s \<le> a \<Longrightarrow> scheduled_at (FixedZone off) job s (nx a)"
    "a < t \<Longrightarrow> scheduled_at (FixedZone off) job s t \<Longrightarrow> nx a \<le> t"
proof -
  let ?D = "local_day (FixedZone off) a" and ?tick = "day_tick off (clock_of job)"
  note k = clock_of_bounds [OF assms(1)]
  note eq = nextOccurrence_days [OF assms(1,2), of off a] and days = candidate_days [OF assms(1,2)]
  have second: "a < ?tick (second_day job ?D)" using days(3) k by (intro day_tick_of_day(3)) auto
  then show "a < nx a" unfolding nx_def eq by simp
  then show "s \<le> a \<Longrightarrow> scheduled_at (FixedZone off) job s (nx a)"
    unfolding scheduled_calendar [OF assms(1,2)] using days(1,2) [of ?D] by (auto simp: nx_def eq)
  assume t: "a < t" "scheduled_at (FixedZone off) job s t"
  then obtain n where n: "t = ?tick n" "on_day job n" unfolding scheduled_calendar [OF assms(1,2)] by auto
  have "?D \<le> n" using t(1) n k by (intro day_tick_of_day(2)) auto
  then have "first_day job ?D \<le> n" using n(2) days(4) by simp
  moreover have "second_day job ?D \<le> n" if "\<not> a < ?tick (first_day job ?D)"
  proof -
    from that t(1) n(1) have "?tick (first_day job ?D) < ?tick n" by simp
    then have "first_day job ?D < n" using day_tick_le_iff [of off "clock_of job" n "first_day job ?D"] by linarith
    then show ?thesis using n(2) days(5) by simp
  qed
  ultimately show "nx a \<le> t" unfolding nx_def eq n(1) by (simp add: day_tick_le_iff)
qed

text \<open>For a job with an interval: from the starting point or from an occurrence.\<close>

lemma next_interval:
  fixes loc
  assumes "validateJob job = Inr ()" "jb_Cadence job = Interval"
    and "a = s \<or> scheduled_at loc job s a"
  defines "nx \<equiv> \<lambda>a. nextOccurrence loc job a"
  shows "a < nx a" "scheduled_at loc job s (nx a)" "a < t \<Longrightarrow> scheduled_at loc job s t \<Longrightarrow> nx a \<le> t"
proof -
  have h: "0 < jb_IntervalHours job * hour" using assms(1,2) by (simp add: validateJob_ok)
  have m: "(a - s) mod (jb_IntervalHours job * hour) = 0" "s \<le> a"
    using assms(2,3) by (auto simp: scheduled_at_def)
  show "a < nx a" using assms(2) h by (simp add: nx_def nextOccurrence_def)
  have "(a + jb_IntervalHours job * hour - s) mod (jb_IntervalHours job * hour) = (a - s) mod (jb_IntervalHours job * hour)"
    by (metis add_diff_eq diff_add_eq mod_add_self2)
  then show "scheduled_at loc job s (nx a)"
    using m assms(2) h by (simp add: nx_def nextOccurrence_def scheduled_at_def)
  show "a < t \<Longrightarrow> scheduled_at loc job s t \<Longrightarrow> nx a \<le> t"
    using interval_least [OF h _ m(1)] assms(2) by (simp add: nx_def nextOccurrence_def scheduled_at_def)
qed

interpretation fixed_zone: occurrence_stream "nextOccurrence (FixedZone off)" "scheduled_at (FixedZone off)"
  "\<lambda>job. validateJob job = Inr ()" for off
proof
  fix j a s
  assume good: "validateJob j = Inr ()" and at: "a = s \<or> scheduled_at (FixedZone off) j s a"
  have sa: "s \<le> a" using at by (auto simp: scheduled_at_def)
  note cal = next_calendar [OF good, where off = off] and ivl = next_interval [OF good _ at]
  show "a < nextOccurrence (FixedZone off) j a" using cal(1) ivl(1) by blast
  show "scheduled_at (FixedZone off) j s (nextOccurrence (FixedZone off) j a)" using cal(2) [OF _ sa] ivl(2) by blast
  show "nextOccurrence (FixedZone off) j a \<le> t" if "a < t" "scheduled_at (FixedZone off) j s t" for t
    using cal(3) [OF _ that] ivl(3) [OF _ that] by blast
qed

end
