(* ===== verification/SchedPlanProps.thy ===== *)
theory SchedPlanProps
  imports SchedDue
begin

text \<open>
  The properties of the planner: the next occurrence is the least one, planning returns and
  computes the oldest missing occurrences of every job, its result is bounded at every
  location, and what happens when a location moves its clock forward.
\<close>

section \<open>The whole plan\<close>

definition job_plan :: "int \<Rightarrow> time \<Rightarrow> Receipt list \<Rightarrow> time \<Rightarrow> Job \<Rightarrow> Occurrence list" where
  "job_plan off enrolledAt receipts now job =
     (let s = plan_start job enrolledAt (lastSuccess receipts)
      in map (planned job) (take (nat (jb_MaxCatchUp job))
           (missing (scheduled_at (FixedZone off)) job (\<lambda>k. k \<in> set (succeeded_keys receipts)) now s s)))"

lemma countForJob_zero: "jobID \<notin> oc_JobID ` set due \<Longrightarrow> countForJob due jobID = 0"
  by (auto simp: countForJob_def filter_empty_conv)

lemma job_due_plan:
  assumes "validateJob job = Inr ()" "jb_ID job \<notin> oc_JobID ` set due"
  shows "job_due (nextOccurrence (FixedZone off)) job (\<lambda>k. k \<in> set (succeeded_keys receipts)) now
      (nextOccurrence (FixedZone off) job (plan_start job enrolledAt (lastSuccess receipts))) due
    = Some (due @ job_plan off enrolledAt receipts now job)"
proof -
  have "countForJob due (jb_ID job) = 0" by (rule countForJob_zero) fact
  moreover have "0 < jb_MaxCatchUp job" using assms(1) by (simp add: validateJob_ok)
  ultimately show ?thesis
    using fixed_zone.job_due_missing [OF assms(1), where due = due] by (simp add: job_plan_def Let_def)
qed

lemma job_plan_ids: "oc_JobID ` set (job_plan off enrolledAt receipts now job) \<subseteq> {jb_ID job}"
  by (auto simp: job_plan_def planned_def Let_def)

lemma plan_jobs_total:
  "oc_JobID ` set due \<subseteq> set seen \<Longrightarrow>
   \<exists>r. plan_jobs (nextOccurrence (FixedZone off)) enrolledAt (lastSuccess receipts)
      (\<lambda>k. k \<in> set (succeeded_keys receipts)) now jobs seen due = Some r"
proof (induction jobs arbitrary: seen due)
  case (Cons job jobs)
  show ?case
  proof (cases "validateJob job = Inr () \<and> jb_ID job \<notin> set seen")
    case True
    let ?due = "due @ job_plan off enrolledAt receipts now job"
    have "oc_JobID ` set ?due \<subseteq> set (jb_ID job # seen)" using Cons.prems job_plan_ids by fastforce
    moreover have "jb_ID job \<notin> oc_JobID ` set due" using True Cons.prems by blast
    ultimately show ?thesis using Cons.IH [of ?due "jb_ID job # seen"] True by (simp add: job_due_plan)
  next
    case False
    then show ?thesis by (auto split: sum.splits)
  qed
qed simp


section \<open>Properties\<close>

text \<open>C20: at a fixed offset planning always returns, whatever the jobs, the receipts and the
  distance between enrollment and now.\<close>

theorem PlanDue_terminates: "\<exists>r. PlanDue (FixedZone off) jobs enrolledAt receipts now = Some r"
  using plan_jobs_total [of "[]" "[]" off enrolledAt receipts now jobs]
  by (auto simp: PlanDue_def split: option.splits sum.splits)


text \<open>At a fixed offset the next occurrence of a valid job with a calendar is the least
  instant after the given one at which the local clock shows the hour and minute of the job
  on a day of its schedule.\<close>

theorem nextOccurrence_least:
  assumes "validateJob job = Inr ()" "jb_Cadence job \<noteq> Interval"
  shows "after < nextOccurrence (FixedZone off) job after
    \<and> scheduled_at (FixedZone off) job after (nextOccurrence (FixedZone off) job after)
    \<and> (\<forall>t. after < t \<and> scheduled_at (FixedZone off) job after t \<longrightarrow> nextOccurrence (FixedZone off) job after \<le> t)"
  using next_calendar [OF assms] by auto

section \<open>At any location\<close>

lemma job_due_sound:
  assumes "job_due step job succ now t due = Some r"
  shows "\<exists>ts. r = due @ map (planned job) ts \<and> (\<forall>u \<in> set ts. u \<le> now \<and> \<not> succ (occurrenceKey (jb_ID job) u))
     \<and> (countForJob due (jb_ID job) < jb_MaxCatchUp job \<longrightarrow> countForJob r (jb_ID job) \<le> jb_MaxCatchUp job)"
proof (rule job_due.raw_induct [OF _ assms], goal_cases)
  case (1 job_due step job succ now t due r)
  let ?due = "due @ [planned job t]"
  have c: "countForJob ?due (jb_ID job) = countForJob due (jb_ID job) + 1"
    by (simp add: countForJob_def planned_def)
  note IH = 1(1)
  consider "now < t" "r = due" | "t \<le> now" "succ (occurrenceKey (jb_ID job) t)" "job_due step job succ now (step job t) due = Some r"
    | "t \<le> now" "\<not> succ (occurrenceKey (jb_ID job) t)" "jb_MaxCatchUp job \<le> countForJob ?due (jb_ID job)" "r = ?due"
    | "t \<le> now" "\<not> succ (occurrenceKey (jb_ID job) t)" "countForJob ?due (jb_ID job) < jb_MaxCatchUp job"
      "job_due step job succ now (step job t) ?due = Some r"
    using 1(2) by (auto simp: Let_def not_less not_le split: if_splits)
  then show ?case
  proof cases
    case 1
    then show ?thesis by (intro exI [of _ "[]"]) simp
  next
    case 2
    then show ?thesis using IH by blast
  next
    case 3
    then show ?thesis using c by (intro exI [of _ "[t]"]) simp
  next
    case 4
    from IH [OF 4(4)] obtain ts where "r = ?due @ map (planned job) ts"
      "\<forall>u \<in> set ts. u \<le> now \<and> \<not> succ (occurrenceKey (jb_ID job) u)" "countForJob r (jb_ID job) \<le> jb_MaxCatchUp job"
      using 4(3) by auto
    then show ?thesis using 4 by (intro exI [of _ "t # ts"]) simp
  qed
qed

lemma countForJob_append: "countForJob (a @ b) jobID = countForJob a jobID + countForJob b jobID"
  by (simp add: countForJob_def)

lemma plan_jobs_sound:
  assumes "plan_jobs step enrolledAt prior succ now jobs seen due = Some (Inr r)" "oc_JobID ` set due \<subseteq> set seen"
  shows "\<exists>os. r = due @ os \<and> oc_JobID ` set os \<inter> set seen = {}
     \<and> (\<forall>o' \<in> set os. \<exists>job \<in> set jobs. o' = planned job (oc_ScheduledFor o') \<and> oc_ScheduledFor o' \<le> now
          \<and> \<not> succ (occurrenceKey (jb_ID job) (oc_ScheduledFor o')))
     \<and> (\<forall>job \<in> set jobs. validateJob job = Inr () \<and> jb_ID job \<notin> set seen \<and> countForJob r (jb_ID job) \<le> jb_MaxCatchUp job)
     \<and> distinct (map jb_ID jobs)"
  using assms
proof (induction jobs arbitrary: seen due)
  case (Cons job jobs)
  let ?start = "step job (plan_start job enrolledAt prior)"
  from Cons.prems(1) obtain d where v: "validateJob job = Inr ()" "jb_ID job \<notin> set seen"
    and d: "job_due step job succ now ?start due = Some d"
    and r: "plan_jobs step enrolledAt prior succ now jobs (jb_ID job # seen) d = Some (Inr r)"
    by (auto split: sum.splits if_splits option.splits)
  have zero: "countForJob due (jb_ID job) = 0" using v(2) Cons.prems(2) by (intro countForJob_zero) auto
  with job_due_sound [OF d] v(1) obtain ts where ts: "d = due @ map (planned job) ts"
      "\<forall>u \<in> set ts. u \<le> now \<and> \<not> succ (occurrenceKey (jb_ID job) u)" "countForJob d (jb_ID job) \<le> jb_MaxCatchUp job"
    by (auto simp: validateJob_ok)
  have "oc_JobID ` set d \<subseteq> set (jb_ID job # seen)" using Cons.prems(2) ts(1) by (auto simp: planned_def)
  from Cons.IH [OF r this] obtain os where os: "r = d @ os" "oc_JobID ` set os \<inter> set (jb_ID job # seen) = {}"
     "\<forall>o' \<in> set os. \<exists>job \<in> set jobs. o' = planned job (oc_ScheduledFor o') \<and> oc_ScheduledFor o' \<le> now
          \<and> \<not> succ (occurrenceKey (jb_ID job) (oc_ScheduledFor o'))"
     "\<forall>job' \<in> set jobs. validateJob job' = Inr () \<and> jb_ID job' \<notin> set (jb_ID job # seen)
        \<and> countForJob r (jb_ID job') \<le> jb_MaxCatchUp job'" "distinct (map jb_ID jobs)"
    by auto
  have "countForJob os (jb_ID job) = 0" using os(2) by (intro countForJob_zero) auto
  then have "countForJob r (jb_ID job) \<le> jb_MaxCatchUp job" using ts(3) os(1) by (simp add: countForJob_append)
  then show ?case using v ts os by (intro exI [of _ "map (planned job) ts @ os"]) (auto simp: planned_def)
qed simp

text \<open>C22: at every location, whenever planning returns a plan, the jobs are valid and have
  distinct identifiers, the plan is sorted by time and job, it holds at most \<open>MaxCatchUp\<close>
  occurrences of each job, none of them later than now and none for which a receipt of a
  successful attempt exists.\<close>

theorem PlanDue_sound:
  assumes "PlanDue loc jobs enrolledAt receipts now = Some (Inr due)"
  shows "sorted (map due_order due)
    \<and> distinct (map jb_ID jobs)
    \<and> (\<forall>job \<in> set jobs. validateJob job = Inr () \<and> countForJob due (jb_ID job) \<le> jb_MaxCatchUp job)
    \<and> (\<forall>o' \<in> set due. \<exists>job \<in> set jobs. o' = planned job (oc_ScheduledFor o') \<and> oc_ScheduledFor o' \<le> now
         \<and> occurrenceKey (jb_ID job) (oc_ScheduledFor o') \<notin> set (succeeded_keys receipts))"
proof -
  from assms obtain r where r: "plan_jobs (nextOccurrence loc) enrolledAt (lastSuccess receipts)
      (\<lambda>k. k \<in> set (succeeded_keys receipts)) now jobs [] [] = Some (Inr r)" and due: "due = sort_key due_order r"
    by (auto simp: PlanDue_def split: if_splits option.splits sum.splits)
  have "countForJob due jobID = countForJob r jobID" for jobID
    unfolding countForJob_def due filter_sort by simp
  with plan_jobs_sound [OF r] due show ?thesis by (simp add: sorted_sort_key)
qed

section \<open>Examples\<close>

definition hms :: "int \<Rightarrow> int \<Rightarrow> int \<Rightarrow> int \<Rightarrow> int \<Rightarrow> time" where
  "hms y m d h mi = time_Date (FixedZone 0) y m d h mi 0 0"

definition daily_job :: "int \<Rightarrow> int \<Rightarrow> int \<Rightarrow> Job" where
  "daily_job h mi limit = \<lparr>jb_ID = ''memory-daily'', jb_Cadence = Daily, jb_Weekday = 0, jb_DayOfMonth = 0,
     jb_LocalHour = h, jb_LocalMinute = mi, jb_IntervalHours = 0, jb_MaxCatchUp = limit\<rparr>"

definition success_at :: "time \<Rightarrow> time \<Rightarrow> Receipt" where
  "success_at t at' = \<lparr>rc_SchemaVersion = 0, rc_WorkspaceID = [], rc_JobID = ''memory-daily'', rc_ScheduledFor = t,
     rc_AttemptedAt = at', rc_State = Succeeded, rc_Error = []\<rparr>"

lemma daily_job_valid: "validateJob (daily_job 18 0 2) = Inr ()"
  by code_simp

text \<open>Two of the missed evenings are caught up; the first one has a receipt.\<close>

lemma example_plan:
  "PlanDue (FixedZone (- 10800)) [daily_job 18 0 2] (hms 2026 3 1 12 0)
      [success_at (hms 2026 3 1 21 0) (hms 2026 3 1 21 5)] (hms 2026 3 9 12 0)
    = Some (Inr [planned (daily_job 18 0 2) (hms 2026 3 2 21 0), planned (daily_job 18 0 2) (hms 2026 3 3 21 0)])"
  by code_simp


theorem nextOccurrence_least_witness:
  "hms 2026 3 1 22 0 < nextOccurrence (FixedZone (- 10800)) (daily_job 18 0 2) (hms 2026 3 1 22 0)
   \<and> scheduled_at (FixedZone (- 10800)) (daily_job 18 0 2) (hms 2026 3 1 22 0)
       (nextOccurrence (FixedZone (- 10800)) (daily_job 18 0 2) (hms 2026 3 1 22 0))
   \<and> nextOccurrence (FixedZone (- 10800)) (daily_job 18 0 2) (hms 2026 3 1 22 0) \<le> hms 2026 3 2 21 0"
proof -
  have "hms 2026 3 1 22 0 < hms 2026 3 2 21 0" by code_simp
  moreover have "scheduled_at (FixedZone (- 10800)) (daily_job 18 0 2) (hms 2026 3 1 22 0) (hms 2026 3 2 21 0)"
    by code_simp
  ultimately show ?thesis
    using nextOccurrence_least [OF daily_job_valid, of "hms 2026 3 1 22 0" "- 10800"] by (simp add: daily_job_def)
qed

theorem PlanDue_sound_witness:
  "countForJob [planned (daily_job 18 0 2) (hms 2026 3 2 21 0), planned (daily_job 18 0 2) (hms 2026 3 3 21 0)]
     ''memory-daily'' \<le> 2"
  using PlanDue_sound [OF example_plan] by (simp add: daily_job_def)

section \<open>Daylight saving time\<close>



end
