(* ===== verification/SchedFiles.thy ===== *)
theory SchedFiles
  imports GoStrings "HOL-Library.AList"
begin

text \<open>
  The private directories of the scheduler: \<open>internal/scheduler/private_path.go\<close>,
  \<open>private_path_unix.go\<close>, \<open>lease_guard.go\<close> and \<open>lease_guard_unix.go\<close>. The file system is a
  tree; a directory lists its entries in some order, the order in which \<open>ReadDir(-1)\<close> returns
  them. A directory handle is the path it was opened at: nobody renames a directory of the
  scheduler. What the operating system refuses beyond that is decided by \<open>refused op name\<close>
  of the environment. File contents \<open>'d\<close> are documents with their length in bytes;
  permissions are not modelled. The Windows variants are not modelled.
\<close>

datatype sched_error =
    ErrNotExist
  | ErrExist
  | ErrLeaseBusy
  | ErrLeaseLost
  | ErrLeaseGuardBusy
  | OtherErr go_error

abbreviation sched_New :: "string \<Rightarrow> sched_error" where
  "sched_New m \<equiv> OtherErr (errors_New m)"

definition os_error :: "string \<Rightarrow> string \<Rightarrow> sched_error" where
  "os_error op name = OtherErr (Errorf op [name])"

text \<open>A torn file is what an interrupted write leaves: no document of any kind.\<close>

datatype 'd node =
    Dir "(string \<times> 'd node) list"
  | File 'd int
  | TornFile
  | SymbolicLink
  | Irregular

type_synonym 'd entries = "(string \<times> 'd node) list"

type_synonym refusals = "string \<Rightarrow> string \<Rightarrow> bool"

section \<open>Paths\<close>

text \<open>
  \<open>filepath.Base(c) != c\<close> for a component: it has a separator. (Base also accepts the lone
  separator, which is no component of the scheduler.)
\<close>

definition valid_component :: "string \<Rightarrow> bool" where
  "valid_component c \<longleftrightarrow> c \<noteq> [] \<and> c \<noteq> ''.'' \<and> c \<noteq> ''..'' \<and> CHR ''/'' \<notin> set c"

definition validateSecureLeaf :: "string \<Rightarrow> sched_error + unit" where
  "validateSecureLeaf name =
     fail_if (\<not> valid_component name \<or> CHR 0x00 \<in> set name) (sched_New ''invalid scheduler secure file leaf'')"

definition unixPathParts :: "string \<Rightarrow> string list" where
  "unixPathParts path = filter (\<lambda>c. c \<noteq> [] \<and> c \<noteq> ''.'') (split_on CHR ''/'' path)"

text \<open>
  The path below the canonical root; \<open>canonical\<close> stands for \<open>canonicalSchedulerRoot\<close>, which
  asks the operating system for the working and the temporary directory.
\<close>

definition private_path :: "(string \<Rightarrow> sched_error + string) \<Rightarrow> string \<Rightarrow> string list \<Rightarrow> sched_error + string list" where
  "private_path canonical root relative =
     (if TrimSpace root = [] then Inl (sched_New ''scheduler root is required'')
      else bind_r (canonical root) (\<lambda>absolute.
        if list_ex (\<lambda>c. \<not> valid_component c) relative then Inl (sched_New ''invalid scheduler storage component'')
        else Inr (unixPathParts absolute @ relative)))"

section \<open>Walking directories\<close>

text \<open>
  \<open>walkUnixDirectory\<close>: every component is opened without following links; with \<open>create\<close> a
  missing one is made. Directories made before a refusal stay.
\<close>

fun walk :: "refusals \<Rightarrow> bool \<Rightarrow> string list \<Rightarrow> 'd entries \<Rightarrow> (sched_error + unit) \<times> 'd entries" where
  "walk refused create [] es = (Inr (), es)"
| "walk refused create (c # cs) es =
     (case map_of es c of
        Some (Dir d) \<Rightarrow>
          if refused ''openat'' c \<or> create \<and> cs = [] \<and> refused ''fchmod'' c then (Inl (os_error ''openat'' c), es)
          else let (r, d') = walk refused create cs d in (r, AList.update c (Dir d') es)
      | Some _ \<Rightarrow> (Inl (os_error ''openat'' c), es)
      | None \<Rightarrow>
          if \<not> create then (Inl (if refused ''openat'' c then os_error ''openat'' c else ErrNotExist), es)
          else if refused ''openat'' c \<or> refused ''mkdirat'' c then (Inl (os_error ''mkdirat'' c), es)
          else if refused ''fchmod'' c then (Inl (os_error ''fchmod'' c), es @ [(c, Dir [])])
          else let (r, d') = walk refused create cs [] in (r, es @ [(c, Dir d')]))"

fun dir_at :: "string list \<Rightarrow> 'd entries \<Rightarrow> 'd entries option" where
  "dir_at [] es = Some es"
| "dir_at (c # cs) es = (case map_of es c of Some (Dir d) \<Rightarrow> dir_at cs d | _ \<Rightarrow> None)"

fun in_dir :: "string list \<Rightarrow> ('d entries \<Rightarrow> 'd entries) \<Rightarrow> 'd entries \<Rightarrow> 'd entries" where
  "in_dir [] g es = g es"
| "in_dir (c # cs) g es =
     (case map_of es c of Some (Dir d) \<Rightarrow> AList.update c (Dir (in_dir cs g d)) es | _ \<Rightarrow> es)"

definition node_at :: "string list \<Rightarrow> string \<Rightarrow> 'd entries \<Rightarrow> 'd node option" where
  "node_at p name es = (case dir_at p es of None \<Rightarrow> None | Some d \<Rightarrow> map_of d name)"

section \<open>Operations of a secure directory\<close>

definition maximum_file :: int where "maximum_file = 2 ^ 20"

text \<open>\<open>openFile\<close> of an entry that must be there, as far as reading and rewriting go.\<close>

definition open_regular :: "refusals \<Rightarrow> string \<Rightarrow> 'd node option \<Rightarrow> sched_error + unit" where
  "open_regular refused name nd =
     (case nd of
        None \<Rightarrow> Inl (if refused ''openat'' name then os_error ''openat'' name else ErrNotExist)
      | Some n \<Rightarrow>
          if refused ''openat'' name \<or> n = SymbolicLink then Inl (os_error ''openat'' name)
          else (case n of
                  File d s \<Rightarrow> Inr ()
                | TornFile \<Rightarrow> Inr ()
                | _ \<Rightarrow> Inl (sched_New ''scheduler secure file must be regular'')))"

text \<open>The bytes of a file are a document or, when torn, none.\<close>

definition dir_readFile :: "refusals \<Rightarrow> string list \<Rightarrow> string \<Rightarrow> 'd entries \<Rightarrow> sched_error + 'd option" where
  "dir_readFile refused p name es =
     bind_r (validateSecureLeaf name) (\<lambda>_.
     bind_r (open_regular refused name (node_at p name es)) (\<lambda>_.
       if refused ''read'' name then Inl (os_error ''read'' name)
       else case node_at p name es of
              Some (File d n) \<Rightarrow> if maximum_file \<le> n then Inl (sched_New ''scheduler secure file exceeds bounded size'') else Inr (Some d)
            | _ \<Rightarrow> Inr None))"

text \<open>
  \<open>writeNewFile\<close> creates with \<open>O_EXCL\<close>; when writing, syncing or closing fails the new file is
  removed again, and when that fails too it stays torn.
\<close>

definition write_refused :: "refusals \<Rightarrow> string \<Rightarrow> bool" where
  "write_refused refused name \<longleftrightarrow> refused ''write'' name \<or> refused ''fsync'' name \<or> refused ''close'' name"

definition dir_writeNewFile ::
  "refusals \<Rightarrow> string list \<Rightarrow> string \<Rightarrow> 'd \<Rightarrow> int \<Rightarrow> 'd entries \<Rightarrow> (sched_error + unit) \<times> 'd entries" where
  "dir_writeNewFile refused p name d n es =
     (case validateSecureLeaf name of
        Inl e \<Rightarrow> (Inl e, es)
      | Inr _ \<Rightarrow>
          if refused ''openat'' name then (Inl (os_error ''openat'' name), es)
          else if node_at p name es \<noteq> None then (Inl ErrExist, es)
          else if write_refused refused name
          then (Inl (os_error ''write'' name),
                if refused ''unlinkat'' name then in_dir p (\<lambda>d. d @ [(name, TornFile)]) es else es)
          else (Inr (), in_dir p (\<lambda>es. es @ [(name, File d n)]) es))"

text \<open>\<open>writeFile\<close> truncates first: a refused write leaves the file torn.\<close>

definition dir_writeFile ::
  "refusals \<Rightarrow> string list \<Rightarrow> string \<Rightarrow> 'd \<Rightarrow> int \<Rightarrow> 'd entries \<Rightarrow> (sched_error + unit) \<times> 'd entries" where
  "dir_writeFile refused p name d n es =
     (case validateSecureLeaf name of
        Inl e \<Rightarrow> (Inl e, es)
      | Inr _ \<Rightarrow>
          let nd = node_at p name es
          in case open_regular refused name nd of
               Inl e \<Rightarrow>
                 if e = ErrNotExist
                 then if refused ''write'' name then (Inl (os_error ''write'' name), in_dir p (\<lambda>d. d @ [(name, TornFile)]) es)
                      else (if refused ''fsync'' name then Inl (os_error ''fsync'' name) else Inr (),
                            in_dir p (\<lambda>es. es @ [(name, File d n)]) es)
                 else (Inl e, es)
             | Inr _ \<Rightarrow>
                 if refused ''write'' name then (Inl (os_error ''write'' name), in_dir p (AList.update name TornFile) es)
                 else (if refused ''fsync'' name then Inl (os_error ''fsync'' name) else Inr (),
                       in_dir p (AList.update name (File d n)) es))"

definition is_directory :: "'d node \<Rightarrow> bool" where
  "is_directory n = (case n of Dir _ \<Rightarrow> True | _ \<Rightarrow> False)"

definition dir_removeFile :: "refusals \<Rightarrow> string list \<Rightarrow> string \<Rightarrow> 'd entries \<Rightarrow> (sched_error + unit) \<times> 'd entries" where
  "dir_removeFile refused p name es =
     (case validateSecureLeaf name of
        Inl e \<Rightarrow> (Inl e, es)
      | Inr _ \<Rightarrow>
          if refused ''unlinkat'' name then (Inl (os_error ''unlinkat'' name), es)
          else case node_at p name es of
                 None \<Rightarrow> (Inl ErrNotExist, es)
               | Some nd \<Rightarrow>
                   if is_directory nd then (Inl (os_error ''unlinkat'' name), es)
                   else (Inr (), in_dir p (AList.delete name) es))"

section \<open>Operations on paths\<close>

definition secureReadFile :: "refusals \<Rightarrow> string list \<Rightarrow> string \<Rightarrow> 'd entries \<Rightarrow> sched_error + 'd option" where
  "secureReadFile refused p name es =
     bind_r (fst (walk refused False p es)) (\<lambda>_. dir_readFile refused p name es)"

definition secureWriteNewFile ::
  "refusals \<Rightarrow> string list \<Rightarrow> string \<Rightarrow> 'd \<Rightarrow> int \<Rightarrow> 'd entries \<Rightarrow> (sched_error + unit) \<times> 'd entries" where
  "secureWriteNewFile refused p name d n es =
     (case fst (walk refused False p es) of
        Inl e \<Rightarrow> (Inl e, es)
      | Inr _ \<Rightarrow> dir_writeNewFile refused p name d n es)"

definition secureReadDir :: "refusals \<Rightarrow> string list \<Rightarrow> 'd entries \<Rightarrow> sched_error + 'd entries" where
  "secureReadDir refused p es =
     bind_r (fst (walk refused False p es)) (\<lambda>_.
       if refused ''readdir'' [] then Inl (os_error ''readdir'' [])
       else case dir_at p es of None \<Rightarrow> Inl ErrNotExist | Some d \<Rightarrow> Inr d)"

section \<open>What the operations do to the files\<close>

text \<open>The files of a tree, by directory and name; directories are not files.\<close>

definition leaf_of :: "'d node option \<Rightarrow> 'd node option" where
  "leaf_of nd = (case nd of None \<Rightarrow> None | Some n \<Rightarrow> if is_directory n then None else Some n)"

definition leaf_at :: "string list \<Rightarrow> string \<Rightarrow> 'd entries \<Rightarrow> 'd node option" where
  "leaf_at p name es = leaf_of (node_at p name es)"

definition keeps_dirs :: "'d entries \<Rightarrow> 'd entries \<Rightarrow> bool" where
  "keeps_dirs d d' \<longleftrightarrow> (\<forall>c x. map_of d' c = Some (Dir x) \<longleftrightarrow> map_of d c = Some (Dir x))"

lemma leaf_of_simps [simp]:
  "leaf_of None = None" "leaf_of (Some (Dir x)) = None" "leaf_of (Some (File a n)) = Some (File a n)"
  "leaf_of (Some TornFile) = Some TornFile" "leaf_of (Some SymbolicLink) = Some SymbolicLink"
  "leaf_of (Some Irregular) = Some Irregular"
  by (simp_all add: leaf_of_def is_directory_def)

lemma leaf_of_None: "leaf_of nd = None \<longleftrightarrow> nd = None \<or> (\<exists>x. nd = Some (Dir x))"
  by (cases nd) (auto simp: leaf_of_def is_directory_def split: node.splits)

lemma dir_at_Cons:
  "dir_at (c # cs) es = Some d \<longleftrightarrow> (\<exists>d0. map_of es c = Some (Dir d0) \<and> dir_at cs d0 = Some d)"
  by (auto split: option.splits node.splits)

lemma leaf_at_Nil: "leaf_at [] m es = leaf_of (map_of es m)"
  by (simp add: leaf_at_def node_at_def)

lemma leaf_at_Cons:
  "leaf_at (c # q) m es = (case map_of es c of Some (Dir d) \<Rightarrow> leaf_at q m d | _ \<Rightarrow> None)"
  by (auto simp: leaf_at_def node_at_def split: option.splits node.splits)

lemma leaf_at_dir: "dir_at p es = Some d \<Longrightarrow> leaf_at p m es = leaf_of (map_of d m)"
  by (simp add: leaf_at_def node_at_def)

lemma keeps_dirs_leaf: "keeps_dirs d d' \<Longrightarrow> q \<noteq> [] \<Longrightarrow> leaf_at q m d' = leaf_at q m d"
proof (cases q)
  case (Cons c q')
  assume k: "keeps_dirs d d'"
  show ?thesis
  proof (cases "\<exists>x. map_of d c = Some (Dir x)")
    case True
    then obtain x where "map_of d c = Some (Dir x)" by blast
    moreover from this k have "map_of d' c = Some (Dir x)" by (simp add: keeps_dirs_def)
    ultimately show ?thesis by (simp add: Cons leaf_at_Cons)
  next
    case False
    with k have "\<not> (\<exists>x. map_of d' c = Some (Dir x))" by (auto simp: keeps_dirs_def)
    with False show ?thesis by (auto simp: Cons leaf_at_Cons split: option.splits node.splits)
  qed
qed simp

lemma keeps_dirs_dir_at: "keeps_dirs d d' \<Longrightarrow> dir_at q d' = None \<longleftrightarrow> dir_at q d = None"
proof (cases q)
  case (Cons c q')
  assume k: "keeps_dirs d d'"
  have "(\<exists>e. dir_at q d' = Some e) \<longleftrightarrow> (\<exists>e. dir_at q d = Some e)"
    unfolding Cons dir_at_Cons using k by (auto simp: keeps_dirs_def)
  then show ?thesis by (cases "dir_at q d'"; cases "dir_at q d") auto
qed simp

lemma in_dir_self: "dir_at p es = Some d \<Longrightarrow> dir_at p (in_dir p g es) = Some (g d)"
  by (induction p arbitrary: es) (auto simp: dir_at_Cons update_conv' split: option.splits node.splits)

lemma in_dir_None: "dir_at p es = None \<Longrightarrow> in_dir p g es = es"
proof (induction p arbitrary: es)
  case (Cons c cs)
  have "AList.update c v es = es" if "map_of es c = Some v" for v
    using that by (induction es) auto
  with Cons show ?case by (auto split: option.splits node.splits)
qed simp

lemma in_dir_leaf:
  assumes "dir_at p es = Some d" "keeps_dirs d (g d)"
  shows "leaf_at q m (in_dir p g es) = (if q = p then leaf_of (map_of (g d) m) else leaf_at q m es)"
  using assms
proof (induction p arbitrary: es q)
  case Nil
  then show ?case using keeps_dirs_leaf [of d "g d" q m] by (auto simp: leaf_at_Nil)
next
  case (Cons c cs)
  then obtain d0 where d0: "map_of es c = Some (Dir d0)" "dir_at cs d0 = Some d" by (metis dir_at_Cons)
  show ?case
    using d0 Cons.IH [OF d0(2) Cons.prems(2)] by (cases q) (auto simp: leaf_at_Nil leaf_at_Cons update_conv')
qed

lemma in_dir_dirs:
  assumes "dir_at p es = Some d" "keeps_dirs d (g d)"
  shows "dir_at q (in_dir p g es) = None \<longleftrightarrow> dir_at q es = None"
  using assms
proof (induction p arbitrary: es q)
  case Nil
  then show ?case using keeps_dirs_dir_at by simp
next
  case (Cons c cs)
  then obtain d0 where d0: "map_of es c = Some (Dir d0)" "dir_at cs d0 = Some d" by (metis dir_at_Cons)
  show ?case
    using d0 Cons.IH [OF d0(2) Cons.prems(2)] by (cases q) (auto simp: update_conv')
qed

lemma keeps_dirs_add:
  "map_of d name = None \<Longrightarrow> \<not> is_directory n \<Longrightarrow> keeps_dirs d (d @ [(name, n)])"
  by (auto simp: keeps_dirs_def map_of_append map_add_def is_directory_def split: option.splits)

lemma keeps_dirs_update:
  "\<not> is_directory n \<Longrightarrow> map_of d name = Some n' \<Longrightarrow> \<not> is_directory n' \<Longrightarrow> keeps_dirs d (AList.update name n d)"
  by (auto simp: keeps_dirs_def update_conv' is_directory_def)

lemma keeps_dirs_delete:
  "map_of d name = Some n' \<Longrightarrow> \<not> is_directory n' \<Longrightarrow> keeps_dirs d (AList.delete name d)"
  by (auto simp: keeps_dirs_def delete_conv' is_directory_def)

lemma leaf_at_empty [simp]: "leaf_at q m [] = None"
  by (cases q) (simp_all add: leaf_at_Nil leaf_at_Cons)

text \<open>Walking changes no file and removes no directory.\<close>

lemma walk_leaf: "leaf_at q m (snd (walk refused create p es)) = leaf_at q m es"
proof (induction p arbitrary: es q)
  case (Cons c cs)
  show ?case
  proof (cases "map_of es c")
    case None
    have new: "leaf_at q m (es @ [(c, Dir d')]) = leaf_at q m es" if "\<And>q. leaf_at q m d' = leaf_at q m []" for d'
      using None that by (cases q) (auto simp: leaf_at_Nil leaf_at_Cons map_of_append map_add_def split: option.splits)
    show ?thesis using None Cons.IH [of _ "[]"] by (cases create) (simp_all add: new Let_def case_prod_unfold)
  next
    case (Some n)
    then show ?thesis
      using Cons.IH by (cases n; cases q) (simp_all add: leaf_at_Nil leaf_at_Cons update_conv' Let_def case_prod_unfold)
  qed
qed simp

lemma walk_lookup: "snd (walk refused False p es) = es"
proof (induction p arbitrary: es)
  case (Cons c cs)
  have "AList.update c v es = es" if "map_of es c = Some v" for v
    using that by (induction es) auto
  then show ?case
    using Cons.IH by (simp add: Let_def case_prod_unfold split: option.split node.split)
qed simp

lemma walk_ok: "fst (walk refused create p es) = Inr u \<Longrightarrow> \<exists>d. dir_at p (snd (walk refused create p es)) = Some d"
proof (induction p arbitrary: es)
  case (Cons c cs)
  show ?case
  proof (cases "map_of es c")
    case None
    then show ?thesis
      using Cons.prems Cons.IH [of "[]"] unfolding dir_at_Cons
      by (simp add: map_add_def Let_def case_prod_unfold split: if_splits)
  next
    case (Some n)
    then show ?thesis
      using Cons.prems Cons.IH unfolding dir_at_Cons
      by (cases n) (simp_all add: update_conv' Let_def case_prod_unfold split: if_splits)
  qed
qed simp

text \<open>One operation changes at most the file it names.\<close>

definition touches :: "string list \<Rightarrow> string \<Rightarrow> 'd entries \<Rightarrow> 'd entries \<Rightarrow> bool" where
  "touches p name es es' \<longleftrightarrow>
     (\<forall>q m. q \<noteq> p \<or> m \<noteq> name \<longrightarrow> leaf_at q m es' = leaf_at q m es)
     \<and> (\<forall>q. dir_at q es' = None \<longleftrightarrow> dir_at q es = None)"

lemma touches_refl [simp]: "touches p name es es"
  by (simp add: touches_def)

lemma touches_dir: "touches p name es es' \<Longrightarrow> dir_at q es = Some d \<Longrightarrow> \<exists>d'. dir_at q es' = Some d'"
  by (simp add: touches_def) (metis not_Some_eq)

lemma touches_other: "touches p name es es' \<Longrightarrow> q \<noteq> p \<or> m \<noteq> name \<Longrightarrow> leaf_at q m es' = leaf_at q m es"
  by (simp add: touches_def)

lemma in_dir_touches:
  assumes "dir_at p es = Some d" "keeps_dirs d (g d)" "\<And>m. m \<noteq> name \<Longrightarrow> map_of (g d) m = map_of d m"
  shows "touches p name es (in_dir p g es)" "leaf_at p name (in_dir p g es) = leaf_of (map_of (g d) name)"
  using in_dir_leaf [of p es d g] in_dir_dirs [of p es d g] leaf_at_dir [OF assms(1)] assms
  by (auto simp: touches_def)

lemma add_leaf:
  assumes "dir_at p es = Some d" "node_at p name es = None" "\<not> is_directory n"
  shows "touches p name es (in_dir p (\<lambda>d. d @ [(name, n)]) es)"
    "leaf_at p name (in_dir p (\<lambda>d. d @ [(name, n)]) es) = Some n"
proof -
  have m: "map_of d name = None" using assms by (simp add: node_at_def)
  note t = in_dir_touches [OF assms(1), of "\<lambda>d. d @ [(name, n)]" name]
  show "touches p name es (in_dir p (\<lambda>d. d @ [(name, n)]) es)"
    "leaf_at p name (in_dir p (\<lambda>d. d @ [(name, n)]) es) = Some n"
    using t keeps_dirs_add [OF m assms(3)] m assms(3)
    by (simp_all add: map_add_def leaf_of_def split: option.split)
qed

lemma update_leaf:
  assumes "dir_at p es = Some d" "leaf_at p name es = Some n'" "\<not> is_directory n"
  shows "touches p name es (in_dir p (AList.update name n) es)"
    "leaf_at p name (in_dir p (AList.update name n) es) = Some n"
proof -
  have m: "map_of d name = Some n'" "\<not> is_directory n'"
    using assms(1,2) by (auto simp: leaf_at_dir leaf_of_def split: option.splits if_splits)
  note t = in_dir_touches [OF assms(1), of "AList.update name n" name]
  show "touches p name es (in_dir p (AList.update name n) es)"
    "leaf_at p name (in_dir p (AList.update name n) es) = Some n"
    using t keeps_dirs_update [OF assms(3) m] assms(3)
    by (simp_all add: update_conv' leaf_of_def)
qed

lemma delete_leaf:
  assumes "dir_at p es = Some d" "leaf_at p name es = Some n"
  shows "touches p name es (in_dir p (AList.delete name) es)"
    "leaf_at p name (in_dir p (AList.delete name) es) = None"
proof -
  have m: "map_of d name = Some n" "\<not> is_directory n"
    using assms(1,2) by (auto simp: leaf_at_dir leaf_of_def split: option.splits if_splits)
  note t = in_dir_touches [OF assms(1), of "AList.delete name" name]
  show "touches p name es (in_dir p (AList.delete name) es)"
    "leaf_at p name (in_dir p (AList.delete name) es) = None"
    using t keeps_dirs_delete [OF m] by (simp_all add: delete_conv')
qed

lemma open_regular_ok:
  "open_regular refused name nd = Inr u \<Longrightarrow> \<exists>n. leaf_of nd = Some n \<and> nd = Some n \<and> (n = TornFile \<or> (\<exists>d s. n = File d s))"
  by (auto simp: open_regular_def split: option.splits if_splits node.splits)

lemma open_regular_missing: "open_regular refused name nd = Inl ErrNotExist \<Longrightarrow> nd = None"
  by (auto simp: open_regular_def os_error_def split: option.splits if_splits node.splits)

lemma dir_readFile_doc:
  "dir_readFile refused p name es = Inr (Some d) \<Longrightarrow> \<exists>n. leaf_at p name es = Some (File d n) \<and> n < maximum_file"
  unfolding dir_readFile_def
  by (auto simp: bind_r_Inr leaf_at_def dest!: open_regular_ok split: if_splits option.splits node.splits)

lemma dir_readFile_torn: "dir_readFile refused p name es = Inr None \<Longrightarrow> leaf_at p name es = Some TornFile"
  unfolding dir_readFile_def
  by (auto simp: bind_r_Inr leaf_at_def dest!: open_regular_ok split: if_splits option.splits node.splits)

lemma dir_readFile_missing: "dir_readFile refused p name es = Inl ErrNotExist \<Longrightarrow> leaf_at p name es = None"
  unfolding dir_readFile_def
  by (auto simp: bind_r_Inl validateSecureLeaf_def os_error_def leaf_at_def dest!: open_regular_missing
      split: if_splits option.splits node.splits)

lemma dir_writeNewFile_effect:
  assumes "dir_at p es = Some d" "dir_writeNewFile refused p name x n es = (r, es')"
  shows "touches p name es es'"
    "r = Inr u \<Longrightarrow> leaf_at p name es = None \<and> leaf_at p name es' = Some (File x n)"
    "r = Inl e \<Longrightarrow> leaf_at p name es' = leaf_at p name es
       \<or> leaf_at p name es = None \<and> leaf_at p name es' = Some TornFile"
  using assms add_leaf [OF assms(1), of name]
  by (auto simp: dir_writeNewFile_def leaf_at_def is_directory_def split: sum.splits if_splits)

lemma dir_writeFile_effect:
  assumes "dir_at p es = Some d" "dir_writeFile refused p name x n es = (r, es')"
  shows "touches p name es es'"
    "r = Inr u \<Longrightarrow> leaf_at p name es' = Some (File x n)"
    "leaf_at p name es' \<in> {leaf_at p name es, Some TornFile, Some (File x n)}"
proof -
  consider (bad) e where "validateSecureLeaf name = Inl e"
    | (no) e where "validateSecureLeaf name = Inr ()" "open_regular refused name (node_at p name es) = Inl e" "e \<noteq> ErrNotExist"
    | (new) "validateSecureLeaf name = Inr ()" "open_regular refused name (node_at p name es) = Inl ErrNotExist"
    | (old) "validateSecureLeaf name = Inr ()" "open_regular refused name (node_at p name es) = Inr ()"
    by (cases "validateSecureLeaf name"; cases "open_regular refused name (node_at p name es)") auto
  then have "touches p name es es' \<and> (r = Inr u \<longrightarrow> leaf_at p name es' = Some (File x n))
      \<and> leaf_at p name es' \<in> {leaf_at p name es, Some TornFile, Some (File x n)}"
  proof cases
    case new
    then have "node_at p name es = None" using open_regular_missing by blast
    note a = add_leaf [OF assms(1) this]
    show ?thesis using new assms(2) a [of TornFile] a [of "File x n"]
      by (auto simp: dir_writeFile_def Let_def is_directory_def split: if_splits)
  next
    case old
    then obtain n' where "leaf_at p name es = Some n'" using open_regular_ok [OF old(2)] by (auto simp: leaf_at_def)
    note a = update_leaf [OF assms(1) this]
    show ?thesis using old assms(2) a [of TornFile] a [of "File x n"]
      by (auto simp: dir_writeFile_def Let_def is_directory_def split: if_splits)
  qed (use assms(2) in \<open>auto simp: dir_writeFile_def Let_def split: if_splits\<close>)
  then show "touches p name es es'" "r = Inr u \<Longrightarrow> leaf_at p name es' = Some (File x n)"
    "leaf_at p name es' \<in> {leaf_at p name es, Some TornFile, Some (File x n)}" by auto
qed

lemma dir_removeFile_effect:
  assumes "dir_at p es = Some d" "dir_removeFile refused p name es = (r, es')"
  shows "touches p name es es'"
    "r = Inr u \<Longrightarrow> leaf_at p name es' = None"
    "r = Inl e \<Longrightarrow> es' = es"
  using assms delete_leaf [OF assms(1), of name]
  by (auto simp: dir_removeFile_def leaf_at_def leaf_of_def split: sum.splits if_splits option.splits)

end
