(* ===== verification/SchedStore.thy ===== *)
theory SchedStore
  imports SchedFiles SchedPlan
begin

text \<open>
  The store of \<open>internal/scheduler/scheduler.go\<close>: enrollments and receipts of attempts as
  strict JSON documents in the private directories of a workspace. A file holds a decoded
  document with the length of its encoding; writing a text that is not valid UTF-8 stores its
  replacement, as \<open>json.Marshal\<close> does. Instants are written with their own offset, the
  lengths are those of UTC.
\<close>

section \<open>Documents\<close>

record Enrollment =
  en_SchemaVersion :: int
  en_WorkspaceID :: string
  en_EnrolledAt :: time

record Lease =
  ls_SchemaVersion :: int
  ls_WorkspaceID :: string
  ls_JobID :: string
  ls_OccurrenceKey :: string
  ls_OwnerID :: string
  ls_FenceToken :: string
  ls_AcquiredAt :: time
  ls_ExpiresAt :: time

text \<open>
  What the bytes of a file decode to. A marker has a fence token and a state. No document
  decodes strictly as one of another kind: each has a field the others do not know.
\<close>

datatype document =
    EnrollmentDoc Enrollment
  | ReceiptDoc Receipt
  | LeaseDoc Lease
  | MarkerDoc string string
  | EmptyDoc
  | OtherDoc

fun receipt_state_text :: "ReceiptState \<Rightarrow> string" where
  "receipt_state_text Succeeded = ''succeeded''"
| "receipt_state_text Failed = ''failed''"
| "receipt_state_text Unavailable = ''unavailable''"
| "receipt_state_text Suppressed = ''suppressed''"
| "receipt_state_text (OtherState s) = s"

definition enrollment_json :: "Enrollment \<Rightarrow> json" where
  "enrollment_json e = JObj [(''schema_version'', JNum (en_SchemaVersion e)),
     (''workspace_id'', JStr (en_WorkspaceID e)), (''enrolled_at'', JTime (en_EnrolledAt e))]"

definition receipt_json :: "Receipt \<Rightarrow> json" where
  "receipt_json r = JObj (opt_int ''schema_version'' (rc_SchemaVersion r)
     @ opt_str ''workspace_id'' (rc_WorkspaceID r)
     @ [(''job_id'', JStr (rc_JobID r)), (''scheduled_for'', JTime (rc_ScheduledFor r)),
        (''attempted_at'', JTime (rc_AttemptedAt r)), (''state'', JStr (receipt_state_text (rc_State r)))]
     @ opt_str ''error'' (rc_Error r))"

definition lease_json :: "Lease \<Rightarrow> json" where
  "lease_json l = JObj [(''schema_version'', JNum (ls_SchemaVersion l)), (''workspace_id'', JStr (ls_WorkspaceID l)),
     (''job_id'', JStr (ls_JobID l)), (''occurrence_key'', JStr (ls_OccurrenceKey l)),
     (''owner_id'', JStr (ls_OwnerID l)), (''fence_token'', JStr (ls_FenceToken l)),
     (''acquired_at'', JTime (ls_AcquiredAt l)), (''expires_at'', JTime (ls_ExpiresAt l))]"

definition marker_json :: "string \<Rightarrow> string \<Rightarrow> json" where
  "marker_json token state = JObj [(''fence_token'', JStr token), (''state'', JStr state)]"

definition decode_receipt :: "Receipt \<Rightarrow> Receipt" where
  "decode_receipt r = r\<lparr>rc_Error := to_valid_utf8 (rc_Error r)\<rparr>"

definition decode_lease :: "Lease \<Rightarrow> Lease" where
  "decode_lease l = l\<lparr>ls_OccurrenceKey := to_valid_utf8 (ls_OccurrenceKey l), ls_OwnerID := to_valid_utf8 (ls_OwnerID l)\<rparr>"

text \<open>\<open>json.Marshal\<close> of a value and the newline after it.\<close>

definition file_size :: "json \<Rightarrow> int" where
  "file_size j = len (marshal j) + 1"

definition marshal_error :: sched_error where
  "marshal_error = sched_New ''Time.MarshalJSON: year outside of range [0,9999]''"

definition strict_error :: sched_error where
  "strict_error = sched_New ''json: the file is no document of this kind''"

section \<open>Environment and files\<close>

record sched_env =
  se_Canonical :: "string \<Rightarrow> sched_error + string"
  se_Refused :: refusals
  se_Clock :: time
  se_Token :: "string option"
  se_SHA256 :: "string \<Rightarrow> string"

record sched_fs =
  fs_entries :: "document entries"
  fs_locked :: "(string list \<times> string) list"

definition ensurePrivateTree ::
  "sched_env \<Rightarrow> string \<Rightarrow> string list \<Rightarrow> sched_fs \<Rightarrow> (sched_error + string list) \<times> sched_fs" where
  "ensurePrivateTree env root relative s =
     (case private_path (se_Canonical env) root relative of
        Inl e \<Rightarrow> (Inl e, s)
      | Inr p \<Rightarrow>
          (case walk (se_Refused env) True p (fs_entries s) of
             (Inl e, es) \<Rightarrow> (Inl e, s\<lparr>fs_entries := es\<rparr>)
           | (Inr _, es) \<Rightarrow> (Inr p, s\<lparr>fs_entries := es\<rparr>)))"

definition lookupPrivateTree :: "sched_env \<Rightarrow> string \<Rightarrow> string list \<Rightarrow> sched_fs \<Rightarrow> sched_error + string list" where
  "lookupPrivateTree env root relative s =
     bind_r (private_path (se_Canonical env) root relative) (\<lambda>p.
     bind_r (fst (walk (se_Refused env) False p (fs_entries s))) (\<lambda>_. Inr p))"

definition validateStoreInput :: "string \<Rightarrow> string \<Rightarrow> sched_error + unit" where
  "validateStoreInput root workspaceID = checks [
     fail_if (TrimSpace root = []) (sched_New ''scheduler root is required''),
     fail_if (\<not> workspaceIDPattern workspaceID) (OtherErr (Errorf ''invalid workspace ID %q'' [workspaceID]))]"

definition validateReceipt :: "Receipt \<Rightarrow> sched_error + unit" where
  "validateReceipt r = checks [
     fail_if (\<not> jobIDPattern (rc_JobID r) \<or> is_zero (rc_ScheduledFor r) \<or> is_zero (rc_AttemptedAt r))
       (sched_New ''invalid scheduler receipt''),
     fail_if (rc_State r \<notin> {Succeeded, Failed, Unavailable, Suppressed}) (sched_New ''invalid scheduler receipt state''),
     fail_if (rc_State r = Succeeded \<and> rc_Error r \<noteq> []) (sched_New ''successful scheduler receipt cannot contain an error''),
     fail_if (rc_State r \<noteq> Succeeded \<and> TrimSpace (rc_Error r) = []) (sched_New ''unsuccessful scheduler receipt requires an error'')]"

lemma validateReceipt_ok:
  "validateReceipt r = Inr () \<longleftrightarrow>
     jobIDPattern (rc_JobID r) \<and> rc_ScheduledFor r \<noteq> 0 \<and> rc_AttemptedAt r \<noteq> 0
     \<and> rc_State r \<in> {Succeeded, Failed, Unavailable, Suppressed}
     \<and> (rc_State r = Succeeded \<longrightarrow> rc_Error r = []) \<and> (rc_State r \<noteq> Succeeded \<longrightarrow> TrimSpace (rc_Error r) \<noteq> [])"
  unfolding validateReceipt_def is_zero_def by auto

section \<open>Enrollment\<close>

definition decode_as :: "(document \<Rightarrow> 'a option) \<Rightarrow> document option \<Rightarrow> sched_error + 'a" where
  "decode_as f d = (case Option.bind d f of None \<Rightarrow> Inl strict_error | Some x \<Rightarrow> Inr x)"

fun as_enrollment :: "document \<Rightarrow> Enrollment option" where
  "as_enrollment (EnrollmentDoc e) = Some e" | "as_enrollment _ = None"

fun as_receipt :: "document \<Rightarrow> Receipt option" where
  "as_receipt (ReceiptDoc r) = Some r" | "as_receipt _ = None"

fun as_lease :: "document \<Rightarrow> Lease option" where
  "as_lease (LeaseDoc l) = Some l" | "as_lease _ = None"

definition readEnrollment :: "sched_env \<Rightarrow> string list \<Rightarrow> sched_fs \<Rightarrow> sched_error + Enrollment" where
  "readEnrollment env p s =
     bind_r (secureReadFile (se_Refused env) p ''enrollment.json'' (fs_entries s)) (\<lambda>d.
     bind_r (decode_as as_enrollment d) (\<lambda>e.
       if en_SchemaVersion e \<noteq> 1 \<or> \<not> workspaceIDPattern (en_WorkspaceID e) \<or> is_zero (en_EnrolledAt e)
       then Inl (sched_New ''invalid scheduler enrollment'') else Inr e))"

definition writeNewJSON ::
  "sched_env \<Rightarrow> string list \<Rightarrow> string \<Rightarrow> document \<Rightarrow> json \<Rightarrow> sched_fs \<Rightarrow> (sched_error + unit) \<times> sched_fs" where
  "writeNewJSON env p name d j s =
     (if \<not> encodable j then (Inl marshal_error, s)
      else let (r, es) = secureWriteNewFile (se_Refused env) p name d (file_size j) (fs_entries s)
           in (r, s\<lparr>fs_entries := es\<rparr>))"

definition EnsureEnrollment ::
  "sched_env \<Rightarrow> string \<Rightarrow> string \<Rightarrow> time \<Rightarrow> sched_fs \<Rightarrow> (sched_error + Enrollment) \<times> sched_fs" where
  "EnsureEnrollment env root workspaceID enrolledAt s =
     (case validateStoreInput root workspaceID of
        Inl e \<Rightarrow> (Inl e, s)
      | Inr _ \<Rightarrow>
     case ensurePrivateTree env root [''workspaces'', workspaceID] s of
        (Inl e, s1) \<Rightarrow> (Inl e, s1)
      | (Inr p, s1) \<Rightarrow>
     case readEnrollment env p s1 of
        Inr e \<Rightarrow> (Inr e, s1)
      | Inl err \<Rightarrow>
          if err \<noteq> ErrNotExist then (Inl err, s1)
          else if is_zero enrolledAt then (Inl (sched_New ''enrollment time is required''), s1)
          else let e = \<lparr>en_SchemaVersion = 1, en_WorkspaceID = workspaceID, en_EnrolledAt = enrolledAt\<rparr>
               in case writeNewJSON env p ''enrollment.json'' (EnrollmentDoc e) (enrollment_json e) s1 of
                    (Inl err, s2) \<Rightarrow> if err = ErrExist then (readEnrollment env p s2, s2) else (Inl err, s2)
                  | (Inr _, s2) \<Rightarrow> (Inr e, s2))"

definition LoadEnrollment :: "sched_env \<Rightarrow> string \<Rightarrow> string \<Rightarrow> sched_fs \<Rightarrow> sched_error + Enrollment" where
  "LoadEnrollment env root workspaceID s =
     (if root = [] \<or> \<not> workspaceIDPattern workspaceID then Inl (sched_New ''invalid scheduler enrollment lookup'')
      else bind_r (lookupPrivateTree env root [''workspaces'', workspaceID] s) (\<lambda>p. readEnrollment env p s))"

section \<open>Receipts\<close>

text \<open>\<open>Format("20060102T150405.000000000Z")\<close> of an instant in UTC.\<close>

definition stamp :: "time \<Rightarrow> string" where
  "stamp t =
     (let c = civil_of_days (time_days t); k = time_of_day t div second
      in pad_nat 4 (nat (cv_year c)) @ pad_nat 2 (nat (cv_month c)) @ pad_nat 2 (nat (cv_day c)) @ ''T''
         @ pad_nat 2 (nat (k div 3600)) @ pad_nat 2 (nat (k div 60 mod 60)) @ pad_nat 2 (nat (k mod 60))
         @ ''.'' @ pad_nat 9 (nat (t mod second)) @ ''Z'')"

definition receipt_name :: "Receipt \<Rightarrow> string" where
  "receipt_name r = stamp (rc_AttemptedAt r) @ ''-'' @ stamp (rc_ScheduledFor r) @ ''.json''"

definition AppendReceipt ::
  "sched_env \<Rightarrow> string \<Rightarrow> string \<Rightarrow> Receipt \<Rightarrow> sched_fs \<Rightarrow> (sched_error + unit) \<times> sched_fs" where
  "AppendReceipt env root workspaceID receipt s =
     (case validateStoreInput root workspaceID of
        Inl e \<Rightarrow> (Inl e, s)
      | Inr _ \<Rightarrow>
     case validateReceipt receipt of
        Inl e \<Rightarrow> (Inl e, s)
      | Inr _ \<Rightarrow>
          let r = receipt\<lparr>rc_SchemaVersion := 1, rc_WorkspaceID := workspaceID\<rparr>
          in case ensurePrivateTree env root [''workspaces'', workspaceID, ''receipts'', rc_JobID r] s of
               (Inl e, s1) \<Rightarrow> (Inl e, s1)
             | (Inr p, s1) \<Rightarrow> writeNewJSON env p (receipt_name r) (ReceiptDoc (decode_receipt r)) (receipt_json r) s1)"

definition read_receipt ::
  "sched_env \<Rightarrow> string \<Rightarrow> string \<Rightarrow> string list \<Rightarrow> string \<Rightarrow> sched_fs \<Rightarrow> sched_error + Receipt" where
  "read_receipt env workspaceID job p name s =
     bind_r (secureReadFile (se_Refused env) p name (fs_entries s)) (\<lambda>d.
     bind_r (decode_as as_receipt d) (\<lambda>r.
       if rc_SchemaVersion r \<noteq> 1 \<or> rc_WorkspaceID r \<noteq> workspaceID \<or> rc_JobID r \<noteq> job
       then Inl (OtherErr (Errorf ''invalid scheduler receipt %s'' [name]))
       else bind_r (validateReceipt r) (\<lambda>_. Inr (r\<lparr>rc_SchemaVersion := 0, rc_WorkspaceID := []\<rparr>))))"

fun read_job_receipts ::
  "sched_env \<Rightarrow> string \<Rightarrow> string \<Rightarrow> string list \<Rightarrow> sched_fs \<Rightarrow> document entries \<Rightarrow> sched_error + Receipt list" where
  "read_job_receipts env workspaceID job p s [] = Inr []"
| "read_job_receipts env workspaceID job p s ((name, nd) # es) =
     (if nd = SymbolicLink then Inl (OtherErr (Errorf ''scheduler receipt path must not be a symlink: %s'' [name]))
      else if is_directory nd \<or> \<not> has_suffix name ''.json'' then read_job_receipts env workspaceID job p s es
      else bind_r (read_receipt env workspaceID job p name s) (\<lambda>r.
           bind_r (read_job_receipts env workspaceID job p s es) (\<lambda>rs. Inr (r # rs))))"

fun read_receipts ::
  "sched_env \<Rightarrow> string \<Rightarrow> string list \<Rightarrow> sched_fs \<Rightarrow> document entries \<Rightarrow> sched_error + Receipt list" where
  "read_receipts env workspaceID p s [] = Inr []"
| "read_receipts env workspaceID p s ((job, nd) # es) =
     (if nd = SymbolicLink then Inl (OtherErr (Errorf ''scheduler receipt path must not be a symlink: %s'' [job]))
      else if \<not> is_directory nd then read_receipts env workspaceID p s es
      else bind_r (secureReadDir (se_Refused env) (p @ [job]) (fs_entries s)) (\<lambda>files.
           bind_r (read_job_receipts env workspaceID job (p @ [job]) s files) (\<lambda>rs.
           bind_r (read_receipts env workspaceID p s es) (\<lambda>rest. Inr (rs @ rest)))))"

text \<open>The order of receipts of the same instant is not determined by the code.\<close>

definition Receipts :: "sched_env \<Rightarrow> string \<Rightarrow> string \<Rightarrow> sched_fs \<Rightarrow> (sched_error + Receipt list) \<times> sched_fs" where
  "Receipts env root workspaceID s =
     (case validateStoreInput root workspaceID of
        Inl e \<Rightarrow> (Inl e, s)
      | Inr _ \<Rightarrow>
     case ensurePrivateTree env root [''workspaces'', workspaceID, ''receipts''] s of
        (Inl e, s1) \<Rightarrow> (Inl e, s1)
      | (Inr p, s1) \<Rightarrow>
          (case secureReadDir (se_Refused env) p (fs_entries s1) of
             Inl e \<Rightarrow> (if e = ErrNotExist then Inr [] else Inl e, s1)
           | Inr es \<Rightarrow> (bind_r (read_receipts env workspaceID p s1 es) (\<lambda>rs. Inr (sort_key rc_AttemptedAt rs)), s1)))"

end
