(* ===== verification/SchedLease.thy ===== *)
theory SchedLease
  imports SchedStore
begin

text \<open>
  Leases and fences: \<open>internal/scheduler/lease.go\<close>. The lease of an occurrence, its fence
  marker and its guard are three files of the directory of the job, named after the digest of
  the occurrence. The guard is an exclusive file lock held during an operation; \<open>fs_locked\<close>
  holds the locks that are taken, those of other processes included, so that between taking
  and releasing the guard an operation runs alone on its occurrence.
\<close>

section \<open>Guards\<close>

definition acquireLeaseGuard ::
  "sched_env \<Rightarrow> string list \<Rightarrow> string \<Rightarrow> sched_fs \<Rightarrow> (sched_error + unit) \<times> sched_fs" where
  "acquireLeaseGuard env p name s =
     (case validateSecureLeaf name of
        Inl e \<Rightarrow> (Inl e, s)
      | Inr _ \<Rightarrow>
          let s1 = (if node_at p name (fs_entries s) = None \<and> \<not> se_Refused env ''openat'' name
                    then s\<lparr>fs_entries := in_dir p (\<lambda>es. es @ [(name, File EmptyDoc 0)]) (fs_entries s)\<rparr> else s)
          in case open_regular (se_Refused env) name (node_at p name (fs_entries s1)) of
               Inl e \<Rightarrow> (Inl e, s1)
             | Inr _ \<Rightarrow>
                 if (p, name) \<in> set (fs_locked s1) then (Inl ErrLeaseGuardBusy, s1)
                 else if se_Refused env ''flock'' name then (Inl (os_error ''flock'' name), s1)
                 else (Inr (), s1\<lparr>fs_locked := (p, name) # fs_locked s1\<rparr>))"

definition release_guard :: "string list \<Rightarrow> string \<Rightarrow> sched_fs \<Rightarrow> sched_fs" where
  "release_guard p name s = s\<lparr>fs_locked := remove1 (p, name) (fs_locked s)\<rparr>"

section \<open>Leases\<close>

definition attemptTokenPattern :: "string \<Rightarrow> bool" where
  "attemptTokenPattern s \<longleftrightarrow> length s = 32 \<and> list_all is_lower_hex s"

definition maximum_ttl :: duration where "maximum_ttl = 15 * minute"

definition safeLeaseName :: "sched_env \<Rightarrow> string \<Rightarrow> string" where
  "safeLeaseName env value = se_SHA256 env value"

definition lease_file :: "sched_env \<Rightarrow> string \<Rightarrow> string" where
  "lease_file env key = safeLeaseName env key @ ''.json''"

definition marker_file :: "sched_env \<Rightarrow> string \<Rightarrow> string" where
  "marker_file env key = lease_file env key @ ''.quarantine''"

definition guard_file :: "sched_env \<Rightarrow> string \<Rightarrow> string" where
  "guard_file env key = safeLeaseName env key @ ''.guard''"

definition ScheduledOccurrenceKey :: "string \<Rightarrow> time \<Rightarrow> string" where
  "ScheduledOccurrenceKey jobID scheduledFor =
     jobID @ CHR 0x00 # ''scheduled'' @ CHR 0x00 # rfc3339nano scheduledFor"

definition openLeaseDirectory ::
  "sched_env \<Rightarrow> string \<Rightarrow> string \<Rightarrow> string \<Rightarrow> sched_fs \<Rightarrow> (sched_error + string list) \<times> sched_fs" where
  "openLeaseDirectory env root workspaceID jobID s =
     (case validateStoreInput root workspaceID of
        Inl e \<Rightarrow> (Inl e, s)
      | Inr _ \<Rightarrow>
          if \<not> jobIDPattern jobID then (Inl (sched_New ''invalid scheduler lease identity''), s)
          else ensurePrivateTree env root [''workspaces'', workspaceID, ''leases'', jobID] s)"

definition validateLeaseIdentity :: "Lease \<Rightarrow> sched_error + unit" where
  "validateLeaseIdentity l =
     fail_if (ls_SchemaVersion l \<noteq> 1 \<or> \<not> workspaceIDPattern (ls_WorkspaceID l) \<or> \<not> jobIDPattern (ls_JobID l)
        \<or> TrimSpace (ls_OccurrenceKey l) = [] \<or> 256 < len (ls_OccurrenceKey l)
        \<or> TrimSpace (ls_OwnerID l) = [] \<or> 128 < len (ls_OwnerID l)
        \<or> \<not> attemptTokenPattern (ls_FenceToken l) \<or> is_zero (ls_AcquiredAt l) \<or> is_zero (ls_ExpiresAt l))
       (sched_New ''invalid scheduler lease identity'')"

definition sameLeaseIdentity :: "Lease \<Rightarrow> Lease \<Rightarrow> bool" where
  "sameLeaseIdentity l r \<longleftrightarrow>
     ls_WorkspaceID l = ls_WorkspaceID r \<and> ls_JobID l = ls_JobID r
     \<and> ls_OccurrenceKey l = ls_OccurrenceKey r \<and> ls_OwnerID l = ls_OwnerID r
     \<and> ls_FenceToken l = ls_FenceToken r"

definition newFenceToken :: "sched_env \<Rightarrow> sched_error + string" where
  "newFenceToken env = (case se_Token env of None \<Rightarrow> Inl (sched_New ''rand.Read'') | Some t \<Rightarrow> Inr t)"

text \<open>The checks after decoding that \<open>readLease\<close> and \<open>readLeaseInDirectory\<close> share.\<close>

definition check_lease :: "string \<Rightarrow> document option \<Rightarrow> sched_error + Lease" where
  "check_lease label d =
     bind_r (decode_as as_lease d) (\<lambda>l.
       if validateLeaseIdentity l \<noteq> Inr () \<or> \<not> ls_AcquiredAt l < ls_ExpiresAt l
          \<or> maximum_ttl < time_sub (ls_ExpiresAt l) (ls_AcquiredAt l)
       then Inl (OtherErr (Errorf ''invalid scheduler lease %s'' [label])) else Inr l)"

definition readLeaseInDirectory :: "sched_env \<Rightarrow> string list \<Rightarrow> string \<Rightarrow> sched_fs \<Rightarrow> sched_error + Lease" where
  "readLeaseInDirectory env p name s =
     bind_r (dir_readFile (se_Refused env) p name (fs_entries s)) (check_lease name)"

definition readLease :: "sched_env \<Rightarrow> string list \<Rightarrow> string \<Rightarrow> sched_fs \<Rightarrow> sched_error + Lease" where
  "readLease env p name s =
     bind_r (secureReadFile (se_Refused env) p name (fs_entries s)) (check_lease name)"

text \<open>
  Fence token and state that \<open>json.Unmarshal\<close> reads from a file; it ignores fields it does not
  know. The file of a guard is empty and no JSON.
\<close>

fun marker_fields :: "document \<Rightarrow> (string \<times> string) option" where
  "marker_fields (MarkerDoc token state) = Some (token, state)"
| "marker_fields (LeaseDoc l) = Some (ls_FenceToken l, [])"
| "marker_fields (ReceiptDoc r) = Some ([], receipt_state_text (rc_State r))"
| "marker_fields (EnrollmentDoc e) = Some ([], [])"
| "marker_fields EmptyDoc = None"
| "marker_fields OtherDoc = None"

section \<open>Operations under the guard\<close>

text \<open>
  What every operation does before its own steps: open the directory and take the guard of the
  occurrence; afterwards the guard is released.
\<close>

definition with_lease_guard ::
  "sched_env \<Rightarrow> string \<Rightarrow> string \<Rightarrow> string \<Rightarrow> string
    \<Rightarrow> (string list \<Rightarrow> sched_fs \<Rightarrow> (sched_error + 'a) \<times> sched_fs) \<Rightarrow> sched_fs \<Rightarrow> (sched_error + 'a) \<times> sched_fs" where
  "with_lease_guard env root workspaceID jobID key body s =
     (case openLeaseDirectory env root workspaceID jobID s of
        (Inl e, s1) \<Rightarrow> (Inl e, s1)
      | (Inr p, s1) \<Rightarrow>
          (case acquireLeaseGuard env p (guard_file env key) s1 of
             (Inl e, s2) \<Rightarrow> (Inl (if e = ErrLeaseGuardBusy then ErrLeaseBusy else e), s2)
           | (Inr _, s2) \<Rightarrow> (case body p s2 of (r, s3) \<Rightarrow> (r, release_guard p (guard_file env key) s3))))"

definition writeNewJSONInDirectory ::
  "sched_env \<Rightarrow> string list \<Rightarrow> string \<Rightarrow> document \<Rightarrow> json \<Rightarrow> sched_fs \<Rightarrow> (sched_error + unit) \<times> sched_fs" where
  "writeNewJSONInDirectory env p name d j s =
     (if \<not> encodable j then (Inl marshal_error, s)
      else let (r, es) = dir_writeNewFile (se_Refused env) p name d (file_size j) (fs_entries s)
           in (r, s\<lparr>fs_entries := es\<rparr>))"

definition removeInDirectory ::
  "sched_env \<Rightarrow> string list \<Rightarrow> string \<Rightarrow> sched_fs \<Rightarrow> (sched_error + unit) \<times> sched_fs" where
  "removeInDirectory env p name s =
     (let (r, es) = dir_removeFile (se_Refused env) p name (fs_entries s) in (r, s\<lparr>fs_entries := es\<rparr>))"

text \<open>\<open>err != nil && !errors.Is(err, os.ErrNotExist)\<close>\<close>

definition unless_missing :: "(sched_error + unit) \<times> sched_fs \<Rightarrow> (sched_error + unit) \<times> sched_fs" where
  "unless_missing x = (case x of (Inl ErrNotExist, s) \<Rightarrow> (Inr (), s) | y \<Rightarrow> y)"

subsection \<open>TryAcquireLease\<close>

definition new_lease :: "string \<Rightarrow> string \<Rightarrow> string \<Rightarrow> string \<Rightarrow> string \<Rightarrow> time \<Rightarrow> duration \<Rightarrow> Lease" where
  "new_lease workspaceID jobID key ownerID token now ttl =
     \<lparr>ls_SchemaVersion = 1, ls_WorkspaceID = workspaceID, ls_JobID = jobID, ls_OccurrenceKey = key,
      ls_OwnerID = ownerID, ls_FenceToken = token, ls_AcquiredAt = now, ls_ExpiresAt = now + ttl\<rparr>"

text \<open>A lease that is there must be of this occurrence and expired, and is removed.\<close>

definition clear_expired ::
  "sched_env \<Rightarrow> string \<Rightarrow> string \<Rightarrow> string \<Rightarrow> time \<Rightarrow> string list \<Rightarrow> sched_fs \<Rightarrow> (sched_error + unit) \<times> sched_fs" where
  "clear_expired env workspaceID jobID key now p s =
     (case readLeaseInDirectory env p (lease_file env key) s of
        Inr l \<Rightarrow>
          if ls_WorkspaceID l \<noteq> workspaceID \<or> ls_JobID l \<noteq> jobID \<or> ls_OccurrenceKey l \<noteq> key
          then (Inl (sched_New ''scheduler lease identity mismatch''), s)
          else if now < ls_ExpiresAt l then (Inl ErrLeaseBusy, s)
          else unless_missing (removeInDirectory env p (lease_file env key) s)
      | Inl e \<Rightarrow> (if e = ErrNotExist then Inr () else Inl e, s))"

definition acquire_body ::
  "sched_env \<Rightarrow> string \<Rightarrow> string \<Rightarrow> string \<Rightarrow> string \<Rightarrow> time \<Rightarrow> duration
    \<Rightarrow> string list \<Rightarrow> sched_fs \<Rightarrow> (sched_error + Lease) \<times> sched_fs" where
  "acquire_body env workspaceID jobID key ownerID now ttl p s =
     (case dir_readFile (se_Refused env) p (marker_file env key) (fs_entries s) of
        Inr _ \<Rightarrow> (Inl ErrLeaseBusy, s)
      | Inl e \<Rightarrow>
          if e \<noteq> ErrNotExist then (Inl e, s)
          else case clear_expired env workspaceID jobID key now p s of
                 (Inl e, s1) \<Rightarrow> (Inl e, s1)
               | (Inr _, s1) \<Rightarrow>
                   (case newFenceToken env of
                      Inl e \<Rightarrow> (Inl e, s1)
                    | Inr token \<Rightarrow>
                        let l = new_lease workspaceID jobID key ownerID token now ttl
                        in case writeNewJSONInDirectory env p (lease_file env key) (LeaseDoc (decode_lease l)) (lease_json l) s1 of
                             (Inl e, s2) \<Rightarrow> (Inl (if e = ErrExist then ErrLeaseBusy else e), s2)
                           | (Inr _, s2) \<Rightarrow> (Inr l, s2)))"

definition TryAcquireLease ::
  "sched_env \<Rightarrow> string \<Rightarrow> string \<Rightarrow> string \<Rightarrow> string \<Rightarrow> string \<Rightarrow> time \<Rightarrow> duration
    \<Rightarrow> sched_fs \<Rightarrow> (sched_error + Lease) \<times> sched_fs" where
  "TryAcquireLease env root workspaceID jobID key ownerID now ttl s =
     (case checks [validateStoreInput root workspaceID,
        fail_if (\<not> jobIDPattern jobID \<or> TrimSpace key = [] \<or> 256 < len key \<or> TrimSpace ownerID = [] \<or> 128 < len ownerID)
          (sched_New ''invalid scheduler lease identity''),
        fail_if (is_zero now \<or> ttl \<le> 0 \<or> maximum_ttl < ttl)
          (sched_New ''scheduler lease requires a bounded positive TTL'')] of
        Inl e \<Rightarrow> (Inl e, s)
      | Inr _ \<Rightarrow>
          with_lease_guard env root workspaceID jobID key
            (acquire_body env workspaceID jobID key ownerID now ttl) s)"

subsection \<open>Release, fence markers, recovery\<close>

definition guarded_by_identity ::
  "sched_env \<Rightarrow> string \<Rightarrow> Lease \<Rightarrow> (string list \<Rightarrow> sched_fs \<Rightarrow> (sched_error + 'a) \<times> sched_fs)
    \<Rightarrow> sched_fs \<Rightarrow> (sched_error + 'a) \<times> sched_fs" where
  "guarded_by_identity env root l body s =
     (case checks [validateStoreInput root (ls_WorkspaceID l), validateLeaseIdentity l] of
        Inl e \<Rightarrow> (Inl e, s)
      | Inr _ \<Rightarrow> with_lease_guard env root (ls_WorkspaceID l) (ls_JobID l) (ls_OccurrenceKey l) body s)"

definition removeQuarantineMarkerInDirectory ::
  "sched_env \<Rightarrow> string list \<Rightarrow> string \<Rightarrow> Lease \<Rightarrow> sched_fs \<Rightarrow> (sched_error + unit) \<times> sched_fs" where
  "removeQuarantineMarkerInDirectory env p name l s =
     (case dir_readFile (se_Refused env) p name (fs_entries s) of
        Inl e \<Rightarrow> (if e = ErrNotExist then Inr () else Inl e, s)
      | Inr d \<Rightarrow>
          (case Option.bind d marker_fields of
             None \<Rightarrow> (Inl ErrLeaseLost, s)
           | Some (token, _) \<Rightarrow>
               if token \<noteq> ls_FenceToken l then (Inl ErrLeaseLost, s) else removeInDirectory env p name s))"

text \<open>The marker goes first, then the lease.\<close>

definition drop_lease :: "sched_env \<Rightarrow> Lease \<Rightarrow> string list \<Rightarrow> sched_fs \<Rightarrow> (sched_error + unit) \<times> sched_fs" where
  "drop_lease env l p s =
     (case removeQuarantineMarkerInDirectory env p (marker_file env (ls_OccurrenceKey l)) l s of
        (Inl e, s1) \<Rightarrow> (Inl e, s1)
      | (Inr _, s1) \<Rightarrow> unless_missing (removeInDirectory env p (lease_file env (ls_OccurrenceKey l)) s1))"

definition release_body :: "sched_env \<Rightarrow> Lease \<Rightarrow> string list \<Rightarrow> sched_fs \<Rightarrow> (sched_error + unit) \<times> sched_fs" where
  "release_body env l p s =
     (case readLeaseInDirectory env p (lease_file env (ls_OccurrenceKey l)) s of
        Inl e \<Rightarrow>
          if e = ErrNotExist then removeQuarantineMarkerInDirectory env p (marker_file env (ls_OccurrenceKey l)) l s
          else (Inl e, s)
      | Inr current \<Rightarrow> if \<not> sameLeaseIdentity current l then (Inl ErrLeaseLost, s) else drop_lease env l p s)"

definition ReleaseLease :: "sched_env \<Rightarrow> string \<Rightarrow> Lease \<Rightarrow> sched_fs \<Rightarrow> (sched_error + unit) \<times> sched_fs" where
  "ReleaseLease env root l s = guarded_by_identity env root l (release_body env l) s"

definition rewrite_marker :: "sched_env \<Rightarrow> string list \<Rightarrow> string \<Rightarrow> string \<Rightarrow> string \<Rightarrow> sched_fs \<Rightarrow> (sched_error + unit) \<times> sched_fs" where
  "rewrite_marker env p name token state s =
     (let (r, es) = dir_writeFile (se_Refused env) p name (MarkerDoc token state) (file_size (marker_json token state)) (fs_entries s)
      in (r, s\<lparr>fs_entries := es\<rparr>))"

definition marker_body :: "sched_env \<Rightarrow> Lease \<Rightarrow> string \<Rightarrow> string list \<Rightarrow> sched_fs \<Rightarrow> (sched_error + unit) \<times> sched_fs" where
  "marker_body env l state p s =
     (case readLeaseInDirectory env p (lease_file env (ls_OccurrenceKey l)) s of
        Inl e \<Rightarrow> (Inl e, s)
      | Inr current \<Rightarrow>
          if \<not> sameLeaseIdentity current l then (Inl ErrLeaseLost, s)
          else let name = marker_file env (ls_OccurrenceKey l); token = ls_FenceToken l
               in case dir_readFile (se_Refused env) p name (fs_entries s) of
                    Inr d \<Rightarrow>
                      (case Option.bind d marker_fields of
                         None \<Rightarrow> (Inl ErrLeaseLost, s)
                       | Some (token', state') \<Rightarrow>
                           if token' \<noteq> token then (Inl ErrLeaseLost, s)
                           else if state' = state \<or> state' = ''quarantined'' \<and> state = ''active'' then (Inr (), s)
                           else rewrite_marker env p name token state s)
                  | Inl e \<Rightarrow>
                      if e \<noteq> ErrNotExist then (Inl e, s)
                      else writeNewJSONInDirectory env p name (MarkerDoc token state) (marker_json token state) s)"

definition writeFenceMarker :: "sched_env \<Rightarrow> string \<Rightarrow> Lease \<Rightarrow> string \<Rightarrow> sched_fs \<Rightarrow> (sched_error + unit) \<times> sched_fs" where
  "writeFenceMarker env root l state s = guarded_by_identity env root l (marker_body env l state) s"

definition ArmLease :: "sched_env \<Rightarrow> string \<Rightarrow> Lease \<Rightarrow> sched_fs \<Rightarrow> (sched_error + unit) \<times> sched_fs" where
  "ArmLease env root l s = writeFenceMarker env root l ''active'' s"

definition QuarantineLease :: "sched_env \<Rightarrow> string \<Rightarrow> Lease \<Rightarrow> sched_fs \<Rightarrow> (sched_error + unit) \<times> sched_fs" where
  "QuarantineLease env root l s = writeFenceMarker env root l ''quarantined'' s"

definition recover_body :: "sched_env \<Rightarrow> Lease \<Rightarrow> string list \<Rightarrow> sched_fs \<Rightarrow> (sched_error + unit) \<times> sched_fs" where
  "recover_body env l p s =
     (case dir_readFile (se_Refused env) p (marker_file env (ls_OccurrenceKey l)) (fs_entries s) of
        Inl e \<Rightarrow> (Inl e, s)
      | Inr _ \<Rightarrow>
          (case readLeaseInDirectory env p (lease_file env (ls_OccurrenceKey l)) s of
             Inl e \<Rightarrow> (Inl e, s)
           | Inr current \<Rightarrow> if \<not> sameLeaseIdentity current l then (Inl ErrLeaseLost, s) else drop_lease env l p s))"

definition RecoverQuarantinedLease :: "sched_env \<Rightarrow> string \<Rightarrow> Lease \<Rightarrow> time \<Rightarrow> sched_fs \<Rightarrow> (sched_error + unit) \<times> sched_fs" where
  "RecoverQuarantinedLease env root l now s =
     (if is_zero now \<or> \<not> ls_ExpiresAt l < now then (Inl ErrLeaseBusy, s)
      else guarded_by_identity env root l (recover_body env l) s)"

subsection \<open>The fence of a publication\<close>

definition current_body ::
  "sched_env \<Rightarrow> Lease \<Rightarrow> time \<Rightarrow> (sched_fs \<Rightarrow> (sched_error + unit) \<times> sched_fs)
    \<Rightarrow> string list \<Rightarrow> sched_fs \<Rightarrow> (sched_error + unit) \<times> sched_fs" where
  "current_body env l now publish p s =
     (case readLeaseInDirectory env p (lease_file env (ls_OccurrenceKey l)) s of
        Inl e \<Rightarrow> (Inl e, s)
      | Inr current \<Rightarrow>
          if \<not> sameLeaseIdentity current l \<or> \<not> now < ls_ExpiresAt current then (Inl ErrLeaseLost, s)
          else publish s)"

definition WithCurrentLease ::
  "sched_env \<Rightarrow> string \<Rightarrow> Lease \<Rightarrow> time \<Rightarrow> (sched_fs \<Rightarrow> (sched_error + unit) \<times> sched_fs) option
    \<Rightarrow> sched_fs \<Rightarrow> (sched_error + unit) \<times> sched_fs" where
  "WithCurrentLease env root l now publish s =
     (case checks [validateStoreInput root (ls_WorkspaceID l), validateLeaseIdentity l] of
        Inl e \<Rightarrow> (Inl e, s)
      | Inr _ \<Rightarrow>
          (case (if is_zero now then None else publish) of
             None \<Rightarrow> (Inl (sched_New ''scheduler lease validation time is required''), s)
           | Some f \<Rightarrow> with_lease_guard env root (ls_WorkspaceID l) (ls_JobID l) (ls_OccurrenceKey l) (current_body env l now f) s))"

definition LeaseCurrent :: "sched_env \<Rightarrow> string \<Rightarrow> Lease \<Rightarrow> time \<Rightarrow> sched_fs \<Rightarrow> (sched_error + unit) \<times> sched_fs" where
  "LeaseCurrent env root l now s = WithCurrentLease env root l now (Some (\<lambda>s. (Inr (), s))) s"

section \<open>Listing quarantined leases\<close>

definition quarantined_lease ::
  "sched_env \<Rightarrow> string \<Rightarrow> string list \<Rightarrow> string \<Rightarrow> sched_fs \<Rightarrow> sched_error + Lease list" where
  "quarantined_lease env workspaceID p name s =
     bind_r (readLease env p (trim_suffix name ''.quarantine'') s) (\<lambda>l.
       if ls_WorkspaceID l \<noteq> workspaceID then Inl (sched_New ''scheduler quarantine workspace mismatch'')
       else bind_r (secureReadFile (se_Refused env) p name (fs_entries s)) (\<lambda>d.
         case Option.bind d marker_fields of
           None \<Rightarrow> Inl strict_error
         | Some (_, state) \<Rightarrow>
             if state = ''active'' \<and> se_Clock env < ls_ExpiresAt l then Inr [] else Inr [l]))"

fun quarantined_job ::
  "sched_env \<Rightarrow> string \<Rightarrow> string list \<Rightarrow> sched_fs \<Rightarrow> document entries \<Rightarrow> sched_error + Lease list" where
  "quarantined_job env workspaceID p s [] = Inr []"
| "quarantined_job env workspaceID p s ((name, nd) # es) =
     (if nd = SymbolicLink then Inl (sched_New ''scheduler quarantine marker cannot be a symlink'')
      else if is_directory nd \<or> \<not> has_suffix name ''.json.quarantine'' then quarantined_job env workspaceID p s es
      else bind_r (quarantined_lease env workspaceID p name s) (\<lambda>ls.
           bind_r (quarantined_job env workspaceID p s es) (\<lambda>rest. Inr (ls @ rest))))"

fun quarantined_jobs ::
  "sched_env \<Rightarrow> string \<Rightarrow> string list \<Rightarrow> sched_fs \<Rightarrow> document entries \<Rightarrow> sched_error + Lease list" where
  "quarantined_jobs env workspaceID p s [] = Inr []"
| "quarantined_jobs env workspaceID p s ((job, nd) # es) =
     (if nd = SymbolicLink then Inl (sched_New ''scheduler quarantine job path cannot be a symlink'')
      else if \<not> is_directory nd then quarantined_jobs env workspaceID p s es
      else bind_r (secureReadDir (se_Refused env) (p @ [job]) (fs_entries s)) (\<lambda>markers.
           bind_r (quarantined_job env workspaceID (p @ [job]) s markers) (\<lambda>ls.
           bind_r (quarantined_jobs env workspaceID p s es) (\<lambda>rest. Inr (ls @ rest)))))"

definition QuarantinedLeases :: "sched_env \<Rightarrow> string \<Rightarrow> string \<Rightarrow> sched_fs \<Rightarrow> sched_error + Lease list" where
  "QuarantinedLeases env root workspaceID s =
     bind_r (validateStoreInput root workspaceID) (\<lambda>_.
       case lookupPrivateTree env root [''workspaces'', workspaceID, ''leases''] s of
         Inl e \<Rightarrow> if e = ErrNotExist then Inr [] else Inl e
       | Inr p \<Rightarrow>
           (case secureReadDir (se_Refused env) p (fs_entries s) of
              Inl e \<Rightarrow> if e = ErrNotExist then Inr [] else Inl e
            | Inr es \<Rightarrow> quarantined_jobs env workspaceID p s es))"

end
