(* ===== verification/SchedFence.thy ===== *)
theory SchedFence
  imports SchedLease
begin

text \<open>
  What the lease operations do to the two files of an occurrence, its lease and its fence
  marker. Every operation is reduced to its steps under the guard; \<open>slot_change\<close> says how
  the two files may change in one call.
\<close>

section \<open>File names\<close>

lemma file_name_ends:
  "last (guard_file env k) = CHR ''d''" "last (lease_file env k) = CHR ''n''" "last (marker_file env k) = CHR ''e''"
  by (simp_all add: guard_file_def lease_file_def marker_file_def)

lemma different_ends: "last x \<noteq> last y \<Longrightarrow> x \<noteq> y"
  by auto

lemma file_names [simp]:
  "guard_file env k \<noteq> lease_file env' k'" "lease_file env' k' \<noteq> guard_file env k"
  "guard_file env k \<noteq> marker_file env' k'" "marker_file env' k' \<noteq> guard_file env k"
  "lease_file env k \<noteq> marker_file env' k'" "marker_file env' k' \<noteq> lease_file env k"
  by (rule different_ends, simp add: file_name_ends)+

abbreviation leaf :: "string list \<Rightarrow> string \<Rightarrow> sched_fs \<Rightarrow> document node option" where
  "leaf p m s \<equiv> leaf_at p m (fs_entries s)"

section \<open>Under the guard\<close>

lemma ensurePrivateTree_effect:
  assumes "ensurePrivateTree env root rel s = (r, s')"
  shows "leaf q m s' = leaf q m s" "fs_locked s' = fs_locked s"
    "r = Inr p \<Longrightarrow> private_path (se_Canonical env) root rel = Inr p \<and> (\<exists>d. dir_at p (fs_entries s') = Some d)"
proof -
  have "leaf q m s' = leaf q m s \<and> fs_locked s' = fs_locked s
      \<and> (r = Inr p \<longrightarrow> private_path (se_Canonical env) root rel = Inr p \<and> (\<exists>d. dir_at p (fs_entries s') = Some d))"
  proof (cases "private_path (se_Canonical env) root rel")
    case (Inl e)
    then show ?thesis using assms by (auto simp: ensurePrivateTree_def)
  next
    case (Inr p')
    obtain x es where w: "walk (se_Refused env) True p' (fs_entries s) = (x, es)" by fastforce
    then have "leaf_at q m es = leaf q m s" "x = Inr () \<Longrightarrow> \<exists>d. dir_at p' es = Some d"
      using walk_leaf [of q m "se_Refused env" True p' "fs_entries s"] walk_ok [of "se_Refused env" True p' "fs_entries s"] by auto
    then show ?thesis using assms Inr w by (auto simp: ensurePrivateTree_def split: sum.splits)
  qed
  then show "leaf q m s' = leaf q m s" "fs_locked s' = fs_locked s"
    "r = Inr p \<Longrightarrow> private_path (se_Canonical env) root rel = Inr p \<and> (\<exists>d. dir_at p (fs_entries s') = Some d)"
    by auto
qed

text \<open>The two ways through \<open>with_lease_guard\<close>: refused before the body, or the body ran.\<close>

lemma acquireLeaseGuard_effect:
  assumes "acquireLeaseGuard env p g s = (r, s')" "dir_at p (fs_entries s) = Some d"
  shows "touches p g (fs_entries s) (fs_entries s')"
    "r = Inr () \<Longrightarrow> (p, g) \<notin> set (fs_locked s) \<and> fs_locked s' = (p, g) # fs_locked s"
    "r \<noteq> Inr () \<Longrightarrow> fs_locked s' = fs_locked s"
  using assms add_leaf [OF assms(2), of g "File EmptyDoc 0"]
  by (auto simp: acquireLeaseGuard_def Let_def is_directory_def split: sum.splits if_splits)

lemma with_lease_guard_cases:
  assumes "with_lease_guard env root ws job key body s = (r, s')"
  obtains (refused) e where "r = Inl e" "\<And>q m. m \<noteq> guard_file env key \<Longrightarrow> leaf q m s' = leaf q m s"
    "fs_locked s' = fs_locked s"
  | (ran) p d s2 s3 where "validateStoreInput root ws = Inr ()" "jobIDPattern job"
    "private_path (se_Canonical env) root [''workspaces'', ws, ''leases'', job] = Inr p"
    "dir_at p (fs_entries s2) = Some d" "\<And>q m. m \<noteq> guard_file env key \<Longrightarrow> leaf q m s2 = leaf q m s"
    "(p, guard_file env key) \<notin> set (fs_locked s)" "fs_locked s2 = (p, guard_file env key) # fs_locked s"
    "body p s2 = (r, s3)" "s' = release_guard p (guard_file env key) s3"
proof -
  let ?g = "guard_file env key"
  obtain x s1 where o: "openLeaseDirectory env root ws job s = (x, s1)" by fastforce
  show thesis
  proof (cases x)
    case (Inl e)
    with assms o have "r = Inl e" "s' = s1" by (auto simp: with_lease_guard_def)
    moreover have "leaf q m s1 = leaf q m s" "fs_locked s1 = fs_locked s" for q m
      using o by (auto simp: openLeaseDirectory_def dest: ensurePrivateTree_effect(1,2) split: sum.splits if_splits)
    ultimately show thesis using refused by auto
  next
    case (Inr p)
    then have e: "validateStoreInput root ws = Inr ()" "jobIDPattern job"
        "ensurePrivateTree env root [''workspaces'', ws, ''leases'', job] s = (Inr p, s1)"
      using o by (auto simp: openLeaseDirectory_def split: sum.splits if_splits)
    note t = ensurePrivateTree_effect [OF e(3)]
    from t(3) obtain d where d: "dir_at p (fs_entries s1) = Some d"
      and pp: "private_path (se_Canonical env) root [''workspaces'', ws, ''leases'', job] = Inr p" by blast
    obtain y s2 where a: "acquireLeaseGuard env p ?g s1 = (y, s2)" by fastforce
    note ge = acquireLeaseGuard_effect [OF a d]
    have l: "leaf q m s2 = leaf q m s" if "m \<noteq> ?g" for q m
      using touches_other [OF ge(1), of q m] that t(1) by simp
    show thesis
    proof (cases y)
      case (Inl e)
      then have "s' = s2" "\<exists>e. r = Inl e" using assms o Inr a by (auto simp: with_lease_guard_def)
      then show thesis using refused l ge(3) t(2) Inl by auto
    next
      case u: (Inr u)
      obtain d2 where "dir_at p (fs_entries s2) = Some d2" using touches_dir [OF ge(1) d] by blast
      moreover obtain r3 s3 where "body p s2 = (r3, s3)" by fastforce
      moreover from this have "r3 = r" "s' = release_guard p ?g s3"
        using assms o Inr a u by (auto simp: with_lease_guard_def)
      ultimately show thesis using ran e(1,2) pp l ge(2) t(2) u by auto
    qed
  qed
qed

text \<open>
  The steps of the bodies. \<open>only p m s s'\<close>: of all files only \<open>m\<close> in \<open>p\<close> may change, the
  directory stays, no lock changes.
\<close>

definition only :: "string list \<Rightarrow> string \<Rightarrow> sched_fs \<Rightarrow> sched_fs \<Rightarrow> bool" where
  "only p m s s' \<longleftrightarrow> touches p m (fs_entries s) (fs_entries s') \<and> fs_locked s' = fs_locked s"

lemma only_refl [simp]: "only p m s s"
  by (simp add: only_def)

lemma only_other: "only p m s s' \<Longrightarrow> q \<noteq> p \<or> n \<noteq> m \<Longrightarrow> leaf q n s' = leaf q n s"
  by (auto simp: only_def dest: touches_other)

lemma only_dir: "only p m s s' \<Longrightarrow> dir_at q (fs_entries s) = Some d \<Longrightarrow> \<exists>d'. dir_at q (fs_entries s') = Some d'"
  by (auto simp: only_def dest: touches_dir)

lemma only_trans: "only p m s s' \<Longrightarrow> only p m s' s'' \<Longrightarrow> only p m s s''"
  by (simp add: only_def touches_def)

lemma removeInDirectory_effect:
  assumes "removeInDirectory env p m s = (r, s')" "dir_at p (fs_entries s) = Some d"
  shows "only p m s s'" "r = Inr u \<Longrightarrow> leaf p m s' = None" "r = Inl e \<Longrightarrow> s' = s"
  using assms dir_removeFile_effect [OF assms(2), of "se_Refused env" m]
  by (auto simp: removeInDirectory_def only_def split: prod.splits)

lemma unless_missing_effect:
  assumes "unless_missing (removeInDirectory env p m s) = (r, s')" "dir_at p (fs_entries s) = Some d"
  shows "only p m s s'" "leaf p m s' \<in> {leaf p m s, None}"
    "r = Inr u \<Longrightarrow> leaf p m s' = None"
proof -
  obtain x s1 where x: "removeInDirectory env p m s = (x, s1)" by fastforce
  note e = removeInDirectory_effect [OF x assms(2)]
  have s': "s' = s1" using assms(1) x by (auto simp: unless_missing_def split: sum.splits sched_error.splits)
  show "only p m s s'" using e(1) s' by simp
  show "leaf p m s' \<in> {leaf p m s, None}" using e(2,3) s' by (cases x) auto
  assume "r = Inr u"
  then consider "x = Inr ()" | "x = Inl ErrNotExist"
    using assms(1) x by (auto simp: unless_missing_def split: sum.splits sched_error.splits)
  then show "leaf p m s' = None"
  proof cases
    case 2
    then have "dir_removeFile (se_Refused env) p m (fs_entries s) = (Inl ErrNotExist, fs_entries s1)"
      using x by (auto simp: removeInDirectory_def split: prod.splits)
    then have "node_at p m (fs_entries s) = None"
      by (auto simp: dir_removeFile_def os_error_def validateSecureLeaf_def fail_if_def split: sum.splits if_splits option.splits)
    then show ?thesis using 2 e(3) s' by (simp add: leaf_at_def)
  qed (use e(2) s' in simp)
qed

lemma writeNewJSONInDirectory_effect:
  assumes "writeNewJSONInDirectory env p m x j s = (r, s')" "dir_at p (fs_entries s) = Some d"
  shows "only p m s s'" "r = Inr u \<Longrightarrow> leaf p m s = None \<and> leaf p m s' = Some (File x (file_size j))"
    "r = Inl e \<Longrightarrow> leaf p m s' = leaf p m s \<or> leaf p m s = None \<and> leaf p m s' = Some TornFile"
  using assms dir_writeNewFile_effect [OF assms(2), of "se_Refused env" m x "file_size j"]
  by (auto simp: writeNewJSONInDirectory_def only_def split: prod.splits if_splits)

lemma rewrite_marker_effect:
  assumes "rewrite_marker env p m token state s = (r, s')" "dir_at p (fs_entries s) = Some d"
  shows "only p m s s'"
    "r = Inr u \<Longrightarrow> leaf p m s' = Some (File (MarkerDoc token state) (file_size (marker_json token state)))"
    "leaf p m s' \<in> {leaf p m s, Some TornFile, Some (File (MarkerDoc token state) (file_size (marker_json token state)))}"
  using assms dir_writeFile_effect [OF assms(2), of "se_Refused env" m "MarkerDoc token state" "file_size (marker_json token state)"]
  by (auto simp: rewrite_marker_def only_def split: prod.splits)

lemma check_lease_ok:
  "check_lease label d = Inr l \<Longrightarrow> d = Some (LeaseDoc l) \<and> validateLeaseIdentity l = Inr ()
     \<and> ls_AcquiredAt l < ls_ExpiresAt l \<and> time_sub (ls_ExpiresAt l) (ls_AcquiredAt l) \<le> maximum_ttl"
  by (cases d rule: option.exhaust [case_product document.exhaust])
     (auto simp: check_lease_def decode_as_def bind_r_Inr split: option.splits if_splits elim: as_lease.elims)

lemma readLease_ok:
  assumes "readLeaseInDirectory env p m s = Inr l"
  shows "\<exists>n. leaf p m s = Some (File (LeaseDoc l) n)" "validateLeaseIdentity l = Inr ()"
  using assms by (auto simp: readLeaseInDirectory_def bind_r_Inr dest!: check_lease_ok dir_readFile_doc)

lemma readLease_missing: "readLeaseInDirectory env p m s = Inl ErrNotExist \<Longrightarrow> leaf p m s = None"
  by (auto simp: readLeaseInDirectory_def bind_r_Inl check_lease_def decode_as_def strict_error_def bind_r_def
      dest!: dir_readFile_missing split: option.splits if_splits sum.splits)

lemma same_validity: "sameLeaseIdentity a b \<Longrightarrow> ls_FenceToken a = ls_FenceToken b \<and> ls_OccurrenceKey a = ls_OccurrenceKey b"
  by (simp add: sameLeaseIdentity_def)

section \<open>The bodies\<close>

lemma clear_expired_effect:
  assumes "clear_expired env ws job key now p s = (r, s')" "dir_at p (fs_entries s) = Some d"
  shows "only p (lease_file env key) s s'"
    "leaf p (lease_file env key) s' \<in> {leaf p (lease_file env key) s, None}"
    "r = Inr () \<Longrightarrow> leaf p (lease_file env key) s' = None
       \<and> (leaf p (lease_file env key) s = None \<or> (\<exists>l n. leaf p (lease_file env key) s = Some (File (LeaseDoc l) n)
            \<and> ls_WorkspaceID l = ws \<and> ls_JobID l = job \<and> ls_OccurrenceKey l = key \<and> ls_ExpiresAt l \<le> now))"
proof -
  let ?m = "lease_file env key"
  have "only p ?m s s' \<and> leaf p ?m s' \<in> {leaf p ?m s, None} \<and> (r = Inr () \<longrightarrow> leaf p ?m s' = None
       \<and> (leaf p ?m s = None \<or> (\<exists>l n. leaf p ?m s = Some (File (LeaseDoc l) n)
            \<and> ls_WorkspaceID l = ws \<and> ls_JobID l = job \<and> ls_OccurrenceKey l = key \<and> ls_ExpiresAt l \<le> now)))"
  proof (cases "readLeaseInDirectory env p ?m s")
    case (Inl e)
    then show ?thesis using assms(1) by (auto simp: clear_expired_def dest: readLease_missing split: if_splits)
  next
    case (Inr l)
    then obtain n where l: "leaf p ?m s = Some (File (LeaseDoc l) n)" using readLease_ok by blast
    show ?thesis
    proof (cases "ls_WorkspaceID l \<noteq> ws \<or> ls_JobID l \<noteq> job \<or> ls_OccurrenceKey l \<noteq> key \<or> now < ls_ExpiresAt l")
      case True
      then show ?thesis using assms(1) Inr by (auto simp: clear_expired_def split: if_splits)
    next
      case False
      then have u: "unless_missing (removeInDirectory env p ?m s) = (r, s')"
        using assms(1) Inr by (simp add: clear_expired_def)
      show ?thesis using unless_missing_effect [OF u assms(2)] l False by auto
    qed
  qed
  then show "only p ?m s s'" "leaf p ?m s' \<in> {leaf p ?m s, None}"
    "r = Inr () \<Longrightarrow> leaf p ?m s' = None
       \<and> (leaf p ?m s = None \<or> (\<exists>l n. leaf p ?m s = Some (File (LeaseDoc l) n)
            \<and> ls_WorkspaceID l = ws \<and> ls_JobID l = job \<and> ls_OccurrenceKey l = key \<and> ls_ExpiresAt l \<le> now))" by auto
qed

lemma acquire_body_effect:
  assumes "acquire_body env ws job key owner now ttl p s = (r, s')" "dir_at p (fs_entries s) = Some d"
  shows "only p (lease_file env key) s s'"
    "r = Inl e \<Longrightarrow> leaf p (lease_file env key) s' \<in> {leaf p (lease_file env key) s, None, Some TornFile}"
    "r = Inr l \<Longrightarrow> leaf p (marker_file env key) s = None \<and> (\<exists>token. se_Token env = Some token
        \<and> l = new_lease ws job key owner token now ttl
        \<and> leaf p (lease_file env key) s' = Some (File (LeaseDoc (decode_lease l)) (file_size (lease_json l))))
        \<and> (leaf p (lease_file env key) s = None \<or> (\<exists>l0 n. leaf p (lease_file env key) s = Some (File (LeaseDoc l0) n)
            \<and> ls_WorkspaceID l0 = ws \<and> ls_JobID l0 = job \<and> ls_OccurrenceKey l0 = key \<and> ls_ExpiresAt l0 \<le> now))"
proof -
  let ?m = "lease_file env key" and ?k = "marker_file env key"
  have "only p ?m s s' \<and> (r = Inl e \<longrightarrow> leaf p ?m s' \<in> {leaf p ?m s, None, Some TornFile})
     \<and> (r = Inr l \<longrightarrow> leaf p ?k s = None \<and> (\<exists>token. se_Token env = Some token
        \<and> l = new_lease ws job key owner token now ttl
        \<and> leaf p ?m s' = Some (File (LeaseDoc (decode_lease l)) (file_size (lease_json l))))
        \<and> (leaf p ?m s = None \<or> (\<exists>l0 n. leaf p ?m s = Some (File (LeaseDoc l0) n)
            \<and> ls_WorkspaceID l0 = ws \<and> ls_JobID l0 = job \<and> ls_OccurrenceKey l0 = key \<and> ls_ExpiresAt l0 \<le> now)))"
  proof (cases "dir_readFile (se_Refused env) p ?k (fs_entries s) = Inl ErrNotExist")
    case False
    then show ?thesis using assms(1) by (auto simp: acquire_body_def split: sum.splits if_splits)
  next
    case True
    note k = dir_readFile_missing [OF True]
    obtain x s1 where c: "clear_expired env ws job key now p s = (x, s1)" by fastforce
    note ce = clear_expired_effect [OF c assms(2)]
    show ?thesis
    proof (cases x)
      case (Inl e)
      then show ?thesis using assms(1) True c ce by (auto simp: acquire_body_def)
    next
      case (Inr u)
      show ?thesis
      proof (cases "se_Token env")
        case None
        then show ?thesis using assms(1) True c ce Inr by (auto simp: acquire_body_def newFenceToken_def)
      next
        case (Some token)
        let ?l = "new_lease ws job key owner token now ttl"
        obtain d1 where d1: "dir_at p (fs_entries s1) = Some d1" using only_dir [OF ce(1) assms(2)] by blast
        obtain y s2 where w: "writeNewJSONInDirectory env p ?m (LeaseDoc (decode_lease ?l)) (lease_json ?l) s1 = (y, s2)"
          by fastforce
        note we = writeNewJSONInDirectory_effect [OF w d1]
        have r: "s' = s2" "r = (case y of Inl e \<Rightarrow> Inl (if e = ErrExist then ErrLeaseBusy else e) | Inr _ \<Rightarrow> Inr ?l)"
          using assms(1) True c Inr Some w by (auto simp: acquire_body_def newFenceToken_def Let_def split: sum.splits)
        show ?thesis
        proof (cases y)
          case y: (Inl e)
          then have "leaf p ?m s2 \<in> {leaf p ?m s1, Some TornFile}" using we(3) by blast
          then show ?thesis using r y ce only_trans [OF ce(1) we(1)] by auto
        next
          case y: (Inr u')
          then show ?thesis using r ce(3) Inr Some we(2) k only_trans [OF ce(1) we(1)] by auto
        qed
      qed
    qed
  qed
  then show "only p ?m s s'" "r = Inl e \<Longrightarrow> leaf p ?m s' \<in> {leaf p ?m s, None, Some TornFile}"
    "r = Inr l \<Longrightarrow> leaf p ?k s = None \<and> (\<exists>token. se_Token env = Some token
        \<and> l = new_lease ws job key owner token now ttl
        \<and> leaf p ?m s' = Some (File (LeaseDoc (decode_lease l)) (file_size (lease_json l))))
        \<and> (leaf p ?m s = None \<or> (\<exists>l0 n. leaf p ?m s = Some (File (LeaseDoc l0) n)
            \<and> ls_WorkspaceID l0 = ws \<and> ls_JobID l0 = job \<and> ls_OccurrenceKey l0 = key \<and> ls_ExpiresAt l0 \<le> now))"
    by blast+
qed

text \<open>The two files of an occurrence may change, and how.\<close>

definition within_slot :: "sched_env \<Rightarrow> string list \<Rightarrow> string \<Rightarrow> sched_fs \<Rightarrow> sched_fs \<Rightarrow> bool" where
  "within_slot env p key s s' \<longleftrightarrow>
     (\<forall>q m. q \<noteq> p \<or> m \<notin> {lease_file env key, marker_file env key} \<longrightarrow> leaf q m s' = leaf q m s)
     \<and> fs_locked s' = fs_locked s"

lemma only_within:
  "only p (lease_file env key) s s' \<Longrightarrow> within_slot env p key s s'"
  "only p (marker_file env key) s s' \<Longrightarrow> within_slot env p key s s'"
  by (auto simp: within_slot_def only_def dest: touches_other)

lemma within_slot_refl [simp]: "within_slot env p key s s"
  by (simp add: within_slot_def)

lemma within_slot_trans: "within_slot env p key s s' \<Longrightarrow> within_slot env p key s' s'' \<Longrightarrow> within_slot env p key s s''"
  by (simp add: within_slot_def)

definition node_token :: "document node \<Rightarrow> string option" where
  "node_token n = (case n of File d _ \<Rightarrow> map_option fst (marker_fields d) | _ \<Rightarrow> None)"

definition has_token :: "string \<Rightarrow> document node option \<Rightarrow> bool" where
  "has_token t nd \<longleftrightarrow> (\<exists>n. nd = Some n \<and> node_token n = Some t)"

lemma read_fields:
  "dir_readFile refused p m (fs_entries s) = Inr d \<Longrightarrow> Option.bind d marker_fields = Some (t, st) \<Longrightarrow> has_token t (leaf p m s)"
  by (cases d) (auto simp: has_token_def node_token_def dest!: dir_readFile_doc)

lemma removeQuarantineMarker_effect:
  assumes "removeQuarantineMarkerInDirectory env p m l s = (r, s')" "dir_at p (fs_entries s) = Some d"
  shows "only p m s s' \<and> (leaf p m s' = leaf p m s \<or> leaf p m s' = None \<and> has_token (ls_FenceToken l) (leaf p m s))
    \<and> (r = Inr () \<longrightarrow> leaf p m s' = None)"
proof (cases "dir_readFile (se_Refused env) p m (fs_entries s)")
  case (Inl e)
  then show ?thesis
    using assms(1) by (auto simp: removeQuarantineMarkerInDirectory_def dest: dir_readFile_missing split: if_splits)
next
  case (Inr x)
  show ?thesis
  proof (cases "\<exists>st. Option.bind x marker_fields = Some (ls_FenceToken l, st)")
    case True
    then obtain st where st: "Option.bind x marker_fields = Some (ls_FenceToken l, st)" by blast
    then have "removeInDirectory env p m s = (r, s')"
      using assms(1) Inr by (simp add: removeQuarantineMarkerInDirectory_def)
    from removeInDirectory_effect [OF this assms(2)] read_fields [OF Inr st] show ?thesis
      by (cases r) auto
  next
    case False
    then have "r = Inl ErrLeaseLost \<and> s' = s"
      using assms(1) Inr by (auto simp: removeQuarantineMarkerInDirectory_def split: option.splits prod.splits if_splits)
    then show ?thesis by simp
  qed
qed

text \<open>Releasing and recovering: the marker can only go with its own token, the lease after it.\<close>

definition slot_cleared :: "sched_env \<Rightarrow> Lease \<Rightarrow> string list \<Rightarrow> sched_fs \<Rightarrow> sched_fs \<Rightarrow> bool" where
  "slot_cleared env l p s s' \<longleftrightarrow>
     (let L = lease_file env (ls_OccurrenceKey l); M = marker_file env (ls_OccurrenceKey l)
      in within_slot env p (ls_OccurrenceKey l) s s'
         \<and> (leaf p M s' = leaf p M s \<or> leaf p M s' = None \<and> has_token (ls_FenceToken l) (leaf p M s))
         \<and> (leaf p L s' = leaf p L s \<or> leaf p L s' = None \<and> leaf p M s' = None
              \<and> (\<exists>c n. leaf p L s = Some (File (LeaseDoc c) n) \<and> sameLeaseIdentity c l)))"

lemma slot_cleared_refl [simp]: "slot_cleared env l p s s"
  by (simp add: slot_cleared_def Let_def)

lemma drop_lease_effect:
  assumes "drop_lease env l p s = (r, s')" "dir_at p (fs_entries s) = Some d"
    and "leaf p (lease_file env (ls_OccurrenceKey l)) s = Some (File (LeaseDoc c) n)" "sameLeaseIdentity c l"
  shows "slot_cleared env l p s s'"
    "r = Inr () \<Longrightarrow> leaf p (lease_file env (ls_OccurrenceKey l)) s' = None
       \<and> leaf p (marker_file env (ls_OccurrenceKey l)) s' = None"
proof -
  let ?L = "lease_file env (ls_OccurrenceKey l)" and ?M = "marker_file env (ls_OccurrenceKey l)"
  obtain x s1 where m: "removeQuarantineMarkerInDirectory env p ?M l s = (x, s1)" by fastforce
  note me = removeQuarantineMarker_effect [OF m assms(2)]
  have L1: "leaf p ?L s1 = leaf p ?L s" using me only_other [of p ?M s s1 p ?L] by auto
  have "slot_cleared env l p s s' \<and> (r = Inr () \<longrightarrow> leaf p ?L s' = None \<and> leaf p ?M s' = None)"
  proof (cases x)
    case (Inl e)
    then show ?thesis
      using assms(1) m me L1 by (auto simp: drop_lease_def slot_cleared_def Let_def intro: only_within)
  next
    case (Inr u)
    then have u: "unless_missing (removeInDirectory env p ?L s1) = (r, s')"
      using assms(1) m by (simp add: drop_lease_def)
    obtain d1 where d1: "dir_at p (fs_entries s1) = Some d1" using me only_dir assms(2) by blast
    note ue = unless_missing_effect [OF u d1]
    have "leaf p ?M s' = leaf p ?M s1" using only_other [OF ue(1), of p ?M] by auto
    moreover have "within_slot env p (ls_OccurrenceKey l) s s'"
      using me ue(1) within_slot_trans only_within by blast
    ultimately show ?thesis using me ue(2,3) L1 assms(3,4) Inr by (auto simp: slot_cleared_def Let_def)
  qed
  then show "slot_cleared env l p s s'" "r = Inr () \<Longrightarrow> leaf p ?L s' = None \<and> leaf p ?M s' = None" by auto
qed

lemma release_body_effect:
  assumes "release_body env l p s = (r, s')" "dir_at p (fs_entries s) = Some d"
  shows "slot_cleared env l p s s'"
    "r = Inr () \<Longrightarrow> leaf p (lease_file env (ls_OccurrenceKey l)) s' = None
       \<and> leaf p (marker_file env (ls_OccurrenceKey l)) s' = None"
proof -
  let ?L = "lease_file env (ls_OccurrenceKey l)" and ?M = "marker_file env (ls_OccurrenceKey l)"
  have "slot_cleared env l p s s' \<and> (r = Inr () \<longrightarrow> leaf p ?L s' = None \<and> leaf p ?M s' = None)"
  proof (cases "readLeaseInDirectory env p ?L s")
    case (Inl e)
    show ?thesis
    proof (cases "e = ErrNotExist")
      case True
      then have m: "removeQuarantineMarkerInDirectory env p ?M l s = (r, s')"
        using assms(1) Inl by (simp add: release_body_def)
      have "leaf p ?L s = None" using readLease_missing Inl True by blast
      then show ?thesis
        using removeQuarantineMarker_effect [OF m assms(2)] only_other [of p ?M s s' p ?L]
        by (auto simp: slot_cleared_def Let_def intro: only_within)
    qed (use assms(1) Inl in \<open>auto simp: release_body_def\<close>)
  next
    case (Inr c)
    then obtain n where c: "leaf p ?L s = Some (File (LeaseDoc c) n)" using readLease_ok by blast
    show ?thesis
    proof (cases "sameLeaseIdentity c l")
      case True
      then have "drop_lease env l p s = (r, s')" using assms(1) Inr by (simp add: release_body_def)
      from drop_lease_effect [OF this assms(2) c True] show ?thesis by blast
    qed (use assms(1) Inr in \<open>auto simp: release_body_def\<close>)
  qed
  then show "slot_cleared env l p s s'" "r = Inr () \<Longrightarrow> leaf p ?L s' = None \<and> leaf p ?M s' = None" by auto
qed

lemma recover_body_effect:
  assumes "recover_body env l p s = (r, s')" "dir_at p (fs_entries s) = Some d"
  shows "slot_cleared env l p s s'"
    "r = Inr () \<Longrightarrow> leaf p (lease_file env (ls_OccurrenceKey l)) s' = None
       \<and> leaf p (marker_file env (ls_OccurrenceKey l)) s' = None"
proof -
  let ?L = "lease_file env (ls_OccurrenceKey l)" and ?M = "marker_file env (ls_OccurrenceKey l)"
  consider (no) e where "r = Inl e" "s' = s"
    | (yes) c where "readLeaseInDirectory env p ?L s = Inr c" "sameLeaseIdentity c l" "drop_lease env l p s = (r, s')"
    using assms(1) by (auto simp: recover_body_def split: sum.splits if_splits)
  then have "slot_cleared env l p s s' \<and> (r = Inr () \<longrightarrow> leaf p ?L s' = None \<and> leaf p ?M s' = None)"
  proof cases
    case yes
    then obtain n where "leaf p ?L s = Some (File (LeaseDoc c) n)" using readLease_ok by blast
    from drop_lease_effect [OF yes(3) assms(2) this yes(2)] show ?thesis by blast
  qed simp
  then show "slot_cleared env l p s s'" "r = Inr () \<Longrightarrow> leaf p ?L s' = None \<and> leaf p ?M s' = None" by auto
qed

text \<open>Arming and quarantining: the lease stays, a marker of the owner appears or stays.\<close>

lemma marker_body_effect:
  assumes "marker_body env l state p s = (r, s')" "dir_at p (fs_entries s) = Some d"
  defines "M \<equiv> marker_file env (ls_OccurrenceKey l)"
  shows "only p M s s'"
    "leaf p M s' = leaf p M s \<or> (leaf p M s = None \<or> has_token (ls_FenceToken l) (leaf p M s))
       \<and> (leaf p M s' = Some TornFile \<or> has_token (ls_FenceToken l) (leaf p M s'))"
    "r = Inr () \<Longrightarrow> has_token (ls_FenceToken l) (leaf p M s')
       \<and> (\<exists>c n. leaf p (lease_file env (ls_OccurrenceKey l)) s = Some (File (LeaseDoc c) n) \<and> sameLeaseIdentity c l)"
proof -
  let ?L = "lease_file env (ls_OccurrenceKey l)" and ?t = "ls_FenceToken l"
  have new: "has_token ?t (Some (File (MarkerDoc ?t state) n))" for n by (simp add: has_token_def node_token_def)
  have "only p M s s' \<and> (leaf p M s' = leaf p M s \<or> (leaf p M s = None \<or> has_token ?t (leaf p M s))
       \<and> (leaf p M s' = Some TornFile \<or> has_token ?t (leaf p M s')))
     \<and> (r = Inr () \<longrightarrow> has_token ?t (leaf p M s') \<and> (\<exists>c n. leaf p ?L s = Some (File (LeaseDoc c) n) \<and> sameLeaseIdentity c l))"
  proof (cases "\<exists>c. readLeaseInDirectory env p ?L s = Inr c \<and> sameLeaseIdentity c l")
    case False
    then have "(\<exists>e. r = Inl e) \<and> s' = s" using assms(1) by (auto simp: marker_body_def split: sum.splits if_splits)
    then show ?thesis by auto
  next
    case True
    then obtain c where c: "readLeaseInDirectory env p ?L s = Inr c" "sameLeaseIdentity c l" by blast
    then have cl: "\<exists>c n. leaf p ?L s = Some (File (LeaseDoc c) n) \<and> sameLeaseIdentity c l" using readLease_ok by blast
    show ?thesis
    proof (cases "dir_readFile (se_Refused env) p M (fs_entries s)")
      case (Inl e)
      show ?thesis
      proof (cases "e = ErrNotExist")
        case True
        then have w: "writeNewJSONInDirectory env p M (MarkerDoc ?t state) (marker_json ?t state) s = (r, s')"
          using assms(1) c Inl by (simp add: marker_body_def M_def Let_def)
        note we = writeNewJSONInDirectory_effect [OF w assms(2)]
        show ?thesis
        proof (cases r)
          case (Inl e')
          then show ?thesis using we(1,3) by auto
        next
          case (Inr u)
          then show ?thesis using we(1,2) cl new by auto
        qed
      next
        case False
        then have "r = Inl e \<and> s' = s" using assms(1) c Inl by (simp add: marker_body_def M_def Let_def)
        then show ?thesis by auto
      qed
    next
      case (Inr x)
      show ?thesis
      proof (cases "\<exists>st. Option.bind x marker_fields = Some (?t, st)")
        case False
        then have "r = Inl ErrLeaseLost \<and> s' = s"
          using assms(1) c Inr by (auto simp: marker_body_def M_def Let_def split: option.splits prod.splits if_splits)
        then show ?thesis by auto
      next
        case True
        then obtain st where st: "Option.bind x marker_fields = Some (?t, st)" by blast
        note old = read_fields [OF Inr st]
        show ?thesis
        proof (cases "st = state \<or> st = ''quarantined'' \<and> state = ''active''")
          case True
          then have "r = Inr () \<and> s' = s" using assms(1) c Inr st by (simp add: marker_body_def M_def Let_def)
          then show ?thesis using old cl by auto
        next
          case False
          then have w: "rewrite_marker env p M ?t state s = (r, s')"
            using assms(1) c Inr st by (auto simp: marker_body_def M_def Let_def split: if_splits)
          show ?thesis using rewrite_marker_effect [OF w assms(2)] old cl new by auto
        qed
      qed
    qed
  qed
  then show "only p M s s'"
    "leaf p M s' = leaf p M s \<or> (leaf p M s = None \<or> has_token ?t (leaf p M s))
       \<and> (leaf p M s' = Some TornFile \<or> has_token ?t (leaf p M s'))"
    "r = Inr () \<Longrightarrow> has_token ?t (leaf p M s')
       \<and> (\<exists>c n. leaf p ?L s = Some (File (LeaseDoc c) n) \<and> sameLeaseIdentity c l)" by blast+
qed

section \<open>Enrollment and receipts leave the lease directories alone\<close>

lemma writeNewJSON_effect:
  assumes "writeNewJSON env p m x j s = (r, s')" "dir_at p (fs_entries s) = Some d"
  shows "only p m s s'"
  using assms dir_writeNewFile_effect(1) [OF assms(2), of "se_Refused env" m x "file_size j"]
  by (auto simp: writeNewJSON_def secureWriteNewFile_def only_def split: prod.splits if_splits sum.splits)

lemma ensured_write:
  assumes "ensurePrivateTree env root rel s = (Inr p, s1)" "writeNewJSON env p m x j s1 = (r, s')"
  shows "private_path (se_Canonical env) root rel \<noteq> Inr q \<Longrightarrow> leaf q n s' = leaf q n s" "fs_locked s' = fs_locked s"
proof -
  note e = ensurePrivateTree_effect [OF assms(1)]
  obtain d where d: "dir_at p (fs_entries s1) = Some d" "private_path (se_Canonical env) root rel = Inr p" using e(3) by blast
  note o = writeNewJSON_effect [OF assms(2) d(1)]
  show "fs_locked s' = fs_locked s" using o e(2) by (simp add: only_def)
  assume "private_path (se_Canonical env) root rel \<noteq> Inr q"
  then show "leaf q n s' = leaf q n s" using only_other [OF o, of q n] d(2) e(1) by simp
qed

lemma AppendReceipt_effect:
  assumes "AppendReceipt env root ws r s = (x, s')"
  shows "private_path (se_Canonical env) root [''workspaces'', ws, ''receipts'', rc_JobID r] \<noteq> Inr q \<Longrightarrow> leaf q m s' = leaf q m s"
    "fs_locked s' = fs_locked s"
  using assms ensurePrivateTree_effect(1,2) [of env root _ s] ensured_write [of env root _ s]
  by (auto simp: AppendReceipt_def Let_def split: sum.splits prod.splits)

lemma EnsureEnrollment_effect:
  assumes "EnsureEnrollment env root ws t s = (x, s')"
  shows "private_path (se_Canonical env) root [''workspaces'', ws] \<noteq> Inr q \<Longrightarrow> leaf q m s' = leaf q m s"
    "fs_locked s' = fs_locked s"
  using assms ensurePrivateTree_effect(1,2) [of env root _ s] ensured_write [of env root _ s]
  by (auto simp: EnsureEnrollment_def Let_def split: sum.splits prod.splits if_splits)

lemma lease_path_apart:
  assumes "private_path can root [''workspaces'', ws, ''leases'', job] = Inr p"
  shows "private_path can root [''workspaces'', ws', ''receipts'', job'] \<noteq> Inr p"
    "private_path can root [''workspaces'', ws'] \<noteq> Inr p"
  using assms by (auto simp: private_path_def bind_r_Inr split: if_splits)

section \<open>Calls\<close>

text \<open>
  One call of any process, with its own environment. A publication appends a receipt of the
  scheduler under the fence, as the maintenance worker does. The result is the lease that the
  call granted.
\<close>

datatype lease_call =
    Acquire string string string string time duration
  | Release Lease
  | Arm Lease
  | Quarantine Lease
  | Recover Lease time
  | Publish Lease time Receipt
  | Append string Receipt
  | Enroll string time

fun perform :: "sched_env \<Rightarrow> string \<Rightarrow> lease_call \<Rightarrow> sched_fs \<Rightarrow> Lease option \<times> sched_fs" where
  "perform env root (Acquire ws job key owner now ttl) s =
     (case TryAcquireLease env root ws job key owner now ttl s of (Inl e, s') \<Rightarrow> (None, s') | (Inr l, s') \<Rightarrow> (Some l, s'))"
| "perform env root (Release l) s = (None, snd (ReleaseLease env root l s))"
| "perform env root (Arm l) s = (None, snd (ArmLease env root l s))"
| "perform env root (Quarantine l) s = (None, snd (QuarantineLease env root l s))"
| "perform env root (Recover l now) s = (None, snd (RecoverQuarantinedLease env root l now s))"
| "perform env root (Publish l now r) s =
     (None, snd (WithCurrentLease env root l now (Some (AppendReceipt env root (ls_WorkspaceID l) r)) s))"
| "perform env root (Append ws r) s = (None, snd (AppendReceipt env root ws r s))"
| "perform env root (Enroll ws t) s = (None, snd (EnsureEnrollment env root ws t s))"

text \<open>The token with which a call may touch a marker, and the calls that may remove one.\<close>

fun call_token :: "lease_call \<Rightarrow> string option" where
  "call_token (Release l) = Some (ls_FenceToken l)"
| "call_token (Arm l) = Some (ls_FenceToken l)"
| "call_token (Quarantine l) = Some (ls_FenceToken l)"
| "call_token (Recover l now) = Some (ls_FenceToken l)"
| "call_token _ = None"

fun is_clearing :: "lease_call \<Rightarrow> bool" where
  "is_clearing (Release l) = True"
| "is_clearing (Recover l now) = True"
| "is_clearing _ = False"

text \<open>
  How one call may change the marker \<open>M\<close> and the lease \<open>L\<close> of an occurrence; \<open>granted\<close> is
  the lease it granted there.
\<close>

definition slot_change ::
  "lease_call \<Rightarrow> string option \<Rightarrow> Lease option \<Rightarrow> document node option \<Rightarrow> document node option
    \<Rightarrow> document node option \<Rightarrow> document node option \<Rightarrow> bool" where
  "slot_change c token granted M L M' L' \<longleftrightarrow>
     (M' = M
      \<or> is_clearing c \<and> M' = None \<and> (\<exists>t. call_token c = Some t \<and> has_token t M)
      \<or> \<not> is_clearing c \<and> (\<exists>t. call_token c = Some t \<and> (M = None \<or> has_token t M)
           \<and> (M' = Some TornFile \<or> has_token t M')))
     \<and> (case granted of
           None \<Rightarrow> L' \<in> {L, None, Some TornFile}
         | Some l \<Rightarrow> M = None \<and> M' = None \<and> Some (ls_FenceToken l) = token
             \<and> (\<exists>n. L' = Some (File (LeaseDoc (decode_lease l)) n)))"

lemma slot_change_same [simp]: "slot_change c token None M L M L"
  by (simp add: slot_change_def)

end
