(* ===== verification/Runs.thy ===== *)
theory Runs
  imports Main
begin

text \<open>
  Runs of a step relation, and the contracts of the components that many processes share: a
  fence that stands until its holder ends it, a holder that is never the same twice, and a
  permission that is used at most as often as it was given. The facts about runs are proved
  once in the locales.
\<close>

section \<open>Runs\<close>

inductive run :: "('s \<Rightarrow> 'e \<Rightarrow> 's \<Rightarrow> bool) \<Rightarrow> 's \<Rightarrow> 'e list \<Rightarrow> 's \<Rightarrow> bool" for step where
  run_Nil: "run step s [] s"
| run_Cons: "step s e s' \<Longrightarrow> run step s' es s'' \<Longrightarrow> run step s (e # es) s''"

inductive_cases run_NilE: "run step s [] s'"
inductive_cases run_ConsE: "run step s (e # es) s'"

lemma run_Cons_iff: "run step s (e # es) s'' \<longleftrightarrow> (\<exists>s'. step s e s' \<and> run step s' es s'')"
  by (auto intro: run_Cons elim: run_ConsE)

lemma run_append: "run step s (es @ es') s'' \<longleftrightarrow> (\<exists>s'. run step s es s' \<and> run step s' es' s'')"
  by (induction es arbitrary: s) (auto simp: run_Cons_iff intro: run_Nil elim: run_NilE)

section \<open>Fences\<close>

text \<open>
  The contract of a fence: while it stands for a token and no event ends that token, it keeps
  standing and nothing is granted.
\<close>

locale fenced_slot =
  fixes step :: "'s \<Rightarrow> 'e \<Rightarrow> 's \<Rightarrow> bool"
    and fenced :: "'t \<Rightarrow> 's \<Rightarrow> bool"
    and grants :: "'e \<Rightarrow> bool"
    and ends :: "'t \<Rightarrow> 'e \<Rightarrow> bool"
  assumes fenced_step: "step s e s' \<Longrightarrow> fenced t s \<Longrightarrow> \<not> ends t e \<Longrightarrow> fenced t s'"
    and fenced_grants: "step s e s' \<Longrightarrow> fenced t s \<Longrightarrow> \<not> grants e"
begin

theorem fenced_run:
  "run step s es s' \<Longrightarrow> fenced t s \<Longrightarrow> \<forall>e \<in> set es. \<not> ends t e \<Longrightarrow> fenced t s' \<and> (\<forall>e \<in> set es. \<not> grants e)"
proof (induction rule: run.induct)
  case (run_Cons s e s' es s'')
  then show ?case using fenced_step [of s e s' t] fenced_grants [of s e s' t] by auto
qed simp

end

text \<open>A fence whose holder is renewed with tokens that were never used before.\<close>

locale fenced_holder = fenced_slot +
  fixes holder :: "'s \<Rightarrow> 'k option"
    and used :: "'s \<Rightarrow> 'k set"
  assumes used_step: "step s e s' \<Longrightarrow> used s \<subseteq> used s'"
    and retired_step: "step s e s' \<Longrightarrow> t \<in> used s \<Longrightarrow> holder s \<noteq> Some t \<Longrightarrow> holder s' \<noteq> Some t"
begin

theorem retired_run:
  "run step s es s' \<Longrightarrow> t \<in> used s \<Longrightarrow> holder s \<noteq> Some t \<Longrightarrow> t \<in> used s' \<and> holder s' \<noteq> Some t"
proof (induction rule: run.induct)
  case (run_Cons s e s' es s'')
  then show ?case using used_step [of s e s'] retired_step [of s e s' t] by blast
qed simp

end

section \<open>Permissions\<close>

text \<open>
  Events give a permission to a subject or use one; a state holds those given and not used.
\<close>

locale one_shot =
  fixes step :: "'s \<Rightarrow> 'e \<Rightarrow> 's \<Rightarrow> bool"
    and gives :: "'i \<Rightarrow> 'e \<Rightarrow> bool"
    and takes :: "'i \<Rightarrow> 'e \<Rightarrow> bool"
    and held :: "'i \<Rightarrow> 's \<Rightarrow> nat"
  assumes held_step: "step s e s' \<Longrightarrow>
    held i s' + (if takes i e then 1 else 0) \<le> held i s + (if gives i e then 1 else 0)"
begin

theorem held_run:
  "run step s es s' \<Longrightarrow>
   held i s' + length (filter (takes i) es) \<le> held i s + length (filter (gives i) es)"
proof (induction rule: run.induct)
  case (run_Cons s e s' es s'')
  then show ?case using held_step [of s e s' i] by (auto split: if_splits)
qed simp

end

end
