(* ===== verification/SchedRun.thy ===== *)
theory SchedRun
  imports SchedFence Runs
begin

text \<open>
  Runs of lease calls by any number of processes. \<open>perform_slot\<close> reduces every call to a
  \<open>slot_change\<close> of each occurrence; the contracts \<open>fenced_slot\<close> and \<open>fenced_holder\<close> of Runs, with
  their facts about runs, are interpreted on the calls of the scheduler.
\<close>

section \<open>Every call on every occurrence\<close>

definition granted_at :: "sched_env \<Rightarrow> string \<Rightarrow> string list \<Rightarrow> string \<Rightarrow> Lease option \<Rightarrow> Lease option" where
  "granted_at env root p key g =
     (case g of
        None \<Rightarrow> None
      | Some l \<Rightarrow>
          if private_path (se_Canonical env) root [''workspaces'', ls_WorkspaceID l, ''leases'', ls_JobID l] = Inr p
             \<and> lease_file env (ls_OccurrenceKey l) = lease_file env key then Some l else None)"

lemma granted_at_None [simp]: "granted_at env root p key None = None"
  by (simp add: granted_at_def)

lemma same_files: "marker_file env k = marker_file env k' \<longleftrightarrow> lease_file env k = lease_file env k'"
  by (simp add: marker_file_def)

lemma release_guard_leaf [simp]: "fs_entries (release_guard p g s) = fs_entries s"
  by (simp add: release_guard_def)

definition slot_moves :: "sched_env \<Rightarrow> string list \<Rightarrow> string \<Rightarrow> lease_call \<Rightarrow> Lease option \<Rightarrow> sched_fs \<Rightarrow> sched_fs \<Rightarrow> bool" where
  "slot_moves env p key c g s s' =
     slot_change c (se_Token env) g (leaf p (marker_file env key) s) (leaf p (lease_file env key) s)
       (leaf p (marker_file env key) s') (leaf p (lease_file env key) s')"

lemma slot_moves_same:
  "leaf p (marker_file env key) s' = leaf p (marker_file env key) s \<Longrightarrow>
   leaf p (lease_file env key) s' = leaf p (lease_file env key) s \<Longrightarrow> slot_moves env p key c None s s'"
  by (simp add: slot_moves_def)

text \<open>A call under the guard: a body that respects its own occurrence respects every occurrence.\<close>

lemma guarded_slot:
  assumes "with_lease_guard env root ws job k body s = (r, s')"
    and out: "\<And>e. r = Inl e \<Longrightarrow> g = None"
    and own: "\<And>q d s2 s3. private_path (se_Canonical env) root [''workspaces'', ws, ''leases'', job] = Inr q \<Longrightarrow>
      dir_at q (fs_entries s2) = Some d \<Longrightarrow> body q s2 = (r, s3) \<Longrightarrow>
      within_slot env q k s2 s3 \<and> slot_moves env q k c g s2 s3"
    and g: "\<And>l. g = Some l \<Longrightarrow> ls_WorkspaceID l = ws \<and> ls_JobID l = job \<and> ls_OccurrenceKey l = k"
  shows "slot_moves env p key c (granted_at env root p key g) s s'"
  using assms(1)
proof (cases rule: with_lease_guard_cases)
  case (refused e)
  then show ?thesis using out by (auto intro: slot_moves_same)
next
  case (ran q d s2 s3)
  from own [OF ran(3,4,8)] have w: "within_slot env q k s2 s3" and m: "slot_moves env q k c g s2 s3" by auto
  have l2: "leaf x (marker_file env y) s2 = leaf x (marker_file env y) s" "leaf x (lease_file env y) s2 = leaf x (lease_file env y) s" for x y
    using ran(5) by simp_all
  show ?thesis
  proof (cases "q = p \<and> lease_file env k = lease_file env key")
    case True
    then have "granted_at env root p key g = g" using g ran(3) by (auto simp: granted_at_def split: option.splits)
    moreover from True have "marker_file env k = marker_file env key" by (simp add: same_files)
    ultimately show ?thesis using m l2 [of p key] True ran(9) by (simp add: slot_moves_def)
  next
    case False
    then have "granted_at env root p key g = None" using g ran(3) by (auto simp: granted_at_def split: option.splits)
    moreover have "leaf p (marker_file env key) s3 = leaf p (marker_file env key) s2"
      "leaf p (lease_file env key) s3 = leaf p (lease_file env key) s2"
      using w False by (auto simp: within_slot_def same_files)
    ultimately show ?thesis using l2 [of p key] ran(9) by (auto intro: slot_moves_same)
  qed
qed

lemma cleared_moves:
  assumes "slot_cleared env l q s s'" "is_clearing c" "call_token c = Some (ls_FenceToken l)"
  shows "within_slot env q (ls_OccurrenceKey l) s s' \<and> slot_moves env q (ls_OccurrenceKey l) c None s s'"
  using assms by (auto simp: slot_cleared_def Let_def slot_moves_def slot_change_def)

lemma marked_moves:
  assumes "marker_body env l state q s = (r, s')" "dir_at q (fs_entries s) = Some d"
    and "\<not> is_clearing c" "call_token c = Some (ls_FenceToken l)"
  shows "within_slot env q (ls_OccurrenceKey l) s s' \<and> slot_moves env q (ls_OccurrenceKey l) c None s s'"
proof -
  note e = marker_body_effect [OF assms(1,2)]
  have "leaf q (lease_file env (ls_OccurrenceKey l)) s' = leaf q (lease_file env (ls_OccurrenceKey l)) s"
    using only_other [OF e(1), of q "lease_file env (ls_OccurrenceKey l)"] by simp
  then show ?thesis using e(1,2) assms(3,4) by (auto simp: slot_moves_def slot_change_def intro: only_within)
qed

lemma acquire_moves:
  assumes "acquire_body env ws job k owner now ttl q s = (r, s')" "dir_at q (fs_entries s) = Some d"
  shows "within_slot env q k s s' \<and> slot_moves env q k (Acquire ws job k owner now ttl) (case r of Inl e \<Rightarrow> None | Inr l \<Rightarrow> Some l) s s'"
proof -
  note e = acquire_body_effect [OF assms]
  have M: "leaf q (marker_file env k) s' = leaf q (marker_file env k) s"
    using only_other [OF e(1), of q "marker_file env k"] by simp
  show ?thesis
  proof (cases r)
    case (Inl x)
    then show ?thesis using e(1) e(2) [of x] M by (auto simp: slot_moves_def slot_change_def intro: only_within)
  next
    case (Inr l)
    then show ?thesis using e(1) e(3) [of l] M by (auto simp: slot_moves_def slot_change_def new_lease_def intro: only_within)
  qed
qed

lemma identity_slot:
  assumes own: "\<And>q d s2 s3 r. dir_at q (fs_entries s2) = Some d \<Longrightarrow> body q s2 = (r, s3) \<Longrightarrow>
      within_slot env q (ls_OccurrenceKey l) s2 s3 \<and> slot_moves env q (ls_OccurrenceKey l) c None s2 s3"
  shows "slot_moves env p key c None s (snd (guarded_by_identity env root l body s))"
proof (cases "checks [validateStoreInput root (ls_WorkspaceID l), validateLeaseIdentity l]")
  case (Inl e)
  then show ?thesis by (auto simp: guarded_by_identity_def intro: slot_moves_same)
next
  case (Inr u)
  obtain r s' where w: "with_lease_guard env root (ls_WorkspaceID l) (ls_JobID l) (ls_OccurrenceKey l) body s = (r, s')"
    by fastforce
  from guarded_slot [OF w, of None c p key] own
  have "slot_moves env p key c None s s'" by auto
  then show ?thesis by (simp only: guarded_by_identity_def Inr w sum.case snd_conv)
qed

lemma publish_leaf:
  assumes "WithCurrentLease env root l now (Some (AppendReceipt env root ws r)) s = (x, s')"
    and "private_path (se_Canonical env) root [''workspaces'', ws0, ''leases'', job0] = Inr p"
    and "m \<noteq> guard_file env (ls_OccurrenceKey l)"
  shows "leaf p m s' = leaf p m s"
proof -
  let ?body = "current_body env l now (AppendReceipt env root ws r)"
  consider "s' = s" | "with_lease_guard env root (ls_WorkspaceID l) (ls_JobID l) (ls_OccurrenceKey l) ?body s = (x, s')"
    using assms(1) by (auto simp: WithCurrentLease_def split: sum.splits if_splits)
  then show ?thesis
  proof cases
    case 2
    then show ?thesis
    proof (cases rule: with_lease_guard_cases)
      case (ran q d s2 s3)
      have "s3 = s2 \<or> AppendReceipt env root ws r s2 = (x, s3)"
        using ran(8) by (auto simp: current_body_def split: sum.splits if_splits)
      then have "leaf p m s3 = leaf p m s2"
        using AppendReceipt_effect(1) lease_path_apart(1) [OF assms(2)] by blast
      then show ?thesis using ran(5,9) assms(3) by simp
    qed (use assms(3) in simp)
  qed simp
qed

theorem perform_slot:
  assumes "private_path (se_Canonical env) root [''workspaces'', ws0, ''leases'', job0] = Inr p"
    and "perform env root c s = (g, s')"
  shows "slot_moves env p key c (granted_at env root p key g) s s'"
proof (cases c)
  case (Acquire ws job k owner now ttl)
  obtain r s1 where t: "TryAcquireLease env root ws job k owner now ttl s = (r, s1)" by fastforce
  then have gs: "g = (case r of Inl e \<Rightarrow> None | Inr l \<Rightarrow> Some l)" "s' = s1"
    using assms(2) Acquire by (auto split: sum.splits)
  show ?thesis
  proof (cases "s1 = s \<and> g = None")
    case False
    then have w: "with_lease_guard env root ws job k (acquire_body env ws job k owner now ttl) s = (r, s1)"
      using t gs by (auto simp: TryAcquireLease_def split: sum.splits)
    show ?thesis
      unfolding gs(2)
    proof (rule guarded_slot [OF w])
      show "g = None" if "r = Inl e" for e using that gs by simp
      show "within_slot env q k s2 s3 \<and> slot_moves env q k c g s2 s3"
        if "dir_at q (fs_entries s2) = Some d" "acquire_body env ws job k owner now ttl q s2 = (r, s3)" for q d s2 s3
        using acquire_moves [OF that(2,1)] gs Acquire by simp
      show "ls_WorkspaceID l = ws \<and> ls_JobID l = job \<and> ls_OccurrenceKey l = k" if "g = Some l" for l
      proof -
        have "r = Inr l" using that gs by (simp split: sum.splits)
        from w this show ?thesis
        proof (cases rule: with_lease_guard_cases)
          case (ran q d s2 s3)
          then show ?thesis using acquire_body_effect(3) [OF ran(8,4) \<open>r = Inr l\<close>] by (auto simp: new_lease_def)
        qed simp
      qed
    qed
  qed (use gs in \<open>auto intro: slot_moves_same\<close>)
next
  case (Release l)
  then show ?thesis
    using assms(2) identity_slot [where env = env and body = "release_body env l" and l = l and c = c and p = p and key = key and s = s and root = root] cleared_moves [where env = env and l = l and c = c] release_body_effect(1)
    by (auto simp: ReleaseLease_def)
next
  case (Arm l)
  then show ?thesis
    using assms(2) identity_slot [where env = env and body = "marker_body env l ''active''" and l = l and c = c and p = p and key = key and s = s and root = root] marked_moves [where env = env and l = l and state = "''active''" and c = c]
    by (auto simp: ArmLease_def writeFenceMarker_def)
next
  case (Quarantine l)
  then show ?thesis
    using assms(2) identity_slot [where env = env and body = "marker_body env l ''quarantined''" and l = l and c = c and p = p and key = key and s = s and root = root]
      marked_moves [where env = env and l = l and state = "''quarantined''" and c = c]
    by (auto simp: QuarantineLease_def writeFenceMarker_def)
next
  case (Recover l now)
  then show ?thesis
    using assms(2) identity_slot [where env = env and body = "recover_body env l" and l = l and c = c and p = p and key = key and s = s and root = root] cleared_moves [where env = env and l = l and c = c] recover_body_effect(1)
    by (auto simp: RecoverQuarantinedLease_def intro: slot_moves_same)
next
  case (Publish l now r)
  then have "WithCurrentLease env root l now (Some (AppendReceipt env root (ls_WorkspaceID l) r)) s
      = (fst (WithCurrentLease env root l now (Some (AppendReceipt env root (ls_WorkspaceID l) r)) s), s')" "g = None"
    using assms(2) by auto
  then show ?thesis using publish_leaf [OF _ assms(1)] by (auto intro: slot_moves_same)
next
  case (Append ws r)
  then have "AppendReceipt env root ws r s = (fst (AppendReceipt env root ws r s), s')" "g = None"
    using assms(2) by auto
  then show ?thesis
    using AppendReceipt_effect(1) [of env root ws r s] lease_path_apart(1) [OF assms(1)] by (auto intro: slot_moves_same)
next
  case (Enroll ws t)
  then have "EnsureEnrollment env root ws t s = (fst (EnsureEnrollment env root ws t s), s')" "g = None"
    using assms(2) by auto
  then show ?thesis
    using EnsureEnrollment_effect(1) [of env root ws t s] lease_path_apart(2) [OF assms(1)] by (auto intro: slot_moves_same)
qed

section \<open>The calls of the scheduler\<close>

text \<open>
  A state is the files and the fence tokens that were drawn so far. A step is one call in an
  environment with the same root and digest and a token that is new, if it draws one, or a
  change of the locks that other processes hold.
\<close>

datatype sched_event = Called lease_call "Lease option" | LocksChanged

inductive sched_step ::
  "string \<Rightarrow> (string \<Rightarrow> sched_error + string) \<Rightarrow> (string \<Rightarrow> string)
    \<Rightarrow> sched_fs \<times> string list \<Rightarrow> sched_event \<Rightarrow> sched_fs \<times> string list \<Rightarrow> bool"
  for root can sha where
  step_call: "se_Canonical env = can \<Longrightarrow> se_SHA256 env = sha \<Longrightarrow> (\<forall>t. se_Token env = Some t \<longrightarrow> t \<notin> set used) \<Longrightarrow>
    perform env root c s = (g, s') \<Longrightarrow>
    sched_step root can sha (s, used) (Called c g) (s', (case se_Token env of None \<Rightarrow> used | Some t \<Rightarrow> t # used))"
| step_locks: "sched_step root can sha (s, used) LocksChanged (s\<lparr>fs_locked := locks\<rparr>, used)"

inductive_cases sched_stepE: "sched_step root can sha st e st'"

definition lease_name :: "(string \<Rightarrow> string) \<Rightarrow> string \<Rightarrow> string" where
  "lease_name sha key = sha key @ ''.json''"

definition marker_name :: "(string \<Rightarrow> string) \<Rightarrow> string \<Rightarrow> string" where
  "marker_name sha key = sha key @ ''.json'' @ ''.quarantine''"

lemma env_names:
  "se_SHA256 env = sha \<Longrightarrow> lease_file env key = lease_name sha key"
  "se_SHA256 env = sha \<Longrightarrow> marker_file env key = marker_name sha key"
  by (auto simp: lease_file_def marker_file_def lease_name_def marker_name_def safeLeaseName_def)

definition slot_path :: "(string \<Rightarrow> sched_error + string) \<Rightarrow> string \<Rightarrow> string \<Rightarrow> string \<Rightarrow> sched_error + string list" where
  "slot_path can root ws job = private_path can root [''workspaces'', ws, ''leases'', job]"

text \<open>
  The marker of an occurrence is there and, if it is legible, carries the token; for no token,
  it is there and illegible.
\<close>

definition stands_for :: "string option \<Rightarrow> document node option \<Rightarrow> bool" where
  "stands_for t nd \<longleftrightarrow> (\<exists>n. nd = Some n \<and> (node_token n = None \<or> node_token n = t))"

definition slot_fenced ::
  "string \<Rightarrow> (string \<Rightarrow> sched_error + string) \<Rightarrow> (string \<Rightarrow> string) \<Rightarrow> string \<Rightarrow> string \<Rightarrow> string
    \<Rightarrow> string option \<Rightarrow> sched_fs \<times> string list \<Rightarrow> bool" where
  "slot_fenced root can sha ws job key t st \<longleftrightarrow>
     (\<exists>p. slot_path can root ws job = Inr p \<and> stands_for t (leaf p (marker_name sha key) (fst st)))"

fun slot_grants :: "(string \<Rightarrow> string) \<Rightarrow> string \<Rightarrow> string \<Rightarrow> string \<Rightarrow> sched_event \<Rightarrow> bool" where
  "slot_grants sha ws job key (Called c (Some l)) \<longleftrightarrow>
     ls_WorkspaceID l = ws \<and> ls_JobID l = job \<and> sha (ls_OccurrenceKey l) = sha key"
| "slot_grants sha ws job key _ \<longleftrightarrow> False"

fun ends_token :: "string option \<Rightarrow> sched_event \<Rightarrow> bool" where
  "ends_token t (Called c g) \<longleftrightarrow> is_clearing c \<and> t \<noteq> None \<and> call_token c = t"
| "ends_token t LocksChanged \<longleftrightarrow> False"

definition slot_holder ::
  "string \<Rightarrow> (string \<Rightarrow> sched_error + string) \<Rightarrow> (string \<Rightarrow> string) \<Rightarrow> string \<Rightarrow> string \<Rightarrow> string
    \<Rightarrow> sched_fs \<times> string list \<Rightarrow> string option" where
  "slot_holder root can sha ws job key st =
     (case slot_path can root ws job of
        Inl e \<Rightarrow> None
      | Inr p \<Rightarrow> (case leaf p (lease_name sha key) (fst st) of Some (File (LeaseDoc l) n) \<Rightarrow> Some (ls_FenceToken l) | _ \<Rightarrow> None))"

lemma step_slot:
  assumes "sched_step root can sha st e st'" "slot_path can root ws job = Inr p"
  obtains (locks) "e = LocksChanged" "fs_entries (fst st') = fs_entries (fst st)" "snd st' = snd st"
  | (call) c g token where "e = Called c g"
    "slot_change c token (if slot_grants sha ws job key e then g else None)
       (leaf p (marker_name sha key) (fst st)) (leaf p (lease_name sha key) (fst st))
       (leaf p (marker_name sha key) (fst st')) (leaf p (lease_name sha key) (fst st'))"
    "\<And>t. token = Some t \<Longrightarrow> t \<notin> set (snd st)" "snd st' = (case token of None \<Rightarrow> snd st | Some t \<Rightarrow> t # snd st)"
  using assms(1)
proof (cases rule: sched_step.cases)
  case (step_call env used c s g s')
  have pp: "private_path (se_Canonical env) root [''workspaces'', ws, ''leases'', job] = Inr p"
    using assms(2) step_call by (simp add: slot_path_def)
  have "granted_at env root p key g = (if slot_grants sha ws job key e then g else None)"
  proof (cases g)
    case (Some l)
    have "private_path (se_Canonical env) root [''workspaces'', ls_WorkspaceID l, ''leases'', ls_JobID l] = Inr p
        \<longleftrightarrow> ls_WorkspaceID l = ws \<and> ls_JobID l = job"
      using pp by (auto simp: private_path_def bind_r_Inr split: if_splits)
    then show ?thesis using Some step_call by (simp add: granted_at_def env_names lease_name_def)
  qed (simp add: step_call)
  with perform_slot [OF pp, of c s g s' key] step_call show ?thesis
    by (intro call [of c g "se_Token env"]) (auto simp: slot_moves_def env_names split: option.split)
next
  case (step_locks s used ls)
  then show ?thesis by (intro locks) simp_all
qed

lemma stands_for_change:
  assumes "slot_change c token g M L M' L'" "stands_for t M"
  shows "g = None" "\<not> (is_clearing c \<and> t \<noteq> None \<and> call_token c = t) \<Longrightarrow> stands_for t M'"
proof -
  obtain n where n: "M = Some n" "node_token n = None \<or> node_token n = t" using assms(2) by (auto simp: stands_for_def)
  show "g = None" using assms(1) n(1) by (cases g) (auto simp: slot_change_def)
  have torn: "node_token TornFile = None" by (simp add: node_token_def)
  assume "\<not> (is_clearing c \<and> t \<noteq> None \<and> call_token c = t)"
  then show "stands_for t M'"
    using assms(1) n torn by (auto simp: slot_change_def stands_for_def has_token_def split: option.splits)
qed

interpretation lease_slot: fenced_holder "sched_step root can sha" "slot_fenced root can sha ws job key"
  "slot_grants sha ws job key" ends_token "slot_holder root can sha ws job key" "\<lambda>st. set (snd st)"
  for root can sha ws job key
proof
  fix st st' :: "sched_fs \<times> string list" and e :: sched_event
  assume step: "sched_step root can sha st e st'"
  show "slot_fenced root can sha ws job key t st'" if "slot_fenced root can sha ws job key t st" "\<not> ends_token t e" for t
  proof -
    from that(1) obtain p where p: "slot_path can root ws job = Inr p" "stands_for t (leaf p (marker_name sha key) (fst st))"
      by (auto simp: slot_fenced_def)
    from step p(1) show ?thesis
    proof (cases rule: step_slot [where key = key])
      case (call c g token)
      then show ?thesis using stands_for_change(2) [OF call(2) p(2)] p(1) that(2) by (auto simp: slot_fenced_def)
    qed (use p in \<open>auto simp: slot_fenced_def\<close>)
  qed
  show "\<not> slot_grants sha ws job key e" if "slot_fenced root can sha ws job key t st" for t
  proof -
    from that obtain p where p: "slot_path can root ws job = Inr p" "stands_for t (leaf p (marker_name sha key) (fst st))"
      by (auto simp: slot_fenced_def)
    from step p(1) show ?thesis
    proof (cases rule: step_slot [where key = key])
      case (call c g token)
      then show ?thesis using stands_for_change(1) [OF call(2) p(2)] by (cases g) (auto split: if_splits)
    qed auto
  qed
  show "set (snd st) \<subseteq> set (snd st')"
    using step by (cases rule: sched_stepE) (auto split: option.splits)
  show "slot_holder root can sha ws job key st' \<noteq> Some t"
    if "t \<in> set (snd st)" "slot_holder root can sha ws job key st \<noteq> Some t" for t
  proof (cases "slot_path can root ws job")
    case (Inr p)
    from step Inr show ?thesis
    proof (cases rule: step_slot [where key = key])
      case (call c g token)
      then show ?thesis using that Inr
        by (auto simp: slot_holder_def slot_change_def decode_lease_def split: option.splits node.splits document.splits if_splits)
    qed (use that Inr in \<open>auto simp: slot_holder_def\<close>)
  qed (simp add: slot_holder_def)
qed

end
