(* ===== verification/SchedLeaseProps.thy ===== *)
theory SchedLeaseProps
  imports SchedRun
begin

text \<open>
  The properties of the leases: what a granted lease needs and leaves, a fence that excludes
  every other worker until its owner or an operator ends it, a superseded lease that can never
  publish again, and a torn marker that nothing removes.
\<close>

section \<open>From calls to the contract of the fence\<close>

lemma TryAcquireLease_ran:
  assumes "TryAcquireLease env root ws job key owner now ttl s = (Inr l, s')"
  obtains p d s2 s3 where "0 < ttl" "ttl \<le> maximum_ttl" "now \<noteq> 0"
    "slot_path (se_Canonical env) root ws job = Inr p" "dir_at p (fs_entries s2) = Some d"
    "\<And>q m. m \<noteq> guard_file env key \<Longrightarrow> leaf q m s2 = leaf q m s"
    "(p, guard_file env key) \<notin> set (fs_locked s)" "fs_locked s2 = (p, guard_file env key) # fs_locked s"
    "acquire_body env ws job key owner now ttl p s2 = (Inr l, s3)" "s' = release_guard p (guard_file env key) s3"
proof -
  let ?checks = "checks [validateStoreInput root ws,
        fail_if (\<not> jobIDPattern job \<or> TrimSpace key = [] \<or> 256 < len key \<or> TrimSpace owner = [] \<or> 128 < len owner)
          (sched_New ''invalid scheduler lease identity''),
        fail_if (is_zero now \<or> ttl \<le> 0 \<or> maximum_ttl < ttl)
          (sched_New ''scheduler lease requires a bounded positive TTL'')]"
  from assms have c: "?checks = Inr ()" "with_lease_guard env root ws job key (acquire_body env ws job key owner now ttl) s = (Inr l, s')"
    by (auto simp: TryAcquireLease_def split: sum.splits)
  from c(1) have t: "0 < ttl" "ttl \<le> maximum_ttl" "now \<noteq> 0" by (auto simp: is_zero_def not_le not_less)
  from c(2) show thesis
  proof (cases rule: with_lease_guard_cases)
    case (ran p d s2 s3)
    then show thesis using that t by (auto simp: slot_path_def)
  qed simp
qed

lemma granted_slot:
  assumes "sched_step root can sha st (Called c (Some l)) st'"
  obtains p where "slot_path can root (ls_WorkspaceID l) (ls_JobID l) = Inr p"
proof -
  from assms obtain env s s' where st: "se_Canonical env = can" "perform env root c s = (Some l, s')"
    by (cases rule: sched_step.cases) auto
  then obtain ws job key owner now ttl where "TryAcquireLease env root ws job key owner now ttl s = (Inr l, s')"
    by (cases c) (auto split: sum.splits prod.splits)
  then show thesis
  proof (cases rule: TryAcquireLease_ran)
    case (1 p d s2 s3)
    then show thesis using acquire_body_effect(3) [OF 1(9,5)] that st by (auto simp: new_lease_def)
  qed
qed

lemma grant_effect:
  assumes "sched_step root can sha st (Called c (Some l)) st'"
  shows "ls_FenceToken l \<in> set (snd st')" "ls_FenceToken l \<notin> set (snd st)"
    "slot_holder root can sha (ls_WorkspaceID l) (ls_JobID l) (ls_OccurrenceKey l) st' = Some (ls_FenceToken l)"
proof -
  obtain p where p: "slot_path can root (ls_WorkspaceID l) (ls_JobID l) = Inr p" using granted_slot [OF assms] .
  from assms p have "ls_FenceToken l \<in> set (snd st') \<and> ls_FenceToken l \<notin> set (snd st)
    \<and> slot_holder root can sha (ls_WorkspaceID l) (ls_JobID l) (ls_OccurrenceKey l) st' = Some (ls_FenceToken l)"
  proof (cases rule: step_slot [where key = "ls_OccurrenceKey l"])
    case (call c' g token)
    then show ?thesis using p by (auto simp: slot_change_def slot_holder_def decode_lease_def)
  qed simp
  then show "ls_FenceToken l \<in> set (snd st')" "ls_FenceToken l \<notin> set (snd st)"
    "slot_holder root can sha (ls_WorkspaceID l) (ls_JobID l) (ls_OccurrenceKey l) st' = Some (ls_FenceToken l)" by auto
qed

lemma armed_fenced:
  assumes "ArmLease env root l s = (Inr (), s1)"
  shows "slot_fenced root (se_Canonical env) (se_SHA256 env) (ls_WorkspaceID l) (ls_JobID l) (ls_OccurrenceKey l)
    (Some (ls_FenceToken l)) (s1, used)"
proof -
  have "with_lease_guard env root (ls_WorkspaceID l) (ls_JobID l) (ls_OccurrenceKey l) (marker_body env l ''active'') s = (Inr (), s1)"
    using assms by (auto simp: ArmLease_def writeFenceMarker_def guarded_by_identity_def split: sum.splits)
  then show ?thesis
  proof (cases rule: with_lease_guard_cases)
    case (ran p d s2 s3)
    then have "has_token (ls_FenceToken l) (leaf p (marker_file env (ls_OccurrenceKey l)) s3)"
      using marker_body_effect(3) by blast
    then show ?thesis
      using ran(3,9) env_names(2) [of env "se_SHA256 env"]
      by (auto simp: slot_fenced_def slot_path_def stands_for_def has_token_def)
  qed simp
qed

text \<open>A lease that is not in its file is never current, and nothing is published.\<close>

lemma not_holder_not_current:
  assumes "slot_holder root (se_Canonical env) (se_SHA256 env) (ls_WorkspaceID l) (ls_JobID l) (ls_OccurrenceKey l) (s, used)
      \<noteq> Some (ls_FenceToken l)"
  obtains e s' where "\<And>f. WithCurrentLease env root l now (Some f) s = (Inl e, s')"
proof -
  let ?guarded = "\<lambda>f. with_lease_guard env root (ls_WorkspaceID l) (ls_JobID l) (ls_OccurrenceKey l) (current_body env l now f) s"
  have body: "\<exists>e. \<forall>f. current_body env l now f p s2 = (Inl e, s2)"
    if p: "slot_path (se_Canonical env) root (ls_WorkspaceID l) (ls_JobID l) = Inr p"
      and same: "leaf p (lease_file env (ls_OccurrenceKey l)) s2 = leaf p (lease_file env (ls_OccurrenceKey l)) s" for p s2
  proof (cases "readLeaseInDirectory env p (lease_file env (ls_OccurrenceKey l)) s2")
    case (Inl e)
    then show ?thesis by (auto simp: current_body_def)
  next
    case (Inr c)
    then obtain n where "leaf p (lease_file env (ls_OccurrenceKey l)) s2 = Some (File (LeaseDoc c) n)" using readLease_ok by blast
    with same have "leaf p (lease_name (se_SHA256 env) (ls_OccurrenceKey l)) s = Some (File (LeaseDoc c) n)"
      by (simp add: env_names)
    then have "ls_FenceToken c \<noteq> ls_FenceToken l" using assms p by (auto simp: slot_holder_def)
    then show ?thesis using Inr by (auto simp: current_body_def sameLeaseIdentity_def)
  qed
  have "\<exists>e s'. \<forall>f. ?guarded f = (Inl e, s')"
  proof (cases "openLeaseDirectory env root (ls_WorkspaceID l) (ls_JobID l) s")
    case (Pair x s1)
    show ?thesis
    proof (cases x)
      case (Inl e)
      then show ?thesis using Pair by (auto simp: with_lease_guard_def)
    next
      case (Inr p)
      then have e: "ensurePrivateTree env root [''workspaces'', ls_WorkspaceID l, ''leases'', ls_JobID l] s = (Inr p, s1)"
        using Pair by (auto simp: openLeaseDirectory_def split: sum.splits if_splits)
      note t = ensurePrivateTree_effect [OF e]
      from t(3) obtain d where d: "dir_at p (fs_entries s1) = Some d"
        and p: "slot_path (se_Canonical env) root (ls_WorkspaceID l) (ls_JobID l) = Inr p" by (auto simp: slot_path_def)
      obtain y s2 where a: "acquireLeaseGuard env p (guard_file env (ls_OccurrenceKey l)) s1 = (y, s2)" by fastforce
      have "leaf p (lease_file env (ls_OccurrenceKey l)) s2 = leaf p (lease_file env (ls_OccurrenceKey l)) s"
        using touches_other [OF acquireLeaseGuard_effect(1) [OF a d], of p "lease_file env (ls_OccurrenceKey l)"] t(1) by simp
      from body [OF p this] obtain e where "\<And>f. current_body env l now f p s2 = (Inl e, s2)" by blast
      then show ?thesis using Pair Inr a by (cases y) (auto simp: with_lease_guard_def)
    qed
  qed
  then obtain e s' where g: "\<And>f. ?guarded f = (Inl e, s')" by blast
  show thesis
  proof (cases "checks [validateStoreInput root (ls_WorkspaceID l), validateLeaseIdentity l]")
    case (Inl x)
    then show thesis by (intro that [of x s]) (simp add: WithCurrentLease_def)
  next
    case (Inr u)
    show thesis
    proof (cases "is_zero now")
      case True
      then show thesis
        by (intro that [of "sched_New ''scheduler lease validation time is required''" s])
          (simp only: WithCurrentLease_def Inr sum.case if_True option.case)
    next
      case False
      then show thesis
        using g by (intro that [of e s']) (simp only: WithCurrentLease_def Inr sum.case if_False option.case)
    qed
  qed
qed

section \<open>Properties\<close>

text \<open>C24: once a worker has armed its lease, no call of any process is granted the same
  occurrence, whatever is called in whatever order with whatever refusals of the operating
  system, and however late, until a call that releases or recovers a lease with its token.\<close>

theorem armed_lease_excludes:
  assumes "ArmLease env root l s = (Inr (), s1)"
    and "run (sched_step root (se_Canonical env) (se_SHA256 env)) (s1, used) es st"
    and "\<forall>e \<in> set es. \<not> ends_token (Some (ls_FenceToken l)) e"
  shows "\<forall>e \<in> set es. \<not> slot_grants (se_SHA256 env) (ls_WorkspaceID l) (ls_JobID l) (ls_OccurrenceKey l) e"
  using lease_slot.fenced_run [OF assms(2) armed_fenced [OF assms(1)] assms(3)] by blast

text \<open>C25: after an occurrence has been granted again, the earlier lease is fenced for good: in
  every later state its publication is refused without being run, at any time of the clock.\<close>

theorem superseded_lease_fenced:
  assumes "run (sched_step root (se_Canonical env) (se_SHA256 env)) st
      (es1 @ Called c (Some l) # es2 @ Called c' (Some l') # es3) (s, used)"
    and "ls_WorkspaceID l' = ls_WorkspaceID l" "ls_JobID l' = ls_JobID l" "ls_OccurrenceKey l' = ls_OccurrenceKey l"
  shows "\<exists>e s'. \<forall>publish. WithCurrentLease env root l now (Some publish) s = (Inl e, s')"
proof -
  let ?step = "sched_step root (se_Canonical env) (se_SHA256 env)"
    and ?holder = "slot_holder root (se_Canonical env) (se_SHA256 env) (ls_WorkspaceID l) (ls_JobID l) (ls_OccurrenceKey l)"
  from assms(1) obtain st1 st2 st3 st4 where steps: "?step st1 (Called c (Some l)) st2" "run ?step st2 es2 st3"
      "?step st3 (Called c' (Some l')) st4" "run ?step st4 es3 (s, used)"
    by (auto simp: run_append run_Cons_iff)
  have t: "ls_FenceToken l \<in> set (snd st2)" using grant_effect(1) [OF steps(1)] .
  have "set (snd st2) \<subseteq> set (snd st3)" using steps(2)
    by (induction rule: run.induct) (use lease_slot.used_step in blast)+
  with t have t3: "ls_FenceToken l \<in> set (snd st3)" by blast
  have "?holder st4 = Some (ls_FenceToken l')" using grant_effect(3) [OF steps(3)] assms(2-4) by simp
  moreover have "ls_FenceToken l' \<noteq> ls_FenceToken l" using grant_effect(2) [OF steps(3)] t3 by auto
  ultimately have "?holder (s, used) \<noteq> Some (ls_FenceToken l)"
    using lease_slot.retired_run [OF steps(4), of "ls_FenceToken l"] t3 lease_slot.used_step [OF steps(3)] by auto
  then show ?thesis by (rule not_holder_not_current) blast
qed

text \<open>What a granted lease needs and leaves. The time to live is positive and at most 15
  minutes, nobody held the guard, there was no fence marker, and there was no lease file or the
  one of an expired lease of the same occurrence; the lease carries the drawn token and is in
  its file, every other file but the guard is as before, and the guard is free again.\<close>

theorem TryAcquireLease_granted:
  assumes "TryAcquireLease env root ws job key owner now ttl s = (Inr l, s')"
  shows "\<exists>p token. slot_path (se_Canonical env) root ws job = Inr p \<and> se_Token env = Some token
    \<and> l = new_lease ws job key owner token now ttl \<and> 0 < ttl \<and> ttl \<le> 15 * minute
    \<and> (p, guard_file env key) \<notin> set (fs_locked s) \<and> leaf p (marker_file env key) s = None
    \<and> (leaf p (lease_file env key) s = None \<or> (\<exists>old n. leaf p (lease_file env key) s = Some (File (LeaseDoc old) n)
          \<and> ls_WorkspaceID old = ws \<and> ls_JobID old = job \<and> ls_OccurrenceKey old = key \<and> ls_ExpiresAt old \<le> now))
    \<and> leaf p (lease_file env key) s' = Some (File (LeaseDoc (decode_lease l)) (file_size (lease_json l)))
    \<and> (\<forall>q m. (q, m) \<noteq> (p, lease_file env key) \<and> m \<noteq> guard_file env key \<longrightarrow> leaf q m s' = leaf q m s)
    \<and> fs_locked s' = fs_locked s"
  using assms
proof (cases rule: TryAcquireLease_ran)
  case (1 p d s2 s3)
  note e = acquire_body_effect [OF 1(9,5)]
  have other: "leaf q m s3 = leaf q m s2" if "(q, m) \<noteq> (p, lease_file env key)" for q m
    using only_other [OF e(1), of q m] that by auto
  have "fs_locked s3 = fs_locked s2" using e(1) by (simp add: only_def)
  then have "fs_locked s' = fs_locked s" using 1(8,10) by (simp add: release_guard_def)
  with e(3) [OF refl] other 1 show ?thesis by (auto simp: maximum_ttl_def)
qed

text \<open>C26: a fence marker torn by an interrupted write is never removed: whatever is called, by
  the owner or by an operator, at whatever time, no call is granted the occurrence any more
  and the marker stays torn or illegible.\<close>

theorem torn_marker_blocks_forever:
  assumes "slot_path can root ws job = Inr p" "leaf p (marker_name sha key) s = Some TornFile"
    and "run (sched_step root can sha) (s, used) es st"
  shows "(\<forall>e \<in> set es. \<not> slot_grants sha ws job key e)
    \<and> (\<exists>n. leaf p (marker_name sha key) (fst st) = Some n \<and> node_token n = None)"
proof -
  have "slot_fenced root can sha ws job key None (s, used)"
    using assms(1,2) by (simp add: slot_fenced_def stands_for_def node_token_def)
  moreover have "\<not> ends_token None e" for e by (cases e) simp_all
  ultimately have "slot_fenced root can sha ws job key None st \<and> (\<forall>e \<in> set es. \<not> slot_grants sha ws job key e)"
    using lease_slot.fenced_run [OF assms(3)] by blast
  then show ?thesis using assms(1) by (auto simp: slot_fenced_def stands_for_def)
qed

end
