(* ===== verification/SchedLeaseDemo.thy ===== *)
theory SchedLeaseDemo
  imports SchedLeaseProps
begin

text \<open>A concrete environment and calls on it, at which the properties of the leases are applied.\<close>

definition demo_refused :: "string \<Rightarrow> refusals" where
  "demo_refused op op' name \<longleftrightarrow> op = op'"

definition demo_senv :: "string \<Rightarrow> string \<Rightarrow> sched_env" where
  "demo_senv token refused = \<lparr>se_Canonical = Inr, se_Refused = demo_refused refused, se_Clock = 0,
     se_Token = Some token, se_SHA256 = (\<lambda>key. ''d1'')\<rparr>"

definition demo_root :: string where "demo_root = ''/data''"
definition demo_token :: string where "demo_token = ''aaaaaaaaaaaaaaaaaaaaaaaaaaaaaaaa''"
definition demo_token2 :: string where "demo_token2 = ''bbbbbbbbbbbbbbbbbbbbbbbbbbbbbbbb''"
definition demo_start :: time where "demo_start = 63907963200 * second"
definition demo_files :: sched_fs where "demo_files = \<lparr>fs_entries = [], fs_locked = []\<rparr>"

definition demo_acquire :: "time \<Rightarrow> lease_call" where
  "demo_acquire now = Acquire ''ws1'' ''daily'' ''key'' ''worker'' now (10 * minute)"

definition demo_lease :: Lease where
  "demo_lease = new_lease ''ws1'' ''daily'' ''key'' ''worker'' demo_token demo_start (10 * minute)"

definition demo_lease2 :: Lease where
  "demo_lease2 = new_lease ''ws1'' ''daily'' ''key'' ''worker'' demo_token2 (demo_start + hour) (10 * minute)"

definition demo_granted :: sched_fs where
  "demo_granted = snd (perform (demo_senv demo_token []) demo_root (demo_acquire demo_start) demo_files)"

definition demo_armed :: sched_fs where
  "demo_armed = snd (perform (demo_senv demo_token []) demo_root (Arm demo_lease) demo_granted)"

definition demo_torn :: sched_fs where
  "demo_torn = snd (perform (demo_senv demo_token ''write'') demo_root (Quarantine demo_lease) demo_armed)"

definition demo_again :: sched_fs where
  "demo_again = snd (perform (demo_senv demo_token2 []) demo_root (demo_acquire (demo_start + hour)) demo_granted)"

lemma demo_granted_value:
  "TryAcquireLease (demo_senv demo_token []) demo_root ''ws1'' ''daily'' ''key'' ''worker'' demo_start (10 * minute) demo_files
    = (Inr demo_lease, demo_granted)"
  by code_simp

lemma demo_armed_value: "ArmLease (demo_senv demo_token []) demo_root demo_lease demo_granted = (Inr (), demo_armed)"
  by code_simp

lemma demo_again_value:
  "perform (demo_senv demo_token2 []) demo_root (demo_acquire (demo_start + hour)) demo_granted = (Some demo_lease2, demo_again)"
  by code_simp

lemma demo_torn_value:
  "slot_path Inr demo_root ''ws1'' ''daily'' = Inr [''data'', ''workspaces'', ''ws1'', ''leases'', ''daily'']
   \<and> leaf [''data'', ''workspaces'', ''ws1'', ''leases'', ''daily''] (marker_name (\<lambda>key. ''d1'') ''key'') demo_torn = Some TornFile"
  by code_simp

lemma demo_senv_simps [simp]:
  "se_Canonical (demo_senv t r) = Inr" "se_SHA256 (demo_senv t r) = (\<lambda>key. ''d1'')" "se_Token (demo_senv t r) = Some t"
  by (simp_all add: demo_senv_def)

lemma demo_lease_step:
  assumes "t \<notin> set used" "perform (demo_senv t r) demo_root c s = (g, s')"
  shows "sched_step demo_root Inr (\<lambda>key. ''d1'') (s, used) (Called c g) (s', t # used)"
  using step_call [of "demo_senv t r" Inr "\<lambda>key. ''d1''" used demo_root c s g s'] assms by simp

lemma demo_run1:
  "t \<notin> set used \<Longrightarrow> run (sched_step demo_root Inr (\<lambda>key. ''d1'')) (s, used)
     [Called c (fst (perform (demo_senv t r) demo_root c s))] (snd (perform (demo_senv t r) demo_root c s), t # used)"
  by (rule run_Cons [OF _ run_Nil], rule demo_lease_step) auto

lemma demo_tokens: "demo_token2 \<noteq> demo_token"
  by (simp add: demo_token_def demo_token2_def)

section \<open>The properties at the example\<close>

text \<open>An hour after the lease was armed, long expired, another worker is still refused.\<close>

theorem armed_lease_excludes_witness:
  "\<not> slot_grants (\<lambda>key. ''d1'') ''ws1'' ''daily'' ''key''
     (Called (demo_acquire (demo_start + hour))
       (fst (perform (demo_senv demo_token2 []) demo_root (demo_acquire (demo_start + hour)) demo_armed)))"
  using armed_lease_excludes [OF demo_armed_value, of "[demo_token]"
      "[Called (demo_acquire (demo_start + hour))
         (fst (perform (demo_senv demo_token2 []) demo_root (demo_acquire (demo_start + hour)) demo_armed))]"
      "(snd (perform (demo_senv demo_token2 []) demo_root (demo_acquire (demo_start + hour)) demo_armed), [demo_token2, demo_token])"]
    demo_run1 [of demo_token2 "[demo_token]" demo_armed "demo_acquire (demo_start + hour)" "[]"] demo_tokens
  by (simp add: demo_acquire_def demo_lease_def new_lease_def)

theorem superseded_lease_fenced_witness:
  "\<exists>e s'. \<forall>publish. WithCurrentLease (demo_senv demo_token []) demo_root demo_lease demo_start (Some publish) demo_again = (Inl e, s')"
proof -
  have "run (sched_step demo_root Inr (\<lambda>key. ''d1'')) (demo_files, [])
      ([] @ Called (demo_acquire demo_start) (Some demo_lease) # [] @ Called (demo_acquire (demo_start + hour)) (Some demo_lease2) # [])
      (demo_again, [demo_token2, demo_token])"
    unfolding append.simps
  proof (rule run_Cons [OF _ run_Cons [OF _ run_Nil]])
    show "sched_step demo_root Inr (\<lambda>key. ''d1'') (demo_files, []) (Called (demo_acquire demo_start) (Some demo_lease)) (demo_granted, [demo_token])"
      using demo_granted_value by (intro demo_lease_step [where r = "[]"]) (simp_all add: demo_acquire_def)
    show "sched_step demo_root Inr (\<lambda>key. ''d1'') (demo_granted, [demo_token])
        (Called (demo_acquire (demo_start + hour)) (Some demo_lease2)) (demo_again, [demo_token2, demo_token])"
      using demo_again_value demo_tokens by (intro demo_lease_step) auto
  qed
  from superseded_lease_fenced [of demo_root "demo_senv demo_token []", simplified demo_senv_simps, OF this] show ?thesis
    by (simp add: demo_lease_def demo_lease2_def new_lease_def)
qed

theorem TryAcquireLease_granted_witness:
  "\<exists>p. leaf p (lease_file (demo_senv demo_token []) ''key'') demo_granted
     = Some (File (LeaseDoc (decode_lease demo_lease)) (file_size (lease_json demo_lease)))"
  using TryAcquireLease_granted [OF demo_granted_value] by blast

text \<open>After a torn rewrite of its marker the owner releases in vain.\<close>

theorem torn_marker_blocks_forever_witness:
  "\<exists>n. leaf [''data'', ''workspaces'', ''ws1'', ''leases'', ''daily''] (marker_name (\<lambda>key. ''d1'') ''key'')
     (snd (perform (demo_senv demo_token2 []) demo_root (Release demo_lease) demo_torn)) = Some n \<and> node_token n = None"
  using torn_marker_blocks_forever [OF demo_torn_value [THEN conjunct1] demo_torn_value [THEN conjunct2]
      demo_run1 [of demo_token2 "[]" demo_torn "Release demo_lease" "[]"]]
  by simp

end
