(* ===== verification/SchedReceipts.thy ===== *)
theory SchedReceipts
  imports SchedFence
begin

text \<open>Receipts are only ever added, and a receipt that was appended is read back.\<close>

lemma walk_found:
  "dir_at p es = Some d \<Longrightarrow> fst (walk (\<lambda>_ _. False) False p es) = Inr ()"
  by (induction p arbitrary: es) (auto simp: Let_def case_prod_unfold split: option.splits node.splits)

lemma secureReadFile_found:
  assumes "dir_at p es = Some d" "validateSecureLeaf m = Inr ()"
    and "leaf_at p m es = Some (File x n)" "n < maximum_file"
  shows "secureReadFile (\<lambda>_ _. False) p m es = Inr (Some x)"
proof -
  have "node_at p m es = Some (File x n)" using assms(3) by (auto simp: leaf_at_def leaf_of_def split: option.splits if_splits)
  then show ?thesis
    using assms(2,4) walk_found [OF assms(1)] by (simp add: secureReadFile_def dir_readFile_def open_regular_def)
qed

lemma writeNewJSON_written:
  assumes "writeNewJSON env p m x j s = (Inr (), s')" "dir_at p (fs_entries s) = Some d"
  shows "validateSecureLeaf m = Inr ()" "leaf p m s = None" "leaf p m s' = Some (File x (file_size j))"
    "\<exists>d'. dir_at p (fs_entries s') = Some d'"
proof -
  have o: "only p m s s'" by (rule writeNewJSON_effect [OF assms])
  obtain es where w: "dir_writeNewFile (se_Refused env) p m x (file_size j) (fs_entries s) = (Inr (), es)" "fs_entries s' = es"
    using assms(1) by (auto simp: writeNewJSON_def secureWriteNewFile_def split: prod.splits if_splits sum.splits)
  show "validateSecureLeaf m = Inr ()" using w(1) by (auto simp: dir_writeNewFile_def split: sum.splits)
  show "leaf p m s = None" "leaf p m s' = Some (File x (file_size j))"
    using dir_writeNewFile_effect(2) [OF assms(2) w(1)] w(2) by auto
  show "\<exists>d'. dir_at p (fs_entries s') = Some d'" by (rule only_dir [OF o assms(2)])
qed

text \<open>C27: a receipt that was appended is valid, took a name that no file had and changed no other
  file; reading it back gives it unchanged, when its text is valid UTF-8, its encoding is
  shorter than a mebibyte and the operating system refuses nothing.\<close>

theorem AppendReceipt_recorded:
  assumes "AppendReceipt env root ws r s = (Inr (), s')"
    and "valid_utf8 (rc_Error r)" "file_size (receipt_json (r\<lparr>rc_SchemaVersion := 1, rc_WorkspaceID := ws\<rparr>)) < 2 ^ 20"
    and "se_Refused env' = (\<lambda>op n. False)"
  shows "\<exists>p. private_path (se_Canonical env) root [''workspaces'', ws, ''receipts'', rc_JobID r] = Inr p
    \<and> validateReceipt r = Inr () \<and> leaf p (receipt_name r) s = None
    \<and> (\<forall>q m. (q, m) \<noteq> (p, receipt_name r) \<longrightarrow> leaf q m s' = leaf q m s)
    \<and> read_receipt env' ws (rc_JobID r) p (receipt_name r) s' = Inr (r\<lparr>rc_SchemaVersion := 0, rc_WorkspaceID := []\<rparr>)"
proof -
  let ?r = "r\<lparr>rc_SchemaVersion := 1, rc_WorkspaceID := ws\<rparr>"
  from assms(1) obtain p s1 where v: "validateReceipt r = Inr ()"
    and e: "ensurePrivateTree env root [''workspaces'', ws, ''receipts'', rc_JobID r] s = (Inr p, s1)"
    and w: "writeNewJSON env p (receipt_name ?r) (ReceiptDoc (decode_receipt ?r)) (receipt_json ?r) s1 = (Inr (), s')"
    by (auto simp: AppendReceipt_def Let_def split: sum.splits prod.splits)
  note t = ensurePrivateTree_effect [OF e]
  from t(3) obtain d where d: "dir_at p (fs_entries s1) = Some d"
    and p: "private_path (se_Canonical env) root [''workspaces'', ws, ''receipts'', rc_JobID r] = Inr p" by blast
  note wr = writeNewJSON_written [OF w d]
  have n: "receipt_name ?r = receipt_name r" by (simp add: receipt_name_def)
  have same: "decode_receipt ?r = ?r" using assms(2) by (cases r) (simp add: decode_receipt_def valid_utf8_def)
  obtain d' where "dir_at p (fs_entries s') = Some d'" using wr(4) by blast
  from secureReadFile_found [OF this wr(1,3)] assms(3,4) same
  have "secureReadFile (se_Refused env') p (receipt_name r) (fs_entries s') = Inr (Some (ReceiptDoc ?r))"
    by (simp add: n maximum_file_def)
  moreover have "validateReceipt ?r = Inr ()" using v by (simp add: validateReceipt_ok)
  ultimately have "read_receipt env' ws (rc_JobID r) p (receipt_name r) s' = Inr (r\<lparr>rc_SchemaVersion := 0, rc_WorkspaceID := []\<rparr>)"
    by (simp add: read_receipt_def decode_as_def)
  moreover have "leaf q m s' = leaf q m s" if "(q, m) \<noteq> (p, receipt_name r)" for q m
    using only_other [OF writeNewJSON_effect [OF w d], of q m] that t(1) n by auto
  ultimately show ?thesis using p v wr(2) t(1) n by auto
qed

definition demo_receipt :: Receipt where
  "demo_receipt = \<lparr>rc_SchemaVersion = 0, rc_WorkspaceID = [], rc_JobID = ''daily'', rc_ScheduledFor = 63907963200 * second,
     rc_AttemptedAt = 63907963260 * second, rc_State = Failed, rc_Error = ''no collector''\<rparr>"

definition demo_store_env :: sched_env where
  "demo_store_env = \<lparr>se_Canonical = Inr, se_Refused = (\<lambda>op n. False), se_Clock = 0, se_Token = None, se_SHA256 = (\<lambda>key. ''d1'')\<rparr>"

definition demo_store :: sched_fs where
  "demo_store = snd (AppendReceipt demo_store_env ''/data'' ''ws1'' demo_receipt \<lparr>fs_entries = [], fs_locked = []\<rparr>)"

lemma demo_receipt_appended:
  "AppendReceipt demo_store_env ''/data'' ''ws1'' demo_receipt \<lparr>fs_entries = [], fs_locked = []\<rparr> = (Inr (), demo_store)"
  by code_simp

lemma demo_receipt_size:
  "file_size (receipt_json (demo_receipt\<lparr>rc_SchemaVersion := 1, rc_WorkspaceID := ''ws1''\<rparr>)) < 2 ^ 20"
  by code_simp

theorem AppendReceipt_recorded_witness:
  "\<exists>p. read_receipt demo_store_env ''ws1'' ''daily'' p (receipt_name demo_receipt) demo_store = Inr demo_receipt"
proof -
  have "valid_utf8 (rc_Error demo_receipt)" by code_simp
  from AppendReceipt_recorded [OF demo_receipt_appended this demo_receipt_size, of demo_store_env]
  show ?thesis by (auto simp: demo_store_env_def demo_receipt_def)
qed

end
