(* ===== verification/GoText.thy ===== *)
theory GoText
  imports GoStrings
begin

text \<open>
  Two more parts of the standard library on byte strings: \<open>strings.Fields\<close> and the encoding and
  decoding of package \<open>encoding/hex\<close>.
\<close>

section \<open>strings.Fields\<close>

text \<open>The current field is kept backwards; a space ends it when it is not empty.\<close>

definition flush_field :: "string \<Rightarrow> string list \<Rightarrow> string list" where
  "flush_field current fields = (if current = [] then fields else rev current # fields)"

lemma strip_space_shorter: "strip_one space_encodings s = Some t \<Longrightarrow> length t < length s"
  by (rule strip_one_length) (auto simp: space_encodings_def)

function fields_from :: "string \<Rightarrow> string \<Rightarrow> string list" where
  "fields_from current s =
     (case s of
        [] \<Rightarrow> flush_field current []
      | c # cs \<Rightarrow>
          (case strip_one space_encodings s of
             Some t \<Rightarrow> flush_field current (fields_from [] t)
           | None \<Rightarrow> fields_from (c # current) cs))"
  by pat_completeness auto
termination
  by (relation "measure (\<lambda>(current, s). length s)") (auto dest: strip_space_shorter)

declare fields_from.simps [simp del]

definition Fields :: "string \<Rightarrow> string list" where
  "Fields s = fields_from [] s"

lemma fields_from_Nil [simp]: "fields_from current [] = flush_field current []"
  by (simp add: fields_from.simps)

lemma fields_from_space: "strip_one space_encodings (c # cs) = Some t \<Longrightarrow>
    fields_from current (c # cs) = flush_field current (fields_from [] t)"
  by (simp add: fields_from.simps)

lemma fields_from_other: "strip_one space_encodings (c # cs) = None \<Longrightarrow>
    fields_from current (c # cs) = fields_from (c # current) cs"
  by (simp add: fields_from.simps)

text \<open>A byte that begins no space.\<close>

definition word_char :: "char \<Rightarrow> bool" where
  "word_char c \<longleftrightarrow> c \<notin> set (map hd space_encodings)"

lemma word_char_no_space: "word_char c \<Longrightarrow> strip_one space_encodings (c # cs) = None"
  by (auto simp: word_char_def strip_one_def find_None_iff has_prefix_iff space_encodings_def)

lemma fields_from_word: "list_all word_char w \<Longrightarrow> fields_from current (w @ s) = fields_from (rev w @ current) s"
  by (induction w arbitrary: current) (simp_all add: fields_from_other word_char_no_space)

lemma strip_blank: "strip_one space_encodings (CHR '' '' # s) = Some s"
  by (simp add: strip_one_def space_encodings_def has_prefix_def)

lemma Fields_Cons:
  "list_all word_char w \<Longrightarrow> w \<noteq> [] \<Longrightarrow> Fields (w @ CHR '' '' # s) = w # Fields s"
  by (simp add: Fields_def fields_from_word fields_from_space [OF strip_blank] flush_field_def)

lemma Fields_word: "list_all word_char w \<Longrightarrow> w \<noteq> [] \<Longrightarrow> Fields w = [w]"
  using fields_from_word [of w "[]" "[]"] by (simp add: Fields_def flush_field_def)

lemma Fields_not_Nil: "w \<in> set (fields_from current s) \<Longrightarrow> w \<noteq> []"
proof (induction current s rule: fields_from.induct)
  case (1 current s)
  show ?case
  proof (cases s)
    case Nil
    with "1.prems" show ?thesis by (auto simp: flush_field_def split: if_splits)
  next
    case (Cons c cs)
    show ?thesis
    proof (cases "strip_one space_encodings s")
      case None
      with 1 Cons show ?thesis by (simp add: fields_from_other)
    next
      case (Some t)
      with 1 Cons show ?thesis by (auto simp: fields_from_space flush_field_def split: if_splits)
    qed
  qed
qed

text \<open>Trimming takes nothing from a text whose ends are no spaces.\<close>

lemma strip_all_None: "strip_one encs s = None \<Longrightarrow> strip_all encs n s = s"
  by (cases n) auto

definition inner_char :: "char \<Rightarrow> bool" where
  "inner_char c \<longleftrightarrow> c \<notin> set (map last space_encodings)"

lemma inner_char_no_space: "inner_char c \<Longrightarrow> strip_one (map rev space_encodings) (c # cs) = None"
  by (auto simp: inner_char_def strip_one_def find_None_iff has_prefix_iff space_encodings_def)

lemma TrimSpace_ends:
  assumes "s \<noteq> []" "word_char (hd s)" "inner_char (last s)"
  shows "TrimSpace s = s"
proof -
  have "trim_left s = s"
    using assms word_char_no_space [of "hd s" "tl s"] by (simp add: trim_left_def strip_all_None)
  moreover have "trim_right s = s"
    using assms inner_char_no_space [of "last s" "rev (butlast s)"]
    by (cases s rule: rev_cases) (simp_all add: trim_right_def strip_all_None)
  ultimately show ?thesis by (simp add: TrimSpace_def)
qed

section \<open>Hexadecimal text\<close>

definition hex_nibble :: "nat \<Rightarrow> char" where
  "hex_nibble n = (if n < 10 then char_of (48 + n) else char_of (87 + n))"

definition EncodeToString :: "string \<Rightarrow> string" where
  "EncodeToString bs = concat (map (\<lambda>b. [hex_nibble (byte_of b div 16), hex_nibble (byte_of b mod 16)]) bs)"

definition nibble_value :: "char \<Rightarrow> nat option" where
  "nibble_value c =
     (if is_digit c then Some (byte_of c - 48)
      else if is_hex c then Some (byte_of (to_lower c) - 87)
      else None)"

fun DecodeString :: "string \<Rightarrow> nat list option" where
  "DecodeString [] = Some []"
| "DecodeString [c] = None"
| "DecodeString (c # d # cs) =
     (case (nibble_value c, nibble_value d, DecodeString cs) of
        (Some h, Some l, Some bs) \<Rightarrow> Some ((16 * h + l) # bs)
      | _ \<Rightarrow> None)"

lemma byte_of_less: "byte_of c < 256"
  using of_char_mod_256 [where 'a = nat] by (metis byte_of_def mod_less_divisor zero_less_numeral)

lemma byte_of_char_of: "n < 256 \<Longrightarrow> byte_of (char_of n) = n"
  by (simp add: byte_of_def)

lemma byte_of_inject: "byte_of c = byte_of d \<longleftrightarrow> c = d"
  by (simp add: byte_of_def)

lemma hex_nibble_value: "n < 16 \<Longrightarrow> nibble_value (hex_nibble n) = Some n"
  by (auto simp: nibble_value_def hex_nibble_def is_digit_def is_hex_def is_lower_hex_def to_lower_def is_upper_def byte_of_char_of)

lemma hex_nibble_lower: "n < 16 \<Longrightarrow> is_lower_hex (hex_nibble n)"
  by (auto simp: hex_nibble_def is_lower_hex_def is_digit_def byte_of_char_of)

lemma DecodeString_EncodeToString: "DecodeString (EncodeToString bs) = Some (map byte_of bs)"
proof (induction bs)
  case (Cons b bs)
  have "byte_of b div 16 < 16" using byte_of_less [of b] by simp
  then show ?case using Cons by (simp add: EncodeToString_def hex_nibble_value)
qed (simp add: EncodeToString_def)

lemma EncodeToString_inject: "EncodeToString bs = EncodeToString bs' \<longleftrightarrow> bs = bs'"
proof
  assume "EncodeToString bs = EncodeToString bs'"
  then have "map byte_of bs = map byte_of bs'" by (metis DecodeString_EncodeToString option.inject)
  moreover have "inj byte_of" by (simp add: inj_def byte_of_inject)
  ultimately show "bs = bs'" by (simp add: inj_map_eq_map)
qed simp

lemma length_EncodeToString: "length (EncodeToString bs) = 2 * length bs"
  by (induction bs) (simp_all add: EncodeToString_def)

lemma EncodeToString_lower: "list_all is_lower_hex (EncodeToString bs)"
proof (induction bs)
  case (Cons b bs)
  have "byte_of b div 16 < 16" using byte_of_less [of b] by simp
  then show ?case using Cons by (simp add: EncodeToString_def hex_nibble_lower)
qed (simp add: EncodeToString_def)

lemma lower_hex_ascii: "list_all is_lower_hex s \<Longrightarrow> is_ascii s"
  by (auto simp: is_ascii_def list_all_iff is_lower_hex_def is_digit_def)

lemma EncodeToString_ascii [simp]: "is_ascii (EncodeToString bs)"
  by (rule lower_hex_ascii [OF EncodeToString_lower])

lemma lower_hex_word: "is_lower_hex c \<Longrightarrow> word_char c \<and> inner_char c"
  by (auto simp: word_char_def inner_char_def space_encodings_def is_lower_hex_def is_digit_def byte_of_def)

lemma DecodeString_defined: "DecodeString s \<noteq> None \<longleftrightarrow> hex_decodable s"
proof (induction s rule: DecodeString.induct)
  case (3 c d cs)
  have "nibble_value x \<noteq> None \<longleftrightarrow> is_hex x" for x
    by (auto simp: nibble_value_def is_hex_def is_lower_hex_def)
  from this [of c] this [of d] show ?case
    using 3 by (cases "nibble_value c"; cases "nibble_value d"; cases "DecodeString cs") (auto simp: hex_decodable_def)
qed (simp_all add: hex_decodable_def)

end
