(* ===== verification/ConfAction.thy ===== *)
theory ConfAction
  imports GoText GoJson
begin

text \<open>
  \<open>internal/actionconfirmation/action.go\<close>: which tool calls are external actions that need a
  confirmation. The shell grammar, the git, gh and curl rules and the rule for protected tools
  are written as in the source; SHA-256, case mapping of text that is not ASCII and the form
  \<open>encoding/json\<close> gives a number are fields of \<open>action_lib\<close>.
\<close>

record Action =
  ac_Action :: string
  ac_Target :: string
  ac_InputDigest :: string

record action_lib =
  al_SHA256 :: "string \<Rightarrow> string"
  al_Lower :: "string \<Rightarrow> string"
  al_Upper :: "string \<Rightarrow> string"
  al_Number :: "string \<Rightarrow> string option"

definition lower_text :: "action_lib \<Rightarrow> string \<Rightarrow> string" where
  "lower_text lib s = (if is_ascii s then map to_lower s else al_Lower lib s)"

definition upper_text :: "action_lib \<Rightarrow> string \<Rightarrow> string" where
  "upper_text lib s = (if is_ascii s then map to_upper s else al_Upper lib s)"

definition digest :: "action_lib \<Rightarrow> string \<Rightarrow> string" where
  "digest lib s = EncodeToString (al_SHA256 lib s)"

definition validateDigest :: "string \<Rightarrow> go_error + unit" where
  "validateDigest s =
     (if length s \<noteq> 64 then Inl (errors_New ''invalid canonical input digest'')
      else case DecodeString s of None \<Rightarrow> Inl (errors_New ''encoding/hex: invalid byte'') | Some _ \<Rightarrow> Inr ())"

section \<open>Simple commands\<close>

definition outside_quotes :: "char \<Rightarrow> bool" where
  "outside_quotes c \<longleftrightarrow> c \<in> {CHR 0x0D, CHR 0x0A, CHR 0x5C, CHR '';'', CHR ''|'', CHR ''&'', CHR ''<'', CHR ''>'',
     CHR 0x60, CHR ''$'', CHR ''*'', CHR ''?'', CHR ''['', CHR '']'', CHR ''{'', CHR ''}''}"

definition expansion :: "char \<Rightarrow> bool" where
  "expansion c \<longleftrightarrow> c = CHR 0x5C \<or> c = CHR 0x60 \<or> c = CHR ''$''"

definition is_quote :: "char \<Rightarrow> bool" where
  "is_quote c \<longleftrightarrow> c = CHR 0x27 \<or> c = CHR 0x22"

definition is_blank :: "char \<Rightarrow> bool" where
  "is_blank c \<longleftrightarrow> c = CHR '' '' \<or> c = CHR 0x09"

definition flush :: "string list \<Rightarrow> string \<Rightarrow> string list" where
  "flush words current = (if current = [] then words else words @ [current])"

text \<open>The loop of \<open>splitSimpleCommand\<close>: the fields so far, the current one, the open quote.\<close>

fun split_loop :: "string list \<Rightarrow> string \<Rightarrow> char option \<Rightarrow> string \<Rightarrow> go_error + string list" where
  "split_loop words current (Some q) [] = Inl (errors_New ''command contains an unterminated quote'')"
| "split_loop words current None [] = Inr (flush words current)"
| "split_loop words current (Some q) (c # cs) =
     (if c = q then split_loop words current None cs
      else if expansion c then Inl (errors_New ''command expansion is outside the bounded grammar'')
      else split_loop words (current @ [c]) (Some q) cs)"
| "split_loop words current None (c # cs) =
     (if is_quote c then split_loop words current (Some c) cs
      else if is_blank c then split_loop (flush words current) [] None cs
      else if outside_quotes c then Inl (errors_New ''command is outside the bounded simple-command grammar'')
      else split_loop words (current @ [c]) None cs)"

definition splitSimpleCommand :: "string \<Rightarrow> go_error + string list" where
  "splitSimpleCommand command = split_loop [] [] None command"

section \<open>Rules for programs\<close>

definition shellAction :: "action_lib \<Rightarrow> string \<Rightarrow> string \<Rightarrow> string list \<Rightarrow> Action" where
  "shellAction lib action target words =
     \<lparr>ac_Action = action, ac_Target = target, ac_InputDigest = digest lib (join_with [CHR 0x00] words)\<rparr>"

fun git_positional :: "string list \<Rightarrow> go_error + string list" where
  "git_positional [] = Inr []"
| "git_positional (a # as) =
     (if a \<in> {''-u'', ''--set-upstream'', ''--force'', ''--force-with-lease''} then git_positional as
      else if has_prefix a ''-'' then Inl (errors_New ''git push option is outside the bounded grammar'')
      else bind_r (git_positional as) (\<lambda>ps. Inr (a # ps)))"

definition gitPushTarget :: "string list \<Rightarrow> go_error + string \<times> string" where
  "gitPushTarget arguments =
     bind_r (git_positional arguments) (\<lambda>ps.
       case ps of
         [remote, ref] \<Rightarrow>
           if remote = [] \<or> ref = [] then Inl (errors_New ''git push requires an explicit remote and refspec'')
           else Inr (remote, ref)
       | _ \<Rightarrow> Inl (errors_New ''git push requires an explicit remote and refspec''))"

fun flag_at :: "string list \<Rightarrow> string \<Rightarrow> string list \<Rightarrow> string option" where
  "flag_at [] field rest = None"
| "flag_at (name # names) field rest =
     (if field = name \<and> rest \<noteq> [] then Some (hd rest)
      else if has_prefix field (name @ ''='') then Some (trim_prefix field (name @ ''=''))
      else flag_at names field rest)"

fun flagValue :: "string list \<Rightarrow> string list \<Rightarrow> string" where
  "flagValue names [] = []"
| "flagValue names (field # rest) =
     (case flag_at names field rest of Some v \<Rightarrow> v | None \<Rightarrow> flagValue names rest)"

definition gh_actions :: "(string \<times> string) list" where
  "gh_actions =
    [(''pr create'', ''github.pull_request.create''), (''pr merge'', ''github.pull_request.merge''),
     (''release create'', ''github.release.create''), (''release upload'', ''github.release.upload''),
     (''issue create'', ''github.issue.create''), (''issue comment'', ''github.issue.comment'')]"

definition gh_with_subject :: "string list" where
  "gh_with_subject = [''github.pull_request.merge'', ''github.release.create'', ''github.release.upload'',
     ''github.issue.comment'']"

definition canonicalGH :: "action_lib \<Rightarrow> string list \<Rightarrow> go_error + Action option" where
  "canonicalGH lib words =
     (if length words < 3 then Inr None
      else case map_of gh_actions (words ! 1 @ '' '' @ words ! 2) of
        None \<Rightarrow> Inr None
      | Some name \<Rightarrow>
          let repository = flagValue [''--repo''] (drop 3 words)
          in if repository = [] then Inl (errors_New ''protected gh command requires explicit --repo target'')
             else Inr (Some (shellAction lib name
               (repository @ (if name \<in> set gh_with_subject \<and> 3 < length words \<and> \<not> has_prefix (words ! 3) ''-''
                              then '':'' @ words ! 3 else [])) words)))"

definition https_target :: "string list \<Rightarrow> string" where
  "https_target words = foldl (\<lambda>target field. if has_prefix field ''https://'' then field else target) [] words"

definition canonicalCurl :: "action_lib \<Rightarrow> string list \<Rightarrow> go_error + Action option" where
  "canonicalCurl lib words =
     (let method = upper_text lib (flagValue [''-X'', ''--request''] (drop 1 words))
      in if method \<notin> {''POST'', ''PUT'', ''PATCH'', ''DELETE''} then Inr None
         else let target = https_target (drop 1 words)
              in if target = [] then Inl (errors_New ''mutating curl requires an explicit HTTPS target'')
                 else Inr (Some (shellAction lib (''http.'' @ lower_text lib method) target words)))"

definition looksProtectedShell :: "action_lib \<Rightarrow> string \<Rightarrow> bool" where
  "looksProtectedShell lib command =
     (let lower = lower_text lib command
      in list_ex (contains_sub lower) [''git push'', ''gh pr create'', ''gh pr merge'', ''gh release create'',
           ''gh release upload'', ''gh issue create'', ''gh issue comment'']
         \<or> contains_sub lower ''curl'' \<and> list_ex (contains_sub lower) ['' post'', '' put'', '' patch'', '' delete''])"

definition executable_name :: "string \<Rightarrow> string" where
  "executable_name field = trim_prefix (trim_prefix field ''/usr/bin/'') ''/opt/homebrew/bin/''"

definition canonicalShellAction :: "action_lib \<Rightarrow> string \<Rightarrow> go_error + Action option" where
  "canonicalShellAction lib command =
     (case splitSimpleCommand command of
        Inl _ \<Rightarrow>
          if looksProtectedShell lib command
          then Inl (errors_New ''protected external command is outside the bounded grammar'') else Inr None
      | Inr words \<Rightarrow>
          if length words < 2 then Inr None
          else let executable = executable_name (words ! 0)
          in if executable = ''git'' then
               (if words ! 1 \<noteq> ''push'' then Inr None
                else bind_r (gitPushTarget (drop 2 words)) (\<lambda>(remote, ref).
                       Inr (Some (shellAction lib ''git.push'' (remote @ '':'' @ ref) words))))
             else if executable = ''gh'' then canonicalGH lib words
             else if executable = ''curl'' then canonicalCurl lib words
             else Inr None)"

section \<open>Tool input\<close>

text \<open>A JSON value as its tokens give it: fields in their order, numbers as written.\<close>

datatype json_value =
    VNull
  | VBool bool
  | VNumber string
  | VString string
  | VArray "json_value list"
  | VObject "(string \<times> json_value) list"

text \<open>The bytes of a tool input: none, no JSON, or a first value that more values follow or not.\<close>

datatype raw_input = NoBytes | NotJSON | OneValue json_value | ManyValues json_value

lemma size_value_field [termination_simp]:
  "(k, v) \<in> set fs \<Longrightarrow> size v < Suc (size_list (size_prod (\<lambda>_. 0) size) fs)"
  by (induction fs) auto

fun duplicate_keys :: "json_value \<Rightarrow> bool" where
  "duplicate_keys (VArray vs) = list_ex duplicate_keys vs"
| "duplicate_keys (VObject fs) = (\<not> distinct (map fst fs) \<or> list_ex (\<lambda>(k, v). duplicate_keys v) fs)"
| "duplicate_keys _ = False"

definition rejectDuplicateKeys :: "raw_input \<Rightarrow> go_error + unit" where
  "rejectDuplicateKeys raw =
     (case raw of
        OneValue v \<Rightarrow> fail_if (duplicate_keys v) (errors_New ''JSON object contains a duplicate key'')
      | ManyValues v \<Rightarrow>
          if duplicate_keys v then Inl (errors_New ''JSON object contains a duplicate key'')
          else Inl (errors_New ''tool input contains multiple JSON values'')
      | _ \<Rightarrow> Inl (errors_New ''EOF''))"

text \<open>\<open>json.Unmarshal\<close> into a map: a number may be out of the range of a float.\<close>

fun numbers_fit :: "action_lib \<Rightarrow> json_value \<Rightarrow> bool" where
  "numbers_fit lib (VNumber n) \<longleftrightarrow> al_Number lib n \<noteq> None"
| "numbers_fit lib (VArray vs) \<longleftrightarrow> list_all (numbers_fit lib) vs"
| "numbers_fit lib (VObject fs) \<longleftrightarrow> list_all (\<lambda>(k, v). numbers_fit lib v) fs"
| "numbers_fit lib _ \<longleftrightarrow> True"

definition unmarshal_map :: "action_lib \<Rightarrow> json_value \<Rightarrow> (string \<times> json_value) list option" where
  "unmarshal_map lib v =
     (case v of
        VNull \<Rightarrow> Some []
      | VObject fs \<Rightarrow> if numbers_fit lib v then Some fs else None
      | _ \<Rightarrow> None)"

text \<open>\<open>json.Marshal\<close> of the map: keys in the order of their bytes.\<close>

fun canonical_json :: "action_lib \<Rightarrow> json_value \<Rightarrow> string" where
  "canonical_json lib VNull = ''null''"
| "canonical_json lib (VBool b) = (if b then ''true'' else ''false'')"
| "canonical_json lib (VNumber n) = (case al_Number lib n of None \<Rightarrow> n | Some t \<Rightarrow> t)"
| "canonical_json lib (VString s) = json_quote s"
| "canonical_json lib (VArray vs) = ''['' @ join_with '','' (map (canonical_json lib) vs) @ '']''"
| "canonical_json lib (VObject fs) =
     ''{'' @ join_with '','' (map (\<lambda>(k, t). json_quote k @ '':'' @ t)
        (sort_key fst (map (\<lambda>(k, v). (k, canonical_json lib v)) fs))) @ ''}''"

definition string_value :: "(string \<times> json_value) list \<Rightarrow> string \<Rightarrow> string option" where
  "string_value fs key = (case map_of fs key of Some (VString s) \<Rightarrow> Some s | _ \<Rightarrow> None)"

fun firstString :: "(string \<times> json_value) list \<Rightarrow> string list \<Rightarrow> string" where
  "firstString fs [] = []"
| "firstString fs (key # keys) =
     (case string_value fs key of
        Some s \<Rightarrow> if TrimSpace s \<noteq> [] then TrimSpace s else firstString fs keys
      | None \<Rightarrow> firstString fs keys)"

definition protected_tools :: "(string \<times> string) list" where
  "protected_tools =
    [(''mcp__github__create_pull_request'', ''github.pull_request.create''),
     (''mcp__github__merge_pull_request'', ''github.pull_request.merge''),
     (''mcp__outlook_email__send_email'', ''email.send''),
     (''mcp__teams__send_message'', ''teams.message.send''),
     (''mcp__slack__send_message'', ''slack.message.send'')]"

definition protectedToolAction :: "string \<Rightarrow> string" where
  "protectedToolAction toolName = (case map_of protected_tools toolName of None \<Rightarrow> [] | Some name \<Rightarrow> name)"

definition not_canonical :: go_error where
  "not_canonical = errors_New ''tool input is not canonical JSON''"

definition protected_tool :: "action_lib \<Rightarrow> string \<Rightarrow> (string \<times> json_value) list \<Rightarrow> go_error + Action option" where
  "protected_tool lib actionName input =
     (let target = firstString input [''target'', ''repository'', ''repo'', ''channel'', ''recipient'', ''to'', ''url'']
      in if target = [] then Inl (errors_New ''protected external tool request has no canonical target'')
         else Inr (Some \<lparr>ac_Action = actionName, ac_Target = target,
           ac_InputDigest = digest lib (canonical_json lib (VObject input))\<rparr>))"

definition unmarshal_raw :: "action_lib \<Rightarrow> raw_input \<Rightarrow> (string \<times> json_value) list option" where
  "unmarshal_raw lib raw = (case raw of OneValue v \<Rightarrow> unmarshal_map lib v | _ \<Rightarrow> None)"

definition Canonicalize :: "action_lib \<Rightarrow> string \<Rightarrow> raw_input \<Rightarrow> go_error + Action option" where
  "Canonicalize lib toolName raw =
     (if toolName \<noteq> ''Bash'' \<and> protectedToolAction toolName = [] then Inr None
      else if toolName = ''Bash'' \<and> (raw = NoBytes \<or> raw = OneValue VNull) then Inr None
      else case rejectDuplicateKeys raw of
        Inl _ \<Rightarrow> Inl not_canonical
      | Inr _ \<Rightarrow>
          (case unmarshal_raw lib raw of
             None \<Rightarrow> if toolName = ''Bash'' then Inr None else Inl not_canonical
           | Some input \<Rightarrow>
               if toolName = ''Bash'' then
                 (case string_value input ''command'' of
                    None \<Rightarrow> Inr None
                  | Some command \<Rightarrow> if TrimSpace command = [] then Inr None else canonicalShellAction lib command)
               else protected_tool lib (protectedToolAction toolName) input))"

section \<open>Quoting and splitting\<close>

text \<open>A field that can be written between single quotes.\<close>

definition quotable :: "string \<Rightarrow> bool" where
  "quotable w \<longleftrightarrow> w \<noteq> [] \<and> list_all (\<lambda>c. c \<noteq> CHR 0x27 \<and> \<not> expansion c) w"

definition quoted :: "string \<Rightarrow> string" where
  "quoted w = CHR 0x27 # w @ [CHR 0x27]"

text \<open>A word that needs no quotes.\<close>

definition simple_char :: "char \<Rightarrow> bool" where
  "simple_char c \<longleftrightarrow> \<not> is_quote c \<and> \<not> is_blank c \<and> \<not> outside_quotes c"

definition simple_word :: "string \<Rightarrow> bool" where
  "simple_word w \<longleftrightarrow> w \<noteq> [] \<and> list_all simple_char w"

lemma split_word:
  "list_all simple_char w \<Longrightarrow> split_loop words current None (w @ s) = split_loop words (current @ w) None s"
  by (induction w arbitrary: current) (auto simp: simple_char_def)

lemma split_quoted:
  "list_all (\<lambda>c. c \<noteq> CHR 0x27 \<and> \<not> expansion c) w \<Longrightarrow>
   split_loop words current (Some CHR 0x27) (w @ CHR 0x27 # s) = split_loop words (current @ w) None s"
  by (induction w arbitrary: current) auto

lemma split_blank: "split_loop words current None (CHR '' '' # s) = split_loop (flush words current) [] None s"
  by (simp add: is_quote_def is_blank_def)

lemma split_quote: "split_loop words current None (CHR 0x27 # s) = split_loop words current (Some CHR 0x27) s"
  by (simp add: is_quote_def)

lemma split_quoted_fields:
  "list_all quotable ws \<Longrightarrow>
   split_loop words [] None (join_with '' '' (map quoted ws)) = Inr (words @ ws)"
proof (induction ws arbitrary: words)
  case (Cons w ws)
  then have w: "list_all (\<lambda>c. c \<noteq> CHR 0x27 \<and> \<not> expansion c) w" "w \<noteq> []" by (simp_all add: quotable_def)
  show ?case
  proof (cases ws)
    case Nil
    then show ?thesis using w split_quoted [OF w(1), of words "[]" "[]"]
      by (simp add: quoted_def split_quote flush_def del: split_loop.simps(4))
  next
    case (Cons v vs)
    then have "join_with '' '' (map quoted (w # ws)) = CHR 0x27 # w @ CHR 0x27 # CHR '' '' # join_with '' '' (map quoted ws)"
      by (simp add: quoted_def)
    then show ?thesis
      using w split_quoted [OF w(1), of words "[]"] Cons.IH [of "words @ [w]"] Cons.prems
      by (simp add: split_quote split_blank flush_def del: split_loop.simps(4))
  qed
qed (simp add: flush_def)

text \<open>Quoting the fields of a command between single quotes and splitting it gives them back.\<close>

lemma split_quoted_command:
  assumes "list_all quotable ws"
  shows "splitSimpleCommand (join_with '' '' (map quoted ws)) = Inr ws"
  using split_quoted_fields [OF assms, of "[]"] by (simp add: splitSimpleCommand_def)

lemma split_simple_fields:
  "list_all simple_word ws \<Longrightarrow> ws \<noteq> [] \<Longrightarrow>
   split_loop words [] None (join_with '' '' ws) = Inr (words @ ws)"
proof (induction ws arbitrary: words)
  case (Cons w ws)
  then have w: "list_all simple_char w" "w \<noteq> []" by (simp_all add: simple_word_def)
  show ?case
  proof (cases ws)
    case Nil
    then show ?thesis using w split_word [OF w(1), of words "[]" "[]"] by (simp add: flush_def)
  next
    case (Cons v vs)
    then show ?thesis
      using w split_word [OF w(1), of words "[]"] Cons.IH [of "words @ [w]"] Cons.prems
      by (simp add: split_blank flush_def del: split_loop.simps(4))
  qed
qed simp

lemma split_simple:
  "list_all simple_word ws \<Longrightarrow> splitSimpleCommand (join_with '' '' ws) = Inr ws"
  by (cases "ws = []") (simp_all add: splitSimpleCommand_def split_simple_fields flush_def)

section \<open>What is protected\<close>

lemma git_positional_ok: "git_positional as = Inr ps \<Longrightarrow> set ps \<subseteq> set as \<and> list_all (\<lambda>p. \<not> has_prefix p ''-'') ps"
  by (induction as arbitrary: ps) (auto simp: bind_r_Inr split: if_splits)

lemma gitPushTarget_ok:
  assumes "gitPushTarget as = Inr (remote, ref)"
  shows "remote \<noteq> [] \<and> ref \<noteq> [] \<and> remote \<in> set as \<and> ref \<in> set as"
proof -
  from assms obtain ps where ps: "git_positional as = Inr ps" by (auto simp: gitPushTarget_def bind_r_Inr)
  with assms have "ps = [remote, ref] \<and> remote \<noteq> [] \<and> ref \<noteq> []"
    by (auto simp: gitPushTarget_def split: list.splits if_splits)
  with git_positional_ok [OF ps] show ?thesis by auto
qed

lemma https_target_prefix: "https_target ws = [] \<or> has_prefix (https_target ws) ''https://''"
  by (induction ws rule: rev_induct) (auto simp: https_target_def)

text \<open>The names of the actions that a shell command or a tool can have.\<close>

definition action_names :: "string list" where
  "action_names = ''git.push'' # map snd gh_actions
     @ map (\<lambda>m. ''http.'' @ m) [''post'', ''put'', ''patch'', ''delete''] @ map snd protected_tools"

text \<open>A shell command that is protected has been split, and its digest is that of its fields.\<close>

lemma method_names:
  "lower_text lib ''POST'' = ''post''" "lower_text lib ''PUT'' = ''put''"
  "lower_text lib ''PATCH'' = ''patch''" "lower_text lib ''DELETE'' = ''delete''"
proof -
  have "list_all is_ascii [''POST'', ''PUT'', ''PATCH'', ''DELETE'']"
    "map (map to_lower) [''POST'', ''PUT'', ''PATCH'', ''DELETE''] = [''post'', ''put'', ''patch'', ''delete'']"
    by code_simp+
  then show "lower_text lib ''POST'' = ''post''" "lower_text lib ''PUT'' = ''put''"
    "lower_text lib ''PATCH'' = ''patch''" "lower_text lib ''DELETE'' = ''delete''"
    by (simp_all add: lower_text_def)
qed

lemma shellAction_simps [simp]:
  "ac_Action (shellAction lib n t ws) = n" "ac_Target (shellAction lib n t ws) = t"
  "ac_InputDigest (shellAction lib n t ws) = digest lib (join_with [CHR 0x00] ws)"
  by (simp_all add: shellAction_def)

lemma canonicalGH_some:
  "canonicalGH lib ws = Inr (Some a) \<Longrightarrow>
   ac_InputDigest a = digest lib (join_with [CHR 0x00] ws) \<and> ac_Action a \<in> set action_names \<and> ac_Target a \<noteq> []"
  by (auto simp: canonicalGH_def action_names_def Let_def dest: map_of_SomeD split: if_splits option.splits)
    (force dest: map_of_SomeD)+

lemma canonicalCurl_some:
  "canonicalCurl lib ws = Inr (Some a) \<Longrightarrow>
   ac_InputDigest a = digest lib (join_with [CHR 0x00] ws) \<and> ac_Action a \<in> set action_names \<and> ac_Target a \<noteq> []"
  by (auto simp: canonicalCurl_def action_names_def Let_def method_names split: if_splits)

lemma canonicalShellAction_some:
  assumes "canonicalShellAction lib command = Inr (Some a)"
  obtains ws where "splitSimpleCommand command = Inr ws"
    "ac_InputDigest a = digest lib (join_with [CHR 0x00] ws)"
    "ac_Action a \<in> set action_names" "ac_Target a \<noteq> []"
proof (cases "splitSimpleCommand command")
  case (Inl e)
  with assms show ?thesis by (simp add: canonicalShellAction_def split: if_splits)
next
  case (Inr ws)
  consider (push) remote ref where "gitPushTarget (drop 2 ws) = Inr (remote, ref)"
      "a = shellAction lib ''git.push'' (remote @ '':'' @ ref) ws"
    | (gh) "canonicalGH lib ws = Inr (Some a)" | (curl) "canonicalCurl lib ws = Inr (Some a)"
    using assms Inr by (auto simp: canonicalShellAction_def Let_def bind_r_Inr split: if_splits)
  then have "ac_InputDigest a = digest lib (join_with [CHR 0x00] ws) \<and> ac_Action a \<in> set action_names \<and> ac_Target a \<noteq> []"
    by cases (use canonicalGH_some canonicalCurl_some in \<open>auto simp: action_names_def\<close>)
  with Inr that show ?thesis by blast
qed

lemma firstString_trimmed: "firstString input keys = t \<Longrightarrow> t \<noteq> [] \<Longrightarrow> \<exists>s. t = TrimSpace s"
  by (induction keys) (auto split: option.splits if_splits)

lemma protectedToolAction_name: "protectedToolAction tool \<noteq> [] \<Longrightarrow> protectedToolAction tool \<in> set action_names"
  by (auto simp: protectedToolAction_def action_names_def intro: rev_image_eqI dest!: map_of_SomeD split: option.splits)

text \<open>Every protected action: a name of the list, a target, the digest of the fields or of the input.\<close>

lemma Canonicalize_some:
  assumes "Canonicalize lib tool raw = Inr (Some a)"
  shows "ac_Action a \<in> set action_names \<and> ac_Target a \<noteq> [] \<and> (\<exists>s. ac_InputDigest a = digest lib s)"
proof (cases "tool = ''Bash''")
  case True
  then obtain command where "canonicalShellAction lib command = Inr (Some a)"
    using assms by (auto simp: Canonicalize_def split: if_splits sum.splits option.splits)
  then show ?thesis by (rule canonicalShellAction_some) auto
next
  case False
  then obtain input where tool: "protectedToolAction tool \<noteq> []"
      and "protected_tool lib (protectedToolAction tool) input = Inr (Some a)"
    using assms by (auto simp: Canonicalize_def split: if_splits sum.splits option.splits)
  then show ?thesis
    using protectedToolAction_name [OF tool] by (auto simp: protected_tool_def Let_def split: if_splits)
qed

lemma digest_valid: "length (al_SHA256 lib s) = 32 \<Longrightarrow> validateDigest (digest lib s) = Inr ()"
  by (simp add: validateDigest_def digest_def length_EncodeToString DecodeString_EncodeToString)

section \<open>What is not protected\<close>

lemma contains_append: "contains_sub (s @ p @ t) p"
proof (induction s)
  case Nil
  have "has_prefix (p @ t) p" by simp
  then show ?case by (cases "p @ t") (simp_all add: has_prefix_def)
qed simp

lemma lower_text_ascii: "is_ascii s \<Longrightarrow> lower_text lib s = map to_lower s"
  by (simp add: lower_text_def)

text \<open>C32: a command in front of git, also one that only sets the environment, makes a push an ordinary local
  command, although its text looks protected.\<close>

theorem wrapped_push_is_ordinary:
  assumes "list_all simple_word [w, remote, ref]" "is_ascii (w @ remote @ ref)"
    and "executable_name w \<notin> {''git'', ''gh'', ''curl''}"
  shows "canonicalShellAction lib (join_with '' '' [w, ''git'', ''push'', remote, ref]) = Inr None
    \<and> looksProtectedShell lib (join_with '' '' [w, ''git'', ''push'', remote, ref])"
proof
  have "simple_word ''git''" "simple_word ''push''" by code_simp+
  then have "splitSimpleCommand (join_with '' '' [w, ''git'', ''push'', remote, ref]) = Inr [w, ''git'', ''push'', remote, ref]"
    using assms(1) by (intro split_simple) simp
  then show "canonicalShellAction lib (join_with '' '' [w, ''git'', ''push'', remote, ref]) = Inr None"
    using assms(3) by (simp add: canonicalShellAction_def)
  have "is_ascii ''git'' \<and> is_ascii ''push'' \<and> is_ascii '' ''" "map to_lower ''git push'' = ''git push''" by code_simp+
  then have "lower_text lib (join_with '' '' [w, ''git'', ''push'', remote, ref])
    = map to_lower (w @ '' '') @ ''git push'' @ map to_lower ('' '' @ remote @ '' '' @ ref)"
    using assms(2) by (subst lower_text_ascii) (simp_all add: is_ascii_def)
  then have "contains_sub (lower_text lib (join_with '' '' [w, ''git'', ''push'', remote, ref])) ''git push''"
    by (simp only: contains_append)
  then show "looksProtectedShell lib (join_with '' '' [w, ''git'', ''push'', remote, ref])"
    by (simp add: looksProtectedShell_def Let_def)
qed

end
