(* ===== verification/ConfStore.thy ===== *)
theory ConfStore
  imports ConfAction
begin

text \<open>
  \<open>internal/actionconfirmation/store.go\<close>: challenges for external actions. A store is a private
  directory with a key, a state file and a lock directory; every call is one transaction under
  the lock that reads the authenticated state, changes it and replaces the file. HMAC-SHA256,
  the clock, the random bytes and the refusals of the operating system are fields of the
  environment; a refused call has no effect, and no refusal says that a file is missing. The temporary file of \<open>writeState\<close> has a name that
  nothing else uses and is not kept.
\<close>

section \<open>Types\<close>

datatype ConfirmationState = ChallengeRequired | Authorized | Denied

record Binding =
  bd_Runtime :: string
  bd_WorkspaceID :: string
  bd_ActorID :: string
  bd_SessionID :: string
  bd_Action :: Action

record Result =
  rs_State :: ConfirmationState
  rs_ChallengeID :: string
  rs_Action :: string
  rs_Target :: string
  rs_ExpiresAt :: time

record challenge =
  ch_ID :: string
  ch_RuntimeHMAC :: string
  ch_WorkspaceHMAC :: string
  ch_ActorHMAC :: string
  ch_SessionHMAC :: string
  ch_Action :: string
  ch_TargetHMAC :: string
  ch_InputHMAC :: string
  ch_State :: string
  ch_CreatedAt :: time
  ch_ExpiresAt :: time
  ch_ConfirmedAt :: time
  ch_ConsumedAt :: time
  ch_RecordHMAC :: string

text \<open>
  A nil slice of challenges and an empty one are the same here; they are encoded differently,
  but no transaction writes a state without a challenge.
\<close>

record stateFile =
  sf_SchemaVersion :: int
  sf_Challenges :: "challenge list"
  sf_StateHMAC :: string

definition challenge_json :: "challenge \<Rightarrow> json" where
  "challenge_json c = JObj [(''id'', JStr (ch_ID c)), (''runtime_hmac'', JStr (ch_RuntimeHMAC c)),
     (''workspace_hmac'', JStr (ch_WorkspaceHMAC c)), (''actor_hmac'', JStr (ch_ActorHMAC c)),
     (''session_hmac'', JStr (ch_SessionHMAC c)), (''action'', JStr (ch_Action c)),
     (''target_hmac'', JStr (ch_TargetHMAC c)), (''input_hmac'', JStr (ch_InputHMAC c)),
     (''state'', JStr (ch_State c)), (''created_at'', JTime (ch_CreatedAt c)),
     (''expires_at'', JTime (ch_ExpiresAt c)), (''confirmed_at'', JTime (ch_ConfirmedAt c)),
     (''consumed_at'', JTime (ch_ConsumedAt c)), (''record_hmac'', JStr (ch_RecordHMAC c))]"

definition state_json :: "stateFile \<Rightarrow> json" where
  "state_json st = JObj [(''schema_version'', JNum (sf_SchemaVersion st)),
     (''challenges'', if sf_Challenges st = [] then JNull else JArr (map challenge_json (sf_Challenges st))),
     (''state_hmac'', JStr (sf_StateHMAC st))]"

text \<open>What the decoder gives back for the texts that were written.\<close>

definition decode_challenge :: "challenge \<Rightarrow> challenge" where
  "decode_challenge c = c\<lparr>ch_ID := to_valid_utf8 (ch_ID c), ch_RuntimeHMAC := to_valid_utf8 (ch_RuntimeHMAC c),
     ch_WorkspaceHMAC := to_valid_utf8 (ch_WorkspaceHMAC c), ch_ActorHMAC := to_valid_utf8 (ch_ActorHMAC c),
     ch_SessionHMAC := to_valid_utf8 (ch_SessionHMAC c), ch_Action := to_valid_utf8 (ch_Action c),
     ch_TargetHMAC := to_valid_utf8 (ch_TargetHMAC c), ch_InputHMAC := to_valid_utf8 (ch_InputHMAC c),
     ch_State := to_valid_utf8 (ch_State c), ch_RecordHMAC := to_valid_utf8 (ch_RecordHMAC c)\<rparr>"

definition decode_state :: "stateFile \<Rightarrow> stateFile" where
  "decode_state st = st\<lparr>sf_Challenges := map decode_challenge (sf_Challenges st),
     sf_StateHMAC := to_valid_utf8 (sf_StateHMAC st)\<rparr>"

text \<open>The bytes of a state file: a state alone, with another JSON value behind it, or neither.\<close>

datatype state_bytes = StateAlone stateFile | StateAndMore stateFile | NoState

text \<open>An entry of the directory: a regular file has its permission bits and its bytes.\<close>

datatype 'a file_entry = NoEntry | IrregularEntry | RegularFile nat 'a

datatype root_entry = NoRoot | PlainRoot nat | LinkedRoot | OtherRoot

record conf_disk =
  cd_root :: root_entry
  cd_lock :: bool
  cd_key :: "string file_entry"
  cd_state :: "state_bytes file_entry"

text \<open>The calls of the operating system that can be refused.\<close>

datatype conf_syscall =
    MkdirAllRoot | LstatRoot | MkdirLock | RemoveLock
  | LstatKey | ReadKey | RandomKey | OpenKey | WriteKey | SyncKey | CloseKey
  | LstatState | ReadStateBytes
  | CreateTemp | ChmodTemp | WriteTemp | SyncTemp | CloseTemp | LstatTarget | RenameTemp

record conf_env =
  ce_HMAC :: "string \<Rightarrow> string \<Rightarrow> string"
  ce_Refused :: "conf_syscall \<Rightarrow> go_error option"
  ce_Now :: time
  ce_KeyBytes :: string
  ce_RandomID :: "string option"

record Store =
  so_Root :: string
  so_TTL :: duration

definition os_call :: "conf_env \<Rightarrow> conf_syscall \<Rightarrow> go_error + unit" where
  "os_call env c = (case ce_Refused env c of None \<Rightarrow> Inr () | Some e \<Rightarrow> Inl e)"

definition group_or_other :: "nat \<Rightarrow> bool" where
  "group_or_other perm \<longleftrightarrow> perm mod 64 \<noteq> 0"

section \<open>Validation\<close>

definition identifier_char :: "char \<Rightarrow> bool" where
  "identifier_char c \<longleftrightarrow> is_alnum c \<or> c \<in> set ''_.:@/-''"

definition identifierPattern :: "string \<Rightarrow> bool" where
  "identifierPattern s \<longleftrightarrow> first_rest is_alnum identifier_char 255 s"

definition challengePattern :: "string \<Rightarrow> bool" where
  "challengePattern s \<longleftrightarrow> length s = 32 \<and> list_all is_lower_hex s"

definition validateIdentity :: "Binding \<Rightarrow> go_error + unit" where
  "validateIdentity b = fail_if
     (bd_Runtime b \<notin> {''claude'', ''codex''} \<or> \<not> identifierPattern (bd_WorkspaceID b)
      \<or> \<not> identifierPattern (bd_ActorID b) \<or> \<not> identifierPattern (bd_SessionID b))
     (errors_New ''external action confirmation requires bounded runtime, workspace, actor and session identity'')"

definition validateBinding :: "Binding \<Rightarrow> go_error + unit" where
  "validateBinding b = checks [validateIdentity b,
     fail_if (ac_Action (bd_Action b) = [] \<or> TrimSpace (ac_Target (bd_Action b)) = []
       \<or> validateDigest (ac_InputDigest (bd_Action b)) \<noteq> Inr ())
       (errors_New ''external action is not canonicalizable'')]"

definition validateChallengeRecord :: "challenge \<Rightarrow> go_error + unit" where
  "validateChallengeRecord c =
     (if \<not> challengePattern (ch_ID c) \<or> ch_Action c = [] \<or> is_zero (ch_CreatedAt c) \<or> is_zero (ch_ExpiresAt c)
         \<or> \<not> ch_ExpiresAt c > ch_CreatedAt c
      then Inl (errors_New ''confirmation challenge record is invalid'')
      else if ch_State c = ''pending'' then
        fail_if (\<not> is_zero (ch_ConfirmedAt c) \<or> \<not> is_zero (ch_ConsumedAt c))
          (errors_New ''pending confirmation challenge has terminal timestamps'')
      else if ch_State c = ''confirmed'' then
        fail_if (is_zero (ch_ConfirmedAt c) \<or> ch_ConfirmedAt c < ch_CreatedAt c \<or> ch_ConfirmedAt c > ch_ExpiresAt c
            \<or> \<not> is_zero (ch_ConsumedAt c))
          (errors_New ''confirmed challenge timestamps are invalid'')
      else if ch_State c = ''consumed'' then
        fail_if (is_zero (ch_ConfirmedAt c) \<or> is_zero (ch_ConsumedAt c) \<or> ch_ConfirmedAt c < ch_CreatedAt c
            \<or> ch_ConfirmedAt c > ch_ExpiresAt c \<or> ch_ConsumedAt c < ch_ConfirmedAt c \<or> ch_ConsumedAt c > ch_ExpiresAt c)
          (errors_New ''consumed challenge timestamps are invalid'')
      else Inl (errors_New ''confirmation challenge state is invalid''))"

section \<open>Authentication codes\<close>

record bindingMAC =
  mc_runtime :: string
  mc_workspace :: string
  mc_actor :: string
  mc_session :: string
  mc_target :: string
  mc_input :: string

definition hmacValue :: "(string \<Rightarrow> string \<Rightarrow> string) \<Rightarrow> string \<Rightarrow> string \<Rightarrow> string \<Rightarrow> string" where
  "hmacValue mac key domain v = EncodeToString (mac key
     (''maestro-action-confirmation-v1'' @ [CHR 0x00] @ domain @ [CHR 0x00] @ v))"

definition macEqual :: "string \<Rightarrow> string \<Rightarrow> bool" where
  "macEqual left right = (case (DecodeString left, DecodeString right) of
     (Some l, Some r) \<Rightarrow> l = r | _ \<Rightarrow> False)"

definition bindingHMACs :: "(string \<Rightarrow> string \<Rightarrow> string) \<Rightarrow> string \<Rightarrow> Binding \<Rightarrow> bindingMAC" where
  "bindingHMACs mac key b =
     \<lparr>mc_runtime = hmacValue mac key ''runtime'' (bd_Runtime b),
      mc_workspace = hmacValue mac key ''workspace'' (bd_WorkspaceID b),
      mc_actor = hmacValue mac key ''actor'' (bd_ActorID b),
      mc_session = hmacValue mac key ''session'' (bd_SessionID b),
      mc_target = hmacValue mac key ''target'' (ac_Target (bd_Action b)),
      mc_input = hmacValue mac key ''input'' (ac_InputDigest (bd_Action b))\<rparr>"

definition same_identity :: "challenge \<Rightarrow> bindingMAC \<Rightarrow> bool" where
  "same_identity c m \<longleftrightarrow> macEqual (ch_RuntimeHMAC c) (mc_runtime m) \<and> macEqual (ch_WorkspaceHMAC c) (mc_workspace m)
     \<and> macEqual (ch_ActorHMAC c) (mc_actor m) \<and> macEqual (ch_SessionHMAC c) (mc_session m)"

definition matches :: "challenge \<Rightarrow> bindingMAC \<Rightarrow> string \<Rightarrow> bool" where
  "matches c m action \<longleftrightarrow> ch_Action c = action \<and> same_identity c m
     \<and> macEqual (ch_TargetHMAC c) (mc_target m) \<and> macEqual (ch_InputHMAC c) (mc_input m)"

text \<open>The error of \<open>json.Marshal\<close> is not looked at: its result is then no bytes.\<close>

definition marshal_or_empty :: "json \<Rightarrow> string" where
  "marshal_or_empty j = (if encodable j then marshal j else [])"

definition challengeRecordHMAC :: "(string \<Rightarrow> string \<Rightarrow> string) \<Rightarrow> string \<Rightarrow> challenge \<Rightarrow> string" where
  "challengeRecordHMAC mac key c =
     hmacValue mac key ''challenge-record'' (marshal_or_empty (challenge_json (c\<lparr>ch_RecordHMAC := []\<rparr>)))"

definition stateFileHMAC :: "(string \<Rightarrow> string \<Rightarrow> string) \<Rightarrow> string \<Rightarrow> stateFile \<Rightarrow> string" where
  "stateFileHMAC mac key st =
     hmacValue mac key ''state-file'' (marshal_or_empty (state_json (st\<lparr>sf_StateHMAC := []\<rparr>)))"

section \<open>Key and state files\<close>

definition key_error :: go_error where
  "key_error = errors_New ''confirmation HMAC key is not a private regular key''"

text \<open>A key that was opened and not written stays as an empty file.\<close>

definition create_key :: "conf_env \<Rightarrow> conf_disk \<Rightarrow> (go_error + string) \<times> conf_disk" where
  "create_key env d =
     (case checks [os_call env RandomKey, os_call env OpenKey] of
        Inl e \<Rightarrow> (Inl e, d)
      | Inr _ \<Rightarrow>
     case os_call env WriteKey of
        Inl e \<Rightarrow> (Inl e, d\<lparr>cd_key := RegularFile 384 []\<rparr>)
      | Inr _ \<Rightarrow>
     let d1 = d\<lparr>cd_key := RegularFile 384 (ce_KeyBytes env)\<rparr>
     in case checks [os_call env SyncKey, os_call env CloseKey] of
          Inl e \<Rightarrow> (Inl e, d1)
        | Inr _ \<Rightarrow> (Inr (ce_KeyBytes env), d1))"

definition loadOrCreateKey :: "conf_env \<Rightarrow> conf_disk \<Rightarrow> (go_error + string) \<times> conf_disk" where
  "loadOrCreateKey env d =
     (case os_call env LstatKey of
        Inl e \<Rightarrow> (Inl e, d)
      | Inr _ \<Rightarrow>
     case cd_key d of
        NoEntry \<Rightarrow> create_key env d
      | IrregularEntry \<Rightarrow> (Inl key_error, d)
      | RegularFile perm bytes \<Rightarrow>
          if length bytes \<noteq> 32 \<or> perm \<noteq> 384 then (Inl key_error, d)
          else (bind_r (os_call env ReadKey) (\<lambda>_. Inr bytes), d))"

fun check_records :: "conf_env \<Rightarrow> string \<Rightarrow> challenge list \<Rightarrow> go_error + unit" where
  "check_records env key [] = Inr ()"
| "check_records env key (c # cs) =
     (if \<not> macEqual (ch_RecordHMAC c) (challengeRecordHMAC (ce_HMAC env) key c)
      then Inl (errors_New ''confirmation state authentication failed'')
      else bind_r (validateChallengeRecord c) (\<lambda>_. check_records env key cs))"

definition invalid_state :: go_error where
  "invalid_state = errors_New ''confirmation state is invalid''"

definition authenticate_state :: "conf_env \<Rightarrow> string \<Rightarrow> state_bytes \<Rightarrow> go_error + stateFile" where
  "authenticate_state env key bytes =
     (case bytes of
        NoState \<Rightarrow> Inl invalid_state
      | StateAndMore st \<Rightarrow>
          if sf_SchemaVersion st \<noteq> 3 then Inl invalid_state
          else Inl (errors_New ''confirmation state contains multiple JSON values'')
      | StateAlone st \<Rightarrow>
          if sf_SchemaVersion st \<noteq> 3 then Inl invalid_state
          else if \<not> macEqual (sf_StateHMAC st) (stateFileHMAC (ce_HMAC env) key st)
          then Inl (errors_New ''confirmation state envelope authentication failed'')
          else bind_r (check_records env key (sf_Challenges st)) (\<lambda>_. Inr st))"

definition empty_state :: stateFile where
  "empty_state = \<lparr>sf_SchemaVersion = 3, sf_Challenges = [], sf_StateHMAC = []\<rparr>"

definition readState :: "conf_env \<Rightarrow> string \<Rightarrow> conf_disk \<Rightarrow> go_error + stateFile" where
  "readState env key d =
     bind_r (os_call env LstatState) (\<lambda>_.
     case cd_state d of
       IrregularEntry \<Rightarrow> Inl (errors_New ''confirmation state is not a private regular file'')
     | NoEntry \<Rightarrow> bind_r (os_call env ReadStateBytes) (\<lambda>_. Inr empty_state)
     | RegularFile perm bytes \<Rightarrow>
         if group_or_other perm then Inl (errors_New ''confirmation state is not a private regular file'')
         else bind_r (os_call env ReadStateBytes) (\<lambda>_. authenticate_state env key bytes))"

definition writeState :: "conf_env \<Rightarrow> stateFile \<Rightarrow> conf_disk \<Rightarrow> (go_error + unit) \<times> conf_disk" where
  "writeState env st d =
     (case checks [fail_if (\<not> encodable (state_json st)) (errors_New ''Time.MarshalJSON: year outside of range [0,9999]''),
        os_call env CreateTemp, os_call env ChmodTemp, os_call env WriteTemp, os_call env SyncTemp,
        os_call env CloseTemp, os_call env LstatTarget,
        fail_if (cd_state d = IrregularEntry) (errors_New ''confirmation state target is not a regular file''),
        os_call env RenameTemp] of
        Inl e \<Rightarrow> (Inl e, d)
      | Inr _ \<Rightarrow> (Inr (), d\<lparr>cd_state := RegularFile 384 (StateAlone (decode_state st))\<rparr>))"

section \<open>Transactions\<close>

fun seal_records :: "conf_env \<Rightarrow> string \<Rightarrow> challenge list \<Rightarrow> go_error + challenge list" where
  "seal_records env key [] = Inr []"
| "seal_records env key (c # cs) =
     bind_r (validateChallengeRecord c) (\<lambda>_.
     bind_r (seal_records env key cs) (\<lambda>cs'. Inr (c\<lparr>ch_RecordHMAC := challengeRecordHMAC (ce_HMAC env) key c\<rparr> # cs')))"

definition seal_state :: "conf_env \<Rightarrow> string \<Rightarrow> stateFile \<Rightarrow> go_error + stateFile" where
  "seal_state env key st =
     bind_r (seal_records env key (sf_Challenges st)) (\<lambda>cs.
       let st1 = st\<lparr>sf_Challenges := cs\<rparr> in Inr (st1\<lparr>sf_StateHMAC := stateFileHMAC (ce_HMAC env) key st1\<rparr>))"

text \<open>
  The closure of a transaction gives the changed state or an error, and the value it leaves in
  the variable it captures; that variable has its first value when the closure did not run.
\<close>

type_synonym 'a change = "stateFile \<Rightarrow> string \<Rightarrow> (go_error + stateFile) \<times> 'a"

definition locked_body :: "conf_env \<Rightarrow> 'a \<Rightarrow> 'a change \<Rightarrow> conf_disk \<Rightarrow> (go_error option \<times> 'a) \<times> conf_disk" where
  "locked_body env v0 change d =
     (case loadOrCreateKey env d of
        (Inl e, d1) \<Rightarrow> ((Some e, v0), d1)
      | (Inr key, d1) \<Rightarrow>
     case readState env key d1 of
        Inl e \<Rightarrow> ((Some e, v0), d1)
      | Inr st \<Rightarrow>
     case change st key of
        (Inl e, v) \<Rightarrow> ((Some e, v), d1)
      | (Inr st1, v) \<Rightarrow>
     case seal_state env key st1 of
        Inl e \<Rightarrow> ((Some e, v), d1)
      | Inr st2 \<Rightarrow>
     case writeState env st2 d1 of
        (Inl e, d2) \<Rightarrow> ((Some e, v), d2)
      | (Inr _, d2) \<Rightarrow> ((None, v), d2))"

definition root_error :: go_error where
  "root_error = errors_New ''confirmation store root is not a private directory''"

definition busy_error :: go_error where
  "busy_error = errors_New ''confirmation state lock is busy''"

text \<open>\<open>os.MkdirAll\<close> and the checks of the directory.\<close>

definition openRoot :: "conf_env \<Rightarrow> string \<Rightarrow> conf_disk \<Rightarrow> (go_error + unit) \<times> conf_disk" where
  "openRoot env root d =
     (case checks [fail_if (TrimSpace root = [] \<or> \<not> has_prefix root ''/'')
          (errors_New ''confirmation store requires an absolute local root''),
        os_call env MkdirAllRoot, fail_if (cd_root d = OtherRoot) (errors_New ''mkdir: not a directory'')] of
        Inl e \<Rightarrow> (Inl e, d)
      | Inr _ \<Rightarrow>
          let d1 = (if cd_root d = NoRoot then d\<lparr>cd_root := PlainRoot 448\<rparr> else d)
          in (if os_call env LstatRoot \<noteq> Inr () then Inl root_error
              else case cd_root d1 of
                PlainRoot perm \<Rightarrow> if group_or_other perm then Inl root_error else Inr ()
              | _ \<Rightarrow> Inl root_error, d1))"

definition release_lock :: "conf_env \<Rightarrow> conf_disk \<Rightarrow> conf_disk" where
  "release_lock env d = (if ce_Refused env RemoveLock = None then d\<lparr>cd_lock := False\<rparr> else d)"

definition transaction ::
  "conf_env \<Rightarrow> string \<Rightarrow> 'a \<Rightarrow> 'a change \<Rightarrow> conf_disk \<Rightarrow> (go_error option \<times> 'a) \<times> conf_disk" where
  "transaction env root v0 change d =
     (case openRoot env root d of
        (Inl e, d1) \<Rightarrow> ((Some e, v0), d1)
      | (Inr _, d1) \<Rightarrow>
     case os_call env MkdirLock of
        Inl e \<Rightarrow> ((Some e, v0), d1)
      | Inr _ \<Rightarrow>
          if cd_lock d1 then ((Some busy_error, v0), d1)
          else let (r, d2) = locked_body env v0 change (d1\<lparr>cd_lock := True\<rparr>) in (r, release_lock env d2))"

definition keep_challenge :: "time \<Rightarrow> challenge \<Rightarrow> bool" where
  "keep_challenge now c \<longleftrightarrow>
     \<not> (ch_State c = ''consumed'' \<and> time_sub now (ch_ConsumedAt c) > 24 * hour
        \<or> \<not> is_zero (ch_ExpiresAt c) \<and> time_sub now (ch_ExpiresAt c) > 24 * hour)"

definition prune :: "time \<Rightarrow> stateFile \<Rightarrow> stateFile" where
  "prune now st = st\<lparr>sf_Challenges := filter (keep_challenge now) (sf_Challenges st)\<rparr>"

definition ttl :: "Store \<Rightarrow> duration" where
  "ttl store = (if so_TTL store \<le> 0 \<or> so_TTL store > 15 * minute then 5 * minute else so_TTL store)"

definition randomID :: "conf_env \<Rightarrow> go_error + string" where
  "randomID env = (case ce_RandomID env of
     None \<Rightarrow> Inl (errors_New ''create challenge ID'') | Some bytes \<Rightarrow> Inr (EncodeToString bytes))"

section \<open>Authorize\<close>

definition denied :: Result where
  "denied = \<lparr>rs_State = Denied, rs_ChallengeID = [], rs_Action = [], rs_Target = [], rs_ExpiresAt = 0\<rparr>"

definition required_result :: "Binding \<Rightarrow> challenge \<Rightarrow> Result" where
  "required_result b c = \<lparr>rs_State = ChallengeRequired, rs_ChallengeID = ch_ID c,
     rs_Action = ac_Action (bd_Action b), rs_Target = ac_Target (bd_Action b), rs_ExpiresAt = ch_ExpiresAt c\<rparr>"

definition authorized_result :: "Binding \<Rightarrow> challenge \<Rightarrow> Result" where
  "authorized_result b c = \<lparr>rs_State = Authorized, rs_ChallengeID = [],
     rs_Action = ac_Action (bd_Action b), rs_Target = ac_Target (bd_Action b), rs_ExpiresAt = ch_ExpiresAt c\<rparr>"

text \<open>The loop over the challenges: the first one that answers the request, and the list after it.\<close>

fun authorize_scan :: "time \<Rightarrow> bindingMAC \<Rightarrow> Binding \<Rightarrow> challenge list \<Rightarrow> (challenge list \<times> Result) option" where
  "authorize_scan now m b [] = None"
| "authorize_scan now m b (c # cs) =
     (if matches c m (ac_Action (bd_Action b)) \<and> now < ch_ExpiresAt c \<and> ch_State c = ''pending'' then
        Some (c # cs, required_result b c)
      else if matches c m (ac_Action (bd_Action b)) \<and> now < ch_ExpiresAt c \<and> ch_State c = ''confirmed'' then
        Some (c\<lparr>ch_State := ''consumed'', ch_ConsumedAt := now\<rparr> # cs, authorized_result b c)
      else map_option (\<lambda>(cs', r). (c # cs', r)) (authorize_scan now m b cs))"

definition new_challenge :: "string \<Rightarrow> bindingMAC \<Rightarrow> string \<Rightarrow> time \<Rightarrow> time \<Rightarrow> challenge" where
  "new_challenge i m action now expires =
     \<lparr>ch_ID = i, ch_RuntimeHMAC = mc_runtime m, ch_WorkspaceHMAC = mc_workspace m, ch_ActorHMAC = mc_actor m,
      ch_SessionHMAC = mc_session m, ch_Action = action, ch_TargetHMAC = mc_target m, ch_InputHMAC = mc_input m,
      ch_State = ''pending'', ch_CreatedAt = now, ch_ExpiresAt = expires, ch_ConfirmedAt = 0, ch_ConsumedAt = 0,
      ch_RecordHMAC = []\<rparr>"

definition authorize_change :: "conf_env \<Rightarrow> Store \<Rightarrow> Binding \<Rightarrow> Result change" where
  "authorize_change env store b st key =
     (let st1 = prune (ce_Now env) st; m = bindingHMACs (ce_HMAC env) key b
      in case authorize_scan (ce_Now env) m b (sf_Challenges st1) of
           Some (cs, r) \<Rightarrow> (Inr (st1\<lparr>sf_Challenges := cs\<rparr>), r)
         | None \<Rightarrow>
             (case randomID env of
                Inl e \<Rightarrow> (Inl e, denied)
              | Inr i \<Rightarrow>
                  let c = new_challenge i m (ac_Action (bd_Action b)) (ce_Now env) (ce_Now env + ttl store)
                  in (Inr (st1\<lparr>sf_Challenges := sf_Challenges st1 @ [c]\<rparr>), required_result b c)))"

definition Authorize :: "conf_env \<Rightarrow> Store \<Rightarrow> Binding \<Rightarrow> conf_disk \<Rightarrow> (Result \<times> go_error option) \<times> conf_disk" where
  "Authorize env store b d =
     (case validateBinding b of
        Inl e \<Rightarrow> ((denied, Some e), d)
      | Inr _ \<Rightarrow>
          (case transaction env (so_Root store) denied (authorize_change env store b) d of
             ((Some e, _), d1) \<Rightarrow> ((denied, Some e), d1)
           | ((None, r), d1) \<Rightarrow> ((r, None), d1)))"

section \<open>Confirm\<close>

text \<open>The loop over the challenges stops at the first one with the identifier.\<close>

fun confirm_scan :: "time \<Rightarrow> bindingMAC \<Rightarrow> string \<Rightarrow> challenge list \<Rightarrow> go_error + challenge list" where
  "confirm_scan now m i [] = Inl (errors_New ''pending challenge was not found'')"
| "confirm_scan now m i (c # cs) =
     (if ch_ID c \<noteq> i then bind_r (confirm_scan now m i cs) (\<lambda>cs'. Inr (c # cs'))
      else if \<not> same_identity c m then
        Inl (errors_New ''challenge is bound to another runtime, workspace, actor or session'')
      else if ch_State c \<noteq> ''pending'' \<or> \<not> now < ch_ExpiresAt c then
        Inl (errors_New ''challenge is expired, replayed or not pending'')
      else Inr (c\<lparr>ch_State := ''confirmed'', ch_ConfirmedAt := now\<rparr> # cs))"

definition confirm_change :: "conf_env \<Rightarrow> Binding \<Rightarrow> string \<Rightarrow> bool change" where
  "confirm_change env b i st key =
     (let st1 = prune (ce_Now env) st
      in case confirm_scan (ce_Now env) (bindingHMACs (ce_HMAC env) key b) i (sf_Challenges st1) of
           Inl e \<Rightarrow> (Inl e, False)
         | Inr cs \<Rightarrow> (Inr (st1\<lparr>sf_Challenges := cs\<rparr>), True))"

text \<open>The identifier in a prompt that is the phrase.\<close>

definition confirmed_id :: "string \<Rightarrow> string option" where
  "confirmed_id prompt =
     (case Fields (TrimSpace prompt) of
        [confirm, maestro, i] \<Rightarrow> if confirm = ''CONFIRM'' \<and> maestro = ''MAESTRO'' \<and> challengePattern i then Some i else None
      | _ \<Rightarrow> None)"

definition identity_of :: "string \<Rightarrow> string \<Rightarrow> string \<Rightarrow> string \<Rightarrow> Binding" where
  "identity_of runtime workspaceID actorID sessionID =
     \<lparr>bd_Runtime = runtime, bd_WorkspaceID = workspaceID, bd_ActorID = actorID, bd_SessionID = sessionID,
      bd_Action = \<lparr>ac_Action = [], ac_Target = [], ac_InputDigest = []\<rparr>\<rparr>"

definition Confirm ::
  "conf_env \<Rightarrow> Store \<Rightarrow> string \<Rightarrow> string \<Rightarrow> string \<Rightarrow> string \<Rightarrow> string \<Rightarrow> conf_disk \<Rightarrow> (bool \<times> go_error option) \<times> conf_disk" where
  "Confirm env store runtime workspaceID actorID sessionID prompt d =
     (case confirmed_id prompt of
        None \<Rightarrow> ((False, None), d)
      | Some i \<Rightarrow>
     let b = identity_of runtime workspaceID actorID sessionID
     in case validateIdentity b of
          Inl e \<Rightarrow> ((False, Some e), d)
        | Inr _ \<Rightarrow>
            (case transaction env (so_Root store) False (confirm_change env b i) d of
               ((err, found), d1) \<Rightarrow> ((found, err), d1)))"

end
