(* ===== verification/ConfFacts.thy ===== *)
theory ConfFacts
  imports ConfStore Runs
begin

text \<open>
  What a transaction of \<open>internal/actionconfirmation\<close> does to the disk, and a run of calls by
  any number of processes on one store. A call that changes the challenges has taken the lock,
  authenticated the state and sealed the new one.
\<close>

section \<open>Transactions\<close>

definition disk_challenges :: "conf_disk \<Rightarrow> challenge list" where
  "disk_challenges d = (case cd_state d of RegularFile _ (StateAlone st) \<Rightarrow> sf_Challenges st | _ \<Rightarrow> [])"

definition keyed :: "string \<Rightarrow> conf_disk \<Rightarrow> bool" where
  "keyed key d \<longleftrightarrow> (\<exists>perm. cd_key d = RegularFile perm key)"

lemma os_call_ok: "os_call env c = Inr u \<longleftrightarrow> ce_Refused env c = None"
  by (simp add: os_call_def split: option.splits)

lemma create_key_cases:
  assumes "create_key env d = (r, d')"
  shows "cd_state d' = cd_state d \<and> cd_lock d' = cd_lock d \<and> cd_root d' = cd_root d"
    and "cd_key d' = cd_key d \<or> (\<exists>k. cd_key d' = RegularFile 384 k)"
    and "r = Inr key \<Longrightarrow> cd_key d' = RegularFile 384 key"
  using assms by (auto simp: create_key_def Let_def split: sum.splits)

lemma loadOrCreateKey_cases:
  assumes "loadOrCreateKey env d = (r, d')"
  shows "cd_state d' = cd_state d \<and> cd_lock d' = cd_lock d \<and> cd_root d' = cd_root d"
    and "cd_key d \<noteq> NoEntry \<Longrightarrow> cd_key d' = cd_key d"
    and "cd_key d' = cd_key d \<or> (\<exists>k. cd_key d' = RegularFile 384 k)"
    and "r = Inr key \<Longrightarrow> cd_key d' = RegularFile 384 key"
proof -
  have *: "cd_state d' = cd_state d \<and> cd_lock d' = cd_lock d \<and> cd_root d' = cd_root d
    \<and> (cd_key d \<noteq> NoEntry \<longrightarrow> cd_key d' = cd_key d)
    \<and> (cd_key d' = cd_key d \<or> (\<exists>k. cd_key d' = RegularFile 384 k))
    \<and> (r = Inr key \<longrightarrow> cd_key d' = RegularFile 384 key)"
  proof (cases "os_call env LstatKey")
    case (Inl e)
    with assms show ?thesis by (auto simp: loadOrCreateKey_def)
  next
    case (Inr u)
    show ?thesis
    proof (cases "cd_key d")
      case NoEntry
      with assms Inr have "create_key env d = (r, d')" by (simp add: loadOrCreateKey_def)
      from create_key_cases [OF this] NoEntry show ?thesis by auto
    qed (use assms Inr in \<open>auto simp: loadOrCreateKey_def bind_r_Inr split: if_splits\<close>)
  qed
  then show "cd_state d' = cd_state d \<and> cd_lock d' = cd_lock d \<and> cd_root d' = cd_root d"
    and "cd_key d \<noteq> NoEntry \<Longrightarrow> cd_key d' = cd_key d"
    and "cd_key d' = cd_key d \<or> (\<exists>k. cd_key d' = RegularFile 384 k)"
    and "r = Inr key \<Longrightarrow> cd_key d' = RegularFile 384 key"
    by auto
qed

lemma readState_cong: "cd_state d' = cd_state d \<Longrightarrow> readState env key d' = readState env key d"
  by (simp add: readState_def)

lemma authenticate_state_ok:
  "authenticate_state env key bytes = Inr st \<longleftrightarrow>
     bytes = StateAlone st \<and> sf_SchemaVersion st = 3 \<and> macEqual (sf_StateHMAC st) (stateFileHMAC (ce_HMAC env) key st)
     \<and> check_records env key (sf_Challenges st) = Inr ()"
  by (cases bytes) (auto simp: authenticate_state_def bind_r_Inr)

lemma check_records_ok:
  "check_records env key cs = Inr () \<longleftrightarrow>
     list_all (\<lambda>c. macEqual (ch_RecordHMAC c) (challengeRecordHMAC (ce_HMAC env) key c) \<and> validateChallengeRecord c = Inr ()) cs"
  by (induction cs) (auto simp: bind_r_Inr)

lemma readState_challenges: "readState env key d = Inr st \<Longrightarrow> sf_Challenges st = disk_challenges d"
  by (auto simp: readState_def disk_challenges_def bind_r_Inr authenticate_state_ok empty_state_def
      split: file_entry.splits if_splits)

lemma writeState_cases:
  assumes "writeState env st d = (r, d')"
  shows "(\<exists>e. r = Inl e) \<and> d' = d \<or> r = Inr () \<and> d' = d\<lparr>cd_state := RegularFile 384 (StateAlone (decode_state st))\<rparr>"
proof -
  obtain w :: "go_error + unit" where "writeState env st d =
      (case w of Inl e \<Rightarrow> (Inl e, d) | Inr u \<Rightarrow> (Inr (), d\<lparr>cd_state := RegularFile 384 (StateAlone (decode_state st))\<rparr>))"
    by (rule that) (rule writeState_def)
  with assms show ?thesis by (cases w) auto
qed

text \<open>A transaction fails and leaves the state, or it has read, changed, sealed and written it.\<close>

definition committed :: "conf_env \<Rightarrow> 'a change \<Rightarrow> 'a \<Rightarrow> string \<Rightarrow> conf_disk \<Rightarrow> conf_disk \<Rightarrow> bool" where
  "committed env change v key d d' \<longleftrightarrow>
     (\<exists>st st1 st2. readState env key d = Inr st \<and> change st key = (Inr st1, v) \<and> seal_state env key st1 = Inr st2
        \<and> cd_key d' = RegularFile 384 key
        \<and> cd_state d' = RegularFile 384 (StateAlone (decode_state st2)))"

lemma locked_body_cases:
  assumes "locked_body env v0 change d = ((err, v), d')"
  shows "cd_lock d' = cd_lock d \<and> cd_root d' = cd_root d \<and> (cd_key d \<noteq> NoEntry \<longrightarrow> cd_key d' = cd_key d)
    \<and> (cd_key d' = cd_key d \<or> (\<exists>k. cd_key d' = RegularFile 384 k))
    \<and> ((\<exists>e. err = Some e) \<and> cd_state d' = cd_state d \<or> err = None \<and> (\<exists>key. committed env change v key d d'))"
proof (cases "loadOrCreateKey env d")
  case (Pair r d1)
  note K = loadOrCreateKey_cases [OF Pair]
  show ?thesis
  proof (cases r)
    case (Inl e)
    with K Pair assms show ?thesis by (auto simp: locked_body_def)
  next
    case (Inr key)
    have rd: "readState env key d1 = readState env key d" using K(1) by (intro readState_cong) simp
    show ?thesis
    proof (cases "readState env key d")
      case (Inl e)
      with K Pair Inr rd assms show ?thesis by (auto simp: locked_body_def)
    next
      case st: (Inr st)
      obtain q w where q: "change st key = (q, w)" by fastforce
      show ?thesis
      proof (cases q)
        case (Inl e)
        with K Pair Inr rd st q assms show ?thesis by (auto simp: locked_body_def)
      next
        case st1: (Inr st1)
        show ?thesis
        proof (cases "seal_state env key st1")
          case (Inl e)
          with K Pair Inr rd st q st1 assms show ?thesis by (auto simp: locked_body_def)
        next
          case st2: (Inr st2)
          obtain x d2 where x: "writeState env st2 d1 = (x, d2)" by fastforce
          have run: "((err, v), d') = ((case x of Inl e \<Rightarrow> Some e | Inr _ \<Rightarrow> None, w), d2)"
            using Pair Inr rd st q st1 st2 assms x by (cases x) (simp_all add: locked_body_def)
          from writeState_cases [OF x] show ?thesis
          proof
            assume "(\<exists>e. x = Inl e) \<and> d2 = d1"
            with run K show ?thesis by auto
          next
            assume w: "x = Inr () \<and> d2 = d1\<lparr>cd_state := RegularFile 384 (StateAlone (decode_state st2))\<rparr>"
            then have "committed env change v key d d'"
              unfolding committed_def using run K(4) [OF Inr] st q st1 st2 by auto
            with w run K show ?thesis by auto
          qed
        qed
      qed
    qed
  qed
qed

lemma openRoot_cases:
  assumes "openRoot env root d = (r, d')"
  shows "cd_state d' = cd_state d \<and> cd_lock d' = cd_lock d \<and> cd_key d' = cd_key d"
  using assms by (simp add: openRoot_def Let_def del: checks_Inr split: sum.split_asm) (auto split: if_splits)

lemma release_lock_simps [simp]:
  "cd_state (release_lock env d) = cd_state d" "cd_key (release_lock env d) = cd_key d"
  "cd_root (release_lock env d) = cd_root d"
  by (simp_all add: release_lock_def)

lemma transaction_cases:
  assumes "transaction env root v0 change d = ((err, v), d')"
  shows "(cd_key d \<noteq> NoEntry \<longrightarrow> cd_key d' = cd_key d)
    \<and> (cd_key d' = cd_key d \<or> (\<exists>k. cd_key d' = RegularFile 384 k))
    \<and> ((\<exists>e. err = Some e) \<and> cd_state d' = cd_state d
       \<or> err = None \<and> \<not> cd_lock d \<and> (\<exists>key. committed env change v key d d'))"
proof (cases "openRoot env root d")
  case (Pair r d1)
  note O = openRoot_cases [OF Pair]
  show ?thesis
  proof (cases "\<exists>u u'. r = Inr u \<and> os_call env MkdirLock = Inr u' \<and> \<not> cd_lock d1")
    case False
    with O Pair assms show ?thesis by (auto simp: transaction_def split: sum.splits if_splits)
  next
    case True
    obtain q d2 where q: "locked_body env v0 change (d1\<lparr>cd_lock := True\<rparr>) = (q, d2)" by fastforce
    with True Pair assms have *: "q = (err, v)" "d' = release_lock env d2" by (auto simp: transaction_def)
    have rd: "readState env key (d1\<lparr>cd_lock := True\<rparr>) = readState env key d" for key
      using O by (intro readState_cong) simp
    from locked_body_cases [OF q [unfolded *(1)]] O True show ?thesis
      unfolding *(2) committed_def rd by simp
  qed
qed

lemma busy_transaction:
  assumes "cd_lock d" "transaction env root v0 change d = ((err, v), d')"
  shows "(\<exists>e. err = Some e) \<and> v = v0 \<and> cd_lock d' \<and> cd_state d' = cd_state d \<and> cd_key d' = cd_key d"
proof (cases "openRoot env root d")
  case (Pair r d1)
  from openRoot_cases [OF Pair] assms(1) have "cd_lock d1" by simp
  with Pair assms(2) openRoot_cases [OF Pair] show ?thesis
    by (cases r; cases "os_call env MkdirLock") (auto simp: transaction_def)
qed

end
