(* ===== verification/ConfRun.thy ===== *)
theory ConfRun
  imports ConfFacts
begin

text \<open>
  Runs of \<open>Authorize\<close> and \<open>Confirm\<close> by any number of processes on one store, with the
  interpretation of \<open>one_shot\<close>: confirmations give permissions, authorizations take them, and the
  confirmed challenges on the disk are those that are held.
\<close>

section \<open>Sealed challenges\<close>

definition fixed_texts :: "challenge \<Rightarrow> bool" where
  "fixed_texts c \<longleftrightarrow> decode_challenge c = c"

definition rewritten :: "(string \<Rightarrow> string \<Rightarrow> string) \<Rightarrow> string \<Rightarrow> challenge \<Rightarrow> challenge" where
  "rewritten mac key c = decode_challenge (c\<lparr>ch_RecordHMAC := challengeRecordHMAC mac key c\<rparr>)"

lemma decode_challenge_idem: "decode_challenge (decode_challenge c) = decode_challenge c"
  by (simp add: decode_challenge_def to_valid_utf8_idem)

lemma fixed_rewritten [simp]: "fixed_texts (rewritten mac key c)"
  by (simp add: fixed_texts_def rewritten_def decode_challenge_idem)

lemma fixed_texts_iff:
  "fixed_texts c \<longleftrightarrow> list_all valid_utf8 [ch_ID c, ch_RuntimeHMAC c, ch_WorkspaceHMAC c, ch_ActorHMAC c, ch_SessionHMAC c,
     ch_Action c, ch_TargetHMAC c, ch_InputHMAC c, ch_State c, ch_RecordHMAC c]"
  by (cases c) (simp add: fixed_texts_def decode_challenge_def valid_utf8_def)

lemma rewritten_fixed:
  "fixed_texts c \<Longrightarrow> rewritten mac key c = c\<lparr>ch_RecordHMAC := challengeRecordHMAC mac key c\<rparr>"
  by (cases c) (simp add: fixed_texts_iff rewritten_def decode_challenge_def valid_utf8_def challengeRecordHMAC_def hmacValue_def
      to_valid_utf8_ascii)

lemma seal_records_ok:
  "seal_records env key cs = Inr cs' \<longleftrightarrow>
     cs' = map (\<lambda>c. c\<lparr>ch_RecordHMAC := challengeRecordHMAC (ce_HMAC env) key c\<rparr>) cs
     \<and> list_all (\<lambda>c. validateChallengeRecord c = Inr ()) cs"
  by (induction cs arbitrary: cs') (auto simp: bind_r_Inr)

lemma committed_challenges:
  assumes "committed env change v key d d'"
  obtains st st1 where "sf_Challenges st = disk_challenges d" "change st key = (Inr st1, v)"
    "disk_challenges d' = map (rewritten (ce_HMAC env) key) (sf_Challenges st1)"
    "list_all (\<lambda>c. validateChallengeRecord c = Inr ()) (sf_Challenges st1)" "keyed key d'"
proof -
  from assms obtain st st1 st2 where c: "readState env key d = Inr st" "change st key = (Inr st1, v)"
      "seal_state env key st1 = Inr st2" "cd_key d' = RegularFile 384 key"
      "cd_state d' = RegularFile 384 (StateAlone (decode_state st2))"
    unfolding committed_def by auto
  from c(3,5) have "disk_challenges d' = map (rewritten (ce_HMAC env) key) (sf_Challenges st1)
      \<and> list_all (\<lambda>c. validateChallengeRecord c = Inr ()) (sf_Challenges st1)"
    by (auto simp: seal_state_def bind_r_Inr seal_records_ok Let_def disk_challenges_def decode_state_def rewritten_def)
  with readState_challenges [OF c(1)] c(2,4) show ?thesis by (intro that) (auto simp: keyed_def)
qed

section \<open>The loops over the challenges\<close>

definition answers :: "time \<Rightarrow> bindingMAC \<Rightarrow> Binding \<Rightarrow> challenge \<Rightarrow> bool" where
  "answers now m b c \<longleftrightarrow> matches c m (ac_Action (bd_Action b)) \<and> now < ch_ExpiresAt c
     \<and> (ch_State c = ''pending'' \<or> ch_State c = ''confirmed'')"

lemma authorize_scan_None: "authorize_scan now m b cs = None \<longleftrightarrow> list_all (\<lambda>c. \<not> answers now m b c) cs"
  by (induction cs) (auto simp: answers_def)

lemma authorize_scan_Some:
  assumes "authorize_scan now m b cs = Some (cs', r)"
  obtains pre c post where "cs = pre @ c # post" "answers now m b c" "list_all (\<lambda>c. \<not> answers now m b c) pre"
    "ch_State c = ''pending'' \<Longrightarrow> cs' = cs \<and> r = required_result b c"
    "ch_State c = ''confirmed'' \<Longrightarrow>
       cs' = pre @ c\<lparr>ch_State := ''consumed'', ch_ConsumedAt := now\<rparr> # post \<and> r = authorized_result b c"
  using assms
proof (induction cs arbitrary: cs' thesis)
  case (Cons c cs)
  show ?case
  proof (cases "answers now m b c")
    case True
    with Cons.prems show ?thesis by (intro Cons.prems(1) [of "[]" c cs]) (auto simp: answers_def)
  next
    case False
    then obtain cs1 where "authorize_scan now m b cs = Some (cs1, r)" "cs' = c # cs1"
      using Cons.prems(2) by (auto simp: answers_def split: if_splits)
    from Cons.IH [OF _ this(1)] obtain pre x post where "cs = pre @ x # post" "answers now m b x"
        "list_all (\<lambda>c. \<not> answers now m b c) pre"
        "ch_State x = ''pending'' \<Longrightarrow> cs1 = cs \<and> r = required_result b x"
        "ch_State x = ''confirmed'' \<Longrightarrow>
           cs1 = pre @ x\<lparr>ch_State := ''consumed'', ch_ConsumedAt := now\<rparr> # post \<and> r = authorized_result b x"
      by blast
    with False \<open>cs' = c # cs1\<close> show ?thesis by (intro Cons.prems(1) [of "c # pre" x post]) auto
  qed
qed simp

lemma confirm_scan_ok:
  assumes "confirm_scan now m i cs = Inr cs'"
  obtains pre c post where "cs = pre @ c # post" "ch_ID c = i" "list_all (\<lambda>c. ch_ID c \<noteq> i) pre" "same_identity c m"
    "ch_State c = ''pending''" "now < ch_ExpiresAt c"
    "cs' = pre @ c\<lparr>ch_State := ''confirmed'', ch_ConfirmedAt := now\<rparr> # post"
  using assms
proof (induction cs arbitrary: cs' thesis)
  case (Cons c cs)
  show ?case
  proof (cases "ch_ID c = i")
    case True
    with Cons.prems show ?thesis by (intro Cons.prems(1) [of "[]" c cs]) (auto split: if_splits)
  next
    case False
    then obtain cs1 where "confirm_scan now m i cs = Inr cs1" "cs' = c # cs1"
      using Cons.prems(2) by (auto simp: bind_r_Inr)
    from Cons.IH [OF _ this(1)] obtain pre x post where "cs = pre @ x # post" "ch_ID x = i" "list_all (\<lambda>c. ch_ID c \<noteq> i) pre"
        "same_identity x m" "ch_State x = ''pending''" "now < ch_ExpiresAt x"
        "cs1 = pre @ x\<lparr>ch_State := ''confirmed'', ch_ConfirmedAt := now\<rparr> # post"
      by blast
    with False \<open>cs' = c # cs1\<close> show ?thesis by (intro Cons.prems(1) [of "c # pre" x post]) auto
  qed
qed simp

section \<open>Calls\<close>

text \<open>
  An event is a call with the time it read, what it was asked and what it answered. The
  environments of the calls differ in everything but the function of the codes.
\<close>

datatype conf_event =
    Asked time Binding Result "go_error option"
  | Told time Binding string bool "go_error option"

inductive conf_step :: "(string \<Rightarrow> string \<Rightarrow> string) \<Rightarrow> string \<Rightarrow> conf_disk \<Rightarrow> conf_event \<Rightarrow> conf_disk \<Rightarrow> bool"
  for mac root where
  step_ask: "ce_HMAC env = mac \<Longrightarrow> so_Root store = root \<Longrightarrow> Authorize env store b d = ((r, err), d') \<Longrightarrow>
    conf_step mac root d (Asked (ce_Now env) b r err) d'"
| step_tell: "ce_HMAC env = mac \<Longrightarrow> so_Root store = root \<Longrightarrow>
    Confirm env store runtime ws actor session prompt d = ((found, err), d') \<Longrightarrow>
    conf_step mac root d (Told (ce_Now env) (identity_of runtime ws actor session) prompt found err) d'"

inductive_cases conf_stepE: "conf_step mac root d e d'"

fun call_ok :: "conf_event \<Rightarrow> bool" where
  "call_ok (Asked t b r err) \<longleftrightarrow> err = None"
| "call_ok (Told t b prompt found err) \<longleftrightarrow> found \<and> err = None"

text \<open>What a successful call did to the challenges, before they were sealed.\<close>

inductive conf_change ::
  "time \<Rightarrow> bindingMAC \<Rightarrow> conf_event \<Rightarrow> challenge list \<Rightarrow> challenge list \<Rightarrow> bool" where
  required: "ch_State c = ''pending'' \<Longrightarrow> answers t m b c \<Longrightarrow> cs = pre @ c # post \<Longrightarrow>
    conf_change t m (Asked t b (required_result b c) None) cs cs"
| authorized: "ch_State c = ''confirmed'' \<Longrightarrow> answers t m b c \<Longrightarrow> cs = pre @ c # post \<Longrightarrow>
    conf_change t m (Asked t b (authorized_result b c) None) cs
      (pre @ c\<lparr>ch_State := ''consumed'', ch_ConsumedAt := t\<rparr> # post)"
| issued: "c = new_challenge (EncodeToString bytes) m (ac_Action (bd_Action b)) t x \<Longrightarrow> x \<le> t + 15 * minute \<Longrightarrow>
    list_all (\<lambda>c. \<not> answers t m b c) cs \<Longrightarrow>
    conf_change t m (Asked t b (required_result b c) None) cs (cs @ [c])"
| confirmed: "ch_State c = ''pending'' \<Longrightarrow> t < ch_ExpiresAt c \<Longrightarrow> same_identity c m \<Longrightarrow>
    confirmed_id prompt = Some (ch_ID c) \<Longrightarrow> cs = pre @ c # post \<Longrightarrow> list_all (\<lambda>x. ch_ID x \<noteq> ch_ID c) pre \<Longrightarrow>
    conf_change t m (Told t b prompt True None) cs
      (pre @ c\<lparr>ch_State := ''confirmed'', ch_ConfirmedAt := t\<rparr> # post)"

inductive_cases conf_changeE: "conf_change t m e cs cs'"

text \<open>The binding and the time of an event.\<close>

fun event_binding :: "conf_event \<Rightarrow> Binding" where
  "event_binding (Asked t b r err) = b"
| "event_binding (Told t b prompt found err) = b"

fun event_time :: "conf_event \<Rightarrow> time" where
  "event_time (Asked t b r err) = t"
| "event_time (Told t b prompt found err) = t"

lemma ttl_bound: "0 < ttl store \<and> ttl store \<le> 15 * minute"
  by (simp add: ttl_def minute_def second_def)

text \<open>
  A call keeps a key that is there. It fails and leaves the challenges as they are, or it has
  seen them without a lock, dropped old ones, made one change and sealed all of them.
\<close>

definition step_result :: "(string \<Rightarrow> string \<Rightarrow> string) \<Rightarrow> conf_disk \<Rightarrow> conf_event \<Rightarrow> conf_disk \<Rightarrow> bool" where
  "step_result mac d e d' \<longleftrightarrow>
     (\<not> call_ok e \<and> disk_challenges d' = disk_challenges d
      \<or> call_ok e \<and> \<not> cd_lock d \<and> (\<exists>key cs. keyed key d'
          \<and> conf_change (event_time e) (bindingHMACs mac key (event_binding e)) e
              (filter (keep_challenge (event_time e)) (disk_challenges d)) cs
          \<and> list_all (\<lambda>c. validateChallengeRecord c = Inr ()) cs
          \<and> disk_challenges d' = map (rewritten mac key) cs))"

lemma disk_challenges_cong: "cd_state d' = cd_state d \<Longrightarrow> disk_challenges d' = disk_challenges d"
  unfolding disk_challenges_def by simp

lemma authorize_change_ok:
  assumes "authorize_change env store b st key = (Inr st1, r)"
  shows "conf_change (ce_Now env) (bindingHMACs (ce_HMAC env) key b) (Asked (ce_Now env) b r None)
    (filter (keep_challenge (ce_Now env)) (sf_Challenges st)) (sf_Challenges st1)"
proof -
  define m where "m = bindingHMACs (ce_HMAC env) key b"
  define cs where "cs = filter (keep_challenge (ce_Now env)) (sf_Challenges st)"
  show ?thesis unfolding m_def [symmetric] cs_def [symmetric]
  proof (cases "authorize_scan (ce_Now env) m b cs")
    case None
    with assms obtain bytes where "ce_RandomID env = Some bytes"
        "sf_Challenges st1 = cs @ [new_challenge (EncodeToString bytes) m (ac_Action (bd_Action b)) (ce_Now env) (ce_Now env + ttl store)]"
        "r = required_result b (new_challenge (EncodeToString bytes) m (ac_Action (bd_Action b)) (ce_Now env) (ce_Now env + ttl store))"
      by (auto simp: authorize_change_def Let_def prune_def m_def cs_def randomID_def split: option.splits)
    with None ttl_bound [of store] show "conf_change (ce_Now env) m (Asked (ce_Now env) b r None) cs (sf_Challenges st1)"
      by (auto intro: conf_change.issued simp: authorize_scan_None)
  next
    case (Some q)
    then obtain cs' where q: "authorize_scan (ce_Now env) m b cs = Some (cs', r)" "sf_Challenges st1 = cs'"
      using assms by (cases q) (auto simp: authorize_change_def Let_def prune_def m_def cs_def)
    from q(1) obtain pre c post where "cs = pre @ c # post" "answers (ce_Now env) m b c"
        "ch_State c = ''pending'' \<Longrightarrow> cs' = cs \<and> r = required_result b c"
        "ch_State c = ''confirmed'' \<Longrightarrow>
           cs' = pre @ c\<lparr>ch_State := ''consumed'', ch_ConsumedAt := ce_Now env\<rparr> # post \<and> r = authorized_result b c"
      by (rule authorize_scan_Some) blast
    moreover from this(2) have "ch_State c = ''pending'' \<or> ch_State c = ''confirmed''" by (simp add: answers_def)
    ultimately show "conf_change (ce_Now env) m (Asked (ce_Now env) b r None) cs (sf_Challenges st1)"
      unfolding q(2) by (auto intro: conf_change.required conf_change.authorized)
  qed
qed

lemma confirm_change_ok:
  assumes "confirm_change env b i st key = (Inr st1, found)" "confirmed_id prompt = Some i"
  shows "found \<and> conf_change (ce_Now env) (bindingHMACs (ce_HMAC env) key b) (Told (ce_Now env) b prompt True None)
    (filter (keep_challenge (ce_Now env)) (sf_Challenges st)) (sf_Challenges st1)"
proof -
  define m where "m = bindingHMACs (ce_HMAC env) key b"
  define cs where "cs = filter (keep_challenge (ce_Now env)) (sf_Challenges st)"
  from assms(1) have ok: "confirm_scan (ce_Now env) m i cs = Inr (sf_Challenges st1)" and "found"
    by (auto simp: confirm_change_def Let_def prune_def m_def cs_def split: sum.splits)
  show ?thesis unfolding m_def [symmetric] cs_def [symmetric]
    using ok \<open>found\<close> assms(2) by (auto elim!: confirm_scan_ok intro: conf_change.confirmed)
qed

lemma transaction_failed:
  assumes "transaction env root v0 change d = ((Some e, v), d')"
  shows "disk_challenges d' = disk_challenges d"
  using transaction_cases [OF assms] by (auto intro: disk_challenges_cong)

lemma transaction_done:
  assumes "transaction env root v0 change d = ((None, v), d')"
  obtains key st st1 where "\<not> cd_lock d" "sf_Challenges st = disk_challenges d" "change st key = (Inr st1, v)"
    "disk_challenges d' = map (rewritten (ce_HMAC env) key) (sf_Challenges st1)"
    "list_all (\<lambda>c. validateChallengeRecord c = Inr ()) (sf_Challenges st1)" "keyed key d'"
proof -
  from transaction_cases [OF assms] obtain key where "\<not> cd_lock d" "committed env change v key d d'" by auto
  then show ?thesis by (auto elim!: committed_challenges intro: that)
qed

lemma transaction_key:
  assumes "transaction env root v0 change d = (r, d')"
  shows "(cd_key d \<noteq> NoEntry \<longrightarrow> cd_key d' = cd_key d) \<and> (cd_key d' = cd_key d \<or> (\<exists>k. keyed k d'))"
  using assms transaction_cases [of env root v0 change d "fst r" "snd r" d'] by (auto simp: keyed_def)

lemma Authorize_cases:
  assumes "Authorize env store b d = ((r, err), d')"
  obtains (refused) e where "err = Some e" "r = denied" "d' = d" "validateBinding b = Inl e"
    | (failed) e v where "err = Some e" "r = denied" "validateBinding b = Inr ()"
        "transaction env (so_Root store) denied (authorize_change env store b) d = ((Some e, v), d')"
    | (ok) "err = None" "validateBinding b = Inr ()"
        "transaction env (so_Root store) denied (authorize_change env store b) d = ((None, r), d')"
proof (cases "validateBinding b")
  case (Inl e)
  with assms that(1) show ?thesis by (auto simp: Authorize_def)
next
  case (Inr u)
  obtain x v d1 where "transaction env (so_Root store) denied (authorize_change env store b) d = ((x, v), d1)"
    by (metis prod.collapse)
  with Inr assms that(2,3) show ?thesis by (cases x) (auto simp: Authorize_def)
qed

lemma Confirm_cases:
  assumes "Confirm env store runtime ws actor session prompt d = ((found, err), d')"
  obtains (ignored) "found = False" "d' = d"
    | (tried) i where "confirmed_id prompt = Some i" "validateIdentity (identity_of runtime ws actor session) = Inr ()"
        "transaction env (so_Root store) False (confirm_change env (identity_of runtime ws actor session) i) d = ((err, found), d')"
proof (cases "confirmed_id prompt")
  case None
  with assms that(1) show ?thesis by (auto simp: Confirm_def)
next
  case (Some i)
  show ?thesis
  proof (cases "validateIdentity (identity_of runtime ws actor session)")
    case (Inl e)
    with Some assms that(1) show ?thesis by (auto simp: Confirm_def)
  next
    case (Inr u)
    with Some assms that(2) show ?thesis by (auto simp: Confirm_def split: prod.splits)
  qed
qed

lemma conf_step_key:
  assumes "conf_step mac root d e d'"
  shows "(cd_key d \<noteq> NoEntry \<longrightarrow> cd_key d' = cd_key d) \<and> (cd_key d' = cd_key d \<or> (\<exists>k. keyed k d'))"
  using assms
proof (cases rule: conf_step.cases)
  case (step_ask env store b r err)
  from step_ask(4) show ?thesis by (cases rule: Authorize_cases) (auto dest: transaction_key)
next
  case (step_tell env store runtime ws actor session prompt found err)
  from step_tell(4) show ?thesis by (cases rule: Confirm_cases) (auto dest: transaction_key)
qed

lemma conf_step_result:
  assumes "conf_step mac root d e d'"
  shows "step_result mac d e d'"
  using assms
proof (cases rule: conf_step.cases)
  case (step_ask env store b r err)
  from step_ask(4) show ?thesis
  proof (cases rule: Authorize_cases)
    case (ok)
    from ok(3) show ?thesis
    proof (rule transaction_done)
      fix key st st1
      assume "\<not> cd_lock d" "sf_Challenges st = disk_challenges d" "authorize_change env store b st key = (Inr st1, r)"
        "disk_challenges d' = map (rewritten (ce_HMAC env) key) (sf_Challenges st1)"
        "list_all (\<lambda>c. validateChallengeRecord c = Inr ()) (sf_Challenges st1)" "keyed key d'"
      with ok(1) step_ask(1,2) authorize_change_ok [OF this(3)] show ?thesis unfolding step_result_def by auto
    qed
  qed (use step_ask in \<open>auto simp: step_result_def dest: transaction_failed\<close>)
next
  case (step_tell env store runtime ws actor session prompt found err)
  from step_tell(4) show ?thesis
  proof (cases rule: Confirm_cases)
    case ignored
    with step_tell show ?thesis by (auto simp: step_result_def)
  next
    case (tried i)
    show ?thesis
    proof (cases err)
      case (Some e)
      with tried step_tell show ?thesis by (auto simp: step_result_def dest: transaction_failed)
    next
      case None
      from tried(3) [unfolded None] show ?thesis
      proof (rule transaction_done)
        fix key st st1
        assume "\<not> cd_lock d" "sf_Challenges st = disk_challenges d"
          "confirm_change env (identity_of runtime ws actor session) i st key = (Inr st1, found)"
          "disk_challenges d' = map (rewritten (ce_HMAC env) key) (sf_Challenges st1)"
          "list_all (\<lambda>c. validateChallengeRecord c = Inr ()) (sf_Challenges st1)" "keyed key d'"
        with None step_tell(1,2) confirm_change_ok [OF this(3) tried(1)] show ?thesis unfolding step_result_def by auto
      qed
    qed
  qed
qed

end
