(* ===== verification/ConfProps.thy ===== *)
theory ConfProps
  imports ConfRun
begin

text \<open>
  Safety of the confirmations: an authorization goes back to a challenge that was shown and to
  the phrase with its identifier, and no confirmation is used twice. The traces start with a
  store without challenges.
\<close>

section \<open>Codes\<close>

lemma macEqual_hmac: "macEqual (hmacValue mac key dn v) (hmacValue mac key dn' w) \<longleftrightarrow>
    hmacValue mac key dn v = hmacValue mac key dn' w"
proof -
  have inj: "map byte_of x = map byte_of y \<longleftrightarrow> x = y" for x y
    by (simp add: inj_map_eq_map inj_def byte_of_inject)
  show ?thesis by (simp add: macEqual_def hmacValue_def DecodeString_EncodeToString EncodeToString_inject inj)
qed

lemma macEqual_trans: "macEqual x y \<Longrightarrow> macEqual x z \<Longrightarrow> macEqual y z"
  by (auto simp: macEqual_def split: option.splits)

lemma hmac_valid_utf8 [simp]: "to_valid_utf8 (hmacValue mac key dn v) = hmacValue mac key dn v"
  by (simp add: hmacValue_def to_valid_utf8_ascii)

text \<open>Two bindings whose runtime, workspace, actor and session have the same codes.\<close>

definition same_holder :: "(string \<Rightarrow> string \<Rightarrow> string) \<Rightarrow> string \<Rightarrow> Binding \<Rightarrow> Binding \<Rightarrow> bool" where
  "same_holder mac key b b' \<longleftrightarrow>
     (let m = bindingHMACs mac key b; m' = bindingHMACs mac key b'
      in mc_runtime m = mc_runtime m' \<and> mc_workspace m = mc_workspace m'
         \<and> mc_actor m = mc_actor m' \<and> mc_session m = mc_session m')"

lemma same_identity_holder:
  "same_identity c (bindingHMACs mac key b) \<Longrightarrow> same_identity c (bindingHMACs mac key b') \<Longrightarrow> same_holder mac key b b'"
  by (auto simp: same_identity_def same_holder_def Let_def bindingHMACs_def dest: macEqual_trans simp flip: macEqual_hmac)

section \<open>Every confirmation is used once\<close>

fun is_confirmation :: "(string \<Rightarrow> string \<Rightarrow> string) \<Rightarrow> string \<Rightarrow> Binding \<Rightarrow> conf_event \<Rightarrow> bool" where
  "is_confirmation mac key b (Told t b' prompt found err) \<longleftrightarrow> found \<and> err = None \<and> same_holder mac key b' b"
| "is_confirmation mac key b _ \<longleftrightarrow> False"

fun is_authorization :: "(string \<Rightarrow> string \<Rightarrow> string) \<Rightarrow> string \<Rightarrow> Binding \<Rightarrow> conf_event \<Rightarrow> bool" where
  "is_authorization mac key b (Asked t b' r err) \<longleftrightarrow> err = None \<and> rs_State r = Authorized \<and> same_holder mac key b' b"
| "is_authorization mac key b _ \<longleftrightarrow> False"

definition usable :: "(string \<Rightarrow> string \<Rightarrow> string) \<Rightarrow> string \<Rightarrow> Binding \<Rightarrow> challenge \<Rightarrow> bool" where
  "usable mac key b c \<longleftrightarrow> ch_State c = ''confirmed'' \<and> same_identity c (bindingHMACs mac key b)"

definition usable_count :: "(string \<Rightarrow> string \<Rightarrow> string) \<Rightarrow> string \<Rightarrow> Binding \<Rightarrow> conf_disk \<Rightarrow> nat" where
  "usable_count mac key b d = length (filter (usable mac key b) (disk_challenges d))"

text \<open>A disk with this key or none, and with decoded texts.\<close>

definition disk_ok :: "string \<Rightarrow> conf_disk \<Rightarrow> bool" where
  "disk_ok key d \<longleftrightarrow> (cd_key d = NoEntry \<or> keyed key d) \<and> list_all fixed_texts (disk_challenges d)"

definition keyed_step :: "(string \<Rightarrow> string \<Rightarrow> string) \<Rightarrow> string \<Rightarrow> string \<Rightarrow> conf_disk \<Rightarrow> conf_event \<Rightarrow> conf_disk \<Rightarrow> bool" where
  "keyed_step mac root key d e d' \<longleftrightarrow> conf_step mac root d e d' \<and> disk_ok key d \<and> disk_ok key d'"

text \<open>The states are texts that JSON keeps.\<close>

declare to_valid_utf8.simps [simp del]

lemma state_names [simp]:
  "valid_utf8 ''pending''" "valid_utf8 ''confirmed''" "valid_utf8 ''consumed''"
  "to_valid_utf8 ''pending'' = ''pending''" "to_valid_utf8 ''confirmed'' = ''confirmed''"
  "to_valid_utf8 ''consumed'' = ''consumed''"
  by code_simp+

lemma rewritten_usable:
  "fixed_texts c \<or> ch_State c = ''pending'' \<Longrightarrow> usable mac key b (rewritten mac key c) = usable mac key b c"
  by (auto simp: rewritten_fixed usable_def same_identity_def) (auto simp: rewritten_def decode_challenge_def)

lemma filter_rewritten:
  "list_all (\<lambda>c. fixed_texts c \<or> ch_State c = ''pending'') cs \<Longrightarrow>
   length (filter (usable mac key b) (map (rewritten mac key) cs)) = length (filter (usable mac key b) cs)"
  by (induction cs) (simp_all add: rewritten_usable)

lemma fixed_state: "fixed_texts c \<Longrightarrow> valid_utf8 s \<Longrightarrow> fixed_texts (c\<lparr>ch_State := s\<rparr>)"
  "fixed_texts (c\<lparr>ch_ConsumedAt := t\<rparr>) = fixed_texts c" "fixed_texts (c\<lparr>ch_ConfirmedAt := t\<rparr>) = fixed_texts c"
  by (auto simp: fixed_texts_iff)

lemma change_fixed:
  "conf_change t m e cs cs' \<Longrightarrow> list_all fixed_texts cs \<Longrightarrow>
   list_all (\<lambda>c. fixed_texts c \<or> ch_State c = ''pending'') cs'"
  by (auto elim!: conf_changeE simp: list_all_iff new_challenge_def fixed_state)

lemma change_count:
  assumes "conf_change t (bindingHMACs mac key (event_binding e)) e cs cs'"
  shows "length (filter (usable mac key b) cs') + (if is_authorization mac key b e then 1 else 0)
    \<le> length (filter (usable mac key b) cs) + (if is_confirmation mac key b e then 1 else 0)"
  using assms
proof (cases rule: conf_change.cases)
  case (authorized c b' pre post)
  have "same_identity c (bindingHMACs mac key b')"
    using authorized by (auto simp: answers_def matches_def)
  then have "usable mac key b c" if "same_holder mac key b' b"
    using that authorized by (auto simp: usable_def same_identity_def same_holder_def Let_def)
  then show ?thesis using authorized by (auto simp: usable_def authorized_result_def)
next
  case (confirmed c prompt pre post b')
  then show ?thesis
    using same_identity_holder [of c mac key b' b] by (auto simp: usable_def same_identity_def)
qed (auto simp: usable_def required_result_def new_challenge_def)

interpretation confirmations: one_shot "keyed_step mac root key" "is_confirmation mac key" "is_authorization mac key"
  "usable_count mac key" for mac root key
proof
  fix d e d' b
  assume "keyed_step mac root key d e d'"
  then have s: "step_result mac d e d'" and ok: "disk_ok key d" "disk_ok key d'"
    by (auto simp: keyed_step_def dest: conf_step_result)
  show "usable_count mac key b d' + (if is_authorization mac key b e then 1 else 0)
    \<le> usable_count mac key b d + (if is_confirmation mac key b e then 1 else 0)"
  proof (cases "call_ok e")
    case False
    then have "\<not> is_authorization mac key b e" by (cases e) auto
    with s False show ?thesis by (auto simp: step_result_def usable_count_def)
  next
    case True
    with s ok(2) obtain cs where c: "conf_change (event_time e) (bindingHMACs mac key (event_binding e)) e
        (filter (keep_challenge (event_time e)) (disk_challenges d)) cs" "disk_challenges d' = map (rewritten mac key) cs"
      by (auto simp: step_result_def disk_ok_def keyed_def)
    have "list_all fixed_texts (filter (keep_challenge (event_time e)) (disk_challenges d))"
      using ok(1) by (auto simp: disk_ok_def list_all_iff)
    then have "usable_count mac key b d' = length (filter (usable mac key b) cs)"
      unfolding usable_count_def c(2) by (intro filter_rewritten change_fixed [OF c(1)])
    moreover have "length (filter P (filter Q xs)) \<le> length (filter P xs)" for P Q and xs :: "challenge list"
      by (induction xs) auto
    from this [of "usable mac key b" "keep_challenge (event_time e)" "disk_challenges d"]
    have "length (filter (usable mac key b) (filter (keep_challenge (event_time e)) (disk_challenges d))) \<le> usable_count mac key b d"
      by (simp only: usable_count_def)
    ultimately show ?thesis using change_count [OF c(1), of b] by linarith
  qed
qed

section \<open>Runs with one key\<close>

lemma step_fixed: "conf_step mac root d e d' \<Longrightarrow> list_all fixed_texts (disk_challenges d) \<Longrightarrow> list_all fixed_texts (disk_challenges d')"
  using conf_step_result [of mac root d e d'] by (auto simp: step_result_def list_all_iff)

lemma run_key:
  "run (conf_step mac root) d es d' \<Longrightarrow> keyed key d' \<Longrightarrow> cd_key d = NoEntry \<or> keyed key d"
proof (induction rule: run.induct)
  case (run_Cons d e d1 es d2)
  then have "cd_key d1 = NoEntry \<or> keyed key d1" by blast
  with conf_step_key [OF run_Cons(1)] show ?case unfolding keyed_def by metis
qed simp

lemma run_keyed:
  "run (conf_step mac root) d es d' \<Longrightarrow> list_all fixed_texts (disk_challenges d) \<Longrightarrow> keyed key d' \<Longrightarrow>
   run (keyed_step mac root key) d es d'"
proof (induction rule: run.induct)
  case (run_Cons d e d1 es d2)
  have "list_all fixed_texts (disk_challenges d1)" using step_fixed [OF run_Cons(1,4)] .
  then have "keyed_step mac root key d e d1"
    unfolding keyed_step_def disk_ok_def
    using run_Cons run_key [OF run.run_Cons [OF run_Cons(1,2)] run_Cons(5)] run_key [OF run_Cons(2,5)] by simp
  with run_Cons \<open>list_all fixed_texts (disk_challenges d1)\<close> show ?case by (auto intro: run.run_Cons)
qed (rule run_Nil)

text \<open>C29: on a store that began without challenges a runtime, workspace, actor and session get at
  most as many authorizations as there were successful confirmations by them.\<close>

theorem authorized_once:
  assumes "run (conf_step mac root) d0 es d" "disk_challenges d0 = []" "keyed key d"
  shows "length (filter (is_authorization mac key b) es) \<le> length (filter (is_confirmation mac key b) es)"
proof -
  from assms(2) have "list_all fixed_texts (disk_challenges d0)" by simp
  from confirmations.held_run [OF run_keyed [OF assms(1) this assms(3)], of b] assms(2)
  show ?thesis by (simp add: usable_count_def)
qed

section \<open>Where an authorization comes from\<close>

definition macs_of :: "challenge \<Rightarrow> bindingMAC" where
  "macs_of c = \<lparr>mc_runtime = ch_RuntimeHMAC c, mc_workspace = ch_WorkspaceHMAC c, mc_actor = ch_ActorHMAC c,
     mc_session = ch_SessionHMAC c, mc_target = ch_TargetHMAC c, mc_input = ch_InputHMAC c\<rparr>"

text \<open>A challenge was shown for a binding with its codes.\<close>

definition shown :: "(string \<Rightarrow> string \<Rightarrow> string) \<Rightarrow> string \<Rightarrow> challenge \<Rightarrow> conf_event \<Rightarrow> bool" where
  "shown mac key c e \<longleftrightarrow> (\<exists>b r. e = Asked (ch_CreatedAt c) b r None \<and> rs_State r = ChallengeRequired
     \<and> rs_ChallengeID r = ch_ID c \<and> rs_ExpiresAt r = ch_ExpiresAt c \<and> ch_ExpiresAt c \<le> ch_CreatedAt c + 15 * minute
     \<and> bindingHMACs mac key b = macs_of c \<and> to_valid_utf8 (ac_Action (bd_Action b)) = ch_Action c)"

definition confirmed_by :: "(string \<Rightarrow> string \<Rightarrow> string) \<Rightarrow> string \<Rightarrow> challenge \<Rightarrow> conf_event \<Rightarrow> bool" where
  "confirmed_by mac key c e \<longleftrightarrow> (\<exists>b prompt. e = Told (ch_ConfirmedAt c) b prompt True None
     \<and> confirmed_id prompt = Some (ch_ID c) \<and> same_identity c (bindingHMACs mac key b)
     \<and> ch_CreatedAt c \<le> ch_ConfirmedAt c \<and> ch_ConfirmedAt c < ch_ExpiresAt c)"

definition traced :: "(string \<Rightarrow> string \<Rightarrow> string) \<Rightarrow> string \<Rightarrow> conf_event list \<Rightarrow> challenge \<Rightarrow> bool" where
  "traced mac key hist c \<longleftrightarrow> (\<exists>e \<in> set hist. shown mac key c e)
     \<and> (ch_State c \<noteq> ''pending'' \<longrightarrow>
        (\<exists>pre e mid e' post. hist = pre @ e # mid @ e' # post \<and> shown mac key c e \<and> confirmed_by mac key c e'))"

lemma traced_snoc: "traced mac key hist c \<Longrightarrow> traced mac key (hist @ [e]) c"
  unfolding traced_def
proof (elim conjE bexE, intro conjI impI)
  fix x
  assume "x \<in> set hist" "shown mac key c x"
  then show "\<exists>x \<in> set (hist @ [e]). shown mac key c x" by auto
next
  assume "ch_State c \<noteq> ''pending'' \<longrightarrow>
        (\<exists>pre x mid x' post. hist = pre @ x # mid @ x' # post \<and> shown mac key c x \<and> confirmed_by mac key c x')"
    and "ch_State c \<noteq> ''pending''"
  then obtain pre x mid x' post where "hist @ [e] = pre @ x # mid @ x' # (post @ [e])" "shown mac key c x" "confirmed_by mac key c x'"
    by auto
  then show "\<exists>pre x mid x' post. hist @ [e] = pre @ x # mid @ x' # post \<and> shown mac key c x \<and> confirmed_by mac key c x'"
    by blast
qed

lemma macs_of_simps [simp]: "macs_of (c\<lparr>ch_State := s\<rparr>) = macs_of c" "macs_of (c\<lparr>ch_ConsumedAt := t\<rparr>) = macs_of c"
  "macs_of (c\<lparr>ch_ConfirmedAt := t\<rparr>) = macs_of c" "macs_of (c\<lparr>ch_RecordHMAC := x\<rparr>) = macs_of c"
  by (simp_all add: macs_of_def)

lemma same_identity_simps [simp]:
  "same_identity (c\<lparr>ch_State := s\<rparr>) m = same_identity c m" "same_identity (c\<lparr>ch_ConsumedAt := t\<rparr>) m = same_identity c m"
  "same_identity (c\<lparr>ch_ConfirmedAt := t\<rparr>) m = same_identity c m" "same_identity (c\<lparr>ch_RecordHMAC := x\<rparr>) m = same_identity c m"
  by (simp_all add: same_identity_def)

lemma shown_simps [simp]:
  "shown mac key (c\<lparr>ch_State := s\<rparr>) = shown mac key c" "shown mac key (c\<lparr>ch_ConsumedAt := t\<rparr>) = shown mac key c"
  "shown mac key (c\<lparr>ch_ConfirmedAt := t\<rparr>) = shown mac key c" "shown mac key (c\<lparr>ch_RecordHMAC := x\<rparr>) = shown mac key c"
  by (simp_all add: fun_eq_iff shown_def)

lemma confirmed_by_simps [simp]:
  "confirmed_by mac key (c\<lparr>ch_State := s\<rparr>) = confirmed_by mac key c"
  "confirmed_by mac key (c\<lparr>ch_ConsumedAt := t\<rparr>) = confirmed_by mac key c"
  "confirmed_by mac key (c\<lparr>ch_RecordHMAC := x\<rparr>) = confirmed_by mac key c"
  by (simp_all add: fun_eq_iff confirmed_by_def)

lemma traced_rewritten: "fixed_texts c \<Longrightarrow> traced mac key hist (rewritten mac key c) = traced mac key hist c"
  by (simp add: rewritten_fixed traced_def)

lemma traced_consumed: "traced mac key hist c \<Longrightarrow> ch_State c = ''confirmed'' \<Longrightarrow>
    traced mac key hist (c\<lparr>ch_State := ''consumed'', ch_ConsumedAt := t\<rparr>)"
  by (auto simp: traced_def)

lemma traced_confirmed:
  assumes "traced mac key hist c" "confirmed_by mac key (c\<lparr>ch_ConfirmedAt := t\<rparr>) e"
  shows "traced mac key (hist @ [e]) (c\<lparr>ch_State := ''confirmed'', ch_ConfirmedAt := t\<rparr>)"
proof -
  from assms(1) obtain x where x: "x \<in> set hist" "shown mac key c x" by (auto simp: traced_def)
  then obtain pre mid where "hist = pre @ x # mid" by (auto dest: split_list)
  then have h: "hist @ [e] = pre @ x # mid @ e # []" by simp
  have "shown mac key (c\<lparr>ch_State := ''confirmed'', ch_ConfirmedAt := t\<rparr>) x" using x(2) by simp
  moreover have "confirmed_by mac key (c\<lparr>ch_State := ''confirmed'', ch_ConfirmedAt := t\<rparr>) e"
    using assms(2) by (simp add: confirmed_by_def same_identity_def)
  moreover have "x \<in> set (hist @ [e])" using x(1) by simp
  ultimately show ?thesis unfolding traced_def using h by blast
qed

lemma traced_issued:
  assumes "c = new_challenge (EncodeToString bytes) (bindingHMACs mac key b) (ac_Action (bd_Action b)) t x" "x \<le> t + 15 * minute"
  shows "traced mac key (hist @ [Asked t b (required_result b c) None]) (rewritten mac key c)"
proof -
  have "shown mac key (rewritten mac key c) (Asked t b (required_result b c) None)"
    using assms by (simp add: shown_def rewritten_def decode_challenge_def required_result_def new_challenge_def macs_of_def
        bindingHMACs_def to_valid_utf8_ascii)
  moreover have "ch_State (rewritten mac key c) = ''pending''"
    by (simp add: assms(1) rewritten_def decode_challenge_def new_challenge_def)
  ultimately show ?thesis by (simp add: traced_def)
qed

lemma step_traced:
  assumes "keyed_step mac root key d e d'" "\<forall>c \<in> set (disk_challenges d). traced mac key hist c"
  shows "\<forall>c \<in> set (disk_challenges d'). traced mac key (hist @ [e]) c"
proof (cases "call_ok e")
  case False
  with assms conf_step_result [of mac root d e d'] show ?thesis
    by (auto simp: keyed_step_def step_result_def intro: traced_snoc)
next
  case True
  define t where "t = event_time e"
  define F where "F = filter (keep_challenge t) (disk_challenges d)"
  from True assms(1) obtain cs where c: "conf_change t (bindingHMACs mac key (event_binding e)) e F cs"
      "list_all (\<lambda>c. validateChallengeRecord c = Inr ()) cs" "disk_challenges d' = map (rewritten mac key) cs"
    unfolding F_def t_def keyed_step_def disk_ok_def keyed_def by (fastforce dest!: conf_step_result simp: step_result_def keyed_def)
  have F: "traced mac key hist x" "fixed_texts x" if "x \<in> set F" for x
    using that assms by (auto simp: F_def keyed_step_def disk_ok_def list_all_iff)
  have old: "traced mac key (hist @ [e]) (rewritten mac key x)" if "x \<in> set F" for x
    using F [OF that] by (simp add: traced_rewritten traced_snoc)
  have "traced mac key (hist @ [e]) (rewritten mac key x)" if x: "x \<in> set cs" for x
    using c(1)
  proof (cases rule: conf_change.cases)
    case (required c b pre post)
    have "cs = F" using required by simp
    with x show ?thesis by (simp add: old)
  next
    case (authorized c b pre post)
    have "c \<in> set F" using authorized by simp
    from F [OF this] authorized have
      "traced mac key (hist @ [e]) (rewritten mac key (c\<lparr>ch_State := ''consumed'', ch_ConsumedAt := t\<rparr>))"
      by (simp add: traced_rewritten fixed_state traced_snoc traced_consumed)
    moreover have "x = c\<lparr>ch_State := ''consumed'', ch_ConsumedAt := t\<rparr> \<or> x \<in> set F" using x authorized(2,5) by auto
    ultimately show ?thesis using old by blast
  next
    case (issued c bytes b y)
    have b: "event_binding e = b" by (subst issued(1)) simp
    from traced_issued [OF issued(3) [unfolded b] issued(4)]
    have "traced mac key (hist @ [e]) (rewritten mac key c)" by (subst issued(1))
    moreover have "x = c \<or> x \<in> set F" using x issued(2) by auto
    ultimately show ?thesis using old by blast
  next
    case (confirmed c prompt pre post b)
    have "c \<in> set F" using confirmed by simp
    let ?c = "c\<lparr>ch_State := ''confirmed'', ch_ConfirmedAt := t\<rparr>"
    have "validateChallengeRecord ?c = Inr ()" using c(2) confirmed by simp
    then have "ch_CreatedAt c \<le> t" by (auto simp: validateChallengeRecord_def is_zero_def split: if_splits)
    then have "confirmed_by mac key (c\<lparr>ch_ConfirmedAt := t\<rparr>) e"
      using confirmed by (auto simp: confirmed_by_def)
    with F [OF \<open>c \<in> set F\<close>] have "traced mac key (hist @ [e]) (rewritten mac key ?c)"
      by (simp add: traced_rewritten fixed_state traced_confirmed)
    moreover have "x = ?c \<or> x \<in> set F" using x confirmed(2,7) by auto
    ultimately show ?thesis using old by blast
  qed
  with c(3) show ?thesis by auto
qed

lemma run_traced:
  "run (keyed_step mac root key) d es d' \<Longrightarrow> \<forall>c \<in> set (disk_challenges d). traced mac key hist c \<Longrightarrow>
   \<forall>c \<in> set (disk_challenges d'). traced mac key (hist @ es) c"
proof (induction arbitrary: hist rule: run.induct)
  case (run_Cons d e d1 es d2)
  from run_Cons.IH [OF step_traced [OF run_Cons(1,4)]] show ?case by simp
qed simp

lemma bindingHMACs_eq:
  fixes mac key b b'
  defines "m \<equiv> bindingHMACs mac key b" and "m' \<equiv> bindingHMACs mac key b'"
  assumes "macEqual (mc_runtime m) (mc_runtime m')" "macEqual (mc_workspace m) (mc_workspace m')"
    "macEqual (mc_actor m) (mc_actor m')" "macEqual (mc_session m) (mc_session m')"
    "macEqual (mc_target m) (mc_target m')" "macEqual (mc_input m) (mc_input m')"
  shows "m = m'"
  using assms by (simp add: bindingHMACs_def macEqual_hmac)

text \<open>C28: on a store that began without challenges an authorization was preceded by a challenge
  shown for a binding with the same codes and action, and then by the phrase with the identifier of
  that challenge, given with the codes of the same runtime, workspace, actor and session; it comes
  before the challenge expires, at most 15 minutes after it was created.\<close>

theorem authorization_was_confirmed:
  assumes "run (conf_step mac root) d0 (es @ [Asked t b r None]) d" "disk_challenges d0 = []" "rs_State r = Authorized"
  shows "\<exists>key pre t1 b1 r1 mid t2 b2 prompt post. keyed key d
    \<and> es = pre @ Asked t1 b1 r1 None # mid @ Told t2 b2 prompt True None # post
    \<and> rs_State r1 = ChallengeRequired \<and> confirmed_id prompt = Some (rs_ChallengeID r1)
    \<and> bindingHMACs mac key b1 = bindingHMACs mac key b
    \<and> to_valid_utf8 (ac_Action (bd_Action b1)) = ac_Action (bd_Action b)
    \<and> same_holder mac key b2 b
    \<and> t1 \<le> t2 \<and> t2 \<le> t \<and> t < rs_ExpiresAt r1 \<and> rs_ExpiresAt r1 \<le> t1 + 15 * minute"
proof -
  from assms(1) obtain d1 where "conf_step mac root d1 (Asked t b r None) d"
    by (auto simp: run_append run_Cons_iff elim: run_NilE)
  from conf_step_result [OF this] obtain key where key: "keyed key d" by (auto simp: step_result_def)
  have "list_all fixed_texts (disk_challenges d0)" using assms(2) by simp
  from run_keyed [OF assms(1) this key] obtain d2 where d2: "run (keyed_step mac root key) d0 es d2"
      "keyed_step mac root key d2 (Asked t b r None) d"
    by (auto simp: run_append run_Cons_iff elim: run_NilE)
  from d2(2) key obtain cs where k: "conf_change t (bindingHMACs mac key b) (Asked t b r None)
        (filter (keep_challenge t) (disk_challenges d2)) cs" "list_all (\<lambda>c. validateChallengeRecord c = Inr ()) cs"
    by (auto simp: keyed_step_def step_result_def keyed_def dest!: conf_step_result)
  from k(1) assms(3) obtain c pre post where c: "ch_State c = ''confirmed''" "answers t (bindingHMACs mac key b) b c"
      "filter (keep_challenge t) (disk_challenges d2) = pre @ c # post"
      "cs = pre @ c\<lparr>ch_State := ''consumed'', ch_ConsumedAt := t\<rparr> # post"
    by (auto elim!: conf_changeE simp: required_result_def)
  have "validateChallengeRecord (c\<lparr>ch_State := ''consumed'', ch_ConsumedAt := t\<rparr>) = Inr ()" using c(4) k(2) by simp
  then have late: "ch_ConfirmedAt c \<le> t" by (auto simp: validateChallengeRecord_def split: if_splits)
  have "c \<in> set (filter (keep_challenge t) (disk_challenges d2))" unfolding c(3) by simp
  then have "c \<in> set (disk_challenges d2)" by simp
  with run_traced [OF d2(1), of "[]"] assms(2) have "traced mac key es c" by simp
  with c(1) obtain e1 e2 before mid after where es: "es = before @ e1 # mid @ e2 # after" "shown mac key c e1" "confirmed_by mac key c e2"
    by (auto simp: traced_def)
  from es(2) obtain b1 r1 where e1: "e1 = Asked (ch_CreatedAt c) b1 r1 None" "rs_State r1 = ChallengeRequired"
      "rs_ChallengeID r1 = ch_ID c" "rs_ExpiresAt r1 = ch_ExpiresAt c" "ch_ExpiresAt c \<le> ch_CreatedAt c + 15 * minute"
      "bindingHMACs mac key b1 = macs_of c" "to_valid_utf8 (ac_Action (bd_Action b1)) = ch_Action c"
    by (auto simp: shown_def)
  from es(3) obtain b2 prompt where e2: "e2 = Told (ch_ConfirmedAt c) b2 prompt True None" "confirmed_id prompt = Some (ch_ID c)"
      "same_identity c (bindingHMACs mac key b2)" "ch_CreatedAt c \<le> ch_ConfirmedAt c"
    by (auto simp: confirmed_by_def)
  from c(2) have m: "same_identity c (bindingHMACs mac key b)" "macEqual (ch_TargetHMAC c) (mc_target (bindingHMACs mac key b))"
      "macEqual (ch_InputHMAC c) (mc_input (bindingHMACs mac key b))" "ch_Action c = ac_Action (bd_Action b)" "t < ch_ExpiresAt c"
    by (auto simp: answers_def matches_def)
  have "bindingHMACs mac key b1 = bindingHMACs mac key b"
    using m(1-3) by (intro bindingHMACs_eq) (auto simp: e1(6) macs_of_def same_identity_def)
  moreover have "same_holder mac key b2 b" using same_identity_holder [OF e2(3) m(1)] .
  ultimately show ?thesis using key es(1) e1 e2 m(4,5) late by metis
qed

end
