(* ===== verification/ConfLife.thy ===== *)
theory ConfLife
  imports ConfProps
begin

text \<open>
  What the store does when nothing fails: a transaction on a good store succeeds and leaves a good
  store, and one challenge lives from its request to the refusal of its reuse. Then what a lock
  that was left behind does, and which actions a binding can have.
\<close>

section \<open>Transactions without refusals\<close>

definition calm :: "(string \<Rightarrow> string \<Rightarrow> string) \<Rightarrow> conf_env \<Rightarrow> bool" where
  "calm mac env \<longleftrightarrow> ce_HMAC env = mac \<and> ce_Refused env = (\<lambda>_. None) \<and> length (ce_KeyBytes env) = 32"

definition valid_root :: "string \<Rightarrow> bool" where
  "valid_root root \<longleftrightarrow> TrimSpace root \<noteq> [] \<and> has_prefix root ''/''"

definition new_store :: "conf_disk \<Rightarrow> bool" where
  "new_store d \<longleftrightarrow> \<not> cd_lock d \<and> cd_root d = NoRoot \<and> cd_key d = NoEntry \<and> cd_state d = NoEntry"

definition store_at :: "(string \<Rightarrow> string \<Rightarrow> string) \<Rightarrow> conf_disk \<Rightarrow> string \<Rightarrow> challenge list \<Rightarrow> bool" where
  "store_at mac d key cs \<longleftrightarrow> \<not> cd_lock d \<and> cd_root d = PlainRoot 448 \<and> cd_key d = RegularFile 384 key \<and> length key = 32
     \<and> (\<exists>st. cd_state d = RegularFile 384 (StateAlone st) \<and> sf_SchemaVersion st = 3 \<and> sf_Challenges st = cs
        \<and> (\<forall>env. ce_HMAC env = mac \<longrightarrow> authenticate_state env key (StateAlone st) = Inr st))"

definition good_store :: "(string \<Rightarrow> string \<Rightarrow> string) \<Rightarrow> conf_env \<Rightarrow> conf_disk \<Rightarrow> string \<Rightarrow> challenge list \<Rightarrow> bool" where
  "good_store mac env d key cs \<longleftrightarrow> new_store d \<and> cs = [] \<and> key = ce_KeyBytes env \<or> store_at mac d key cs"

definition writable :: "challenge \<Rightarrow> bool" where
  "writable c \<longleftrightarrow> validateChallengeRecord c = Inr () \<and> fixed_texts c
     \<and> list_all marshalable_time [ch_CreatedAt c, ch_ExpiresAt c, ch_ConfirmedAt c, ch_ConsumedAt c]"

lemma private_modes [simp]: "\<not> group_or_other 384" "\<not> group_or_other 448"
  by (simp_all add: group_or_other_def)

lemma calm_calls [simp]: "calm mac env \<Longrightarrow> os_call env c = Inr ()"
  by (simp add: calm_def os_call_def)

lemma macEqual_same: "macEqual (hmacValue mac key n v) (hmacValue mac key n v)"
  by (simp add: macEqual_hmac)

lemma record_hmac_ignores [simp]: "challengeRecordHMAC mac key (c\<lparr>ch_RecordHMAC := x\<rparr>) = challengeRecordHMAC mac key c"
  by (simp add: challengeRecordHMAC_def)

lemma state_hmac_ignores [simp]: "stateFileHMAC mac key (st\<lparr>sf_StateHMAC := x\<rparr>) = stateFileHMAC mac key st"
  by (simp add: stateFileHMAC_def)

lemma valid_ignores_hmac [simp]: "validateChallengeRecord (c\<lparr>ch_RecordHMAC := x\<rparr>) = validateChallengeRecord c"
  by (simp add: validateChallengeRecord_def)

lemma encodable_state:
  "list_all writable (sf_Challenges st) \<Longrightarrow> encodable (state_json (st\<lparr>sf_StateHMAC := h\<rparr>))"
  by (auto simp: encodable_def state_json_def challenge_json_def list_all_iff writable_def)

lemma rewritten_writable:
  "writable c \<Longrightarrow> writable (c\<lparr>ch_RecordHMAC := challengeRecordHMAC mac key c\<rparr>)"
  by (auto simp: writable_def fixed_texts_iff challengeRecordHMAC_def valid_utf8_def)

lemma seal_readable:
  assumes "list_all writable (sf_Challenges st)" "sf_SchemaVersion st = 3" "ce_HMAC env = mac"
  obtains st' where "seal_state env key st = Inr st'" "decode_state st' = st'" "encodable (state_json st')"
    "sf_SchemaVersion st' = 3" "sf_Challenges st' = map (rewritten mac key) (sf_Challenges st)"
    "\<forall>env. ce_HMAC env = mac \<longrightarrow> authenticate_state env key (StateAlone st') = Inr st'"
proof -
  define cs where "cs = map (rewritten mac key) (sf_Challenges st)"
  define st1 where "st1 = st\<lparr>sf_Challenges := cs\<rparr>"
  define st2 where "st2 = st1\<lparr>sf_StateHMAC := stateFileHMAC mac key st1\<rparr>"
  have sealed: "map (\<lambda>c. c\<lparr>ch_RecordHMAC := challengeRecordHMAC mac key c\<rparr>) (sf_Challenges st) = cs"
    using assms(1) by (auto simp: cs_def list_all_iff writable_def rewritten_fixed)
  have w: "list_all writable cs" unfolding sealed [symmetric] using assms(1) by (auto simp: list_all_iff rewritten_writable)
  have valid: "list_all (\<lambda>c. validateChallengeRecord c = Inr ()) (sf_Challenges st)"
    using assms(1) by (auto simp: list_all_iff writable_def)
  show ?thesis
  proof (rule that [of st2])
    show "seal_state env key st = Inr st2"
      using valid assms(3) by (auto simp: seal_state_def bind_r_Inr seal_records_ok Let_def sealed st1_def st2_def)
    have "map decode_challenge cs = cs"
      by (intro map_idI) (use w in \<open>auto simp: list_all_iff writable_def fixed_texts_def\<close>)
    then show "decode_state st2 = st2" by (simp add: decode_state_def st1_def st2_def stateFileHMAC_def)
    show "encodable (state_json st2)" using w unfolding st2_def by (intro encodable_state) (simp add: st1_def)
    show "sf_SchemaVersion st2 = 3" "sf_Challenges st2 = map (rewritten mac key) (sf_Challenges st)"
      using assms(2) by (simp_all add: st1_def st2_def cs_def)
    have "macEqual (ch_RecordHMAC c) (challengeRecordHMAC mac key c)" if "c \<in> set cs" for c
      using that unfolding sealed [symmetric] by (auto simp: challengeRecordHMAC_def macEqual_same)
    then have "check_records env' key cs = Inr ()" if "ce_HMAC env' = mac" for env'
      using that w by (auto simp: check_records_ok list_all_iff writable_def)
    moreover have "macEqual (sf_StateHMAC st2) (stateFileHMAC mac key st2)"
      unfolding st2_def by (simp add: stateFileHMAC_def macEqual_same)
    ultimately show "\<forall>env. ce_HMAC env = mac \<longrightarrow> authenticate_state env key (StateAlone st2) = Inr st2"
      using assms(2) by (auto simp: authenticate_state_ok st1_def st2_def)
  qed
qed

lemma calm_key:
  assumes "calm mac env" "cd_key d = NoEntry \<and> key = ce_KeyBytes env \<or> cd_key d = RegularFile 384 key \<and> length key = 32"
  shows "loadOrCreateKey env d = (Inr key, d\<lparr>cd_key := RegularFile 384 key\<rparr>)"
  using assms by (cases d) (auto simp: loadOrCreateKey_def create_key_def Let_def checks.simps calm_def os_call_def)

lemma good_store_key:
  "good_store mac env d key cs \<Longrightarrow>
   cd_key d = NoEntry \<and> key = ce_KeyBytes env \<or> cd_key d = RegularFile 384 key \<and> length key = 32"
  by (auto simp: good_store_def new_store_def store_at_def)

lemma calm_read:
  assumes "calm mac env" "good_store mac env d key cs"
  obtains st where "readState env key d = Inr st" "sf_Challenges st = cs" "sf_SchemaVersion st = 3"
  using assms by (auto simp: good_store_def readState_def new_store_def store_at_def empty_state_def calm_def)

lemma good_store_cong:
  "cd_lock d' = cd_lock d \<Longrightarrow> cd_root d' = cd_root d \<Longrightarrow> cd_key d' = cd_key d \<Longrightarrow> cd_state d' = cd_state d \<Longrightarrow>
   good_store mac env d' key cs = good_store mac env d key cs"
  by (simp add: good_store_def new_store_def store_at_def)

lemma calm_root:
  assumes "calm mac env" "good_store mac env d key cs" "valid_root root"
  shows "openRoot env root d = (Inr (), d\<lparr>cd_root := PlainRoot 448\<rparr>) \<and> \<not> cd_lock d"
  using assms by (auto simp: good_store_def openRoot_def new_store_def store_at_def valid_root_def checks.simps Let_def)

text \<open>The transaction reads the challenges, and what it writes is read by the next one.\<close>

lemma calm_transaction:
  assumes "calm mac env" "good_store mac env d key cs" "valid_root root"
    and "\<And>st. sf_Challenges st = cs \<Longrightarrow> change st key = (Inr (st\<lparr>sf_Challenges := cs'\<rparr>), v)" "list_all writable cs'"
  obtains d' where "transaction env root v0 change d = ((None, v), d')" "store_at mac d' key (map (rewritten mac key) cs')"
proof -
  let ?d = "d\<lparr>cd_root := PlainRoot 448\<rparr>"
  let ?k = "?d\<lparr>cd_lock := True, cd_key := RegularFile 384 key\<rparr>"
  have root: "openRoot env root d = (Inr (), ?d)" "\<not> cd_lock d" using calm_root [OF assms(1-3)] by simp_all
  have key: "loadOrCreateKey env (?d\<lparr>cd_lock := True\<rparr>) = (Inr key, ?k)"
    using calm_key [OF assms(1), of "?d\<lparr>cd_lock := True\<rparr>" key] good_store_key [OF assms(2)] by simp
  have len: "length key = 32" using good_store_key [OF assms(2)] assms(1) by (auto simp: calm_def)
  obtain st where st: "readState env key d = Inr st" "sf_Challenges st = cs" "sf_SchemaVersion st = 3"
    by (rule calm_read [OF assms(1,2)])
  have rd: "readState env key ?k = Inr st" using st(1) by (simp add: readState_def)
  have irregular: "cd_state d \<noteq> IrregularEntry"
    using assms(2) by (auto simp: good_store_def new_store_def store_at_def)
  obtain st' where st': "seal_state env key (st\<lparr>sf_Challenges := cs'\<rparr>) = Inr st'" "decode_state st' = st'" "encodable (state_json st')"
      "sf_SchemaVersion st' = 3" "sf_Challenges st' = map (rewritten mac key) cs'"
      "\<forall>env. ce_HMAC env = mac \<longrightarrow> authenticate_state env key (StateAlone st') = Inr st'"
    using seal_readable [of "st\<lparr>sf_Challenges := cs'\<rparr>" env mac key] assms(1,5) st(3) by (auto simp: calm_def)
  have wr: "writeState env st' ?k = (Inr (), ?k\<lparr>cd_state := RegularFile 384 (StateAlone st')\<rparr>)"
    using assms(1) st'(2,3) irregular by (simp add: writeState_def checks.simps)
  have "locked_body env v0 change (?d\<lparr>cd_lock := True\<rparr>) = ((None, v), ?k\<lparr>cd_state := RegularFile 384 (StateAlone st')\<rparr>)"
    by (simp only: locked_body_def key rd assms(4) [OF st(2)] st'(1) wr prod.case sum.case)
  then have "transaction env root v0 change d
      = ((None, v), ?k\<lparr>cd_state := RegularFile 384 (StateAlone st'), cd_lock := False\<rparr>)"
    using root assms(1) by (simp add: transaction_def release_lock_def calm_def os_call_def)
  moreover have "store_at mac (?k\<lparr>cd_state := RegularFile 384 (StateAlone st'), cd_lock := False\<rparr>) key (map (rewritten mac key) cs')"
    using st' len by (auto simp: store_at_def)
  ultimately show ?thesis by (rule that)
qed

section \<open>The life of a challenge\<close>

lemma calm_Authorize_scan:
  assumes "calm mac env" "good_store mac env d key cs" "valid_root (so_Root store)" "validateBinding b = Inr ()"
    and "authorize_scan (ce_Now env) (bindingHMACs mac key b) b (filter (keep_challenge (ce_Now env)) cs) = Some (cs', r)"
    and "list_all writable cs'"
  obtains d' where "Authorize env store b d = ((r, None), d')" "store_at mac d' key (map (rewritten mac key) cs')"
proof (rule calm_transaction [OF assms(1-3), of "authorize_change env store b" cs' r denied])
  fix st :: stateFile
  assume "sf_Challenges st = cs"
  then show "authorize_change env store b st key = (Inr (st\<lparr>sf_Challenges := cs'\<rparr>), r)"
    using assms(1,5) by (simp add: authorize_change_def prune_def Let_def calm_def)
qed (use assms(4,6) in \<open>auto simp: Authorize_def intro: that\<close>)

lemma calm_Authorize_new:
  fixes env store b
  defines "c \<equiv> \<lambda>mac key i. new_challenge (EncodeToString i) (bindingHMACs mac key b) (ac_Action (bd_Action b))
    (ce_Now env) (ce_Now env + ttl store)"
  assumes "calm mac env" "good_store mac env d key cs" "valid_root (so_Root store)" "validateBinding b = Inr ()"
    and "list_all (\<lambda>c. writable c \<and> \<not> answers (ce_Now env) (bindingHMACs mac key b) b c) cs"
    and "ce_RandomID env = Some i" "writable (c mac key i)"
  obtains d' where "Authorize env store b d = ((required_result b (c mac key i), None), d')"
    "store_at mac d' key (map (rewritten mac key) (filter (keep_challenge (ce_Now env)) cs @ [c mac key i]))"
proof (rule calm_transaction [OF assms(2-4), of "authorize_change env store b"
    "filter (keep_challenge (ce_Now env)) cs @ [c mac key i]" "required_result b (c mac key i)" denied])
  have none: "authorize_scan (ce_Now env) (bindingHMACs mac key b) b (filter (keep_challenge (ce_Now env)) cs) = None"
    using assms(6) by (auto simp: authorize_scan_None list_all_iff)
  fix st :: stateFile
  assume "sf_Challenges st = cs"
  then show "authorize_change env store b st key
      = (Inr (st\<lparr>sf_Challenges := filter (keep_challenge (ce_Now env)) cs @ [c mac key i]\<rparr>), required_result b (c mac key i))"
    using assms(2,7) none by (simp add: authorize_change_def prune_def Let_def calm_def randomID_def c_def)
next
  show "list_all writable (filter (keep_challenge (ce_Now env)) cs @ [c mac key i])"
    using assms(6,8) by (auto simp: list_all_iff)
qed (use assms(5) in \<open>auto simp: Authorize_def intro: that\<close>)

lemma calm_Confirm:
  assumes "calm mac env" "good_store mac env d key cs" "valid_root (so_Root store)"
    and "confirmed_id prompt = Some i" "validateIdentity (identity_of runtime ws actor session) = Inr ()"
    and "confirm_scan (ce_Now env) (bindingHMACs mac key (identity_of runtime ws actor session)) i
      (filter (keep_challenge (ce_Now env)) cs) = Inr cs'"
    and "list_all writable cs'"
  obtains d' where "Confirm env store runtime ws actor session prompt d = ((True, None), d')"
    "store_at mac d' key (map (rewritten mac key) cs')"
proof (rule calm_transaction [OF assms(1-3), of "confirm_change env (identity_of runtime ws actor session) i" cs' True False])
  fix st :: stateFile
  assume "sf_Challenges st = cs"
  then show "confirm_change env (identity_of runtime ws actor session) i st key = (Inr (st\<lparr>sf_Challenges := cs'\<rparr>), True)"
    using assms(1,6) by (simp add: confirm_change_def prune_def Let_def calm_def)
qed (use assms(4,5,7) in \<open>auto simp: Confirm_def intro: that\<close>)

text \<open>The phrase with an identifier is recognised.\<close>

definition phrase :: "string \<Rightarrow> string" where
  "phrase i = ''CONFIRM '' @ ''MAESTRO '' @ i"

lemma challengePattern_words: "challengePattern i \<Longrightarrow> i \<noteq> [] \<and> list_all word_char i \<and> inner_char (last i)"
  by (cases i rule: rev_cases) (auto simp: challengePattern_def list_all_iff lower_hex_word)

lemma confirmed_phrase:
  assumes "challengePattern i"
  shows "confirmed_id (phrase i) = Some i"
proof -
  have w: "list_all word_char ''CONFIRM''" "list_all word_char ''MAESTRO''" by code_simp+
  have "TrimSpace (phrase i) = phrase i"
    using challengePattern_words [OF assms] w(1) by (intro TrimSpace_ends) (auto simp: phrase_def)
  moreover have "phrase i = ''CONFIRM'' @ CHR '' '' # (''MAESTRO'' @ CHR '' '' # i)" by (simp add: phrase_def)
  then have "Fields (phrase i) = [''CONFIRM'', ''MAESTRO'', i]"
    using challengePattern_words [OF assms] w by (simp only: Fields_Cons Fields_word list.simps not_False_eq_True)
  ultimately show ?thesis using assms by (simp add: confirmed_id_def)
qed

lemma new_id: "length bytes = 16 \<Longrightarrow> challengePattern (EncodeToString bytes)"
  by (simp add: challengePattern_def length_EncodeToString EncodeToString_lower)

lemma new_writable:
  assumes "length i = 16" "action \<noteq> []" "valid_utf8 action" "0 < t" "t < x"
    and "marshalable_time t" "marshalable_time x"
  shows "writable (new_challenge (EncodeToString i) (bindingHMACs mac key b) action t x)"
proof -
  have "marshalable_time 0" by code_simp
  then show ?thesis
    using assms new_id [of i]
    by (auto simp: writable_def validateChallengeRecord_def new_challenge_def is_zero_def fixed_texts_iff bindingHMACs_def
        valid_utf8_def [of "hmacValue _ _ _ _"] valid_utf8_def [of "[]"] to_valid_utf8.simps(1))
qed

lemma keep_fresh: "t < ch_ExpiresAt c \<Longrightarrow> ch_State c \<noteq> ''consumed'' \<Longrightarrow> keep_challenge t c"
  by (auto simp: keep_challenge_def time_sub_def hour_def minute_def second_def min_int64_def max_int64_def)

lemma confirm_writable:
  "writable c \<Longrightarrow> ch_State c = ''pending'' \<Longrightarrow> ch_CreatedAt c \<le> t \<Longrightarrow> t \<le> ch_ExpiresAt c \<Longrightarrow> 0 < t \<Longrightarrow> marshalable_time t \<Longrightarrow>
   writable (c\<lparr>ch_State := ''confirmed'', ch_ConfirmedAt := t\<rparr>)"
  by (auto simp: writable_def fixed_state validateChallengeRecord_def is_zero_def split: if_splits)

lemma consume_writable:
  "writable c \<Longrightarrow> ch_State c = ''confirmed'' \<Longrightarrow> ch_ConfirmedAt c \<le> t \<Longrightarrow> t \<le> ch_ExpiresAt c \<Longrightarrow> 0 < t \<Longrightarrow> marshalable_time t \<Longrightarrow>
   writable (c\<lparr>ch_State := ''consumed'', ch_ConsumedAt := t\<rparr>)"
  by (auto simp: writable_def fixed_state validateChallengeRecord_def is_zero_def split: if_splits)

text \<open>Sealing changes the code of the record only.\<close>

lemma rewritten_fields:
  assumes "writable c"
  shows "writable (rewritten mac key c)" "ch_ID (rewritten mac key c) = ch_ID c" "ch_State (rewritten mac key c) = ch_State c"
    "ch_CreatedAt (rewritten mac key c) = ch_CreatedAt c" "ch_ExpiresAt (rewritten mac key c) = ch_ExpiresAt c"
    "ch_ConfirmedAt (rewritten mac key c) = ch_ConfirmedAt c" "matches (rewritten mac key c) = matches c"
    "same_identity (rewritten mac key c) = same_identity c"
proof -
  from assms have "fixed_texts c" by (simp add: writable_def)
  from rewritten_fixed [OF this] rewritten_writable [OF assms]
  show "writable (rewritten mac key c)" "ch_ID (rewritten mac key c) = ch_ID c" "ch_State (rewritten mac key c) = ch_State c"
    "ch_CreatedAt (rewritten mac key c) = ch_CreatedAt c" "ch_ExpiresAt (rewritten mac key c) = ch_ExpiresAt c"
    "ch_ConfirmedAt (rewritten mac key c) = ch_ConfirmedAt c" "matches (rewritten mac key c) = matches c"
    "same_identity (rewritten mac key c) = same_identity c"
    by (simp_all add: fun_eq_iff matches_def same_identity_def)
qed

lemma matches_simps [simp]: "matches (c\<lparr>ch_State := s, ch_ConfirmedAt := t\<rparr>) = matches c"
  by (simp add: fun_eq_iff matches_def same_identity_def)

lemma new_matches: "matches (new_challenge i (bindingHMACs mac key b) a t x) (bindingHMACs mac key b) a"
  by (simp add: matches_def same_identity_def new_challenge_def bindingHMACs_def macEqual_same)

text \<open>A pending challenge is confirmed on a good store that has no other, and a confirmed one used.\<close>

lemma confirm_single:
  assumes "calm mac env" "store_at mac d key [c]" "valid_root (so_Root store)" "writable c" "ch_State c = ''pending''"
    and "validateIdentity (identity_of runtime ws actor session) = Inr ()" "challengePattern (ch_ID c)"
    and "same_identity c (bindingHMACs mac key (identity_of runtime ws actor session))"
    and "ch_CreatedAt c \<le> ce_Now env" "ce_Now env < ch_ExpiresAt c" "0 < ce_Now env" "marshalable_time (ce_Now env)"
  obtains d' where "Confirm env store runtime ws actor session (phrase (ch_ID c)) d = ((True, None), d')"
    "store_at mac d' key [rewritten mac key (c\<lparr>ch_State := ''confirmed'', ch_ConfirmedAt := ce_Now env\<rparr>)]"
proof (rule calm_Confirm [OF assms(1) _ assms(3) confirmed_phrase assms(6), of d key "[c]" "ch_ID c"])
  have "keep_challenge (ce_Now env) c" using assms(5,10) by (intro keep_fresh) simp_all
  then show "confirm_scan (ce_Now env) (bindingHMACs mac key (identity_of runtime ws actor session)) (ch_ID c)
      (filter (keep_challenge (ce_Now env)) [c]) = Inr [c\<lparr>ch_State := ''confirmed'', ch_ConfirmedAt := ce_Now env\<rparr>]"
    using assms(5,8,10) by simp
  show "list_all writable [c\<lparr>ch_State := ''confirmed'', ch_ConfirmedAt := ce_Now env\<rparr>]"
    using assms by (simp add: confirm_writable)
qed (use assms in \<open>auto simp: good_store_def intro: that\<close>)

lemma use_single:
  assumes "calm mac env" "store_at mac d key [c]" "valid_root (so_Root store)" "validateBinding b = Inr ()"
    and "writable c" "ch_State c = ''confirmed''" "matches c (bindingHMACs mac key b) (ac_Action (bd_Action b))"
    and "ch_ConfirmedAt c \<le> ce_Now env" "ce_Now env < ch_ExpiresAt c" "0 < ce_Now env" "marshalable_time (ce_Now env)"
  obtains d' where "Authorize env store b d = ((authorized_result b c, None), d')"
    "store_at mac d' key [rewritten mac key (c\<lparr>ch_State := ''consumed'', ch_ConsumedAt := ce_Now env\<rparr>)]"
proof (rule calm_Authorize_scan [OF assms(1) _ assms(3,4), of d key "[c]"])
  have "keep_challenge (ce_Now env) c" using assms(6,9) by (intro keep_fresh) simp_all
  then show "authorize_scan (ce_Now env) (bindingHMACs mac key b) b (filter (keep_challenge (ce_Now env)) [c])
      = Some ([c\<lparr>ch_State := ''consumed'', ch_ConsumedAt := ce_Now env\<rparr>], authorized_result b c)"
    using assms(6,7,9) by simp
  show "list_all writable [c\<lparr>ch_State := ''consumed'', ch_ConsumedAt := ce_Now env\<rparr>]"
    using assms by (simp add: consume_writable)
qed (use assms in \<open>auto simp: good_store_def intro: that\<close>)

text \<open>The calls of one life and what they answer.\<close>

definition one_life ::
  "conf_env \<Rightarrow> conf_env \<Rightarrow> conf_env \<Rightarrow> conf_env \<Rightarrow> Store \<Rightarrow> Binding \<Rightarrow> conf_disk
    \<Rightarrow> Result \<Rightarrow> conf_disk \<Rightarrow> conf_disk \<Rightarrow> Result \<Rightarrow> conf_disk \<Rightarrow> Result \<Rightarrow> conf_disk \<Rightarrow> bool" where
  "one_life e1 e2 e3 e4 store b d0 r1 d1 d2 r3 d3 r4 d4 \<longleftrightarrow>
     Authorize e1 store b d0 = ((r1, None), d1) \<and> rs_State r1 = ChallengeRequired
    \<and> Confirm e2 store (bd_Runtime b) (bd_WorkspaceID b) (bd_ActorID b) (bd_SessionID b) (phrase (rs_ChallengeID r1)) d1
        = ((True, None), d2)
    \<and> Authorize e3 store b d2 = ((r3, None), d3) \<and> rs_State r3 = Authorized
    \<and> Authorize e4 store b d3 = ((r4, None), d4) \<and> rs_State r4 = ChallengeRequired"

lemma challenge_life:
  assumes "new_store d0" "valid_root (so_Root store)" "validateBinding b = Inr ()" "valid_utf8 (ac_Action (bd_Action b))"
    and "calm mac e1" "calm mac e2" "calm mac e3" "calm mac e4"
    and "ce_RandomID e1 = Some ida" "length ida = 16" "ce_RandomID e4 = Some idb" "length idb = 16"
    and "0 < ce_Now e1" "ce_Now e1 \<le> ce_Now e2" "ce_Now e2 \<le> ce_Now e3" "ce_Now e3 < ce_Now e1 + ttl store" "ce_Now e3 \<le> ce_Now e4"
    and "list_all marshalable_time [ce_Now e1, ce_Now e1 + ttl store, ce_Now e2, ce_Now e3, ce_Now e4, ce_Now e4 + ttl store]"
  shows "\<exists>r1 d1 d2 r3 d3 r4 d4. one_life e1 e2 e3 e4 store b d0 r1 d1 d2 r3 d3 r4 d4"
proof -
  define key m where "key = ce_KeyBytes e1" and "m = bindingHMACs mac key b"
  define new where "new = (\<lambda>(e :: conf_env) i. new_challenge (EncodeToString i) m (ac_Action (bd_Action b)) (ce_Now e) (ce_Now e + ttl store))"
  define c where "c = rewritten mac key (new e1 ida)"
  define c1 where "c1 = c\<lparr>ch_State := ''confirmed'', ch_ConfirmedAt := ce_Now e2\<rparr>"
  define c2 where "c2 = (rewritten mac key c1)\<lparr>ch_State := ''consumed'', ch_ConsumedAt := ce_Now e3\<rparr>"
  have act: "ac_Action (bd_Action b) \<noteq> []"
    and ident: "validateIdentity (identity_of (bd_Runtime b) (bd_WorkspaceID b) (bd_ActorID b) (bd_SessionID b)) = Inr ()"
    using assms(3) by (auto simp: validateBinding_def validateIdentity_def identity_of_def)
  have w: "writable (new e1 ida)" "writable (new e4 idb)"
    unfolding new_def m_def using assms(4,10,12,13-18) act ttl_bound [of store] by (auto intro!: new_writable)
  note c = rewritten_fields [OF w(1), of mac key, folded c_def]
  have f: "ch_ID c = EncodeToString ida" "ch_State c = ''pending''" "ch_CreatedAt c = ce_Now e1"
      "ch_ExpiresAt c = ce_Now e1 + ttl store" "matches c m (ac_Action (bd_Action b))"
    by (simp_all only: c(2-5,7)) (simp_all add: new_def m_def new_matches, simp_all add: new_challenge_def)
  have w1: "writable c1" unfolding c1_def using c(1) f assms(13-16,18) by (intro confirm_writable) auto
  note c1 = rewritten_fields [OF w1, of mac key]
  have w2: "writable c2" unfolding c2_def using c1 f assms(13-16,18) by (intro consume_writable) (auto simp: c1_def)
  note c2 = rewritten_fields [OF w2, of mac key]
  have used: "ch_State (rewritten mac key c2) = ''consumed''" by (simp only: c2(3)) (simp add: c2_def)
  obtain d1 where d1: "Authorize e1 store b d0 = ((required_result b (new e1 ida), None), d1)" "store_at mac d1 key [c]"
    using calm_Authorize_new [OF assms(5) _ assms(2,3), of d0 key "[]" ida] assms(1,9) w(1)
    by (auto simp: good_store_def key_def new_def m_def c_def)
  have "same_identity c (bindingHMACs mac key (identity_of (bd_Runtime b) (bd_WorkspaceID b) (bd_ActorID b) (bd_SessionID b)))"
    using f(5) by (simp add: matches_def same_identity_def m_def bindingHMACs_def identity_of_def)
  then obtain d2 where d2: "Confirm e2 store (bd_Runtime b) (bd_WorkspaceID b) (bd_ActorID b) (bd_SessionID b)
      (phrase (ch_ID c)) d1 = ((True, None), d2)" "store_at mac d2 key [rewritten mac key c1]"
    using assms(13-16,18) f new_id [OF assms(10)]
    by (auto intro: confirm_single [OF assms(6) d1(2) assms(2) c(1) f(2) ident] simp: c1_def)
  obtain d3 where d3: "Authorize e3 store b d2 = ((authorized_result b (rewritten mac key c1), None), d3)"
      "store_at mac d3 key [rewritten mac key c2]"
    using assms(13-16,18) f c1
    by (auto intro: use_single [OF assms(7) d2(2) assms(2,3) c1(1)] simp: c1_def c2_def m_def)
  obtain d4 where d4: "Authorize e4 store b d3 = ((required_result b (new e4 idb), None), d4)"
    using calm_Authorize_new [OF assms(8) _ assms(2,3), of d3 key "[rewritten mac key c2]" idb] d3(2) assms(11) w(2) c2(1) used
    by (auto simp: good_store_def new_def m_def answers_def)
  have "rs_ChallengeID (required_result b (new e1 ida)) = ch_ID c" "rs_State (required_result b x) = ChallengeRequired"
      "rs_State (authorized_result b x) = Authorized" for x
    using c(2) by (simp_all add: required_result_def authorized_result_def)
  then show ?thesis unfolding one_life_def using d1(1) d2(1) d3(1) d4 by metis
qed

text \<open>C30: on a new store, when nothing fails and the times are in order, a request shows a challenge,
  the phrase with its identifier confirms it, the same request is authorized, and the next one
  shows a challenge again.\<close>

theorem confirmation_life:
  assumes "new_store d0" "valid_root (so_Root store)" "validateBinding b = Inr ()" "valid_utf8 (ac_Action (bd_Action b))"
    and "calm mac e1" "calm mac e2" "calm mac e3" "calm mac e4"
    and "ce_RandomID e1 = Some ida" "length ida = 16" "ce_RandomID e4 = Some idb" "length idb = 16"
    and "0 < ce_Now e1" "ce_Now e1 \<le> ce_Now e2" "ce_Now e2 \<le> ce_Now e3" "ce_Now e3 < ce_Now e1 + ttl store" "ce_Now e3 \<le> ce_Now e4"
    and "list_all marshalable_time [ce_Now e1, ce_Now e1 + ttl store, ce_Now e2, ce_Now e3, ce_Now e4, ce_Now e4 + ttl store]"
  shows "\<exists>r1 d1 d2 r3 d3 r4 d4. Authorize e1 store b d0 = ((r1, None), d1) \<and> rs_State r1 = ChallengeRequired
    \<and> Confirm e2 store (bd_Runtime b) (bd_WorkspaceID b) (bd_ActorID b) (bd_SessionID b) (phrase (rs_ChallengeID r1)) d1
        = ((True, None), d2)
    \<and> Authorize e3 store b d2 = ((r3, None), d3) \<and> rs_State r3 = Authorized
    \<and> Authorize e4 store b d3 = ((r4, None), d4) \<and> rs_State r4 = ChallengeRequired"
  using challenge_life [OF assms] by (simp add: one_life_def)

section \<open>A lock that was left behind\<close>

lemma busy_step:
  assumes "conf_step mac root d e d'" "cd_lock d"
  shows "cd_lock d' \<and> \<not> call_ok e"
  using assms(1)
proof (cases rule: conf_step.cases)
  case (step_ask env store b r err)
  from step_ask(4) show ?thesis
    by (cases rule: Authorize_cases) (use step_ask(1) assms(2) in \<open>auto dest: busy_transaction\<close>)
next
  case (step_tell env store runtime ws actor session prompt found err)
  from step_tell(4) show ?thesis
    by (cases rule: Confirm_cases) (use step_tell(1) assms(2) in \<open>auto dest: busy_transaction\<close>)
qed

interpretation abandoned: fenced_slot "conf_step mac root" "\<lambda>(_ :: unit) d. cd_lock d" call_ok "\<lambda>_ _. False" for mac root
  by unfold_locales (auto dest: busy_step)

text \<open>C31: while the lock directory is there no call succeeds, and no call removes it.\<close>

theorem abandoned_lock_denies:
  assumes "run (conf_step mac root) d es d'" "cd_lock d"
  shows "cd_lock d' \<and> (\<forall>e \<in> set es. \<not> call_ok e)"
  using abandoned.fenced_run [OF assms(1)] assms(2) by simp

section \<open>From a tool call to a binding\<close>

text \<open>A protected tool call gives a binding that the store accepts for a valid identity, unless its
  target is blank.\<close>

theorem protected_action_binds:
  assumes "Canonicalize lib tool raw = Inr (Some a)" "\<forall>s. length (al_SHA256 lib s) = 32"
    and "validateIdentity \<lparr>bd_Runtime = runtime, bd_WorkspaceID = ws, bd_ActorID = actor, bd_SessionID = session, bd_Action = a\<rparr> = Inr ()"
  shows "validateBinding \<lparr>bd_Runtime = runtime, bd_WorkspaceID = ws, bd_ActorID = actor, bd_SessionID = session, bd_Action = a\<rparr> = Inr ()
    \<longleftrightarrow> TrimSpace (ac_Target a) \<noteq> []"
proof -
  from Canonicalize_some [OF assms(1)] obtain s where a: "ac_Action a \<in> set action_names" "ac_InputDigest a = digest lib s" by blast
  then have "ac_Action a \<noteq> []" by (auto simp: action_names_def gh_actions_def protected_tools_def)
  moreover have "validateDigest (ac_InputDigest a) = Inr ()" using a(2) assms(2) by (simp add: digest_valid)
  ultimately show ?thesis using assms(3) by (simp add: validateBinding_def)
qed

end
