(* ===== verification/ConfDemo.thy ===== *)
theory ConfDemo
  imports ConfLife
begin

text \<open>
  One request on a new store with concrete times and random bytes: the life of its challenge, the
  run of the calls, the same store with a lock that was left behind, and two shell commands.
\<close>

definition demo_mac :: "string \<Rightarrow> string \<Rightarrow> string" where
  "demo_mac key message = message"

definition demo_conf_env :: "time \<Rightarrow> char \<Rightarrow> conf_env" where
  "demo_conf_env t c = \<lparr>ce_HMAC = demo_mac, ce_Refused = \<lambda>_. None, ce_Now = t,
     ce_KeyBytes = replicate 32 (CHR ''k''), ce_RandomID = Some (replicate 16 c)\<rparr>"

definition demo_conf_store :: Store where
  "demo_conf_store = \<lparr>so_Root = ''/data/confirmation'', so_TTL = 0\<rparr>"

definition demo_push :: Binding where
  "demo_push = \<lparr>bd_Runtime = ''claude'', bd_WorkspaceID = ''ws'', bd_ActorID = ''owner'', bd_SessionID = ''s1'',
     bd_Action = \<lparr>ac_Action = ''git.push'', ac_Target = ''origin:main'', ac_InputDigest = replicate 64 (CHR ''a'')\<rparr>\<rparr>"

definition demo_disk :: conf_disk where
  "demo_disk = \<lparr>cd_root = NoRoot, cd_lock = False, cd_key = NoEntry, cd_state = NoEntry\<rparr>"

definition demo_hour :: time where
  "demo_hour = 1000000 * hour"

lemma demo_calm [simp]: "calm demo_mac (demo_conf_env t c)" "new_store demo_disk" "disk_challenges demo_disk = []"
  "so_Root demo_conf_store = ''/data/confirmation''"
  by (simp_all add: calm_def demo_conf_env_def new_store_def demo_disk_def disk_challenges_def demo_conf_store_def)

lemma demo_valid:
  "valid_root (so_Root demo_conf_store)" "validateBinding demo_push = Inr ()" "valid_utf8 (ac_Action (bd_Action demo_push))"
  by code_simp+

lemma demo_times:
  "list_all marshalable_time [demo_hour, demo_hour + ttl demo_conf_store, demo_hour + second, demo_hour + 2 * second,
     demo_hour + 3 * second, demo_hour + 3 * second + ttl demo_conf_store]"
  "0 < demo_hour \<and> 2 * second < ttl demo_conf_store \<and> 0 \<le> second"
  by code_simp+

definition demo_life :: "Result \<Rightarrow> conf_disk \<Rightarrow> conf_disk \<Rightarrow> Result \<Rightarrow> conf_disk \<Rightarrow> Result \<Rightarrow> conf_disk \<Rightarrow> bool" where
  "demo_life = one_life (demo_conf_env demo_hour (CHR ''a'')) (demo_conf_env (demo_hour + second) (CHR ''b''))
     (demo_conf_env (demo_hour + 2 * second) (CHR ''c'')) (demo_conf_env (demo_hour + 3 * second) (CHR ''d''))
     demo_conf_store demo_push demo_disk"

lemma demo_conf_env_simps [simp]:
  "ce_Now (demo_conf_env t c) = t" "ce_RandomID (demo_conf_env t c) = Some (replicate 16 c)" "ce_HMAC (demo_conf_env t c) = demo_mac"
  by (simp_all add: demo_conf_env_def)

theorem confirmation_life_witness: "\<exists>r1 d1 d2 r3 d3 r4 d4. demo_life r1 d1 d2 r3 d3 r4 d4"
  unfolding demo_life_def one_life_def
  by (rule confirmation_life [where mac = demo_mac and ida = "replicate 16 (CHR ''a'')" and idb = "replicate 16 (CHR ''d'')", OF _ demo_valid])
    (use demo_times in simp_all)

text \<open>The run of that life, and the reuse that is refused.\<close>

definition demo_confirmation :: "Result \<Rightarrow> conf_event list" where
  "demo_confirmation r1 = [Asked demo_hour demo_push r1 None,
     Told (demo_hour + second) (identity_of (bd_Runtime demo_push) (bd_WorkspaceID demo_push) (bd_ActorID demo_push) (bd_SessionID demo_push))
       (phrase (rs_ChallengeID r1)) True None]"

lemma demo_run:
  assumes "demo_life r1 d1 d2 r3 d3 r4 d4"
  shows "run (conf_step demo_mac ''/data/confirmation'') demo_disk
    (demo_confirmation r1 @ [Asked (demo_hour + 2 * second) demo_push r3 None]) d3"
proof -
  have "conf_step demo_mac ''/data/confirmation'' demo_disk (Asked demo_hour demo_push r1 None) d1"
    using assms step_ask [of "demo_conf_env demo_hour (CHR ''a'')" demo_mac demo_conf_store "''/data/confirmation''" demo_push]
    by (simp add: demo_life_def one_life_def)
  moreover have "conf_step demo_mac ''/data/confirmation'' d1 (Told (demo_hour + second)
      (identity_of (bd_Runtime demo_push) (bd_WorkspaceID demo_push) (bd_ActorID demo_push) (bd_SessionID demo_push))
      (phrase (rs_ChallengeID r1)) True None) d2"
    using assms step_tell [of "demo_conf_env (demo_hour + second) (CHR ''b'')" demo_mac demo_conf_store "''/data/confirmation''"]
    by (simp add: demo_life_def one_life_def)
  moreover have "conf_step demo_mac ''/data/confirmation'' d2 (Asked (demo_hour + 2 * second) demo_push r3 None) d3"
    using assms step_ask [of "demo_conf_env (demo_hour + 2 * second) (CHR ''c'')" demo_mac demo_conf_store "''/data/confirmation''" demo_push]
    by (simp add: demo_life_def one_life_def)
  ultimately show ?thesis by (auto simp: demo_confirmation_def intro!: run_Cons run_Nil)
qed

lemma demo_life_exists: "\<exists>r1 d1 d2 r3 d3 r4 d4. demo_life r1 d1 d2 r3 d3 r4 d4"
  unfolding demo_life_def
  by (rule challenge_life [where mac = demo_mac and ida = "replicate 16 (CHR ''a'')" and idb = "replicate 16 (CHR ''d'')", OF _ demo_valid])
    (use demo_times in simp_all)

lemma demo_last:
  assumes "demo_life r1 d1 d2 r3 d3 r4 d4"
  obtains key where "keyed key d3" "rs_State r3 = Authorized"
proof -
  have "conf_step demo_mac ''/data/confirmation'' d2 (Asked (demo_hour + 2 * second) demo_push r3 None) d3"
    using assms step_ask [of "demo_conf_env (demo_hour + 2 * second) (CHR ''c'')" demo_mac demo_conf_store "''/data/confirmation''" demo_push]
    by (simp add: demo_life_def one_life_def)
  from conf_step_result [OF this] assms show ?thesis by (auto simp: step_result_def demo_life_def one_life_def intro: that)
qed

theorem authorization_was_confirmed_witness:
  "\<exists>r1 r3 d3 key. run (conf_step demo_mac ''/data/confirmation'') demo_disk
    (demo_confirmation r1 @ [Asked (demo_hour + 2 * second) demo_push r3 None]) d3 \<and> rs_State r3 = Authorized \<and> keyed key d3"
proof -
  from demo_life_exists obtain r1 d1 d2 r3 d3 r4 d4 where life: "demo_life r1 d1 d2 r3 d3 r4 d4" by blast
  obtain key where "rs_State r3 = Authorized" by (rule demo_last [OF life])
  with authorization_was_confirmed [OF demo_run [OF life]] demo_run [OF life] show ?thesis by auto
qed

theorem authorized_once_witness:
  "\<exists>key r1 r3. length (filter (is_authorization demo_mac key demo_push)
      (demo_confirmation r1 @ [Asked (demo_hour + 2 * second) demo_push r3 None]))
    \<le> length (filter (is_confirmation demo_mac key demo_push)
      (demo_confirmation r1 @ [Asked (demo_hour + 2 * second) demo_push r3 None])) \<and> rs_State r3 = Authorized"
proof -
  from demo_life_exists obtain r1 d1 d2 r3 d3 r4 d4 where life: "demo_life r1 d1 d2 r3 d3 r4 d4" by blast
  obtain key where "keyed key d3" "rs_State r3 = Authorized" by (rule demo_last [OF life])
  from authorized_once [OF demo_run [OF life] demo_calm(3) this(1), of demo_push] this(2) show ?thesis by (intro exI conjI)
qed

theorem abandoned_lock_denies_witness:
  "\<exists>r err d'. conf_step demo_mac ''/data/confirmation'' (demo_disk\<lparr>cd_lock := True\<rparr>) (Asked demo_hour demo_push r err) d'
     \<and> cd_lock d' \<and> \<not> call_ok (Asked demo_hour demo_push r err)"
proof -
  obtain r err d' where "Authorize (demo_conf_env demo_hour (CHR ''a'')) demo_conf_store demo_push (demo_disk\<lparr>cd_lock := True\<rparr>)
      = ((r, err), d')" by (metis prod.collapse)
  then have step: "conf_step demo_mac ''/data/confirmation'' (demo_disk\<lparr>cd_lock := True\<rparr>) (Asked demo_hour demo_push r err) d'"
    using step_ask [of "demo_conf_env demo_hour (CHR ''a'')" demo_mac demo_conf_store "''/data/confirmation''" demo_push] by simp
  have "run (conf_step demo_mac ''/data/confirmation'') (demo_disk\<lparr>cd_lock := True\<rparr>) [Asked demo_hour demo_push r err] d'"
    using step by (auto simp: run_Cons_iff intro: run_Nil)
  from abandoned_lock_denies [OF this] step show ?thesis by auto
qed

definition demo_lib :: action_lib where
  "demo_lib = \<lparr>al_SHA256 = \<lambda>_. replicate 32 (CHR 0x00), al_Lower = \<lambda>s. s, al_Upper = \<lambda>s. s, al_Number = Some\<rparr>"

definition demo_input :: raw_input where
  "demo_input = OneValue (VObject [(''command'', VString ''git push origin main'')])"

definition demo_action :: Action where
  "demo_action = \<lparr>ac_Action = ''git.push'', ac_Target = ''origin:main'', ac_InputDigest = replicate 64 (CHR ''0'')\<rparr>"

lemma demo_canonical: "Canonicalize demo_lib ''Bash'' demo_input = Inr (Some demo_action)" "TrimSpace (ac_Target demo_action) \<noteq> []"
  by code_simp+

theorem protected_action_binds_witness:
  "validateBinding \<lparr>bd_Runtime = ''claude'', bd_WorkspaceID = ''ws'', bd_ActorID = ''owner'', bd_SessionID = ''s1'',
     bd_Action = demo_action\<rparr> = Inr ()"
proof -
  have "validateIdentity \<lparr>bd_Runtime = ''claude'', bd_WorkspaceID = ''ws'', bd_ActorID = ''owner'', bd_SessionID = ''s1'',
      bd_Action = demo_action\<rparr> = Inr ()" by code_simp
  moreover have "\<forall>s. length (al_SHA256 demo_lib s) = 32" by (simp add: demo_lib_def)
  ultimately show ?thesis using protected_action_binds [OF demo_canonical(1)] demo_canonical(2) by blast
qed

text \<open>\<open>env git push origin main\<close> and the same with a variable in front.\<close>

theorem wrapped_push_is_ordinary_witness:
  "canonicalShellAction demo_lib ''env git push origin main'' = Inr None
   \<and> looksProtectedShell demo_lib ''env git push origin main''"
proof -
  have "list_all simple_word [''env'', ''origin'', ''main'']" "is_ascii (''env'' @ ''origin'' @ ''main'')"
    "executable_name ''env'' \<notin> {''git'', ''gh'', ''curl''}"
    by code_simp+
  from wrapped_push_is_ordinary [OF this, of demo_lib] show ?thesis by simp
qed

end
