(* ===== verification/Release.thy ===== *)
theory Release
  imports GoUrl GoJson "HOL-Library.Word"
begin

text \<open>
  \<open>internal/releasecontract/manifest.go\<close>: release versions, version ranges and the manifest of a
  release with its validation. A version is an array of three unsigned 64-bit numbers. Reading and
  decoding the JSON file and the check against the published schema are not modelled.
\<close>

section \<open>Versions\<close>

type_synonym version = "64 word list"

fun digits_value :: "nat \<Rightarrow> string \<Rightarrow> nat" where
  "digits_value acc [] = acc"
| "digits_value acc (c # cs) = digits_value (10 * acc + (byte_of c - 48)) cs"

text \<open>\<open>strconv.ParseUint(s, 10, 64)\<close>.\<close>

definition ParseUint :: "string \<Rightarrow> go_error + 64 word" where
  "ParseUint s =
     (if s = [] \<or> \<not> list_all is_digit s then Inl (Errorf ''strconv.ParseUint: parsing %q: invalid syntax'' [s])
      else if digits_value 0 s \<ge> 2 ^ 64 then Inl (Errorf ''strconv.ParseUint: parsing %q: value out of range'' [s])
      else Inr (word_of_nat (digits_value 0 s)))"

lemma digits_value_bound: "list_all is_digit s \<Longrightarrow> digits_value acc s < (acc + 1) * 10 ^ length s"
proof (induction s arbitrary: acc)
  case (Cons c s)
  from Cons.prems have "byte_of c \<le> 57" by (simp add: is_digit_def)
  then have "byte_of c - 48 \<le> 9" by linarith
  then have "(10 * acc + (byte_of c - 48) + 1) * 10 ^ length s \<le> (10 * (acc + 1)) * 10 ^ length s"
    by (intro mult_right_mono) simp_all
  with Cons.IH [of "10 * acc + (byte_of c - 48)"] Cons.prems show ?case by (simp add: algebra_simps)
qed simp

text \<open>Nineteen digits are in range, so the bound need not be compared for the evaluation.\<close>

lemma ParseUint_code [code]:
  "ParseUint s =
     (if s = [] \<or> \<not> list_all is_digit s then Inl (Errorf ''strconv.ParseUint: parsing %q: invalid syntax'' [s])
      else if length s \<le> 19 then Inr (word_of_nat (digits_value 0 s))
      else if digits_value 0 s \<ge> 2 ^ 64 then Inl (Errorf ''strconv.ParseUint: parsing %q: value out of range'' [s])
      else Inr (word_of_nat (digits_value 0 s)))"
proof -
  have "digits_value 0 s < 2 ^ 64" if "list_all is_digit s" "length s \<le> 19"
    using digits_value_bound [OF that(1), of 0] power_increasing [OF that(2), of "10 :: nat"] by simp
  then show ?thesis by (auto simp: ParseUint_def not_le)
qed

definition wrap_error :: "string \<Rightarrow> go_error + 'a \<Rightarrow> go_error + 'a" where
  "wrap_error m r = (case r of Inl (Errorf f args) \<Rightarrow> Inl (Errorf m (f # args)) | Inr x \<Rightarrow> Inr x)"

lemma wrap_error_Inr [simp, res_simps]: "wrap_error m r = Inr x \<longleftrightarrow> r = Inr x"
  by (auto simp: wrap_error_def split: sum.splits go_error.splits)

lemma wrap_error_ok [simp]: "wrap_error m (Inr x) = Inr x"
  by (simp add: wrap_error_def)

text \<open>A segment of the pattern: a zero, or digits that begin with another one.\<close>

definition version_segment :: "string \<Rightarrow> bool" where
  "version_segment s \<longleftrightarrow> s = ''0'' \<or> s \<noteq> [] \<and> list_all is_digit s \<and> hd s \<noteq> CHR ''0''"

text \<open>\<open>exactVersionPattern.FindStringSubmatch\<close>: the three groups.\<close>

definition exactVersionPattern :: "string \<Rightarrow> string list option" where
  "exactVersionPattern s =
     (let parts = split_on (CHR ''.'') s in if length parts = 3 \<and> list_all version_segment parts then Some parts else None)"

fun parse_segments :: "string list \<Rightarrow> go_error + version" where
  "parse_segments [] = Inr []"
| "parse_segments (p # ps) =
     bind_r (wrap_error ''version segment overflow: %w'' (ParseUint p)) (\<lambda>n. bind_r (parse_segments ps) (\<lambda>ns. Inr (n # ns)))"

definition parseVersion :: "string \<Rightarrow> go_error + version" where
  "parseVersion s =
     (case exactVersionPattern s of
        None \<Rightarrow> Inl (Errorf ''%q must be canonical MAJOR.MINOR.PATCH'' [s])
      | Some parts \<Rightarrow> parse_segments parts)"

definition parses :: "string \<Rightarrow> bool" where
  "parses s = (case parseVersion s of Inl _ \<Rightarrow> False | Inr _ \<Rightarrow> True)"

fun compareVersion :: "version \<Rightarrow> version \<Rightarrow> int" where
  "compareVersion (l # ls) (r # rs) = (if l < r then - 1 else if l > r then 1 else compareVersion ls rs)"
| "compareVersion _ _ = 0"

record VersionRange =
  vr_lower :: version
  vr_upper :: version

definition versionRangePattern :: "string \<Rightarrow> bool" where
  "versionRangePattern s \<longleftrightarrow>
     (case split_on (CHR '' '') s of
        [f0, f1] \<Rightarrow> has_prefix f0 ''>='' \<and> exactVersionPattern (drop 2 f0) \<noteq> None
          \<and> has_prefix f1 ''<'' \<and> exactVersionPattern (drop 1 f1) \<noteq> None
      | _ \<Rightarrow> False)"

definition range_error :: go_error where
  "range_error = errors_New ''range must use >=MAJOR.MINOR.PATCH <MAJOR.MINOR.PATCH''"

definition ParseVersionRange :: "string \<Rightarrow> go_error + VersionRange" where
  "ParseVersionRange s =
     (if \<not> versionRangePattern s then Inl range_error
      else let parts = split_on (CHR '' '') s
      in bind_r (parseVersion (trim_prefix (parts ! 0) ''>='')) (\<lambda>lower.
         bind_r (parseVersion (trim_prefix (parts ! 1) ''<'')) (\<lambda>upper.
           if compareVersion lower upper \<ge> 0 then Inl (errors_New ''range lower bound must be less than upper bound'')
           else Inr \<lparr>vr_lower = lower, vr_upper = upper\<rparr>)))"

definition Contains :: "VersionRange \<Rightarrow> string \<Rightarrow> go_error + bool" where
  "Contains r s = bind_r (parseVersion s) (\<lambda>v.
     Inr (compareVersion v (vr_lower r) \<ge> 0 \<and> compareVersion v (vr_upper r) < 0))"

text \<open>\<open>accepts, _ := Contains(...)\<close>: false when the version does not parse.\<close>

definition contains_version :: "VersionRange \<Rightarrow> string \<Rightarrow> bool" where
  "contains_version r s = (case Contains r s of Inl _ \<Rightarrow> False | Inr b \<Rightarrow> b)"

section \<open>The manifest\<close>

record Issuer =
  is_ID :: string
  is_KeyID :: string

record CLIComponent =
  cl_Version :: string
  cl_CompatibleBundle :: string

record BundleComponent =
  bc_Version :: string
  bc_CompatibleCLI :: string

record Artifact =
  af_Kind :: string
  af_OS :: string
  af_Arch :: string
  af_Name :: string
  af_Size :: int
  af_SHA256 :: string
  af_SignatureRef :: string

record Migration =
  mg_ID :: string
  mg_Component :: string
  mg_From :: string
  mg_To :: string
  mg_Required :: bool
  mg_FromRole :: string
  mg_ToRole :: string
  mg_AliasExpiresAfter :: string
  mg_BundleSHA256 :: string
  mg_CatalogSHA256 :: string
  mg_PolicySHA256 :: string

record ReleaseNotes =
  rn_Name :: string
  rn_SHA256 :: string

text \<open>The list of migrations is nil when the manifest has none.\<close>

record Manifest =
  mf_SchemaVersion :: int
  mf_Product :: string
  mf_Release :: string
  mf_Channel :: string
  mf_Issuer :: Issuer
  mf_CLI :: CLIComponent
  mf_Bundle :: BundleComponent
  mf_Artifacts :: "Artifact list"
  mf_Migrations :: "Migration list option"
  mf_ReleaseNotes :: ReleaseNotes

definition migrations :: "Manifest \<Rightarrow> Migration list" where
  "migrations m = (case mf_Migrations m of None \<Rightarrow> [] | Some ms \<Rightarrow> ms)"

definition identifier_tail :: "char \<Rightarrow> bool" where
  "identifier_tail c \<longleftrightarrow> is_lower c \<or> is_digit c \<or> c \<in> set ''._-''"

definition release_identifierPattern :: "string \<Rightarrow> bool" where
  "release_identifierPattern s \<longleftrightarrow> first_rest (\<lambda>c. is_lower c \<or> is_digit c) identifier_tail 127 s"

definition hashPattern :: "string \<Rightarrow> bool" where
  "hashPattern s \<longleftrightarrow> length s = 64 \<and> list_all is_lower_hex s"

text \<open>On Unix \<open>filepath.Base\<close> of a name without a separator is the name.\<close>

definition validateFileReference :: "text_lib \<Rightarrow> string \<Rightarrow> go_error + unit" where
  "validateFileReference tx s = checks [
     fail_if (s = [] \<or> CHR ''/'' \<in> set s \<or> CHR 0x5C \<in> set s \<or> s = ''.'' \<or> s = ''..'')
       (errors_New ''must be a non-empty basename without traversal''),
     fail_if (contains_sub (ToLower tx s) ''latest'') (errors_New ''mutable latest references are forbidden''),
     fail_if (list_ex (\<lambda>c. byte_of c < 33 \<or> byte_of c = 127) s) (errors_New ''control characters and whitespace are forbidden'')]"

definition validateArtifactPlatform :: "Artifact \<Rightarrow> go_error + unit" where
  "validateArtifactPlatform a =
     (if af_Kind a = ''bundle'' \<or> af_Kind a = ''runtime_pack'' then
        fail_if (af_OS a \<noteq> ''any'' \<or> af_Arch a \<noteq> ''any'') (Errorf ''%s artifact must use os=any and arch=any'' [af_Kind a])
      else fail_if (af_OS a \<notin> {''windows'', ''darwin'', ''linux''} \<or> af_Arch a \<notin> {''amd64'', ''arm64''})
        (Errorf ''%s artifact requires a concrete supported OS and architecture'' [af_Kind a]))"

definition artifact_platform :: "Artifact \<Rightarrow> string" where
  "artifact_platform a = af_Kind a @ ''/'' @ af_OS a @ ''/'' @ af_Arch a"

definition validate_artifact :: "text_lib \<Rightarrow> Manifest \<Rightarrow> Artifact \<Rightarrow> go_error + unit" where
  "validate_artifact tx m a = checks [
     fail_if (af_Kind a \<notin> {''cli'', ''bundle'', ''runtime_pack''}) (Errorf ''unsupported artifact kind %q'' [af_Kind a]),
     validateArtifactPlatform a,
     wrap_error ''invalid artifact name: %w'' (validateFileReference tx (af_Name a)),
     wrap_error ''invalid artifact signature_ref: %w'' (validateFileReference tx (af_SignatureRef a)),
     fail_if (\<not> has_suffix (af_SignatureRef a) ''.sig'') (errors_New ''artifact signature_ref must name a detached .sig file''),
     fail_if (af_Size a \<le> 0) (Errorf ''artifact %s size must be positive'' [af_Name a]),
     fail_if (\<not> hashPattern (af_SHA256 a)) (Errorf ''artifact %s sha256 must be lowercase hexadecimal'' [af_Name a])]"

text \<open>The names must have the version of the component.\<close>

definition validate_artifact_version :: "Manifest \<Rightarrow> Artifact \<Rightarrow> go_error + unit" where
  "validate_artifact_version m a = checks [
     fail_if (af_Kind a = ''cli'' \<and> \<not> contains_sub (af_Name a) (cl_Version (mf_CLI m)))
       (errors_New ''CLI artifact name must contain the CLI version''),
     fail_if (af_Kind a = ''bundle'' \<and> \<not> contains_sub (af_Name a) (bc_Version (mf_Bundle m)))
       (errors_New ''bundle artifact name must contain the bundle version'')]"

text \<open>The loop, with the artifacts seen before; the maps of the source hold their names,
  signatures and platforms.\<close>

fun validate_artifact_list :: "text_lib \<Rightarrow> Manifest \<Rightarrow> Artifact list \<Rightarrow> Artifact list \<Rightarrow> go_error + unit" where
  "validate_artifact_list tx m seen [] = Inr ()"
| "validate_artifact_list tx m seen (a # as) =
     bind_r (validate_artifact tx m a) (\<lambda>_.
       if af_Name a \<in> set (map af_Name seen) \<or> af_SignatureRef a \<in> set (map af_SignatureRef seen)
          \<or> artifact_platform a \<in> set (map artifact_platform seen)
       then Inl (Errorf ''duplicate artifact identity for %s'' [af_Name a])
       else bind_r (validate_artifact_version m a) (\<lambda>_. validate_artifact_list tx m (a # seen) as))"

definition validateArtifacts :: "text_lib \<Rightarrow> Manifest \<Rightarrow> go_error + unit" where
  "validateArtifacts tx m =
     (if mf_Artifacts m = [] then Inl (errors_New ''release requires at least one bundle artifact'')
      else bind_r (validate_artifact_list tx m [] (mf_Artifacts m)) (\<lambda>_.
        fail_if (length (filter (\<lambda>a. af_Kind a = ''bundle'') (mf_Artifacts m)) \<noteq> 1)
          (errors_New ''release requires exactly one bundle artifact'')))"

definition validateComponents :: "CLIComponent \<Rightarrow> BundleComponent \<Rightarrow> go_error + unit" where
  "validateComponents cli bundle =
     bind_r (wrap_error ''invalid CLI version: %w'' (parseVersion (cl_Version cli))) (\<lambda>_.
     bind_r (wrap_error ''invalid bundle version: %w'' (parseVersion (bc_Version bundle))) (\<lambda>_.
     bind_r (wrap_error ''invalid CLI compatible_bundle range: %w'' (ParseVersionRange (cl_CompatibleBundle cli))) (\<lambda>cliRange.
     bind_r (wrap_error ''invalid bundle compatible_cli range: %w'' (ParseVersionRange (bc_CompatibleCLI bundle))) (\<lambda>bundleRange.
       fail_if (\<not> contains_version cliRange (bc_Version bundle) \<or> \<not> contains_version bundleRange (cl_Version cli))
         (errors_New ''CLI and bundle versions are not mutually compatible'')))))"

text \<open>The digest of the first bundle artifact, empty when there is none.\<close>

definition bundle_digest :: "Manifest \<Rightarrow> string" where
  "bundle_digest m = (case find (\<lambda>a. af_Kind a = ''bundle'') (mf_Artifacts m) of None \<Rightarrow> [] | Some a \<Rightarrow> af_SHA256 a)"

definition role_migration_id :: string where
  "role_migration_id = ''practice-agent-to-pa-expert''"

definition migration_target :: "Manifest \<Rightarrow> Migration \<Rightarrow> go_error + string" where
  "migration_target m g =
     (if mg_Component g = ''cli'' then Inr (cl_Version (mf_CLI m))
      else if mg_Component g = ''bundle'' then Inr (bc_Version (mf_Bundle m))
      else Inl (Errorf ''unsupported migration component %q'' [mg_Component g]))"

definition validate_migration :: "Manifest \<Rightarrow> Migration \<Rightarrow> go_error + unit" where
  "validate_migration m g =
     bind_r (migration_target m g) (\<lambda>target.
     bind_r (wrap_error ''invalid migration %s source range: %w'' (ParseVersionRange (mg_From g))) (\<lambda>range.
     checks [
       fail_if (\<not> parses (mg_To g) \<or> mg_To g \<noteq> target)
         (Errorf ''migration %s target does not match component version'' [mg_ID g]),
       fail_if (contains_version range (mg_To g)) (Errorf ''migration %s source range contains its target'' [mg_ID g]),
       fail_if (\<not> mg_Required g) (Errorf ''migration %s must explicitly be required'' [mg_ID g]),
       fail_if (mg_ID g = role_migration_id \<and>
           (mg_Component g \<noteq> ''bundle'' \<or> mg_From g \<noteq> ''>=0.1.0 <0.2.0'' \<or> mg_To g \<noteq> bc_Version (mf_Bundle m)
            \<or> mg_FromRole g \<noteq> ''practice_agent'' \<or> mg_ToRole g \<noteq> ''pa_expert'' \<or> mg_AliasExpiresAfter g \<noteq> ''0.2.0''
            \<or> \<not> hashPattern (mg_BundleSHA256 g) \<or> \<not> hashPattern (mg_CatalogSHA256 g) \<or> \<not> hashPattern (mg_PolicySHA256 g)))
         (errors_New ''practice-agent role migration must pin its source range, expiry and bundle/catalog/policy identities''),
       fail_if (mg_ID g = role_migration_id \<and> (bundle_digest m = [] \<or> mg_BundleSHA256 g \<noteq> bundle_digest m))
         (errors_New ''practice-agent role migration bundle identity must match the release bundle artifact'')]))"

fun validate_migration_list :: "Manifest \<Rightarrow> string list \<Rightarrow> Migration list \<Rightarrow> go_error + unit" where
  "validate_migration_list m seen [] = Inr ()"
| "validate_migration_list m seen (g # gs) =
     (if \<not> release_identifierPattern (mg_ID g) \<or> mg_ID g \<in> set seen
      then Inl (Errorf ''invalid or duplicate migration id %q'' [mg_ID g])
      else bind_r (validate_migration m g) (\<lambda>_. validate_migration_list m (mg_ID g # seen) gs))"

definition validateMigrations :: "Manifest \<Rightarrow> go_error + unit" where
  "validateMigrations m =
     (case mf_Migrations m of
        None \<Rightarrow> Inl (errors_New ''migrations must be an explicit JSON array'')
      | Some gs \<Rightarrow> validate_migration_list m [] gs)"

definition channels :: "string list" where
  "channels = [''stable'', ''beta'', ''canary'']"

definition validate_manifest :: "text_lib \<Rightarrow> Manifest \<Rightarrow> go_error + unit" where
  "validate_manifest tx m = checks [
     fail_if (mf_SchemaVersion m \<noteq> 1) (Errorf ''unsupported release manifest schema version %d'' [show_int (mf_SchemaVersion m)]),
     fail_if (mf_Product m \<noteq> ''maestro'') (errors_New ''release product must be maestro''),
     bind_r (wrap_error ''invalid release version: %w'' (parseVersion (mf_Release m))) (\<lambda>_. Inr ()),
     fail_if (mf_Channel m \<notin> set channels) (Errorf ''unsupported release channel %q'' [mf_Channel m]),
     fail_if (\<not> release_identifierPattern (is_ID (mf_Issuer m)) \<or> \<not> release_identifierPattern (is_KeyID (mf_Issuer m)))
       (errors_New ''issuer id and key_id must be bounded identifiers''),
     validateComponents (mf_CLI m) (mf_Bundle m),
     validateArtifacts tx m,
     validateMigrations m,
     wrap_error ''invalid release notes name: %w'' (validateFileReference tx (rn_Name (mf_ReleaseNotes m))),
     fail_if (\<not> contains_sub (rn_Name (mf_ReleaseNotes m)) (mf_Release m)) (errors_New ''release notes name must contain the release version''),
     fail_if (\<not> hashPattern (rn_SHA256 (mf_ReleaseNotes m))) (errors_New ''release notes sha256 must be lowercase hexadecimal'')]"

end
