(* ===== verification/UpdatePlan.thy ===== *)
theory UpdatePlan
  imports Release GoText
begin

text \<open>
  \<open>internal/rolemigration/contract.go\<close>, \<open>internal/updateplan/plan.go\<close> and the choice of a
  release in \<open>internal/updateservice/check.go\<close>. The two packages have a version parser of their
  own, which is written as it is there; \<open>split_version\<close> stands for both, their code is the same.
  SHA-256, the provider, the verified download and the removal of its directory are parameters.
\<close>

section \<open>The version parser of rolemigration and updateplan\<close>

definition split_segment :: "string \<Rightarrow> string \<Rightarrow> go_error + 64 word" where
  "split_segment whole part =
     (if part = [] \<or> length part > 1 \<and> part ! 0 = CHR ''0'' then Inl (Errorf ''%q is not canonical'' [whole])
      else wrap_error ''%q is not canonical: %w'' (ParseUint part))"

fun split_segments :: "string \<Rightarrow> string list \<Rightarrow> go_error + version" where
  "split_segments whole [] = Inr []"
| "split_segments whole (p # ps) =
     bind_r (split_segment whole p) (\<lambda>n. bind_r (split_segments whole ps) (\<lambda>ns. Inr (n # ns)))"

definition split_version :: "string \<Rightarrow> go_error + version" where
  "split_version s =
     (let parts = split_on (CHR ''.'') s
      in if length parts \<noteq> 3 then Inl (Errorf ''%q is not MAJOR.MINOR.PATCH'' [s]) else split_segments s parts)"

definition CompareVersions :: "string \<Rightarrow> string \<Rightarrow> go_error + int" where
  "CompareVersions left right =
     bind_r (split_version left) (\<lambda>l. bind_r (split_version right) (\<lambda>r. Inr (compareVersion l r)))"

section \<open>The role migration\<close>

record RoleBinding =
  rb_ID :: string
  rb_FromRole :: string
  rb_ToRole :: string
  rb_AliasExpiresAfter :: string
  rb_BundleSHA256 :: string
  rb_CatalogSHA256 :: string
  rb_PolicySHA256 :: string

definition no_binding :: RoleBinding where
  "no_binding = \<lparr>rb_ID = [], rb_FromRole = [], rb_ToRole = [], rb_AliasExpiresAfter = [], rb_BundleSHA256 = [],
     rb_CatalogSHA256 = [], rb_PolicySHA256 = []\<rparr>"

definition AliasExpiresAfter :: string where
  "AliasExpiresAfter = ''0.2.0''"

text \<open>\<open>parseVersion(AliasExpiresAfter)\<close> and \<open>parseVersion("0.1.0")\<close>, whose errors are dropped.\<close>

definition alias_expiry :: version where
  "alias_expiry = [0, 2, 0]"

definition minimum_source :: version where
  "minimum_source = [0, 1, 0]"

definition ValidateBinding :: "RoleBinding \<Rightarrow> go_error + unit" where
  "ValidateBinding b = fail_if
     (rb_ID b \<noteq> role_migration_id \<or> rb_FromRole b \<noteq> ''practice_agent'' \<or> rb_ToRole b \<noteq> ''pa_expert''
      \<or> rb_AliasExpiresAfter b \<noteq> AliasExpiresAfter
      \<or> \<not> hashPattern (rb_BundleSHA256 b) \<or> \<not> hashPattern (rb_CatalogSHA256 b) \<or> \<not> hashPattern (rb_PolicySHA256 b))
     (errors_New ''practice-agent role migration binding is incomplete or unpinned'')"

definition IsExpired :: "string \<Rightarrow> go_error + bool" where
  "IsExpired release = bind_r (split_version release) (\<lambda>v. Inr (compareVersion v alias_expiry \<ge> 0))"

definition RequiresMigration :: "string \<Rightarrow> string \<Rightarrow> go_error + bool" where
  "RequiresMigration fromRelease toRelease =
     bind_r (wrap_error ''invalid migration source release: %w'' (split_version fromRelease)) (\<lambda>from.
     bind_r (wrap_error ''invalid migration target release: %w'' (split_version toRelease)) (\<lambda>to.
       Inr (compareVersion from alias_expiry < 0 \<and> compareVersion to alias_expiry \<ge> 0)))"

definition sourceInMigrationRange :: "string \<Rightarrow> go_error + bool" where
  "sourceInMigrationRange release =
     bind_r (wrap_error ''invalid migration source release: %w'' (split_version release)) (\<lambda>v.
       Inr (compareVersion v minimum_source \<ge> 0 \<and> compareVersion v alias_expiry < 0))"

definition migration_binding :: "Migration \<Rightarrow> RoleBinding" where
  "migration_binding g = \<lparr>rb_ID = mg_ID g, rb_FromRole = mg_FromRole g, rb_ToRole = mg_ToRole g,
     rb_AliasExpiresAfter = mg_AliasExpiresAfter g, rb_BundleSHA256 = mg_BundleSHA256 g,
     rb_CatalogSHA256 = mg_CatalogSHA256 g, rb_PolicySHA256 = mg_PolicySHA256 g\<rparr>"

text \<open>The binding of the one migration with the identifier, if there is one.\<close>

definition FromManifest :: "Manifest \<Rightarrow> go_error + RoleBinding option" where
  "FromManifest m =
     (case filter (\<lambda>g. mg_ID g = role_migration_id) (migrations m) of
        [] \<Rightarrow> Inr None
      | [g] \<Rightarrow>
          bind_r (ValidateBinding (migration_binding g)) (\<lambda>_.
            if IsExpired (mf_Release m) \<noteq> Inr True \<or> mg_To g \<noteq> bc_Version (mf_Bundle m)
               \<or> mg_From g \<noteq> ''>=0.1.0 <0.2.0'' \<or> mg_Component g \<noteq> ''bundle''
            then Inl (errors_New ''practice-agent role migration must be carried by post-expiry releases from the bounded 0.1.x range'')
            else if bundle_digest m = [] \<or> bundle_digest m \<noteq> mg_BundleSHA256 g
            then Inl (errors_New ''practice-agent role migration bundle digest does not match the release artifact'')
            else Inr (Some (migration_binding g)))
      | _ \<Rightarrow> Inl (errors_New ''release contains duplicate practice-agent role migrations''))"

definition EnsureUpdateAllowed :: "string \<Rightarrow> string \<Rightarrow> Manifest \<Rightarrow> go_error + RoleBinding" where
  "EnsureUpdateAllowed fromRelease toRelease m =
     bind_r (wrap_error ''invalid migration source release: %w'' (split_version fromRelease)) (\<lambda>from.
     bind_r (wrap_error ''invalid migration target release: %w'' (split_version toRelease)) (\<lambda>to.
       if compareVersion to from \<le> 0 then Inl (errors_New ''role-bound update must move to a newer release'')
       else
     bind_r (FromManifest m) (\<lambda>binding.
     bind_r (RequiresMigration fromRelease toRelease) (\<lambda>required.
     bind_r (sourceInMigrationRange fromRelease) (\<lambda>eligible.
       if required \<and> \<not> eligible then Inl (errors_New ''update source is outside the bounded practice-agent migration range'')
       else if required \<and> binding = None
       then Inl (errors_New ''update crosses the practice-agent alias expiry without a signed role migration'')
       else Inr (if \<not> eligible then no_binding else case binding of None \<Rightarrow> no_binding | Some b \<Rightarrow> b))))))"

section \<open>Update plans\<close>

text \<open>The fields of \<open>installtx.State\<close> that a plan is built from.\<close>

record InstalledState =
  in_Release :: string
  in_Channel :: string
  in_CLIVersion :: string
  in_BundleVersion :: string
  in_TargetOS :: string
  in_TargetArch :: string

record SourceBinding =
  sb_Provider :: string
  sb_ProviderReleaseID :: int
  sb_ManifestSHA256 :: string

record Plan =
  pl_SchemaVersion :: int
  pl_ID :: string
  pl_State :: string
  pl_FromRelease :: string
  pl_FromChannel :: string
  pl_FromCLIVersion :: string
  pl_FromBundleVersion :: string
  pl_ToRelease :: string
  pl_Channel :: string
  pl_CLIVersion :: string
  pl_BundleVersion :: string
  pl_CLIArtifact :: string
  pl_BundleArtifact :: string
  pl_TargetOS :: string
  pl_TargetArch :: string
  pl_Provider :: string
  pl_ProviderReleaseID :: int
  pl_ManifestSHA256 :: string
  pl_RoleMigrationID :: string
  pl_CatalogSHA256 :: string
  pl_PolicySHA256 :: string
  pl_WorkspaceMigrationRequired :: bool
  pl_WorkspaceMigrationVersion :: int
  pl_WorkspaceMigrationState :: string
  pl_WorkspaceMigrationExecution :: string
  pl_ConfirmationRequired :: bool

definition plan_json :: "Plan \<Rightarrow> json" where
  "plan_json p = JObj ([(''schema_version'', JNum (pl_SchemaVersion p)), (''id'', JStr (pl_ID p)), (''state'', JStr (pl_State p)),
     (''from_release'', JStr (pl_FromRelease p)), (''from_channel'', JStr (pl_FromChannel p)),
     (''from_cli_version'', JStr (pl_FromCLIVersion p)), (''from_bundle_version'', JStr (pl_FromBundleVersion p)),
     (''to_release'', JStr (pl_ToRelease p)), (''channel'', JStr (pl_Channel p)), (''cli_version'', JStr (pl_CLIVersion p)),
     (''bundle_version'', JStr (pl_BundleVersion p)), (''cli_artifact'', JStr (pl_CLIArtifact p)),
     (''bundle_artifact'', JStr (pl_BundleArtifact p)), (''target_os'', JStr (pl_TargetOS p)),
     (''target_arch'', JStr (pl_TargetArch p)), (''provider'', JStr (pl_Provider p)),
     (''provider_release_id'', JNum (pl_ProviderReleaseID p)), (''manifest_sha256'', JStr (pl_ManifestSHA256 p))]
     @ opt_str ''role_migration_id'' (pl_RoleMigrationID p) @ opt_str ''catalog_sha256'' (pl_CatalogSHA256 p)
     @ opt_str ''policy_sha256'' (pl_PolicySHA256 p)
     @ [(''workspace_migration_required'', JBool (pl_WorkspaceMigrationRequired p)),
     (''workspace_migration_version'', JNum (pl_WorkspaceMigrationVersion p)),
     (''workspace_migration_state'', JStr (pl_WorkspaceMigrationState p)),
     (''workspace_migration_execution'', JStr (pl_WorkspaceMigrationExecution p)),
     (''confirmation_required'', JBool (pl_ConfirmationRequired p))])"

definition computePlanID :: "(string \<Rightarrow> string) \<Rightarrow> Plan \<Rightarrow> string" where
  "computePlanID sha p = EncodeToString (take 16 (sha (marshal (plan_json (p\<lparr>pl_ID := []\<rparr>)))))"

text \<open>\<open>strings.Trim(s, "0123456789abcdef") != ""\<close>.\<close>

definition not_hex :: "string \<Rightarrow> bool" where
  "not_hex s \<longleftrightarrow> \<not> list_all (\<lambda>c. c \<in> set ''0123456789abcdef'') s"

definition is_channel :: "string \<Rightarrow> bool" where
  "is_channel s \<longleftrightarrow> s = ''canary'' \<or> s = ''beta'' \<or> s = ''stable''"

text \<open>The loop over the artifacts, with the names found so far.\<close>

fun select_artifacts :: "string \<Rightarrow> string \<Rightarrow> string \<times> string \<Rightarrow> Artifact list \<Rightarrow> go_error + string \<times> string" where
  "select_artifacts os arch (cliName, bundleName) [] = Inr (cliName, bundleName)"
| "select_artifacts os arch (cliName, bundleName) (a # as) =
     (if af_Kind a = ''cli'' \<and> af_OS a = os \<and> af_Arch a = arch then
        (if cliName \<noteq> [] then Inl (errors_New ''release has duplicate target CLI artifacts'')
         else select_artifacts os arch (af_Name a, bundleName) as)
      else if af_Kind a = ''bundle'' then
        (if bundleName \<noteq> [] then Inl (errors_New ''release has duplicate bundle artifacts'')
         else select_artifacts os arch (cliName, af_Name a) as)
      else select_artifacts os arch (cliName, bundleName) as)"

definition new_plan ::
  "InstalledState \<Rightarrow> Manifest \<Rightarrow> string \<Rightarrow> string \<Rightarrow> SourceBinding \<Rightarrow> RoleBinding \<Rightarrow> string \<Rightarrow> string \<Rightarrow> Plan" where
  "new_plan current m os arch source role cliName bundleName =
     \<lparr>pl_SchemaVersion = 2, pl_ID = [], pl_State = ''available'',
      pl_FromRelease = in_Release current, pl_FromChannel = in_Channel current,
      pl_FromCLIVersion = in_CLIVersion current, pl_FromBundleVersion = in_BundleVersion current,
      pl_ToRelease = mf_Release m, pl_Channel = mf_Channel m,
      pl_CLIVersion = cl_Version (mf_CLI m), pl_BundleVersion = bc_Version (mf_Bundle m),
      pl_CLIArtifact = cliName, pl_BundleArtifact = bundleName, pl_TargetOS = os, pl_TargetArch = arch,
      pl_Provider = sb_Provider source, pl_ProviderReleaseID = sb_ProviderReleaseID source,
      pl_ManifestSHA256 = sb_ManifestSHA256 source,
      pl_RoleMigrationID = rb_ID role, pl_CatalogSHA256 = rb_CatalogSHA256 role, pl_PolicySHA256 = rb_PolicySHA256 role,
      pl_WorkspaceMigrationRequired = True, pl_WorkspaceMigrationVersion = 1,
      pl_WorkspaceMigrationState = ''pending_core_activation'', pl_WorkspaceMigrationExecution = ''unavailable'',
      pl_ConfirmationRequired = True\<rparr>"

definition Build ::
  "(string \<Rightarrow> string) \<Rightarrow> InstalledState \<Rightarrow> Manifest \<Rightarrow> string \<Rightarrow> string \<Rightarrow> SourceBinding \<Rightarrow> go_error + Plan" where
  "Build sha current m os arch source =
     (if sb_Provider source \<noteq> ''github'' \<or> sb_ProviderReleaseID source \<le> 0
         \<or> length (sb_ManifestSHA256 source) \<noteq> 64 \<or> not_hex (sb_ManifestSHA256 source)
      then Inl (errors_New ''update source binding is invalid'')
      else
      bind_r (wrap_error ''invalid installed release: %w'' (split_version (in_Release current))) (\<lambda>currentVersion.
      bind_r (wrap_error ''invalid installed CLI version: %w'' (split_version (in_CLIVersion current))) (\<lambda>_.
      bind_r (wrap_error ''invalid installed bundle version: %w'' (split_version (in_BundleVersion current))) (\<lambda>_.
      if \<not> is_channel (in_Channel current) \<or> in_TargetOS current \<noteq> os \<or> in_TargetArch current \<noteq> arch
      then Inl (errors_New ''installed state does not match the requested update target'')
      else
      bind_r (wrap_error ''invalid candidate release: %w'' (split_version (mf_Release m))) (\<lambda>nextVersion.
      if compareVersion nextVersion currentVersion \<le> 0
      then Inl (errors_New ''standard update plan must move to a newer release'')
      else
      bind_r (EnsureUpdateAllowed (in_Release current) (mf_Release m) m) (\<lambda>role.
      bind_r (select_artifacts os arch ([], []) (mf_Artifacts m)) (\<lambda>(cliName, bundleName).
      if cliName = [] \<or> bundleName = [] then Inl (errors_New ''release does not support the requested update target'')
      else let p = new_plan current m os arch source role cliName bundleName
           in Inr (p\<lparr>pl_ID := computePlanID sha p\<rparr>))))))))"

definition plan_contract :: "Plan \<Rightarrow> bool" where
  "plan_contract p \<longleftrightarrow>
     pl_SchemaVersion p = 2 \<and> pl_State p = ''available'' \<and> pl_ConfirmationRequired p \<and> pl_WorkspaceMigrationRequired p
     \<and> pl_WorkspaceMigrationVersion p = 1 \<and> pl_WorkspaceMigrationState p = ''pending_core_activation''
     \<and> pl_WorkspaceMigrationExecution p = ''unavailable'' \<and> pl_Provider p = ''github'' \<and> pl_ProviderReleaseID p > 0
     \<and> length (pl_ManifestSHA256 p) = 64 \<and> \<not> not_hex (pl_ManifestSHA256 p)
     \<and> is_channel (pl_Channel p) \<and> is_channel (pl_FromChannel p)
     \<and> (pl_TargetOS p = ''darwin'' \<or> pl_TargetOS p = ''windows'') \<and> (pl_TargetArch p = ''amd64'' \<or> pl_TargetArch p = ''arm64'')
     \<and> pl_CLIArtifact p \<noteq> [] \<and> pl_BundleArtifact p \<noteq> []"

definition plan_role_error :: "Plan \<Rightarrow> go_error + unit" where
  "plan_role_error p =
     (if pl_RoleMigrationID p \<noteq> [] then
        fail_if (pl_RoleMigrationID p \<noteq> role_migration_id
            \<or> length (pl_CatalogSHA256 p) \<noteq> 64 \<or> not_hex (pl_CatalogSHA256 p)
            \<or> length (pl_PolicySHA256 p) \<noteq> 64 \<or> not_hex (pl_PolicySHA256 p))
          (errors_New ''update plan role migration binding is invalid'')
      else fail_if (pl_CatalogSHA256 p \<noteq> [] \<or> pl_PolicySHA256 p \<noteq> [])
          (errors_New ''update plan contains orphan role migration digests''))"

definition Validate :: "(string \<Rightarrow> string) \<Rightarrow> Plan \<Rightarrow> go_error + unit" where
  "Validate sha p =
     (if \<not> plan_contract p then Inl (errors_New ''update plan contract is invalid'')
      else
      bind_r (wrap_error ''invalid update-plan source release: %w'' (split_version (pl_FromRelease p))) (\<lambda>from.
      bind_r (wrap_error ''invalid update-plan target release: %w'' (split_version (pl_ToRelease p))) (\<lambda>to.
      if compareVersion to from \<le> 0 then Inl (errors_New ''update plan must move to a newer release'')
      else
      bind_r (wrap_error ''invalid update-plan source CLI: %w'' (split_version (pl_FromCLIVersion p))) (\<lambda>_.
      bind_r (wrap_error ''invalid update-plan source bundle: %w'' (split_version (pl_FromBundleVersion p))) (\<lambda>_.
      bind_r (wrap_error ''invalid update-plan target CLI: %w'' (split_version (pl_CLIVersion p))) (\<lambda>_.
      bind_r (wrap_error ''invalid update-plan target bundle: %w'' (split_version (pl_BundleVersion p))) (\<lambda>_.
      bind_r (plan_role_error p) (\<lambda>_.
      bind_r (RequiresMigration (pl_FromRelease p) (pl_ToRelease p)) (\<lambda>required.
      if required \<and> pl_RoleMigrationID p \<noteq> role_migration_id
      then Inl (errors_New ''update plan crosses the practice-agent alias expiry without a migration binding'')
      else fail_if (pl_ID p \<noteq> computePlanID sha p)
        (errors_New ''update plan ID does not match its canonical fields''))))))))))"

section \<open>Choosing a release\<close>

record ProviderRelease =
  pr_ID :: int
  pr_TagName :: string
  pr_Draft :: bool

datatype check_error = ErrCurrent | CheckError go_error

definition tag_prefix :: string where
  "tag_prefix = ''maestro-v''"

definition is_candidate :: "ProviderRelease \<Rightarrow> bool" where
  "is_candidate r \<longleftrightarrow> \<not> pr_Draft r \<and> has_prefix (pr_TagName r) tag_prefix"

definition tag_version :: "ProviderRelease \<Rightarrow> string" where
  "tag_version r = trim_prefix (pr_TagName r) tag_prefix"

text \<open>The loop: the versions seen and the release selected so far.\<close>

fun select_loop ::
  "string \<Rightarrow> string list \<Rightarrow> ProviderRelease option \<Rightarrow> ProviderRelease list \<Rightarrow> check_error + ProviderRelease option" where
  "select_loop current seen selected [] = Inr selected"
| "select_loop current seen selected (r # rs) =
     (if \<not> is_candidate r then select_loop current seen selected rs
      else let v = tag_version r
      in case CompareVersions v current of
           Inl _ \<Rightarrow> Inl (CheckError (Errorf ''provider returned malformed Maestro release tag %q'' [pr_TagName r]))
         | Inr comparison \<Rightarrow>
             if v \<in> set seen then Inl (CheckError (Errorf ''provider returned duplicate Maestro release version %s'' [v]))
             else if pr_ID r \<le> 0 then Inl (CheckError (errors_New ''provider returned an invalid release identity''))
             else if comparison \<le> 0 then select_loop current (v # seen) selected rs
             else case selected of
                 None \<Rightarrow> select_loop current (v # seen) (Some r) rs
               | Some best \<Rightarrow>
                   (case CompareVersions v (tag_version best) of
                      Inl e \<Rightarrow> Inl (CheckError e)
                    | Inr newer \<Rightarrow> select_loop current (v # seen) (if newer > 0 then Some r else selected) rs))"

definition selectLatestRelease :: "ProviderRelease list \<Rightarrow> string \<Rightarrow> check_error + ProviderRelease" where
  "selectLatestRelease releases current =
     (case CompareVersions current current of
        Inl (Errorf f args) \<Rightarrow> Inl (CheckError (Errorf ''invalid installed release: %w'' (f # args)))
      | Inr _ \<Rightarrow>
          bind_r (select_loop current [] None releases) (\<lambda>selected.
            case selected of None \<Rightarrow> Inl ErrCurrent | Some r \<Rightarrow> Inr r))"

section \<open>Check\<close>

record VerifiedRelease =
  ve_Directory :: string
  ve_Manifest :: Manifest
  ve_ManifestSHA256 :: string

text \<open>The provider, the verified download into a directory and the removal of the directory.\<close>

record check_env =
  ck_Releases :: "go_error + ProviderRelease list"
  ck_Download :: "ProviderRelease \<Rightarrow> string \<Rightarrow> go_error + VerifiedRelease"
  ck_RemoveAll :: "go_error option"
  ck_SHA256 :: "string \<Rightarrow> string"

definition check_destination :: "string \<Rightarrow> ProviderRelease \<Rightarrow> string" where
  "check_destination stagingRoot r = path_clean (stagingRoot @ ''/'' @ ''github-release-'' @ show_int (pr_ID r))"

definition lift_check :: "go_error + 'a \<Rightarrow> check_error + 'a" where
  "lift_check r = (case r of Inl e \<Rightarrow> Inl (CheckError e) | Inr x \<Rightarrow> Inr x)"

text \<open>The reasons to fail after the download, which is then removed.\<close>

definition verified_plan ::
  "check_env \<Rightarrow> InstalledState \<Rightarrow> string \<Rightarrow> string \<Rightarrow> string \<Rightarrow> ProviderRelease \<Rightarrow> VerifiedRelease \<Rightarrow> go_error + Plan" where
  "verified_plan env current os arch destination r v =
     bind_r (checks [
       fail_if (path_clean (ve_Directory v) \<noteq> path_clean destination)
         (errors_New ''verified release directory does not match the provisional destination''),
       fail_if (pr_TagName r \<noteq> tag_prefix @ mf_Release (ve_Manifest v))
         (errors_New ''provider release tag does not match the authenticated manifest version''),
       fail_if (length (ve_ManifestSHA256 v) \<noteq> 64 \<or> not_hex (ve_ManifestSHA256 v))
         (errors_New ''verified release did not retain an authenticated manifest digest'')]) (\<lambda>_.
     Build (ck_SHA256 env) current (ve_Manifest v) os arch
       \<lparr>sb_Provider = ''github'', sb_ProviderReleaseID = pr_ID r, sb_ManifestSHA256 = ve_ManifestSHA256 v\<rparr>)"

text \<open>The answer, and the directory of a download that stays. Provider and key registry are there.\<close>

definition Check ::
  "check_env \<Rightarrow> InstalledState \<Rightarrow> string \<Rightarrow> string \<Rightarrow> string
    \<Rightarrow> (check_error + Plan \<times> VerifiedRelease) \<times> string option" where
  "Check env current os arch stagingRoot =
     (if stagingRoot = [] then (Inl (CheckError (errors_New ''update staging root is required'')), None)
      else
      case bind_r (lift_check (ck_Releases env)) (\<lambda>releases. selectLatestRelease releases (in_Release current)) of
        Inl e \<Rightarrow> (Inl e, None)
      | Inr r \<Rightarrow>
      let destination = check_destination stagingRoot r
      in case ck_Download env r destination of
           Inl e \<Rightarrow> (Inl (CheckError e), None)
         | Inr v \<Rightarrow>
             (case verified_plan env current os arch destination r v of
                Inr p \<Rightarrow> (Inr (p, v), Some destination)
              | Inl e \<Rightarrow>
                  (case ck_RemoveAll env of
                     None \<Rightarrow> (Inl (CheckError e), None)
                   | Some (Errorf f args) \<Rightarrow>
                       (Inl (CheckError (Errorf ''%w; remove provisional download: %v'' (f # args))), Some destination))))"

end
