(* ===== verification/UpdateFacts.thy ===== *)
theory UpdateFacts
  imports UpdatePlan
begin

text \<open>
  Facts about versions, manifests and plans: the parsers of the three packages read the same
  versions, a version has one text, the comparison is the lexicographic order, and what the
  validation of a manifest says of the artifacts a plan names.
\<close>

section \<open>Numbers\<close>

lemma digits_value_snoc: "digits_value acc (s @ [c]) = 10 * digits_value acc s + (byte_of c - 48)"
  by (induction s arbitrary: acc) auto

lemma digit_char_of_digit: "is_digit c \<Longrightarrow> digit_char (byte_of c - 48) = c"
  by (simp add: is_digit_def digit_char_def byte_of_def)

lemma is_digit_digit_char: "d < 10 \<Longrightarrow> is_digit (digit_char d)"
  by (simp add: is_digit_def byte_of_digit_char)

lemma digits_value_show: "digits_value 0 (show_nat n) = n \<and> list_all is_digit (show_nat n) \<and> show_nat n \<noteq> []"
proof (induction n rule: less_induct)
  case (less n)
  show ?case
  proof (cases "n < 10")
    case True
    then show ?thesis by (simp add: show_nat.simps [of n] byte_of_digit_char is_digit_digit_char)
  next
    case False
    then have "n div 10 < n" by simp
    from less.IH [OF this] False show ?thesis
      by (simp add: show_nat.simps [of n] digits_value_snoc byte_of_digit_char is_digit_digit_char)
  qed
qed

lemma hd_show_nat: "0 < n \<Longrightarrow> hd (show_nat n) \<noteq> CHR ''0''"
proof (induction n rule: less_induct)
  case (less n)
  show ?case
  proof (cases "n < 10")
    case True
    moreover have "CHR ''0'' = digit_char 0" by code_simp
    ultimately show ?thesis using less.prems digit_char_eq_iff [of n 0] by (simp add: show_nat.simps [of n])
  next
    case False
    then have "n div 10 < n" "0 < n div 10" by simp_all
    from less.IH [OF this] digits_value_show [of "n div 10"] False show ?thesis
      by (simp add: show_nat.simps [of n] hd_append)
  qed
qed

lemma zero_digit: "digit_char 0 = CHR ''0''" "byte_of (CHR ''0'') = 48"
  by code_simp+

lemma show_digits_value:
  assumes "list_all is_digit s" "s \<noteq> []" "hd s \<noteq> CHR ''0''"
  shows "show_nat (digits_value 0 s) = s \<and> 0 < digits_value 0 s"
  using assms
proof (induction s rule: rev_induct)
  case (snoc c s)
  have d: "byte_of c - 48 < 10" using snoc.prems(1) by (simp add: is_digit_def) linarith
  have c: "digit_char (byte_of c - 48) = c" using snoc.prems(1) by (simp add: digit_char_of_digit)
  show ?case
  proof (cases "s = []")
    case True
    with snoc.prems have "c \<noteq> CHR ''0''" by simp
    with c zero_digit have "byte_of c - 48 \<noteq> 0" by metis
    with True d c show ?thesis by (simp add: show_nat.simps)
  next
    case False
    with snoc have IH: "show_nat (digits_value 0 s) = s" "0 < digits_value 0 s" by auto
    then show ?thesis using d c by (simp add: digits_value_snoc show_nat.simps [of "10 * digits_value 0 s + (byte_of c - 48)"])
  qed
qed simp

lemma show_zero: "show_nat (digits_value 0 ''0'') = ''0''"
  by code_simp

lemma version_segment_show: "version_segment s \<Longrightarrow> show_nat (digits_value 0 s) = s"
  using show_digits_value [of s] show_zero by (auto simp: version_segment_def)

lemma show_version_segment: "version_segment (show_nat n)"
proof (cases "n = 0")
  case True
  then show ?thesis by (simp add: version_segment_def show_nat.simps zero_digit)
next
  case False
  then show ?thesis using digits_value_show [of n] hd_show_nat [of n] by (simp add: version_segment_def)
qed

section \<open>Versions\<close>

lemma ParseUint_Inr: "ParseUint s = Inr n \<longleftrightarrow>
    s \<noteq> [] \<and> list_all is_digit s \<and> digits_value 0 s < 2 ^ 64 \<and> n = word_of_nat (digits_value 0 s)"
  by (auto simp: ParseUint_def not_le)

lemma ParseUint_unat: "ParseUint s = Inr n \<Longrightarrow> unat n = digits_value 0 s"
  by (auto simp: ParseUint_Inr unat_of_nat)

lemma version_segment_iff:
  "version_segment s \<longleftrightarrow> s \<noteq> [] \<and> list_all is_digit s \<and> \<not> (length s > 1 \<and> s ! 0 = CHR ''0'')"
proof (cases s)
  case (Cons c cs)
  have "is_digit (CHR ''0'')" by code_simp
  then show ?thesis by (cases cs) (auto simp: Cons version_segment_def)
qed (simp add: version_segment_def)

lemma split_segment_Inr: "split_segment w p = Inr n \<longleftrightarrow> version_segment p \<and> ParseUint p = Inr n"
  by (auto simp: split_segment_def version_segment_iff ParseUint_Inr)

lemma split_segments_Inr: "split_segments w ps = Inr v \<longleftrightarrow> list_all version_segment ps \<and> parse_segments ps = Inr v"
  by (induction ps arbitrary: v) (auto simp: bind_r_Inr split_segment_Inr)

lemma version_parsers_same: "split_version s = Inr v \<longleftrightarrow> parseVersion s = Inr v"
  by (auto simp: split_version_def parseVersion_def exactVersionPattern_def Let_def split_segments_Inr)

lemma parses_split: "parses s \<longleftrightarrow> (\<exists>v. split_version s = Inr v)"
  by (auto simp: parses_def version_parsers_same split: sum.splits)

lemma parse_segments_length: "parse_segments ps = Inr v \<Longrightarrow> length v = length ps"
  by (induction ps arbitrary: v) (auto simp: bind_r_Inr)

lemma parse_segments_show: "parse_segments ps = Inr v \<Longrightarrow> list_all version_segment ps \<Longrightarrow> ps = map (\<lambda>n. show_nat (unat n)) v"
  by (induction ps arbitrary: v) (auto simp: bind_r_Inr ParseUint_unat version_segment_show)

text \<open>The text of a version.\<close>

definition show_version :: "version \<Rightarrow> string" where
  "show_version v = join_with ''.'' (map (\<lambda>n. show_nat (unat n)) v)"

lemma join_split: "join_with [d] (split_on d s) = s"
proof (induction s)
  case (Cons c cs)
  obtain w ws where "split_on d cs = w # ws" by (cases "split_on d cs") auto
  with Cons show ?case by (cases ws) auto
qed simp

lemma split_version_length: "split_version s = Inr v \<Longrightarrow> length v = 3"
  by (auto simp: split_version_def Let_def split_segments_Inr dest: parse_segments_length split: if_splits)

lemma split_version_text: "split_version s = Inr v \<Longrightarrow> s = show_version v"
  using join_split [of "CHR ''.''" s]
  by (auto simp: split_version_def Let_def split_segments_Inr show_version_def dest!: parse_segments_show split: if_splits)

lemma parse_segments_of_show: "parse_segments (map (\<lambda>n. show_nat (unat n)) v) = Inr (v :: version)"
proof (induction v)
  case (Cons n v)
  have "unat n < 2 ^ 64" using unsigned_less [of n] by simp
  then show ?case using Cons digits_value_show [of "unat n"] by (simp add: ParseUint_def)
qed simp

lemma digit_no_dot: "list_all is_digit s \<Longrightarrow> CHR ''.'' \<notin> set s"
proof -
  have "\<not> is_digit (CHR ''.'')" by code_simp
  then show "list_all is_digit s \<Longrightarrow> CHR ''.'' \<notin> set s" by (auto simp: list_all_iff)
qed

lemma split_show_version:
  assumes "length v = 3"
  shows "split_version (show_version v) = Inr v"
proof -
  have "v \<noteq> []" using assms by auto
  then have "split_on (CHR ''.'') (show_version v) = map (\<lambda>n. show_nat (unat n)) v"
    unfolding show_version_def by (intro split_join) (auto simp: digits_value_show digit_no_dot)
  then show ?thesis
    using assms by (auto simp: split_version_def Let_def split_segments_Inr parse_segments_of_show list_all_iff show_version_segment)
qed

text \<open>The comparison is the lexicographic order of the three numbers.\<close>

lemma compareVersion_lex:
  "length l = length r \<Longrightarrow> compareVersion l r = (if l < r then - 1 else if r < l then 1 else 0)"
  by (induction l r rule: list_induct2) auto

lemma compareVersion_signs:
  assumes "length l = length r"
  shows "compareVersion l r \<le> 0 \<longleftrightarrow> l \<le> r" "compareVersion l r < 0 \<longleftrightarrow> l < r"
    "0 \<le> compareVersion l r \<longleftrightarrow> r \<le> l" "0 < compareVersion l r \<longleftrightarrow> r < l"
  using compareVersion_lex [OF assms] by auto

end
