(* ===== verification/UpdateProps.thy ===== *)
theory UpdateProps
  imports UpdateFacts
begin

text \<open>
  Updates: the parsers of versions agree, a plan that is built from a validated manifest is valid,
  a crossing of the alias expiry carries the pinned migration, and a check offers the newest release.
\<close>

section \<open>Versions\<close>

text \<open>The parsers of the packages read the same versions, a version has one text, and versions
  are compared as three numbers.\<close>

theorem versions_canonical:
  "(split_version s = Inr v \<longleftrightarrow> parseVersion s = Inr v)
   \<and> (parseVersion s = Inr v \<longleftrightarrow> length v = 3 \<and> s = show_version v)
   \<and> (parseVersion s = Inr v \<and> parseVersion s' = Inr v' \<longrightarrow>
        CompareVersions s s' = Inr (if v < v' then - 1 else if v' < v then 1 else 0))"
proof (intro conjI impI)
  show "split_version s = Inr v \<longleftrightarrow> parseVersion s = Inr v" by (rule version_parsers_same)
  show "parseVersion s = Inr v \<longleftrightarrow> length v = 3 \<and> s = show_version v"
    using split_version_length [of s v] split_version_text [of s v] split_show_version [of v] by (auto simp: version_parsers_same)
  assume "parseVersion s = Inr v \<and> parseVersion s' = Inr v'"
  then have "split_version s = Inr v" "split_version s' = Inr v'" by (simp_all add: version_parsers_same)
  then show "CompareVersions s s' = Inr (if v < v' then - 1 else if v' < v then 1 else 0)"
    using compareVersion_lex [of v v'] split_version_length by (simp add: CompareVersions_def)
qed

section \<open>Manifests\<close>

lemma lower_hex_digits: "is_lower_hex c \<longleftrightarrow> c \<in> set ''0123456789abcdef''"
proof (cases c)
  case (Char b0 b1 b2 b3 b4 b5 b6 b7)
  have "is_lower_hex (Char b0 b1 b2 b3 b4 b5 b6 b7) \<longleftrightarrow> Char b0 b1 b2 b3 b4 b5 b6 b7 \<in> set ''0123456789abcdef''"
    by (cases b7; cases b6; cases b5; cases b4; cases b3; cases b2; cases b1; cases b0;
        simp add: hex_class_code char_class_code)
  then show ?thesis by (simp only: Char)
qed

lemma hashPattern_hex: "hashPattern s \<Longrightarrow> length s = 64 \<and> \<not> not_hex s"
  by (simp add: hashPattern_def not_hex_def lower_hex_digits [abs_def])

lemma validate_artifact_list_all: "validate_artifact_list tx m seen as = Inr () \<Longrightarrow> a \<in> set as \<Longrightarrow> validate_artifact tx m a = Inr ()"
  by (induction as arbitrary: seen) (auto simp: bind_r_Inr split: if_splits)

lemma validate_manifest_ok:
  assumes "validate_manifest tx m = Inr ()"
  shows "is_channel (mf_Channel m)" "\<exists>v. split_version (cl_Version (mf_CLI m)) = Inr v" "\<exists>v. split_version (bc_Version (mf_Bundle m)) = Inr v"
    "\<And>a. a \<in> set (mf_Artifacts m) \<Longrightarrow> validateArtifactPlatform a = Inr ()"
    "length (filter (\<lambda>a. af_Kind a = ''bundle'') (mf_Artifacts m)) = 1"
proof -
  from assms have m: "mf_Channel m \<in> set channels" "validateComponents (mf_CLI m) (mf_Bundle m) = Inr ()" "validateArtifacts tx m = Inr ()"
    unfolding validate_manifest_def by (simp_all add: checks_Inr del: set_simps) auto
  then show "is_channel (mf_Channel m)" "\<exists>v. split_version (cl_Version (mf_CLI m)) = Inr v" "\<exists>v. split_version (bc_Version (mf_Bundle m)) = Inr v"
    by (auto simp: is_channel_def channels_def validateComponents_def bind_r_Inr version_parsers_same)
  show "validateArtifactPlatform a = Inr ()" if "a \<in> set (mf_Artifacts m)" for a
    using m(3) validate_artifact_list_all [OF _ that, of tx m "[]"]
    by (auto simp: validateArtifacts_def validate_artifact_def bind_r_Inr split: if_splits)
  show "length (filter (\<lambda>a. af_Kind a = ''bundle'') (mf_Artifacts m)) = 1"
    using m(3) by (auto simp: validateArtifacts_def bind_r_Inr split: if_splits)
qed

section \<open>Plans\<close>

lemma select_artifacts_ok:
  "select_artifacts os arch (c0, b0) as = Inr (c, b) \<Longrightarrow>
     (c = c0 \<or> (\<exists>a \<in> set as. af_Kind a = ''cli'' \<and> af_OS a = os \<and> af_Arch a = arch \<and> af_Name a = c))
     \<and> (b = b0 \<or> (\<exists>a \<in> set as. af_Kind a = ''bundle'' \<and> af_Name a = b))"
  by (induction os arch "(c0, b0)" as arbitrary: c0 b0 rule: select_artifacts.induct) (auto split: if_splits)

lemma FromManifest_Some:
  assumes "FromManifest m = Inr (Some b)"
  obtains g where "filter (\<lambda>g. mg_ID g = role_migration_id) (migrations m) = [g]" "b = migration_binding g"
    "ValidateBinding b = Inr ()" "bundle_digest m = mg_BundleSHA256 g"
  using assms by (auto simp: FromManifest_def bind_r_Inr split: list.splits if_splits)

lemma EnsureUpdateAllowed_ok:
  assumes "EnsureUpdateAllowed from to m = Inr role"
  shows "role = no_binding \<or> FromManifest m = Inr (Some role)"
    and "RequiresMigration from to = Inr True \<Longrightarrow> FromManifest m = Inr (Some role)"
  using assms by (auto simp: EnsureUpdateAllowed_def bind_r_Inr split: if_splits option.splits)

lemma Build_ok:
  assumes "Build sha current m os arch source = Inr p"
  obtains cv nv role cliName bundleName where
    "sb_Provider source = ''github''" "sb_ProviderReleaseID source > 0" "length (sb_ManifestSHA256 source) = 64" "\<not> not_hex (sb_ManifestSHA256 source)"
    "split_version (in_Release current) = Inr cv" "split_version (mf_Release m) = Inr nv" "cv < nv"
    "\<exists>v. split_version (in_CLIVersion current) = Inr v" "\<exists>v. split_version (in_BundleVersion current) = Inr v"
    "is_channel (in_Channel current)" "in_TargetOS current = os" "in_TargetArch current = arch"
    "EnsureUpdateAllowed (in_Release current) (mf_Release m) m = Inr role"
    "select_artifacts os arch ([], []) (mf_Artifacts m) = Inr (cliName, bundleName)" "cliName \<noteq> []" "bundleName \<noteq> []"
    "p = (new_plan current m os arch source role cliName bundleName)
      \<lparr>pl_ID := computePlanID sha (new_plan current m os arch source role cliName bundleName)\<rparr>"
proof -
  from assms obtain cv nv role cliName bundleName where b:
    "sb_Provider source = ''github''" "sb_ProviderReleaseID source > 0" "length (sb_ManifestSHA256 source) = 64" "\<not> not_hex (sb_ManifestSHA256 source)"
    "split_version (in_Release current) = Inr cv" "split_version (mf_Release m) = Inr nv" "\<not> compareVersion nv cv \<le> 0"
    "\<exists>v. split_version (in_CLIVersion current) = Inr v" "\<exists>v. split_version (in_BundleVersion current) = Inr v"
    "is_channel (in_Channel current)" "in_TargetOS current = os" "in_TargetArch current = arch"
    "EnsureUpdateAllowed (in_Release current) (mf_Release m) m = Inr role"
    "select_artifacts os arch ([], []) (mf_Artifacts m) = Inr (cliName, bundleName)" "cliName \<noteq> []" "bundleName \<noteq> []"
    "p = (new_plan current m os arch source role cliName bundleName)
      \<lparr>pl_ID := computePlanID sha (new_plan current m os arch source role cliName bundleName)\<rparr>"
    unfolding Build_def by (auto simp: bind_r_Inr Let_def split: if_splits)
  moreover have "cv < nv" using b(5-7) split_version_length by (simp add: compareVersion_signs not_le)
  ultimately show ?thesis using that by blast
qed

lemma plan_id_ignores [simp]: "computePlanID sha (p\<lparr>pl_ID := x\<rparr>) = computePlanID sha p"
  by (simp add: computePlanID_def)

lemma no_binding_invalid: "ValidateBinding no_binding \<noteq> Inr ()"
  by (simp add: no_binding_def ValidateBinding_def role_migration_id_def)

lemma no_binding_role: "FromManifest m = Inr (Some no_binding) \<Longrightarrow> False"
  by (erule FromManifest_Some) (simp add: no_binding_invalid)

text \<open>The role fields of a plan are those of an accepted binding, or empty.\<close>

lemma role_fields:
  assumes "EnsureUpdateAllowed from to m = Inr role"
  shows "rb_ID role = role_migration_id \<and> hashPattern (rb_CatalogSHA256 role) \<and> hashPattern (rb_PolicySHA256 role)
    \<or> role = no_binding \<and> RequiresMigration from to \<noteq> Inr True"
  using EnsureUpdateAllowed_ok [OF assms] by (auto simp: ValidateBinding_def elim!: FromManifest_Some dest: no_binding_role)

text \<open>C35: a plan built from a validated manifest passes the validation of plans, except on Linux, which
  manifests and \<open>Build\<close> admit and the validation does not.\<close>

theorem Build_validates:
  assumes "validate_manifest tx m = Inr ()" "Build sha current m os arch source = Inr p"
  shows "Validate sha p = Inr () \<longleftrightarrow> os \<noteq> ''linux''"
proof -
  from assms(2) obtain cv nv role cliName bundleName where b:
    "sb_Provider source = ''github''" "sb_ProviderReleaseID source > 0" "length (sb_ManifestSHA256 source) = 64" "\<not> not_hex (sb_ManifestSHA256 source)"
    "split_version (in_Release current) = Inr cv" "split_version (mf_Release m) = Inr nv" "cv < nv"
    "\<exists>v. split_version (in_CLIVersion current) = Inr v" "\<exists>v. split_version (in_BundleVersion current) = Inr v"
    "is_channel (in_Channel current)" "in_TargetOS current = os" "in_TargetArch current = arch"
    "EnsureUpdateAllowed (in_Release current) (mf_Release m) m = Inr role"
    "select_artifacts os arch ([], []) (mf_Artifacts m) = Inr (cliName, bundleName)" "cliName \<noteq> []" "bundleName \<noteq> []"
    "p = (new_plan current m os arch source role cliName bundleName)
      \<lparr>pl_ID := computePlanID sha (new_plan current m os arch source role cliName bundleName)\<rparr>"
    by (rule Build_ok)
  note m = validate_manifest_ok [OF assms(1)]
  from select_artifacts_ok [OF b(14)] b(15) obtain a where a: "a \<in> set (mf_Artifacts m)" "af_Kind a = ''cli''" "af_OS a = os" "af_Arch a = arch"
    by auto
  from m(4) [OF a(1)] a(2-) have target: "os \<in> {''windows'', ''darwin'', ''linux''}" "arch \<in> {''amd64'', ''arm64''}"
    by (auto simp: validateArtifactPlatform_def)
  have contract: "plan_contract p \<longleftrightarrow> os \<noteq> ''linux''"
    using b(1-4,10,15,16) m(1) target by (auto simp: plan_contract_def b(17) new_plan_def)
  obtain required where required: "RequiresMigration (in_Release current) (mf_Release m) = Inr required"
    using b(5,6) by (simp add: RequiresMigration_def)
  have role: "plan_role_error p = Inr ()" "required \<longrightarrow> pl_RoleMigrationID p = role_migration_id"
    using role_fields [OF b(13)] required
    by (auto simp: plan_role_error_def b(17) new_plan_def no_binding_def role_migration_id_def dest: hashPattern_hex)
  have newer: "\<not> compareVersion nv cv \<le> 0" using b(5-7) split_version_length by (simp add: compareVersion_signs not_le)
  have "pl_FromRelease p = in_Release current" "pl_ToRelease p = mf_Release m" "pl_FromCLIVersion p = in_CLIVersion current"
      "pl_FromBundleVersion p = in_BundleVersion current" "pl_CLIVersion p = cl_Version (mf_CLI m)" "pl_BundleVersion p = bc_Version (mf_Bundle m)"
      "pl_ID p = computePlanID sha p"
    by (simp_all add: b(17)) (simp_all add: new_plan_def)
  with contract b(5,6,8,9) m(2,3) newer role required show ?thesis by (auto simp: Validate_def)
qed

lemma find_filter: "find P xs = (case filter P xs of [] \<Rightarrow> None | x # _ \<Rightarrow> Some x)"
  by (induction xs) auto

text \<open>C34: a plan that crosses the expiry of the old role carries the one pinned migration of the manifest,
  and the bundle it names is the bundle with the pinned digest.\<close>

theorem crossing_is_pinned:
  assumes "validate_manifest tx m = Inr ()" "Build sha current m os arch source = Inr p"
    "RequiresMigration (in_Release current) (mf_Release m) = Inr True"
  shows "\<exists>g a. filter (\<lambda>g. mg_ID g = role_migration_id) (migrations m) = [g] \<and> ValidateBinding (migration_binding g) = Inr ()
    \<and> pl_RoleMigrationID p = role_migration_id \<and> pl_CatalogSHA256 p = mg_CatalogSHA256 g \<and> pl_PolicySHA256 p = mg_PolicySHA256 g
    \<and> filter (\<lambda>a. af_Kind a = ''bundle'') (mf_Artifacts m) = [a] \<and> pl_BundleArtifact p = af_Name a \<and> af_SHA256 a = mg_BundleSHA256 g"
proof -
  from assms(2) obtain cv nv role cliName bundleName where b:
    "EnsureUpdateAllowed (in_Release current) (mf_Release m) m = Inr role"
    "select_artifacts os arch ([], []) (mf_Artifacts m) = Inr (cliName, bundleName)" "bundleName \<noteq> []"
    and p: "p = (new_plan current m os arch source role cliName bundleName)
      \<lparr>pl_ID := computePlanID sha (new_plan current m os arch source role cliName bundleName)\<rparr>"
    by (rule Build_ok)
  from EnsureUpdateAllowed_ok(2) [OF b(1) assms(3)] obtain g where g:
    "filter (\<lambda>g. mg_ID g = role_migration_id) (migrations m) = [g]" "role = migration_binding g"
    "ValidateBinding role = Inr ()" "bundle_digest m = mg_BundleSHA256 g"
    by (rule FromManifest_Some)
  have id: "mg_ID g = role_migration_id" using g(2,3) by (simp add: ValidateBinding_def migration_binding_def)
  from validate_manifest_ok(5) [OF assms(1)] obtain a where a: "filter (\<lambda>a. af_Kind a = ''bundle'') (mf_Artifacts m) = [a]"
    by (auto simp: length_Suc_conv)
  have sha: "af_SHA256 a = mg_BundleSHA256 g" using g(4) a by (simp add: bundle_digest_def find_filter)
  obtain a' where "a' \<in> set (filter (\<lambda>a. af_Kind a = ''bundle'') (mf_Artifacts m))" "af_Name a' = bundleName"
    using select_artifacts_ok [OF b(2)] b(3) by auto
  with a have "bundleName = af_Name a" by simp
  moreover have "pl_RoleMigrationID p = rb_ID role" "pl_CatalogSHA256 p = rb_CatalogSHA256 role" "pl_PolicySHA256 p = rb_PolicySHA256 role"
      "pl_BundleArtifact p = bundleName"
    by (simp_all add: p) (simp_all add: new_plan_def)
  ultimately show ?thesis using g a sha id by (simp add: migration_binding_def)
qed

section \<open>The choice of a release\<close>

text \<open>The version of a tag, empty when it has none.\<close>

definition release_value :: "ProviderRelease \<Rightarrow> version" where
  "release_value r = (case split_version (tag_version r) of Inl _ \<Rightarrow> [] | Inr v \<Rightarrow> v)"

lemma CompareVersions_Inr:
  "CompareVersions s t = Inr k \<longleftrightarrow> (\<exists>v w. split_version s = Inr v \<and> split_version t = Inr w \<and> k = compareVersion v w)"
  by (auto simp: CompareVersions_def bind_r_Inr)

lemma CompareVersions_value:
  assumes "CompareVersions (tag_version r) t = Inr k" "split_version t = Inr w"
  shows "split_version (tag_version r) = Inr (release_value r)" "k \<le> 0 \<longleftrightarrow> release_value r \<le> w"
  using assms compareVersion_signs(1) split_version_length by (auto simp: CompareVersions_Inr release_value_def)

definition newer_release :: "version \<Rightarrow> ProviderRelease \<Rightarrow> bool" where
  "newer_release cv b \<longleftrightarrow> split_version (tag_version b) = Inr (release_value b) \<and> cv < release_value b \<and> 0 < pr_ID b"

text \<open>The result of the loop from a release selected before: nothing in the list is newer than it.\<close>

definition best_of :: "version \<Rightarrow> ProviderRelease option \<Rightarrow> ProviderRelease list \<Rightarrow> ProviderRelease option \<Rightarrow> bool" where
  "best_of cv selected rs res \<longleftrightarrow>
     (\<forall>b. res = Some b \<longrightarrow> newer_release cv b \<and> (selected = Some b \<or> b \<in> set rs \<and> is_candidate b))
     \<and> (\<forall>b. selected = Some b \<longrightarrow> (\<exists>b'. res = Some b' \<and> release_value b \<le> release_value b'))
     \<and> (\<forall>r \<in> set rs. is_candidate r \<longrightarrow> split_version (tag_version r) = Inr (release_value r)
          \<and> (release_value r \<le> cv \<or> (\<exists>b. res = Some b \<and> release_value r \<le> release_value b)))"

lemma best_of_skip: "\<not> is_candidate r \<Longrightarrow> best_of cv selected rs res \<Longrightarrow> best_of cv selected (r # rs) res"
  by (auto simp: best_of_def)

lemma best_of_keep:
  assumes "best_of cv selected rs res" "split_version (tag_version r) = Inr (release_value r)"
    "release_value r \<le> cv \<or> (\<exists>b. selected = Some b \<and> release_value r \<le> release_value b)"
  shows "best_of cv selected (r # rs) res"
  using assms unfolding best_of_def by (fastforce intro: order_trans)

lemma best_of_take:
  assumes "best_of cv (Some r) rs res" "is_candidate r" "split_version (tag_version r) = Inr (release_value r)"
    "\<And>b. selected = Some b \<Longrightarrow> release_value b \<le> release_value r"
  shows "best_of cv selected (r # rs) res"
  using assms unfolding best_of_def by (fastforce intro: order_trans)

lemma select_loop_best:
  assumes "select_loop current seen selected rs = Inr res" "split_version current = Inr cv"
    "\<And>b. selected = Some b \<Longrightarrow> newer_release cv b"
  shows "best_of cv selected rs res"
  using assms
proof (induction rs arbitrary: seen selected)
  case Nil
  then show ?case by (auto simp: best_of_def)
next
  case (Cons r rs)
  show ?case
  proof (cases "is_candidate r")
    case False
    with Cons.prems Cons.IH [of seen selected] show ?thesis by (simp add: best_of_skip)
  next
    case True
    from Cons.prems(1) True obtain k where k: "CompareVersions (tag_version r) current = Inr k" "0 < pr_ID r"
      by (auto simp: Let_def split: sum.splits if_splits)
    note v = CompareVersions_value [OF k(1) Cons.prems(2)]
    show ?thesis
    proof (cases "k \<le> 0")
      case True
      with Cons.prems(1) \<open>is_candidate r\<close> k have "select_loop current (tag_version r # seen) selected rs = Inr res"
        by (auto simp: Let_def split: if_splits)
      with Cons.IH Cons.prems(2,3) v True show ?thesis by (blast intro: best_of_keep)
    next
      case False
      then have new: "newer_release cv r" using v k(2) by (simp add: newer_release_def)
      show ?thesis
      proof (cases selected)
        case None
        with Cons.prems(1) \<open>is_candidate r\<close> k False have "select_loop current (tag_version r # seen) (Some r) rs = Inr res"
          by (auto simp: Let_def split: if_splits)
        with Cons.IH Cons.prems(2) new have "best_of cv (Some r) rs res" by blast
        then show ?thesis using \<open>is_candidate r\<close> v(1) None by (auto intro: best_of_take)
      next
        case (Some best)
        with Cons.prems(1) \<open>is_candidate r\<close> k False obtain n where n: "CompareVersions (tag_version r) (tag_version best) = Inr n"
          and loop: "select_loop current (tag_version r # seen) (if n > 0 then Some r else Some best) rs = Inr res"
          by (auto simp: Let_def split: sum.splits if_splits)
        have "newer_release cv best" using Cons.prems(3) Some by simp
        then have leq: "n \<le> 0 \<longleftrightarrow> release_value r \<le> release_value best"
          using CompareVersions_value(2) [OF n] by (simp add: newer_release_def)
        with loop Cons.IH Cons.prems(2) new \<open>newer_release cv best\<close>
        have "best_of cv (if n > 0 then Some r else Some best) rs res" by (metis option.sel)
        with leq Some v(1) \<open>is_candidate r\<close> show ?thesis
          by (cases "n > 0") (auto intro: best_of_keep best_of_take)
      qed
    qed
  qed
qed

lemma selected_is_best:
  assumes "selectLatestRelease rs current = Inr r"
  obtains cv where "split_version current = Inr cv" "newer_release cv r" "r \<in> set rs" "is_candidate r"
    "\<And>c. c \<in> set rs \<Longrightarrow> is_candidate c \<Longrightarrow>
        split_version (tag_version c) = Inr (release_value c) \<and> release_value c \<le> release_value r"
proof -
  from assms obtain k where "CompareVersions current current = Inr k" and loop: "select_loop current [] None rs = Inr (Some r)"
    by (auto simp: selectLatestRelease_def bind_r_Inr split: sum.splits go_error.splits option.splits)
  then obtain cv where cv: "split_version current = Inr cv" by (auto simp: CompareVersions_Inr)
  have "best_of cv None rs (Some r)" using select_loop_best [OF loop cv] by simp
  then have "newer_release cv r" "r \<in> set rs" "is_candidate r"
    "\<And>c. c \<in> set rs \<Longrightarrow> is_candidate c \<Longrightarrow>
        split_version (tag_version c) = Inr (release_value c) \<and> release_value c \<le> release_value r"
    by (auto simp: best_of_def newer_release_def)
  with cv show ?thesis using that by blast
qed

section \<open>A check\<close>

lemma tag_of_release: "pr_TagName r = tag_prefix @ s \<Longrightarrow> tag_version r = s"
  by (simp add: tag_version_def trim_prefix_def has_prefix_def)

lemma verified_plan_ok:
  assumes "verified_plan env current os arch destination r v = Inr p"
  shows "path_clean (ve_Directory v) = path_clean destination" "pr_TagName r = tag_prefix @ mf_Release (ve_Manifest v)"
    "Build (ck_SHA256 env) current (ve_Manifest v) os arch
       \<lparr>sb_Provider = ''github'', sb_ProviderReleaseID = pr_ID r, sb_ManifestSHA256 = ve_ManifestSHA256 v\<rparr> = Inr p"
  using assms by (auto simp: verified_plan_def bind_r_Inr checks_Inr)

text \<open>C33: an offered update is a release of the provider that is newer than the installed one and at
  least as new as every other candidate, its plan binds the identity and the manifest digest of this
  release, and its download stays in the directory of the release.\<close>

theorem checked_update_is_latest:
  assumes "Check env current os arch stagingRoot = (Inr (p, v), kept)"
  shows "\<exists>rs r w cv. ck_Releases env = Inr rs \<and> r \<in> set rs \<and> is_candidate r \<and> pr_TagName r = tag_prefix @ pl_ToRelease p
    \<and> split_version (in_Release current) = Inr cv \<and> split_version (pl_ToRelease p) = Inr w \<and> cv < w
    \<and> (\<forall>c. c \<in> set rs \<and> is_candidate c \<longrightarrow> (\<exists>u. split_version (tag_version c) = Inr u \<and> u \<le> w))
    \<and> ck_Download env r (check_destination stagingRoot r) = Inr v \<and> kept = Some (check_destination stagingRoot r)
    \<and> pl_ToRelease p = mf_Release (ve_Manifest v) \<and> pl_ProviderReleaseID p = pr_ID r \<and> pl_ManifestSHA256 p = ve_ManifestSHA256 v"
proof -
  from assms obtain rs r where rs: "ck_Releases env = Inr rs" "selectLatestRelease rs (in_Release current) = Inr r"
    and v: "ck_Download env r (check_destination stagingRoot r) = Inr v" "kept = Some (check_destination stagingRoot r)"
    and p: "verified_plan env current os arch (check_destination stagingRoot r) r v = Inr p"
    by (auto simp: Check_def Let_def lift_check_def bind_r_Inr split: if_splits sum.splits option.splits go_error.splits)
  note plan = verified_plan_ok [OF p]
  have fields: "pl_ToRelease p = mf_Release (ve_Manifest v)" "pl_ProviderReleaseID p = pr_ID r" "pl_ManifestSHA256 p = ve_ManifestSHA256 v"
    using plan(3) by (auto elim!: Build_ok simp: new_plan_def)
  obtain cv where best: "split_version (in_Release current) = Inr cv" "newer_release cv r" "r \<in> set rs" "is_candidate r"
    "\<And>c. c \<in> set rs \<Longrightarrow> is_candidate c \<Longrightarrow>
        split_version (tag_version c) = Inr (release_value c) \<and> release_value c \<le> release_value r"
    using selected_is_best [OF rs(2)] by blast
  have "split_version (pl_ToRelease p) = Inr (release_value r)" "cv < release_value r"
    using best(2) tag_of_release [OF plan(2)] fields(1) by (simp_all add: newer_release_def)
  with rs v best fields plan(2) show ?thesis by metis
qed

end
