(* ===== verification/UpdateDemo.thy ===== *)
theory UpdateDemo
  imports UpdateProps
begin

text \<open>
  The properties of the updates at a release 0.2.0 with a CLI for one target, a bundle and the
  migration of the role, and an installed release 0.1.0.
\<close>

definition demo_tx :: text_lib where
  "demo_tx = \<lparr>tl_Lower = \<lambda>s. s, tl_Bracket = \<lambda>_. False\<rparr>"

definition demo_hash :: "char \<Rightarrow> string" where
  "demo_hash c = replicate 64 c"

definition demo_artifact :: "string \<Rightarrow> string \<Rightarrow> string \<Rightarrow> string \<Rightarrow> char \<Rightarrow> Artifact" where
  "demo_artifact kind os arch name c = \<lparr>af_Kind = kind, af_OS = os, af_Arch = arch, af_Name = name, af_Size = 100,
     af_SHA256 = demo_hash c, af_SignatureRef = name @ ''.sig''\<rparr>"

definition demo_migration :: Migration where
  "demo_migration = \<lparr>mg_ID = role_migration_id, mg_Component = ''bundle'', mg_From = ''>=0.1.0 <0.2.0'', mg_To = ''0.2.0'',
     mg_Required = True, mg_FromRole = ''practice_agent'', mg_ToRole = ''pa_expert'', mg_AliasExpiresAfter = ''0.2.0'',
     mg_BundleSHA256 = demo_hash (CHR ''b''), mg_CatalogSHA256 = demo_hash (CHR ''c''), mg_PolicySHA256 = demo_hash (CHR ''d'')\<rparr>"

definition demo_manifest :: Manifest where
  "demo_manifest = \<lparr>mf_SchemaVersion = 1, mf_Product = ''maestro'', mf_Release = ''0.2.0'', mf_Channel = ''stable'',
     mf_Issuer = \<lparr>is_ID = ''bcg'', is_KeyID = ''key-1''\<rparr>,
     mf_CLI = \<lparr>cl_Version = ''0.2.0'', cl_CompatibleBundle = ''>=0.1.0 <0.3.0''\<rparr>,
     mf_Bundle = \<lparr>bc_Version = ''0.2.0'', bc_CompatibleCLI = ''>=0.1.0 <0.3.0''\<rparr>,
     mf_Artifacts = [demo_artifact ''cli'' ''darwin'' ''arm64'' ''maestro-0.2.0-darwin'' (CHR ''a''),
       demo_artifact ''bundle'' ''any'' ''any'' ''bundle-0.2.0'' (CHR ''b'')],
     mf_Migrations = Some [demo_migration],
     mf_ReleaseNotes = \<lparr>rn_Name = ''notes-0.2.0.md'', rn_SHA256 = demo_hash (CHR ''e'')\<rparr>\<rparr>"

definition demo_installed :: InstalledState where
  "demo_installed = \<lparr>in_Release = ''0.1.0'', in_Channel = ''stable'', in_CLIVersion = ''0.1.0'', in_BundleVersion = ''0.1.0'',
     in_TargetOS = ''darwin'', in_TargetArch = ''arm64''\<rparr>"

definition demo_source :: SourceBinding where
  "demo_source = \<lparr>sb_Provider = ''github'', sb_ProviderReleaseID = 7, sb_ManifestSHA256 = demo_hash (CHR ''f'')\<rparr>"

definition demo_plan_sha :: "string \<Rightarrow> string" where
  "demo_plan_sha s = replicate 32 (CHR 0x00)"

definition demo_built :: "go_error + Plan" where
  "demo_built = Build demo_plan_sha demo_installed demo_manifest ''darwin'' ''arm64'' demo_source"

lemma demo_manifest_valid: "validate_manifest demo_tx demo_manifest = Inr ()"
  by code_simp

lemma demo_build: "demo_built = Inr (projr demo_built)"
  by code_simp

theorem versions_canonical_witness:
  "parseVersion ''0.1.0'' = Inr [0, 1, 0] \<and> parseVersion ''0.2.0'' = Inr [0, 2, 0] \<and> CompareVersions ''0.1.0'' ''0.2.0'' = Inr (- 1)"
proof -
  have "parseVersion ''0.1.0'' = Inr [0, 1, 0]" "parseVersion ''0.2.0'' = Inr [0, 2, 0]" "([0, 1, 0] :: version) < [0, 2, 0]"
    by code_simp+
  then show ?thesis using versions_canonical [of "''0.1.0''" "[0, 1, 0]" "''0.2.0''" "[0, 2, 0]"] by simp
qed

theorem Build_validates_witness: "Validate demo_plan_sha (projr demo_built) = Inr ()"
  using Build_validates [OF demo_manifest_valid demo_build [unfolded demo_built_def]] by (simp add: demo_built_def)

theorem crossing_is_pinned_witness:
  "pl_RoleMigrationID (projr demo_built) = role_migration_id \<and> pl_CatalogSHA256 (projr demo_built) = mg_CatalogSHA256 demo_migration"
proof -
  have "RequiresMigration (in_Release demo_installed) (mf_Release demo_manifest) = Inr True"
    and only: "filter (\<lambda>g. mg_ID g = role_migration_id) (migrations demo_manifest) = [demo_migration]"
    by code_simp+
  from crossing_is_pinned [OF demo_manifest_valid demo_build [unfolded demo_built_def] this(1)] only
  show ?thesis by (auto simp: demo_built_def)
qed

text \<open>A check that finds the installed release, a draft, an older and the new one.\<close>

definition demo_release :: "int \<Rightarrow> string \<Rightarrow> bool \<Rightarrow> ProviderRelease" where
  "demo_release n tag draft = \<lparr>pr_ID = n, pr_TagName = tag, pr_Draft = draft\<rparr>"

definition demo_verified :: "string \<Rightarrow> VerifiedRelease" where
  "demo_verified dir = \<lparr>ve_Directory = dir, ve_Manifest = demo_manifest, ve_ManifestSHA256 = demo_hash (CHR ''f'')\<rparr>"

definition demo_check_env :: check_env where
  "demo_check_env = \<lparr>ck_Releases = Inr [demo_release 5 ''maestro-v0.1.0'' False, demo_release 7 ''maestro-v0.2.0'' False,
       demo_release 9 ''maestro-v0.3.0'' True, demo_release 6 ''maestro-v0.1.1'' False],
     ck_Download = \<lambda>r dir. Inr (demo_verified dir), ck_RemoveAll = None, ck_SHA256 = demo_plan_sha\<rparr>"

lemma demo_selected:
  "bind_r (lift_check (ck_Releases demo_check_env)) (\<lambda>releases. selectLatestRelease releases (in_Release demo_installed))
     = Inr (demo_release 7 ''maestro-v0.2.0'' False)"
  "check_destination ''/data/updates'' (demo_release 7 ''maestro-v0.2.0'' False) = ''/data/updates/github-release-7''"
  by code_simp+

lemma demo_verified_plan:
  "verified_plan demo_check_env demo_installed ''darwin'' ''arm64'' dir (demo_release 7 ''maestro-v0.2.0'' False) (demo_verified dir) = demo_built"
proof -
  have "tag_prefix @ mf_Release demo_manifest = ''maestro-v0.2.0''" "length (demo_hash (CHR ''f'')) = 64" "\<not> not_hex (demo_hash (CHR ''f''))"
    by code_simp+
  then show ?thesis
    by (simp add: verified_plan_def demo_check_env_def demo_verified_def demo_release_def demo_built_def demo_source_def checks.simps)
qed

lemma demo_check:
  "Check demo_check_env demo_installed ''darwin'' ''arm64'' ''/data/updates''
     = (Inr (projr demo_built, demo_verified ''/data/updates/github-release-7''), Some ''/data/updates/github-release-7'')"
proof -
  have "ck_Download demo_check_env r dir = Inr (demo_verified dir)" for r dir by (simp add: demo_check_env_def)
  moreover obtain p where p: "demo_built = Inr p" using demo_build by blast
  ultimately show ?thesis by (simp add: Check_def Let_def demo_selected demo_verified_plan [unfolded p]) (simp add: p)
qed

theorem checked_update_is_latest_witness:
  "pl_ToRelease (projr demo_built) = ''0.2.0'' \<and> pl_ManifestSHA256 (projr demo_built) = demo_hash (CHR ''f'')"
  using checked_update_is_latest [OF demo_check] by (auto simp: demo_verified_def demo_manifest_def)

end
