(* ===== verification/Disk.thy ===== *)
theory Disk
  imports Prelude GoPath
begin

text \<open>
  Files on a disk and programs that change them step by step. A disk lists the entries of the file
  system by the components of their paths; a program gives its result and the disks after each of its
  changes in their order, so a process that ends in between leaves one of those disks. A file has its
  bytes and the JSON document that they decode to, if they do. A path that is asked for without the
  directory above it is not told apart here: what the operating system refuses is a parameter of every
  call.
\<close>

section \<open>Disks\<close>

datatype 'd node = NDir | NFile string "'d option" | NLink | NOther

type_synonym 'd disk = "(string list \<times> 'd node) list"

datatype error_kind = IsNotExist | IsExist | IsOther

datatype fs_error = FsError error_kind go_error

definition failure :: "string \<Rightarrow> fs_error" where
  "failure m = FsError IsOther (errors_New m)"

definition not_exist :: fs_error where
  "not_exist = FsError IsNotExist (errors_New ''no such file or directory'')"

definition exist :: fs_error where
  "exist = FsError IsExist (errors_New ''file exists'')"

definition is_not_exist :: "fs_error \<Rightarrow> bool" where
  "is_not_exist e = (case e of FsError k _ \<Rightarrow> k = IsNotExist)"

definition is_exist :: "fs_error \<Rightarrow> bool" where
  "is_exist e = (case e of FsError k _ \<Rightarrow> k = IsExist)"

text \<open>\<open>fmt.Errorf\<close> with \<open>%w\<close> keeps what \<open>errors.Is\<close> answers.\<close>

definition wrapped :: "string \<Rightarrow> fs_error \<Rightarrow> fs_error" where
  "wrapped m e = (case e of FsError k (Errorf f args) \<Rightarrow> FsError k (Errorf m (f # args)))"

definition lift_go :: "go_error + 'a \<Rightarrow> fs_error + 'a" where
  "lift_go r = (case r of Inl e \<Rightarrow> Inl (FsError IsOther e) | Inr x \<Rightarrow> Inr x)"

lemma lift_go_Inr [simp]: "lift_go r = Inr x \<longleftrightarrow> r = Inr x"
  by (simp add: lift_go_def split: sum.splits)

abbreviation node_at :: "'d disk \<Rightarrow> string list \<Rightarrow> 'd node option" where
  "node_at \<equiv> map_of"

definition has_children :: "'d disk \<Rightarrow> string list \<Rightarrow> bool" where
  "has_children d p \<longleftrightarrow> list_ex (\<lambda>(q, n). strict_prefix p q) d"

definition clear_under :: "string list \<Rightarrow> 'd disk \<Rightarrow> 'd disk" where
  "clear_under p d = filter (\<lambda>(q, n). \<not> prefix p q) d"

definition move_under :: "string list \<Rightarrow> string list \<Rightarrow> 'd disk \<Rightarrow> 'd disk" where
  "move_under a b d = map (\<lambda>(k, n). (if prefix a k then b @ drop (length a) k else k, n)) (clear_under b d)"

lemma node_clear: "node_at (clear_under p d) q = (if prefix p q then None else node_at d q)"
  by (induction d) (auto simp: clear_under_def)

lemma node_move:
  assumes "\<not> prefix a b" "\<not> prefix b a"
  shows "node_at (move_under a b d) r =
    (if prefix b r then node_at d (a @ drop (length b) r) else if prefix a r then None else node_at d r)"
proof (induction d)
  case Nil
  then show ?case by (simp add: move_under_def clear_under_def)
next
  case (Cons kn d)
  obtain k n where kn: "kn = (k, n)" by force
  show ?case
  proof (cases "prefix b k")
    case True
    with assms have "\<not> prefix a k" by (meson prefix_same_cases)
    then have "k \<noteq> a @ drop (length b) r" by auto
    with True Cons kn show ?thesis by (auto simp: move_under_def clear_under_def)
  next
    case False
    have "(if prefix a k then b @ drop (length a) k else k) = r \<longleftrightarrow>
        (if prefix b r then k = a @ drop (length b) r else \<not> prefix a r \<and> k = r)"
      using False by (auto simp: prefix_def)
    with False Cons kn show ?thesis by (auto simp: move_under_def clear_under_def)
  qed
qed

lemma node_update [simp]: "node_at (AList.update q n d) r = (if r = q then Some n else node_at d r)"
  by (simp add: update_conv')

lemma node_delete [simp]: "node_at (AList.delete q d) r = (if r = q then None else node_at d r)"
  by (simp add: delete_conv')

section \<open>Programs\<close>

type_synonym ('d, 'a) prog = "'d disk \<Rightarrow> 'a \<times> 'd disk list"

definition final :: "'d disk \<Rightarrow> 'd disk list \<Rightarrow> 'd disk" where
  "final d t = last (d # t)"

definition ret :: "'a \<Rightarrow> ('d, 'a) prog" where
  "ret x d = (x, [])"

definition reads :: "('d disk \<Rightarrow> 'a) \<Rightarrow> ('d, 'a) prog" where
  "reads g d = (g d, [])"

definition then_p :: "('d, 'a) prog \<Rightarrow> ('a \<Rightarrow> ('d, 'b) prog) \<Rightarrow> ('d, 'b) prog" where
  "then_p m f d = (case m d of (x, t1) \<Rightarrow> case f x (final d t1) of (y, t2) \<Rightarrow> (y, t1 @ t2))"

text \<open>\<open>if err != nil { return err }\<close> after a call.\<close>

definition then_ok :: "('d, 'e + 'a) prog \<Rightarrow> ('a \<Rightarrow> ('d, 'e + 'b) prog) \<Rightarrow> ('d, 'e + 'b) prog" where
  "then_ok m f = then_p m (\<lambda>r. case r of Inl e \<Rightarrow> ret (Inl e) | Inr x \<Rightarrow> f x)"

text \<open>A deferred call runs when the rest has returned, its own error is dropped.\<close>

definition deferred :: "('d, 'a) prog \<Rightarrow> ('a \<Rightarrow> ('d, 'b) prog) \<Rightarrow> ('d, 'a) prog" where
  "deferred m cleanup = then_p m (\<lambda>r. then_p (cleanup r) (\<lambda>_. ret r))"

definition map_error :: "(fs_error \<Rightarrow> fs_error) \<Rightarrow> ('d, fs_error + 'a) prog \<Rightarrow> ('d, fs_error + 'a) prog" where
  "map_error g m = then_p m (\<lambda>r. ret (case r of Inl e \<Rightarrow> Inl (g e) | Inr x \<Rightarrow> Inr x))"

section \<open>Calls of the operating system\<close>

text \<open>What the operating system refuses, by the call and its path, and what a link leads to.\<close>

record 'd os_env =
  os_Refused :: "string \<Rightarrow> string \<Rightarrow> fs_error option"
  os_Follow :: "string \<Rightarrow> 'd node option"

definition syscall :: "('d, 'z) os_env_scheme \<Rightarrow> string \<Rightarrow> string \<Rightarrow> ('d, fs_error + 'a) prog \<Rightarrow> ('d, fs_error + 'a) prog" where
  "syscall env name p m d = (case os_Refused env name p of Some e \<Rightarrow> (Inl e, []) | None \<Rightarrow> m d)"

definition found :: "'d node option \<Rightarrow> fs_error + 'd node" where
  "found n = (case n of None \<Rightarrow> Inl not_exist | Some n \<Rightarrow> Inr n)"

definition os_Lstat :: "('d, 'z) os_env_scheme \<Rightarrow> string \<Rightarrow> ('d, fs_error + 'd node) prog" where
  "os_Lstat env p = syscall env ''lstat'' p (reads (\<lambda>d. found (node_at d (path_parts p))))"

definition resolve :: "('d, 'z) os_env_scheme \<Rightarrow> string \<Rightarrow> 'd disk \<Rightarrow> 'd node option" where
  "resolve env p d = (if node_at d (path_parts p) = Some NLink then os_Follow env p else node_at d (path_parts p))"

definition os_Stat :: "('d, 'z) os_env_scheme \<Rightarrow> string \<Rightarrow> ('d, fs_error + 'd node) prog" where
  "os_Stat env p = syscall env ''stat'' p (reads (\<lambda>d. found (resolve env p d)))"

definition os_ReadFile :: "('d, 'z) os_env_scheme \<Rightarrow> string \<Rightarrow> ('d, fs_error + string \<times> 'd option) prog" where
  "os_ReadFile env p = syscall env ''read'' p (reads (\<lambda>d. bind_r (found (resolve env p d)) (\<lambda>n.
     case n of NFile bytes doc \<Rightarrow> Inr (bytes, doc) | _ \<Rightarrow> Inl (failure ''is a directory''))))"

fun make_dirs :: "string list \<Rightarrow> string list \<Rightarrow> ('d, fs_error + unit) prog" where
  "make_dirs pre [] d = (Inr (), [])"
| "make_dirs pre (c # cs) d =
     (case node_at d (pre @ [c]) of
        None \<Rightarrow>
          (let e = AList.update (pre @ [c]) NDir d
           in case make_dirs (pre @ [c]) cs e of (r, t) \<Rightarrow> (r, e # t))
      | Some (NFile _ _) \<Rightarrow> (Inl (failure ''not a directory''), [])
      | Some NOther \<Rightarrow> (Inl (failure ''not a directory''), [])
      | Some _ \<Rightarrow> make_dirs (pre @ [c]) cs d)"

definition os_MkdirAll :: "('d, 'z) os_env_scheme \<Rightarrow> string \<Rightarrow> ('d, fs_error + unit) prog" where
  "os_MkdirAll env p = syscall env ''mkdir'' p (make_dirs [] (path_parts p))"

text \<open>One entry after the other is removed; no error when there is nothing.\<close>

fun removals :: "string list list \<Rightarrow> 'd disk \<Rightarrow> 'd disk list" where
  "removals [] d = []"
| "removals (q # qs) d = (let e = AList.delete q d in e # removals qs e)"

definition os_RemoveAll :: "('d, 'z) os_env_scheme \<Rightarrow> string \<Rightarrow> ('d, fs_error + unit) prog" where
  "os_RemoveAll env p = syscall env ''removeall'' p
     (\<lambda>d. (Inr (), removals (filter (prefix (path_parts p)) (map fst d)) d))"

definition os_Remove :: "('d, 'z) os_env_scheme \<Rightarrow> string \<Rightarrow> ('d, fs_error + unit) prog" where
  "os_Remove env p = syscall env ''remove'' p (\<lambda>d.
     case node_at d (path_parts p) of
       None \<Rightarrow> (Inl not_exist, [])
     | Some n \<Rightarrow>
         if n = NDir \<and> has_children d (path_parts p) then (Inl (failure ''directory not empty''), [])
         else (Inr (), [AList.delete (path_parts p) d]))"

definition rename_error :: "'d disk \<Rightarrow> string list \<Rightarrow> string list \<Rightarrow> fs_error option" where
  "rename_error d a b =
     (case node_at d a of
        None \<Rightarrow> Some not_exist
      | Some n \<Rightarrow>
          if strict_prefix a b then Some (failure ''invalid argument'')
          else (case node_at d b of
             None \<Rightarrow> None
           | Some NDir \<Rightarrow>
               if n \<noteq> NDir then Some exist
               else if a \<noteq> b \<and> has_children d b then Some (failure ''directory not empty'') else None
           | Some _ \<Rightarrow> if n = NDir then Some (failure ''not a directory'') else None))"

definition os_Rename :: "('d, 'z) os_env_scheme \<Rightarrow> string \<Rightarrow> string \<Rightarrow> ('d, fs_error + unit) prog" where
  "os_Rename env p q = syscall env ''rename'' p (\<lambda>d.
     case rename_error d (path_parts p) (path_parts q) of
       Some e \<Rightarrow> (Inl e, [])
     | None \<Rightarrow> (Inr (), if path_parts p = path_parts q then [] else [move_under (path_parts p) (path_parts q) d]))"

text \<open>\<open>os.OpenFile\<close> with \<open>O_CREATE|O_EXCL\<close>, and writing the bytes of an open file.\<close>

definition os_Create :: "('d, 'z) os_env_scheme \<Rightarrow> string \<Rightarrow> ('d, fs_error + unit) prog" where
  "os_Create env p = syscall env ''open'' p (\<lambda>d.
     if node_at d (path_parts p) \<noteq> None then (Inl exist, [])
     else (Inr (), [AList.update (path_parts p) (NFile [] None) d]))"

definition os_Write :: "('d, 'z) os_env_scheme \<Rightarrow> string \<Rightarrow> string \<Rightarrow> ('d, fs_error + unit) prog" where
  "os_Write env p bytes = syscall env ''write'' p (\<lambda>d.
     (Inr (), [AList.update (path_parts p) (NFile bytes None) d]))"

text \<open>
  Writing a temporary file and renaming it: the target has the old or the new bytes. The temporary
  file itself, under a random name beside the target, is not kept on the disk.
\<close>

definition os_Replace :: "('d, 'z) os_env_scheme \<Rightarrow> string \<Rightarrow> string \<Rightarrow> 'd \<Rightarrow> ('d, fs_error + unit) prog" where
  "os_Replace env p bytes doc = syscall env ''replace'' p (\<lambda>d.
     if node_at d (path_parts p) = Some NDir then (Inl exist, [])
     else (Inr (), [AList.update (path_parts p) (NFile bytes (Some doc)) d]))"

section \<open>What holds after every step\<close>

definition holds :: "('d disk \<Rightarrow> bool) \<Rightarrow> ('d, 'a) prog \<Rightarrow> ('a \<Rightarrow> 'd disk \<Rightarrow> bool) \<Rightarrow> 'd disk \<Rightarrow> bool" where
  "holds I m Q d \<longleftrightarrow> (\<forall>e \<in> set (snd (m d)). I e) \<and> Q (fst (m d)) (final d (snd (m d)))"

lemma final_simps [simp]: "final d [] = d" "final d (e # t) = final e t" "final d (s @ t) = final (final d s) t"
  by (simp_all add: final_def)

lemma holds_ret: "Q x d \<Longrightarrow> holds I (ret x) Q d"
  by (simp add: holds_def ret_def)

lemma holds_reads: "Q (g d) d \<Longrightarrow> holds I (reads g) Q d"
  by (simp add: holds_def reads_def)

lemma holds_then:
  assumes "holds I m R d" "\<And>x e. R x e \<Longrightarrow> holds I (f x) Q e"
  shows "holds I (then_p m f) Q d"
  using assms by (fastforce simp: holds_def then_p_def split: prod.splits)

lemma holds_then_ok:
  assumes "holds I m R d" "\<And>er e. R (Inl er) e \<Longrightarrow> Q (Inl er) e" "\<And>x e. R (Inr x) e \<Longrightarrow> holds I (f x) Q e"
  shows "holds I (then_ok m f) Q d"
  unfolding then_ok_def by (rule holds_then [OF assms(1)]) (use assms(2,3) in \<open>auto split: sum.splits intro: holds_ret\<close>)

lemma holds_deferred:
  assumes "holds I m R d" "\<And>r e. R r e \<Longrightarrow> holds I (cleanup r) (\<lambda>_. Q r) e"
  shows "holds I (deferred m cleanup) Q d"
  unfolding deferred_def
proof (rule holds_then [OF assms(1)])
  fix r e
  assume "R r e"
  then show "holds I (then_p (cleanup r) (\<lambda>_. ret r)) Q e" by (rule holds_then [OF assms(2)]) (rule holds_ret)
qed

lemma holds_map_error:
  assumes "holds I m R d" "\<And>er e. R (Inl er) e \<Longrightarrow> Q (Inl (g er)) e" "\<And>x e. R (Inr x) e \<Longrightarrow> Q (Inr x) e"
  shows "holds I (map_error g m) Q d"
  unfolding map_error_def by (rule holds_then [OF assms(1)]) (use assms(2,3) in \<open>auto split: sum.splits intro!: holds_ret\<close>)

lemma holds_mono:
  assumes "holds I m R d" "\<And>e. I e \<Longrightarrow> J e" "\<And>x e. R x e \<Longrightarrow> Q x e"
  shows "holds J m Q d"
  using assms unfolding holds_def by blast

lemma holds_conj: "holds I m Q d \<Longrightarrow> holds J m R d \<Longrightarrow> holds (\<lambda>e. I e \<and> J e) m (\<lambda>x e. Q x e \<and> R x e) d"
  by (auto simp: holds_def)

section \<open>Footprints\<close>

text \<open>The disks of a program differ from the first one only where \<open>F\<close> says so.\<close>

definition agree :: "(string list \<Rightarrow> bool) \<Rightarrow> 'd disk \<Rightarrow> 'd disk \<Rightarrow> bool" where
  "agree F d e \<longleftrightarrow> (\<forall>q. \<not> F q \<longrightarrow> node_at e q = node_at d q)"

definition touches :: "(string list \<Rightarrow> bool) \<Rightarrow> ('d, 'a) prog \<Rightarrow> bool" where
  "touches F m \<longleftrightarrow> (\<forall>d. \<forall>e \<in> set (snd (m d)). agree F d e)"

lemma agree_refl [simp]: "agree F d d"
  by (simp add: agree_def)

lemma agree_trans: "agree F d e \<Longrightarrow> agree F e f \<Longrightarrow> agree F d f"
  by (simp add: agree_def)

lemma agree_node: "agree F d e \<Longrightarrow> \<not> F q \<Longrightarrow> node_at e q = node_at d q"
  by (simp add: agree_def)

lemma agree_mono: "agree F d e \<Longrightarrow> (\<And>q. F q \<Longrightarrow> G q) \<Longrightarrow> agree G d e"
  by (auto simp: agree_def)

lemma touches_final: "touches F m \<Longrightarrow> agree F d (final d (snd (m d)))"
  by (cases "snd (m d) = []") (auto simp: touches_def final_def)

lemma touches_mono: "touches F m \<Longrightarrow> (\<And>q. F q \<Longrightarrow> G q) \<Longrightarrow> touches G m"
  unfolding touches_def by (blast intro: agree_mono)

named_theorems footprint \<open>what programs touch\<close>

lemma touches_ret [footprint, simp]: "touches F (ret x)"
  by (simp add: touches_def ret_def)

lemma touches_reads [footprint, simp]: "touches F (reads g)"
  by (simp add: touches_def reads_def)

lemma touches_then [footprint]:
  assumes "touches F m" "\<And>x. touches F (f x)"
  shows "touches F (then_p m f)"
proof -
  have "agree F d e" if "e \<in> set (snd (then_p m f d))" for d e
  proof -
    obtain x t where m: "m d = (x, t)" by (cases "m d")
    obtain y u where f: "f x (final d t) = (y, u)" by (cases "f x (final d t)")
    have "agree F d (final d t)" using touches_final [OF assms(1), of d] m by simp
    moreover have "e \<in> set t \<or> e \<in> set u" using that m f by (simp add: then_p_def)
    moreover have "\<forall>e \<in> set t. agree F d e" using assms(1) m unfolding touches_def by (metis snd_conv)
    moreover have "\<forall>e \<in> set u. agree F (final d t) e" using assms(2) [of x] f unfolding touches_def by (metis snd_conv)
    ultimately show ?thesis using agree_trans by blast
  qed
  then show ?thesis by (simp add: touches_def)
qed

lemma touches_then_ok [footprint]: "touches F m \<Longrightarrow> (\<And>x. touches F (f x)) \<Longrightarrow> touches F (then_ok m f)"
  unfolding then_ok_def by (rule touches_then) (auto split: sum.splits)

lemma touches_deferred [footprint]: "touches F m \<Longrightarrow> (\<And>x. touches F (c x)) \<Longrightarrow> touches F (deferred m c)"
  unfolding deferred_def by (intro touches_then touches_ret)

lemma touches_map_error [footprint]: "touches F m \<Longrightarrow> touches F (map_error g m)"
  unfolding map_error_def by (intro touches_then touches_ret)

lemma touches_syscall [footprint]: "touches F m \<Longrightarrow> touches F (syscall env n p m)"
  by (auto simp: touches_def syscall_def split: option.splits)

lemma touches_Lstat [footprint, simp]: "touches F (os_Lstat env p)"
  unfolding os_Lstat_def by (intro footprint)

lemma touches_Stat [footprint, simp]: "touches F (os_Stat env p)"
  unfolding os_Stat_def by (intro footprint)

lemma touches_ReadFile [footprint, simp]: "touches F (os_ReadFile env p)"
  unfolding os_ReadFile_def by (intro footprint)

text \<open>A program that only reads leaves no disk.\<close>

lemma touches_holds:
  assumes "touches F m" "\<And>e. agree F d e \<Longrightarrow> I e" "\<And>x e. agree F d e \<Longrightarrow> Q x e"
  shows "holds I m Q d"
  using assms touches_final [OF assms(1), of d] by (auto simp: holds_def touches_def)

end
