(* ===== verification/InstallState.thy ===== *)
theory InstallState
  imports Disk UpdatePlan GoTime
begin

text \<open>
  \<open>internal/installtx/transaction.go\<close>, first part: the documents of an installation, the trusted
  roots and the file of the installed state. The host is a record: what the operating system refuses,
  the working directory, SHA-256, the clock, processes, the archive reader, and the JSON text of a
  document. Texts of documents are valid UTF-8; the flag of a receipt says that its time is in UTC.
\<close>

section \<open>Documents\<close>

record PrepareOptions =
  po_Transition :: string
  po_ConfirmationPlanID :: string
  po_FromRelease :: string
  po_FromChannel :: string
  po_FromCLIVersion :: string
  po_FromBundleVersion :: string
  po_TargetOS :: string
  po_TargetArch :: string
  po_ManagedRoot :: string
  po_DataRoot :: string

record ActivationPlan =
  ap_SchemaVersion :: int
  ap_TransactionID :: string
  ap_Transition :: string
  ap_ConfirmationPlanID :: string
  ap_FromRelease :: string
  ap_FromChannel :: string
  ap_FromCLIVersion :: string
  ap_FromBundleVersion :: string
  ap_Release :: string
  ap_Channel :: string
  ap_CLIVersion :: string
  ap_BundleVersion :: string
  ap_TargetOS :: string
  ap_TargetArch :: string
  ap_ManagedRoot :: string
  ap_DataRoot :: string
  ap_ManifestSHA256 :: string
  ap_CLIArtifactName :: string
  ap_CLISHA256 :: string
  ap_CLISize :: int
  ap_BundleArtifactName :: string
  ap_BundleSHA256 :: string
  ap_BundleSize :: int
  ap_RoleMigrationID :: string
  ap_CatalogSHA256 :: string
  ap_PolicySHA256 :: string
  ap_StagedCLI :: string
  ap_StagedBundleArchive :: string
  ap_RuntimePackArtifactName :: string
  ap_RuntimePackSHA256 :: string
  ap_RuntimePackSize :: int
  ap_StagedRuntimePack :: string

record Snapshot =
  sp_Release :: string
  sp_Channel :: string
  sp_CLIVersion :: string
  sp_BundleVersion :: string
  sp_TargetOS :: string
  sp_TargetArch :: string
  sp_RoleAuthority :: string
  sp_MigrationID :: string
  sp_CatalogSHA256 :: string
  sp_PolicySHA256 :: string
  sp_CLIBackup :: string

record InstallState =
  ist_SchemaVersion :: int
  ist_ManagedRoot :: string
  ist_Release :: string
  ist_Channel :: string
  ist_CLIVersion :: string
  ist_BundleVersion :: string
  ist_TargetOS :: string
  ist_TargetArch :: string
  ist_RoleAuthority :: string
  ist_MigrationID :: string
  ist_CatalogSHA256 :: string
  ist_PolicySHA256 :: string
  ist_ActivatedAt :: time
  ist_Previous :: "Snapshot option"

text \<open>The form of the state file: the managed root is missing in version 1.\<close>

record stateWire =
  sw_SchemaVersion :: int
  sw_ManagedRoot :: "string option"
  sw_Release :: string
  sw_Channel :: string
  sw_CLIVersion :: string
  sw_BundleVersion :: string
  sw_TargetOS :: string
  sw_TargetArch :: string
  sw_RoleAuthority :: string
  sw_MigrationID :: string
  sw_CatalogSHA256 :: string
  sw_PolicySHA256 :: string
  sw_ActivatedAt :: time
  sw_Previous :: "Snapshot option"

record ActivationReceipt =
  arc_SchemaVersion :: int
  arc_ConfirmationPlanID :: string
  arc_TransactionID :: string
  arc_Release :: string
  arc_Channel :: string
  arc_CLIVersion :: string
  arc_BundleVersion :: string
  arc_TargetOS :: string
  arc_TargetArch :: string
  arc_ManagedRoot :: string
  arc_DataRoot :: string
  arc_ManifestSHA256 :: string
  arc_CLISHA256 :: string
  arc_CLISize :: int
  arc_BundleSHA256 :: string
  arc_BundleSize :: int
  arc_RoleMigrationID :: string
  arc_CatalogSHA256 :: string
  arc_PolicySHA256 :: string
  arc_SourceCLIBackup :: string
  arc_CommittedAt :: time

datatype tx_doc = PlanDoc ActivationPlan | ReceiptDoc ActivationReceipt bool | StateDoc stateWire

datatype tar_entry = TarDir string int | TarFile string int string | TarOther string int

record tx_env = "tx_doc os_env" +
  te_Cwd :: string
  te_SHA256 :: "string \<Rightarrow> string"
  te_Now :: time
  te_PID :: int
  te_Alive :: "int \<Rightarrow> bool"
  te_Untar :: "string \<Rightarrow> tar_entry list \<times> go_error option"
  te_Run :: "string \<Rightarrow> go_error + string"
  te_Text :: "tx_doc \<Rightarrow> string"
  te_TempName :: string

type_synonym tx_disk = "tx_doc disk"
type_synonym 'a tx = "(tx_doc, fs_error + 'a) prog"

definition versionPattern :: "string \<Rightarrow> bool" where
  "versionPattern s \<longleftrightarrow> exactVersionPattern s \<noteq> None"

definition confirmationPlanIDPattern :: "string \<Rightarrow> bool" where
  "confirmationPlanIDPattern s \<longleftrightarrow> length s = 32 \<and> list_all is_lower_hex s"

definition supportedTarget :: "string \<Rightarrow> string \<Rightarrow> bool" where
  "supportedTarget osName arch \<longleftrightarrow> (osName = ''windows'' \<or> osName = ''darwin'') \<and> (arch = ''amd64'' \<or> arch = ''arm64'')"

definition executableName :: "string \<Rightarrow> string" where
  "executableName osName = (if osName = ''windows'' then ''bcgos.exe'' else ''bcgos'')"

section \<open>Trusted roots\<close>

definition filepath_Abs :: "tx_env \<Rightarrow> string \<Rightarrow> string" where
  "filepath_Abs env p = (if IsAbs p then path_clean p else filepath_Join [te_Cwd env, p])"

definition parts_path :: "string list \<Rightarrow> string" where
  "parts_path cs = CHR ''/'' # join_with ''/'' cs"

text \<open>The walk to the nearest ancestor that exists; the components are listed from the last one.\<close>

fun trusted_ancestor :: "tx_env \<Rightarrow> string list \<Rightarrow> unit tx" where
  "trusted_ancestor env [] = then_p (os_Lstat env (parts_path [])) (\<lambda>r.
     case r of
       Inr NLink \<Rightarrow> ret (Inl (failure ''path ancestor is a symlink or junction''))
     | Inr NDir \<Rightarrow> ret (Inr ())
     | Inr _ \<Rightarrow> ret (Inl (failure ''path ancestor is not a directory''))
     | Inl e \<Rightarrow> ret (Inl (if is_not_exist e then failure ''path has no existing trusted ancestor'' else e)))"
| "trusted_ancestor env (c # cs) = then_p (os_Lstat env (parts_path (rev (c # cs)))) (\<lambda>r.
     case r of
       Inr NLink \<Rightarrow> ret (Inl (failure ''path ancestor is a symlink or junction''))
     | Inr NDir \<Rightarrow> ret (Inr ())
     | Inr _ \<Rightarrow> ret (Inl (failure ''path ancestor is not a directory''))
     | Inl e \<Rightarrow> if is_not_exist e then trusted_ancestor env cs else ret (Inl e))"

definition trusted_root :: "tx_env \<Rightarrow> string \<Rightarrow> unit tx" where
  "trusted_root env root = then_p (os_Lstat env root) (\<lambda>r.
     ret (case r of
       Inr NLink \<Rightarrow> Inl (failure ''trusted root is a symlink or junction'')
     | Inr NDir \<Rightarrow> Inr ()
     | Inr _ \<Rightarrow> Inl (failure ''trusted root is not a directory'')
     | Inl e \<Rightarrow> if is_not_exist e then Inr () else Inl e))"

fun safe_components :: "tx_env \<Rightarrow> string list \<Rightarrow> string list \<Rightarrow> unit tx" where
  "safe_components env current [] = ret (Inr ())"
| "safe_components env current (c # cs) = then_p (os_Lstat env (parts_path (current @ [c]))) (\<lambda>r.
     case r of
       Inl e \<Rightarrow> if is_not_exist e then safe_components env (current @ [c]) cs else ret (Inl e)
     | Inr n \<Rightarrow>
         if n = NLink then ret (Inl (failure ''path component is a symlink or junction''))
         else if cs \<noteq> [] \<and> n \<noteq> NDir then ret (Inl (failure ''path component is not a directory''))
         else safe_components env (current @ [c]) cs)"

definition ensureSafePath :: "tx_env \<Rightarrow> string \<Rightarrow> string \<Rightarrow> unit tx" where
  "ensureSafePath env root candidate =
     (let r = filepath_Abs env root; c = filepath_Abs env candidate
      in if \<not> path_within r c then ret (Inl (failure ''path escapes its trusted root''))
         else then_ok (trusted_ancestor env (rev (butlast (path_parts c)))) (\<lambda>_.
              then_ok (trusted_root env r) (\<lambda>_.
              safe_components env (path_parts r) (drop (length (path_parts r)) (path_parts c)))))"

definition normalizedRoots :: "tx_env \<Rightarrow> string \<Rightarrow> string \<Rightarrow> (string \<times> string) tx" where
  "normalizedRoots env managedRoot dataRoot =
     (if managedRoot = [] \<or> dataRoot = [] then ret (Inl (failure ''managed and data roots are required''))
      else let managed = filepath_Abs env managedRoot; data = filepath_Abs env dataRoot
      in if path_within managed data \<or> path_within data managed
         then ret (Inl (failure ''managed and owner-data roots must be separate''))
         else then_ok (map_error (wrapped ''managed root is unsafe: %w'') (ensureSafePath env managed managed)) (\<lambda>_.
              then_ok (map_error (wrapped ''owner-data root is unsafe: %w'') (ensureSafePath env data data)) (\<lambda>_.
              ret (Inr (managed, data)))))"

section \<open>JSON files\<close>

definition writeJSONAtomic :: "tx_env \<Rightarrow> string \<Rightarrow> tx_doc \<Rightarrow> unit tx" where
  "writeJSONAtomic env path doc =
     then_ok (os_MkdirAll env (filepath_Dir path)) (\<lambda>_. os_Replace env path (te_Text env doc) doc)"

definition readJSONStrict :: "tx_env \<Rightarrow> string \<Rightarrow> (tx_doc \<Rightarrow> 'a option) \<Rightarrow> 'a tx" where
  "readJSONStrict env path decode =
     then_ok (os_ReadFile env path) (\<lambda>(bytes, doc).
       if int (length bytes) > 2 ^ 20 then ret (Inl (failure ''JSON state exceeds 1 MiB''))
       else case doc of
         None \<Rightarrow> ret (Inl (failure ''invalid JSON''))
       | Some x \<Rightarrow> (case decode x of None \<Rightarrow> ret (Inl (failure ''json: unknown field'')) | Some y \<Rightarrow> ret (Inr y)))"

definition plan_of :: "tx_doc \<Rightarrow> ActivationPlan option" where
  "plan_of doc = (case doc of PlanDoc p \<Rightarrow> Some p | _ \<Rightarrow> None)"

definition receipt_of :: "tx_doc \<Rightarrow> (ActivationReceipt \<times> bool) option" where
  "receipt_of doc = (case doc of ReceiptDoc r utc \<Rightarrow> Some (r, utc) | _ \<Rightarrow> None)"

definition wire_of :: "tx_doc \<Rightarrow> stateWire option" where
  "wire_of doc = (case doc of StateDoc w \<Rightarrow> Some w | _ \<Rightarrow> None)"

section \<open>The installed state\<close>

definition statePath :: "string \<Rightarrow> string" where
  "statePath dataRoot = filepath_Join [dataRoot, ''config'', ''install-state.json'']"

definition canonical_role :: string where
  "canonical_role = ''pa_expert''"

definition validRoleState :: "string \<Rightarrow> string \<Rightarrow> string \<Rightarrow> string \<Rightarrow> bool" where
  "validRoleState authority migrationID catalogSHA256 policySHA256 \<longleftrightarrow>
     (authority = [] \<or> authority = canonical_role)
     \<and> (if migrationID = [] then catalogSHA256 = [] \<and> policySHA256 = []
        else migrationID = role_migration_id \<and> authority = canonical_role
          \<and> hashPattern catalogSHA256 \<and> hashPattern policySHA256)"

definition valid_snapshot :: "Snapshot \<Rightarrow> bool" where
  "valid_snapshot p \<longleftrightarrow>
     validRoleState (sp_RoleAuthority p) (sp_MigrationID p) (sp_CatalogSHA256 p) (sp_PolicySHA256 p)
     \<and> versionPattern (sp_Release p) \<and> versionPattern (sp_CLIVersion p) \<and> versionPattern (sp_BundleVersion p)
     \<and> is_channel (sp_Channel p) \<and> supportedTarget (sp_TargetOS p) (sp_TargetArch p) \<and> IsAbs (sp_CLIBackup p)"

definition validStateCore :: "stateWire \<Rightarrow> bool" where
  "validStateCore w \<longleftrightarrow>
     versionPattern (sw_Release w) \<and> versionPattern (sw_CLIVersion w) \<and> versionPattern (sw_BundleVersion w)
     \<and> is_channel (sw_Channel w) \<and> supportedTarget (sw_TargetOS w) (sw_TargetArch w) \<and> \<not> is_zero (sw_ActivatedAt w)
     \<and> validRoleState (sw_RoleAuthority w) (sw_MigrationID w) (sw_CatalogSHA256 w) (sw_PolicySHA256 w)
     \<and> (case sw_Previous w of None \<Rightarrow> True | Some p \<Rightarrow> valid_snapshot p)"

definition stateFromWire :: "stateWire \<Rightarrow> string \<Rightarrow> InstallState" where
  "stateFromWire w managedRoot =
     \<lparr>ist_SchemaVersion = sw_SchemaVersion w, ist_ManagedRoot = managedRoot, ist_Release = sw_Release w,
      ist_Channel = sw_Channel w, ist_CLIVersion = sw_CLIVersion w, ist_BundleVersion = sw_BundleVersion w,
      ist_TargetOS = sw_TargetOS w, ist_TargetArch = sw_TargetArch w, ist_RoleAuthority = sw_RoleAuthority w,
      ist_MigrationID = sw_MigrationID w, ist_CatalogSHA256 = sw_CatalogSHA256 w, ist_PolicySHA256 = sw_PolicySHA256 w,
      ist_ActivatedAt = sw_ActivatedAt w, ist_Previous = sw_Previous w\<rparr>"

text \<open>The JSON form of a state.\<close>

definition state_wire :: "InstallState \<Rightarrow> stateWire" where
  "state_wire s =
     \<lparr>sw_SchemaVersion = ist_SchemaVersion s, sw_ManagedRoot = Some (ist_ManagedRoot s), sw_Release = ist_Release s,
      sw_Channel = ist_Channel s, sw_CLIVersion = ist_CLIVersion s, sw_BundleVersion = ist_BundleVersion s,
      sw_TargetOS = ist_TargetOS s, sw_TargetArch = ist_TargetArch s, sw_RoleAuthority = ist_RoleAuthority s,
      sw_MigrationID = ist_MigrationID s, sw_CatalogSHA256 = ist_CatalogSHA256 s, sw_PolicySHA256 = ist_PolicySHA256 s,
      sw_ActivatedAt = ist_ActivatedAt s, sw_Previous = ist_Previous s\<rparr>"

definition WriteState :: "tx_env \<Rightarrow> string \<Rightarrow> InstallState \<Rightarrow> unit tx" where
  "WriteState env dataRoot s =
     (if ist_SchemaVersion s \<noteq> 2 \<or> ist_ManagedRoot s = []
      then ret (Inl (failure ''new install state must use schema version 2 with a managed root''))
      else if \<not> validRoleState (ist_RoleAuthority s) (ist_MigrationID s) (ist_CatalogSHA256 s) (ist_PolicySHA256 s)
      then ret (Inl (failure ''install state role migration binding is invalid''))
      else if (case ist_Previous s of None \<Rightarrow> False | Some p \<Rightarrow>
                 \<not> validRoleState (sp_RoleAuthority p) (sp_MigrationID p) (sp_CatalogSHA256 p) (sp_PolicySHA256 p))
      then ret (Inl (failure ''previous install state role migration binding is invalid''))
      else writeJSONAtomic env (statePath dataRoot) (StateDoc (state_wire s)))"

text \<open>A file of version 1 is rewritten as version 2 when the managed root is known.\<close>

definition migrate_state :: "tx_env \<Rightarrow> string \<Rightarrow> string \<Rightarrow> bool \<Rightarrow> stateWire \<Rightarrow> InstallState tx" where
  "migrate_state env dataRoot expectedManagedRoot allowV1Migration w =
     (if sw_ManagedRoot w \<noteq> None
      then ret (Inl (failure ''schema version 1 install state must not contain managed_root''))
      else if \<not> allowV1Migration
      then ret (Inl (failure ''schema version 1 install state requires an authoritative managed root for migration''))
      else let s = (stateFromWire w expectedManagedRoot)\<lparr>ist_SchemaVersion := 2\<rparr>
           in then_ok (map_error (wrapped ''migrate install state to schema version 2: %w'') (WriteState env dataRoot s))
                (\<lambda>_. ret (Inr s)))"

definition check_state_roots :: "tx_env \<Rightarrow> string \<Rightarrow> string \<Rightarrow> bool \<Rightarrow> InstallState \<Rightarrow> InstallState tx" where
  "check_state_roots env dataRoot expectedManagedRoot allowV1Migration s =
     then_p (normalizedRoots env (ist_ManagedRoot s) dataRoot) (\<lambda>r.
       ret (case r of
         Inl _ \<Rightarrow> Inl (failure ''invalid install-state roots'')
       | Inr (managed, data) \<Rightarrow>
           if managed \<noteq> ist_ManagedRoot s \<or> data \<noteq> path_clean (filepath_Abs env dataRoot)
              \<or> allowV1Migration \<and> managed \<noteq> expectedManagedRoot
           then Inl (failure ''invalid install-state roots'') else Inr s))"

definition readState :: "tx_env \<Rightarrow> string \<Rightarrow> string \<Rightarrow> bool \<Rightarrow> InstallState tx" where
  "readState env dataRoot expectedManagedRoot allowV1Migration =
     then_ok (readJSONStrict env (statePath dataRoot) wire_of) (\<lambda>w.
       if \<not> validStateCore w then ret (Inl (failure ''invalid install state''))
       else if sw_SchemaVersion w = 1 then migrate_state env dataRoot expectedManagedRoot allowV1Migration w
       else if sw_SchemaVersion w \<noteq> 2 then ret (Inl (failure ''unsupported install-state schema version''))
       else case sw_ManagedRoot w of
         None \<Rightarrow> ret (Inl (failure ''schema version 2 install state requires managed_root''))
       | Some managed \<Rightarrow>
           if managed = [] then ret (Inl (failure ''schema version 2 install state requires managed_root''))
           else check_state_roots env dataRoot expectedManagedRoot allowV1Migration (stateFromWire w managed))"

definition ReadState :: "tx_env \<Rightarrow> string \<Rightarrow> InstallState tx" where
  "ReadState env dataRoot = readState env dataRoot [] False"

definition ReadStateForManagedRoot :: "tx_env \<Rightarrow> string \<Rightarrow> string \<Rightarrow> InstallState tx" where
  "ReadStateForManagedRoot env dataRoot expectedManagedRoot =
     then_ok (normalizedRoots env expectedManagedRoot dataRoot) (\<lambda>(managed, data). readState env data managed True)"

end
