(* ===== verification/InstallFiles.thy ===== *)
theory InstallFiles
  imports InstallState GoText
begin

text \<open>
  \<open>internal/installtx/transaction.go\<close> and \<open>archive.go\<close>: copying and checking authenticated
  files, extracting a bundle, comparing trees, the self check of the CLI and the activation lock.
  The archive reader gives the headers it reads and the error it ends with; the content of a file
  entry is what can be read of it, which may be less than its header says.
\<close>

text \<open>A cleanup that runs when the rest fails.\<close>

definition on_failure :: "'a tx \<Rightarrow> 'b tx \<Rightarrow> 'a tx" where
  "on_failure m cleanup = then_p m (\<lambda>r. case r of Inl e \<Rightarrow> then_p cleanup (\<lambda>_. ret (Inl e)) | Inr x \<Rightarrow> ret (Inr x))"

definition digest_hex :: "tx_env \<Rightarrow> string \<Rightarrow> string" where
  "digest_hex env bytes = EncodeToString (te_SHA256 env bytes)"

section \<open>Authenticated files\<close>

definition openRegular :: "tx_env \<Rightarrow> string \<Rightarrow> int \<Rightarrow> string tx" where
  "openRegular env path expectedSize =
     then_ok (os_Lstat env path) (\<lambda>n.
       case n of
         NFile bytes _ \<Rightarrow>
           if int (length bytes) \<noteq> expectedSize
           then ret (Inl (failure ''install source must be a regular file with authenticated size''))
           else then_ok (os_ReadFile env path) (\<lambda>(body, _). ret (Inr body))
       | _ \<Rightarrow> ret (Inl (failure ''install source must be a regular file with authenticated size'')))"

definition copyVerifiedRegular :: "tx_env \<Rightarrow> string \<Rightarrow> string \<Rightarrow> int \<Rightarrow> string \<Rightarrow> unit tx" where
  "copyVerifiedRegular env source target expectedSize expectedSHA256 =
     then_ok (openRegular env source expectedSize) (\<lambda>bytes.
     then_ok (os_MkdirAll env (filepath_Dir target)) (\<lambda>_.
     then_ok (os_Create env target) (\<lambda>_.
       on_failure
         (then_ok (os_Write env target bytes) (\<lambda>_.
            if int (length bytes) \<noteq> expectedSize \<or> digest_hex env bytes \<noteq> expectedSHA256
            then ret (Inl (failure ''staged artifact does not match its authenticated size and digest''))
            else ret (Inr ())))
         (os_Remove env target))))"

definition verifyRegularFile :: "tx_env \<Rightarrow> string \<Rightarrow> int \<Rightarrow> string \<Rightarrow> unit tx" where
  "verifyRegularFile env path expectedSize expectedSHA256 =
     then_ok (openRegular env path expectedSize) (\<lambda>bytes.
       if int (length bytes) \<noteq> expectedSize \<or> digest_hex env bytes \<noteq> expectedSHA256
       then ret (Inl (failure ''file does not match its authenticated size and digest''))
       else ret (Inr ()))"

section \<open>Bundles\<close>

definition safeArchivePath :: "string \<Rightarrow> bool" where
  "safeArchivePath s \<longleftrightarrow>
     s \<noteq> [] \<and> CHR 0x5C \<notin> set s \<and> \<not> IsAbs s
     \<and> path_clean s = s \<and> s \<noteq> ''.'' \<and> s \<noteq> ''..'' \<and> \<not> has_prefix s ''../''"

fun entry_name :: "tar_entry \<Rightarrow> string" where
  "entry_name (TarDir n z) = n"
| "entry_name (TarFile n z content) = n"
| "entry_name (TarOther n z) = n"

fun entry_size :: "tar_entry \<Rightarrow> int" where
  "entry_size (TarDir n z) = z"
| "entry_size (TarFile n z content) = z"
| "entry_size (TarOther n z) = z"

definition extract_entry :: "tx_env \<Rightarrow> string \<Rightarrow> tar_entry \<Rightarrow> unit tx" where
  "extract_entry env target entry =
     (let destination = filepath_Join [target, entry_name entry]
      in case entry of
           TarDir _ _ \<Rightarrow> os_MkdirAll env destination
         | TarFile _ z content \<Rightarrow>
             then_ok (os_MkdirAll env (filepath_Dir destination)) (\<lambda>_.
             then_ok (os_Create env destination) (\<lambda>_.
             then_ok (os_Write env destination (take (nat z) content)) (\<lambda>_.
               if int (length content) < z then ret (Inl (failure ''extract: unexpected EOF'')) else ret (Inr ()))))
         | TarOther _ _ \<Rightarrow> ret (Inl (failure ''unsupported bundle entry type'')))"

text \<open>The loop with its counters; the sum of the sizes is a 64-bit integer.\<close>

fun extract_entries :: "tx_env \<Rightarrow> string \<Rightarrow> go_error option \<Rightarrow> int \<Rightarrow> int \<Rightarrow> tar_entry list \<Rightarrow> unit tx" where
  "extract_entries env target err files seen [] =
     ret (case err of
       Some e \<Rightarrow> Inl (FsError IsOther e)
     | None \<Rightarrow> if files = 0 then Inl (failure ''bundle archive is empty'') else Inr ())"
| "extract_entries env target err files seen (entry # es) =
     (let seen' = wrap64 (seen + entry_size entry)
      in if \<not> safeArchivePath (entry_name entry) then ret (Inl (failure ''unsafe bundle path''))
         else if files + 1 > 10000 \<or> entry_size entry < 0 \<or> seen' > 536870912
         then ret (Inl (failure ''bundle extraction limits exceeded''))
         else then_ok (extract_entry env target entry) (\<lambda>_. extract_entries env target err (files + 1) seen' es))"

definition extractBundle :: "tx_env \<Rightarrow> string \<Rightarrow> string \<Rightarrow> unit tx" where
  "extractBundle env bytes target = (case te_Untar env bytes of (entries, err) \<Rightarrow> extract_entries env target err 0 0 entries)"

definition extractVerifiedBundleArchive :: "tx_env \<Rightarrow> string \<Rightarrow> string \<Rightarrow> int \<Rightarrow> string \<Rightarrow> unit tx" where
  "extractVerifiedBundleArchive env source target expectedSize expectedSHA256 =
     then_ok (openRegular env source expectedSize) (\<lambda>bytes.
     then_ok (os_RemoveAll env target) (\<lambda>_.
     then_ok (os_MkdirAll env target) (\<lambda>_.
       on_failure
         (then_ok (extractBundle env bytes target) (\<lambda>_.
            if int (length bytes) \<noteq> expectedSize \<or> digest_hex env bytes \<noteq> expectedSHA256
            then ret (Inl (failure ''bundle archive does not match its authenticated size and digest''))
            else ret (Inr ())))
         (os_RemoveAll env target))))"

section \<open>Trees\<close>

datatype tree_entry = TreeDirectory | TreeFile int string

definition tree_identity_of :: "tx_env \<Rightarrow> tx_doc node \<Rightarrow> fs_error + tree_entry" where
  "tree_identity_of env n =
     (case n of
        NDir \<Rightarrow> Inr TreeDirectory
      | NFile bytes _ \<Rightarrow> Inr (TreeFile (int (length bytes)) (digest_hex env bytes))
      | NLink \<Rightarrow> Inl (failure ''bundle identity rejects symlink'')
      | NOther \<Rightarrow> Inl (failure ''bundle identity rejects special entry''))"

text \<open>The entries under a directory, with the rest of their paths.\<close>

definition entries_under :: "tx_disk \<Rightarrow> string list \<Rightarrow> (string list \<times> tx_doc node) list" where
  "entries_under d root =
     map (\<lambda>q. (drop (length root) q, the (node_at d q))) (filter (strict_prefix root) (remdups (map fst d)))"

fun collect_identities :: "tx_env \<Rightarrow> (string list \<times> tx_doc node) list \<Rightarrow> fs_error + (string list \<times> tree_entry) list" where
  "collect_identities env [] = Inr []"
| "collect_identities env ((q, n) # es) =
     bind_r (tree_identity_of env n) (\<lambda>i. bind_r (collect_identities env es) (\<lambda>is. Inr ((q, i) # is)))"

definition treeIdentity :: "tx_env \<Rightarrow> string \<Rightarrow> (string list \<times> tree_entry) list tx" where
  "treeIdentity env root =
     then_ok (os_Lstat env root) (\<lambda>n.
       if n \<noteq> NDir then ret (Inl (failure ''bundle identity root must be a directory''))
       else syscall env ''walk'' root (reads (\<lambda>d. collect_identities env (entries_under d (path_parts root)))))"

definition same_entries :: "(string list \<times> tree_entry) list \<Rightarrow> (string list \<times> tree_entry) list \<Rightarrow> bool" where
  "same_entries l r \<longleftrightarrow> length l = length r \<and> list_all (\<lambda>(q, i). map_of r q = Some i) l"

definition equalTrees :: "tx_env \<Rightarrow> string \<Rightarrow> string \<Rightarrow> bool tx" where
  "equalTrees env left right =
     then_ok (treeIdentity env left) (\<lambda>l. then_ok (treeIdentity env right) (\<lambda>r. ret (Inr (same_entries l r))))"

section \<open>Self check and lock\<close>

definition commandSelfCheck :: "tx_env \<Rightarrow> string \<Rightarrow> string \<Rightarrow> unit tx" where
  "commandSelfCheck env path version =
     then_ok (os_ReadFile env path) (\<lambda>(bytes, _).
       ret (case te_Run env bytes of
         Inl e \<Rightarrow> Inl (FsError IsOther e)
       | Inr output \<Rightarrow>
           if TrimSpace output \<noteq> ''bcgos '' @ version then Inl (failure ''unexpected version output'') else Inr ()))"

definition lockPath :: "string \<Rightarrow> string" where
  "lockPath managedRoot = filepath_Join [managedRoot, ''.activation.lock'']"

definition acquireLock :: "tx_env \<Rightarrow> string \<Rightarrow> unit tx" where
  "acquireLock env managedRoot =
     then_ok (map_error (wrapped ''another activation may be running: %w'') (os_Create env (lockPath managedRoot))) (\<lambda>_.
       on_failure (os_Write env (lockPath managedRoot) (show_int (te_PID env) @ [CHR 0x0A]))
         (os_Remove env (lockPath managedRoot)))"

definition unlock :: "tx_env \<Rightarrow> string \<Rightarrow> unit tx" where
  "unlock env managedRoot = os_Remove env (lockPath managedRoot)"

text \<open>\<open>strconv.Atoi\<close>.\<close>

definition Atoi :: "string \<Rightarrow> int option" where
  "Atoi s =
     (let negative = has_prefix s ''-'';
          digits = (if negative \<or> has_prefix s ''+'' then drop 1 s else s)
      in if digits = [] \<or> \<not> list_all is_digit digits then None
         else let v = (if negative then - int (digits_value 0 digits) else int (digits_value 0 digits))
              in if v < - (2 ^ 63) \<or> v \<ge> 2 ^ 63 then None else Some v)"

definition lock_owner :: "string \<Rightarrow> int option" where
  "lock_owner body = (if has_suffix body [CHR 0x0A] then Atoi (take (length body - 1) body) else None)"

text \<open>The lock of a process that has ended is removed and taken.\<close>

definition take_stale_lock :: "tx_env \<Rightarrow> string \<Rightarrow> unit tx" where
  "take_stale_lock env managedRoot =
     then_ok (map_error (wrapped ''read interrupted activation lock: %w'') (os_ReadFile env (lockPath managedRoot))) (\<lambda>(body, _).
       if body = [] \<or> length body > 32 \<or> \<not> has_suffix body [CHR 0x0A]
       then ret (Inl (failure ''interrupted activation lock is malformed''))
       else case lock_owner body of
         None \<Rightarrow> ret (Inl (failure ''interrupted activation lock has an invalid owner''))
       | Some pid \<Rightarrow>
           if pid \<le> 0 \<or> pid = te_PID env then ret (Inl (failure ''interrupted activation lock has an invalid owner''))
           else if te_Alive env pid then ret (Inl (failure ''activation lock owner may still be running''))
           else then_p (os_ReadFile env (lockPath managedRoot)) (\<lambda>again.
             if (case again of Inr (body', _) \<Rightarrow> body' \<noteq> body | Inl _ \<Rightarrow> True)
             then ret (Inl (failure ''activation lock changed during stale-owner verification''))
             else then_ok (map_error (wrapped ''remove stale activation lock: %w'') (os_Remove env (lockPath managedRoot)))
               (\<lambda>_. acquireLock env managedRoot)))"

definition acquireReconciliationLock :: "tx_env \<Rightarrow> string \<Rightarrow> unit tx" where
  "acquireReconciliationLock env managedRoot =
     then_p (acquireLock env managedRoot) (\<lambda>r.
       case r of
         Inr _ \<Rightarrow> ret (Inr ())
       | Inl e \<Rightarrow> if \<not> is_exist e then ret (Inl e) else take_stale_lock env managedRoot)"

end
