(* ===== verification/InstallPlan.thy ===== *)
theory InstallPlan
  imports InstallFiles
begin

text \<open>
  \<open>internal/installtx/transaction.go\<close>, activation plans: preparing one from a verified release,
  its validation, and the comparison with the release before it is used. A file mode is not part of
  an entry of the disk.
\<close>

definition validateTransitionOptions :: "PrepareOptions \<Rightarrow> fs_error + unit" where
  "validateTransitionOptions o' =
     (if po_Transition o' = ''install'' then
        fail_if (po_ConfirmationPlanID o' \<noteq> [] \<or> po_FromRelease o' \<noteq> [] \<or> po_FromChannel o' \<noteq> []
            \<or> po_FromCLIVersion o' \<noteq> [] \<or> po_FromBundleVersion o' \<noteq> [])
          (failure ''first installation cannot carry an update source binding'')
      else if po_Transition o' = ''update'' then
        fail_if (\<not> confirmationPlanIDPattern (po_ConfirmationPlanID o') \<or> \<not> versionPattern (po_FromRelease o')
            \<or> \<not> versionPattern (po_FromCLIVersion o') \<or> \<not> versionPattern (po_FromBundleVersion o')
            \<or> \<not> is_channel (po_FromChannel o'))
          (failure ''update transition requires an exact confirmed source-state binding'')
      else Inl (failure ''activation transition must be install or update''))"

definition roleBindingForTransition :: "PrepareOptions \<Rightarrow> Manifest \<Rightarrow> go_error + RoleBinding" where
  "roleBindingForTransition o' m =
     (if po_Transition o' = ''update'' then EnsureUpdateAllowed (po_FromRelease o') (mf_Release m) m
      else bind_r (FromManifest m) (\<lambda>_. Inr no_binding))"

text \<open>The loop over the artifacts: the CLI of the target, the bundle and the runtime pack so far.\<close>

type_synonym chosen = "Artifact option \<times> Artifact option \<times> Artifact option"

fun choose_artifacts :: "string \<Rightarrow> string \<Rightarrow> chosen \<Rightarrow> Artifact list \<Rightarrow> fs_error + chosen" where
  "choose_artifacts os arch c [] = Inr c"
| "choose_artifacts os arch (cli, bundle, pack) (a # as) =
     (if af_Kind a = ''cli'' \<and> af_OS a = os \<and> af_Arch a = arch then
        (if cli \<noteq> None then Inl (failure ''release has multiple CLI artifacts for the target'')
         else choose_artifacts os arch (Some a, bundle, pack) as)
      else if af_Kind a = ''bundle'' then
        (if bundle \<noteq> None then Inl (failure ''release has multiple base bundle artifacts'')
         else choose_artifacts os arch (cli, Some a, pack) as)
      else if af_Kind a = ''runtime_pack'' then
        (if pack \<noteq> None then Inl (failure ''release has multiple runtime packs'')
         else choose_artifacts os arch (cli, bundle, Some a) as)
      else choose_artifacts os arch (cli, bundle, pack) as)"

definition invalid_metadata :: "Artifact \<Rightarrow> bool" where
  "invalid_metadata a \<longleftrightarrow> filepath_Base (af_Name a) \<noteq> af_Name a \<or> \<not> hashPattern (af_SHA256 a) \<or> af_Size a \<le> 0"

definition releaseArtifacts :: "VerifiedRelease \<Rightarrow> string \<Rightarrow> string \<Rightarrow> fs_error + Artifact \<times> Artifact \<times> Artifact option" where
  "releaseArtifacts v os arch =
     (if \<not> hashPattern (ve_ManifestSHA256 v)
      then Inl (failure ''verified release is missing its authenticated manifest digest'')
      else bind_r (choose_artifacts os arch (None, None, None) (mf_Artifacts (ve_Manifest v))) (\<lambda>c.
        case c of
          (Some cli, Some bundle, pack) \<Rightarrow>
            if invalid_metadata cli \<or> invalid_metadata bundle
            then Inl (failure ''release artifact has invalid authenticated metadata'')
            else if (case pack of None \<Rightarrow> False | Some a \<Rightarrow> invalid_metadata a)
            then Inl (failure ''runtime pack has invalid authenticated metadata'')
            else Inr (cli, bundle, pack)
        | _ \<Rightarrow> Inl (failure ''release does not contain the requested CLI and base bundle'')))"

definition PlanName :: string where
  "PlanName = ''activation-plan.json''"

definition ReceiptName :: string where
  "ReceiptName = ''activation-receipt.json''"

section \<open>Preparing\<close>

definition pack_name :: "Artifact option \<Rightarrow> string" where
  "pack_name pack = (case pack of None \<Rightarrow> [] | Some a \<Rightarrow> af_Name a)"

definition pack_sha :: "Artifact option \<Rightarrow> string" where
  "pack_sha pack = (case pack of None \<Rightarrow> [] | Some a \<Rightarrow> af_SHA256 a)"

definition pack_size :: "Artifact option \<Rightarrow> int" where
  "pack_size pack = (case pack of None \<Rightarrow> 0 | Some a \<Rightarrow> af_Size a)"

definition staged_cli :: "string \<Rightarrow> string \<Rightarrow> string" where
  "staged_cli transaction os = filepath_Join [transaction, ''bin'', executableName os]"

definition staged_bundle :: "string \<Rightarrow> string" where
  "staged_bundle transaction = filepath_Join [transaction, ''bundle.tar.gz'']"

definition staged_pack :: "string \<Rightarrow> Artifact option \<Rightarrow> string" where
  "staged_pack transaction pack = (if pack = None then [] else filepath_Join [transaction, ''markitdown-runtime.tar.gz''])"

definition prepared_plan ::
  "PrepareOptions \<Rightarrow> VerifiedRelease \<Rightarrow> string \<Rightarrow> string \<Rightarrow> string \<Rightarrow> RoleBinding \<Rightarrow> Artifact \<times> Artifact \<times> Artifact option \<Rightarrow> ActivationPlan" where
  "prepared_plan o' v managedRoot dataRoot transaction role artifacts =
     (case artifacts of (cli, bundle, pack) \<Rightarrow>
       \<lparr>ap_SchemaVersion = 2, ap_TransactionID = filepath_Base transaction, ap_Transition = po_Transition o',
        ap_ConfirmationPlanID = po_ConfirmationPlanID o', ap_FromRelease = po_FromRelease o',
        ap_FromChannel = po_FromChannel o', ap_FromCLIVersion = po_FromCLIVersion o',
        ap_FromBundleVersion = po_FromBundleVersion o', ap_Release = mf_Release (ve_Manifest v),
        ap_Channel = mf_Channel (ve_Manifest v), ap_CLIVersion = cl_Version (mf_CLI (ve_Manifest v)),
        ap_BundleVersion = bc_Version (mf_Bundle (ve_Manifest v)), ap_TargetOS = po_TargetOS o',
        ap_TargetArch = po_TargetArch o', ap_ManagedRoot = managedRoot, ap_DataRoot = dataRoot,
        ap_ManifestSHA256 = ve_ManifestSHA256 v, ap_CLIArtifactName = af_Name cli, ap_CLISHA256 = af_SHA256 cli,
        ap_CLISize = af_Size cli, ap_BundleArtifactName = af_Name bundle, ap_BundleSHA256 = af_SHA256 bundle,
        ap_BundleSize = af_Size bundle, ap_RoleMigrationID = rb_ID role, ap_CatalogSHA256 = rb_CatalogSHA256 role,
        ap_PolicySHA256 = rb_PolicySHA256 role, ap_StagedCLI = staged_cli transaction (po_TargetOS o'),
        ap_StagedBundleArchive = staged_bundle transaction, ap_RuntimePackArtifactName = pack_name pack,
        ap_RuntimePackSHA256 = pack_sha pack, ap_RuntimePackSize = pack_size pack,
        ap_StagedRuntimePack = staged_pack transaction pack\<rparr>)"

definition copy_artifact :: "tx_env \<Rightarrow> VerifiedRelease \<Rightarrow> Artifact \<Rightarrow> string \<Rightarrow> unit tx" where
  "copy_artifact env v a target =
     copyVerifiedRegular env (filepath_Join [ve_Directory v, af_Name a]) target (af_Size a) (af_SHA256 a)"

definition WritePlan :: "tx_env \<Rightarrow> string \<Rightarrow> ActivationPlan \<Rightarrow> unit tx" where
  "WritePlan env path plan = writeJSONAtomic env path (PlanDoc plan)"

definition ReadPlan :: "tx_env \<Rightarrow> string \<Rightarrow> ActivationPlan tx" where
  "ReadPlan env path = readJSONStrict env path plan_of"

definition fill_transaction ::
  "tx_env \<Rightarrow> VerifiedRelease \<Rightarrow> string \<Rightarrow> ActivationPlan \<Rightarrow> Artifact \<times> Artifact \<times> Artifact option \<Rightarrow> string tx" where
  "fill_transaction env v transaction plan artifacts =
     (case artifacts of (cli, bundle, pack) \<Rightarrow>
       then_ok (copy_artifact env v cli (ap_StagedCLI plan)) (\<lambda>_.
       then_ok (case pack of None \<Rightarrow> ret (Inr ()) | Some a \<Rightarrow> copy_artifact env v a (ap_StagedRuntimePack plan)) (\<lambda>_.
       then_ok (copy_artifact env v bundle (ap_StagedBundleArchive plan)) (\<lambda>_.
       then_ok (WritePlan env (filepath_Join [transaction, PlanName]) plan) (\<lambda>_.
         ret (Inr (filepath_Join [transaction, PlanName])))))))"

text \<open>\<open>os.MkdirTemp\<close>: a new directory with a random name.\<close>

definition os_MkdirTemp :: "tx_env \<Rightarrow> string \<Rightarrow> string \<Rightarrow> string tx" where
  "os_MkdirTemp env dir pre =
     (let path = filepath_Join [dir, pre @ te_TempName env]
      in syscall env ''mkdirtemp'' dir (\<lambda>d.
        if node_at d (path_parts path) \<noteq> None then (Inl exist, [])
        else (Inr path, [AList.update (path_parts path) NDir d])))"

definition Prepare :: "tx_env \<Rightarrow> VerifiedRelease \<Rightarrow> PrepareOptions \<Rightarrow> string tx" where
  "Prepare env v o' =
     then_ok (normalizedRoots env (po_ManagedRoot o') (po_DataRoot o')) (\<lambda>(managedRoot, dataRoot).
       if \<not> supportedTarget (po_TargetOS o') (po_TargetArch o') then ret (Inl (failure ''unsupported install target''))
       else
       then_ok (ret (validateTransitionOptions o')) (\<lambda>_.
       then_ok (ret (lift_go (roleBindingForTransition o' (ve_Manifest v)))) (\<lambda>role.
       then_ok (ret (releaseArtifacts v (po_TargetOS o') (po_TargetArch o'))) (\<lambda>artifacts.
       then_ok (os_MkdirAll env (filepath_Join [dataRoot, ''updates''])) (\<lambda>_.
       then_ok (os_MkdirTemp env (filepath_Join [dataRoot, ''updates'']) ''tx-'') (\<lambda>transaction.
         on_failure
           (fill_transaction env v transaction (prepared_plan o' v managedRoot dataRoot transaction role artifacts) artifacts)
           (os_RemoveAll env transaction)))))))"

section \<open>Validation\<close>

definition plan_transition :: "ActivationPlan \<Rightarrow> PrepareOptions" where
  "plan_transition plan =
     \<lparr>po_Transition = ap_Transition plan, po_ConfirmationPlanID = ap_ConfirmationPlanID plan,
      po_FromRelease = ap_FromRelease plan, po_FromChannel = ap_FromChannel plan,
      po_FromCLIVersion = ap_FromCLIVersion plan, po_FromBundleVersion = ap_FromBundleVersion plan,
      po_TargetOS = [], po_TargetArch = [], po_ManagedRoot = [], po_DataRoot = []\<rparr>"

definition plan_fields_ok :: "ActivationPlan \<Rightarrow> bool" where
  "plan_fields_ok plan \<longleftrightarrow>
     ap_SchemaVersion plan = 2 \<and> versionPattern (ap_Release plan) \<and> versionPattern (ap_CLIVersion plan)
     \<and> versionPattern (ap_BundleVersion plan) \<and> hashPattern (ap_ManifestSHA256 plan) \<and> hashPattern (ap_CLISHA256 plan)
     \<and> hashPattern (ap_BundleSHA256 plan) \<and> ap_CLISize plan > 0 \<and> ap_BundleSize plan > 0
     \<and> filepath_Base (ap_CLIArtifactName plan) = ap_CLIArtifactName plan
     \<and> filepath_Base (ap_BundleArtifactName plan) = ap_BundleArtifactName plan"

definition plan_role_ok :: "ActivationPlan \<Rightarrow> bool" where
  "plan_role_ok plan \<longleftrightarrow> ap_RoleMigrationID plan = []
     \<or> ap_RoleMigrationID plan = role_migration_id \<and> hashPattern (ap_CatalogSHA256 plan) \<and> hashPattern (ap_PolicySHA256 plan)"

text \<open>The place of the plan and of what it has staged.\<close>

definition plan_place_error :: "string \<Rightarrow> ActivationPlan \<Rightarrow> fs_error + unit" where
  "plan_place_error path plan =
     (let transaction = filepath_Dir (path_clean path)
      in checks [
        fail_if (filepath_Base transaction \<noteq> ap_TransactionID plan
            \<or> \<not> path_within (filepath_Join [ap_DataRoot plan, ''updates'']) transaction)
          (failure ''activation plan is outside its data-root transaction''),
        fail_if (\<not> path_within transaction (ap_StagedCLI plan) \<or> \<not> path_within transaction (ap_StagedBundleArchive plan))
          (failure ''staged activation paths escape their transaction''),
        fail_if (path_clean (ap_StagedCLI plan) \<noteq> staged_cli transaction (ap_TargetOS plan))
          (failure ''staged CLI has an unexpected name''),
        fail_if (path_clean (ap_StagedBundleArchive plan) \<noteq> staged_bundle transaction)
          (failure ''staged bundle archive has an unexpected path'')])"

definition canonical_roots :: "tx_env \<Rightarrow> ActivationPlan \<Rightarrow> unit tx" where
  "canonical_roots env plan =
     then_p (normalizedRoots env (ap_ManagedRoot plan) (ap_DataRoot plan)) (\<lambda>r.
       ret (if r \<noteq> Inr (ap_ManagedRoot plan, ap_DataRoot plan)
            then Inl (failure ''activation plan roots are not canonical'') else Inr ()))"

definition validatePlan :: "tx_env \<Rightarrow> string \<Rightarrow> ActivationPlan \<Rightarrow> unit tx" where
  "validatePlan env path plan =
     (if \<not> plan_fields_ok plan then ret (Inl (failure ''invalid activation plan versions''))
      else if \<not> plan_role_ok plan then ret (Inl (failure ''invalid activation plan role migration binding''))
      else
      then_ok (map_error (wrapped ''invalid activation transition: %w'') (ret (validateTransitionOptions (plan_transition plan)))) (\<lambda>_.
      if \<not> is_channel (ap_Channel plan) then ret (Inl (failure ''invalid activation plan channel''))
      else if \<not> supportedTarget (ap_TargetOS plan) (ap_TargetArch plan)
      then ret (Inl (failure ''invalid activation plan target''))
      else then_ok (canonical_roots env plan) (\<lambda>_. ret (plan_place_error path plan))))"

definition plan_matches_release ::
  "ActivationPlan \<Rightarrow> VerifiedRelease \<Rightarrow> PrepareOptions \<Rightarrow> string \<Rightarrow> string \<Rightarrow> Artifact \<times> Artifact \<times> Artifact option \<Rightarrow> bool" where
  "plan_matches_release plan v o' managedRoot dataRoot artifacts \<longleftrightarrow>
     (case artifacts of (cli, bundle, pack) \<Rightarrow>
        ap_Transition plan = po_Transition o' \<and> ap_ConfirmationPlanID plan = po_ConfirmationPlanID o'
        \<and> ap_FromRelease plan = po_FromRelease o' \<and> ap_FromChannel plan = po_FromChannel o'
        \<and> ap_FromCLIVersion plan = po_FromCLIVersion o' \<and> ap_FromBundleVersion plan = po_FromBundleVersion o'
        \<and> ap_Release plan = mf_Release (ve_Manifest v) \<and> ap_Channel plan = mf_Channel (ve_Manifest v)
        \<and> ap_CLIVersion plan = cl_Version (mf_CLI (ve_Manifest v))
        \<and> ap_BundleVersion plan = bc_Version (mf_Bundle (ve_Manifest v))
        \<and> ap_TargetOS plan = po_TargetOS o' \<and> ap_TargetArch plan = po_TargetArch o'
        \<and> ap_ManagedRoot plan = managedRoot \<and> ap_DataRoot plan = dataRoot
        \<and> ap_ManifestSHA256 plan = ve_ManifestSHA256 v
        \<and> ap_CLIArtifactName plan = af_Name cli \<and> ap_CLISHA256 plan = af_SHA256 cli \<and> ap_CLISize plan = af_Size cli
        \<and> ap_BundleArtifactName plan = af_Name bundle \<and> ap_BundleSHA256 plan = af_SHA256 bundle
        \<and> ap_BundleSize plan = af_Size bundle
        \<and> ap_RuntimePackArtifactName plan = pack_name pack \<and> ap_RuntimePackSHA256 plan = pack_sha pack
        \<and> ap_RuntimePackSize plan = pack_size pack
        \<and> (pack = None \<longleftrightarrow> ap_StagedRuntimePack plan = []))"

definition plan_role_matches :: "ActivationPlan \<Rightarrow> RoleBinding \<Rightarrow> fs_error + unit" where
  "plan_role_matches plan role =
     (if (ap_RoleMigrationID plan \<noteq> []) \<noteq> (rb_ID role \<noteq> [])
      then Inl (failure ''activation plan role migration binding does not match the verified release'')
      else fail_if (rb_ID role \<noteq> [] \<and> (ap_RoleMigrationID plan \<noteq> rb_ID role
            \<or> ap_CatalogSHA256 plan \<noteq> rb_CatalogSHA256 role \<or> ap_PolicySHA256 plan \<noteq> rb_PolicySHA256 role))
        (failure ''activation plan role migration identity does not match the verified release''))"

definition verify_staged :: "tx_env \<Rightarrow> string \<Rightarrow> ActivationPlan \<Rightarrow> bool \<Rightarrow> unit tx" where
  "verify_staged env dataRoot plan hasPack =
     then_ok (map_error (wrapped ''staged CLI path is outside the private data root: %w'')
       (ensureSafePath env dataRoot (ap_StagedCLI plan))) (\<lambda>_.
     then_ok (map_error (wrapped ''staged bundle path is outside the private data root: %w'')
       (ensureSafePath env dataRoot (ap_StagedBundleArchive plan))) (\<lambda>_.
     then_ok (map_error (wrapped ''verify staged CLI: %w'')
       (verifyRegularFile env (ap_StagedCLI plan) (ap_CLISize plan) (ap_CLISHA256 plan))) (\<lambda>_.
     then_ok (map_error (wrapped ''verify staged bundle archive: %w'')
       (verifyRegularFile env (ap_StagedBundleArchive plan) (ap_BundleSize plan) (ap_BundleSHA256 plan))) (\<lambda>_.
     if \<not> hasPack then ret (Inr ())
     else then_ok (map_error (wrapped ''staged MarkItDown runtime pack path is outside the private data root: %w'')
            (ensureSafePath env dataRoot (ap_StagedRuntimePack plan))) (\<lambda>_.
          map_error (wrapped ''verify staged MarkItDown runtime pack: %w'')
            (verifyRegularFile env (ap_StagedRuntimePack plan) (ap_RuntimePackSize plan) (ap_RuntimePackSHA256 plan)))))))"

definition ValidatePrepared :: "tx_env \<Rightarrow> string \<Rightarrow> VerifiedRelease \<Rightarrow> PrepareOptions \<Rightarrow> ActivationPlan tx" where
  "ValidatePrepared env planPath v o' =
     then_ok (ReadPlan env planPath) (\<lambda>plan.
     then_ok (validatePlan env planPath plan) (\<lambda>_.
     then_ok (normalizedRoots env (po_ManagedRoot o') (po_DataRoot o')) (\<lambda>(managedRoot, dataRoot).
     then_ok (ret (validateTransitionOptions o')) (\<lambda>_.
     then_ok (ret (releaseArtifacts v (po_TargetOS o') (po_TargetArch o'))) (\<lambda>artifacts.
       if \<not> plan_matches_release plan v o' managedRoot dataRoot artifacts
       then ret (Inl (failure ''activation plan does not match the verified release and install target''))
       else
       then_ok (ret (lift_go (roleBindingForTransition o' (ve_Manifest v)))) (\<lambda>role.
       then_ok (ret (plan_role_matches plan role)) (\<lambda>_.
       then_ok (verify_staged env dataRoot plan (snd (snd artifacts) \<noteq> None)) (\<lambda>_.
         ret (Inr plan)))))))))"

end
