(* ===== verification/InstallTx.thy ===== *)
theory InstallTx
  imports InstallPlan
begin

text \<open>
  \<open>internal/installtx/transaction.go\<close>, activation: \<open>Activate\<close>, the reconciliation of an activation
  that was interrupted, and \<open>Rollback\<close>. The hooks that only tests set are not modelled, and the CLI
  is checked by \<open>commandSelfCheck\<close>.
\<close>

section \<open>Places of a transaction\<close>

definition active_cli :: "string \<Rightarrow> string \<Rightarrow> string" where
  "active_cli managedRoot os = filepath_Join [managedRoot, ''bin'', executableName os]"

definition activeCLI :: "ActivationPlan \<Rightarrow> string" where
  "activeCLI plan = active_cli (ap_ManagedRoot plan) (ap_TargetOS plan)"

definition bundleTarget :: "ActivationPlan \<Rightarrow> string" where
  "bundleTarget plan = filepath_Join [ap_ManagedRoot plan, ''bundles'', ap_BundleVersion plan]"

definition runtimeTarget :: "ActivationPlan \<Rightarrow> string" where
  "runtimeTarget plan = (if ap_RuntimePackArtifactName plan = [] then []
     else filepath_Join [ap_ManagedRoot plan, ''runtimes'', ''markitdown'', ap_Release plan])"

definition pendingCLI :: "ActivationPlan \<Rightarrow> string" where
  "pendingCLI plan = activeCLI plan @ ''.pending-'' @ ap_TransactionID plan"

definition pendingBundle :: "ActivationPlan \<Rightarrow> string" where
  "pendingBundle plan = filepath_Join [ap_ManagedRoot plan, ''bundles'', ''.pending-'' @ ap_TransactionID plan]"

definition pendingRuntime :: "ActivationPlan \<Rightarrow> string" where
  "pendingRuntime plan = filepath_Join [ap_ManagedRoot plan, ''runtimes'', ''markitdown'', ''.pending-'' @ ap_TransactionID plan]"

definition expectedSourceCLIBackup :: "ActivationPlan \<Rightarrow> string" where
  "expectedSourceCLIBackup plan =
     (if ap_Transition plan \<noteq> ''update'' then []
      else filepath_Join [ap_ManagedRoot plan, ''recovery'', ''cli'', ap_FromCLIVersion plan @ ''-'' @ ap_TransactionID plan,
        executableName (ap_TargetOS plan)])"

definition backup_path :: "ActivationPlan \<Rightarrow> string" where
  "backup_path plan =
     (if ap_Transition plan = ''update'' then expectedSourceCLIBackup plan
      else filepath_Join [ap_ManagedRoot plan, ''recovery'', ''cli'', ''unknown-'' @ ap_TransactionID plan,
        executableName (ap_TargetOS plan)])"

definition receipt_path :: "string \<Rightarrow> string" where
  "receipt_path planPath = filepath_Join [filepath_Dir planPath, ReceiptName]"

section \<open>States and receipts\<close>

definition stateMatchesSource :: "InstallState \<Rightarrow> ActivationPlan \<Rightarrow> bool" where
  "stateMatchesSource s plan \<longleftrightarrow>
     ist_Release s = ap_FromRelease plan \<and> ist_Channel s = ap_FromChannel plan
     \<and> ist_CLIVersion s = ap_FromCLIVersion plan \<and> ist_BundleVersion s = ap_FromBundleVersion plan
     \<and> ist_TargetOS s = ap_TargetOS plan \<and> ist_TargetArch s = ap_TargetArch plan"

definition receiptForPlan :: "ActivationPlan \<Rightarrow> time \<Rightarrow> ActivationReceipt" where
  "receiptForPlan plan committedAt =
     \<lparr>arc_SchemaVersion = 1, arc_ConfirmationPlanID = ap_ConfirmationPlanID plan,
      arc_TransactionID = ap_TransactionID plan, arc_Release = ap_Release plan, arc_Channel = ap_Channel plan,
      arc_CLIVersion = ap_CLIVersion plan, arc_BundleVersion = ap_BundleVersion plan, arc_TargetOS = ap_TargetOS plan,
      arc_TargetArch = ap_TargetArch plan, arc_ManagedRoot = ap_ManagedRoot plan, arc_DataRoot = ap_DataRoot plan,
      arc_ManifestSHA256 = ap_ManifestSHA256 plan, arc_CLISHA256 = ap_CLISHA256 plan, arc_CLISize = ap_CLISize plan,
      arc_BundleSHA256 = ap_BundleSHA256 plan, arc_BundleSize = ap_BundleSize plan,
      arc_RoleMigrationID = ap_RoleMigrationID plan, arc_CatalogSHA256 = ap_CatalogSHA256 plan,
      arc_PolicySHA256 = ap_PolicySHA256 plan, arc_SourceCLIBackup = expectedSourceCLIBackup plan,
      arc_CommittedAt = committedAt\<rparr>"

definition roleAuthorityForPlan :: "ActivationPlan \<Rightarrow> string" where
  "roleAuthorityForPlan plan =
     (if ap_RoleMigrationID plan = role_migration_id then canonical_role
      else if IsExpired (ap_Release plan) = Inr True then canonical_role else [])"

definition snapshot_of :: "InstallState \<Rightarrow> string \<Rightarrow> Snapshot" where
  "snapshot_of s backup =
     \<lparr>sp_Release = ist_Release s, sp_Channel = ist_Channel s, sp_CLIVersion = ist_CLIVersion s,
      sp_BundleVersion = ist_BundleVersion s, sp_TargetOS = ist_TargetOS s, sp_TargetArch = ist_TargetArch s,
      sp_RoleAuthority = ist_RoleAuthority s, sp_MigrationID = ist_MigrationID s, sp_CatalogSHA256 = ist_CatalogSHA256 s,
      sp_PolicySHA256 = ist_PolicySHA256 s, sp_CLIBackup = backup\<rparr>"

definition target_state :: "ActivationPlan \<Rightarrow> Snapshot option \<Rightarrow> time \<Rightarrow> InstallState" where
  "target_state plan previous activatedAt =
     \<lparr>ist_SchemaVersion = 2, ist_ManagedRoot = ap_ManagedRoot plan, ist_Release = ap_Release plan,
      ist_Channel = ap_Channel plan, ist_CLIVersion = ap_CLIVersion plan, ist_BundleVersion = ap_BundleVersion plan,
      ist_TargetOS = ap_TargetOS plan, ist_TargetArch = ap_TargetArch plan, ist_RoleAuthority = roleAuthorityForPlan plan,
      ist_MigrationID = ap_RoleMigrationID plan, ist_CatalogSHA256 = ap_CatalogSHA256 plan,
      ist_PolicySHA256 = ap_PolicySHA256 plan, ist_ActivatedAt = activatedAt, ist_Previous = previous\<rparr>"

definition committedTargetState :: "ActivationPlan \<Rightarrow> InstallState \<Rightarrow> time \<Rightarrow> InstallState" where
  "committedTargetState plan source activatedAt =
     target_state plan (Some (snapshot_of source (expectedSourceCLIBackup plan))) activatedAt"

definition stateMatchesCommittedTarget :: "InstallState \<Rightarrow> ActivationPlan \<Rightarrow> ActivationReceipt \<Rightarrow> bool" where
  "stateMatchesCommittedTarget s plan receipt \<longleftrightarrow>
     ist_Release s = ap_Release plan \<and> ist_Channel s = ap_Channel plan \<and> ist_CLIVersion s = ap_CLIVersion plan
     \<and> ist_BundleVersion s = ap_BundleVersion plan \<and> ist_TargetOS s = ap_TargetOS plan
     \<and> ist_TargetArch s = ap_TargetArch plan \<and> ist_RoleAuthority s = roleAuthorityForPlan plan
     \<and> ist_MigrationID s = ap_RoleMigrationID plan \<and> ist_CatalogSHA256 s = ap_CatalogSHA256 plan
     \<and> ist_PolicySHA256 s = ap_PolicySHA256 plan
     \<and> (case ist_Previous s of
          None \<Rightarrow> False
        | Some p \<Rightarrow> sp_Release p = ap_FromRelease plan \<and> sp_Channel p = ap_FromChannel plan
            \<and> sp_CLIVersion p = ap_FromCLIVersion plan \<and> sp_BundleVersion p = ap_FromBundleVersion plan
            \<and> sp_TargetOS p = ap_TargetOS plan \<and> sp_TargetArch p = ap_TargetArch plan
            \<and> sp_CLIBackup p = arc_SourceCLIBackup receipt)"

definition writeActivationReceipt :: "tx_env \<Rightarrow> string \<Rightarrow> ActivationReceipt \<Rightarrow> unit tx" where
  "writeActivationReceipt env planPath receipt = writeJSONAtomic env (receipt_path planPath) (ReceiptDoc receipt True)"

definition readActivationReceipt :: "tx_env \<Rightarrow> string \<Rightarrow> ActivationPlan \<Rightarrow> ActivationReceipt tx" where
  "readActivationReceipt env planPath plan =
     then_ok (readJSONStrict env (receipt_path planPath) receipt_of) (\<lambda>(receipt, utc).
       ret (if receipt \<noteq> receiptForPlan plan (arc_CommittedAt receipt) \<or> is_zero (arc_CommittedAt receipt) \<or> \<not> utc
            then Inl (failure ''activation receipt does not match the confirmed plan'') else Inr receipt))"

section \<open>Activate\<close>

text \<open>\<open>errors.Is(err, os.ErrNotExist)\<close> makes the result None, other errors stay.\<close>

definition unless_missing :: "'a tx \<Rightarrow> 'a option tx" where
  "unless_missing m = then_p m (\<lambda>r. ret (case r of
     Inr x \<Rightarrow> Inr (Some x) | Inl e \<Rightarrow> if is_not_exist e then Inr None else Inl e))"

definition ready_root :: "tx_env \<Rightarrow> ActivationPlan \<Rightarrow> unit tx" where
  "ready_root env plan =
     (if ap_Transition plan = ''install'' then os_MkdirAll env (ap_ManagedRoot plan)
      else then_ok (os_Stat env (ap_ManagedRoot plan)) (\<lambda>n.
        ret (if n \<noteq> NDir then Inl (failure ''managed root is not a directory'') else Inr ())))"

definition safe_targets :: "tx_env \<Rightarrow> ActivationPlan \<Rightarrow> unit tx" where
  "safe_targets env plan =
     then_ok (ensureSafePath env (ap_ManagedRoot plan) (activeCLI plan)) (\<lambda>_.
     then_ok (ensureSafePath env (ap_ManagedRoot plan) (bundleTarget plan)) (\<lambda>_.
     if runtimeTarget plan = [] then ret (Inr ())
     else ensureSafePath env (ap_ManagedRoot plan) (runtimeTarget plan)))"

text \<open>The installed state must fit the transition.\<close>

definition check_source :: "tx_env \<Rightarrow> ActivationPlan \<Rightarrow> InstallState option \<Rightarrow> unit tx" where
  "check_source env plan current =
     (if ap_Transition plan = ''install'' then
        (if current \<noteq> None then ret (Inl (failure ''first-install activation found an existing installed state''))
         else then_ok (unless_missing (os_Lstat env (activeCLI plan))) (\<lambda>n.
           ret (if n \<noteq> None then Inl (failure ''first-install activation found an existing active CLI'') else Inr ())))
      else
        (if (case current of None \<Rightarrow> True | Some s \<Rightarrow> \<not> stateMatchesSource s plan)
         then ret (Inl (failure ''installed state changed after update confirmation''))
         else then_ok (map_error (wrapped ''active CLI is unavailable before update: %w'') (os_Lstat env (activeCLI plan))) (\<lambda>n.
           ret (case n of NFile _ _ \<Rightarrow> Inr () | _ \<Rightarrow> Inl (failure ''active CLI must be a regular file before update'')))))"

definition activation_checks :: "tx_env \<Rightarrow> ActivationPlan \<Rightarrow> InstallState option tx" where
  "activation_checks env plan =
     then_ok (safe_targets env plan) (\<lambda>_.
     then_ok (unless_missing (os_Stat env (bundleTarget plan))) (\<lambda>existing.
     if existing \<noteq> None then ret (Inl (failure ''bundle version already exists''))
     else then_ok (unless_missing (ReadStateForManagedRoot env (ap_DataRoot plan) (ap_ManagedRoot plan))) (\<lambda>current.
          then_ok (check_source env plan current) (\<lambda>_. ret (Inr current)))))"

definition make_parents :: "tx_env \<Rightarrow> ActivationPlan \<Rightarrow> unit tx" where
  "make_parents env plan =
     then_ok (os_MkdirAll env (filepath_Dir (activeCLI plan))) (\<lambda>_.
     then_ok (os_MkdirAll env (filepath_Dir (bundleTarget plan))) (\<lambda>_.
     if runtimeTarget plan = [] then ret (Inr ()) else os_MkdirAll env (filepath_Dir (runtimeTarget plan))))"

text \<open>Moving the active CLI away; the empty string when there is none.\<close>

definition back_up :: "tx_env \<Rightarrow> ActivationPlan \<Rightarrow> string tx" where
  "back_up env plan =
     then_ok (unless_missing (os_Stat env (activeCLI plan))) (\<lambda>n.
       if n = None then ret (Inr [])
       else then_ok (os_MkdirAll env (filepath_Dir (backup_path plan))) (\<lambda>_.
            then_ok (map_error (wrapped ''backup active CLI: %w'') (os_Rename env (activeCLI plan) (backup_path plan)))
              (\<lambda>_. ret (Inr (backup_path plan)))))"

text \<open>Putting back what was there; its own errors are dropped.\<close>

definition restore :: "tx_env \<Rightarrow> ActivationPlan \<Rightarrow> string \<Rightarrow> unit tx" where
  "restore env plan backup =
     then_p (os_Remove env (activeCLI plan)) (\<lambda>_.
     then_p (if backup = [] then ret (Inr ()) else os_Rename env backup (activeCLI plan)) (\<lambda>_.
     then_p (os_RemoveAll env (bundleTarget plan)) (\<lambda>_.
     then_p (if runtimeTarget plan = [] then ret (Inr ()) else os_RemoveAll env (runtimeTarget plan)) (\<lambda>_.
       ret (Inr ())))))"

definition next_state :: "ActivationPlan \<Rightarrow> InstallState option \<Rightarrow> string \<Rightarrow> time \<Rightarrow> InstallState" where
  "next_state plan current backup activatedAt =
     target_state plan (map_option (\<lambda>s. snapshot_of s backup) current) activatedAt"

definition switch_payload :: "tx_env \<Rightarrow> ActivationPlan \<Rightarrow> InstallState option \<Rightarrow> time \<Rightarrow> string \<Rightarrow> unit tx" where
  "switch_payload env plan current activatedAt backup =
     on_failure
       (then_ok (map_error (wrapped ''activate bundle: %w'') (os_Rename env (pendingBundle plan) (bundleTarget plan))) (\<lambda>_.
        then_ok (if runtimeTarget plan = [] then ret (Inr ())
          else map_error (wrapped ''activate MarkItDown runtime pack: %w'')
            (os_Rename env (pendingRuntime plan) (runtimeTarget plan))) (\<lambda>_.
        then_ok (map_error (wrapped ''activate CLI: %w'') (os_Rename env (pendingCLI plan) (activeCLI plan))) (\<lambda>_.
        then_ok (map_error (wrapped ''activated CLI self-check failed: %w'')
          (commandSelfCheck env (activeCLI plan) (ap_CLIVersion plan))) (\<lambda>_.
        map_error (wrapped ''commit install state: %w'')
          (WriteState env (ap_DataRoot plan) (next_state plan current backup activatedAt)))))))
       (restore env plan backup)"

text \<open>The deferred removals run in the reverse order of the calls they follow.\<close>

definition install_payload :: "tx_env \<Rightarrow> ActivationPlan \<Rightarrow> InstallState option \<Rightarrow> time \<Rightarrow> unit tx" where
  "install_payload env plan current activatedAt =
     then_ok (make_parents env plan) (\<lambda>_.
     then_ok (ensureSafePath env (ap_ManagedRoot plan) (pendingCLI plan)) (\<lambda>_.
     then_ok (copyVerifiedRegular env (ap_StagedCLI plan) (pendingCLI plan) (ap_CLISize plan) (ap_CLISHA256 plan)) (\<lambda>_.
     deferred
       (then_ok (ensureSafePath env (ap_ManagedRoot plan) (pendingBundle plan)) (\<lambda>_.
        then_ok (extractVerifiedBundleArchive env (ap_StagedBundleArchive plan) (pendingBundle plan)
          (ap_BundleSize plan) (ap_BundleSHA256 plan)) (\<lambda>_.
        deferred
          (if runtimeTarget plan = [] then
             then_ok (back_up env plan) (\<lambda>backup. switch_payload env plan current activatedAt backup)
           else
             then_ok (ensureSafePath env (ap_ManagedRoot plan) (pendingRuntime plan)) (\<lambda>_.
             then_ok (extractVerifiedBundleArchive env (ap_StagedRuntimePack plan) (pendingRuntime plan)
               (ap_RuntimePackSize plan) (ap_RuntimePackSHA256 plan)) (\<lambda>_.
             deferred
               (then_ok (back_up env plan) (\<lambda>backup. switch_payload env plan current activatedAt backup))
               (\<lambda>_. os_RemoveAll env (pendingRuntime plan)))))
          (\<lambda>_. os_RemoveAll env (pendingBundle plan)))))
       (\<lambda>_. os_Remove env (pendingCLI plan)))))"

text \<open>An update leaves its intent before it changes the managed root, and takes it back when it fails.\<close>

definition activate_locked :: "tx_env \<Rightarrow> string \<Rightarrow> ActivationPlan \<Rightarrow> unit tx" where
  "activate_locked env planPath plan =
     then_ok (activation_checks env plan) (\<lambda>current.
       if ap_Transition plan = ''update'' then
         then_ok (map_error (wrapped ''write activation intent: %w'')
           (writeActivationReceipt env planPath (receiptForPlan plan (te_Now env)))) (\<lambda>_.
         on_failure (install_payload env plan current (te_Now env)) (os_Remove env (receipt_path planPath)))
       else install_payload env plan current (te_Now env))"

definition Activate :: "tx_env \<Rightarrow> string \<Rightarrow> VerifiedRelease \<Rightarrow> PrepareOptions \<Rightarrow> unit tx" where
  "Activate env planPath v o' =
     then_ok (ValidatePrepared env planPath v o') (\<lambda>plan.
     then_ok (ready_root env plan) (\<lambda>_.
     then_ok (acquireLock env (ap_ManagedRoot plan)) (\<lambda>_.
     deferred (activate_locked env planPath plan) (\<lambda>_. unlock env (ap_ManagedRoot plan)))))"

section \<open>Reconciliation\<close>

definition validateReconciliationPlan :: "tx_env \<Rightarrow> string \<Rightarrow> PrepareOptions \<Rightarrow> ActivationPlan tx" where
  "validateReconciliationPlan env planPath o' =
     then_ok (ReadPlan env planPath) (\<lambda>plan.
     then_ok (validatePlan env planPath plan) (\<lambda>_.
     then_ok (normalizedRoots env (po_ManagedRoot o') (po_DataRoot o')) (\<lambda>(managedRoot, dataRoot).
       ret (if po_Transition o' \<noteq> ''update'' \<or> ap_Transition plan \<noteq> po_Transition o'
               \<or> ap_ConfirmationPlanID plan \<noteq> po_ConfirmationPlanID o' \<or> ap_FromRelease plan \<noteq> po_FromRelease o'
               \<or> ap_FromChannel plan \<noteq> po_FromChannel o' \<or> ap_FromCLIVersion plan \<noteq> po_FromCLIVersion o'
               \<or> ap_FromBundleVersion plan \<noteq> po_FromBundleVersion o' \<or> ap_TargetOS plan \<noteq> po_TargetOS o'
               \<or> ap_TargetArch plan \<noteq> po_TargetArch o' \<or> ap_ManagedRoot plan \<noteq> managedRoot \<or> ap_DataRoot plan \<noteq> dataRoot
            then Inl (failure ''activation reconciliation options do not match the confirmed plan'')
            else Inr plan))))"

definition verifyActivatedPayload :: "tx_env \<Rightarrow> ActivationPlan \<Rightarrow> unit tx" where
  "verifyActivatedPayload env plan =
     then_ok (map_error (wrapped ''reconcile active CLI: %w'')
       (verifyRegularFile env (activeCLI plan) (ap_CLISize plan) (ap_CLISHA256 plan))) (\<lambda>_.
     then_ok (os_MkdirTemp env (filepath_Join [ap_DataRoot plan, ''updates'']) ''.reconcile-bundle-'') (\<lambda>expectedBundle.
     deferred
       (then_ok (map_error (wrapped ''reconcile signed bundle: %w'')
          (extractVerifiedBundleArchive env (ap_StagedBundleArchive plan) expectedBundle
            (ap_BundleSize plan) (ap_BundleSHA256 plan))) (\<lambda>_.
        then_ok (equalTrees env expectedBundle (bundleTarget plan)) (\<lambda>equal.
          ret (if \<not> equal then Inl (failure ''installed bundle does not match the committed activation receipt'') else Inr ()))))
       (\<lambda>_. os_RemoveAll env expectedBundle)))"

definition remove_if_there :: "tx_env \<Rightarrow> string \<Rightarrow> unit tx" where
  "remove_if_there env p = then_ok (unless_missing (os_Remove env p)) (\<lambda>_. ret (Inr ()))"

definition restore_cli :: "tx_env \<Rightarrow> ActivationPlan \<Rightarrow> ActivationReceipt \<Rightarrow> unit tx" where
  "restore_cli env plan receipt =
     then_p (os_Lstat env (arc_SourceCLIBackup receipt)) (\<lambda>r.
       case r of
         Inr (NFile _ _) \<Rightarrow>
           then_ok (remove_if_there env (activeCLI plan)) (\<lambda>_.
             os_Rename env (arc_SourceCLIBackup receipt) (activeCLI plan))
       | Inr _ \<Rightarrow> ret (Inl (failure ''interrupted activation backup is not a regular file''))
       | Inl e \<Rightarrow>
           if \<not> is_not_exist e then ret (Inl e)
           else then_p (os_Lstat env (activeCLI plan)) (\<lambda>a.
             ret (case a of
               Inl _ \<Rightarrow> Inl (failure ''interrupted activation has neither source CLI nor its backup'')
             | Inr (NFile _ _) \<Rightarrow> Inr ()
             | Inr _ \<Rightarrow> Inl (failure ''interrupted activation source CLI is not a regular file''))))"

definition restoreInterruptedActivation :: "tx_env \<Rightarrow> ActivationPlan \<Rightarrow> ActivationReceipt \<Rightarrow> unit tx" where
  "restoreInterruptedActivation env plan receipt =
     then_ok (restore_cli env plan receipt) (\<lambda>_.
     then_ok (os_RemoveAll env (bundleTarget plan)) (\<lambda>_.
     then_ok (os_RemoveAll env (pendingBundle plan)) (\<lambda>_.
     then_ok (remove_if_there env (pendingCLI plan)) (\<lambda>_.
       remove_if_there env (filepath_Join [filepath_Dir (filepath_Dir (ap_StagedCLI plan)), ReceiptName])))))"

text \<open>The activation of a plan whose state is still the source.\<close>

definition finish_or_restore :: "tx_env \<Rightarrow> ActivationPlan \<Rightarrow> ActivationReceipt \<Rightarrow> InstallState \<Rightarrow> bool tx" where
  "finish_or_restore env plan receipt current =
     then_p (verifyActivatedPayload env plan) (\<lambda>payload.
     then_p (os_Lstat env (arc_SourceCLIBackup receipt)) (\<lambda>backup.
       if payload = Inr () \<and> (case backup of Inr (NFile _ _) \<Rightarrow> True | _ \<Rightarrow> False) then
         then_p (commandSelfCheck env (activeCLI plan) (ap_CLIVersion plan)) (\<lambda>checked.
           case checked of
             Inl _ \<Rightarrow>
               then_ok (map_error (wrapped ''interrupted activation failed its CLI self-check and could not be restored: %w'')
                 (restoreInterruptedActivation env plan receipt)) (\<lambda>_. ret (Inr False))
           | Inr _ \<Rightarrow>
               then_ok (map_error (wrapped ''complete interrupted activation state: %w'')
                 (WriteState env (ap_DataRoot plan) (committedTargetState plan current (arc_CommittedAt receipt))))
                 (\<lambda>_. ret (Inr True)))
       else
         then_ok (map_error (wrapped ''interrupted activation could not be restored: %w'')
           (restoreInterruptedActivation env plan receipt)) (\<lambda>_. ret (Inr False))))"

definition reconcile_locked :: "tx_env \<Rightarrow> ActivationPlan \<Rightarrow> ActivationReceipt \<Rightarrow> string \<Rightarrow> string \<Rightarrow> bool tx" where
  "reconcile_locked env plan receipt dataRoot managedRoot =
     then_ok (ReadStateForManagedRoot env dataRoot managedRoot) (\<lambda>current.
       if stateMatchesSource current plan then finish_or_restore env plan receipt current
       else if \<not> stateMatchesCommittedTarget current plan receipt
       then ret (Inl (failure ''installed state matches neither the update source nor its committed target''))
       else then_ok (verifyActivatedPayload env plan) (\<lambda>_. ret (Inr True)))"

definition ReconcileActivated :: "tx_env \<Rightarrow> string \<Rightarrow> PrepareOptions \<Rightarrow> bool tx" where
  "ReconcileActivated env planPath o' =
     then_ok (validateReconciliationPlan env planPath o') (\<lambda>plan.
     then_ok (unless_missing (readActivationReceipt env planPath plan)) (\<lambda>receipt.
     then_ok (acquireReconciliationLock env (ap_ManagedRoot plan)) (\<lambda>_.
     deferred
       (case receipt of
          None \<Rightarrow> ret (Inr False)
        | Some r \<Rightarrow> reconcile_locked env plan r (po_DataRoot o') (po_ManagedRoot o'))
       (\<lambda>_. unlock env (ap_ManagedRoot plan)))))"

text \<open>\<open>ValidateReconciliation\<close>: whether there is an activation to reconcile, with an error or without.\<close>

definition ValidateReconciliation :: "tx_env \<Rightarrow> string \<Rightarrow> PrepareOptions \<Rightarrow> (tx_doc, bool \<times> fs_error option) prog" where
  "ValidateReconciliation env planPath o' =
     then_p (validateReconciliationPlan env planPath o') (\<lambda>p.
       case p of
         Inl e \<Rightarrow> ret (False, Some e)
       | Inr plan \<Rightarrow>
           then_p (readActivationReceipt env planPath plan) (\<lambda>r.
             case r of
               Inl e \<Rightarrow> ret (if is_not_exist e then (False, None) else (True, Some e))
             | Inr receipt \<Rightarrow>
                 then_p (ReadStateForManagedRoot env (po_DataRoot o') (po_ManagedRoot o')) (\<lambda>s.
                   ret (case s of
                     Inl e \<Rightarrow> (True, Some e)
                   | Inr current \<Rightarrow>
                       if stateMatchesSource current plan \<or> stateMatchesCommittedTarget current plan receipt
                       then (True, None)
                       else (True, Some (failure ''installed state matches neither the update source nor its committed target''))))))"

section \<open>Rollback\<close>

definition rollback_allowed :: "InstallState \<Rightarrow> Snapshot \<Rightarrow> fs_error + unit" where
  "rollback_allowed current previous =
     bind_r (lift_go (wrap_error ''validate rollback release authority: %w'' (IsExpired (ist_Release current)))) (\<lambda>currentExpired.
     bind_r (lift_go (wrap_error ''validate previous rollback release authority: %w'' (IsExpired (sp_Release previous)))) (\<lambda>previousExpired.
       fail_if ((currentExpired \<or> ist_RoleAuthority current = canonical_role)
           \<and> (\<not> previousExpired \<or> sp_RoleAuthority previous \<noteq> canonical_role))
         (failure ''rollback would reactivate a legacy agent authority after alias expiry'')))"

definition rollback_state :: "InstallState \<Rightarrow> Snapshot \<Rightarrow> string \<Rightarrow> string \<Rightarrow> time \<Rightarrow> InstallState" where
  "rollback_state current previous managedRoot revertedBackup now =
     \<lparr>ist_SchemaVersion = 2, ist_ManagedRoot = managedRoot, ist_Release = sp_Release previous,
      ist_Channel = sp_Channel previous, ist_CLIVersion = sp_CLIVersion previous,
      ist_BundleVersion = sp_BundleVersion previous, ist_TargetOS = sp_TargetOS previous,
      ist_TargetArch = sp_TargetArch previous, ist_RoleAuthority = sp_RoleAuthority previous,
      ist_MigrationID = sp_MigrationID previous, ist_CatalogSHA256 = sp_CatalogSHA256 previous,
      ist_PolicySHA256 = sp_PolicySHA256 previous, ist_ActivatedAt = now,
      ist_Previous = Some (snapshot_of current revertedBackup)\<rparr>"

definition reverted_backup :: "tx_env \<Rightarrow> string \<Rightarrow> InstallState \<Rightarrow> string" where
  "reverted_backup env managedRoot current =
     filepath_Join [managedRoot, ''recovery'', ''cli'', ist_CLIVersion current @ ''-rollback-'' @ show_int (te_Now env),
       executableName (ist_TargetOS current)]"

text \<open>The exchange of the two files, and the way back from each of its failures.\<close>

definition swap_cli :: "tx_env \<Rightarrow> string \<Rightarrow> string \<Rightarrow> InstallState \<Rightarrow> Snapshot \<Rightarrow> string \<Rightarrow> unit tx" where
  "swap_cli env managedRoot dataRoot current previous reverted =
     (let active = active_cli managedRoot (ist_TargetOS current)
      in then_ok (os_Rename env active reverted) (\<lambda>_.
         then_ok (on_failure (os_Rename env (sp_CLIBackup previous) active) (os_Rename env reverted active)) (\<lambda>_.
         then_ok (on_failure
           (map_error (wrapped ''rolled-back CLI self-check failed: %w'') (commandSelfCheck env active (sp_CLIVersion previous)))
           (then_p (os_Remove env active) (\<lambda>_. os_Rename env reverted active))) (\<lambda>_.
         on_failure
           (map_error (wrapped ''commit rollback state: %w'')
             (WriteState env dataRoot (rollback_state current previous managedRoot reverted (te_Now env))))
           (then_p (os_Rename env active (sp_CLIBackup previous)) (\<lambda>_. os_Rename env reverted active))))))"

definition rollback_locked :: "tx_env \<Rightarrow> string \<Rightarrow> string \<Rightarrow> InstallState \<Rightarrow> Snapshot \<Rightarrow> unit tx" where
  "rollback_locked env managedRoot dataRoot current previous =
     (let reverted = reverted_backup env managedRoot current
      in then_ok (ensureSafePath env managedRoot (active_cli managedRoot (ist_TargetOS current))) (\<lambda>_.
         then_ok (map_error (wrapped ''previous CLI backup unavailable: %w'') (os_Lstat env (sp_CLIBackup previous))) (\<lambda>_.
         then_ok (ensureSafePath env managedRoot reverted) (\<lambda>_.
         then_ok (os_MkdirAll env (filepath_Dir reverted)) (\<lambda>_.
           swap_cli env managedRoot dataRoot current previous reverted)))))"

definition rollback_from :: "tx_env \<Rightarrow> string \<Rightarrow> string \<Rightarrow> InstallState \<Rightarrow> unit tx" where
  "rollback_from env managedRoot dataRoot current =
     (case ist_Previous current of
        None \<Rightarrow> ret (Inl (failure ''no previous Maestro installation is available''))
      | Some previous \<Rightarrow>
          then_ok (ret (rollback_allowed current previous)) (\<lambda>_.
          then_ok (map_error (wrapped ''previous CLI backup is outside the managed root: %w'')
            (ensureSafePath env managedRoot (sp_CLIBackup previous))) (\<lambda>_.
          then_ok (acquireLock env managedRoot) (\<lambda>_.
          deferred (rollback_locked env managedRoot dataRoot current previous) (\<lambda>_. unlock env managedRoot)))))"

definition Rollback :: "tx_env \<Rightarrow> string \<Rightarrow> string \<Rightarrow> unit tx" where
  "Rollback env managedRoot0 dataRoot0 =
     then_ok (normalizedRoots env managedRoot0 dataRoot0) (\<lambda>(managedRoot, dataRoot).
     then_ok (ReadStateForManagedRoot env dataRoot managedRoot) (\<lambda>current.
       rollback_from env managedRoot dataRoot current))"

end
