(* ===== verification/InstallFacts.thy ===== *)
theory InstallFacts
  imports InstallTx
begin

text \<open>
  What the calls and the files of an installation touch: every step of a program changes only the
  entries that its footprint names, the checks and readers none.
\<close>

section \<open>Calls of the operating system\<close>

lemma touches_steps: "(\<And>d e. e \<in> set (snd (m d)) \<Longrightarrow> agree F d e) \<Longrightarrow> touches F m"
  by (simp add: touches_def)

lemma agree_update: "F q \<Longrightarrow> agree F d (AList.update q n d)"
  by (auto simp: agree_def)

lemma agree_delete: "F q \<Longrightarrow> agree F d (AList.delete q d)"
  by (auto simp: agree_def)

lemma agree_sym: "agree F d e \<Longrightarrow> agree F e d"
  by (simp add: agree_def)

lemma make_dirs_agree:
  "e \<in> set (snd (make_dirs pre cs d)) \<Longrightarrow> agree (\<lambda>q. prefix q (pre @ cs) \<and> strict_prefix pre q) d e"
proof (induction pre cs d arbitrary: e rule: make_dirs.induct)
  case (2 pre c cs d)
  let ?F = "\<lambda>q. prefix q (pre @ c # cs) \<and> strict_prefix pre q"
  have weak: "agree (\<lambda>q. prefix q ((pre @ [c]) @ cs) \<and> strict_prefix (pre @ [c]) q) x y \<Longrightarrow> agree ?F x y" for x y :: "'a disk"
    by (erule agree_mono) (auto simp: strict_prefix_def intro: append_prefixD)
  have here: "?F (pre @ [c])" by (auto simp: strict_prefix_def)
  show ?case
  proof (cases "node_at d (pre @ [c])")
    case None
    let ?d = "AList.update (pre @ [c]) NDir d"
    have first: "agree ?F d ?d" using here by (rule agree_update)
    from 2(4) None have "e = ?d \<or> e \<in> set (snd (make_dirs (pre @ [c]) cs ?d))"
      by (auto simp: Let_def split: prod.splits)
    then show ?thesis using 2(1) [OF None refl] first weak agree_trans by blast
  next
    case (Some n)
    with 2 weak show ?thesis by (cases n) auto
  qed
qed simp

lemma touches_MkdirAll: "touches (\<lambda>q. prefix q (path_parts p)) (os_MkdirAll env p)"
  unfolding os_MkdirAll_def
  by (intro touches_syscall touches_steps) (auto dest!: make_dirs_agree elim!: agree_mono)

lemma removals_agree: "e \<in> set (removals qs d) \<Longrightarrow> agree (\<lambda>q. q \<in> set qs) d e"
proof (induction qs d rule: removals.induct)
  case (2 q qs d)
  have "agree (\<lambda>r. r \<in> set (q # qs)) d (AList.delete q d)" by (rule agree_delete) simp
  moreover have "agree (\<lambda>r. r \<in> set qs) x y \<Longrightarrow> agree (\<lambda>r. r \<in> set (q # qs)) x y" for x y :: "'a disk"
    by (erule agree_mono) simp
  ultimately show ?case using 2 agree_trans by (fastforce simp: Let_def)
qed simp

lemma touches_RemoveAll: "touches (\<lambda>q. prefix (path_parts p) q) (os_RemoveAll env p)"
  unfolding os_RemoveAll_def
  by (intro touches_syscall touches_steps) (auto dest!: removals_agree elim!: agree_mono)

lemma touches_Remove: "touches (\<lambda>q. q = path_parts p) (os_Remove env p)"
  unfolding os_Remove_def
  by (intro touches_syscall touches_steps) (auto split: option.splits if_splits intro: agree_delete)

lemma touches_Create: "touches (\<lambda>q. q = path_parts p) (os_Create env p)"
  unfolding os_Create_def
  by (intro touches_syscall touches_steps) (auto split: if_splits intro: agree_update)

lemma touches_Write: "touches (\<lambda>q. q = path_parts p) (os_Write env p b)"
  unfolding os_Write_def by (intro touches_syscall touches_steps) (auto intro: agree_update)

lemma touches_Replace: "touches (\<lambda>q. q = path_parts p) (os_Replace env p b doc)"
  unfolding os_Replace_def
  by (intro touches_syscall touches_steps) (auto split: if_splits intro: agree_update)

lemma rename_error_None:
  assumes "rename_error d a b = None" "a \<noteq> b"
  shows "node_at d a \<noteq> None" "\<not> prefix a b" "node_at d a \<noteq> Some NDir \<Longrightarrow> node_at d b \<noteq> Some NDir"
  using assms by (auto simp: rename_error_def strict_prefix_def split: option.splits if_splits node.splits)

lemma move_agree: "agree (\<lambda>q. prefix a q \<or> prefix b q) d (move_under a b d)"
proof -
  have "node_at (move_under a b d) q = node_at d q" if "\<not> prefix a q" "\<not> prefix b q" for q
  proof (induction d)
    case (Cons kn d)
    obtain k n where "kn = (k, n)" by force
    moreover have "b @ x \<noteq> q" for x using that(2) by auto
    ultimately show ?case using Cons that by (auto simp: move_under_def clear_under_def)
  qed (simp add: move_under_def clear_under_def)
  then show ?thesis by (simp add: agree_def)
qed

lemma touches_Rename: "touches (\<lambda>q. prefix (path_parts p) q \<or> prefix (path_parts p') q) (os_Rename env p p')"
  unfolding os_Rename_def
  by (intro touches_syscall touches_steps) (auto split: option.splits if_splits intro: move_agree)

lemma touches_MkdirTemp: "touches (\<lambda>q. q = path_parts (filepath_Join [dir, pre @ te_TempName env])) (os_MkdirTemp env dir pre)"
  unfolding os_MkdirTemp_def Let_def
  by (intro touches_syscall touches_steps) (auto split: if_splits intro: agree_update)

section \<open>Readers\<close>

text \<open>A program that only reads leaves no disk behind.\<close>

definition quiet :: "('d, 'a) prog \<Rightarrow> bool" where
  "quiet m \<longleftrightarrow> (\<forall>d. snd (m d) = [])"

lemma quiet_run: "quiet m \<Longrightarrow> m d = (fst (m d), [])"
  by (metis prod.collapse quiet_def)

named_theorems quiet \<open>programs that only read\<close>

lemma quiet_basics [quiet, simp]: "quiet (ret x)" "quiet (reads g)"
  by (simp_all add: quiet_def ret_def reads_def)

lemma quiet_then [quiet]: "quiet m \<Longrightarrow> (\<And>x. quiet (f x)) \<Longrightarrow> quiet (then_p m f)"
  unfolding quiet_def then_p_def by (auto split: prod.splits) (metis prod.inject quiet_def quiet_run)+

lemma quiet_then_ok [quiet]: "quiet m \<Longrightarrow> (\<And>x. quiet (f x)) \<Longrightarrow> quiet (then_ok m f)"
  unfolding then_ok_def by (rule quiet_then) (auto split: sum.splits)

lemma quiet_map_error [quiet]: "quiet m \<Longrightarrow> quiet (map_error g m)"
  unfolding map_error_def by (intro quiet_then quiet_basics)

lemma quiet_syscall [quiet]: "quiet m \<Longrightarrow> quiet (syscall env n p m)"
  by (auto simp: quiet_def syscall_def split: option.splits)

lemma quiet_calls [quiet, simp]: "quiet (os_Lstat env p)" "quiet (os_Stat env p)" "quiet (os_ReadFile env p)"
  unfolding os_Lstat_def os_Stat_def os_ReadFile_def by (intro quiet)+

lemma touches_quiet: "quiet m \<Longrightarrow> touches F m"
  by (simp add: quiet_def touches_def)

text \<open>Its result is a function of the disk.\<close>

lemma holds_quiet: "quiet m \<Longrightarrow> Q (fst (m d)) d \<Longrightarrow> holds I m Q d"
  by (simp add: holds_def quiet_def)

lemma holds_read_ok:
  assumes "quiet m" "\<And>er. fst (m d) = Inl er \<Longrightarrow> Q (Inl er) d" "\<And>x. fst (m d) = Inr x \<Longrightarrow> holds I (f x) Q d"
  shows "holds I (then_ok m f) Q d"
  by (rule holds_then_ok [where R = "\<lambda>r e. e = d \<and> r = fst (m d)"]) (use assms in \<open>auto intro: holds_quiet\<close>)

lemma holds_read:
  assumes "quiet m" "\<And>x. fst (m d) = x \<Longrightarrow> holds I (f x) Q d"
  shows "holds I (then_p m f) Q d"
  by (rule holds_then [where R = "\<lambda>r e. e = d \<and> r = fst (m d)"]) (use assms in \<open>auto intro: holds_quiet\<close>)

lemma quiet_if [quiet]: "quiet a \<Longrightarrow> quiet b \<Longrightarrow> quiet (if c then a else b)"
  by simp

lemma quiet_trusted_ancestor [quiet, simp]: "quiet (trusted_ancestor env cs)"
  by (induction cs) (auto intro!: quiet split: sum.splits node.splits)

lemma quiet_safe_components [quiet, simp]: "quiet (safe_components env cur cs)"
  by (induction cs arbitrary: cur) (auto intro!: quiet split: sum.splits)

lemma quiet_ensureSafePath [quiet, simp]: "quiet (ensureSafePath env r p)"
  unfolding ensureSafePath_def Let_def trusted_root_def by (intro quiet)

lemma quiet_normalizedRoots [quiet, simp]: "quiet (normalizedRoots env m d)"
  unfolding normalizedRoots_def Let_def by (intro quiet)

lemma quiet_readJSON [quiet, simp]: "quiet (readJSONStrict env p f)"
  unfolding readJSONStrict_def by (auto intro!: quiet split: prod.splits option.splits)

lemma quiet_check_roots [quiet, simp]: "quiet (check_state_roots env d m b s)"
  unfolding check_state_roots_def by (intro quiet)

lemma quiet_openRegular [quiet, simp]: "quiet (openRegular env p n)"
  unfolding openRegular_def by (auto intro!: quiet split: prod.splits node.splits)

lemma quiet_verifyRegular [quiet, simp]: "quiet (verifyRegularFile env p n h)"
  unfolding verifyRegularFile_def by (intro quiet)

lemma quiet_treeIdentity [quiet, simp]: "quiet (treeIdentity env p)"
  unfolding treeIdentity_def by (intro quiet)

lemma quiet_equalTrees [quiet, simp]: "quiet (equalTrees env l r)"
  unfolding equalTrees_def by (intro quiet)

lemma quiet_selfCheck [quiet, simp]: "quiet (commandSelfCheck env p v)"
  unfolding commandSelfCheck_def by (auto intro!: quiet split: prod.splits)

lemma quiet_unless_missing [quiet]: "quiet m \<Longrightarrow> quiet (unless_missing m)"
  unfolding unless_missing_def by (intro quiet)

lemma quiet_readReceipt [quiet, simp]: "quiet (readActivationReceipt env p plan)"
  unfolding readActivationReceipt_def by (auto intro!: quiet split: prod.splits)

lemma quiet_validatePlan [quiet, simp]: "quiet (validatePlan env p plan)"
  unfolding validatePlan_def canonical_roots_def by (intro quiet)

lemma quiet_ReadPlan [quiet, simp]: "quiet (ReadPlan env p)"
  unfolding ReadPlan_def by (intro quiet)

lemma quiet_verify_staged [quiet, simp]: "quiet (verify_staged env d plan b)"
  unfolding verify_staged_def by (intro quiet)

lemma quiet_ValidatePrepared [quiet, simp]: "quiet (ValidatePrepared env p v o')"
  unfolding ValidatePrepared_def by (auto intro!: quiet split: prod.splits)

lemma quiet_validateReconciliation [quiet, simp]: "quiet (validateReconciliationPlan env p o')"
  unfolding validateReconciliationPlan_def by (auto intro!: quiet split: prod.splits)

lemma touches_if [footprint]: "touches F a \<Longrightarrow> touches F b \<Longrightarrow> touches F (if c then a else b)"
  by simp

lemmas touches_readers [footprint, simp] =
  quiet_ensureSafePath [THEN touches_quiet] quiet_normalizedRoots [THEN touches_quiet] quiet_openRegular [THEN touches_quiet]
  quiet_equalTrees [THEN touches_quiet] quiet_selfCheck [THEN touches_quiet]

lemma quiet_step:
  assumes "quiet m"
  shows "fst (then_ok m f d) = (case fst (m d) of Inl e \<Rightarrow> Inl e | Inr x \<Rightarrow> fst (f x d))"
    "fst (then_p m g d) = fst (g (fst (m d)) d)"
    "fst (map_error h m d) = (case fst (m d) of Inl e \<Rightarrow> Inl (h e) | Inr x \<Rightarrow> Inr x)"
  using quiet_run [OF assms, of d]
  by (cases "m d"; auto simp: then_ok_def then_p_def map_error_def ret_def split: prod.splits sum.splits)+

section \<open>Writers\<close>

lemma touches_on_failure [footprint]: "touches F m \<Longrightarrow> touches F c \<Longrightarrow> touches F (on_failure m c)"
  unfolding on_failure_def by (auto intro!: footprint split: sum.splits)

lemma holds_on_failure:
  assumes "holds I m R d" "\<And>x e. R (Inr x) e \<Longrightarrow> Q (Inr x) e"
    "\<And>er e. R (Inl er) e \<Longrightarrow> holds I c (\<lambda>_. Q (Inl er)) e"
  shows "holds I (on_failure m c) Q d"
  unfolding on_failure_def
proof (rule holds_then [OF assms(1)])
  fix r e
  assume r: "R r e"
  show "holds I (case r of Inl er \<Rightarrow> then_p c (\<lambda>_. ret (Inl er)) | Inr x \<Rightarrow> ret (Inr x)) Q e"
  proof (cases r)
    case (Inl er)
    with r have "holds I c (\<lambda>_. Q (Inl er)) e" by (simp add: assms(3))
    then have "holds I (then_p c (\<lambda>_. ret (Inl er))) Q e" by (rule holds_then) (rule holds_ret)
    then show ?thesis by (simp add: Inl)
  next
    case (Inr x)
    with r show ?thesis by (simp add: assms(2) holds_ret)
  qed
qed

lemma dir_prefix:
  assumes "IsAbs p" "path_clean p = p"
  shows "prefix (path_parts (filepath_Dir p)) (path_parts p)"
proof (cases "path_parts p" rule: rev_cases)
  case Nil
  then have "p = ''/''" using clean_shape [OF assms] by simp
  then show ?thesis by (simp add: filepath_Dir_def path_clean_def path_parts_def clean_parts_def)
next
  case (snoc cs c)
  then show ?thesis using Dir_parts [OF assms snoc] by simp
qed

lemma touches_writeJSON:
  assumes "IsAbs p" "path_clean p = p"
  shows "touches (\<lambda>q. prefix q (path_parts p)) (writeJSONAtomic env p doc)"
  unfolding writeJSONAtomic_def
proof (rule touches_then_ok)
  show "touches (\<lambda>q. prefix q (path_parts p)) (os_MkdirAll env (filepath_Dir p))"
    by (rule touches_mono [OF touches_MkdirAll]) (use dir_prefix [OF assms] prefix_order.trans in blast)
  show "touches (\<lambda>q. prefix q (path_parts p)) (os_Replace env p (te_Text env doc) doc)" for x :: unit
    by (rule touches_mono [OF touches_Replace]) simp
qed

lemma touches_copyVerified:
  assumes "IsAbs t" "path_clean t = t"
  shows "touches (\<lambda>q. prefix q (path_parts t)) (copyVerifiedRegular env s t n h)"
proof -
  let ?F = "\<lambda>q. prefix q (path_parts t)"
  have "touches ?F (os_MkdirAll env (filepath_Dir t))"
    by (rule touches_mono [OF touches_MkdirAll]) (use dir_prefix [OF assms] prefix_order.trans in blast)
  moreover have "touches ?F (os_Create env t)" by (rule touches_mono [OF touches_Create]) simp
  moreover have "touches ?F (os_Write env t b)" for b by (rule touches_mono [OF touches_Write]) simp
  moreover have "touches ?F (os_Remove env t)" by (rule touches_mono [OF touches_Remove]) simp
  ultimately show ?thesis unfolding copyVerifiedRegular_def by (intro footprint)
qed

lemma safe_archive_components:
  assumes "safeArchivePath s"
  shows "list_all plain_name (split_on (CHR ''/'') s)" "s \<noteq> []"
proof -
  from assms have "list_all is_proper (split_on (CHR ''/'') s)"
    by (intro clean_relative_components [of s s]) (auto simp: safeArchivePath_def IsAbs_def)
  then show "list_all plain_name (split_on (CHR ''/'') s)"
    using split_on_no_sep [of _ "CHR ''/''" s] by (auto simp: plain_name_def list_all_iff)
  show "s \<noteq> []" using assms by (simp add: safeArchivePath_def)
qed

lemma archive_destination:
  assumes "IsAbs t" "safeArchivePath s"
  shows "path_parts (filepath_Join [t, s]) = path_parts t @ split_on (CHR ''/'') s"
    "IsAbs (filepath_Join [t, s])" "path_clean (filepath_Join [t, s]) = filepath_Join [t, s]"
proof -
  note s = safe_archive_components [OF assms(2)]
  have t: "t \<noteq> []" using assms(1) by (auto simp: IsAbs_def has_prefix_def)
  have join: "filepath_Join [t, s] = path_clean (t @ CHR ''/'' # s)" using s(2) t by (simp add: filepath_Join_def)
  have abs: "IsAbs (t @ CHR ''/'' # s)" using assms(1) by (auto simp: IsAbs_def has_prefix_iff)
  have "list_all is_proper (split_on (CHR ''/'') s)" using s(1) by (auto simp: list_all_iff plain_name_def)
  then show "path_parts (filepath_Join [t, s]) = path_parts t @ split_on (CHR ''/'') s"
    using path_parts_append [of s t] abs by (simp add: join)
  show "IsAbs (filepath_Join [t, s])" "path_clean (filepath_Join [t, s]) = filepath_Join [t, s]"
    using abs by (simp_all add: join IsAbs_clean path_clean_idem)
qed

text \<open>The place of a tree: its ancestors, which are created, and what is in it.\<close>

definition tree_place :: "string list \<Rightarrow> string list \<Rightarrow> bool" where
  "tree_place t q \<longleftrightarrow> prefix q t \<or> prefix t q"

lemma tree_place_above: "prefix q (t @ r) \<Longrightarrow> tree_place t q"
  by (meson tree_place_def prefixI prefix_same_cases)

lemma touches_extract_entry:
  assumes "IsAbs t" "safeArchivePath (entry_name e)"
  shows "touches (tree_place (path_parts t)) (extract_entry env t e)"
proof -
  let ?F = "tree_place (path_parts t)" and ?x = "filepath_Join [t, entry_name e]"
  note x = archive_destination [OF assms]
  have above: "prefix q (path_parts ?x) \<Longrightarrow> ?F q" for q unfolding x(1) by (rule tree_place_above)
  have "touches ?F (os_MkdirAll env ?x)" by (rule touches_mono [OF touches_MkdirAll]) (erule above)
  moreover have "touches ?F (os_MkdirAll env (filepath_Dir ?x))"
    by (rule touches_mono [OF touches_MkdirAll]) (use above dir_prefix [OF x(2,3)] prefix_order.trans in blast)
  moreover have "touches ?F (os_Create env ?x)" by (rule touches_mono [OF touches_Create]) (simp add: above)
  moreover have "touches ?F (os_Write env ?x b)" for b by (rule touches_mono [OF touches_Write]) (simp add: above)
  ultimately show ?thesis
    unfolding extract_entry_def Let_def by (cases e) (auto intro!: footprint)
qed

lemma touches_extract_entries:
  "IsAbs t \<Longrightarrow> touches (tree_place (path_parts t)) (extract_entries env t err n z es)"
  by (induction es arbitrary: n z) (auto simp: Let_def intro!: footprint touches_extract_entry)

lemma touches_extractVerified:
  assumes "IsAbs t"
  shows "touches (tree_place (path_parts t)) (extractVerifiedBundleArchive env s t n h)"
proof -
  have "touches (tree_place (path_parts t)) (os_RemoveAll env t)"
    by (rule touches_mono [OF touches_RemoveAll]) (simp add: tree_place_def)
  moreover have "touches (tree_place (path_parts t)) (os_MkdirAll env t)"
    by (rule touches_mono [OF touches_MkdirAll]) (simp add: tree_place_def)
  ultimately show ?thesis
    unfolding extractVerifiedBundleArchive_def extractBundle_def
    by (auto intro!: footprint touches_extract_entries [OF assms] split: prod.splits)
qed

lemma touches_acquireLock: "touches (\<lambda>q. q = path_parts (lockPath m)) (acquireLock env m)"
  unfolding acquireLock_def by (intro footprint touches_Create touches_Write touches_Remove)

lemma touches_reconciliationLock: "touches (\<lambda>q. q = path_parts (lockPath m)) (acquireReconciliationLock env m)"
proof -
  have "touches (\<lambda>q. q = path_parts (lockPath m)) (take_stale_lock env m)"
    unfolding take_stale_lock_def
    by (auto intro!: footprint touches_acquireLock touches_Remove split: prod.splits option.splits)
  then show ?thesis
    unfolding acquireReconciliationLock_def by (auto intro!: footprint touches_acquireLock split: sum.splits)
qed

end
