(* ===== verification/InstallLayout.thy ===== *)
theory InstallLayout
  imports InstallFacts
begin

text \<open>
  Where an update keeps its files: the components of every path that \<open>Activate\<close> and
  \<open>ReconcileActivated\<close> use, for a plan in the place that \<open>Prepare\<close> gives it.
\<close>

section \<open>Plans in their place\<close>

definition canonical_path :: "string \<Rightarrow> bool" where
  "canonical_path p \<longleftrightarrow> IsAbs p \<and> path_clean p = p"

definition placed_roots :: "ActivationPlan \<Rightarrow> bool" where
  "placed_roots P \<longleftrightarrow>
     canonical_path (ap_ManagedRoot P) \<and> canonical_path (ap_DataRoot P)
     \<and> \<not> prefix (path_parts (ap_ManagedRoot P)) (path_parts (ap_DataRoot P))
     \<and> \<not> prefix (path_parts (ap_DataRoot P)) (path_parts (ap_ManagedRoot P))"

definition placed :: "string \<Rightarrow> ActivationPlan \<Rightarrow> bool" where
  "placed planPath P \<longleftrightarrow>
     placed_roots P \<and> canonical_path planPath
     \<and> path_parts planPath = path_parts (ap_DataRoot P) @ [''updates'', ap_TransactionID P, PlanName]
     \<and> has_prefix (ap_TransactionID P) ''tx-'' \<and> ap_Transition P = ''update''
     \<and> versionPattern (ap_Release P) \<and> versionPattern (ap_BundleVersion P) \<and> versionPattern (ap_FromCLIVersion P)
     \<and> ap_Release P \<noteq> ap_FromRelease P
     \<and> ap_StagedCLI P = staged_cli (filepath_Dir planPath) (ap_TargetOS P)"

definition managed_parts :: "ActivationPlan \<Rightarrow> string list" where
  "managed_parts P = path_parts (ap_ManagedRoot P)"

definition data_parts :: "ActivationPlan \<Rightarrow> string list" where
  "data_parts P = path_parts (ap_DataRoot P)"

section \<open>Names\<close>

lemma digit_chars [simp]: "is_digit (CHR ''0'')" "\<not> is_digit (CHR ''.'')" "\<not> is_digit (CHR ''/'')"
  by code_simp+

lemma split_last_chars:
  assumes "c \<in> set s" "c \<noteq> d"
  shows "\<exists>w \<in> set (split_on d s). c \<in> set w"
  using assms
proof (induction s)
  case (Cons x s)
  then show ?case by (cases "split_on d s") auto
qed simp

lemma version_chars:
  assumes "versionPattern s" "c \<in> set s"
  shows "is_digit c \<or> c = CHR ''.''"
proof (rule ccontr)
  assume n: "\<not> (is_digit c \<or> c = CHR ''.'')"
  with split_last_chars [OF assms(2)] obtain w where w: "w \<in> set (split_on (CHR ''.'') s)" "c \<in> set w" by blast
  with assms(1) have "version_segment w"
    by (auto simp: versionPattern_def exactVersionPattern_def Let_def list_all_iff split: if_splits)
  with w n show False by (auto simp: version_segment_def list_all_iff)
qed

lemma version_head: "versionPattern s \<Longrightarrow> s \<noteq> [] \<and> is_digit (hd s)"
proof -
  assume v: "versionPattern s"
  then obtain w ws where w: "split_on (CHR ''.'') s = w # ws" "version_segment w"
    by (cases "split_on (CHR ''.'') s") (auto simp: versionPattern_def exactVersionPattern_def Let_def split: if_splits)
  then have "w \<noteq> []" "is_digit (hd w)" by (auto simp: version_segment_def list_all_iff)
  with w(1) show ?thesis by (cases s) (auto split: if_splits list.splits)
qed

lemma version_plain:
  assumes "versionPattern s"
  shows "plain_name s" "plain_name (s @ t)  \<longleftrightarrow> CHR ''/'' \<notin> set t"
proof -
  have "CHR ''/'' \<notin> set s" using version_chars [OF assms] by fastforce
  moreover have "s \<noteq> []" "hd s \<noteq> CHR ''.''" using version_head [OF assms] by auto
  ultimately show "plain_name s" "plain_name (s @ t)  \<longleftrightarrow> CHR ''/'' \<notin> set t"
    by (cases s; auto simp: plain_name_def is_proper_def)+
qed

lemma version_not_dotted: "versionPattern s \<Longrightarrow> s \<noteq> CHR ''.'' # t"
  using version_head [of s] by auto

lemma executable_plain: "plain_name (executableName os)" "plain_name (executableName os @ ''.pending-'' @ t) \<longleftrightarrow> CHR ''/'' \<notin> set t"
  by (auto simp: executableName_def plain_name_def is_proper_def)

lemma transaction_plain:
  assumes "placed pp P"
  shows "CHR ''/'' \<notin> set (ap_TransactionID P)" "plain_name (ap_TransactionID P)"
proof -
  have "ap_TransactionID P \<in> set (path_parts pp)" using assms by (simp add: placed_def)
  then show "plain_name (ap_TransactionID P)" by (rule plain_parts)
  then show "CHR ''/'' \<notin> set (ap_TransactionID P)" by (simp add: plain_name_def)
qed

lemma plain_literals [simp]:
  "plain_name ''bin''" "plain_name ''bundles''" "plain_name ''runtimes''" "plain_name ''markitdown''"
  "plain_name ''recovery''" "plain_name ''cli''" "plain_name ''config''" "plain_name ''updates''"
  "plain_name ''install-state.json''" "plain_name ''.activation.lock''" "plain_name ReceiptName" "plain_name PlanName"
  by (simp_all add: plain_name_def is_proper_def ReceiptName_def PlanName_def)

lemma plain_append: "s \<noteq> [] \<Longrightarrow> is_proper s \<Longrightarrow> CHR ''/'' \<notin> set s \<Longrightarrow> CHR ''/'' \<notin> set t \<Longrightarrow> hd s \<noteq> CHR ''.'' \<Longrightarrow> plain_name (s @ t)"
  by (cases s) (auto simp: plain_name_def is_proper_def)

lemma pending_plain: "CHR ''/'' \<notin> set t \<Longrightarrow> plain_name (''.pending-'' @ t)" "CHR ''/'' \<notin> set t \<Longrightarrow> plain_name (''.reconcile-bundle-'' @ t)"
  by (simp_all add: plain_name_def is_proper_def)

section \<open>Places\<close>

lemma canonical_Join:
  assumes "canonical_path root" "list_all plain_name cs"
  shows "path_parts (filepath_Join (root # cs)) = path_parts root @ cs" "canonical_path (filepath_Join (root # cs))"
proof -
  from assms show "path_parts (filepath_Join (root # cs)) = path_parts root @ cs"
    by (simp add: canonical_path_def parts_Join)
  have "IsAbs (filepath_Join (root # cs))" using assms by (simp add: canonical_path_def parts_Join)
  moreover have "root \<noteq> []" using assms(1) by (auto simp: canonical_path_def IsAbs_def has_prefix_def)
  then obtain q where "filepath_Join (root # cs) = path_clean q" "IsAbs q"
  proof -
    have root: "root \<noteq> []" "IsAbs root" using assms(1) \<open>root \<noteq> []\<close> by (simp_all add: canonical_path_def)
    have "filter (\<lambda>e. e \<noteq> []) (root # cs) = root # cs"
      using assms(2) root by (auto simp: filter_id_conv list_all_iff plain_name_def is_proper_def)
    moreover have "IsAbs (join_with ''/'' (root # cs))" using root by (cases cs) (auto simp: IsAbs_def has_prefix_iff)
    ultimately show ?thesis using that by (simp add: filepath_Join_def del: filter.simps)
  qed
  ultimately show "canonical_path (filepath_Join (root # cs))" by (simp add: canonical_path_def path_clean_idem)
qed

lemma canonical_Dir:
  assumes "canonical_path p" "path_parts p = cs @ [c]"
  shows "path_parts (filepath_Dir p) = cs" "canonical_path (filepath_Dir p)"
  using Dir_parts [of p cs c] assms by (simp_all add: canonical_path_def)

lemma canonical_append:
  assumes "canonical_path p" "path_parts p = cs @ [c]" "plain_name (c @ t)"
  shows "path_parts (p @ t) = cs @ [c @ t]" "canonical_path (p @ t)"
proof -
  have plain: "list_all plain_name (cs @ [c @ t])"
    using plain_parts [of _ p] assms(2,3) by (auto simp: list_all_iff)
  have "p @ t = (CHR ''/'' # join_with ''/'' cs) @ (if cs = [] then [] else ''/'') @ c @ t"
    using last_part_split(1) [of p cs c] assms(1,2) by (simp add: canonical_path_def)
  also have "\<dots> = CHR ''/'' # join_with ''/'' (cs @ [c @ t])"
    using join_with_append [of cs "[c @ t]" "''/''"] by (cases "cs = []") simp_all
  finally have shape: "p @ t = CHR ''/'' # join_with ''/'' (cs @ [c @ t])" .
  then show parts: "path_parts (p @ t) = cs @ [c @ t]" using parts_of_shape [OF plain] by simp
  have "IsAbs (p @ t)" using shape by (simp add: IsAbs_def has_prefix_def)
  then show "canonical_path (p @ t)" using shape parts by (simp add: canonical_path_def path_parts_clean IsAbs_def)
qed


text \<open>Every path of an update, by its components below one of the two roots.\<close>

definition exe :: "ActivationPlan \<Rightarrow> string" where
  "exe P = executableName (ap_TargetOS P)"

lemma managed_places:
  assumes "placed pp P"
  shows "path_parts (activeCLI P) = managed_parts P @ [''bin'', exe P]"
    "path_parts (bundleTarget P) = managed_parts P @ [''bundles'', ap_BundleVersion P]"
    "path_parts (pendingBundle P) = managed_parts P @ [''bundles'', ''.pending-'' @ ap_TransactionID P]"
    "path_parts (pendingCLI P) = managed_parts P @ [''bin'', exe P @ ''.pending-'' @ ap_TransactionID P]"
    "path_parts (expectedSourceCLIBackup P) =
       managed_parts P @ [''recovery'', ''cli'', ap_FromCLIVersion P @ ''-'' @ ap_TransactionID P, exe P]"
    "path_parts (lockPath (ap_ManagedRoot P)) = managed_parts P @ [''.activation.lock'']"
    "canonical_path (activeCLI P)" "canonical_path (bundleTarget P)" "canonical_path (pendingBundle P)"
    "canonical_path (pendingCLI P)" "canonical_path (expectedSourceCLIBackup P)"
proof -
  have root: "canonical_path (ap_ManagedRoot P)" using assms by (simp add: placed_def placed_roots_def)
  note J = canonical_Join [OF root]
  note tx = transaction_plain [OF assms]
  have v: "plain_name (ap_BundleVersion P)" "plain_name (ap_FromCLIVersion P @ ''-'' @ ap_TransactionID P)"
    using assms tx(1) by (simp_all add: placed_def version_plain)
  show active: "path_parts (activeCLI P) = managed_parts P @ [''bin'', exe P]" "canonical_path (activeCLI P)"
    using J [of "[''bin'', exe P]"] by (simp_all add: activeCLI_def active_cli_def managed_parts_def exe_def executable_plain)
  show "path_parts (bundleTarget P) = managed_parts P @ [''bundles'', ap_BundleVersion P]" "canonical_path (bundleTarget P)"
    using J [of "[''bundles'', ap_BundleVersion P]"] v by (simp_all add: bundleTarget_def managed_parts_def)
  show "path_parts (pendingBundle P) = managed_parts P @ [''bundles'', ''.pending-'' @ ap_TransactionID P]"
      "canonical_path (pendingBundle P)"
    using J [of "[''bundles'', ''.pending-'' @ ap_TransactionID P]"] pending_plain(1) [OF tx(1)]
    by (simp_all add: pendingBundle_def managed_parts_def)
  show "path_parts (expectedSourceCLIBackup P) =
       managed_parts P @ [''recovery'', ''cli'', ap_FromCLIVersion P @ ''-'' @ ap_TransactionID P, exe P]"
      "canonical_path (expectedSourceCLIBackup P)"
    using J [of "[''recovery'', ''cli'', ap_FromCLIVersion P @ ''-'' @ ap_TransactionID P, exe P]"] v assms
    by (simp_all add: expectedSourceCLIBackup_def managed_parts_def exe_def executable_plain placed_def)
  show "path_parts (lockPath (ap_ManagedRoot P)) = managed_parts P @ [''.activation.lock'']"
    using J [of "[''.activation.lock'']"] by (simp add: lockPath_def managed_parts_def)
  show "path_parts (pendingCLI P) = managed_parts P @ [''bin'', exe P @ ''.pending-'' @ ap_TransactionID P]"
      "canonical_path (pendingCLI P)"
    using canonical_append [OF active(2), of "managed_parts P @ [''bin'']" "exe P" "''.pending-'' @ ap_TransactionID P"]
      active(1) tx(1) executable_plain(2) [of "ap_TargetOS P" "ap_TransactionID P"]
    unfolding pendingCLI_def exe_def by simp_all
qed

lemma data_places:
  assumes "placed pp P"
  shows "path_parts pp = data_parts P @ [''updates'', ap_TransactionID P, PlanName]"
    "path_parts (receipt_path pp) = data_parts P @ [''updates'', ap_TransactionID P, ReceiptName]"
    "path_parts (statePath (ap_DataRoot P)) = data_parts P @ [''config'', ''install-state.json'']"
    "canonical_path (receipt_path pp)" "canonical_path (statePath (ap_DataRoot P))"
    "filepath_Join [filepath_Dir (filepath_Dir (ap_StagedCLI P)), ReceiptName] = receipt_path pp"
proof -
  have root: "canonical_path (ap_DataRoot P)" and pp: "canonical_path pp"
    and parts: "path_parts pp = data_parts P @ [''updates'', ap_TransactionID P, PlanName]"
    and staged: "ap_StagedCLI P = staged_cli (filepath_Dir pp) (ap_TargetOS P)"
    using assms by (simp_all add: placed_def placed_roots_def data_parts_def)
  show "path_parts pp = data_parts P @ [''updates'', ap_TransactionID P, PlanName]" by (rule parts)
  have dir: "path_parts (filepath_Dir pp) = data_parts P @ [''updates'', ap_TransactionID P]" "canonical_path (filepath_Dir pp)"
    using canonical_Dir [OF pp, of "data_parts P @ [''updates'', ap_TransactionID P]" PlanName] parts by simp_all
  show "path_parts (receipt_path pp) = data_parts P @ [''updates'', ap_TransactionID P, ReceiptName]"
      "canonical_path (receipt_path pp)"
    using canonical_Join [OF dir(2), of "[ReceiptName]"] dir(1) by (simp_all add: receipt_path_def)
  show "path_parts (statePath (ap_DataRoot P)) = data_parts P @ [''config'', ''install-state.json'']"
      "canonical_path (statePath (ap_DataRoot P))"
    using canonical_Join [OF root, of "[''config'', ''install-state.json'']"] by (simp_all add: statePath_def data_parts_def)
  have cli: "path_parts (ap_StagedCLI P) = path_parts (filepath_Dir pp) @ [''bin'', exe P]" "canonical_path (ap_StagedCLI P)"
    using canonical_Join [OF dir(2), of "[''bin'', exe P]"] by (simp_all add: staged staged_cli_def exe_def executable_plain)
  have up: "path_parts (filepath_Dir (ap_StagedCLI P)) = path_parts (filepath_Dir pp) @ [''bin'']" "canonical_path (filepath_Dir (ap_StagedCLI P))"
    using canonical_Dir [OF cli(2), of "path_parts (filepath_Dir pp) @ [''bin'']" "exe P"] cli(1) by simp_all
  have upup: "path_parts (filepath_Dir (filepath_Dir (ap_StagedCLI P))) = path_parts (filepath_Dir pp)"
      "canonical_path (filepath_Dir (filepath_Dir (ap_StagedCLI P)))"
    using canonical_Dir [OF up(2,1)] by simp_all
  then have "filepath_Dir (filepath_Dir (ap_StagedCLI P)) = filepath_Dir pp"
    using dir(2) clean_eq_parts [of "filepath_Dir (filepath_Dir (ap_StagedCLI P))" "filepath_Dir pp"]
    by (simp add: canonical_path_def)
  then show "filepath_Join [filepath_Dir (filepath_Dir (ap_StagedCLI P)), ReceiptName] = receipt_path pp"
    by (simp add: receipt_path_def)
qed

lemma directories:
  assumes "placed pp P"
  shows "path_parts (filepath_Dir (activeCLI P)) = managed_parts P @ [''bin'']"
    "path_parts (filepath_Dir (bundleTarget P)) = managed_parts P @ [''bundles'']"
    "path_parts (filepath_Dir (expectedSourceCLIBackup P)) =
       managed_parts P @ [''recovery'', ''cli'', ap_FromCLIVersion P @ ''-'' @ ap_TransactionID P]"
    "path_parts (filepath_Dir (receipt_path pp)) = data_parts P @ [''updates'', ap_TransactionID P]"
    "path_parts (filepath_Dir (statePath (ap_DataRoot P))) = data_parts P @ [''config'']"
proof -
  note M = managed_places [OF assms] and D = data_places [OF assms]
  show "path_parts (filepath_Dir (activeCLI P)) = managed_parts P @ [''bin'']"
    by (rule canonical_Dir(1) [OF M(7)]) (simp add: M)
  show "path_parts (filepath_Dir (bundleTarget P)) = managed_parts P @ [''bundles'']"
    by (rule canonical_Dir(1) [OF M(8)]) (simp add: M)
  show "path_parts (filepath_Dir (expectedSourceCLIBackup P)) =
       managed_parts P @ [''recovery'', ''cli'', ap_FromCLIVersion P @ ''-'' @ ap_TransactionID P]"
    by (rule canonical_Dir(1) [OF M(11)]) (simp add: M)
  show "path_parts (filepath_Dir (receipt_path pp)) = data_parts P @ [''updates'', ap_TransactionID P]"
    by (rule canonical_Dir(1) [OF D(4)]) (simp add: D)
  show "path_parts (filepath_Dir (statePath (ap_DataRoot P))) = data_parts P @ [''config'']"
    by (rule canonical_Dir(1) [OF D(5)]) (simp add: D)
qed

text \<open>The runtime pack, when the plan has one.\<close>

lemma runtime_places:
  assumes "placed pp P"
  shows "runtimeTarget P \<noteq> [] \<Longrightarrow> path_parts (runtimeTarget P) = managed_parts P @ [''runtimes'', ''markitdown'', ap_Release P]"
    "runtimeTarget P \<noteq> [] \<Longrightarrow> path_parts (filepath_Dir (runtimeTarget P)) = managed_parts P @ [''runtimes'', ''markitdown'']"
    "path_parts (pendingRuntime P) = managed_parts P @ [''runtimes'', ''markitdown'', ''.pending-'' @ ap_TransactionID P]"
    "IsAbs (pendingRuntime P)"
proof -
  have root: "canonical_path (ap_ManagedRoot P)" and v: "plain_name (ap_Release P)"
    using assms by (simp_all add: placed_def placed_roots_def version_plain)
  let ?p = "filepath_Join [ap_ManagedRoot P, ''runtimes'', ''markitdown'', ap_Release P]"
  have target: "path_parts ?p = managed_parts P @ [''runtimes'', ''markitdown'', ap_Release P]" "canonical_path ?p"
    using canonical_Join [OF root, of "[''runtimes'', ''markitdown'', ap_Release P]"] v by (simp_all add: managed_parts_def)
  then show "runtimeTarget P \<noteq> [] \<Longrightarrow> path_parts (runtimeTarget P) = managed_parts P @ [''runtimes'', ''markitdown'', ap_Release P]"
    by (simp add: runtimeTarget_def split: if_splits)
  have "path_parts (filepath_Dir ?p) = managed_parts P @ [''runtimes'', ''markitdown'']"
    by (rule canonical_Dir(1) [OF target(2)]) (simp add: target)
  then show "runtimeTarget P \<noteq> [] \<Longrightarrow> path_parts (filepath_Dir (runtimeTarget P)) = managed_parts P @ [''runtimes'', ''markitdown'']"
    by (simp add: runtimeTarget_def split: if_splits)
  show "path_parts (pendingRuntime P) = managed_parts P @ [''runtimes'', ''markitdown'', ''.pending-'' @ ap_TransactionID P]"
      "IsAbs (pendingRuntime P)"
    using canonical_Join [OF root, of "[''runtimes'', ''markitdown'', ''.pending-'' @ ap_TransactionID P]"]
      pending_plain(1) [OF transaction_plain(1) [OF assms]]
    by (simp_all add: pendingRuntime_def managed_parts_def canonical_path_def)
qed

text \<open>The temporary tree of a reconciliation.\<close>

definition scratch_bundle :: "tx_env \<Rightarrow> ActivationPlan \<Rightarrow> string" where
  "scratch_bundle env P = filepath_Join [filepath_Join [ap_DataRoot P, ''updates''], ''.reconcile-bundle-'' @ te_TempName env]"

lemma scratch_place:
  assumes "placed pp P" "CHR ''/'' \<notin> set (te_TempName env)"
  shows "path_parts (scratch_bundle env P) = data_parts P @ [''updates'', ''.reconcile-bundle-'' @ te_TempName env]"
    "IsAbs (scratch_bundle env P)"
proof -
  have root: "canonical_path (ap_DataRoot P)" using assms(1) by (simp add: placed_def placed_roots_def)
  note u = canonical_Join [OF root, of "[''updates'']", simplified]
  have "path_parts (scratch_bundle env P) = path_parts (filepath_Join [ap_DataRoot P, ''updates'']) @ [''.reconcile-bundle-'' @ te_TempName env]
      \<and> canonical_path (scratch_bundle env P)"
    using canonical_Join [OF u(2), of "[''.reconcile-bundle-'' @ te_TempName env]"] pending_plain(2) [OF assms(2)]
    by (simp add: scratch_bundle_def)
  then show "path_parts (scratch_bundle env P) = data_parts P @ [''updates'', ''.reconcile-bundle-'' @ te_TempName env]"
      "IsAbs (scratch_bundle env P)"
    using u(1) by (simp_all add: data_parts_def canonical_path_def)
qed

section \<open>Separation\<close>

text \<open>Nothing below one root is above or below what is under the other.\<close>

lemma roots_apart:
  assumes "placed pp P"
  shows "\<not> prefix (managed_parts P @ xs) (data_parts P @ ys)" "\<not> prefix (data_parts P @ xs) (managed_parts P @ ys)"
    "managed_parts P @ xs \<noteq> data_parts P @ ys" "data_parts P @ xs \<noteq> managed_parts P @ ys"
    "\<not> prefix (managed_parts P @ xs) (data_parts P)" "\<not> prefix (data_parts P @ xs) (managed_parts P)"
proof -
  have apart: "\<not> prefix (managed_parts P) (data_parts P)" "\<not> prefix (data_parts P) (managed_parts P)"
    using assms by (simp_all add: placed_def placed_roots_def managed_parts_def data_parts_def)
  show one: "\<not> prefix (managed_parts P @ xs) (data_parts P @ ys)" for xs ys
    using apart by (metis append_prefixD prefixI prefix_same_cases)
  show two: "\<not> prefix (data_parts P @ xs) (managed_parts P @ ys)" for xs ys
    using apart by (metis append_prefixD prefixI prefix_same_cases)
  show "managed_parts P @ xs \<noteq> data_parts P @ ys" using one [of xs ys] by auto
  show "data_parts P @ xs \<noteq> managed_parts P @ ys" using two [of xs ys] by auto
  show "\<not> prefix (managed_parts P @ xs) (data_parts P)" using one [of xs "[]"] by simp
  show "\<not> prefix (data_parts P @ xs) (managed_parts P)" using two [of xs "[]"] by simp
qed

lemma names_apart:
  assumes "placed pp P"
  shows "ap_BundleVersion P \<noteq> CHR ''.'' # s" "CHR ''.'' # s \<noteq> ap_BundleVersion P"
    "ap_Release P \<noteq> CHR ''.'' # s" "CHR ''.'' # s \<noteq> ap_Release P"
    "ap_TransactionID P \<noteq> CHR ''.'' # s" "CHR ''.'' # s \<noteq> ap_TransactionID P"
    "exe P \<noteq> exe P @ c # s" "exe P @ c # s \<noteq> exe P"
    "PlanName \<noteq> ReceiptName" "ReceiptName \<noteq> PlanName"
proof -
  show "ap_TransactionID P \<noteq> CHR ''.'' # s" using assms by (auto simp: placed_def has_prefix_iff)
  then show "CHR ''.'' # s \<noteq> ap_TransactionID P" by metis
  show "ap_BundleVersion P \<noteq> CHR ''.'' # s" "CHR ''.'' # s \<noteq> ap_BundleVersion P"
    "ap_Release P \<noteq> CHR ''.'' # s" "CHR ''.'' # s \<noteq> ap_Release P"
    using assms version_not_dotted [of "ap_BundleVersion P" s] version_not_dotted [of "ap_Release P" s]
    by (auto simp: placed_def)
qed (auto simp: PlanName_def ReceiptName_def)

end
