(* ===== verification/InstallRead.thy ===== *)
theory InstallRead
  imports InstallLayout
begin

text \<open>
  What the readers of an installation return: documents, the roots and the installed state.
\<close>

section \<open>Documents\<close>

definition holds_doc :: "tx_disk \<Rightarrow> string list \<Rightarrow> tx_doc \<Rightarrow> bool" where
  "holds_doc d q doc \<longleftrightarrow> (case node_at d q of Some (NFile _ (Some x)) \<Rightarrow> x = doc | _ \<Rightarrow> False)"

lemma holds_docE:
  assumes "holds_doc d q doc"
  obtains b where "node_at d q = Some (NFile b (Some doc))"
  using assms that by (auto simp: holds_doc_def split: option.splits node.splits)

text \<open>A refusal of the operating system never claims that a file is missing, and a random name is one component.\<close>

definition honest :: "tx_env \<Rightarrow> bool" where
  "honest env \<longleftrightarrow> (\<forall>n p e. os_Refused env n p = Some e \<longrightarrow> \<not> is_not_exist e) \<and> CHR ''/'' \<notin> set (te_TempName env)"

lemma Lstat_result:
  "fst (os_Lstat env p d) = (case os_Refused env ''lstat'' p of Some e \<Rightarrow> Inl e | None \<Rightarrow> found (node_at d (path_parts p)))"
  by (simp add: os_Lstat_def syscall_def reads_def split: option.splits)

lemma Stat_result:
  "fst (os_Stat env p d) = (case os_Refused env ''stat'' p of Some e \<Rightarrow> Inl e | None \<Rightarrow> found (resolve env p d))"
  by (simp add: os_Stat_def syscall_def reads_def split: option.splits)

lemma ReadFile_result:
  "fst (os_ReadFile env p d) = (case os_Refused env ''read'' p of Some e \<Rightarrow> Inl e | None \<Rightarrow>
     bind_r (found (resolve env p d)) (\<lambda>n. case n of NFile bytes doc \<Rightarrow> Inr (bytes, doc) | _ \<Rightarrow> Inl (failure ''is a directory'')))"
  by (simp add: os_ReadFile_def syscall_def reads_def split: option.splits)

lemma found_simps [simp]: "found (Some n) = Inr n" "found None = Inl not_exist" "found x = Inr n \<longleftrightarrow> x = Some n"
  by (simp_all add: found_def split: option.splits)

lemma not_exist_is [simp]: "is_not_exist not_exist" "\<not> is_not_exist (failure m)" "\<not> is_exist (failure m)" "is_exist exist"
  by (simp_all add: is_not_exist_def is_exist_def not_exist_def failure_def exist_def)

lemma honest_refusal: "honest env \<Longrightarrow> os_Refused env n p = Some e \<Longrightarrow> \<not> is_not_exist e"
  unfolding honest_def by blast

lemma readJSON_doc:
  assumes "holds_doc d (path_parts p) doc" "fst (readJSONStrict env p f d) = Inr y"
  shows "f doc = Some y"
proof -
  obtain b where "node_at d (path_parts p) = Some (NFile b (Some doc))" using assms(1) by (rule holds_docE)
  then have "resolve env p d = Some (NFile b (Some doc))" by (simp add: resolve_def)
  with assms(2) show ?thesis
    by (simp add: readJSONStrict_def quiet_step ReadFile_result bind_r_def ret_def split: option.splits if_splits)
qed

lemma readJSON_missing:
  assumes "honest env" "node_at d (path_parts p) = None"
  obtains e where "fst (readJSONStrict env p f d) = Inl e"
  using assms
  by (cases "os_Refused env ''read'' p")
    (auto simp: readJSONStrict_def quiet_step ReadFile_result resolve_def bind_r_def)

section \<open>Roots and states\<close>

lemma canonical_Abs: "canonical_path p \<Longrightarrow> filepath_Abs env p = p"
  by (simp add: canonical_path_def filepath_Abs_def)

lemma normalizedRoots_Inr:
  "fst (normalizedRoots env m dd d) = Inr (a, b) \<Longrightarrow> a = filepath_Abs env m \<and> b = filepath_Abs env dd"
  by (auto simp: normalizedRoots_def Let_def quiet_step ret_def quiet split: if_splits sum.splits)

lemma quiet_then_run: "quiet m \<Longrightarrow> then_ok m f d = (case fst (m d) of Inl e \<Rightarrow> (Inl e, []) | Inr x \<Rightarrow> f x d)"
  using quiet_run [of m d] by (cases "m d") (auto simp: then_ok_def then_p_def ret_def split: sum.splits prod.splits)

text \<open>A state of version 2 is read without a change of the disk.\<close>

lemma ReadState_run:
  assumes "filepath_Abs env m = M" "filepath_Abs env dd = D"
    "holds_doc d (path_parts (statePath D)) (StateDoc w)" "sw_SchemaVersion w = 2"
  shows "snd (ReadStateForManagedRoot env dd m d) = []"
    "fst (ReadStateForManagedRoot env dd m d) = Inr s \<Longrightarrow> s = stateFromWire w (the (sw_ManagedRoot w))"
proof -
  have "snd (readState env D M b d) = [] \<and>
      (fst (readState env D M b d) = Inr s \<longrightarrow> s = stateFromWire w (the (sw_ManagedRoot w)))" for b
  proof (cases "fst (readJSONStrict env (statePath D) wire_of d)")
    case (Inr w')
    have "wire_of (StateDoc w) = Some w'" using readJSON_doc [OF assms(3) Inr] .
    then have w': "w' = w" by (simp add: wire_of_def)
    have "snd (check_state_roots env D M b x d) = []" for x
      using quiet_check_roots [of env D M b x] by (simp add: quiet_def)
    moreover have "fst (check_state_roots env D M b x d) = Inr y \<Longrightarrow> y = x" for x y
      by (auto simp: check_state_roots_def quiet_step ret_def split: sum.splits if_splits)
    ultimately show ?thesis using Inr w' assms(4)
      by (auto simp: readState_def quiet_then_run ret_def split: option.splits)
  qed (simp add: readState_def quiet_then_run)
  then show "snd (ReadStateForManagedRoot env dd m d) = []"
    "fst (ReadStateForManagedRoot env dd m d) = Inr s \<Longrightarrow> s = stateFromWire w (the (sw_ManagedRoot w))"
    using normalizedRoots_Inr [of env m dd d] assms(1,2)
    by (auto simp: ReadStateForManagedRoot_def quiet_then_run split: sum.splits)
qed

text \<open>The plan of a transaction.\<close>

lemma ReadPlan_doc: "holds_doc d (path_parts p) (PlanDoc P) \<Longrightarrow> fst (ReadPlan env p d) = Inr Q \<Longrightarrow> Q = P"
  unfolding ReadPlan_def by (drule (1) readJSON_doc) (simp add: plan_of_def)

lemma ValidatePrepared_plan:
  assumes "holds_doc d (path_parts pp) (PlanDoc P)" "fst (ValidatePrepared env pp v o' d) = Inr Q"
  shows "Q = P"
proof -
  obtain R where R: "fst (ReadPlan env pp d) = Inr R" "fst (ValidatePrepared env pp v o' d) = Inr Q"
    using assms(2) by (cases "fst (ReadPlan env pp d)") (simp_all add: ValidatePrepared_def quiet_step)
  have "Q = R"
    using assms(2) R(1)
    by (auto simp: ValidatePrepared_def quiet_step quiet ret_def split: sum.splits if_splits)
  with ReadPlan_doc [OF assms(1) R(1)] show ?thesis by simp
qed

lemma validateReconciliation_plan:
  assumes "holds_doc d (path_parts pp) (PlanDoc P)" "fst (validateReconciliationPlan env pp o' d) = Inr Q"
  shows "Q = P"
proof -
  obtain R where R: "fst (ReadPlan env pp d) = Inr R"
    using assms(2) by (cases "fst (ReadPlan env pp d)") (simp_all add: validateReconciliationPlan_def quiet_step)
  have "Q = R"
    using assms(2) R by (auto simp: validateReconciliationPlan_def quiet_step quiet ret_def split: sum.splits if_splits)
  with ReadPlan_doc [OF assms(1) R] show ?thesis by simp
qed

lemma validateReconciliation_roots:
  assumes "fst (validateReconciliationPlan env pp o' d) = Inr P"
  shows "filepath_Abs env (po_ManagedRoot o') = ap_ManagedRoot P" "filepath_Abs env (po_DataRoot o') = ap_DataRoot P"
proof -
  obtain m dd where r: "fst (normalizedRoots env (po_ManagedRoot o') (po_DataRoot o') d) = Inr (m, dd)"
    "m = ap_ManagedRoot P" "dd = ap_DataRoot P"
    using assms by (auto simp: validateReconciliationPlan_def quiet_step quiet ret_def split: sum.splits if_splits)
  with normalizedRoots_Inr [OF r(1)] show "filepath_Abs env (po_ManagedRoot o') = ap_ManagedRoot P"
    "filepath_Abs env (po_DataRoot o') = ap_DataRoot P" by simp_all
qed

lemma readReceipt_doc:
  assumes "holds_doc d (path_parts (receipt_path pp)) (ReceiptDoc r utc)" "fst (readActivationReceipt env pp P d) = Inr x"
  shows "x = r"
proof -
  obtain y where y: "fst (readJSONStrict env (receipt_path pp) receipt_of d) = Inr y" "x = fst y"
    using assms(2) by (cases "fst (readJSONStrict env (receipt_path pp) receipt_of d)")
      (auto simp: readActivationReceipt_def quiet_step ret_def split: if_splits)
  with readJSON_doc [OF assms(1) y(1)] show ?thesis by (auto simp: receipt_of_def)
qed

text \<open>A receipt that is there is never taken for a missing one.\<close>

lemma readJSON_present:
  assumes "honest env" "holds_doc d (path_parts p) doc" "fst (readJSONStrict env p f d) = Inl e"
  shows "\<not> is_not_exist e"
proof -
  obtain b where "node_at d (path_parts p) = Some (NFile b (Some doc))" using assms(2) by (rule holds_docE)
  then have "resolve env p d = Some (NFile b (Some doc))" by (simp add: resolve_def)
  with assms(3) honest_refusal [OF assms(1)] show ?thesis
    by (auto simp: readJSONStrict_def quiet_step ReadFile_result bind_r_def ret_def split: option.splits if_splits)
qed

lemma readReceipt_present:
  assumes "honest env" "holds_doc d (path_parts (receipt_path pp)) doc" "fst (readActivationReceipt env pp P d) = Inl e"
  shows "\<not> is_not_exist e"
  using assms(3) readJSON_present [OF assms(1,2), of receipt_of]
  by (cases "fst (readJSONStrict env (receipt_path pp) receipt_of d)")
    (auto simp: readActivationReceipt_def quiet_step ret_def split: if_splits)

section \<open>Files\<close>

lemma openRegular_Inr:
  "fst (openRegular env p n d) = Inr bytes \<Longrightarrow> \<exists>x. node_at d (path_parts p) = Some (NFile bytes x) \<and> int (length bytes) = n"
  by (auto simp: openRegular_def quiet_step ret_def Lstat_result ReadFile_result resolve_def bind_r_def
      split: sum.splits option.splits node.splits if_splits)

lemma verifyRegular_Inr:
  assumes "fst (verifyRegularFile env p n h d) = Inr u"
  shows "\<exists>bytes x. node_at d (path_parts p) = Some (NFile bytes x) \<and> int (length bytes) = n \<and> digest_hex env bytes = h"
proof (cases "fst (openRegular env p n d)")
  case (Inr bytes)
  with assms openRegular_Inr [OF Inr] show ?thesis
    by (auto simp: verifyRegularFile_def quiet_step ret_def split: if_splits)
qed (use assms in \<open>simp add: verifyRegularFile_def quiet_step\<close>)

end
