(* ===== verification/InstallCrash.thy ===== *)
theory InstallCrash
  imports InstallRead
begin

text \<open>
  An update that may be cut off at any of its steps. The disk is at all times in one of four phases,
  told apart by the receipt, the backup of the CLI and the installed state, and each of the calls
  moves it from one phase to another.
\<close>

section \<open>Phases of an update\<close>

record update_case =
  uc_Path :: string
  uc_Plan :: ActivationPlan
  uc_Source :: stateWire
  uc_Old :: "tx_doc node"
  uc_SHA :: "string \<Rightarrow> string"

fun is_file :: "'d node \<Rightarrow> bool" where
  "is_file (NFile b x) = True"
| "is_file _ = False"

text \<open>An update that is prepared for a state of version 2, and a CLI that is a file.\<close>

definition update_ok :: "update_case \<Rightarrow> bool" where
  "update_ok U \<longleftrightarrow>
     placed (uc_Path U) (uc_Plan U) \<and> is_file (uc_Old U)
     \<and> sw_SchemaVersion (uc_Source U) = 2 \<and> sw_ManagedRoot (uc_Source U) = Some (ap_ManagedRoot (uc_Plan U))
     \<and> stateMatchesSource (stateFromWire (uc_Source U) (ap_ManagedRoot (uc_Plan U))) (uc_Plan U)"

definition source_of :: "update_case \<Rightarrow> InstallState" where
  "source_of U = stateFromWire (uc_Source U) (ap_ManagedRoot (uc_Plan U))"

definition receipt_doc :: "update_case \<Rightarrow> time \<Rightarrow> tx_doc" where
  "receipt_doc U t = ReceiptDoc (receiptForPlan (uc_Plan U) t) True"

definition target_doc :: "update_case \<Rightarrow> time \<Rightarrow> tx_doc" where
  "target_doc U t = StateDoc (state_wire (committedTargetState (uc_Plan U) (source_of U) t))"

abbreviation plan_key :: "update_case \<Rightarrow> string list" where
  "plan_key U \<equiv> path_parts (uc_Path U)"

abbreviation state_key :: "update_case \<Rightarrow> string list" where
  "state_key U \<equiv> path_parts (statePath (ap_DataRoot (uc_Plan U)))"

abbreviation receipt_key :: "update_case \<Rightarrow> string list" where
  "receipt_key U \<equiv> path_parts (receipt_path (uc_Path U))"

abbreviation cli_key :: "update_case \<Rightarrow> string list" where
  "cli_key U \<equiv> path_parts (activeCLI (uc_Plan U))"

abbreviation backup_key :: "update_case \<Rightarrow> string list" where
  "backup_key U \<equiv> path_parts (expectedSourceCLIBackup (uc_Plan U))"

abbreviation bundle_key :: "update_case \<Rightarrow> string list" where
  "bundle_key U \<equiv> path_parts (bundleTarget (uc_Plan U))"

abbreviation pending_key :: "update_case \<Rightarrow> string list" where
  "pending_key U \<equiv> path_parts (pendingCLI (uc_Plan U))"

text \<open>The source state, with the old CLI in its place.\<close>

definition untouched :: "update_case \<Rightarrow> tx_disk \<Rightarrow> bool" where
  "untouched U d \<longleftrightarrow> holds_doc d (plan_key U) (PlanDoc (uc_Plan U)) \<and> holds_doc d (state_key U) (StateDoc (uc_Source U))
     \<and> node_at d (receipt_key U) = None \<and> node_at d (backup_key U) = None \<and> node_at d (cli_key U) = Some (uc_Old U)"

text \<open>The same with the intent written.\<close>

definition intended :: "update_case \<Rightarrow> time \<Rightarrow> tx_disk \<Rightarrow> bool" where
  "intended U t d \<longleftrightarrow> holds_doc d (plan_key U) (PlanDoc (uc_Plan U)) \<and> holds_doc d (state_key U) (StateDoc (uc_Source U))
     \<and> holds_doc d (receipt_key U) (receipt_doc U t) \<and> node_at d (backup_key U) = None \<and> node_at d (cli_key U) = Some (uc_Old U)"

text \<open>The old CLI is in the backup; a CLI in its place comes after the bundle.\<close>

definition switching :: "update_case \<Rightarrow> time \<Rightarrow> tx_disk \<Rightarrow> bool" where
  "switching U t d \<longleftrightarrow> holds_doc d (plan_key U) (PlanDoc (uc_Plan U)) \<and> holds_doc d (state_key U) (StateDoc (uc_Source U))
     \<and> holds_doc d (receipt_key U) (receipt_doc U t) \<and> node_at d (backup_key U) = Some (uc_Old U)
     \<and> (case node_at d (cli_key U) of None \<Rightarrow> True | Some n \<Rightarrow> is_file n \<and> node_at d (bundle_key U) = Some NDir)"

text \<open>The target state, with the new CLI and the bundle.\<close>

definition authentic :: "(string \<Rightarrow> string) \<Rightarrow> ActivationPlan \<Rightarrow> 'd node option \<Rightarrow> bool" where
  "authentic sha P n \<longleftrightarrow> (case n of
     Some (NFile bytes _) \<Rightarrow> int (length bytes) = ap_CLISize P \<and> EncodeToString (sha bytes) = ap_CLISHA256 P | _ \<Rightarrow> False)"

definition switched :: "update_case \<Rightarrow> time \<Rightarrow> tx_disk \<Rightarrow> bool" where
  "switched U t d \<longleftrightarrow> holds_doc d (plan_key U) (PlanDoc (uc_Plan U)) \<and> holds_doc d (state_key U) (target_doc U t)
     \<and> holds_doc d (receipt_key U) (receipt_doc U t) \<and> node_at d (backup_key U) = Some (uc_Old U)
     \<and> authentic (uc_SHA U) (uc_Plan U) (node_at d (cli_key U)) \<and> node_at d (bundle_key U) = Some NDir"

definition under_way :: "update_case \<Rightarrow> time \<Rightarrow> tx_disk \<Rightarrow> bool" where
  "under_way U t d \<longleftrightarrow> intended U t d \<or> switching U t d \<or> switched U t d"

definition intent_time :: "update_case \<Rightarrow> tx_disk \<Rightarrow> time option" where
  "intent_time U d = (case node_at d (receipt_key U) of
     Some (NFile _ (Some (ReceiptDoc r utc))) \<Rightarrow> Some (arc_CommittedAt r) | _ \<Rightarrow> None)"

definition recoverable :: "update_case \<Rightarrow> tx_disk \<Rightarrow> bool" where
  "recoverable U d \<longleftrightarrow> untouched U d \<or> (case intent_time U d of None \<Rightarrow> False | Some t \<Rightarrow> under_way U t d)"

lemma receipt_time [simp]: "arc_CommittedAt (receiptForPlan P t) = t"
  by (simp add: receiptForPlan_def)

lemma intent_time_doc: "holds_doc d (receipt_key U) (receipt_doc U t) \<Longrightarrow> intent_time U d = Some t"
  by (elim holds_docE) (simp add: intent_time_def receipt_doc_def)

lemma phase_time: "intended U t d \<or> switching U t d \<or> switched U t d \<Longrightarrow> intent_time U d = Some t"
  unfolding intended_def switching_def switched_def by (metis intent_time_doc)

lemma recoverable_intros [intro]:
  "untouched U d \<Longrightarrow> recoverable U d" "intended U t d \<Longrightarrow> recoverable U d"
  "switching U t d \<Longrightarrow> recoverable U d" "switched U t d \<Longrightarrow> recoverable U d"
  by (simp_all add: recoverable_def under_way_def phase_time [of U t d])

lemma recoverable_cases:
  assumes "recoverable U d"
  obtains "untouched U d" | t where "intended U t d" | t where "switching U t d" | t where "switched U t d"
proof (cases "untouched U d")
  case False
  with assms obtain t where "under_way U t d" by (cases "intent_time U d") (simp_all add: recoverable_def)
  with that(2-4) show thesis unfolding under_way_def by blast
qed (rule that(1))

section \<open>Steps beside the phases\<close>

text \<open>A predicate of the disk that looks at some entries only.\<close>

definition looks_at :: "string list list \<Rightarrow> (tx_disk \<Rightarrow> bool) \<Rightarrow> bool" where
  "looks_at ks I \<longleftrightarrow> (\<forall>d e. (\<forall>q \<in> set ks. node_at e q = node_at d q) \<longrightarrow> I d \<longrightarrow> I e)"

lemma holds_beside:
  assumes "touches F m" "looks_at ks I" "list_all (\<lambda>q. \<not> F q) ks" "I d"
  shows "holds I m (\<lambda>_. I) d"
proof -
  have "I e" if "agree F d e" for e
  proof -
    have "\<forall>q \<in> set ks. node_at e q = node_at d q" using that assms(3) by (auto simp: agree_def list_all_iff)
    with assms(2,4) show ?thesis unfolding looks_at_def by blast
  qed
  then show ?thesis by (intro touches_holds [OF assms(1)])
qed

lemma looks_at_conj: "looks_at ks I \<Longrightarrow> looks_at ls J \<Longrightarrow> looks_at (ks @ ls) (\<lambda>d. I d \<and> J d)"
  unfolding looks_at_def set_append ball_Un by blast

lemma looks_at_node: "looks_at [q] (\<lambda>d. f (node_at d q))"
  by (simp add: looks_at_def)

definition outer_keys :: "update_case \<Rightarrow> string list list" where
  "outer_keys U = [plan_key U, state_key U, receipt_key U, backup_key U, cli_key U]"

lemma looks_at_phases:
  "looks_at (outer_keys U) (untouched U)" "looks_at (outer_keys U) (intended U t)"
  "looks_at (bundle_key U # outer_keys U) (switching U t)" "looks_at (bundle_key U # outer_keys U) (switched U t)"
  "looks_at (bundle_key U # outer_keys U) (untouched U)" "looks_at (bundle_key U # outer_keys U) (intended U t)"
  by (simp_all add: looks_at_def outer_keys_def untouched_def intended_def switching_def switched_def holds_doc_def
    split: option.split)

end
