(* ===== verification/InstallActivate.thy ===== *)
theory InstallActivate
  imports InstallCrash
begin

text \<open>
  \<open>Activate\<close>, step by step, from every disk that an interrupted update can leave: its checks let it
  go on only from the source state with the old CLI in its place, and every step after them keeps
  the disk in one of the phases.
\<close>

section \<open>Checks\<close>

lemma holds_silent: "snd (m d) = [] \<Longrightarrow> Q (fst (m d)) d \<Longrightarrow> holds I m Q d"
  by (simp add: holds_def)

lemma holds_silent_ok:
  assumes "snd (m d) = []" "\<And>er. fst (m d) = Inl er \<Longrightarrow> Q (Inl er) d" "\<And>x. fst (m d) = Inr x \<Longrightarrow> holds I (f x) Q d"
  shows "holds I (then_ok m f) Q d"
  by (rule holds_then_ok [where R = "\<lambda>r e. e = d \<and> r = fst (m d)"]) (use assms in \<open>auto intro: holds_silent\<close>)

lemma unless_missing_run:
  "snd (unless_missing m d) = snd (m d)"
  "fst (unless_missing m d) = (case fst (m d) of Inr x \<Rightarrow> Inr (Some x) | Inl e \<Rightarrow> if is_not_exist e then Inr None else Inl e)"
  by (simp_all add: unless_missing_def then_p_def ret_def split: prod.splits)

lemma stat_missing: "honest env \<Longrightarrow> fst (unless_missing (os_Stat env p) d) = Inr None \<Longrightarrow> node_at d (path_parts p) \<noteq> Some NDir"
  using honest_refusal [of env "''stat''" p]
  by (auto simp: unless_missing_run Stat_result resolve_def split: option.splits sum.splits if_splits)

lemma quiet_safe_targets [quiet, simp]: "quiet (safe_targets env P)"
  unfolding safe_targets_def by (intro quiet)

lemma quiet_check_source [quiet, simp]: "quiet (check_source env P c)"
  unfolding check_source_def by (auto intro!: quiet split: node.splits)

lemma check_source_update:
  assumes "ap_Transition P = ''update''" "fst (check_source env P c d) = Inr u"
  shows "\<exists>s. c = Some s \<and> stateMatchesSource s P" "\<exists>n. node_at d (path_parts (activeCLI P)) = Some n \<and> is_file n"
proof -
  from assms show "\<exists>s. c = Some s \<and> stateMatchesSource s P"
    by (auto simp: check_source_def ret_def split: option.splits if_splits)
  then obtain s where "c = Some s" "stateMatchesSource s P" by blast
  with assms show "\<exists>n. node_at d (path_parts (activeCLI P)) = Some n \<and> is_file n"
    by (auto simp: check_source_def quiet_step quiet ret_def Lstat_result split: sum.splits option.splits node.splits)
qed

definition ready :: "update_case \<Rightarrow> tx_disk \<Rightarrow> bool" where
  "ready U d \<longleftrightarrow> untouched U d \<or> (case intent_time U d of None \<Rightarrow> False | Some t \<Rightarrow> intended U t d)"

lemma ready_cases:
  assumes "ready U d"
  obtains "untouched U d" | t where "intended U t d"
  using assms by (cases "intent_time U d") (auto simp: ready_def)

lemma update_ok_facts:
  assumes "update_ok U"
  shows "placed (uc_Path U) (uc_Plan U)" "is_file (uc_Old U)" "sw_SchemaVersion (uc_Source U) = 2"
    "sw_ManagedRoot (uc_Source U) = Some (ap_ManagedRoot (uc_Plan U))" "stateMatchesSource (source_of U) (uc_Plan U)"
    "ap_Transition (uc_Plan U) = ''update''" "canonical_path (ap_ManagedRoot (uc_Plan U))" "canonical_path (ap_DataRoot (uc_Plan U))"
  using assms by (simp_all add: update_ok_def source_of_def placed_def placed_roots_def)

text \<open>The state of every phase is of version 2.\<close>

lemma target_wire: "target_doc U t = StateDoc w \<Longrightarrow> sw_SchemaVersion w = 2"
  by (auto simp: target_doc_def state_wire_def committedTargetState_def target_state_def)

lemma phase_state:
  assumes "update_ok U" "recoverable U d"
  obtains w where "holds_doc d (state_key U) (StateDoc w)" "sw_SchemaVersion w = 2"
    "untouched U d \<or> (\<exists>t. intended U t d) \<or> (\<exists>t. switching U t d) \<Longrightarrow> w = uc_Source U"
  using assms(2)
proof (cases rule: recoverable_cases)
  case (4 t)
  define w where "w = state_wire (committedTargetState (uc_Plan U) (source_of U) t)"
  have "holds_doc d (state_key U) (StateDoc w)" using 4 by (simp add: switched_def target_doc_def w_def)
  moreover have "sw_SchemaVersion w = 2" by (rule target_wire [of U t]) (simp add: target_doc_def w_def)
  moreover have "StateDoc w = StateDoc (uc_Source U)" if "holds_doc d (state_key U) (StateDoc (uc_Source U))"
    using that \<open>holds_doc d (state_key U) (StateDoc w)\<close> by (elim holds_docE) simp
  ultimately show ?thesis using that [of w] by (auto simp: untouched_def intended_def switching_def)
qed (use that [of "uc_Source U"] update_ok_facts [OF assms(1)] in \<open>auto simp: untouched_def intended_def switching_def\<close>)

lemma activation_checked:
  assumes ok: "update_ok U" and env: "honest env" and d: "recoverable U d"
  shows "holds I (activation_checks env (uc_Plan U))
    (\<lambda>r e. e = d \<and> (\<forall>c. r = Inr c \<longrightarrow> ready U d \<and> c = Some (source_of U) \<and> node_at d (bundle_key U) \<noteq> Some NDir)) d"
proof -
  let ?P = "uc_Plan U"
  note f = update_ok_facts [OF ok]
  obtain w where w: "holds_doc d (state_key U) (StateDoc w)" "sw_SchemaVersion w = 2"
    "untouched U d \<or> (\<exists>t. intended U t d) \<or> (\<exists>t. switching U t d) \<Longrightarrow> w = uc_Source U"
    using phase_state [OF ok d] by blast
  note state = ReadState_run [OF canonical_Abs [OF f(7)] canonical_Abs [OF f(8)] w(1,2), of env]
  have checked: "ready U d \<and> c = Some (source_of U)"
    if B: "node_at d (bundle_key U) \<noteq> Some NDir"
      and c: "fst (unless_missing (ReadStateForManagedRoot env (ap_DataRoot ?P) (ap_ManagedRoot ?P)) d) = Inr c"
      and chk: "fst (check_source env ?P c d) = Inr u" for c u
  proof -
    obtain n where n: "node_at d (cli_key U) = Some n" "is_file n" using check_source_update(2) [OF f(6) chk] by blast
    have "\<not> switching U t d" "\<not> switched U t d" for t using B n by (auto simp: switching_def switched_def)
    with d have ready: "ready U d" by (auto elim!: recoverable_cases simp: ready_def phase_time)
    then have "w = uc_Source U" using w(3) by (auto elim!: ready_cases)
    moreover obtain s where s: "c = Some s" using check_source_update(1) [OF f(6) chk] by blast
    then have "fst (ReadStateForManagedRoot env (ap_DataRoot ?P) (ap_ManagedRoot ?P) d) = Inr s"
      using c by (auto simp: unless_missing_run split: sum.splits if_splits)
    ultimately show ?thesis using ready s f(4) state(2) by (simp add: source_of_def)
  qed
  show ?thesis
    unfolding activation_checks_def
  proof (intro holds_read_ok holds_silent_ok quiet)
    fix u e
    assume e: "fst (unless_missing (os_Stat env (bundleTarget ?P)) d) = Inr e"
    have B: "node_at d (bundle_key U) \<noteq> Some NDir" if "e = None" using stat_missing [OF env] e that by blast
    show "holds I (if e \<noteq> None then ret (Inl (failure ''bundle version already exists''))
        else then_ok (unless_missing (ReadStateForManagedRoot env (ap_DataRoot ?P) (ap_ManagedRoot ?P)))
          (\<lambda>current. then_ok (check_source env ?P current) (\<lambda>_. ret (Inr current))))
      (\<lambda>r e. e = d \<and> (\<forall>c. r = Inr c \<longrightarrow> ready U d \<and> c = Some (source_of U) \<and> node_at d (bundle_key U) \<noteq> Some NDir)) d"
    proof (cases "e = None")
      case True
      have "holds I (then_ok (unless_missing (ReadStateForManagedRoot env (ap_DataRoot ?P) (ap_ManagedRoot ?P)))
          (\<lambda>current. then_ok (check_source env ?P current) (\<lambda>_. ret (Inr current))))
        (\<lambda>r e. e = d \<and> (\<forall>c. r = Inr c \<longrightarrow> ready U d \<and> c = Some (source_of U) \<and> node_at d (bundle_key U) \<noteq> Some NDir)) d"
        by (rule holds_silent_ok; (rule holds_read_ok)?)
          (use B checked True in \<open>auto intro!: holds_ret simp: unless_missing_run(1) state(1)\<close>)
      with True show ?thesis by simp
    qed (simp add: holds_ret)
  qed auto
qed

end
