(* ===== verification/InstallSteps.thy ===== *)
theory InstallSteps
  imports InstallActivate
begin

text \<open>
  The steps of \<open>Activate\<close> after its checks: what each of them makes of a phase.
\<close>

section \<open>Calls\<close>

lemma holds_Rename:
  assumes "path_parts p \<noteq> path_parts p'" "\<And>er. os_Refused env ''rename'' p = Some er \<Longrightarrow> Q (Inl er) d"
    "\<And>er. rename_error d (path_parts p) (path_parts p') = Some er \<Longrightarrow> Q (Inl er) d"
    "rename_error d (path_parts p) (path_parts p') = None \<Longrightarrow>
      I (move_under (path_parts p) (path_parts p') d) \<and> Q (Inr ()) (move_under (path_parts p) (path_parts p') d)"
  shows "holds I (os_Rename env p p') Q d"
  using assms by (simp add: holds_def os_Rename_def syscall_def split: option.splits)

lemma holds_Remove:
  assumes "\<And>er. Q (Inl er) d"
    "I (AList.delete (path_parts p) d) \<and> Q (Inr ()) (AList.delete (path_parts p) d)"
  shows "holds I (os_Remove env p) Q d"
  using assms by (auto simp: holds_def os_Remove_def syscall_def split: option.splits)

lemma holds_Replace:
  assumes "\<And>er. Q (Inl er) d"
    "\<And>e. e = AList.update (path_parts p) (NFile bytes (Some doc)) d \<Longrightarrow> I e \<and> Q (Inr ()) e"
  shows "holds I (os_Replace env p bytes doc) Q d"
  using assms by (auto simp: holds_def os_Replace_def syscall_def split: option.splits)

lemma holds_True_conj:
  assumes "holds I m (\<lambda>_. J) d" "holds (\<lambda>_. True) m Q d"
  shows "holds I m (\<lambda>r e. J e \<and> Q r e) d"
  using assms unfolding holds_def by blast

text \<open>A call that leaves one of two predicates, by its outcome.\<close>

lemma holds_ok:
  assumes "holds I m (\<lambda>r e. case r of Inl _ \<Rightarrow> A e | Inr x \<Rightarrow> B x e) d" "\<And>er e. A e \<Longrightarrow> Q (Inl er) e"
    "\<And>x e. B x e \<Longrightarrow> holds I (f x) Q e"
  shows "holds I (then_ok m f) Q d"
  by (rule holds_then_ok [OF assms(1)]) (simp_all add: assms(2,3))

lemma holds_error_ok:
  assumes "holds I m (\<lambda>r e. case r of Inl _ \<Rightarrow> A e | Inr x \<Rightarrow> B x e) d" "\<And>er e. A e \<Longrightarrow> Q (Inl er) e"
    "\<And>x e. B x e \<Longrightarrow> holds I (f x) Q e"
  shows "holds I (then_ok (map_error g m) f) Q d"
  by (rule holds_ok [where A = A and B = B, OF holds_map_error [OF assms(1)]]) (simp_all add: assms(2,3))

text \<open>A directory that \<open>MkdirAll\<close> has made, and the entries that it leaves.\<close>

lemma make_dirs_keep:
  "e \<in> set (snd (make_dirs pre cs d)) \<Longrightarrow> node_at d q = Some n \<Longrightarrow> node_at e q = Some n"
proof (induction pre cs d arbitrary: e rule: make_dirs.induct)
  case (2 pre c cs d)
  show ?case
  proof (cases "node_at d (pre @ [c])")
    case None
    let ?d = "AList.update (pre @ [c]) NDir d"
    have "node_at ?d q = Some n" using None 2(5) by auto
    moreover from 2(4) None have "e = ?d \<or> e \<in> set (snd (make_dirs (pre @ [c]) cs ?d))"
      by (auto simp: Let_def split: prod.splits)
    ultimately show ?thesis using 2(1) [OF None refl] by blast
  next
    case (Some m)
    with 2 show ?thesis by (cases m) auto
  qed
qed simp

lemma make_dirs_made:
  "fst (make_dirs pre cs d) = Inr () \<Longrightarrow> cs \<noteq> [] \<Longrightarrow> node_at d (pre @ cs) = None \<Longrightarrow>
   node_at (final d (snd (make_dirs pre cs d))) (pre @ cs) = Some NDir"
proof (induction pre cs d rule: make_dirs.induct)
  case (2 pre c cs d)
  show ?case
  proof (cases "node_at d (pre @ [c])")
    case None
    let ?d = "AList.update (pre @ [c]) NDir d"
    obtain r t where run: "make_dirs (pre @ [c]) cs ?d = (r, t)" by (cases "make_dirs (pre @ [c]) cs ?d")
    show ?thesis
    proof (cases "cs = []")
      case True
      with None show ?thesis by simp
    next
      case False
      then have "node_at ?d ((pre @ [c]) @ cs) = None" using 2(6) by simp
      with 2(1) [OF None refl] False 2(4) None run show ?thesis by (simp add: Let_def)
    qed
  next
    case (Some n)
    moreover from Some 2(6) have "cs \<noteq> []" by auto
    ultimately show ?thesis using 2 by (cases n) auto
  qed
qed simp

lemma keeps_MkdirAll:
  assumes "node_at d q = Some n"
  shows "holds (\<lambda>e. node_at e q = Some n) (os_MkdirAll env p) (\<lambda>_ e. node_at e q = Some n) d"
proof -
  have "\<forall>e \<in> set (snd (os_MkdirAll env p d)). node_at e q = Some n"
    using make_dirs_keep assms by (auto simp: os_MkdirAll_def syscall_def split: option.splits)
  then show ?thesis using assms
    by (cases "snd (os_MkdirAll env p d) = []") (auto simp: holds_def final_def)
qed

lemma holds_RemoveAll_MkdirAll:
  assumes "path_parts p \<noteq> []"
  shows "holds (\<lambda>_. True) (then_ok (os_RemoveAll env p) (\<lambda>_. os_MkdirAll env p))
    (\<lambda>r e. r = Inr () \<longrightarrow> node_at e (path_parts p) = Some NDir) d"
proof (rule holds_then_ok)
  have gone: "node_at (final d (removals qs d)) q = None" if "q \<in> set qs \<or> node_at d q = None" for d :: "'z disk" and qs q
    using that
  proof (induction qs d rule: removals.induct)
    case (2 q' qs d)
    then show ?case by (cases "q = q'") (auto simp: Let_def)
  qed simp
  have "path_parts p \<in> set (filter (prefix (path_parts p)) (map fst d)) \<or> node_at d (path_parts p) = None"
    by (cases "node_at d (path_parts p)") (force dest: map_of_SomeD)+
  from gone [OF this] show "holds (\<lambda>_. True) (os_RemoveAll env p) (\<lambda>r e. r = Inr () \<longrightarrow> node_at e (path_parts p) = None) d"
    by (simp add: holds_def os_RemoveAll_def syscall_def split: option.splits)
  show "holds (\<lambda>_. True) (os_MkdirAll env p) (\<lambda>r e. r = Inr () \<longrightarrow> node_at e (path_parts p) = Some NDir) e"
    if "Inr x = Inr () \<longrightarrow> node_at e (path_parts p) = None" for x e
    using that make_dirs_made [of "[]" "path_parts p" e] assms
    by (auto simp: holds_def os_MkdirAll_def syscall_def split: option.splits)
qed auto

section \<open>Staged files\<close>

text \<open>The extraction leaves the directory it fills.\<close>

lemma extract_entry_keeps:
  assumes "IsAbs t" "safeArchivePath (entry_name a)" "node_at d (path_parts t) = Some NDir"
  shows "holds (\<lambda>_. True) (extract_entry env t a) (\<lambda>_ e. node_at e (path_parts t) = Some NDir) d"
proof -
  let ?x = "filepath_Join [t, entry_name a]" and ?N = "\<lambda>e. node_at e (path_parts t) = Some NDir"
  have "path_parts ?x \<noteq> path_parts t" using archive_destination(1) [OF assms(1,2)] by simp
  then have other: "?N e \<Longrightarrow> holds (\<lambda>_. True) (os_Create env ?x) (\<lambda>_. ?N) e" "?N e \<Longrightarrow> holds (\<lambda>_. True) (os_Write env ?x b) (\<lambda>_. ?N) e" for e b
    by (auto simp: holds_def os_Create_def os_Write_def syscall_def split: option.splits)
  have mk: "?N e \<Longrightarrow> holds (\<lambda>_. True) (os_MkdirAll env y) (\<lambda>_. ?N) e" for e y
    by (rule holds_mono [OF keeps_MkdirAll [of e "path_parts t" NDir env y]]) simp_all
  have filled: "holds (\<lambda>_. True)
      (then_ok (os_MkdirAll env (filepath_Dir ?x)) (\<lambda>_. then_ok (os_Create env ?x) (\<lambda>_. then_ok (os_Write env ?x b) (\<lambda>_. ret u)))) (\<lambda>_. ?N) d" for b and u :: "fs_error + unit"
    by (rule holds_then_ok [OF mk [OF assms(3)]], assumption, rule holds_then_ok [OF other(1)], assumption, assumption,
        rule holds_then_ok [OF other(2)], assumption, assumption, rule holds_ret)
  show ?thesis
    unfolding extract_entry_def Let_def
  proof (cases a)
    case (TarFile n z content)
    then show "holds (\<lambda>_. True) (case a of TarDir _ _ \<Rightarrow> os_MkdirAll env ?x
         | TarFile _ z content \<Rightarrow>
             then_ok (os_MkdirAll env (filepath_Dir ?x)) (\<lambda>_. then_ok (os_Create env ?x) (\<lambda>_.
             then_ok (os_Write env ?x (take (nat z) content)) (\<lambda>_.
               if int (length content) < z then ret (Inl (failure ''extract: unexpected EOF'')) else ret (Inr ()))))
         | TarOther _ _ \<Rightarrow> ret (Inl (failure ''unsupported bundle entry type''))) (\<lambda>_. ?N) d"
      using filled by (simp split: if_split)
  qed (use mk [OF assms(3)] assms(3) in \<open>simp_all add: holds_ret\<close>)
qed

lemma extract_entries_keeps:
  "IsAbs t \<Longrightarrow> node_at d (path_parts t) = Some NDir \<Longrightarrow>
   holds (\<lambda>_. True) (extract_entries env t err n z es) (\<lambda>_ e. node_at e (path_parts t) = Some NDir) d"
proof (induction es arbitrary: n z d)
  case (Cons a es)
  have "holds (\<lambda>_. True) (then_ok (extract_entry env t a) (\<lambda>_. extract_entries env t err m y es))
      (\<lambda>_ e. node_at e (path_parts t) = Some NDir) d" if "safeArchivePath (entry_name a)" for m y
    by (rule holds_then_ok [OF extract_entry_keeps [OF Cons.prems(1) that Cons.prems(2)]]) (use Cons in auto)
  with Cons.prems(2) show ?case by (simp add: Let_def holds_ret)
qed (simp add: holds_ret)

lemma extractVerified_place:
  assumes "IsAbs t" "path_parts t \<noteq> []"
  shows "holds (\<lambda>_. True) (extractVerifiedBundleArchive env s t n h)
    (\<lambda>r e. r = Inr () \<longrightarrow> node_at e (path_parts t) = Some NDir) d"
proof -
  let ?N = "\<lambda>e. node_at e (path_parts t) = Some NDir"
  have trivial: "holds (\<lambda>_. True) m (\<lambda>_ _. True) e" for m :: "unit tx" and e by (simp add: holds_def)
  have inner: "holds (\<lambda>_. True) (on_failure (then_ok (extractBundle env b t) (\<lambda>_. ret u)) (os_RemoveAll env t))
      (\<lambda>r e. r = Inr () \<longrightarrow> ?N e) e" if "?N e" for b u e
    by (rule holds_on_failure [where R = "\<lambda>_. ?N"])
      (auto simp: extractBundle_def that trivial split: prod.split
        intro!: holds_then_ok [OF extract_entries_keeps] holds_ret assms)
  have "then_ok (os_RemoveAll env t) (\<lambda>_. then_ok (os_MkdirAll env t) f) =
      then_ok (then_ok (os_RemoveAll env t) (\<lambda>_. os_MkdirAll env t)) f" for f :: "unit \<Rightarrow> unit tx"
    by (rule ext) (auto simp: then_ok_def then_p_def ret_def split: prod.splits sum.splits)
  then show ?thesis
    unfolding extractVerifiedBundleArchive_def
    by (auto intro!: holds_read_ok holds_then_ok [OF holds_RemoveAll_MkdirAll] inner assms(2) split: if_split)
qed

text \<open>A copy that succeeds has the authenticated bytes.\<close>

lemma copyVerified_post:
  "holds (\<lambda>_. True) (copyVerifiedRegular env s t n h)
    (\<lambda>r e. r = Inr () \<longrightarrow> (\<exists>b. node_at e (path_parts t) = Some (NFile b None) \<and> int (length b) = n \<and> digest_hex env b = h)) d"
proof -
  have wrote: "holds (\<lambda>_. True) (os_Write env t b) (\<lambda>r e. r = Inr () \<longrightarrow> node_at e (path_parts t) = Some (NFile b None)) e" for b and e :: tx_disk
    by (auto simp: holds_def os_Write_def syscall_def split: option.splits)
  have trivial: "holds (\<lambda>_. True) m (\<lambda>_ _. True) e" for m :: "unit tx" and e by (simp add: holds_def)
  show ?thesis
    unfolding copyVerifiedRegular_def
    by (intro holds_read_ok quiet holds_then_ok [OF trivial] holds_on_failure [where R = "\<lambda>r e. r = Inr () \<longrightarrow>
          (\<exists>b. node_at e (path_parts t) = Some (NFile b None) \<and> int (length b) = n \<and> digest_hex env b = h)"]
        holds_then_ok [OF wrote]) (auto intro!: holds_ret simp: trivial)
qed

end
