(* ===== verification/InstallSwitch.thy ===== *)
theory InstallSwitch
  imports InstallSteps
begin

text \<open>
  \<open>Activate\<close> from the intent to the commit: each part of it moves the disk between the phases, and
  the way back of a failure leads to the old CLI in its place.
\<close>

lemmas places = managed_places(1-6) data_places(1-3) directories runtime_places(1-3) roots_apart names_apart

definition staged :: "update_case \<Rightarrow> tx_disk \<Rightarrow> bool" where
  "staged U d \<longleftrightarrow> authentic (uc_SHA U) (uc_Plan U) (node_at d (pending_key U))"

definition unpacked :: "update_case \<Rightarrow> tx_disk \<Rightarrow> bool" where
  "unpacked U d \<longleftrightarrow> node_at d (path_parts (pendingBundle (uc_Plan U))) = Some NDir"

text \<open>The old CLI is in the backup and there is none in its place.\<close>

definition moved :: "update_case \<Rightarrow> time \<Rightarrow> tx_disk \<Rightarrow> bool" where
  "moved U t d \<longleftrightarrow> switching U t d \<and> node_at d (cli_key U) = None"

definition inner_keys :: "update_case \<Rightarrow> string list list" where
  "inner_keys U = pending_key U # bundle_key U # outer_keys U"

lemma looks_at_inner:
  "looks_at (inner_keys U) (untouched U)" "looks_at (inner_keys U) (intended U t)" "looks_at (inner_keys U) (ready U)"
  "looks_at (inner_keys U) (switching U t)" "looks_at (inner_keys U) (switched U t)" "looks_at (inner_keys U) (staged U)"
  "looks_at (inner_keys U) (moved U t)"
  by (simp_all add: looks_at_def inner_keys_def outer_keys_def untouched_def intended_def switching_def switched_def
      ready_def intent_time_def staged_def moved_def holds_doc_def split: option.split)

lemma looks_at_and: "looks_at ks I \<Longrightarrow> looks_at ks J \<Longrightarrow> looks_at ks (\<lambda>d. I d \<and> J d)"
  unfolding looks_at_def by blast

lemma looks_at_more: "looks_at ks I \<Longrightarrow> set ks \<subseteq> set ls \<Longrightarrow> looks_at ls I"
  unfolding looks_at_def by blast

lemma looks_at_recoverable: "looks_at (inner_keys U) (recoverable U)"
  by (simp add: looks_at_def inner_keys_def outer_keys_def untouched_def intended_def switching_def switched_def
      recoverable_def under_way_def intent_time_def holds_doc_def split: option.split)

lemma ready_recoverable: "ready U d \<Longrightarrow> recoverable U d"
  by (auto elim!: ready_cases)

lemma intended_ready: "intended U t d \<Longrightarrow> ready U d"
  using phase_time [of U t d] by (simp add: ready_def)

section \<open>Intent\<close>

lemma intent_update:
  assumes "update_ok U" "ready U d"
  shows "intended U t (AList.update (receipt_key U) (NFile b (Some (ReceiptDoc (receiptForPlan (uc_Plan U) t) True))) d)"
proof -
  note L = places [OF update_ok_facts(1) [OF assms(1)]]
  from assms(2) have "holds_doc d (plan_key U) (PlanDoc (uc_Plan U))" "holds_doc d (state_key U) (StateDoc (uc_Source U))"
    "node_at d (backup_key U) = None" "node_at d (cli_key U) = Some (uc_Old U)"
    by (auto elim!: ready_cases simp: untouched_def intended_def)
  then show ?thesis by (simp add: intended_def holds_doc_def receipt_doc_def L)
qed

lemma intent_written:
  assumes ok: "update_ok U" and d: "ready U d"
  shows "holds (recoverable U) (writeActivationReceipt env (uc_Path U) (receiptForPlan (uc_Plan U) t))
    (\<lambda>r e. case r of Inl _ \<Rightarrow> ready U e | Inr _ \<Rightarrow> intended U t e) d"
proof -
  note L = places [OF update_ok_facts(1) [OF ok]]
  have "holds (ready U) (os_MkdirAll env (filepath_Dir (receipt_path (uc_Path U)))) (\<lambda>_. ready U) d"
    by (rule holds_beside [OF touches_MkdirAll looks_at_inner(3) _ d]) (simp add: inner_keys_def outer_keys_def L)
  then have mk: "holds (recoverable U) (os_MkdirAll env (filepath_Dir (receipt_path (uc_Path U)))) (\<lambda>_. ready U) d"
    by (rule holds_mono) (auto intro: ready_recoverable)
  show ?thesis
    unfolding writeActivationReceipt_def writeJSONAtomic_def
    by (rule holds_then_ok [OF mk], simp, rule holds_Replace)
      (use intent_update [OF ok] in auto)
qed

section \<open>Staging\<close>

lemma parents_made:
  assumes "update_ok U" "intended U t d"
  shows "holds (intended U t) (make_parents env (uc_Plan U)) (\<lambda>_. intended U t) d"
proof -
  note L = places [OF update_ok_facts(1) [OF assms(1)]]
  have mk: "holds (intended U t) (os_MkdirAll env p) (\<lambda>_. intended U t) e" if "intended U t e"
    "p = filepath_Dir (activeCLI (uc_Plan U)) \<or> p = filepath_Dir (bundleTarget (uc_Plan U))
      \<or> runtimeTarget (uc_Plan U) \<noteq> [] \<and> p = filepath_Dir (runtimeTarget (uc_Plan U))" for p e
    by (rule holds_beside [OF touches_MkdirAll looks_at_inner(2) _ that(1)])
      (use that(2) in \<open>auto simp: inner_keys_def outer_keys_def L\<close>)
  show ?thesis
    unfolding make_parents_def
    by (rule holds_then_ok, rule mk [OF assms(2)], simp, simp, rule holds_then_ok, rule mk, assumption, simp, simp)
      (auto intro!: holds_ret mk)
qed

lemma cli_copied:
  assumes ok: "update_ok U" and sha: "te_SHA256 env = uc_SHA U" and d: "intended U t d"
  shows "holds (intended U t) (copyVerifiedRegular env s (pendingCLI (uc_Plan U)) (ap_CLISize (uc_Plan U)) (ap_CLISHA256 (uc_Plan U)))
    (\<lambda>r e. intended U t e \<and> (r = Inr () \<longrightarrow> staged U e)) d"
proof -
  note f = update_ok_facts(1) [OF ok]
  note L = places [OF f]
  have p: "IsAbs (pendingCLI (uc_Plan U))" "path_clean (pendingCLI (uc_Plan U)) = pendingCLI (uc_Plan U)"
    using managed_places(10) [OF f] by (simp_all add: canonical_path_def)
  have "holds (intended U t) (copyVerifiedRegular env s (pendingCLI (uc_Plan U)) n h) (\<lambda>_. intended U t) d" for n h
    by (rule holds_beside [OF touches_copyVerified [OF p] looks_at_phases(6) _ d]) (simp add: outer_keys_def L)
  from holds_True_conj [OF this copyVerified_post] show ?thesis
    by (rule holds_mono) (auto simp: staged_def authentic_def digest_hex_def sha)
qed

lemma parts_nonempty: "update_ok U \<Longrightarrow> path_parts (pendingBundle (uc_Plan U)) \<noteq> []"
  by (simp add: managed_places(3) [OF update_ok_facts(1)])

lemma bundle_unpacked:
  assumes ok: "update_ok U" and d: "intended U t d" "staged U d"
  shows "holds (intended U t) (extractVerifiedBundleArchive env s (pendingBundle (uc_Plan U)) n h)
    (\<lambda>r e. intended U t e \<and> (r = Inr () \<longrightarrow> staged U e \<and> unpacked U e)) d"
proof -
  note f = update_ok_facts(1) [OF ok]
  note L = places [OF f]
  have p: "IsAbs (pendingBundle (uc_Plan U))" using managed_places(9) [OF f] by (simp add: canonical_path_def)
  have "holds (\<lambda>e. intended U t e \<and> staged U e) (extractVerifiedBundleArchive env s (pendingBundle (uc_Plan U)) n h)
      (\<lambda>_ e. intended U t e \<and> staged U e) d"
    by (rule holds_beside [OF touches_extractVerified [OF p] looks_at_and [OF looks_at_inner(2,6)]])
      (simp_all add: d tree_place_def inner_keys_def outer_keys_def L)
  from holds_True_conj [OF this extractVerified_place [OF p parts_nonempty [OF ok]]] show ?thesis
    by (rule holds_mono) (auto simp: unpacked_def)
qed

definition loaded :: "update_case \<Rightarrow> time \<Rightarrow> tx_disk \<Rightarrow> bool" where
  "loaded U t d \<longleftrightarrow> intended U t d \<and> staged U d \<and> unpacked U d"

lemma looks_at_unpacked: "looks_at [path_parts (pendingBundle (uc_Plan U))] (unpacked U)"
  by (simp add: looks_at_def unpacked_def)

lemma looks_at_loaded:
  "looks_at (path_parts (pendingBundle (uc_Plan U)) # inner_keys U) (loaded U t)"
proof -
  have "looks_at ([path_parts (pendingBundle (uc_Plan U))] @ inner_keys U) (\<lambda>d. unpacked U d \<and> intended U t d \<and> staged U d)"
    by (rule looks_at_conj [OF looks_at_unpacked looks_at_and [OF looks_at_inner(2,6)]])
  moreover have "loaded U t = (\<lambda>d. unpacked U d \<and> intended U t d \<and> staged U d)"
    by (auto simp: loaded_def)
  ultimately show ?thesis by simp
qed

lemma runtime_unpacked:
  assumes ok: "update_ok U" and d: "loaded U t d"
  shows "holds (loaded U t) (extractVerifiedBundleArchive env s (pendingRuntime (uc_Plan U)) n h) (\<lambda>_. loaded U t) d"
proof -
  note f = update_ok_facts(1) [OF ok]
  note L = places [OF f]
  show ?thesis
    by (rule holds_beside [OF touches_extractVerified [OF runtime_places(4) [OF f]] looks_at_loaded _ d])
      (simp add: tree_place_def inner_keys_def outer_keys_def L)
qed

section \<open>Backup\<close>

definition vacated :: "update_case \<Rightarrow> time \<Rightarrow> tx_disk \<Rightarrow> bool" where
  "vacated U t d \<longleftrightarrow> moved U t d \<and> staged U d \<and> unpacked U d"

lemma file_not_dir: "is_file n \<Longrightarrow> n \<noteq> NDir"
  by auto

lemma vacate:
  assumes ok: "update_ok U" and d: "loaded U t d"
  shows "vacated U t (move_under (cli_key U) (backup_key U) d)"
proof -
  note f = update_ok_facts(1) [OF ok]
  note L = places [OF f]
  have a: "\<not> prefix (cli_key U) (backup_key U)" "\<not> prefix (backup_key U) (cli_key U)" by (simp_all add: L)
  have "list_all (\<lambda>q. \<not> prefix (cli_key U) q \<and> \<not> prefix (backup_key U) q)
      [plan_key U, state_key U, receipt_key U, bundle_key U, pending_key U, path_parts (pendingBundle (uc_Plan U))]"
    by (simp add: L)
  with a d show ?thesis
    by (simp add: loaded_def vacated_def moved_def intended_def switching_def staged_def unpacked_def holds_doc_def node_move)
qed

lemma backed_up:
  assumes ok: "update_ok U" and env: "honest env" and d: "loaded U t d"
  shows "holds (recoverable U) (back_up env (uc_Plan U))
    (\<lambda>r e. case r of Inl _ \<Rightarrow> intended U t e | Inr b \<Rightarrow> b = expectedSourceCLIBackup (uc_Plan U) \<and> vacated U t e) d"
proof -
  let ?P = "uc_Plan U"
  note f = update_ok_facts [OF ok]
  note L = places [OF f(1)]
  have intended: "loaded U t e \<Longrightarrow> intended U t e" for e by (simp add: loaded_def)
  have path: "backup_path ?P = expectedSourceCLIBackup ?P" by (simp add: backup_path_def f(6))
  have A: "node_at d (cli_key U) = Some (uc_Old U)" using d by (simp add: loaded_def intended_def)
  have there: "fst (unless_missing (os_Stat env (activeCLI ?P)) d) \<noteq> Inr None"
    using A f(2) honest_refusal [OF env, of "''stat''" "activeCLI ?P"]
    by (cases "uc_Old U") (auto simp: unless_missing_run Stat_result resolve_def split: option.splits sum.splits if_splits)
  have mk: "holds (loaded U t) (os_MkdirAll env (filepath_Dir (expectedSourceCLIBackup ?P))) (\<lambda>_. loaded U t) d"
    by (rule holds_beside [OF touches_MkdirAll looks_at_loaded _ d]) (simp add: inner_keys_def outer_keys_def L)
  have mk': "holds (recoverable U) (os_MkdirAll env (filepath_Dir (expectedSourceCLIBackup ?P))) (\<lambda>_. loaded U t) d"
    by (rule holds_mono [OF mk]) (auto dest: intended)
  have mv: "holds (recoverable U) (os_Rename env (activeCLI ?P) (expectedSourceCLIBackup ?P))
      (\<lambda>r e. case r of Inl _ \<Rightarrow> intended U t e | Inr _ \<Rightarrow> vacated U t e) e" if e: "loaded U t e" for e
  proof (rule holds_Rename)
    from vacate [OF ok e] show "recoverable U (move_under (cli_key U) (backup_key U) e) \<and>
        (case Inr () of Inl _ \<Rightarrow> intended U t (move_under (cli_key U) (backup_key U) e)
          | Inr _ \<Rightarrow> vacated U t (move_under (cli_key U) (backup_key U) e))"
      by (auto simp: vacated_def moved_def)
  qed (use e intended in \<open>simp_all add: L\<close>)
  show ?thesis
    unfolding back_up_def path
  proof (rule holds_read_ok)
    show "quiet (unless_missing (os_Stat env (activeCLI ?P)))" by (intro quiet)
    fix n
    assume "fst (unless_missing (os_Stat env (activeCLI ?P)) d) = Inr n"
    with there obtain k where n: "n = Some k" by (cases n) auto
    have "holds (recoverable U) (then_ok (os_MkdirAll env (filepath_Dir (expectedSourceCLIBackup ?P))) (\<lambda>_.
        then_ok (map_error w (os_Rename env (activeCLI ?P) (expectedSourceCLIBackup ?P)))
          (\<lambda>_. ret (Inr (expectedSourceCLIBackup ?P)))))
      (\<lambda>r e. case r of Inl _ \<Rightarrow> intended U t e | Inr b \<Rightarrow> b = expectedSourceCLIBackup ?P \<and> vacated U t e) d" for w
      by (rule holds_then_ok [OF mk'], simp add: intended, erule holds_error_ok [OF mv]) (auto intro!: holds_ret)
    with n show "holds (recoverable U) (if n = None then ret (Inr [])
        else then_ok (os_MkdirAll env (filepath_Dir (expectedSourceCLIBackup ?P))) (\<lambda>_.
          then_ok (map_error (wrapped ''backup active CLI: %w'') (os_Rename env (activeCLI ?P) (expectedSourceCLIBackup ?P)))
            (\<lambda>_. ret (Inr (expectedSourceCLIBackup ?P)))))
      (\<lambda>r e. case r of Inl _ \<Rightarrow> intended U t e | Inr b \<Rightarrow> b = expectedSourceCLIBackup ?P \<and> vacated U t e) d" by simp
  qed (use d intended in simp)
qed

end
