(* ===== verification/InstallCommit.thy ===== *)
theory InstallCommit
  imports InstallSwitch
begin

text \<open>
  The switch of the payload, its way back, and \<open>Activate\<close> as a whole.
\<close>

section \<open>The way back\<close>

lemma cli_removed:
  assumes ok: "update_ok U" and d: "switching U t d"
  shows "switching U t (AList.delete (cli_key U) d)"
proof -
  note L = places [OF update_ok_facts(1) [OF ok]]
  from d show ?thesis by (simp add: switching_def holds_doc_def L)
qed

lemma put_back:
  assumes ok: "update_ok U" and d: "switching U t d"
  shows "rename_error d (backup_key U) (cli_key U) = None" "intended U t (move_under (backup_key U) (cli_key U) d)"
proof -
  note f = update_ok_facts [OF ok]
  note L = places [OF f(1)]
  have a: "\<not> prefix (cli_key U) (backup_key U)" "\<not> prefix (backup_key U) (cli_key U)" by (simp_all add: L)
  have n: "node_at d (backup_key U) = Some (uc_Old U)" using d by (simp add: switching_def)
  have "node_at d (cli_key U) = None \<or> (\<exists>m. node_at d (cli_key U) = Some m \<and> is_file m)"
    using d by (auto simp: switching_def split: option.splits)
  then show "rename_error d (backup_key U) (cli_key U) = None"
    using a n f(2) by (auto simp: rename_error_def strict_prefix_def split: node.splits)
  have "list_all (\<lambda>q. \<not> prefix (cli_key U) q \<and> \<not> prefix (backup_key U) q) [plan_key U, state_key U, receipt_key U]"
    by (simp add: L)
  with a d show "intended U t (move_under (backup_key U) (cli_key U) d)"
    by (simp add: intended_def switching_def holds_doc_def node_move)
qed

lemma removed_outside:
  assumes "update_ok U" "looks_at (outer_keys U) I" "I d"
    "p = bundleTarget (uc_Plan U) \<or> runtimeTarget (uc_Plan U) \<noteq> [] \<and> p = runtimeTarget (uc_Plan U)
      \<or> p = pendingBundle (uc_Plan U) \<or> p = pendingRuntime (uc_Plan U)"
  shows "holds I (os_RemoveAll env p) (\<lambda>_. I) d"
proof -
  note L = places [OF update_ok_facts(1) [OF assms(1)]]
  show ?thesis
    by (rule holds_beside [OF touches_RemoveAll assms(2) _ assms(3)]) (use assms(4) in \<open>auto simp: outer_keys_def L\<close>)
qed

lemma restored:
  assumes ok: "update_ok U" and d: "switching U t d"
    and calm: "os_Refused env ''rename'' (expectedSourceCLIBackup (uc_Plan U)) = None"
  shows "holds (recoverable U) (restore env (uc_Plan U) (expectedSourceCLIBackup (uc_Plan U))) (\<lambda>_. intended U t) d"
proof -
  let ?P = "uc_Plan U"
  have rec: "intended U t e \<Longrightarrow> recoverable U e" "switching U t e \<Longrightarrow> recoverable U e" for e by auto
  have first: "holds (recoverable U) (os_Remove env (activeCLI ?P)) (\<lambda>_. switching U t) d"
    by (rule holds_Remove) (use d cli_removed [OF ok d] rec in auto)
  have "path_parts (expectedSourceCLIBackup ?P) \<noteq> cli_key U"
    using places [OF update_ok_facts(1) [OF ok]] by simp
  then have returned: "holds (recoverable U) (os_Rename env (expectedSourceCLIBackup ?P) (activeCLI ?P)) (\<lambda>_. intended U t) e"
    if "switching U t e" for e
    by (rule holds_Rename) (use calm put_back [OF ok that] rec in auto)
  have out: "holds (recoverable U) (os_RemoveAll env p) (\<lambda>_. intended U t) e"
    if "intended U t e" "p = bundleTarget ?P \<or> runtimeTarget ?P \<noteq> [] \<and> p = runtimeTarget ?P" for p e
    by (rule holds_mono [OF removed_outside [OF ok looks_at_phases(2) that(1)]]) (use that(2) rec in auto)
  have "expectedSourceCLIBackup ?P \<noteq> []"
    using managed_places(11) [OF update_ok_facts(1) [OF ok]] by (auto simp: canonical_path_def IsAbs_def has_prefix_def)
  then show ?thesis
    unfolding restore_def
    by (intro holds_then [OF first] holds_then [where R = "\<lambda>_. intended U t"])
      (auto intro!: returned out holds_ret)
qed

section \<open>The switch\<close>

definition bundled :: "update_case \<Rightarrow> time \<Rightarrow> tx_disk \<Rightarrow> bool" where
  "bundled U t d \<longleftrightarrow> moved U t d \<and> staged U d \<and> node_at d (bundle_key U) = Some NDir"

definition arrived :: "update_case \<Rightarrow> time \<Rightarrow> tx_disk \<Rightarrow> bool" where
  "arrived U t d \<longleftrightarrow> switching U t d \<and> authentic (uc_SHA U) (uc_Plan U) (node_at d (cli_key U))
     \<and> node_at d (bundle_key U) = Some NDir"

lemma switching_stages: "vacated U t d \<Longrightarrow> switching U t d" "bundled U t d \<Longrightarrow> switching U t d" "arrived U t d \<Longrightarrow> switching U t d"
  by (simp_all add: vacated_def bundled_def arrived_def moved_def)

lemma looks_at_switch: "looks_at (inner_keys U) (bundled U t)" "looks_at (inner_keys U) (arrived U t)"
  by (simp_all add: looks_at_def inner_keys_def outer_keys_def switching_def bundled_def arrived_def moved_def
      staged_def holds_doc_def split: option.split)

lemma bundle_arrives:
  assumes ok: "update_ok U" and d: "vacated U t d"
  shows "bundled U t (move_under (path_parts (pendingBundle (uc_Plan U))) (bundle_key U) d)"
proof -
  note L = places [OF update_ok_facts(1) [OF ok]]
  let ?a = "path_parts (pendingBundle (uc_Plan U))"
  have a: "\<not> prefix ?a (bundle_key U)" "\<not> prefix (bundle_key U) ?a" by (simp_all add: L)
  have "list_all (\<lambda>q. \<not> prefix ?a q \<and> \<not> prefix (bundle_key U) q)
      [plan_key U, state_key U, receipt_key U, cli_key U, backup_key U, pending_key U]" by (simp add: L)
  with a d show ?thesis
    by (simp add: vacated_def bundled_def moved_def switching_def staged_def unpacked_def holds_doc_def node_move)
qed

lemma cli_arrives:
  assumes ok: "update_ok U" and d: "bundled U t d"
  shows "arrived U t (move_under (pending_key U) (cli_key U) d)"
proof -
  note L = places [OF update_ok_facts(1) [OF ok]]
  have a: "\<not> prefix (pending_key U) (cli_key U)" "\<not> prefix (cli_key U) (pending_key U)" by (simp_all add: L)
  have "list_all (\<lambda>q. \<not> prefix (pending_key U) q \<and> \<not> prefix (cli_key U) q)
      [plan_key U, state_key U, receipt_key U, backup_key U, bundle_key U]" by (simp add: L)
  moreover from d obtain b x where "node_at d (pending_key U) = Some (NFile b x)"
    by (auto simp: bundled_def staged_def authentic_def split: option.splits node.splits)
  ultimately show ?thesis using a d
    by (simp add: bundled_def moved_def arrived_def switching_def staged_def holds_doc_def node_move)
qed

lemma state_committed:
  assumes ok: "update_ok U" and d: "arrived U t d"
  shows "switched U t (AList.update (state_key U) (NFile b (Some (target_doc U t))) d)"
proof -
  note L = places [OF update_ok_facts(1) [OF ok]]
  from d show ?thesis by (simp add: arrived_def switching_def switched_def holds_doc_def L)
qed

lemma state_written:
  assumes ok: "update_ok U" and d: "arrived U t d"
  shows "holds (recoverable U) (WriteState env (ap_DataRoot (uc_Plan U)) (committedTargetState (uc_Plan U) (source_of U) t))
    (\<lambda>r e. case r of Inl _ \<Rightarrow> switching U t e | Inr _ \<Rightarrow> switched U t e) d"
proof -
  let ?D = "ap_DataRoot (uc_Plan U)"
  note L = places [OF update_ok_facts(1) [OF ok]]
  have "holds (arrived U t) (os_MkdirAll env (filepath_Dir (statePath ?D))) (\<lambda>_. arrived U t) d"
    by (rule holds_beside [OF touches_MkdirAll looks_at_switch(2) _ d]) (simp add: inner_keys_def outer_keys_def L)
  then have mk: "holds (recoverable U) (os_MkdirAll env (filepath_Dir (statePath ?D))) (\<lambda>_. arrived U t) d"
    by (rule holds_mono) (auto dest: switching_stages)
  have put: "holds (recoverable U) (os_Replace env (statePath ?D) b (target_doc U t))
      (\<lambda>r e. case r of Inl _ \<Rightarrow> switching U t e | Inr _ \<Rightarrow> switched U t e) e" if "arrived U t e" for b e
    by (rule holds_Replace) (use that state_committed [OF ok that] switching_stages in auto)
  have "holds (recoverable U) (writeJSONAtomic env (statePath ?D) (target_doc U t))
      (\<lambda>r e. case r of Inl _ \<Rightarrow> switching U t e | Inr _ \<Rightarrow> switched U t e) d"
    unfolding writeJSONAtomic_def by (rule holds_then_ok [OF mk]) (auto intro: put dest: switching_stages)
  with switching_stages(3) [OF d] show ?thesis
    unfolding WriteState_def target_doc_def [symmetric] by (simp add: holds_ret)
qed

lemma payload_switched:
  assumes ok: "update_ok U" and d: "vacated U t d"
    and calm: "os_Refused env ''rename'' (expectedSourceCLIBackup (uc_Plan U)) = None"
  shows "holds (recoverable U)
    (switch_payload env (uc_Plan U) (Some (source_of U)) t (expectedSourceCLIBackup (uc_Plan U)))
    (\<lambda>r e. case r of Inl _ \<Rightarrow> intended U t e | Inr _ \<Rightarrow> switched U t e) d"
proof -
  let ?P = "uc_Plan U"
  note L = places [OF update_ok_facts(1) [OF ok]]
  have rec: "switching U t e \<Longrightarrow> recoverable U e" for e by auto
  have next_is: "next_state ?P (Some (source_of U)) (expectedSourceCLIBackup ?P) t = committedTargetState ?P (source_of U) t"
    by (simp add: next_state_def committedTargetState_def)
  have one: "holds (recoverable U) (os_Rename env (pendingBundle ?P) (bundleTarget ?P))
      (\<lambda>r e. case r of Inl _ \<Rightarrow> switching U t e | Inr _ \<Rightarrow> bundled U t e) d"
    by (rule holds_Rename) (use bundle_arrives [OF ok d] d switching_stages rec in \<open>auto simp: L\<close>)
  have two: "holds (recoverable U) (if runtimeTarget ?P = [] then ret (Inr ())
      else map_error w (os_Rename env (pendingRuntime ?P) (runtimeTarget ?P))) (\<lambda>_. bundled U t) e"
    if e: "bundled U t e" for w e
  proof (cases "runtimeTarget ?P = []")
    case False
    have "holds (bundled U t) (os_Rename env (pendingRuntime ?P) (runtimeTarget ?P)) (\<lambda>_. bundled U t) e"
      by (rule holds_beside [OF touches_Rename looks_at_switch(1) _ e])
        (use False in \<open>simp add: inner_keys_def outer_keys_def L\<close>)
    then have "holds (recoverable U) (os_Rename env (pendingRuntime ?P) (runtimeTarget ?P)) (\<lambda>_. bundled U t) e"
      by (rule holds_mono) (auto dest: switching_stages)
    with False show ?thesis by (simp add: holds_map_error)
  qed (simp add: e holds_ret)
  have three: "holds (recoverable U) (os_Rename env (pendingCLI ?P) (activeCLI ?P))
      (\<lambda>r e. case r of Inl _ \<Rightarrow> switching U t e | Inr _ \<Rightarrow> arrived U t e) e" if e: "bundled U t e" for e
    by (rule holds_Rename) (use cli_arrives [OF ok e] e switching_stages rec in \<open>auto simp: L\<close>)
  have four: "holds (recoverable U) (map_error w (commandSelfCheck env p v)) (\<lambda>_. arrived U t) e" if "arrived U t e" for w p v e
    by (rule holds_map_error, rule holds_quiet [OF quiet_selfCheck, of "\<lambda>_. arrived U t"]) (use that in auto)
  have five: "holds (recoverable U) (map_error w (WriteState env (ap_DataRoot ?P) (committedTargetState ?P (source_of U) t)))
      (\<lambda>r e. case r of Inl _ \<Rightarrow> switching U t e | Inr _ \<Rightarrow> switched U t e) e" if "arrived U t e" for w e
    by (rule holds_map_error [OF state_written [OF ok that]]) simp_all
  show ?thesis
    unfolding switch_payload_def next_is
  proof (rule holds_on_failure [where R = "\<lambda>r e. case r of Inl _ \<Rightarrow> switching U t e | Inr _ \<Rightarrow> switched U t e"])
    show "holds (recoverable U) (restore env ?P (expectedSourceCLIBackup ?P))
        (\<lambda>_ e. case Inl er of Inl _ \<Rightarrow> intended U t e | Inr _ \<Rightarrow> switched U t e) e"
      if "case Inl er of Inl _ \<Rightarrow> switching U t e | Inr _ \<Rightarrow> switched U t e" for er e
      using restored [OF ok _ calm, of t e] that by simp
  qed (rule holds_error_ok [OF one], simp, rule holds_then_ok, erule two, simp add: switching_stages,
      rule holds_error_ok, erule three, simp, rule holds_then_ok, erule four, simp add: switching_stages, erule five, simp)
qed

section \<open>Activate\<close>

lemma outcome_beside:
  assumes "update_ok U" "case r of Inl _ \<Rightarrow> intended U t e | Inr _ \<Rightarrow> switched U t e"
    "touches F m" "list_all (\<lambda>q. \<not> F q) (bundle_key U # outer_keys U)"
  shows "holds (recoverable U) m (\<lambda>_ e. case r of Inl _ \<Rightarrow> intended U t e | Inr _ \<Rightarrow> switched U t e) e"
proof (cases r)
  case (Inl er)
  have "holds (intended U t) m (\<lambda>_. intended U t) e"
    by (rule holds_beside [OF assms(3) looks_at_phases(6) assms(4)]) (use assms(2) Inl in simp)
  then show ?thesis by (rule holds_mono) (auto simp: Inl)
next
  case (Inr u)
  have "holds (switched U t) m (\<lambda>_. switched U t) e"
    by (rule holds_beside [OF assms(3) looks_at_phases(4) assms(4)]) (use assms(2) Inr in simp)
  then show ?thesis by (rule holds_mono) (auto simp: Inr)
qed

lemma cleaned_up:
  assumes ok: "update_ok U" and r: "case r of Inl _ \<Rightarrow> intended U t e | Inr _ \<Rightarrow> switched U t e"
  shows "holds (recoverable U) (os_RemoveAll env (pendingBundle (uc_Plan U)))
      (\<lambda>_ e. case r of Inl _ \<Rightarrow> intended U t e | Inr _ \<Rightarrow> switched U t e) e"
    "holds (recoverable U) (os_RemoveAll env (pendingRuntime (uc_Plan U)))
      (\<lambda>_ e. case r of Inl _ \<Rightarrow> intended U t e | Inr _ \<Rightarrow> switched U t e) e"
    "holds (recoverable U) (os_Remove env (pendingCLI (uc_Plan U)))
      (\<lambda>_ e. case r of Inl _ \<Rightarrow> intended U t e | Inr _ \<Rightarrow> switched U t e) e"
proof -
  note L = places [OF update_ok_facts(1) [OF ok]]
  show "holds (recoverable U) (os_RemoveAll env (pendingBundle (uc_Plan U)))
      (\<lambda>_ e. case r of Inl _ \<Rightarrow> intended U t e | Inr _ \<Rightarrow> switched U t e) e"
    by (rule outcome_beside [OF ok r touches_RemoveAll]) (simp add: outer_keys_def L)
  show "holds (recoverable U) (os_RemoveAll env (pendingRuntime (uc_Plan U)))
      (\<lambda>_ e. case r of Inl _ \<Rightarrow> intended U t e | Inr _ \<Rightarrow> switched U t e) e"
    by (rule outcome_beside [OF ok r touches_RemoveAll]) (simp add: outer_keys_def L)
  show "holds (recoverable U) (os_Remove env (pendingCLI (uc_Plan U)))
      (\<lambda>_ e. case r of Inl _ \<Rightarrow> intended U t e | Inr _ \<Rightarrow> switched U t e) e"
    by (rule outcome_beside [OF ok r touches_Remove]) (simp add: outer_keys_def L)
qed

text \<open>What one run of an update needs of its surroundings.\<close>

definition calm_rename :: "update_case \<Rightarrow> tx_env \<Rightarrow> bool" where
  "calm_rename U env \<longleftrightarrow> honest env \<and> te_SHA256 env = uc_SHA U
     \<and> os_Refused env ''rename'' (expectedSourceCLIBackup (uc_Plan U)) = None"

lemma payload_installed:
  assumes ok: "update_ok U" and env: "calm_rename U env" and d: "intended U t d"
  shows "holds (recoverable U) (install_payload env (uc_Plan U) (Some (source_of U)) t)
    (\<lambda>r e. case r of Inl _ \<Rightarrow> intended U t e | Inr _ \<Rightarrow> switched U t e) d"
proof -
  let ?P = "uc_Plan U" and ?Q = "\<lambda>r e. case r of Inl _ \<Rightarrow> intended U t e | Inr _ \<Rightarrow> switched U t e"
  have e: "honest env" "te_SHA256 env = uc_SHA U" "os_Refused env ''rename'' (expectedSourceCLIBackup ?P) = None"
    using env by (simp_all add: calm_rename_def)
  have rec: "intended U t x \<Longrightarrow> recoverable U x" for x by auto
  have parents: "holds (recoverable U) (make_parents env ?P) (\<lambda>_. intended U t) d"
    by (rule holds_mono [OF parents_made [OF ok d]]) (auto intro: rec)
  have cli: "holds (recoverable U) (copyVerifiedRegular env s (pendingCLI ?P) (ap_CLISize ?P) (ap_CLISHA256 ?P))
      (\<lambda>r e. case r of Inl _ \<Rightarrow> intended U t e | Inr _ \<Rightarrow> intended U t e \<and> staged U e) x" if "intended U t x" for s x
    by (rule holds_mono [OF cli_copied [OF ok e(2) that]]) (auto intro: rec split: sum.splits)
  have unpacks: "holds (recoverable U) (extractVerifiedBundleArchive env s (pendingBundle ?P) n h)
      (\<lambda>r e. case r of Inl _ \<Rightarrow> intended U t e | Inr _ \<Rightarrow> loaded U t e) x" if "intended U t x \<and> staged U x" for s n h x
    by (rule holds_mono [OF bundle_unpacked [OF ok]]) (use that in \<open>auto intro: rec simp: loaded_def split: sum.splits\<close>)
  have runtime: "holds (recoverable U) (extractVerifiedBundleArchive env s (pendingRuntime ?P) n h) (\<lambda>_. loaded U t) x"
    if "loaded U t x" for s n h x
    by (rule holds_mono [OF runtime_unpacked [OF ok that]]) (auto intro: rec simp: loaded_def)
  have switch: "holds (recoverable U)
      (then_ok (back_up env ?P) (\<lambda>b. switch_payload env ?P (Some (source_of U)) t b)) ?Q x" if "loaded U t x" for x
    by (rule holds_ok [OF backed_up [OF ok e(1) that]]) (auto intro: payload_switched [OF ok _ e(3)])
  have path: "holds (recoverable U) (then_ok (ensureSafePath env r p) (\<lambda>_. m)) ?Q x"
    if "intended U t x" "holds (recoverable U) m ?Q x" for r p x and m :: "unit tx"
    by (rule holds_read_ok) (use that in auto)
  have inner: "holds (recoverable U)
      (if runtimeTarget ?P = [] then then_ok (back_up env ?P) (\<lambda>b. switch_payload env ?P (Some (source_of U)) t b)
       else then_ok (ensureSafePath env (ap_ManagedRoot ?P) (pendingRuntime ?P)) (\<lambda>_.
            then_ok (extractVerifiedBundleArchive env (ap_StagedRuntimePack ?P) (pendingRuntime ?P)
              (ap_RuntimePackSize ?P) (ap_RuntimePackSHA256 ?P)) (\<lambda>_.
            deferred (then_ok (back_up env ?P) (\<lambda>b. switch_payload env ?P (Some (source_of U)) t b))
              (\<lambda>_. os_RemoveAll env (pendingRuntime ?P))))) ?Q x" if x: "loaded U t x" for x
    using x by (auto simp: loaded_def intro!: switch path holds_then_ok [OF runtime] holds_deferred [OF switch] cleaned_up(2) [OF ok])
  show ?thesis
    unfolding install_payload_def
    by (rule holds_then_ok [OF parents], simp, rule path, assumption, rule holds_ok, erule cli, simp,
        rule holds_deferred [where R = ?Q], rule path, erule conjunct1, rule holds_ok, erule unpacks, simp,
        rule holds_deferred [where R = ?Q], erule inner, erule cleaned_up(1) [OF ok], erule cleaned_up(3) [OF ok])
qed

lemma intent_dropped:
  assumes "update_ok U" "intended U t d"
  shows "untouched U (AList.delete (receipt_key U) d)"
  using assms(2) by (simp add: intended_def untouched_def holds_doc_def places [OF update_ok_facts(1) [OF assms(1)]])

definition activated :: "update_case \<Rightarrow> tx_env \<Rightarrow> tx_disk \<Rightarrow> fs_error + unit \<Rightarrow> tx_disk \<Rightarrow> bool" where
  "activated U env d r e \<longleftrightarrow> (case r of
     Inl _ \<Rightarrow> recoverable U e \<and> (ready U d \<longrightarrow> ready U e) | Inr _ \<Rightarrow> switched U (te_Now env) e)"

lemma locked_activation:
  assumes ok: "update_ok U" and env: "calm_rename U env" and d: "recoverable U d"
  shows "holds (recoverable U) (activate_locked env (uc_Path U) (uc_Plan U)) (activated U env d) d"
proof -
  let ?P = "uc_Plan U" and ?t = "te_Now env"
  have h: "honest env" using env by (simp add: calm_rename_def)
  have run: "holds (recoverable U)
      (then_ok (map_error w (writeActivationReceipt env (uc_Path U) (receiptForPlan ?P ?t))) (\<lambda>_.
        on_failure (install_payload env ?P (Some (source_of U)) ?t) (os_Remove env (receipt_path (uc_Path U)))))
      (activated U env d) d" if "ready U d" for w
  proof (rule holds_error_ok [OF intent_written [OF ok that]])
    show "holds (recoverable U) (on_failure (install_payload env ?P (Some (source_of U)) ?t) (os_Remove env (receipt_path (uc_Path U))))
        (activated U env d) e" if e: "intended U ?t e" for e
    proof (rule holds_on_failure [OF payload_installed [OF ok env e]])
      show "holds (recoverable U) (os_Remove env (receipt_path (uc_Path U))) (\<lambda>_. activated U env d (Inl er)) x"
        if "case Inl er of Inl _ \<Rightarrow> intended U ?t x | Inr _ \<Rightarrow> switched U ?t x" for er x
        by (rule holds_Remove)
          (use that intent_dropped [OF ok, of ?t x] intended_ready in \<open>auto simp: activated_def ready_def\<close>)
    qed (simp add: activated_def)
  qed (auto simp: activated_def intro: ready_recoverable)
  show ?thesis
    unfolding activate_locked_def
    by (rule holds_then_ok [OF activation_checked [OF ok h d]])
      (use run d in \<open>auto simp: update_ok_facts(6) [OF ok] activated_def\<close>)
qed

lemma lock_beside:
  assumes "update_ok U"
  shows "list_all (\<lambda>q. \<not> q = path_parts (lockPath (ap_ManagedRoot (uc_Plan U)))) (inner_keys U)"
  using places [OF update_ok_facts(1) [OF assms]] by (simp add: inner_keys_def outer_keys_def)

definition still_ready :: "update_case \<Rightarrow> tx_disk \<Rightarrow> tx_disk \<Rightarrow> bool" where
  "still_ready U d e \<longleftrightarrow> recoverable U e \<and> (ready U d \<longrightarrow> ready U e)"

lemma looks_at_still_ready: "looks_at (inner_keys U) (still_ready U d)"
  unfolding looks_at_def still_ready_def
  using looks_at_recoverable [unfolded looks_at_def] looks_at_inner(3) [unfolded looks_at_def] by blast

lemma looks_at_activated: "looks_at (inner_keys U) (activated U env d r)"
  using looks_at_still_ready looks_at_inner(5)
  by (cases r) (simp_all add: activated_def still_ready_def looks_at_def)

theorem Activate_phases:
  assumes ok: "update_ok U" and env: "calm_rename U env" and d: "recoverable U d"
  shows "holds (recoverable U) (Activate env (uc_Path U) v o') (activated U env d) d"
proof -
  let ?P = "uc_Plan U"
  have lock: "holds (recoverable U) (acquireLock env (ap_ManagedRoot ?P)) (\<lambda>_. still_ready U d) d"
    by (rule holds_mono [OF holds_beside [OF touches_acquireLock looks_at_still_ready lock_beside [OF ok]]]) (use d in \<open>auto simp: still_ready_def\<close>)
  have unlock: "holds (recoverable U) (unlock env (ap_ManagedRoot ?P)) (\<lambda>_. activated U env d r) e"
    if "activated U env d r e" for r e
    unfolding unlock_def
    by (rule holds_mono [OF holds_beside [OF touches_Remove looks_at_activated lock_beside [OF ok] that]])
      (auto simp: activated_def split: sum.splits)
  have locked: "holds (recoverable U) (activate_locked env (uc_Path U) ?P) (activated U env d) e" if "still_ready U d e" for e
    by (rule holds_mono [OF locked_activation [OF ok env]]) (use that in \<open>auto simp: still_ready_def activated_def split: sum.splits\<close>)
  have plan: "plan = ?P" if "fst (ValidatePrepared env (uc_Path U) v o' d) = Inr plan" for plan
    using d by (rule recoverable_cases)
      (use ValidatePrepared_plan [OF _ that] in \<open>auto simp: untouched_def intended_def switching_def switched_def\<close>)
  have here: "activated U env d (Inl er) d" for er using d by (simp add: activated_def)
  have "quiet (ready_root env ?P)" by (simp add: ready_root_def update_ok_facts(6) [OF ok]) (intro quiet)
  then have go: "holds (recoverable U) (then_ok (ready_root env ?P) (\<lambda>_. then_ok (acquireLock env (ap_ManagedRoot ?P)) (\<lambda>_.
      deferred (activate_locked env (uc_Path U) ?P) (\<lambda>_. unlock env (ap_ManagedRoot ?P))))) (activated U env d) d"
    by (rule holds_read_ok) (rule here, rule holds_then_ok [OF lock], simp add: still_ready_def activated_def,
        rule holds_deferred [OF locked], assumption, erule unlock)
  show ?thesis
    unfolding Activate_def
  proof (rule holds_read_ok)
    show "holds (recoverable U) (then_ok (ready_root env plan) (\<lambda>_. then_ok (acquireLock env (ap_ManagedRoot plan)) (\<lambda>_.
        deferred (activate_locked env (uc_Path U) plan) (\<lambda>_. unlock env (ap_ManagedRoot plan))))) (activated U env d) d"
      if "fst (ValidatePrepared env (uc_Path U) v o' d) = Inr plan" for plan
      using go unfolding plan [OF that] .
  qed (auto intro: here)
qed

end
