(* ===== verification/InstallReconcile.thy ===== *)
theory InstallReconcile
  imports InstallCommit
begin

text \<open>
  \<open>ReconcileActivated\<close> from every disk that an interrupted update can leave: it stays within the
  phases, and when it returns without an error the update is either complete or undone.
\<close>

section \<open>Verification of the payload\<close>

lemma holds_MkdirTemp:
  assumes "\<And>er. Q (Inl er) d" "p = filepath_Join [dir, pre @ te_TempName env]"
    "node_at d (path_parts p) = None \<Longrightarrow> I (AList.update (path_parts p) NDir d) \<and> Q (Inr p) (AList.update (path_parts p) NDir d)"
  shows "holds I (os_MkdirTemp env dir pre) Q d"
  using assms by (auto simp: holds_def os_MkdirTemp_def Let_def syscall_def split: option.splits)

lemma treeIdentity_root: "fst (treeIdentity env p d) = Inr is \<Longrightarrow> node_at d (path_parts p) = Some NDir"
  by (auto simp: treeIdentity_def quiet_step Lstat_result ret_def split: sum.splits option.splits if_splits)

lemma equalTrees_right: "fst (equalTrees env l r d) = Inr b \<Longrightarrow> node_at d (path_parts r) = Some NDir"
  using treeIdentity_root [of env r d] by (auto simp: equalTrees_def quiet_step split: sum.splits)

definition verified :: "update_case \<Rightarrow> tx_disk \<Rightarrow> bool" where
  "verified U d \<longleftrightarrow> authentic (uc_SHA U) (uc_Plan U) (node_at d (cli_key U)) \<and> node_at d (bundle_key U) = Some NDir"

lemma looks_at_verified: "looks_at (inner_keys U) (verified U)"
  by (simp add: looks_at_def inner_keys_def outer_keys_def verified_def)

lemma looks_at_cli: "looks_at (inner_keys U) (\<lambda>d. authentic sha P (node_at d (cli_key U)))"
  by (simp add: looks_at_def inner_keys_def outer_keys_def)

lemma payload_verified:
  assumes ok: "update_ok U" and env: "honest env" "te_SHA256 env = uc_SHA U" and I: "looks_at (inner_keys U) I" "I d"
  shows "holds I (verifyActivatedPayload env (uc_Plan U)) (\<lambda>r e. I e \<and> (r = Inr () \<longrightarrow> verified U e)) d"
proof -
  let ?P = "uc_Plan U"
  let ?J = "\<lambda>e. I e \<and> authentic (uc_SHA U) ?P (node_at e (cli_key U))" and ?K = "\<lambda>e. I e \<and> verified U e"
  note f = update_ok_facts(1) [OF ok]
  note L = places [OF f]
  have slash: "CHR ''/'' \<notin> set (te_TempName env)" using env(1) by (simp add: honest_def)
  note s = scratch_place [OF f slash]
  have apart: "list_all (\<lambda>q. \<not> tree_place (path_parts (scratch_bundle env ?P)) q) (inner_keys U)"
    by (simp add: inner_keys_def outer_keys_def tree_place_def s(1) L)
  have other: "list_all (\<lambda>q. \<not> q = path_parts (scratch_bundle env ?P)) (inner_keys U)"
    by (rule list.pred_mono_strong [OF apart]) (auto simp: tree_place_def)
  have under: "list_all (\<lambda>q. \<not> prefix (path_parts (scratch_bundle env ?P)) q) (inner_keys U)"
    by (rule list.pred_mono_strong [OF apart]) (auto simp: tree_place_def)
  have J: "looks_at (inner_keys U) ?J" by (rule looks_at_and [OF I(1) looks_at_cli])
  have K: "looks_at (inner_keys U) ?K" by (rule looks_at_and [OF I(1) looks_at_verified])
  have cli: "?J d" if "fst (verifyRegularFile env (activeCLI ?P) (ap_CLISize ?P) (ap_CLISHA256 ?P) d) = Inr u" for u
    using verifyRegular_Inr [OF that] I(2) env(2) by (auto simp: authentic_def digest_hex_def)
  have temp: "holds I (os_MkdirTemp env (filepath_Join [ap_DataRoot ?P, ''updates'']) ''.reconcile-bundle-'')
      (\<lambda>r e. ?J e \<and> (\<forall>x. r = Inr x \<longrightarrow> x = scratch_bundle env ?P)) d" if "?J d"
  proof -
    have kept: "holds ?J (os_MkdirTemp env (filepath_Join [ap_DataRoot ?P, ''updates'']) ''.reconcile-bundle-'') (\<lambda>_. ?J) d"
      by (rule holds_beside [OF touches_MkdirTemp J _ that]) (use other in \<open>simp add: scratch_bundle_def\<close>)
    have path: "holds (\<lambda>_. True) (os_MkdirTemp env (filepath_Join [ap_DataRoot ?P, ''updates'']) ''.reconcile-bundle-'')
        (\<lambda>r e. \<forall>x. r = Inr x \<longrightarrow> x = scratch_bundle env ?P) d"
      by (rule holds_MkdirTemp) (simp_all add: scratch_bundle_def)
    from holds_True_conj [OF kept path] show ?thesis by (rule holds_mono) simp_all
  qed
  have unpack: "holds I (extractVerifiedBundleArchive env src (scratch_bundle env ?P) n h) (\<lambda>_. ?J) e" if "?J e" for src n h e
    by (rule holds_mono [OF holds_beside [OF touches_extractVerified [OF s(2)] J apart that]]) auto
  have compare: "holds I (then_ok (equalTrees env (scratch_bundle env ?P) (bundleTarget ?P)) (\<lambda>equal. ret (g equal)))
      (\<lambda>r e. ?J e \<and> (r = Inr () \<longrightarrow> ?K e)) e" if "?J e" for g :: "bool \<Rightarrow> fs_error + unit" and e
    by (rule holds_read_ok)
      (use that equalTrees_right in \<open>auto intro!: holds_ret simp: verified_def\<close>)
  have clean: "holds I (os_RemoveAll env (scratch_bundle env ?P)) (\<lambda>_ e. I e \<and> (r = Inr () \<longrightarrow> verified U e)) e"
    if "?J e \<and> (r = Inr () \<longrightarrow> ?K e)" for r e
  proof (cases "r = Inr ()")
    case True
    then have "?K e" using that by blast
    from holds_beside [OF touches_RemoveAll K under this] show ?thesis by (rule holds_mono) (auto simp: True)
  next
    case False
    from that have "I e" by blast
    from holds_beside [OF touches_RemoveAll I(1) under this] show ?thesis by (rule holds_mono) (auto simp: False)
  qed
  show ?thesis
    unfolding verifyActivatedPayload_def
  proof (rule holds_read_ok)
    fix u
    assume "fst (map_error (wrapped ''reconcile active CLI: %w'')
      (verifyRegularFile env (activeCLI ?P) (ap_CLISize ?P) (ap_CLISHA256 ?P)) d) = Inr u"
    then have "?J d" using cli by (auto simp: quiet_step split: sum.splits)
    have "holds I (deferred
       (then_ok (map_error w (extractVerifiedBundleArchive env (ap_StagedBundleArchive ?P) (scratch_bundle env ?P) n h)) (\<lambda>_.
        then_ok (equalTrees env (scratch_bundle env ?P) (bundleTarget ?P)) (\<lambda>equal. ret (g equal))))
       (\<lambda>_. os_RemoveAll env (scratch_bundle env ?P))) (\<lambda>r e. I e \<and> (r = Inr () \<longrightarrow> verified U e)) e"
      if "?J e" for w n h g e
      by (rule holds_deferred [where R = "\<lambda>r e. ?J e \<and> (r = Inr () \<longrightarrow> ?K e)"], rule holds_then_ok [where R = "\<lambda>_. ?J"],
          rule holds_map_error [OF unpack [OF that]], assumption, assumption, simp, erule compare, erule clean)
    then show "holds I
      (then_ok (os_MkdirTemp env (filepath_Join [ap_DataRoot ?P, ''updates'']) ''.reconcile-bundle-'') (\<lambda>expectedBundle.
       deferred
       (then_ok (map_error (wrapped ''reconcile signed bundle: %w'')
          (extractVerifiedBundleArchive env (ap_StagedBundleArchive ?P) expectedBundle
            (ap_BundleSize ?P) (ap_BundleSHA256 ?P))) (\<lambda>_.
        then_ok (equalTrees env expectedBundle (bundleTarget ?P)) (\<lambda>equal.
          ret (if \<not> equal then Inl (failure ''installed bundle does not match the committed activation receipt'') else Inr ()))))
       (\<lambda>_. os_RemoveAll env expectedBundle)))
      (\<lambda>r e. I e \<and> (r = Inr () \<longrightarrow> verified U e)) d"
      by (intro holds_then_ok [OF temp [OF \<open>?J d\<close>]]) auto
  qed (use I(2) in \<open>auto intro: quiet\<close>)
qed

section \<open>Undoing an update\<close>

lemma removed_if_there:
  assumes "honest env" "\<And>er. Q (Inl er) d" "node_at d (path_parts p) = None \<Longrightarrow> Q (Inr ()) d"
    "I (AList.delete (path_parts p) d) \<and> Q (Inr ()) (AList.delete (path_parts p) d)"
  shows "holds I (remove_if_there env p) Q d"
proof -
  have "holds I (unless_missing (os_Remove env p))
      (\<lambda>r e. case r of Inl er \<Rightarrow> Q (Inl er) e | Inr _ \<Rightarrow> Q (Inr ()) e) d"
    using assms(2-4) honest_refusal [OF assms(1), of "''remove''" p]
    by (auto simp: holds_def unless_missing_run os_Remove_def syscall_def split: option.splits if_splits)
  then show ?thesis
    unfolding remove_if_there_def by (rule holds_then_ok) (auto intro: holds_ret)
qed

definition undone :: "update_case \<Rightarrow> time \<Rightarrow> fs_error + unit \<Rightarrow> tx_disk \<Rightarrow> bool" where
  "undone U t r e \<longleftrightarrow> (case r of Inl _ \<Rightarrow> recoverable U e | Inr _ \<Rightarrow> intended U t e)"

lemma cli_restored:
  assumes ok: "update_ok U" and env: "honest env" and d: "intended U t d \<or> switching U t d"
  shows "holds (recoverable U) (restore_cli env (uc_Plan U) (receiptForPlan (uc_Plan U) t)) (undone U t) d"
proof -
  let ?P = "uc_Plan U"
  note f = update_ok_facts [OF ok]
  have backup: "arc_SourceCLIBackup (receiptForPlan ?P t) = expectedSourceCLIBackup ?P" by (simp add: receiptForPlan_def)
  have apart: "path_parts (expectedSourceCLIBackup ?P) \<noteq> cli_key U" using places [OF f(1)] by simp
  have here: "undone U t (Inl er) d" for er using d by (auto simp: undone_def)
  have moving: "holds (recoverable U) (then_ok (remove_if_there env (activeCLI ?P)) (\<lambda>_.
      os_Rename env (expectedSourceCLIBackup ?P) (activeCLI ?P))) (undone U t) d" if s: "switching U t d"
  proof (rule holds_ok)
    show "holds (recoverable U) (remove_if_there env (activeCLI ?P))
        (\<lambda>r e. case r of Inl _ \<Rightarrow> switching U t e | Inr _ \<Rightarrow> switching U t e) d"
      by (rule removed_if_there [OF env]) (use s cli_removed [OF ok s] in auto)
    show "holds (recoverable U) (os_Rename env (expectedSourceCLIBackup ?P) (activeCLI ?P)) (undone U t) e"
      if "switching U t e" for e
      by (rule holds_Rename [OF apart]) (use put_back [OF ok that] that in \<open>auto simp: undone_def\<close>)
  qed (auto simp: undone_def)
  show ?thesis
    unfolding restore_cli_def backup
  proof (rule holds_read)
    fix x
    assume x: "fst (os_Lstat env (expectedSourceCLIBackup ?P) d) = x"
    show "holds (recoverable U) (case x of
        Inr (NFile _ _) \<Rightarrow>
           then_ok (remove_if_there env (activeCLI ?P)) (\<lambda>_. os_Rename env (expectedSourceCLIBackup ?P) (activeCLI ?P))
       | Inr _ \<Rightarrow> ret (Inl (failure ''interrupted activation backup is not a regular file''))
       | Inl e \<Rightarrow>
           if \<not> is_not_exist e then ret (Inl e)
           else then_p (os_Lstat env (activeCLI ?P)) (\<lambda>a.
             ret (case a of
               Inl _ \<Rightarrow> Inl (failure ''interrupted activation has neither source CLI nor its backup'')
             | Inr (NFile _ _) \<Rightarrow> Inr ()
             | Inr _ \<Rightarrow> Inl (failure ''interrupted activation source CLI is not a regular file'')))) (undone U t) d"
    proof (cases x)
      case (Inl e)
      have "intended U t d" if "is_not_exist e"
        using x d that f(2) honest_refusal [OF env, of "''lstat''" "expectedSourceCLIBackup ?P"] Inl
        by (auto simp: Lstat_result switching_def split: option.splits)
      moreover have "recoverable U d" using d by auto
      ultimately show ?thesis
        by (auto simp: Inl undone_def intro!: holds_ret holds_read split: sum.splits node.splits)
    next
      case (Inr n)
      then have n: "node_at d (backup_key U) = Some n" using x by (simp add: Lstat_result split: option.splits)
      have "switching U t d" using d n by (auto simp: intended_def)
      then show ?thesis using moving by (cases n) (simp_all add: Inr here holds_ret)
    qed
  qed simp
qed

lemma interrupted_restored:
  assumes ok: "update_ok U" and env: "honest env" and d: "intended U t d \<or> switching U t d"
  shows "holds (recoverable U) (restoreInterruptedActivation env (uc_Plan U) (receiptForPlan (uc_Plan U) t))
    (\<lambda>r e. case r of Inl _ \<Rightarrow> recoverable U e | Inr _ \<Rightarrow> untouched U e) d"
proof -
  let ?P = "uc_Plan U" and ?I = "\<lambda>_. intended U t"
  note f = update_ok_facts(1) [OF ok]
  note L = places [OF f]
  have out: "holds (recoverable U) (os_RemoveAll env p) ?I e"
    if "intended U t e" "p = bundleTarget ?P \<or> p = pendingBundle ?P" for p e
    by (rule holds_mono [OF removed_outside [OF ok looks_at_phases(2) that(1)]]) (use that(2) in auto)
  have pending: "holds (recoverable U) (remove_if_there env (pendingCLI ?P)) ?I e" if "intended U t e" for e
  proof -
    have "intended U t (AList.delete (pending_key U) e)" using that by (simp add: intended_def holds_doc_def L)
    with that show ?thesis by (intro removed_if_there [OF env]) auto
  qed
  have receipt: "holds (recoverable U) (remove_if_there env (receipt_path (uc_Path U)))
      (\<lambda>r e. case r of Inl _ \<Rightarrow> recoverable U e | Inr _ \<Rightarrow> untouched U e) e" if "intended U t e" for e
  proof -
    have "node_at e (receipt_key U) \<noteq> None" using that by (auto simp: intended_def elim!: holds_docE)
    with that intent_dropped [OF ok that] show ?thesis by (intro removed_if_there [OF env]) auto
  qed
  show ?thesis
    unfolding restoreInterruptedActivation_def data_places(6) [OF f]
    by (rule holds_ok [OF cli_restored [OF ok env d, unfolded undone_def]], simp,
        rule holds_then_ok [OF out], assumption, simp, auto, rule holds_then_ok [OF out], assumption, simp, auto,
        rule holds_then_ok [OF pending], assumption, auto intro: receipt)
qed

section \<open>Reconciliation\<close>

definition decided :: "update_case \<Rightarrow> time \<Rightarrow> fs_error + bool \<Rightarrow> tx_disk \<Rightarrow> bool" where
  "decided U t r e \<longleftrightarrow> (case r of
     Inl _ \<Rightarrow> recoverable U e | Inr b \<Rightarrow> if b then switched U t e else untouched U e)"

lemma finished_or_restored:
  assumes ok: "update_ok U" and env: "honest env" "te_SHA256 env = uc_SHA U" and d: "intended U t d \<or> switching U t d"
  shows "holds (recoverable U) (finish_or_restore env (uc_Plan U) (receiptForPlan (uc_Plan U) t) (source_of U)) (decided U t) d"
proof -
  let ?P = "uc_Plan U" and ?r = "receiptForPlan (uc_Plan U) t"
  have backup: "arc_SourceCLIBackup ?r = expectedSourceCLIBackup ?P" by (simp add: receiptForPlan_def)
  let ?I = "\<lambda>e. intended U t e \<or> switching U t e"
  have I: "looks_at (inner_keys U) ?I"
    using looks_at_inner(2,4) unfolding looks_at_def by blast
  have rec: "?I e \<Longrightarrow> recoverable U e" for e by auto
  have restore: "holds (recoverable U) (then_ok (map_error w (restoreInterruptedActivation env ?P ?r)) (\<lambda>_. ret (Inr False)))
      (decided U t) e" if "?I e" for w e
    by (rule holds_error_ok [OF interrupted_restored [OF ok env(1) that]]) (auto simp: decided_def intro: holds_ret)
  have finish: "holds (recoverable U) (then_ok (map_error w
      (WriteState env (ap_DataRoot ?P) (committedTargetState ?P (source_of U) t))) (\<lambda>_. ret (Inr True)))
      (decided U t) e" if "arrived U t e" for w e
    by (rule holds_error_ok [OF state_written [OF ok that]]) (auto simp: decided_def intro: holds_ret)
  have verify: "holds (recoverable U) (verifyActivatedPayload env ?P) (\<lambda>r e. ?I e \<and> (r = Inr () \<longrightarrow> verified U e)) d"
    by (rule holds_mono [OF payload_verified [OF ok env I d]]) (auto intro: rec)
  show ?thesis
    unfolding finish_or_restore_def backup
  proof (rule holds_then [OF verify], rule holds_read)
    fix payload b e
    assume e: "?I e \<and> (payload = Inr () \<longrightarrow> verified U e)"
      and b: "fst (os_Lstat env (expectedSourceCLIBackup ?P) e) = b"
    have arrived: "arrived U t e" if "payload = Inr ()" "case b of Inr (NFile _ _) \<Rightarrow> True | _ \<Rightarrow> False"
    proof -
      from that(2) b have "node_at e (backup_key U) \<noteq> None"
        by (auto simp: Lstat_result split: sum.splits option.splits)
      with e that(1) show ?thesis by (auto simp: arrived_def verified_def intended_def)
    qed
    show "holds (recoverable U)
      (if payload = Inr () \<and> (case b of Inr (NFile _ _) \<Rightarrow> True | _ \<Rightarrow> False) then
         then_p (commandSelfCheck env (activeCLI ?P) (ap_CLIVersion ?P)) (\<lambda>checked.
           case checked of
             Inl _ \<Rightarrow>
               then_ok (map_error (wrapped ''interrupted activation failed its CLI self-check and could not be restored: %w'')
                 (restoreInterruptedActivation env ?P ?r)) (\<lambda>_. ret (Inr False))
           | Inr _ \<Rightarrow>
               then_ok (map_error (wrapped ''complete interrupted activation state: %w'')
                 (WriteState env (ap_DataRoot ?P) (committedTargetState ?P (source_of U) (arc_CommittedAt ?r))))
                 (\<lambda>_. ret (Inr True)))
       else
         then_ok (map_error (wrapped ''interrupted activation could not be restored: %w'')
           (restoreInterruptedActivation env ?P ?r)) (\<lambda>_. ret (Inr False))) (decided U t) e"
      using e arrived by (auto intro!: holds_read restore finish split: sum.splits)
  qed simp
qed

lemma source_phase_state: "intended U t d \<or> switching U t d \<Longrightarrow> holds_doc d (state_key U) (StateDoc (uc_Source U))"
  by (auto simp: intended_def switching_def)

lemma locked_reconciliation:
  assumes ok: "update_ok U" and env: "honest env" "te_SHA256 env = uc_SHA U" and d: "under_way U t d"
    and roots: "filepath_Abs env m = ap_ManagedRoot (uc_Plan U)" "filepath_Abs env dd = ap_DataRoot (uc_Plan U)"
  shows "holds (recoverable U) (reconcile_locked env (uc_Plan U) (receiptForPlan (uc_Plan U) t) dd m) (decided U t) d"
proof -
  let ?P = "uc_Plan U" and ?r = "receiptForPlan (uc_Plan U) t"
  note f = update_ok_facts [OF ok]
  have rec: "recoverable U d" using d by (auto simp: under_way_def)
  have stuck: "decided U t (Inl er) d" for er using rec by (simp add: decided_def)
  show ?thesis
  proof (cases "intended U t d \<or> switching U t d")
    case True
    note state = ReadState_run [OF roots source_phase_state [OF True] f(3)]
    have go: "holds (recoverable U) (if stateMatchesSource s ?P then finish_or_restore env ?P ?r s
        else if \<not> stateMatchesCommittedTarget s ?P ?r
        then ret (Inl (failure ''installed state matches neither the update source nor its committed target''))
        else then_ok (verifyActivatedPayload env ?P) (\<lambda>_. ret (Inr True))) (decided U t) d"
      if "fst (ReadStateForManagedRoot env dd m d) = Inr s" for s
      using state(2) [OF that] f(4,5) finished_or_restored [OF ok env True] by (simp add: source_of_def)
    show ?thesis unfolding reconcile_locked_def by (rule holds_silent_ok, rule state(1), rule stuck, rule go)
  next
    case False
    with d have sw: "switched U t d" by (auto simp: under_way_def)
    define w where "w = state_wire (committedTargetState ?P (source_of U) t)"
    have w: "holds_doc d (state_key U) (StateDoc w)" using sw by (simp add: switched_def target_doc_def w_def)
    have v2: "sw_SchemaVersion w = 2" by (rule target_wire [of U t]) (simp add: target_doc_def w_def)
    note state = ReadState_run [OF roots w v2]
    have other: "\<not> stateMatchesSource (stateFromWire w x) ?P" for x
      using f(1) by (simp add: w_def stateMatchesSource_def stateFromWire_def state_wire_def committedTargetState_def
          target_state_def placed_def)
    have verify: "holds (recoverable U) (verifyActivatedPayload env ?P) (\<lambda>_. switched U t) d"
      by (rule holds_mono [OF payload_verified [OF ok env looks_at_inner(5) sw]]) auto
    have go: "holds (recoverable U) (if stateMatchesSource s ?P then finish_or_restore env ?P ?r s
        else if \<not> stateMatchesCommittedTarget s ?P ?r
        then ret (Inl (failure ''installed state matches neither the update source nor its committed target''))
        else then_ok (verifyActivatedPayload env ?P) (\<lambda>_. ret (Inr True))) (decided U t) d"
      if "fst (ReadStateForManagedRoot env dd m d) = Inr s" for s
      using state(2) [OF that] other stuck
      by (auto intro!: holds_ret holds_then_ok [OF verify] simp: decided_def)
    show ?thesis unfolding reconcile_locked_def by (rule holds_silent_ok, rule state(1), rule stuck, rule go)
  qed
qed

definition complete :: "update_case \<Rightarrow> tx_disk \<Rightarrow> bool" where
  "complete U d \<longleftrightarrow> (case intent_time U d of None \<Rightarrow> False | Some t \<Rightarrow> switched U t d)"

definition reconciled :: "update_case \<Rightarrow> fs_error + bool \<Rightarrow> tx_disk \<Rightarrow> bool" where
  "reconciled U r e \<longleftrightarrow> (case r of
     Inl _ \<Rightarrow> recoverable U e | Inr b \<Rightarrow> if b then complete U e else untouched U e)"

lemma switched_complete: "switched U t d \<Longrightarrow> complete U d"
  using phase_time [of U t d] by (simp add: complete_def)

lemma decided_reconciled: "decided U t r e \<Longrightarrow> reconciled U r e"
  by (auto simp: decided_def reconciled_def intro: switched_complete split: sum.splits if_splits)

lemma looks_at_reconciled: "looks_at (inner_keys U) (reconciled U r)"
proof -
  have "looks_at (inner_keys U) (complete U)"
    by (simp add: looks_at_def inner_keys_def outer_keys_def complete_def intent_time_def switched_def holds_doc_def
        split: option.split)
  moreover have "reconciled U r = (case r of Inl _ \<Rightarrow> recoverable U | Inr b \<Rightarrow> if b then complete U else untouched U)"
    by (cases r) (simp_all add: reconciled_def fun_eq_iff)
  ultimately show ?thesis using looks_at_recoverable looks_at_inner(1) by (cases r) simp_all
qed

lemma reconciled_recoverable: "reconciled U r e \<Longrightarrow> recoverable U e"
  by (auto simp: reconciled_def complete_def split: sum.splits if_splits option.splits)

lemma looks_at_under_way: "looks_at (inner_keys U) (under_way U t)"
  using looks_at_inner(2,4,5) unfolding looks_at_def under_way_def by blast

lemma phase_plan: "recoverable U d \<Longrightarrow> holds_doc d (plan_key U) (PlanDoc (uc_Plan U))"
  by (auto elim!: recoverable_cases simp: untouched_def intended_def switching_def switched_def)

lemma under_way_receipt: "under_way U t d \<Longrightarrow> holds_doc d (receipt_key U) (receipt_doc U t)"
  by (auto simp: under_way_def intended_def switching_def switched_def)

lemma receipt_read:
  assumes env: "honest env" and r: "fst (unless_missing (readActivationReceipt env (uc_Path U) P) d) = Inr receipt"
  shows "untouched U d \<Longrightarrow> receipt = None" "under_way U t d \<Longrightarrow> receipt = Some (receiptForPlan (uc_Plan U) t)"
proof -
  show "receipt = None" if "untouched U d"
  proof -
    have "node_at d (receipt_key U) = None" using that by (simp add: untouched_def)
    from readJSON_missing [OF env this] obtain e where "fst (readJSONStrict env (receipt_path (uc_Path U)) receipt_of d) = Inl e" .
    then have "fst (readActivationReceipt env (uc_Path U) P d) = Inl e"
      by (simp add: readActivationReceipt_def quiet_step)
    with r show ?thesis by (simp add: unless_missing_run split: if_splits)
  qed
  show "receipt = Some (receiptForPlan (uc_Plan U) t)" if "under_way U t d"
  proof -
    note doc = under_way_receipt [OF that]
    show ?thesis
    proof (cases "fst (readActivationReceipt env (uc_Path U) P d)")
      case (Inl e)
      with readReceipt_present [OF env doc Inl] r show ?thesis by (simp add: unless_missing_run)
    next
      case (Inr x)
      with readReceipt_doc [OF doc [unfolded receipt_doc_def] Inr] r show ?thesis by (simp add: unless_missing_run)
    qed
  qed
qed

theorem ReconcileActivated_phases:
  assumes ok: "update_ok U" and env: "honest env" "te_SHA256 env = uc_SHA U" and d: "recoverable U d"
  shows "holds (recoverable U) (ReconcileActivated env (uc_Path U) o') (reconciled U) d"
proof -
  let ?P = "uc_Plan U"
  let ?Q = "reconciled U"
  have stuck: "?Q (Inl er) d" for er using d by (simp add: reconciled_def)
  have unlock: "holds (recoverable U) (unlock env (ap_ManagedRoot ?P)) (\<lambda>_. ?Q r) e" if "?Q r e" for r e
    unfolding unlock_def
    by (rule holds_mono [OF holds_beside [OF touches_Remove looks_at_reconciled lock_beside [OF ok] that]])
      (auto intro: reconciled_recoverable)
  have lock: "holds (recoverable U) (acquireReconciliationLock env (ap_ManagedRoot ?P)) (\<lambda>_. I) d"
    if "looks_at (inner_keys U) I" "I d" "\<And>e. I e \<Longrightarrow> recoverable U e" for I
    by (rule holds_mono [OF holds_beside [OF touches_reconciliationLock that(1) lock_beside [OF ok] that(2)]]) (rule that(3))
  have go: "holds (recoverable U) (then_ok (acquireReconciliationLock env (ap_ManagedRoot ?P)) (\<lambda>_.
      deferred (case receipt of None \<Rightarrow> ret (Inr False) | Some r \<Rightarrow> reconcile_locked env ?P r (po_DataRoot o') (po_ManagedRoot o'))
        (\<lambda>_. unlock env (ap_ManagedRoot ?P)))) ?Q d"
    if r: "fst (unless_missing (readActivationReceipt env (uc_Path U) ?P) d) = Inr receipt"
      and p: "fst (validateReconciliationPlan env (uc_Path U) o' d) = Inr ?P" for receipt
  proof (cases "untouched U d")
    case True
    have "holds (recoverable U) (deferred (ret (Inr False)) (\<lambda>_. unlock env (ap_ManagedRoot ?P))) ?Q e" if "untouched U e" for e
      by (rule holds_deferred [where R = ?Q]) (use that unlock in \<open>auto intro: holds_ret simp: reconciled_def\<close>)
    then show ?thesis using receipt_read(1) [OF env(1) r True]
      by (auto intro!: holds_then_ok [OF lock [OF looks_at_inner(1) True]] simp: reconciled_def)
  next
    case False
    with d obtain t where t: "under_way U t d" by (auto elim!: recoverable_cases simp: under_way_def)
    note roots = validateReconciliation_roots [OF p]
    have "holds (recoverable U) (deferred (reconcile_locked env ?P (receiptForPlan ?P t) (po_DataRoot o') (po_ManagedRoot o'))
        (\<lambda>_. unlock env (ap_ManagedRoot ?P))) ?Q e" if "under_way U t e" for e
      by (rule holds_deferred [OF holds_mono [OF locked_reconciliation [OF ok env that roots]]])
        (auto intro: unlock dest: decided_reconciled)
    then show ?thesis using receipt_read(2) [OF env(1) r t]
      by (auto intro!: holds_then_ok [OF lock [OF looks_at_under_way t]] simp: reconciled_def under_way_def)
  qed
  show ?thesis
    unfolding ReconcileActivated_def
  proof (rule holds_read_ok)
    fix plan
    assume p: "fst (validateReconciliationPlan env (uc_Path U) o' d) = Inr plan"
    have plan: "plan = ?P" by (rule validateReconciliation_plan [OF phase_plan [OF d] p])
    show "holds (recoverable U)
      (then_ok (unless_missing (readActivationReceipt env (uc_Path U) plan)) (\<lambda>receipt.
       then_ok (acquireReconciliationLock env (ap_ManagedRoot plan)) (\<lambda>_.
       deferred
         (case receipt of None \<Rightarrow> ret (Inr False)
          | Some r \<Rightarrow> reconcile_locked env plan r (po_DataRoot o') (po_ManagedRoot o'))
         (\<lambda>_. unlock env (ap_ManagedRoot plan))))) ?Q d"
      unfolding plan by (rule holds_read_ok) (use go p plan stuck in \<open>auto intro: quiet\<close>)
  qed (auto intro: stuck)
qed

end
