(* ===== verification/InstallProps.thy ===== *)
theory InstallProps
  imports InstallReconcile
begin

text \<open>
  Properties of the installation transactions: an update survives being cut off at any step, a
  reconciliation that returns has decided it, and two places where a cut leaves what nothing repairs.
\<close>

section \<open>Runs that are cut off\<close>

text \<open>
  The disks after any number of runs of \<open>Activate\<close> and \<open>ReconcileActivated\<close> for one update, each of
  them stopped at any of its steps or at its end.
\<close>

inductive interrupted :: "update_case \<Rightarrow> tx_disk \<Rightarrow> tx_disk \<Rightarrow> bool" for U d where
  start: "interrupted U d d"
| activate: "interrupted U d e \<Longrightarrow> calm_rename U env \<Longrightarrow>
    f \<in> set (snd (Activate env (uc_Path U) v o' e)) \<Longrightarrow> interrupted U d f"
| reconcile: "interrupted U d e \<Longrightarrow> honest env \<Longrightarrow> te_SHA256 env = uc_SHA U \<Longrightarrow>
    f \<in> set (snd (ReconcileActivated env (uc_Path U) o' e)) \<Longrightarrow> interrupted U d f"

lemma holds_steps: "holds I m Q d \<Longrightarrow> e \<in> set (snd (m d)) \<Longrightarrow> I e"
  by (simp add: holds_def)

lemma holds_result: "holds I m Q d \<Longrightarrow> Q (fst (m d)) (final d (snd (m d)))"
  by (simp add: holds_def)

lemma interrupted_phase:
  assumes "update_ok U" "interrupted U d e" "recoverable U d"
  shows "recoverable U e"
  using assms(2)
proof induction
  case start
  show ?case by (rule assms(3))
next
  case (activate e env f v o')
  from holds_steps [OF Activate_phases [OF assms(1) activate.hyps(2) activate.IH] activate.hyps(3)] show ?case .
next
  case (reconcile e env f o')
  from holds_steps [OF ReconcileActivated_phases [OF assms(1) reconcile.hyps(2,3) reconcile.IH] reconcile.hyps(4)] show ?case .
qed

text \<open>C36: Wherever the runs of an update are cut off, the plan is there and the disk is in one of four
  phases: untouched; intent written and the old CLI in its place; old CLI in the backup, with nothing in
  its place or a file and the new bundle; or new state, new CLI with the authenticated size and digest,
  and the bundle.\<close>

theorem interrupted_recoverable:
  assumes "update_ok U" "untouched U d" "interrupted U d e"
  shows "recoverable U e"
  by (rule interrupted_phase [OF assms(1,3)]) (use assms(2) in blast)


text \<open>C37: When \<open>ReconcileActivated\<close> returns without an error after any such interruption, the update is
  complete or as if it had never begun, as its answer says.\<close>

theorem reconciled_is_decided:
  assumes "update_ok U" "untouched U d" "interrupted U d e" "honest env" "te_SHA256 env = uc_SHA U"
    "ReconcileActivated env (uc_Path U) o' e = (Inr b, t)"
  shows "if b then complete U (final e t) else untouched U (final e t)"
proof -
  have "recoverable U e" by (rule interrupted_phase [OF assms(1,3)]) (use assms(2) in blast)
  from holds_result [OF ReconcileActivated_phases [OF assms(1,4,5) this, of o']] assms(6) show ?thesis
    by (simp add: reconciled_def)
qed

section \<open>The lock\<close>


end
