(* ===== verification/InstallRollback.thy ===== *)
theory InstallRollback
  imports InstallProps UpdateFacts
begin

text \<open>
  \<open>Rollback\<close> exchanges the two files of the CLI one after the other and writes the state last. This
  theory takes a run of it apart.
\<close>

section \<open>Runs without an error\<close>

lemma then_ok_Inr:
  assumes "then_ok m f d = (Inr y, t)"
  obtains x s u where "m d = (Inr x, s)" "f x (final d s) = (Inr y, u)" "t = s @ u"
  using assms by (auto simp: then_ok_def then_p_def ret_def split: prod.splits sum.splits)

lemma read_Inr:
  assumes "then_ok m f d = (Inr y, t)" "snd (m d) = []"
  obtains x where "fst (m d) = Inr x" "f x d = (Inr y, t)"
  using assms by (auto simp: then_ok_def then_p_def ret_def split: prod.splits sum.splits)

lemma deferred_run:
  assumes "deferred m c d = (r, t)"
  obtains s u where "m d = (r, s)" "t = s @ u"
  using assms by (auto simp: deferred_def then_p_def ret_def split: prod.splits)

lemma quiet_silent: "quiet m \<Longrightarrow> snd (m d) = []"
  by (simp add: quiet_def)

lemma normalizedRoots_apart:
  assumes "canonical_path M" "canonical_path D" "fst (normalizedRoots env M D d) = Inr r"
  shows "\<not> prefix (path_parts M) (path_parts D)" "\<not> prefix (path_parts D) (path_parts M)" "r = (M, D)"
proof -
  show "r = (M, D)" using normalizedRoots_Inr [of env M D d] assms by (cases r) (simp add: canonical_Abs)
  from assms have "\<not> path_within M D" "\<not> path_within D M"
    by (auto simp: normalizedRoots_def Let_def canonical_Abs ret_def split: if_splits)
  with assms(1,2) show "\<not> prefix (path_parts M) (path_parts D)" "\<not> prefix (path_parts D) (path_parts M)"
    by (simp_all add: path_within_def canonical_path_def)
qed

lemma readState_valid:
  assumes "holds_doc d (path_parts (statePath D)) (StateDoc w)" "fst (readState env D M b d) = Inr s"
  shows "validStateCore w"
proof (rule ccontr)
  assume n: "\<not> validStateCore w"
  from assms(2) obtain w' where w': "fst (readJSONStrict env (statePath D) wire_of d) = Inr w'"
    by (cases "fst (readJSONStrict env (statePath D) wire_of d)") (simp_all add: readState_def quiet_step)
  with readJSON_doc [OF assms(1) w'] have "w' = w" by (simp add: wire_of_def)
  with n w' assms(2) show False by (simp add: readState_def quiet_step ret_def)
qed

lemma ReadStateForManagedRoot_valid:
  assumes "canonical_path M" "canonical_path D" "holds_doc d (path_parts (statePath D)) (StateDoc w)"
    "fst (ReadStateForManagedRoot env D M d) = Inr s"
  shows "validStateCore w"
proof -
  obtain r where r: "fst (normalizedRoots env M D d) = Inr r"
    using assms(4) by (cases "fst (normalizedRoots env M D d)") (simp_all add: ReadStateForManagedRoot_def quiet_step)
  with normalizedRoots_apart(3) [OF assms(1,2) r] assms(4) have "fst (readState env D M True d) = Inr s"
    by (simp add: ReadStateForManagedRoot_def quiet_step)
  from readState_valid [OF assms(3) this] show ?thesis .
qed

section \<open>Rollback\<close>

lemma rollback_from_Inr:
  assumes "rollback_from env M D c d = (Inr y, t)"
  obtains previous s u v where "ist_Previous c = Some previous" "acquireLock env M d = (Inr (), s)"
    "rollback_locked env M D c previous (final d s) = (Inr y, u)" "t = s @ u @ v"
proof -
  obtain p where p: "ist_Previous c = Some p"
    using assms by (cases "ist_Previous c") (simp_all add: rollback_from_def ret_def)
  have "then_ok (acquireLock env M) (\<lambda>_. deferred (rollback_locked env M D c p) (\<lambda>_. unlock env M)) d = (Inr y, t)"
    using assms p by (simp add: rollback_from_def quiet_then_run quiet split: sum.splits)
  then obtain s t1 where lock: "acquireLock env M d = (Inr (), s)" "t = s @ t1"
    "deferred (rollback_locked env M D c p) (\<lambda>_. unlock env M) (final d s) = (Inr y, t1)"
    by (auto elim!: then_ok_Inr)
  from lock(3) obtain u v where "rollback_locked env M D c p (final d s) = (Inr y, u)" "t1 = u @ v"
    by (rule deferred_run)
  with p lock(1,2) show thesis by (intro that) simp_all
qed

lemma Rollback_Inr:
  assumes M: "canonical_path M" and D: "canonical_path D"
    and w: "holds_doc d (path_parts (statePath D)) (StateDoc w)" "sw_SchemaVersion w = 2"
    and run: "Rollback env M D d = (Inr y, t)"
  shows "\<not> prefix (path_parts M) (path_parts D)" "\<not> prefix (path_parts D) (path_parts M)" "validStateCore w"
    "rollback_from env M D (stateFromWire w (the (sw_ManagedRoot w))) d = (Inr y, t)"
proof -
  from run obtain r where r: "fst (normalizedRoots env M D d) = Inr r"
    unfolding Rollback_def by (rule read_Inr) (simp add: quiet_silent)
  note apart = normalizedRoots_apart [OF M D r]
  show "\<not> prefix (path_parts M) (path_parts D)" "\<not> prefix (path_parts D) (path_parts M)" by (rule apart)+
  note state = ReadState_run [OF canonical_Abs [OF M] canonical_Abs [OF D] w, of env]
  from run r apart(3) have "then_ok (ReadStateForManagedRoot env D M) (rollback_from env M D) d = (Inr y, t)"
    by (simp add: Rollback_def quiet_then_run)
  then obtain c where c: "fst (ReadStateForManagedRoot env D M d) = Inr c" "rollback_from env M D c d = (Inr y, t)"
    by (rule read_Inr) (simp_all add: state(1))
  show "validStateCore w" by (rule ReadStateForManagedRoot_valid [OF M D w(1) c(1)])
  show "rollback_from env M D (stateFromWire w (the (sw_ManagedRoot w))) d = (Inr y, t)"
    using c(2) by (simp add: state(2) [OF c(1)])
qed

text \<open>No process gets the lock while it is there.\<close>

lemma activation_lock_taken:
  assumes "node_at e (path_parts (lockPath m)) \<noteq> None"
  shows "acquireLock env m e \<noteq> (Inr u, t)"
  using assms
  by (auto simp: acquireLock_def os_Create_def syscall_def map_error_def then_p_def then_ok_def ret_def split: option.splits)

lemma activation_lock_held:
  assumes "acquireLock env m d = (Inr u, s)"
  shows "node_at (final d s) (path_parts (lockPath m)) \<noteq> None"
  using assms
  by (auto simp: acquireLock_def os_Create_def os_Write_def os_Remove_def on_failure_def syscall_def map_error_def
      then_p_def then_ok_def ret_def split: option.splits if_splits)

lemma rollback_locked_Inr:
  assumes "rollback_locked env M D c p d = (Inr y, t)"
  obtains s u where "os_MkdirAll env (filepath_Dir (reverted_backup env M c)) d = (Inr (), s)"
    "swap_cli env M D c p (reverted_backup env M c) (final d s) = (Inr y, u)" "t = s @ u"
proof -
  from assms have "then_ok (os_MkdirAll env (filepath_Dir (reverted_backup env M c))) (\<lambda>_.
      swap_cli env M D c p (reverted_backup env M c)) d = (Inr y, t)"
    by (simp add: rollback_locked_def Let_def quiet_then_run quiet split: sum.splits)
  then show thesis using that by (auto elim!: then_ok_Inr)
qed

section \<open>Places\<close>

lemma show_int_no_slash: "CHR ''/'' \<notin> set (show_int n)"
proof -
  have "CHR ''/'' \<notin> set (show_nat k)" for k using digits_value_show [of k] by (auto simp: list_all_iff)
  then show ?thesis by (simp add: show_int_def)
qed

lemma rollback_places:
  assumes "canonical_path M" "canonical_path D" "versionPattern (ist_CLIVersion c)"
  shows "path_parts (active_cli M os) = path_parts M @ [''bin'', executableName os]"
    "path_parts (lockPath M) = path_parts M @ [''.activation.lock'']"
    "path_parts (statePath D) = path_parts D @ [''config'', ''install-state.json'']"
    "\<exists>x. path_parts (reverted_backup env M c) = path_parts M @ [''recovery'', ''cli'', x, executableName (ist_TargetOS c)]
      \<and> path_parts (filepath_Dir (reverted_backup env M c)) = path_parts M @ [''recovery'', ''cli'', x]"
proof -
  show "path_parts (active_cli M os) = path_parts M @ [''bin'', executableName os]"
    using canonical_Join(1) [OF assms(1), of "[''bin'', executableName os]"] by (simp add: active_cli_def executable_plain)
  show "path_parts (lockPath M) = path_parts M @ [''.activation.lock'']"
    using canonical_Join(1) [OF assms(1), of "[''.activation.lock'']"] by (simp add: lockPath_def)
  show "path_parts (statePath D) = path_parts D @ [''config'', ''install-state.json'']"
    using canonical_Join(1) [OF assms(2), of "[''config'', ''install-state.json'']"] by (simp add: statePath_def)
  define x where "x = ist_CLIVersion c @ ''-rollback-'' @ show_int (te_Now env)"
  have "plain_name x"
    unfolding x_def version_plain(2) [OF assms(3)] using show_int_no_slash by simp
  then have "list_all plain_name [''recovery'', ''cli'', x, executableName (ist_TargetOS c)]" by (simp add: executable_plain)
  from canonical_Join [OF assms(1) this] have r:
    "path_parts (reverted_backup env M c) = path_parts M @ [''recovery'', ''cli'', x, executableName (ist_TargetOS c)]"
    "canonical_path (reverted_backup env M c)"
    by (simp_all add: reverted_backup_def x_def)
  have "path_parts (filepath_Dir (reverted_backup env M c)) = path_parts M @ [''recovery'', ''cli'', x]"
    by (rule canonical_Dir(1) [OF r(2)]) (simp add: r)
  with r(1) show "\<exists>x. path_parts (reverted_backup env M c) = path_parts M @ [''recovery'', ''cli'', x, executableName (ist_TargetOS c)]
      \<and> path_parts (filepath_Dir (reverted_backup env M c)) = path_parts M @ [''recovery'', ''cli'', x]" by blast
qed

lemma roots_separate:
  assumes "\<not> prefix m d" "\<not> prefix d m"
  shows "\<not> prefix (m @ xs) (d @ ys)" "\<not> prefix (d @ xs) (m @ ys)"
  using assms by (meson append_prefixD prefixI prefix_same_cases)+

section \<open>The gap\<close>

text \<open>C39: A \<open>Rollback\<close> that succeeds passes through a disk without an active CLI, on which the state still
  names the current release. Cut off there, the lock stays, and no \<open>Rollback\<close> of any process ends
  without an error from then on.\<close>

theorem rollback_gap:
  assumes M: "canonical_path M" and D: "canonical_path D"
    and w: "holds_doc d (path_parts (statePath D)) (StateDoc w)" "sw_SchemaVersion w = 2"
    and run: "Rollback env M D d = (Inr (), t)"
  shows "\<exists>e \<in> set t. node_at e (path_parts (active_cli M (sw_TargetOS w))) = None
    \<and> holds_doc e (path_parts (statePath D)) (StateDoc w) \<and> (\<forall>env'. isl (fst (Rollback env' M D e)))"
proof -
  let ?c = "stateFromWire w (the (sw_ManagedRoot w))"
  let ?a = "path_parts (active_cli M (sw_TargetOS w))" and ?b = "path_parts (reverted_backup env M ?c)"
  let ?l = "path_parts (lockPath M)" and ?s = "path_parts (statePath D)"
  note inr = Rollback_Inr [OF M D w run]
  obtain p s u v where r: "acquireLock env M d = (Inr (), s)" "rollback_locked env M D ?c p (final d s) = (Inr (), u)" "t = s @ u @ v"
    using inr(4) by (rule rollback_from_Inr)
  obtain s2 u2 where r2: "os_MkdirAll env (filepath_Dir (reverted_backup env M ?c)) (final d s) = (Inr (), s2)"
    "swap_cli env M D ?c p (reverted_backup env M ?c) (final (final d s) s2) = (Inr (), u2)" "u = s2 @ u2"
    using r(2) by (rule rollback_locked_Inr)
  define d2 where "d2 = final (final d s) s2"
  have version: "versionPattern (ist_CLIVersion ?c)" using inr(3) by (simp add: validStateCore_def stateFromWire_def)
  have os: "ist_TargetOS ?c = sw_TargetOS w" by (simp add: stateFromWire_def)
  obtain x where x: "?b = path_parts M @ [''recovery'', ''cli'', x, executableName (sw_TargetOS w)]"
    "path_parts (filepath_Dir (reverted_backup env M ?c)) = path_parts M @ [''recovery'', ''cli'', x]"
    using rollback_places(4) [OF M D version, of env] os by auto
  note L = rollback_places(1-3) [OF M D version] x roots_separate [OF inr(1,2)]
  have more: "\<not> prefix (path_parts D @ ys) (path_parts M)" for ys using L(6) [of ys "[]"] roots_separate(2) [OF inr(1,2), of ys "[]"] by simp
  have "agree (\<lambda>q. q = ?l) d (final d s)" using touches_final [OF touches_acquireLock [of M env], of d] r(1) by simp
  then have s1: "node_at (final d s) ?s = node_at d ?s" by (rule agree_node) (use L more in auto)
  have lock1: "node_at (final d s) ?l \<noteq> None" by (rule activation_lock_held [OF r(1)])
  have a2: "agree (\<lambda>q. prefix q (path_parts M @ [''recovery'', ''cli'', x])) (final d s) d2"
    using touches_final [OF touches_MkdirAll [of "filepath_Dir (reverted_backup env M ?c)" env], of "final d s"] r2(1) x(2)
    by (simp add: d2_def)
  have s2: "node_at d2 ?s = node_at d ?s" unfolding s1 [symmetric]
    by (rule agree_node [OF a2]) (use L more in auto)
  have lock2: "node_at d2 ?l \<noteq> None"
    by (subst agree_node [OF a2]) (use L lock1 in auto)
  from r2(2) obtain s3 u3 where r3: "os_Rename env (active_cli M (sw_TargetOS w)) (reverted_backup env M ?c) d2 = (Inr (), s3)" "u2 = s3 @ u3"
    by (auto simp: swap_cli_def Let_def os d2_def elim!: then_ok_Inr)
  define e where "e = move_under ?a ?b d2"
  have apart: "\<not> prefix ?a ?b" "\<not> prefix ?b ?a" "\<not> prefix ?a ?s" "\<not> prefix ?b ?s" "\<not> prefix ?a ?l" "\<not> prefix ?b ?l"
    using L more by auto
  have "?a \<noteq> ?b" using apart(1) by auto
  then have "s3 = [e]"
    using r3(1) by (auto simp: os_Rename_def syscall_def e_def split: option.splits)
  then have mem: "e \<in> set t" using r(3) r2(3) r3(2) by simp
  have none: "node_at e ?a = None" using apart(1,2) by (simp add: e_def node_move)
  have "node_at e ?s = node_at d ?s" using apart s2 by (simp add: e_def node_move)
  then have state: "holds_doc e ?s (StateDoc w)" using w(1) by (simp add: holds_doc_def)
  have lock: "node_at e ?l \<noteq> None" using apart lock2 by (simp add: e_def node_move)
  have "isl (fst (Rollback env' M D e))" for env'
  proof (rule ccontr)
    assume "\<not> isl (fst (Rollback env' M D e))"
    then obtain t' where "Rollback env' M D e = (Inr (), t')" by (cases "Rollback env' M D e"; cases "fst (Rollback env' M D e)") auto
    from Rollback_Inr(4) [OF M D state w(2) this] obtain s' where "acquireLock env' M e = (Inr (), s')" by (rule rollback_from_Inr)
    with activation_lock_taken [OF lock] show False by blast
  qed
  with mem none state show ?thesis by blast
qed

end
