(* ===== verification/InstallRun.thy ===== *)
theory InstallRun
  imports InstallTx
begin

text \<open>
  An update from 0.1.0 to 0.2.0 under two roots, with the staged files in their place and the old CLI
  installed: the whole run of \<open>Activate\<close>, and the reconciliation of a run that was cut off.
\<close>

definition new_cli :: string where
  "new_cli = ''n''"

definition bundle_archive :: string where
  "bundle_archive = ''z''"

definition old_cli :: "tx_doc node" where
  "old_cli = NFile ''old'' None"

definition demo_sha256 :: "string \<Rightarrow> string" where
  "demo_sha256 s = replicate 32 (if s = bundle_archive then CHR 0xBB else CHR 0xAA)"

definition install_env :: tx_env where
  "install_env = \<lparr>os_Refused = \<lambda>_ _. None, os_Follow = \<lambda>_. None, te_Cwd = ''/'', te_SHA256 = demo_sha256, te_Now = 7,
     te_PID = 41, te_Alive = \<lambda>_. False, te_Untar = \<lambda>_. ([TarDir ''skills'' 0, TarFile ''skills/a.md'' 2 ''hi''], None),
     te_Run = \<lambda>_. Inr ''bcgos 0.2.0'', te_Text = \<lambda>_. ''{}'', te_TempName = ''1''\<rparr>"

definition install_options :: PrepareOptions where
  "install_options = \<lparr>po_Transition = ''update'', po_ConfirmationPlanID = replicate 32 (CHR ''a''), po_FromRelease = ''0.1.0'',
     po_FromChannel = ''stable'', po_FromCLIVersion = ''0.1.0'', po_FromBundleVersion = ''0.1.0'', po_TargetOS = ''darwin'',
     po_TargetArch = ''arm64'', po_ManagedRoot = ''/m'', po_DataRoot = ''/d''\<rparr>"

definition install_hash :: "char \<Rightarrow> string" where
  "install_hash c = replicate 64 c"

definition install_artifact :: "string \<Rightarrow> string \<Rightarrow> string \<Rightarrow> string \<Rightarrow> char \<Rightarrow> Artifact" where
  "install_artifact kind os arch name c = \<lparr>af_Kind = kind, af_OS = os, af_Arch = arch, af_Name = name, af_Size = 1,
     af_SHA256 = install_hash c, af_SignatureRef = name @ ''.sig''\<rparr>"

definition install_migration :: Migration where
  "install_migration = \<lparr>mg_ID = role_migration_id, mg_Component = ''bundle'', mg_From = ''>=0.1.0 <0.2.0'', mg_To = ''0.2.0'',
     mg_Required = True, mg_FromRole = ''practice_agent'', mg_ToRole = ''pa_expert'', mg_AliasExpiresAfter = ''0.2.0'',
     mg_BundleSHA256 = install_hash (CHR ''b''), mg_CatalogSHA256 = install_hash (CHR ''c''),
     mg_PolicySHA256 = install_hash (CHR ''d'')\<rparr>"

definition install_manifest :: Manifest where
  "install_manifest = \<lparr>mf_SchemaVersion = 1, mf_Product = ''maestro'', mf_Release = ''0.2.0'', mf_Channel = ''stable'',
     mf_Issuer = \<lparr>is_ID = ''bcg'', is_KeyID = ''key-1''\<rparr>,
     mf_CLI = \<lparr>cl_Version = ''0.2.0'', cl_CompatibleBundle = ''>=0.1.0 <0.3.0''\<rparr>,
     mf_Bundle = \<lparr>bc_Version = ''0.2.0'', bc_CompatibleCLI = ''>=0.1.0 <0.3.0''\<rparr>,
     mf_Artifacts = [install_artifact ''cli'' ''darwin'' ''arm64'' ''maestro-0.2.0-darwin'' (CHR ''a''),
       install_artifact ''bundle'' ''any'' ''any'' ''bundle-0.2.0'' (CHR ''b'')],
     mf_Migrations = Some [install_migration],
     mf_ReleaseNotes = \<lparr>rn_Name = ''notes-0.2.0.md'', rn_SHA256 = install_hash (CHR ''e'')\<rparr>\<rparr>"

definition install_release :: VerifiedRelease where
  "install_release = \<lparr>ve_Directory = ''/release'', ve_Manifest = install_manifest, ve_ManifestSHA256 = install_hash (CHR ''f'')\<rparr>"

definition install_path :: string where
  "install_path = ''/d/updates/tx-1/activation-plan.json''"

definition install_plan :: ActivationPlan where
  "install_plan = \<lparr>ap_SchemaVersion = 2, ap_TransactionID = ''tx-1'', ap_Transition = ''update'',
     ap_ConfirmationPlanID = replicate 32 (CHR ''a''), ap_FromRelease = ''0.1.0'', ap_FromChannel = ''stable'',
     ap_FromCLIVersion = ''0.1.0'', ap_FromBundleVersion = ''0.1.0'', ap_Release = ''0.2.0'', ap_Channel = ''stable'',
     ap_CLIVersion = ''0.2.0'', ap_BundleVersion = ''0.2.0'', ap_TargetOS = ''darwin'', ap_TargetArch = ''arm64'',
     ap_ManagedRoot = ''/m'', ap_DataRoot = ''/d'', ap_ManifestSHA256 = install_hash (CHR ''f''),
     ap_CLIArtifactName = ''maestro-0.2.0-darwin'', ap_CLISHA256 = install_hash (CHR ''a''), ap_CLISize = 1,
     ap_BundleArtifactName = ''bundle-0.2.0'', ap_BundleSHA256 = install_hash (CHR ''b''), ap_BundleSize = 1,
     ap_RoleMigrationID = role_migration_id, ap_CatalogSHA256 = install_hash (CHR ''c''), ap_PolicySHA256 = install_hash (CHR ''d''),
     ap_StagedCLI = ''/d/updates/tx-1/bin/bcgos'', ap_StagedBundleArchive = ''/d/updates/tx-1/bundle.tar.gz'',
     ap_RuntimePackArtifactName = [], ap_RuntimePackSHA256 = [], ap_RuntimePackSize = 0, ap_StagedRuntimePack = []\<rparr>"

definition source_wire :: stateWire where
  "source_wire = \<lparr>sw_SchemaVersion = 2, sw_ManagedRoot = Some ''/m'', sw_Release = ''0.1.0'', sw_Channel = ''stable'',
     sw_CLIVersion = ''0.1.0'', sw_BundleVersion = ''0.1.0'', sw_TargetOS = ''darwin'', sw_TargetArch = ''arm64'',
     sw_RoleAuthority = [], sw_MigrationID = [], sw_CatalogSHA256 = [], sw_PolicySHA256 = [], sw_ActivatedAt = 3, sw_Previous = None\<rparr>"

definition prepared_disk :: tx_disk where
  "prepared_disk =
     [([], NDir), ([''m''], NDir), ([''m'', ''bin''], NDir), ([''m'', ''bin'', ''bcgos''], old_cli),
      ([''d''], NDir), ([''d'', ''config''], NDir),
      ([''d'', ''config'', ''install-state.json''], NFile ''{}'' (Some (StateDoc source_wire))),
      ([''d'', ''updates''], NDir), ([''d'', ''updates'', ''tx-1''], NDir), ([''d'', ''updates'', ''tx-1'', ''bin''], NDir),
      ([''d'', ''updates'', ''tx-1'', ''activation-plan.json''], NFile ''{}'' (Some (PlanDoc install_plan))),
      ([''d'', ''updates'', ''tx-1'', ''bin'', ''bcgos''], NFile new_cli None),
      ([''d'', ''updates'', ''tx-1'', ''bundle.tar.gz''], NFile bundle_archive None)]"

text \<open>Another process, after the one that held the lock has ended.\<close>

definition later_env :: tx_env where
  "later_env = install_env\<lparr>te_PID := 42, te_Now := 9\<rparr>"

text \<open>The whole run has 18 steps. After the 14th the old CLI is in the backup and there is none in its place.\<close>

definition full_run :: "(fs_error + unit) \<times> tx_disk list" where
  "full_run = Activate install_env install_path install_release install_options prepared_disk"

definition cut_disk :: tx_disk where
  "cut_disk = snd full_run ! 13"

lemma demo_steps:
  "case full_run of (r, t) \<Rightarrow> r = Inr () \<and> length t = 18
     \<and> fst (ReconcileActivated later_env install_path install_options (t ! 13)) = Inr False"
  by code_simp

lemma full_run: "fst full_run = Inr ()" "length (snd full_run) = 18"
  "fst (ReconcileActivated later_env install_path install_options cut_disk) = Inr False"
proof -
  obtain r t where run: "full_run = (r, t)" by (cases full_run)
  note steps = demo_steps [unfolded run prod.case]
  show "fst full_run = Inr ()" "length (snd full_run) = 18"
    "fst (ReconcileActivated later_env install_path install_options cut_disk) = Inr False"
    unfolding cut_disk_def run fst_conv snd_conv using steps by blast+
qed

section \<open>A rollback\<close>

definition rollback_env :: tx_env where
  "rollback_env = install_env\<lparr>te_Run := \<lambda>_. Inr ''bcgos 0.0.9''\<rparr>"

definition rollback_snapshot :: Snapshot where
  "rollback_snapshot = \<lparr>sp_Release = ''0.0.9'', sp_Channel = ''stable'', sp_CLIVersion = ''0.0.9'', sp_BundleVersion = ''0.0.9'',
     sp_TargetOS = ''darwin'', sp_TargetArch = ''arm64'', sp_RoleAuthority = [], sp_MigrationID = [], sp_CatalogSHA256 = [],
     sp_PolicySHA256 = [], sp_CLIBackup = ''/m/recovery/cli/0.0.9-tx-0/bcgos''\<rparr>"

definition rollback_wire :: stateWire where
  "rollback_wire = source_wire\<lparr>sw_Previous := Some rollback_snapshot\<rparr>"

definition rollback_disk :: tx_disk where
  "rollback_disk =
     [([], NDir), ([''m''], NDir), ([''m'', ''bin''], NDir), ([''m'', ''bin'', ''bcgos''], old_cli),
      ([''m'', ''recovery''], NDir), ([''m'', ''recovery'', ''cli''], NDir), ([''m'', ''recovery'', ''cli'', ''0.0.9-tx-0''], NDir),
      ([''m'', ''recovery'', ''cli'', ''0.0.9-tx-0'', ''bcgos''], NFile ''older'' None), ([''d''], NDir), ([''d'', ''config''], NDir),
      ([''d'', ''config'', ''install-state.json''], NFile ''{}'' (Some (StateDoc rollback_wire)))]"

lemma rollback_run: "fst (Rollback rollback_env ''/m'' ''/d'' rollback_disk) = Inr ()"
  by code_simp

end
