(* ===== verification/InstallDemo.thy ===== *)
theory InstallDemo
  imports InstallRollback InstallRun
begin

text \<open>
  The properties of the installation transactions at the runs of \<open>InstallRun\<close>.
\<close>

definition demo_update :: update_case where
  "demo_update = \<lparr>uc_Path = install_path, uc_Plan = install_plan, uc_Source = source_wire,
     uc_Old = old_cli, uc_SHA = demo_sha256\<rparr>"

lemma demo_path: "uc_Path demo_update = install_path"
  by (simp add: demo_update_def)

lemma demo_ok: "update_ok demo_update"
  by code_simp

lemma demo_untouched: "untouched demo_update prepared_disk"
  by code_simp

lemma install_calm: "calm_rename demo_update install_env" "honest later_env" "te_SHA256 later_env = uc_SHA demo_update"
  by (simp_all add: calm_rename_def honest_def install_env_def later_env_def demo_update_def)

lemma cut_interrupted: "interrupted demo_update prepared_disk cut_disk"
proof (rule interrupted.activate [OF interrupted.start install_calm(1)])
  show "cut_disk \<in> set (snd (Activate install_env (uc_Path demo_update) install_release install_options prepared_disk))"
    unfolding demo_path cut_disk_def full_run_def [symmetric] by (rule nth_mem) (simp add: full_run)
qed

theorem interrupted_recoverable_witness: "recoverable demo_update cut_disk"
  by (rule interrupted_recoverable [OF demo_ok demo_untouched cut_interrupted])


theorem reconciled_is_decided_witness:
  "untouched demo_update (final cut_disk (snd (ReconcileActivated later_env (uc_Path demo_update) install_options cut_disk)))"
proof -
  let ?run = "ReconcileActivated later_env (uc_Path demo_update) install_options cut_disk"
  have "?run = (Inr False, snd ?run)" using full_run(3) by (cases ?run) (simp add: demo_path)
  from reconciled_is_decided [OF demo_ok demo_untouched cut_interrupted install_calm(2,3) this] show ?thesis by simp
qed


theorem rollback_gap_witness:
  "\<exists>e \<in> set (snd (Rollback rollback_env ''/m'' ''/d'' rollback_disk)). node_at e (path_parts (active_cli ''/m'' ''darwin'')) = None
     \<and> holds_doc e (path_parts (statePath ''/d'')) (StateDoc rollback_wire) \<and> (\<forall>env'. isl (fst (Rollback env' ''/m'' ''/d'' e)))"
proof -
  let ?run = "Rollback rollback_env ''/m'' ''/d'' rollback_disk"
  have "canonical_path ''/m''" "canonical_path ''/d''" "holds_doc rollback_disk (path_parts (statePath ''/d'')) (StateDoc rollback_wire)"
    by code_simp+
  moreover have "sw_SchemaVersion rollback_wire = 2" "sw_TargetOS rollback_wire = ''darwin''"
    by (simp_all add: rollback_wire_def source_wire_def)
  moreover have "?run = (Inr (), snd ?run)" using rollback_run by (cases ?run) simp
  ultimately show ?thesis using rollback_gap [of "''/m''" "''/d''" rollback_disk rollback_wire rollback_env "snd ?run"] by simp
qed

end
