(* ===== verification/Spec2Isabelle.thy ===== *)
theory Spec2Isabelle
  imports ExecGuards OrchProps OrchGuards SchedPlanProps SchedLeaseDemo SchedReceipts ConfDemo UpdateDemo
    InstallDemo
begin

text \<open>
  Maestro is a local runtime for agents, a Go program of one module with many packages under
  \<open>src/internal\<close>. This library models the packages that keep its durable state and its guards, and
  proves what they promise.

  \<^bold>\<open>The parts and how they interact.\<close> Work is recorded in an execution ledger
  (\<open>internal/execution\<close>): an item has a contract with criteria, a history of revisions, observations
  of artifacts, tool calls and signed reviews. Agents act for an owner through the adapter of
  \<open>internal/agentorchestration\<close>, which grants one branch at a time under a fence epoch and traces every
  decision; the roles and scopes it grants are those of \<open>internal/agentcatalog\<close>. Recurring work is
  planned by \<open>internal/scheduler\<close>, which leases every occurrence to one worker and fences it while its
  effect is published. An action that leaves the machine needs a confirmation of the owner
  (\<open>internal/actionconfirmation\<close>). A release is described by a manifest (\<open>internal/releasecontract\<close>); an
  update to it is chosen by \<open>internal/updateservice\<close>, planned by \<open>internal/updateplan\<close> and bound to the
  migration of the agent roles (\<open>internal/rolemigration\<close>). \<open>internal/installtx\<close> stages the verified
  artifacts of a release in a transaction, activates them, and reconciles an activation that was
  interrupted.

  \<^bold>\<open>Shared theories.\<close> \<open>Prelude\<close> has results as sums, guards and list facts, with the collection
  \<open>res_simps\<close> that inverts successful results. \<open>GoStrings\<close>, \<open>GoText\<close>, \<open>GoJson\<close>, \<open>GoTime\<close>, \<open>GoUrl\<close> and
  \<open>GoZone\<close> model what the packages use of Go's standard library on byte strings, JSON, instants, local
  time and URLs. \<open>GoPath\<close> has the components of
  paths and \<open>path/filepath\<close>; \<open>Disk\<close> programs that leave a disk after each of their steps, with the rules
  of \<open>holds\<close> (what is true after every step and at the end) and the collection \<open>footprint\<close> (which
  entries a program touches). \<open>Runs\<close> has runs of step relations and the locales \<open>fenced_slot\<close>, \<open>fenced_holder\<close> and
  \<open>one_shot\<close>.

  \<^bold>\<open>Execution ledger.\<close> \<open>ExecTypes\<close> and \<open>ExecValidate\<close> are the documents and validators of \<open>store.go\<close>,
  \<open>evidence.go\<close>, \<open>toolcall.go\<close> and \<open>yoda_review.go\<close>; \<open>ExecLedger\<close> the item directories, the lock and
  the publication of revisions by hard links (\<open>filesystem_unix.go\<close>); \<open>ExecHistory\<close> and \<open>ExecRead\<close> the
  readers; \<open>ExecOps\<close>, \<open>ExecEvidence\<close> and \<open>ExecReview\<close> the operations, each as a plan on the item it
  read and the commit of that plan. A ledger maps item identifiers to directories; every call of the
  operating system, the clock, identifiers, digests and faults are fields of an environment record.
  \<open>ExecLog\<close> and \<open>ExecMutation\<close> show that publication is an append (locale \<open>no_replace\<close>) and that every
  operation meets the contracts \<open>item_mutation\<close> and \<open>current_mutation\<close>, which \<open>ExecPlans\<close> interprets;
  \<open>ExecSystem\<close> has the step relation and the invariant of all reachable ledgers; \<open>ExecRace\<close> lets
  mutations overlap with no assumption on the lock. \<open>ExecProps\<close> and \<open>ExecGuards\<close> state the properties.

  \<^bold>\<open>Orchestration.\<close> \<open>AgentCatalog\<close>, \<open>OrchResource\<close> (canonical resource names and scopes), \<open>OrchState\<close>
  (snapshot and hash-linked trace), \<open>OrchStore\<close> (persistence and lock file) and \<open>OrchController\<close> (the
  adapter with its events) follow \<open>catalog.go\<close>, \<open>controller.go\<close>, \<open>filelock.go\<close> and
  \<open>file_privacy_unix.go\<close>. \<open>OrchSystem\<close> runs any number of processes on one state file. \<open>OrchInvariant\<close>
  has the invariant of the state, \<open>OrchRefine\<close> the abstract machine with one branch at a time and the
  simulation; \<open>OrchProps\<close> and \<open>OrchGuards\<close> state the properties.

  \<^bold>\<open>Scheduler.\<close> \<open>SchedPlan\<close> is the planner of \<open>scheduler.go\<close> over the local time of \<open>GoZone\<close>. The loop
  that lists missing occurrences is a partial function, since a location may be any table of offsets;
  at a fixed offset it returns, with the distance to now as measure. \<open>SchedDue\<close> has the locale
  \<open>occurrence_stream\<close> between the loop and the schedule and interprets it for the jobs. \<open>SchedFiles\<close>,
  \<open>SchedStore\<close> and \<open>SchedLease\<close> are the private directories, the receipts and the leases
  (\<open>private_path*.go\<close>, \<open>lease*.go\<close>); \<open>SchedFence\<close> reduces every operation to its effect on the two
  files of an occurrence, \<open>SchedRun\<close> interprets the locale of fences for runs of calls by any number of
  processes.

  \<^bold>\<open>Action confirmation.\<close> \<open>ConfAction\<close> is \<open>action.go\<close>: the grammar of simple commands and the rules that
  make a call an external action. \<open>ConfStore\<close> is \<open>store.go\<close>: the challenges in an authenticated file,
  under a lock directory. \<open>ConfFacts\<close> and \<open>ConfRun\<close> say what a transaction does and define runs;
  \<open>ConfProps\<close> interprets \<open>one_shot\<close> (an identity is authorized at most as often as it confirmed) and
  traces every authorization to its challenge; \<open>ConfLife\<close> shows that the calls succeed when nothing
  fails, and interprets \<open>fenced_slot\<close> for a lock that was left behind.

  \<^bold>\<open>Releases and updates.\<close> \<open>Release\<close> is \<open>manifest.go\<close>, \<open>UpdatePlan\<close> the role migration, the plan of an
  update and the check for one. \<open>UpdateFacts\<close> and \<open>UpdateProps\<close> show that the version parsers of the
  packages agree and are canonical, which plans are valid, what a plan across the expiry of the old
  role carries, and that a check offers the newest release.

  \<^bold>\<open>Installation transactions.\<close> \<open>InstallState\<close>, \<open>InstallFiles\<close>, \<open>InstallPlan\<close> and \<open>InstallTx\<close> are
  \<open>transaction.go\<close> and \<open>archive.go\<close>: the documents and trusted roots, the authenticated copies, bundles
  and the lock, the plans, and \<open>Activate\<close>, \<open>ReconcileActivated\<close>, \<open>ValidateReconciliation\<close> and \<open>Rollback\<close>.
  A disk is a list of entries, so a crash is a cut of the list of disks that a call leaves.
  \<open>InstallFacts\<close> and \<open>InstallLayout\<close> have the footprint of every call and where an update keeps its
  files, \<open>InstallRead\<close> what the readers return. \<open>InstallCrash\<close> tells the four phases of an update apart;
  \<open>InstallActivate\<close>, \<open>InstallSteps\<close>, \<open>InstallSwitch\<close> and \<open>InstallCommit\<close> follow \<open>Activate\<close> through them
  from every disk an interruption can leave, \<open>InstallReconcile\<close> follows the reconciliation, and
  \<open>InstallProps\<close> closes both under any number of runs that are cut off. \<open>InstallRollback\<close> takes a run of
  \<open>Rollback\<close> apart; \<open>InstallRun\<close> and \<open>InstallDemo\<close> are a whole update, cut off and reconciled. One refusal is excluded: that
  the backup cannot be renamed back, which \<open>Activate\<close> does not survive.

  \<^bold>\<open>Bounds and fuel.\<close> Machine integers are \<open>64 word\<close> where they wrap (versions, epochs) or integers with
  \<open>wrap64\<close>; revisions stop at the largest int64. Cleaning of spaces (\<open>strip_all\<close>) runs with the length of
  the text as fuel, each round removes at least one byte.

  \<^bold>\<open>Not modelled.\<close> The variants for Windows; the temporary file beside an atomic write, file modes
  and the test hooks of an activation; decoding of JSON bytes into documents beyond what a document
  decodes to; checks of files against published schemas; network, processes and platform services,
  which are parameters; and the packages that are listed as not modelled in the manifest, most of which
  read and write files of the host around the core that is modelled here, or are glue and generators.
\<close>

end
